(* ===== verification/PyText.thy ===== *)
theory PyText
  imports Main "HOL-Library.Sublist"
begin

text \<open>
  The methods of Python's \<open>str\<close> and the function \<open>shlex.split\<close> that \<open>evidence/verify_tree.py\<close> uses, on texts of the
  first 256 characters. \<open>shlex.split\<close> is the state machine of the standard library with \<open>comments=False\<close> and
  \<open>posix=True\<close>: the state between characters, the flag \<open>quoted\<close> and the token so far.
\<close>

section \<open>Methods of strings\<close>

definition str_space :: "char \<Rightarrow> bool" where
  "str_space c \<longleftrightarrow> c \<in> {CHR 0x09, CHR 0x0A, CHR 0x0B, CHR 0x0C, CHR 0x0D, CHR 0x1C, CHR 0x1D, CHR 0x1E, CHR 0x1F,
     CHR '' '', CHR 0x85, CHR 0xA0}"

definition str_lstrip :: "string \<Rightarrow> string" where
  "str_lstrip s = dropWhile str_space s"

definition str_strip :: "string \<Rightarrow> string" where
  "str_strip s = rev (dropWhile str_space (rev (str_lstrip s)))"

text \<open>\<open>s.split()\<close>: the words between runs of white space.\<close>

fun split_words :: "string \<Rightarrow> string \<Rightarrow> string list" where
  "split_words cur [] = (if cur = [] then [] else [cur])"
| "split_words cur (c # cs) =
     (if str_space c then (if cur = [] then split_words [] cs else cur # split_words [] cs)
      else split_words (cur @ [c]) cs)"

definition str_split :: "string \<Rightarrow> string list" where
  "str_split s = split_words [] s"

text \<open>\<open>s.split(d)\<close> for one character: never empty.\<close>

fun str_split_on :: "char \<Rightarrow> string \<Rightarrow> string list" where
  "str_split_on d [] = [[]]"
| "str_split_on d (c # cs) =
     (if c = d then [] # str_split_on d cs
      else (case str_split_on d cs of [] \<Rightarrow> [[c]] | x # xs \<Rightarrow> (c # x) # xs))"

definition line_break :: "char \<Rightarrow> bool" where
  "line_break c \<longleftrightarrow> c \<in> {CHR 0x0A, CHR 0x0B, CHR 0x0C, CHR 0x0D, CHR 0x1C, CHR 0x1D, CHR 0x1E, CHR 0x85}"

fun lines_from :: "string \<Rightarrow> string \<Rightarrow> string list" where
  "lines_from cur [] = (if cur = [] then [] else [cur])"
| "lines_from cur (c # cs) =
     (if c = CHR 0x0D then cur # (case cs of [] \<Rightarrow> [] | d # ds \<Rightarrow> lines_from [] (if d = CHR 0x0A then ds else cs))
      else if line_break c then cur # lines_from [] cs
      else lines_from (cur @ [c]) cs)"

definition str_splitlines :: "string \<Rightarrow> string list" where
  "str_splitlines s = lines_from [] s"

text \<open>\<open>t in s\<close>.\<close>

definition str_in :: "string \<Rightarrow> string \<Rightarrow> bool" where
  "str_in t s \<longleftrightarrow> sublist t s"

text \<open>\<open>s.find(t)\<close>.\<close>

fun str_find :: "string \<Rightarrow> string \<Rightarrow> int" where
  "str_find t [] = (if t = [] then 0 else -1)"
| "str_find t (c # cs) =
     (if prefix t (c # cs) then 0 else (let k = str_find t cs in if k < 0 then -1 else k + 1))"

section \<open>shlex.split\<close>

datatype shlex_error = No_closing_quotation | No_escaped_character

datatype shlex_state = S_space | S_word | S_quote char | S_escape "char option"

text \<open>\<open>S_escape\<close> keeps the state to return to: within double quotes, or in a word.\<close>

definition shlex_whitespace :: "char \<Rightarrow> bool" where
  "shlex_whitespace c \<longleftrightarrow> c \<in> {CHR '' '', CHR 0x09, CHR 0x0D, CHR 0x0A}"

definition shlex_quote :: "char \<Rightarrow> bool" where
  "shlex_quote c \<longleftrightarrow> c = CHR 0x27 \<or> c = CHR 0x22"

definition emit :: "string \<Rightarrow> shlex_error + string list \<Rightarrow> shlex_error + string list" where
  "emit tok r = (case r of Inl e \<Rightarrow> Inl e | Inr toks \<Rightarrow> Inr (tok # toks))"

fun shlex_run :: "shlex_state \<Rightarrow> bool \<Rightarrow> string \<Rightarrow> string \<Rightarrow> shlex_error + string list" where
  "shlex_run S_space quoted tok [] = Inr []"
| "shlex_run S_space quoted tok (c # cs) =
     (if shlex_whitespace c then (if tok \<noteq> [] \<or> quoted then emit tok (shlex_run S_space False [] cs) else shlex_run S_space quoted tok cs)
      else if c = CHR 0x5C then shlex_run (S_escape None) quoted tok cs
      else if shlex_quote c then shlex_run (S_quote c) quoted tok cs
      else shlex_run S_word quoted [c] cs)"
| "shlex_run (S_quote q) quoted tok [] = Inl No_closing_quotation"
| "shlex_run (S_quote q) quoted tok (c # cs) =
     (if c = q then shlex_run S_word True tok cs
      else if c = CHR 0x5C \<and> q = CHR 0x22 then shlex_run (S_escape (Some q)) True tok cs
      else shlex_run (S_quote q) True (tok @ [c]) cs)"
| "shlex_run (S_escape st) quoted tok [] = Inl No_escaped_character"
| "shlex_run (S_escape st) quoted tok (c # cs) =
     (case st of
        None \<Rightarrow> shlex_run S_word quoted (tok @ [c]) cs
      | Some q \<Rightarrow> shlex_run (S_quote q) quoted (tok @ (if c \<noteq> CHR 0x5C \<and> c \<noteq> q then [CHR 0x5C] else []) @ [c]) cs)"
| "shlex_run S_word quoted tok [] = Inr (if tok = [] \<and> \<not> quoted then [] else [tok])"
| "shlex_run S_word quoted tok (c # cs) =
     (if shlex_whitespace c then (if tok \<noteq> [] \<or> quoted then emit tok (shlex_run S_space False [] cs) else shlex_run S_space quoted tok cs)
      else if shlex_quote c then shlex_run (S_quote c) quoted tok cs
      else if c = CHR 0x5C then shlex_run (S_escape None) quoted tok cs
      else shlex_run S_word quoted (tok @ [c]) cs)"

definition shlex_split :: "string \<Rightarrow> shlex_error + string list" where
  "shlex_split s = shlex_run S_space False [] s"

section \<open>Lemmas\<close>

lemma str_split_on_not_Nil [simp]: "str_split_on d s \<noteq> []"
  by (induction s) (auto split: list.splits)

text \<open>Characters that mean nothing to \<open>shlex\<close>, and about which the two notions of white space agree.\<close>

definition shlex_plain :: "char \<Rightarrow> bool" where
  "shlex_plain c \<longleftrightarrow> \<not> shlex_quote c \<and> c \<noteq> CHR 0x5C \<and> (str_space c \<longrightarrow> shlex_whitespace c)"

lemma shlex_whitespace_space: "shlex_whitespace c \<Longrightarrow> str_space c"
  by (auto simp: shlex_whitespace_def str_space_def)

lemma shlex_run_plain:
  "list_all shlex_plain s \<Longrightarrow> shlex_run S_space False [] s = Inr (split_words [] s) \<and>
     (tok \<noteq> [] \<longrightarrow> shlex_run S_word False tok s = Inr (split_words tok s))"
proof (induction s arbitrary: tok)
  case (Cons c cs)
  then have c: "\<not> shlex_quote c" "c \<noteq> CHR 0x5C" "str_space c \<longleftrightarrow> shlex_whitespace c"
    using shlex_whitespace_space by (auto simp: shlex_plain_def)
  have IH: "shlex_run S_space False [] cs = Inr (split_words [] cs)"
      "tok' \<noteq> [] \<Longrightarrow> shlex_run S_word False tok' cs = Inr (split_words tok' cs)" for tok'
    using Cons by auto
  show ?case using c by (auto simp: IH emit_def)
qed simp

text \<open>On a line without quotes and backslashes \<open>shlex.split\<close> is \<open>str.split\<close>.\<close>

theorem shlex_plain_split: "list_all shlex_plain s \<Longrightarrow> shlex_split s = Inr (str_split s)"
  using shlex_run_plain [of s] by (simp add: shlex_split_def str_split_def)

lemma shlex_plain_split_witness: "shlex_split ''vendor /vendor erofs ro'' = Inr [''vendor'', ''/vendor'', ''erofs'', ''ro'']"
  using shlex_plain_split [of "''vendor /vendor erofs ro''"]
  by (simp add: shlex_plain_def shlex_quote_def str_space_def shlex_whitespace_def str_split_def)

lemma shlex_run_not_Nil:
  "st \<noteq> S_space \<Longrightarrow> (st = S_word \<Longrightarrow> tok \<noteq> [] \<or> quoted) \<Longrightarrow> shlex_run st quoted tok s \<noteq> Inr []"
proof (induction st quoted tok s rule: shlex_run.induct)
qed (auto simp: emit_def split: sum.splits if_splits option.splits)

lemma shlex_space_not_Nil:
  "\<not> list_all str_space s \<Longrightarrow> shlex_run S_space False [] s \<noteq> Inr []"
proof (induction s)
  case (Cons c cs)
  then show ?case using shlex_run_not_Nil shlex_whitespace_space [of c] by auto
qed simp

lemma str_strip_Nil: "str_strip s = [] \<longleftrightarrow> list_all str_space s"
proof -
  have "str_strip s = [] \<longleftrightarrow> str_lstrip s = []"
  proof (cases "str_lstrip s")
    case (Cons c cs)
    then have "\<not> str_space c" by (auto simp: str_lstrip_def dropWhile_eq_Cons_conv)
    with Cons show ?thesis by (simp add: str_strip_def dropWhile_append)
  qed (simp add: str_strip_def)
  then show ?thesis by (simp add: str_lstrip_def dropWhile_eq_Nil_conv list_all_iff)
qed

text \<open>A line that is not blank has at least one field, so that \<open>row[0]\<close> never fails.\<close>

lemma shlex_split_not_Nil: "str_strip s \<noteq> [] \<Longrightarrow> shlex_split s \<noteq> Inr []"
  using shlex_space_not_Nil [of s] by (simp add: str_strip_Nil shlex_split_def)

end
