(* ===== verification/VerifyTree.thy ===== *)
theory VerifyTree
  imports PyText "HOL-Library.Char_ord" "HOL-Library.List_Lexorder"
begin

text \<open>
  \<open>evidence/verify_tree.py\<close>: the static checks of the device tree. The tree is the list of its files, path and decoded
  text, in the order \<open>rglob\<close> finds them; paths are POSIX paths below the root. Decoding is the parameter of the
  function that reads a text, \<open>sha\<close> is \<open>sha256\<close>, \<open>loads\<close> gives the artifacts of the JSON manifest, and \<open>outside\<close> what
  stands at a path that leads out of the tree. A check is its name and whether it passed; the detail texts and the printed
  report are left out. Exceptions end the run (\<open>Inl\<close>).
\<close>

section \<open>The tree\<close>

datatype verify_error = File_not_found string | Index_error | Value_error shlex_error | Decode_error | Unpack_error

type_synonym files = "(string \<times> string) list"
type_synonym 'a run = "verify_error + 'a"

definition run_bind :: "'a run \<Rightarrow> ('a \<Rightarrow> 'b run) \<Rightarrow> 'b run" where
  "run_bind r f = (case r of Inl e \<Rightarrow> Inl e | Inr x \<Rightarrow> f x)"

fun run_map :: "('a \<Rightarrow> 'b run) \<Rightarrow> 'a list \<Rightarrow> 'b list run" where
  "run_map f [] = Inr []"
| "run_map f (x # xs) = run_bind (f x) (\<lambda>y. run_bind (run_map f xs) (\<lambda>ys. Inr (y # ys)))"

type_synonym check = "string \<times> bool"

text \<open>\<open>ROOT / p\<close>: a relative path without \<open>..\<close> stays in the tree; empty and \<open>.\<close> components vanish.\<close>

fun join_path :: "string list \<Rightarrow> string" where
  "join_path [] = []"
| "join_path [x] = x"
| "join_path (x # y # ys) = x @ ''/'' @ join_path (y # ys)"

definition path_parts :: "string \<Rightarrow> string list" where
  "path_parts p = filter (\<lambda>x. x \<noteq> [] \<and> x \<noteq> ''.'') (str_split_on CHR ''/'' p)"

record verify_env =
  env_files :: files
  env_outside :: "string \<Rightarrow> string option"
  env_decode :: "string \<Rightarrow> string option"
  env_sha :: "string \<Rightarrow> string"
  env_themes :: "string \<Rightarrow> string option"
  env_loads :: "string \<Rightarrow> (string \<times> nat \<times> string) list run"

definition file_at :: "verify_env \<Rightarrow> string \<Rightarrow> string option" where
  "file_at V p =
     (if prefix ''/'' p \<or> ''..'' \<in> set (path_parts p) then env_outside V p
      else map_of (env_files V) (join_path (path_parts p)))"

definition read_file :: "verify_env \<Rightarrow> string \<Rightarrow> string run" where
  "read_file V p = (case file_at V p of
       None \<Rightarrow> Inl (File_not_found p)
     | Some c \<Rightarrow> (case env_decode V c of None \<Rightarrow> Inl Decode_error | Some s \<Rightarrow> Inr s))"

section \<open>Artifacts and prebuilts\<close>

definition artifact_checks :: "verify_env \<Rightarrow> string \<times> nat \<times> string \<Rightarrow> check list" where
  "artifact_checks V a = (case a of (dest, n, digest) \<Rightarrow>
     (case file_at V dest of
        None \<Rightarrow> [(''exists:'' @ dest, False)]
      | Some c \<Rightarrow> [(''exists:'' @ dest, True), (''size:'' @ dest, length c = n), (''sha256:'' @ dest, env_sha V c = digest)]))"

definition prebuilt_prefix :: string where
  "prebuilt_prefix = ''prebuilt/a15-aidl/''"

text \<open>The loop over the lines: the failed checks and the dictionary, in which a later line replaces an earlier one. The
  names of the failed checks carry the line number.\<close>

fun manifest_loop :: "nat \<Rightarrow> string list \<Rightarrow> (string \<rightharpoonup> string) \<Rightarrow> nat list \<times> (string \<rightharpoonup> string)" where
  "manifest_loop n [] expected = ([], expected)"
| "manifest_loop n (line # lines) expected =
     (case str_split line of
        [digest, relative_path] \<Rightarrow>
          if length digest \<noteq> 64 then map_prod ((#) n) id (manifest_loop (Suc n) lines expected)
          else if \<not> prefix prebuilt_prefix relative_path then map_prod ((#) n) id (manifest_loop (Suc n) lines expected)
          else manifest_loop (Suc n) lines (expected(relative_path \<mapsto> digest))
      | _ \<Rightarrow> map_prod ((#) n) id (manifest_loop (Suc n) lines expected))"

text \<open>The paths of the manifest, each once.\<close>

fun manifest_paths :: "string list \<Rightarrow> string list" where
  "manifest_paths [] = []"
| "manifest_paths (line # lines) =
     (case str_split line of
        [digest, relative_path] \<Rightarrow>
          if length digest = 64 \<and> prefix prebuilt_prefix relative_path then List.insert relative_path (manifest_paths lines)
          else manifest_paths lines
      | _ \<Rightarrow> manifest_paths lines)"

definition actual_prebuilts :: "verify_env \<Rightarrow> string list" where
  "actual_prebuilts V = filter (prefix prebuilt_prefix) (map fst (env_files V))"

definition digest_checks :: "verify_env \<Rightarrow> (string \<rightharpoonup> string) \<Rightarrow> string list \<Rightarrow> check list" where
  "digest_checks V expected paths =
     List.map_filter (\<lambda>p. case file_at V p of
         None \<Rightarrow> None
       | Some c \<Rightarrow> Some (''prebuilt-sha256:'' @ p, Some (env_sha V c) = expected p)) paths"

definition prebuilt_checks :: "verify_env \<Rightarrow> string \<Rightarrow> check list" where
  "prebuilt_checks V text =
     (let lines = str_splitlines text; (bad, expected) = manifest_loop 1 lines Map.empty; paths = manifest_paths lines
      in map (\<lambda>n. (''prebuilt-manifest'', False)) bad
         @ [(''prebuilt-manifest:complete'', set (actual_prebuilts V) = set paths)]
         @ digest_checks V expected (sort paths))"

section \<open>Board configuration and scripts\<close>

definition quoted :: "string \<Rightarrow> string" where
  "quoted s = CHR 0x22 # s @ [CHR 0x22]"

definition extract_checks :: "string \<Rightarrow> check list" where
  "extract_checks extract_script =
     [(''extract:stock-fstab-is-evidence-only'',
       str_in (quoted ''$DEVICE_ROOT/evidence/stock-recovery.fstab'') extract_script \<and>
       \<not> str_in (quoted ''$DEVICE_ROOT/recovery.fstab'') extract_script)]"

definition board_required :: "string list" where
  "board_required = [
     ''BOARD_BOOT_HEADER_VERSION := 4'',
     ''BOARD_KERNEL_PAGESIZE := 4096'',
     ''BOARD_KERNEL_BASE := 0x00000000'',
     ''BOARD_KERNEL_CMDLINE := bootopt=64S3,32N2,64N2'',
     ''BOARD_MOVE_RECOVERY_RESOURCES_TO_VENDOR_BOOT := true'',
     ''BOARD_INCLUDE_RECOVERY_RAMDISK_IN_VENDOR_BOOT := true'',
     ''BOARD_VENDOR_BOOTIMAGE_PARTITION_SIZE := 67108864'',
     ''BOARD_RAMDISK_USE_LZ4 := true'',
     ''TW_INCLUDE_CRYPTO := true'',
     ''TW_NO_REBOOT_FASTBOOT := true'',
     ''RECOVERY_SDCARD_ON_DATA := true'',
     ''TW_INTERNAL_STORAGE_MOUNT_POINT := '' @ quoted ''/data/media/0'',
     ''ALLOW_MISSING_DEPENDENCIES := true'']"

definition board_forbidden :: "string list" where
  "board_forbidden = [
     ''BOARD_RECOVERYIMAGE_PARTITION_SIZE :='',
     ''BOARD_USES_RECOVERY_AS_BOOT := true'',
     ''BOARD_SUPER_PARTITION_SIZE :='',
     ''TW_EXCLUDE_MTP := true'',
     ''TW_EXTRA_LANGUAGES := true'',
     ''DASH_TWRP16_BOOTSTRAP_NO_CRYPTO'']"

definition board_checks :: "string \<Rightarrow> check list" where
  "board_checks board =
     map (\<lambda>token. (''board-required:'' @ token, list_ex (\<lambda>line. str_strip line = token) (str_splitlines board))) board_required
     @ map (\<lambda>token. (''board-forbidden:'' @ token, \<not> str_in token board)) board_forbidden"

section \<open>The fstab\<close>

type_synonym row = "string list"

definition content_line :: "string \<Rightarrow> bool" where
  "content_line line \<longleftrightarrow> str_strip line \<noteq> [] \<and> \<not> prefix ''#'' (str_lstrip line)"

definition content_lines :: "string \<Rightarrow> string list" where
  "content_lines text = filter content_line (str_splitlines text)"

definition shlex_row :: "string \<Rightarrow> row run" where
  "shlex_row line = (case shlex_split line of Inl e \<Rightarrow> Inl (Value_error e) | Inr toks \<Rightarrow> Inr toks)"

definition fstab_rows :: "string \<Rightarrow> row list run" where
  "fstab_rows text = run_map shlex_row (content_lines text)"

definition row_at :: "row \<Rightarrow> nat \<Rightarrow> string run" where
  "row_at row i = (if i < length row then Inr (row ! i) else Inl Index_error)"

definition logical_names :: "string list" where
  "logical_names = sort [''system'', ''system_ext'', ''vendor'', ''product'', ''odm'', ''vendor_dlkm'',
     ''odm_dlkm'', ''system_dlkm'', ''mi_ext'']"

text \<open>\<open>all(row[3] == "ro" and row[4] == ... for row in matching)\<close>: short-circuit, so that a row is not read after
  the first that differs.\<close>

fun flags_ok :: "row list \<Rightarrow> bool run" where
  "flags_ok [] = Inr True"
| "flags_ok (r # rs) =
     run_bind (row_at r 3) (\<lambda>f3. if f3 \<noteq> ''ro'' then Inr False
       else run_bind (row_at r 4) (\<lambda>f4. if f4 \<noteq> ''wait,slotselect,logical'' then Inr False else flags_ok rs))"

definition logical_check :: "row list \<Rightarrow> string \<Rightarrow> check run" where
  "logical_check rows name =
     (let matching = filter (\<lambda>r. r ! 0 = name) rows;
          filesystems = map (\<lambda>r. r ! 2) (filter (\<lambda>r. length r = 5) matching)
      in run_bind (flags_ok matching) (\<lambda>flags.
           Inr (''fstab:logical:'' @ name,
             length matching = 2 \<and> set filesystems = {''erofs'', ''ext4''} \<and> flags)))"

text \<open>The single row of a mount point: device, file system, and flags that must be among those of its fifth field.\<close>

definition split_flags :: "row list \<Rightarrow> string list" where
  "split_flags rows = (case rows of [r] \<Rightarrow> if length r = 5 then str_split_on CHR '','' (r ! 4) else [] | _ \<Rightarrow> [])"

definition mount_rows :: "row list \<Rightarrow> string \<Rightarrow> row list" where
  "mount_rows rows mount = filter (\<lambda>r. length r > 1 \<and> r ! 1 = mount) rows"

definition mount_check :: "row list \<Rightarrow> string \<Rightarrow> string \<Rightarrow> string \<Rightarrow> string list \<Rightarrow> string \<Rightarrow> check run" where
  "mount_check rows mount device filesystem required name =
     (case mount_rows rows mount of
        [r] \<Rightarrow> if r ! 0 \<noteq> device then Inr (name, False)
          else run_bind (row_at r 2) (\<lambda>fs. Inr (name, fs = filesystem \<and> set required \<subseteq> set (split_flags [r])))
      | _ \<Rightarrow> Inr (name, False))"

definition required_userdata_flags :: "string list" where
  "required_userdata_flags = [
     ''fileencryption=aes-256-xts:aes-256-cts:v2+inlinecrypt_optimized'',
     ''keydirectory=/metadata/vold/metadata_encryption'',
     ''storage'', ''settingsstorage'', ''userdataencryptbackup'']"

definition required_cache_flags :: "string list" where
  "required_cache_flags = [''wait'', ''check'', ''formattable'', ''wipeduringfactoryreset=0'', ''display=Cache (Rescue)'']"

definition usb_check :: "row list \<Rightarrow> check run" where
  "usb_check rows =
     (case filter (\<lambda>r. prefix ''/devices/'' (r ! 0)) rows of
        [r] \<Rightarrow> if r ! 0 \<noteq> ''/devices/platform/soc/16701000.usb0/16700000.xhci*'' then Inr (''fstab:single-usb-otg'', False)
          else run_bind (row_at r 4) (\<lambda>f. Inr (''fstab:single-usb-otg'', ''storagename=USB-OTG'' \<in> set (str_split_on CHR '','' f)))
      | _ \<Rightarrow> Inr (''fstab:single-usb-otg'', False))"

definition by_name_prefix :: string where
  "by_name_prefix = ''/dev/block/by-name/''"

definition allowed_by_name :: "string list" where
  "allowed_by_name = [''metadata'', ''userdata'', ''rescue'', ''misc'', ''boot'', ''init_boot'',
     ''vendor_boot'', ''dtbo'', ''vbmeta'', ''vbmeta_system'', ''vbmeta_vendor'']"

definition by_name_check :: "row list \<Rightarrow> check" where
  "by_name_check rows = (''fstab:by-name-allowlist'',
     set (map (\<lambda>r. last (str_split_on CHR ''/'' (r ! 0))) (filter (\<lambda>r. prefix by_name_prefix (r ! 0)) rows)) = set allowed_by_name)"

definition slot_check :: "row list \<Rightarrow> string \<Rightarrow> check" where
  "slot_check rows name = (''fstab:slotselect:'' @ name,
     (case filter (\<lambda>r. length r = 5 \<and> r ! 1 = ''/'' @ name) rows of
        [r] \<Rightarrow> r ! 0 = by_name_prefix @ name \<and> r ! 4 = ''slotselect''
      | _ \<Rightarrow> False))"

definition logical_devices :: "row list \<Rightarrow> string list" where
  "logical_devices rows = map (\<lambda>r. r ! 0)
     (filter (\<lambda>r. length r = 5 \<and> ''logical'' \<in> set (str_split_on CHR '','' (r ! 4))) rows)"

definition stock_check :: "row list \<Rightarrow> string \<Rightarrow> check" where
  "stock_check rows stock = (''fstab:logical-set-matches-stock'',
     set (logical_devices rows) = set (logical_devices (map str_split (content_lines stock))))"

definition forbidden_fstab :: "string list" where
  "forbidden_fstab = ['' avb'', ''overlay '', ''by-name/lk'']"

text \<open>The stock file is read after the checks on the rows.\<close>

definition fstab_checks :: "string \<Rightarrow> string run \<Rightarrow> check list run" where
  "fstab_checks fstab stock_file =
     run_bind (fstab_rows fstab) (\<lambda>rows.
     run_bind (run_map (logical_check rows) logical_names) (\<lambda>logical.
     run_bind (mount_check rows ''/metadata'' (by_name_prefix @ ''metadata'') ''f2fs'' [] ''fstab:metadata'') (\<lambda>metadata.
     run_bind (mount_check rows ''/data'' (by_name_prefix @ ''userdata'') ''f2fs'' required_userdata_flags ''fstab:userdata'') (\<lambda>userdata.
     run_bind (mount_check rows ''/cache'' (by_name_prefix @ ''rescue'') ''ext4'' required_cache_flags ''fstab:cache-rescue'') (\<lambda>cache.
     run_bind (usb_check rows) (\<lambda>usb.
     run_bind stock_file (\<lambda>stock.
       Inr (logical @ [metadata, userdata, cache, usb, by_name_check rows]
         @ map (slot_check rows) [''vbmeta'', ''vbmeta_system'', ''vbmeta_vendor'']
         @ [stock_check rows stock]
         @ map (\<lambda>token. (''fstab:forbidden:'' @ token, \<not> str_in token fstab)) forbidden_fstab))))))))"

section \<open>Init scripts and themes\<close>

definition project_required :: "string list" where
  "project_required = [
     ''setprop sys.usb.config adb'',
     ''service dash-touch-bridge /system/bin/touch_report_debug'',
     ''setenv LD_LIBRARY_PATH /odm/lib64:/system/lib64'',
     ''insmod /lib/modules/xiaomi_touch_dash.ko'',
     ''insmod /lib/modules/nt38771_touch_dash.ko'',
     ''wait /dev/xiaomi-touch 10'',
     ''start dash-touch-bridge'']"

definition rc_checks :: "string \<Rightarrow> string \<Rightarrow> check list" where
  "rc_checks usb_rc project_rc =
     [(''usb:configfs'', str_in ''setprop sys.usb.configfs 1'' usb_rc),
      (''usb:controller'', str_in ''16701000.usb0'' usb_rc),
      (''storage:direct-path'', str_in ''export EXTERNAL_STORAGE /data/media/0'' project_rc \<and> str_in ''rmdir /sdcard'' project_rc)]"

definition theme_check :: "verify_env \<Rightarrow> string \<Rightarrow> check run" where
  "theme_check V theme_name = (case env_themes V theme_name of
       None \<Rightarrow> Inl (File_not_found theme_name)
     | Some c \<Rightarrow> (case env_decode V c of
         None \<Rightarrow> Inl Decode_error
       | Some theme_text \<Rightarrow> Inr (''theme:'' @ theme_name @ '':direct-storage-defaults'',
           \<not> str_in (''default='' @ quoted ''/sdcard'') theme_text \<and> \<not> str_in ''tw_zip_location=/sdcard'' theme_text \<and>
           \<not> str_in ''tw_filecheck=/sdcard'' theme_text)))"

definition project_checks :: "string \<Rightarrow> string \<Rightarrow> check list" where
  "project_checks usb_rc project_rc =
     (''project-init:imported'', str_in ''import /init.recovery.project.rc'' usb_rc)
     # map (\<lambda>token. (''project-init:required:'' @ token, str_in token project_rc)) project_required
     @ [(''project-init:bridge-is-retryable'',
          \<not> str_in ''    oneshot\<newline>'' project_rc \<and> str_in ''on boot\<newline>    wait /dev/xiaomi-touch 10'' project_rc),
        (''project-init:touch-module-order'',
          0 \<le> str_find ''insmod /lib/modules/xiaomi_touch_dash.ko'' project_rc \<and>
          str_find ''insmod /lib/modules/xiaomi_touch_dash.ko'' project_rc < str_find ''insmod /lib/modules/nt38771_touch_dash.ko'' project_rc)]"

definition build_checks :: "string \<Rightarrow> string \<Rightarrow> check list" where
  "build_checks android_mk device_mk =
     [(''project-init:built'', str_in ''LOCAL_MODULE := init.recovery.project.rc'' android_mk \<and>
         str_in ''LOCAL_SRC_FILES := rootdir/init.recovery.project.rc'' android_mk),
      (''project-init:packaged'', str_in ''init.recovery.project.rc'' device_mk)]"

section \<open>The run\<close>

definition manifest_file :: string where
  "manifest_file = ''evidence/a15-prebuilts.sha256''"

definition verify_tree :: "verify_env \<Rightarrow> check list run" where
  "verify_tree V =
     run_bind (read_file V ''evidence/artifacts.json'') (\<lambda>json.
     run_bind (env_loads V json) (\<lambda>artifacts.
     run_bind (read_file V manifest_file) (\<lambda>hashes.
     run_bind (read_file V ''extract-files.sh'') (\<lambda>extract_script.
     run_bind (read_file V ''BoardConfig.mk'') (\<lambda>board.
     run_bind (read_file V ''recovery.fstab'') (\<lambda>fstab.
     run_bind (fstab_checks fstab (read_file V ''evidence/stock-recovery.fstab'')) (\<lambda>fstab_results.
     run_bind (read_file V ''rootdir/init.recovery.mt6991.rc'') (\<lambda>usb_rc.
     run_bind (read_file V ''rootdir/init.recovery.project.rc'') (\<lambda>project_rc.
     run_bind (run_map (theme_check V) [''portrait.xml'', ''landscape.xml'', ''watch.xml'']) (\<lambda>themes.
     run_bind (read_file V ''Android.mk'') (\<lambda>android_mk.
     run_bind (read_file V ''device.mk'') (\<lambda>device_mk.
       Inr (concat (map (artifact_checks V) artifacts) @ prebuilt_checks V hashes @ extract_checks extract_script
         @ board_checks board @ fstab_results @ rc_checks usb_rc project_rc @ themes
         @ project_checks usb_rc project_rc @ build_checks android_mk device_mk)))))))))))))"

text \<open>The exit status.\<close>

definition verify_status :: "check list \<Rightarrow> int" where
  "verify_status checks = (if list_all snd checks then 0 else 1)"

section \<open>Runs\<close>

lemma run_bind_Inr [simp]: "run_bind r f = Inr y \<longleftrightarrow> (\<exists>x. r = Inr x \<and> f x = Inr y)"
  by (simp add: run_bind_def split: sum.splits)

lemma run_bind_simps [simp]: "run_bind (Inr x) f = f x" "run_bind (Inl e) f = Inl e"
  by (simp_all add: run_bind_def)

lemma run_map_Inr: "run_map f xs = Inr ys \<longleftrightarrow> list_all2 (\<lambda>x y. f x = Inr y) xs ys"
  by (induction xs arbitrary: ys) (auto simp: list_all2_Cons1)

lemma run_map_mem: "run_map f xs = Inr ys \<Longrightarrow> x \<in> set xs \<Longrightarrow> \<exists>y \<in> set ys. f x = Inr y"
  by (induction xs arbitrary: ys) auto

lemma run_map_Inl:
  "\<forall>x \<in> set xs. f x = Inl e \<or> (\<exists>y. f x = Inr y) \<Longrightarrow> \<exists>x \<in> set xs. f x = Inl e \<Longrightarrow> run_map f xs = Inl e"
proof (induction xs)
  case (Cons a xs)
  show ?case
  proof (cases "f a = Inl e")
    case False
    with Cons.prems obtain y where "f a = Inr y" by auto
    with Cons False have "run_map f xs = Inl e" by (metis list.set_intros(2) set_ConsD)
    with \<open>f a = Inr y\<close> show ?thesis by simp
  qed simp
qed simp

section \<open>The manifest of the prebuilt tree\<close>

definition manifest_line :: "string \<Rightarrow> string \<Rightarrow> string \<Rightarrow> bool" where
  "manifest_line line digest p \<longleftrightarrow> str_split line = [digest, p] \<and> length digest = 64 \<and> prefix prebuilt_prefix p"

lemma manifest_loop_step:
  "manifest_loop n (line # lines) expected =
     (if \<exists>d p. manifest_line line d p
      then manifest_loop (Suc n) lines (expected(str_split line ! 1 \<mapsto> str_split line ! 0))
      else map_prod ((#) n) id (manifest_loop (Suc n) lines expected))"
  by (auto simp: manifest_line_def split: list.splits)

lemma manifest_paths_step:
  "manifest_paths (line # lines) =
     (if \<exists>d p. manifest_line line d p then List.insert (str_split line ! 1) (manifest_paths lines) else manifest_paths lines)"
  by (auto simp: manifest_line_def split: list.splits)

declare manifest_loop.simps(2) [simp del] manifest_paths.simps(2) [simp del]

lemma manifest_loop_ok:
  "manifest_loop n lines expected = ([], expected') \<Longrightarrow> \<forall>line \<in> set lines. \<exists>d p. manifest_line line d p"
  by (induction lines arbitrary: n expected) (auto simp: manifest_loop_step map_prod_def split: if_splits prod.splits)

lemma manifest_loop_lookup:
  "manifest_loop n lines expected = (bad, expected') \<Longrightarrow> expected' p = Some d \<Longrightarrow>
   expected p = Some d \<or> (\<exists>line \<in> set lines. manifest_line line d p)"
proof (induction lines arbitrary: n expected bad)
  case (Cons line lines)
  show ?case
  proof (cases "\<exists>d p. manifest_line line d p")
    case True
    then have m: "manifest_line line (str_split line ! 0) (str_split line ! 1)" by (auto simp: manifest_line_def)
    from True Cons.prems(1) have "manifest_loop (Suc n) lines (expected(str_split line ! 1 \<mapsto> str_split line ! 0)) = (bad, expected')"
      by (simp add: manifest_loop_step)
    from Cons.IH [OF this Cons.prems(2)] m show ?thesis by (auto split: if_splits)
  next
    case False
    with Cons.prems(1) obtain bad' where "manifest_loop (Suc n) lines expected = (bad', expected')"
      by (auto simp: manifest_loop_step map_prod_def split: prod.splits)
    from Cons.IH [OF this Cons.prems(2)] show ?thesis by auto
  qed
qed simp

lemma manifest_paths_lines: "p \<in> set (manifest_paths lines) \<longleftrightarrow> (\<exists>line \<in> set lines. \<exists>d. manifest_line line d p)"
  by (induction lines) (auto simp: manifest_paths_step manifest_line_def)

lemma digest_checks_ok:
  assumes "list_all snd (digest_checks V expected paths)" "p \<in> set paths" "file_at V p = Some c"
  shows "expected p = Some (env_sha V c)"
  using assms by (induction paths) (auto simp: digest_checks_def List.map_filter_def split: option.splits)

lemma prebuilt_checks_ok:
  assumes "list_all snd (prebuilt_checks V text)"
  shows "\<forall>line \<in> set (str_splitlines text). \<exists>d p. manifest_line line d p"
    and "set (actual_prebuilts V) = {p. \<exists>line \<in> set (str_splitlines text). \<exists>d. manifest_line line d p}"
    and "p \<in> set (actual_prebuilts V) \<Longrightarrow> file_at V p = Some c \<Longrightarrow>
      \<exists>line \<in> set (str_splitlines text). manifest_line line (env_sha V c) p"
proof -
  obtain bad expected where l: "manifest_loop (Suc 0) (str_splitlines text) Map.empty = (bad, expected)" by (metis surj_pair)
  have all: "list_all snd (map (\<lambda>n. (''prebuilt-manifest'', False)) bad)"
      "set (actual_prebuilts V) = set (manifest_paths (str_splitlines text))"
      "list_all snd (digest_checks V expected (sort (manifest_paths (str_splitlines text))))"
    using assms by (simp_all add: prebuilt_checks_def Let_def l)
  then have "bad = []" by (cases bad) auto
  with l show "\<forall>line \<in> set (str_splitlines text). \<exists>d p. manifest_line line d p" using manifest_loop_ok by simp
  show actual: "set (actual_prebuilts V) = {p. \<exists>line \<in> set (str_splitlines text). \<exists>d. manifest_line line d p}"
    using all(2) manifest_paths_lines by auto
  assume "p \<in> set (actual_prebuilts V)" "file_at V p = Some c"
  with all(2) digest_checks_ok [OF all(3)] have "expected p = Some (env_sha V c)" by simp
  from manifest_loop_lookup [OF l this] show "\<exists>line \<in> set (str_splitlines text). manifest_line line (env_sha V c) p" by simp
qed

section \<open>The checks of the fstab\<close>

lemma flags_ok_Inl: "flags_ok rs = Inl e \<Longrightarrow> e = Index_error"
  by (induction rs) (auto simp: run_bind_def row_at_def split: if_splits sum.splits)

lemma logical_check_Inl: "logical_check rows name = Inl e \<Longrightarrow> e = Index_error"
  by (auto simp: logical_check_def Let_def run_bind_def dest: flags_ok_Inl split: sum.splits)

lemma flags_ok_True:
  "flags_ok rs = Inr True \<longleftrightarrow> list_all (\<lambda>r. 4 < length r \<and> r ! 3 = ''ro'' \<and> r ! 4 = ''wait,slotselect,logical'') rs"
  by (induction rs) (auto simp: row_at_def)

text \<open>What the check of a logical partition asks for: two rows, one for each file system.\<close>

definition logical_rows :: "row list \<Rightarrow> string \<Rightarrow> bool" where
  "logical_rows rows name \<longleftrightarrow> (\<exists>r1 r2. filter (\<lambda>r. r ! 0 = name) rows = [r1, r2] \<and>
     length r1 = 5 \<and> length r2 = 5 \<and> {r1 ! 2, r2 ! 2} = {''erofs'', ''ext4''} \<and>
     r1 ! 3 = ''ro'' \<and> r2 ! 3 = ''ro'' \<and> r1 ! 4 = ''wait,slotselect,logical'' \<and> r2 ! 4 = ''wait,slotselect,logical'')"

lemma list_cases_one: "(xs = [] \<Longrightarrow> P) \<Longrightarrow> (\<And>x. xs = [x] \<Longrightarrow> P) \<Longrightarrow> (\<And>x y ys. xs = x # y # ys \<Longrightarrow> P) \<Longrightarrow> P"
  by (cases xs rule: remdups_adj.cases) auto

lemma two_file_systems:
  "set (map f (filter P [a, b])) = {x, y} \<Longrightarrow> x \<noteq> y \<Longrightarrow> P a \<and> P b \<and> {f a, f b} = {x, y}"
  by (auto split: if_splits)

lemma erofs_ext4: "''erofs'' \<noteq> ''ext4''"
  by simp

lemma length_two: "length xs = 2 \<Longrightarrow> \<exists>a b. xs = [a, b]"
  by (auto simp: length_Suc_conv numeral_2_eq_2)

lemma logical_check_iff:
  "logical_check rows name = Inr (n, True) \<longleftrightarrow> n = ''fstab:logical:'' @ name \<and> logical_rows rows name"
proof
  let ?m = "filter (\<lambda>r. r ! 0 = name) rows"
  let ?fs = "set (map (\<lambda>r. r ! 2) (filter (\<lambda>r. length r = 5) ?m))"
  assume "logical_check rows name = Inr (n, True)"
  then obtain flags where f: "flags_ok ?m = Inr flags"
      and p: "(''fstab:logical:'' @ name, length ?m = 2 \<and> ?fs = {''erofs'', ''ext4''} \<and> flags) = (n, True)"
    unfolding logical_check_def Let_def run_bind_Inr sum.inject by blast
  from p have q: "length ?m = 2 \<and> ?fs = {''erofs'', ''ext4''} \<and> flags" by (simp only: prod.inject)
  note c = conjunct1 [OF q] conjunct1 [OF conjunct2 [OF q]]
  have n: "n = ''fstab:logical:'' @ name" using arg_cong [OF p, of fst] by (simp only: fst_conv)
  have "flags" using q by (elim conjE)
  with f have fl: "flags_ok ?m = Inr True" by (simp only: simp_thms)
  from length_two [OF c(1)] obtain r1 r2 where r: "?m = [r1, r2]" by (elim exE)
  note t = two_file_systems [OF c(2) [unfolded r] erofs_ext4]
  note two = conjunct1 [OF t] conjunct1 [OF conjunct2 [OF t]] conjunct2 [OF conjunct2 [OF t]]
  have flags: "r1 ! 3 = ''ro''" "r2 ! 3 = ''ro''" "r1 ! 4 = ''wait,slotselect,logical''" "r2 ! 4 = ''wait,slotselect,logical''"
    using fl unfolding r flags_ok_True by simp_all
  have "logical_rows rows name"
    unfolding logical_rows_def by (rule exI [of _ r1], rule exI [of _ r2]) (simp only: r two flags simp_thms)
  with n show "n = ''fstab:logical:'' @ name \<and> logical_rows rows name" ..
next
  assume a: "n = ''fstab:logical:'' @ name \<and> logical_rows rows name"
  then obtain r1 r2 where r: "filter (\<lambda>r. r ! 0 = name) rows = [r1, r2]" "length r1 = 5" "length r2 = 5"
      "{r1 ! 2, r2 ! 2} = {''erofs'', ''ext4''}" "flags_ok [r1, r2] = Inr True"
    unfolding logical_rows_def flags_ok_True by (elim conjE exE) simp
  with a show "logical_check rows name = Inr (n, True)"
    unfolding logical_check_def Let_def r(1) by (simp add: r del: flags_ok.simps)
qed

lemma fstab_rows_not_Nil:
  assumes "fstab_rows text = Inr rows"
  shows "[] \<notin> set rows"
proof
  assume "[] \<in> set rows"
  with assms obtain line where "line \<in> set (content_lines text)" "shlex_row line = Inr []"
    by (force simp: fstab_rows_def run_map_Inr list_all2_conv_all_nth in_set_conv_nth)
  with shlex_split_not_Nil [of line] show False
    by (simp add: content_lines_def content_line_def shlex_row_def split: sum.splits)
qed

section \<open>Properties\<close>

text \<open>The paths of the tree are distinct and in normal form.\<close>

definition tree_paths_ok :: "files \<Rightarrow> bool" where
  "tree_paths_ok fs \<longleftrightarrow> distinct (map fst fs) \<and>
     (\<forall>p \<in> set (map fst fs). \<not> prefix ''/'' p \<and> ''..'' \<notin> set (path_parts p) \<and> join_path (path_parts p) = p)"

lemma file_at_listed: "tree_paths_ok (env_files V) \<Longrightarrow> (p, c) \<in> set (env_files V) \<Longrightarrow> file_at V p = Some c"
  by (auto simp: tree_paths_ok_def file_at_def)

text \<open>C18 When the run ends with status 0, the manifest is well-formed, it lists exactly the files below \<open>prebuilt/a15-aidl\<close>,
  and every one of them has the digest of its line.\<close>

theorem prebuilts_verified:
  assumes "tree_paths_ok (env_files V)" "verify_tree V = Inr checks" "verify_status checks = 0"
  shows "\<exists>text. read_file V manifest_file = Inr text \<and>
    (\<forall>line \<in> set (str_splitlines text). \<exists>d p. manifest_line line d p) \<and>
    {p. \<exists>c. (p, c) \<in> set (env_files V) \<and> prefix prebuilt_prefix p} = {p. \<exists>line \<in> set (str_splitlines text). \<exists>d. manifest_line line d p} \<and>
    (\<forall>(p, c) \<in> set (env_files V). prefix prebuilt_prefix p \<longrightarrow>
       (\<exists>line \<in> set (str_splitlines text). manifest_line line (env_sha V c) p))"
proof -
  obtain hashes where h: "read_file V manifest_file = Inr hashes" and ok: "list_all snd (prebuilt_checks V hashes)"
    using assms(2,3) unfolding verify_tree_def by (auto simp: verify_status_def split: if_splits)
  note P = prebuilt_checks_ok [OF ok]
  have actual: "set (actual_prebuilts V) = {p. \<exists>c. (p, c) \<in> set (env_files V) \<and> prefix prebuilt_prefix p}"
    by (force simp: actual_prebuilts_def)
  have "\<exists>line \<in> set (str_splitlines hashes). manifest_line line (env_sha V c) p"
    if "(p, c) \<in> set (env_files V)" "prefix prebuilt_prefix p" for p c
    using P(3) [OF _ file_at_listed [OF assms(1) that(1)]] that actual by auto
  with h P(1,2) actual show ?thesis by auto
qed

text \<open>C20 A board configuration that switches the additional languages on, as line 101 of the repository's own
  \<open>BoardConfig.mk\<close> does, fails the check that forbids it: the run ends with status 1 whatever else is in the tree.\<close>

theorem extra_languages_refused:
  assumes "read_file V ''BoardConfig.mk'' = Inr (a @ ''TW_EXTRA_LANGUAGES := true'' @ b)" "verify_tree V = Inr checks"
  shows "(''board-forbidden:'' @ ''TW_EXTRA_LANGUAGES := true'', False) \<in> set checks \<and> verify_status checks = 1"
proof -
  let ?t = "''TW_EXTRA_LANGUAGES := true''"
  have "str_in ?t (a @ ?t @ b)" unfolding str_in_def by (rule sublist_appendI)
  moreover have "?t \<in> set board_forbidden" by (simp add: board_forbidden_def)
  ultimately have "(''board-forbidden:'' @ ?t, False) \<in> set (board_checks (a @ ?t @ b))"
    unfolding board_checks_def by force
  moreover have "set (board_checks (a @ ?t @ b)) \<subseteq> set checks"
    using assms(2) unfolding verify_tree_def run_bind_Inr assms(1) by auto
  ultimately show ?thesis by (force simp: verify_status_def list_all_iff)
qed

text \<open>A row of a logical partition that ends before its flags makes the script stop with an \<open>IndexError\<close> and no report.\<close>

theorem short_row_stops:
  assumes "fstab_rows fstab = Inr rows" "name \<in> set logical_names" "filter (\<lambda>r. r ! 0 = name) rows = r # rs" "length r \<le> 3"
  shows "fstab_checks fstab stock = Inl Index_error"
proof -
  have "logical_check rows name = Inl Index_error"
    using assms(3,4) by (simp add: logical_check_def Let_def row_at_def)
  moreover have "logical_check rows n = Inl Index_error \<or> (\<exists>c. logical_check rows n = Inr c)" for n
    using logical_check_Inl [of rows n] by (cases "logical_check rows n") auto
  ultimately have "run_map (logical_check rows) logical_names = Inl Index_error"
    using assms(2) by (intro run_map_Inl) auto
  with assms(1) show ?thesis by (simp add: fstab_checks_def)
qed

text \<open>What the other checks ask for, in terms of the rows: the only row of a mount point, the only row of a device path, and
  the devices of the rows that are flagged as logical partitions.\<close>

definition mount_row :: "row list \<Rightarrow> string \<Rightarrow> string \<Rightarrow> string \<Rightarrow> string list \<Rightarrow> bool" where
  "mount_row rows mount device filesystem flags \<longleftrightarrow> (\<exists>r. filter (\<lambda>r. 1 < length r \<and> r ! 1 = mount) rows = [r] \<and>
     r ! 0 = device \<and> 2 < length r \<and> r ! 2 = filesystem \<and>
     (flags \<noteq> [] \<longrightarrow> length r = 5 \<and> set flags \<subseteq> set (str_split_on CHR '','' (r ! 4))))"

definition flagged_logical :: "row list \<Rightarrow> string set" where
  "flagged_logical rows = {r ! 0 | r. r \<in> set rows \<and> length r = 5 \<and> ''logical'' \<in> set (str_split_on CHR '','' (r ! 4))}"

lemma mount_check_iff:
  "mount_check rows mount device filesystem required name = Inr (n, True) \<longleftrightarrow>
     n = name \<and> mount_row rows mount device filesystem required"
proof -
  have "set required \<subseteq> set (split_flags [r]) \<longleftrightarrow>
      (required \<noteq> [] \<longrightarrow> length r = 5 \<and> set required \<subseteq> set (str_split_on CHR '','' (r ! 4)))" for r
    by (cases required) (auto simp: split_flags_def)
  note f = this
  show ?thesis
    unfolding mount_check_def mount_row_def mount_rows_def
    by (cases "filter (\<lambda>r. 1 < length r \<and> r ! 1 = mount) rows" rule: list_cases_one)
      (auto simp: run_bind_def row_at_def f [symmetric] split: if_splits)
qed

lemma usb_check_iff:
  "usb_check rows = Inr (n, True) \<longleftrightarrow> n = ''fstab:single-usb-otg'' \<and>
     (\<exists>r. filter (\<lambda>r. prefix ''/devices/'' (r ! 0)) rows = [r] \<and> r ! 0 = ''/devices/platform/soc/16701000.usb0/16700000.xhci*'' \<and>
        4 < length r \<and> ''storagename=USB-OTG'' \<in> set (str_split_on CHR '','' (r ! 4)))"
  unfolding usb_check_def
  by (cases "filter (\<lambda>r. prefix ''/devices/'' (r ! 0)) rows" rule: list_cases_one)
    (auto simp: run_bind_def row_at_def split: if_splits)

lemma slot_check_iff:
  "snd (slot_check rows name) \<longleftrightarrow> (\<exists>r. filter (\<lambda>r. length r = 5 \<and> r ! 1 = ''/'' @ name) rows = [r] \<and>
     r ! 0 = ''/dev/block/by-name/'' @ name \<and> r ! 4 = ''slotselect'')"
  unfolding slot_check_def
  by (cases "filter (\<lambda>r. length r = 5 \<and> r ! 1 = ''/'' @ name) rows" rule: list_cases_one) (auto simp: by_name_prefix_def)

lemma by_name_check_iff:
  "snd (by_name_check rows) \<longleftrightarrow>
     {last (str_split_on CHR ''/'' (r ! 0)) | r. r \<in> set rows \<and> prefix ''/dev/block/by-name/'' (r ! 0)} = set allowed_by_name"
proof -
  have "{last (str_split_on CHR ''/'' (r ! 0)) | r. r \<in> set rows \<and> prefix ''/dev/block/by-name/'' (r ! 0)} =
      set (map (\<lambda>r. last (str_split_on CHR ''/'' (r ! 0))) (filter (\<lambda>r. prefix by_name_prefix (r ! 0)) rows))"
    unfolding by_name_prefix_def by auto
  then show ?thesis unfolding by_name_check_def snd_conv by (simp only:)
qed

lemma logical_devices_flagged: "set (logical_devices rows) = flagged_logical rows"
  by (auto simp: logical_devices_def flagged_logical_def)

lemma run_map_checks:
  "(\<exists>cs. run_map f xs = Inr cs \<and> list_all snd cs) \<longleftrightarrow> (\<forall>x \<in> set xs. \<exists>n. f x = Inr (n, True))"
proof (induction xs)
  case (Cons x xs)
  then show ?case by (cases "f x") (auto simp: run_bind_def split: sum.splits)
qed simp

lemma passed: "(\<exists>c. r = Inr c \<and> snd c) \<longleftrightarrow> (\<exists>n. r = Inr (n, True))"
  by auto

lemma fstab_checks_iff:
  assumes "fstab_rows fstab = Inr rows"
  shows "(\<exists>checks. fstab_checks fstab (Inr stock) = Inr checks \<and> list_all snd checks) \<longleftrightarrow>
    (\<exists>cs. run_map (logical_check rows) logical_names = Inr cs \<and> list_all snd cs) \<and>
    (\<exists>c. mount_check rows ''/metadata'' (by_name_prefix @ ''metadata'') ''f2fs'' [] ''fstab:metadata'' = Inr c \<and> snd c) \<and>
    (\<exists>c. mount_check rows ''/data'' (by_name_prefix @ ''userdata'') ''f2fs'' required_userdata_flags ''fstab:userdata'' = Inr c \<and> snd c) \<and>
    (\<exists>c. mount_check rows ''/cache'' (by_name_prefix @ ''rescue'') ''ext4'' required_cache_flags ''fstab:cache-rescue'' = Inr c \<and> snd c) \<and>
    (\<exists>c. usb_check rows = Inr c \<and> snd c) \<and> snd (by_name_check rows) \<and>
    list_all (\<lambda>n. snd (slot_check rows n)) [''vbmeta'', ''vbmeta_system'', ''vbmeta_vendor''] \<and>
    snd (stock_check rows stock) \<and> list_all (\<lambda>token. \<not> str_in token fstab) forbidden_fstab"
  (is "?L \<longleftrightarrow> ?R")
proof
  assume ?L
  then show ?R
    unfolding fstab_checks_def assms run_bind_simps run_bind_Inr sum.inject
    by (elim exE conjE) (intro conjI; (auto simp: list_all_iff ball_Un)?)
next
  assume ?R
  then show ?L
    unfolding fstab_checks_def assms run_bind_simps run_bind_Inr sum.inject
    by (elim exE conjE) (rule exI, intro conjI exI, assumption+, rule refl, auto simp: list_all_iff)
qed

text \<open>C19 A fstab that can be split into rows passes the checks exactly when: each of the nine logical partitions has two
  rows, for erofs and ext4, read-only with the three flags; \<open>/metadata\<close>, \<open>/data\<close> and \<open>/cache\<close> have one row each, on
  their partitions, with the file system and the flags asked for; one row has a path below \<open>/devices/\<close>, that of the USB
  controller, and is named USB-OTG; the partitions below \<open>/dev/block/by-name/\<close> are the eleven of the list, neither more nor
  less; the three verified boot partitions have one row each, with \<open>slotselect\<close> as their only flag; the devices flagged as
  logical are those of the stock file; and none of the three forbidden texts occurs.\<close>

theorem accepted_fstab:
  assumes "fstab_rows fstab = Inr rows"
  shows "(\<exists>checks. fstab_checks fstab (Inr stock) = Inr checks \<and> list_all snd checks) \<longleftrightarrow>
    (\<forall>name \<in> {''system'', ''system_ext'', ''vendor'', ''product'', ''odm'', ''vendor_dlkm'', ''odm_dlkm'', ''system_dlkm'', ''mi_ext''}.
       logical_rows rows name) \<and>
    mount_row rows ''/metadata'' ''/dev/block/by-name/metadata'' ''f2fs'' [] \<and>
    mount_row rows ''/data'' ''/dev/block/by-name/userdata'' ''f2fs''
      [''fileencryption=aes-256-xts:aes-256-cts:v2+inlinecrypt_optimized'', ''keydirectory=/metadata/vold/metadata_encryption'',
       ''storage'', ''settingsstorage'', ''userdataencryptbackup''] \<and>
    mount_row rows ''/cache'' ''/dev/block/by-name/rescue'' ''ext4''
      [''wait'', ''check'', ''formattable'', ''wipeduringfactoryreset=0'', ''display=Cache (Rescue)''] \<and>
    (\<exists>r. filter (\<lambda>r. prefix ''/devices/'' (r ! 0)) rows = [r] \<and> r ! 0 = ''/devices/platform/soc/16701000.usb0/16700000.xhci*'' \<and>
       4 < length r \<and> ''storagename=USB-OTG'' \<in> set (str_split_on CHR '','' (r ! 4))) \<and>
    {last (str_split_on CHR ''/'' (r ! 0)) | r. r \<in> set rows \<and> prefix ''/dev/block/by-name/'' (r ! 0)} =
      {''metadata'', ''userdata'', ''rescue'', ''misc'', ''boot'', ''init_boot'', ''vendor_boot'', ''dtbo'', ''vbmeta'', ''vbmeta_system'',
       ''vbmeta_vendor''} \<and>
    (\<forall>name \<in> {''vbmeta'', ''vbmeta_system'', ''vbmeta_vendor''}. \<exists>r. filter (\<lambda>r. length r = 5 \<and> r ! 1 = ''/'' @ name) rows = [r] \<and>
       r ! 0 = ''/dev/block/by-name/'' @ name \<and> r ! 4 = ''slotselect'') \<and>
    flagged_logical rows = flagged_logical (map str_split (content_lines stock)) \<and>
    \<not> str_in '' avb'' fstab \<and> \<not> str_in ''overlay '' fstab \<and> \<not> str_in ''by-name/lk'' fstab"
  unfolding fstab_checks_iff [OF assms] run_map_checks passed mount_check_iff usb_check_iff logical_check_iff by_name_check_iff
    slot_check_iff
proof (intro arg_cong2 [where f = "(\<and>)"])
  have names: "set logical_names = {''system'', ''system_ext'', ''vendor'', ''product'', ''odm'', ''vendor_dlkm'', ''odm_dlkm'', ''system_dlkm'',
      ''mi_ext''}"
    unfolding logical_names_def set_sort by simp
  show "(\<forall>name \<in> set logical_names. \<exists>n. n = ''fstab:logical:'' @ name \<and> logical_rows rows name) = (\<forall>name \<in> {''system'', ''system_ext'',
      ''vendor'', ''product'', ''odm'', ''vendor_dlkm'', ''odm_dlkm'', ''system_dlkm'', ''mi_ext''}. logical_rows rows name)"
    unfolding names by simp
qed (simp_all add: by_name_prefix_def required_userdata_flags_def required_cache_flags_def allowed_by_name_def
    stock_check_def logical_devices_flagged forbidden_fstab_def)

end
