(* ===== verification/FstabFiles.thy ===== *)
theory FstabFiles
  imports VerifyTree
begin

text \<open>
  The repository's \<open>recovery.fstab\<close> and \<open>evidence/stock-recovery.fstab\<close>, line by line, and the result of the checks of
  \<open>verify_tree.py\<close> on them. The files are cut into pieces of twenty lines, which are read one by one.
\<close>

section \<open>The files\<close>

definition unlines :: "string list \<Rightarrow> string" where
  "unlines ls = concat (map (\<lambda>l. l @ ''\<newline>'') ls)"

definition recovery_fstab_1 :: "string list" where
  "recovery_fstab_1 = [
     ''# Recovery-specific view derived from the stock mt6991 fstab. AVB and product'',
     ''# overlays are Android boot concerns and are intentionally not reproduced here.'',
     ''system /system erofs ro wait,slotselect,logical'',
     ''system /system ext4 ro wait,slotselect,logical'',
     ''system_ext /system_ext erofs ro wait,slotselect,logical'',
     ''system_ext /system_ext ext4 ro wait,slotselect,logical'',
     ''vendor /vendor erofs ro wait,slotselect,logical'',
     ''vendor /vendor ext4 ro wait,slotselect,logical'',
     ''product /product erofs ro wait,slotselect,logical'',
     ''product /product ext4 ro wait,slotselect,logical'',
     ''odm /odm erofs ro wait,slotselect,logical'',
     ''odm /odm ext4 ro wait,slotselect,logical'',
     ''vendor_dlkm /vendor_dlkm erofs ro wait,slotselect,logical'',
     ''vendor_dlkm /vendor_dlkm ext4 ro wait,slotselect,logical'',
     ''odm_dlkm /odm_dlkm erofs ro wait,slotselect,logical'',
     ''odm_dlkm /odm_dlkm ext4 ro wait,slotselect,logical'',
     ''system_dlkm /system_dlkm erofs ro wait,slotselect,logical'',
     ''system_dlkm /system_dlkm ext4 ro wait,slotselect,logical'',
     ''mi_ext /mi_ext erofs ro wait,slotselect,logical'',
     ''mi_ext /mi_ext ext4 ro wait,slotselect,logical'']"

definition recovery_fstab_2 :: "string list" where
  "recovery_fstab_2 = [
     '''',
     ''/dev/block/by-name/metadata /metadata f2fs noatime,nosuid,nodev,discard wait,check'',
     ''# Keep noatime: fscrypt_is_data_mounted_noatime() is the read-only decrypt guard.'',
     ''/dev/block/by-name/userdata /data f2fs noatime,nosuid,nodev,discard,noflush_merge,fsync_mode=nobarrier,reserve_root=134217,resgid=1065,gc_merge,atgc,age_extent_cache,inlinecrypt wait,check,quota,latemount,resize,reservedsize=128m,checkpoint=fs,fileencryption=aes-256-xts:aes-256-cts:v2+inlinecrypt_optimized,keydirectory=/metadata/vold/metadata_encryption,fsverity,storage,settingsstorage,userdataencryptbackup'',
     ''# Xiaomi maps /cache to the rescue partition; wiping Cache (Rescue) destroys rescue data.'',
     ''/dev/block/by-name/rescue /cache ext4 noatime,nosuid,nodev,noauto_da_alloc,discard wait,check,formattable,wipeduringfactoryreset=0,display='' @ [CHR 0x22] @ ''Cache (Rescue)'' @ [CHR 0x22],
     '''',
     ''# Only the host controller paired with dash'' @ [CHR 0x27] @ ''s proven 16701000.usb0 path is kept.'',
     ''/devices/platform/soc/16701000.usb0/16700000.xhci* auto auto defaults voldmanaged=usbotg:auto,storage,removable,storagename=USB-OTG'',
     '''',
     ''/dev/block/by-name/misc /misc emmc defaults defaults'',
     ''/dev/block/by-name/boot /boot emmc defaults slotselect'',
     ''/dev/block/by-name/init_boot /init_boot emmc defaults slotselect'',
     ''/dev/block/by-name/vendor_boot /vendor_boot emmc defaults slotselect'',
     ''/dev/block/by-name/dtbo /dtbo emmc defaults slotselect'',
     ''/dev/block/by-name/vbmeta /vbmeta emmc defaults slotselect'',
     ''/dev/block/by-name/vbmeta_system /vbmeta_system emmc defaults slotselect'',
     ''/dev/block/by-name/vbmeta_vendor /vbmeta_vendor emmc defaults slotselect'']"

definition stock_fstab_1 :: "string list" where
  "stock_fstab_1 = [
     ''# 1 '' @ [CHR 0x22] @ ''vendor/mediatek/proprietary/hardware/fstab/mt6991/fstab.in.mt6991'' @ [CHR 0x22],
     ''# 1 '' @ [CHR 0x22] @ ''<built-in>'' @ [CHR 0x22] @ '' 1'',
     ''# 1 '' @ [CHR 0x22] @ ''<built-in>'' @ [CHR 0x22] @ '' 3'',
     ''# 389 '' @ [CHR 0x22] @ ''<built-in>'' @ [CHR 0x22] @ '' 3'',
     ''# 1 '' @ [CHR 0x22] @ ''<command line>'' @ [CHR 0x22] @ '' 1'',
     ''# 1 '' @ [CHR 0x22] @ ''<built-in>'' @ [CHR 0x22] @ '' 2'',
     ''# 1 '' @ [CHR 0x22] @ ''vendor/mediatek/proprietary/hardware/fstab/mt6991/fstab.in.mt6991'' @ [CHR 0x22] @ '' 2'',
     ''# 131 '' @ [CHR 0x22] @ ''vendor/mediatek/proprietary/hardware/fstab/mt6991/fstab.in.mt6991'' @ [CHR 0x22],
     ''system /system erofs ro wait,slotselect,avb=vbmeta_system,logical,first_stage_mount,avb_keys=/avb/q-gsi.avbpubkey:/avb/r-gsi.avbpubkey:/avb/s-gsi.avbpubkey'',
     ''system /system ext4 ro wait,slotselect,avb=vbmeta_system,logical,first_stage_mount,avb_keys=/avb/q-gsi.avbpubkey:/avb/r-gsi.avbpubkey:/avb/s-gsi.avbpubkey'',
     ''system_ext /system_ext erofs ro wait,slotselect,avb=vbmeta_system,logical,first_stage_mount,avb_keys=/avb/q-gsi.avbpubkey:/avb/r-gsi.avbpubkey:/avb/s-gsi.avbpubkey'',
     ''system_ext /system_ext ext4 ro wait,slotselect,avb=vbmeta_system,logical,first_stage_mount,avb_keys=/avb/q-gsi.avbpubkey:/avb/r-gsi.avbpubkey:/avb/s-gsi.avbpubkey'',
     '''',
     ''vendor /vendor erofs ro wait,slotselect,avb,logical,first_stage_mount'',
     ''vendor /vendor ext4 ro wait,slotselect,avb,logical,first_stage_mount'',
     '''',
     '''',
     ''product /product erofs ro wait,slotselect,avb,logical,first_stage_mount'',
     ''product /product ext4 ro wait,slotselect,avb,logical,first_stage_mount'',
     ''mi_ext /mnt/vendor/mi_ext erofs ro wait,slotselect,avb=vbmeta,logical,first_stage_mount,nofail'']"

definition stock_fstab_2 :: "string list" where
  "stock_fstab_2 = [
     ''mi_ext /mnt/vendor/mi_ext ext4 ro wait,slotselect,avb=vbmeta,logical,first_stage_mount,nofail'',
     ''/mnt/vendor/mi_ext /mi_ext erofs ro,bind wait,nofail'',
     ''overlay /product/overlay overlay ro,lowerdir=/mnt/vendor/mi_ext/product/overlay/:/product/overlay check,nofail'',
     ''overlay /product/app overlay ro,lowerdir=/mnt/vendor/mi_ext/product/app/:/product/app check,nofail'',
     ''overlay /product/priv-app overlay ro,lowerdir=/mnt/vendor/mi_ext/product/priv-app/:/product/priv-app check,nofail'',
     ''overlay /product/lib overlay ro,lowerdir=/mnt/vendor/mi_ext/product/lib/:/product/lib check,nofail'',
     ''overlay /product/lib64 overlay ro,lowerdir=/mnt/vendor/mi_ext/product/lib64/:/product/lib64 check,nofail'',
     ''overlay /product/bin overlay ro,lowerdir=/mnt/vendor/mi_ext/product/bin/:/product/bin check,nofail'',
     ''overlay /product/framework overlay ro,lowerdir=/mnt/vendor/mi_ext/product/framework/:/product/framework check,nofail'',
     ''overlay /product/media overlay ro,lowerdir=/mnt/vendor/mi_ext/product/media/:/product/media check,nofail'',
     ''overlay /product/opcust overlay ro,lowerdir=/mnt/vendor/mi_ext/product/opcust/:/product/opcust check,nofail'',
     ''overlay /product/data-app overlay ro,lowerdir=/mnt/vendor/mi_ext/product/data-app/:/product/data-app check,nofail'',
     ''overlay /product/etc/sysconfig overlay ro,lowerdir=/mnt/vendor/mi_ext/product/etc/sysconfig/:/product/etc/sysconfig check,nofail'',
     ''overlay /product/etc/permissions overlay ro,lowerdir=/mnt/vendor/mi_ext/product/etc/permissions/:/product/etc/permissions check,nofail'',
     ''overlay /system/app overlay ro,lowerdir=/mnt/vendor/mi_ext/system/app/:/product/pangu/system/app/:/system/app check,nofail'',
     ''overlay /system/priv-app overlay ro,lowerdir=/mnt/vendor/mi_ext/system/priv-app/:/product/pangu/system/priv-app/:/system/priv-app check,nofail'',
     ''overlay /system/framework overlay ro,lowerdir=/product/pangu/system/framework/:/system/framework check,nofail'',
     ''overlay /system/etc/sysconfig overlay ro,lowerdir=/mnt/vendor/mi_ext/system/etc/sysconfig/:/system/etc/sysconfig check,nofail'',
     ''overlay /system/etc/permissions overlay ro,lowerdir=/mnt/vendor/mi_ext/system/etc/permissions/:/product/pangu/system/etc/permissions/:/system/etc/permissions check,nofail'',
     ''overlay /product/usr overlay ro,lowerdir=/mnt/vendor/mi_ext/product/usr:/product/usr check,nofail'']"

definition stock_fstab_3 :: "string list" where
  "stock_fstab_3 = [
     ''overlay /product/etc/precust_theme overlay ro,lowerdir=/mnt/vendor/mi_ext/product/etc/precust_theme:/product/etc/precust_theme check,nofail'',
     ''overlay /product/etc/preferred-apps overlay ro,lowerdir=/mnt/vendor/mi_ext/product/etc/preferred-apps:/product/etc/preferred-apps check,nofail'',
     ''overlay /product/etc/security overlay ro,lowerdir=/mnt/vendor/mi_ext/product/etc/security:/product/etc/security check,nofail'',
     ''overlay /system_ext/etc/permissions overlay ro,lowerdir=/mnt/vendor/mi_ext/system_ext/etc/permissions:/system_ext/etc/permissions check,nofail'',
     '''',
     '''',
     ''odm /odm erofs ro wait,slotselect,avb,logical,first_stage_mount'',
     ''odm /odm ext4 ro wait,slotselect,avb,logical,first_stage_mount'',
     '''',
     '''',
     ''vendor_dlkm /vendor_dlkm erofs ro wait,slotselect,avb,logical,first_stage_mount'',
     ''vendor_dlkm /vendor_dlkm ext4 ro wait,slotselect,avb,logical,first_stage_mount'',
     '''',
     '''',
     ''odm_dlkm /odm_dlkm erofs ro wait,slotselect,avb,logical,first_stage_mount'',
     ''odm_dlkm /odm_dlkm ext4 ro wait,slotselect,avb,logical,first_stage_mount'',
     '''',
     '''',
     ''system_dlkm /system_dlkm erofs ro wait,slotselect,avb,logical,first_stage_mount'',
     ''system_dlkm /system_dlkm ext4 ro wait,slotselect,avb,logical,first_stage_mount'']"

definition stock_fstab_4 :: "string list" where
  "stock_fstab_4 = [
     '''',
     '''',
     ''/dev/block/by-name/metadata /metadata f2fs noatime,nosuid,nodev,discard wait,check,formattable,first_stage_mount'',
     '''',
     ''/dev/block/by-name/userdata /data f2fs noatime,nosuid,nodev,discard,noflush_merge,fsync_mode=nobarrier,reserve_root=134217,resgid=1065,gc_merge,atgc,age_extent_cache,inlinecrypt wait,check,formattable,quota,latemount,resize,reservedsize=128m,checkpoint=fs,fileencryption=aes-256-xts:aes-256-cts:v2+inlinecrypt_optimized,keydirectory=/metadata/vold/metadata_encryption,fsverity'',
     '''',
     '''',
     '''',
     ''/dev/block/by-name/rescue /cache ext4 noatime,nosuid,nodev,noauto_da_alloc,discard wait,check,formattable'',
     '''',
     ''/dev/block/by-name/protect1 /mnt/vendor/protect_f ext4 noatime,nosuid,nodev,noauto_da_alloc,commit=1,nodelalloc wait,check,formattable'',
     ''/dev/block/by-name/protect2 /mnt/vendor/protect_s ext4 noatime,nosuid,nodev,noauto_da_alloc,commit=1,nodelalloc wait,check,formattable'',
     ''/dev/block/by-name/nvdata /mnt/vendor/nvdata ext4 noatime,nosuid,nodev,noauto_da_alloc,commit=1,nodelalloc wait,check,formattable'',
     ''/dev/block/by-name/md_sec /mnt/vendor/md_sec ext4 noatime,nosuid,nodev,noauto_da_alloc,commit=1,nodelalloc wait,check,formattable'',
     ''/dev/block/by-name/nvcfg /mnt/vendor/nvcfg ext4 noatime,nosuid,nodev,noauto_da_alloc,commit=1,nodelalloc wait,check,formattable'',
     '''',
     '''',
     ''/dev/block/by-name/persist /mnt/vendor/persist ext4 noatime,nosuid,nodev,noauto_da_alloc,commit=1,nodelalloc wait,check,formattable'',
     '''',
     '''']"

definition stock_fstab_5 :: "string list" where
  "stock_fstab_5 = [
     '''',
     ''/dev/block/by-name/display_dbi /mnt/vendor/display_dbi ext4 noatime,nosuid,nodev,noauto_da_alloc,commit=1,nodelalloc wait,check,formattable'',
     '''',
     '''',
     '''',
     '''',
     '''',
     ''/devices/platform/soc/16310000.mmc* auto auto defaults voldmanaged=sdcard1:auto,encryptable=userdata'',
     '''',
     ''/devices/platform/usb_xhci* auto vfat defaults voldmanaged=usbotg:auto'',
     ''/devices/platform/soc/11201000.usb0/11200000.xhci* auto vfat defaults voldmanaged=usbotg:auto,encryptable=userdata'',
     ''/devices/platform/soc/11211000.usb1/11210000.xhci* auto vfat defaults voldmanaged=usbotg:auto,encryptable=userdata'',
     ''/devices/platform/soc/16701000.usb0/16700000.xhci* auto vfat defaults voldmanaged=usbotg:auto,encryptable=userdata'',
     ''/devices/platform/soc/16711000.usb1/16710000.xhci* auto vfat defaults voldmanaged=usbotg:auto,encryptable=userdata'',
     ''/devices/platform/soc/16721000.usb2/16720000.xhci* auto vfat defaults voldmanaged=usbotg:auto,encryptable=userdata'',
     '''',
     ''/dev/block/by-name/frp /persistent emmc defaults defaults'',
     '''',
     ''/dev/block/by-name/nvram /nvram emmc defaults defaults'',
     ''/dev/block/by-name/proinfo /proinfo emmc defaults defaults'']"

definition stock_fstab_6 :: "string list" where
  "stock_fstab_6 = [
     ''/dev/block/by-name/lk1 /lk1 emmc defaults defaults'',
     ''/dev/block/by-name/bootloader2 /bootloader2 emmc defaults defaults'',
     ''/dev/block/by-name/para /para emmc defaults defaults'',
     ''/dev/block/by-name/misc /misc emmc defaults defaults'',
     ''/dev/block/by-name/init_boot /init_boot emmc defaults defaults'',
     '''',
     '''',
     '''',
     '''',
     ''/dev/block/by-name/boot /boot emmc defaults first_stage_mount,nofail,slotselect'',
     '''',
     '''',
     '''',
     '''',
     '''',
     ''/dev/block/by-name/vbmeta_vendor /vbmeta_vendor emmc defaults first_stage_mount,nofail,slotselect'',
     ''/dev/block/by-name/vbmeta_system /vbmeta_system emmc defaults first_stage_mount,nofail,slotselect,avb=vbmeta'',
     '''',
     ''/dev/block/by-name/logo /logo emmc defaults defaults'',
     ''/dev/block/by-name/expdb /expdb emmc defaults defaults'']"

definition stock_fstab_7 :: "string list" where
  "stock_fstab_7 = [
     ''/dev/block/by-name/seccfg /seccfg emmc defaults defaults'',
     '''',
     ''/dev/block/by-name/tee1 /tee1 emmc defaults defaults'',
     ''/dev/block/by-name/tee2 /tee2 emmc defaults defaults'',
     '''',
     '''',
     ''/dev/block/by-name/scp1 /scp1 emmc defaults defaults'',
     ''/dev/block/by-name/scp2 /scp2 emmc defaults defaults'',
     '''',
     '''',
     ''/dev/block/by-name/sspm1 /sspm1 emmc defaults defaults'',
     ''/dev/block/by-name/sspm2 /sspm2 emmc defaults defaults'',
     '''',
     '''',
     ''/dev/block/by-name/dpm1 /dpm1 emmc defaults defaults'',
     ''/dev/block/by-name/dpm2 /dpm2 emmc defaults defaults'',
     '''',
     ''/dev/block/by-name/mcupm1 /mcupm1 emmc defaults defaults'',
     ''/dev/block/by-name/mcupm2 /mcupm2 emmc defaults defaults'',
     '''']"

definition stock_fstab_8 :: "string list" where
  "stock_fstab_8 = [
     '''',
     '''',
     ''/dev/block/by-name/modem /modem emmc defaults defaults'',
     ''/dev/block/by-name/md1dsp /md1dsp emmc defaults defaults'',
     ''/dev/block/by-name/md1arm7 /md1arm7 emmc defaults defaults'',
     ''/dev/block/by-name/md3img /md3img emmc defaults defaults'',
     '''',
     '''',
     '''',
     '''',
     '''',
     ''/dev/block/by-name/gz1 /gz1 emmc defaults defaults'',
     ''/dev/block/by-name/gz2 /gz2 emmc defaults defaults'',
     ''/dev/block/by-name/ccu /ccu emmc defaults defaults'',
     ''/dev/block/by-name/vcp /vcp emmc defaults defaults'',
     ''/dev/block/by-name/gpueb /gpueb emmc defaults defaults'',
     ''/dev/block/by-name/mcf_ota /mcf_ota emmc defaults defaults'',
     ''/dev/block/by-name/vendor_boot /vendor_boot emmc defaults defaults'',
     ''/dev/block/by-name/mvpu_algo1 /mvpu_algo1 emmc defaults defaults'',
     ''/dev/block/by-name/mvpu_algo2 /mvpu_algo2 emmc defaults defaults'']"

definition stock_fstab_9 :: "string list" where
  "stock_fstab_9 = [
     ''/dev/block/by-name/apusys1 /apusys1 emmc defaults defaults'',
     ''/dev/block/by-name/apusys2 /apusys2 emmc defaults defaults'',
     '''',
     ''/dev/block/by-name/spmfw /spmfw emmc defaults defaults'',
     '''',
     '''',
     '''',
     '''',
     '''',
     ''/dev/block/by-name/audio_dsp /audio_dsp emmc defaults defaults'',
     '''',
     ''/dev/block/by-name/pi_img /pi_img emmc defaults defaults'',
     ''/dev/block/by-name/boot_para /boot_para emmc defaults defaults'',
     ''/dev/block/by-name/odmdtbo /odmdtbo emmc defaults defaults'',
     ''/dev/block/by-name/dtbo /dtbo emmc defaults defaults'',
     ''/dev/block/by-name/connsys_wifi /connsys_wifi emmc defaults defaults'',
     ''/dev/block/by-name/connsys_bt /connsys_bt emmc defaults defaults'',
     '''',
     ''/dev/block/by-name/otp /otp emmc defaults defaults'',
     '''']"

definition stock_fstab_10 :: "string list" where
  "stock_fstab_10 = [
     '''',
     ''/dev/block/by-name/vbmeta /vbmeta emmc defaults defaults'']"

definition recovery_fstab :: string where
  "recovery_fstab = unlines (recovery_fstab_1 @ recovery_fstab_2)"

definition stock_fstab :: string where
  "stock_fstab = unlines (stock_fstab_1 @ stock_fstab_2 @ stock_fstab_3 @ stock_fstab_4 @ stock_fstab_5 @ stock_fstab_6 @ stock_fstab_7 @ stock_fstab_8 @ stock_fstab_9 @ stock_fstab_10)"

section \<open>Reading them\<close>

lemma content_line_eval:
  "content_line line \<longleftrightarrow> (case dropWhile str_space line of [] \<Rightarrow> False | c # cs \<Rightarrow> c \<noteq> CHR ''#'')"
proof -
  have "str_strip line = [] \<longleftrightarrow> dropWhile str_space line = []"
    unfolding str_strip_Nil by (simp only: dropWhile_eq_Nil_conv list_all_iff)
  then show ?thesis
    by (cases "dropWhile str_space line") (auto simp: content_line_def str_lstrip_def simp del: dropWhile_eq_Nil_conv)
qed

lemma printable: "list_all (\<lambda>c. \<not> str_space c \<and> \<not> line_break c \<and> shlex_plain c)
    ''!#$%&()*+,-./0123456789:;<=>?@ABCDEFGHIJKLMNOPQRSTUVWXYZ[]^_`abcdefghijklmnopqrstuvwxyz{|}~''"
  by (simp add: str_space_def line_break_def shlex_plain_def shlex_quote_def)

lemma blank: "str_space CHR '' ''" "\<not> line_break CHR '' ''" "shlex_plain CHR '' ''"
  "\<not> str_space CHR 0x22" "\<not> line_break CHR 0x22" "\<not> line_break CHR 0x27"
  by (simp_all add: str_space_def line_break_def shlex_plain_def shlex_quote_def shlex_whitespace_def)

definition push_word :: "string \<Rightarrow> string list \<Rightarrow> string list" where
  "push_word w ws = (if w = [] then ws else w # ws)"

fun words_at :: "string \<Rightarrow> string \<times> string list" where
  "words_at [] = ([], [])"
| "words_at (c # cs) = (case words_at cs of (w, ws) \<Rightarrow> if str_space c then ([], push_word w ws) else (c # w, ws))"

lemma split_words_at: "split_words cur s = (case words_at s of (w, ws) \<Rightarrow> push_word (cur @ w) ws)"
  by (induction s arbitrary: cur) (simp_all add: push_word_def split: prod.splits)

lemma str_split_at: "str_split s = (case words_at s of (w, ws) \<Rightarrow> push_word w ws)"
  by (simp add: str_split_def split_words_at)

lemma shlex_row_plain: "list_all shlex_plain s \<Longrightarrow> shlex_row s = Inr (str_split s)"
  using shlex_run_plain [of s] by (simp add: shlex_row_def shlex_split_def str_split_def)

lemmas line_eval = content_line_eval shlex_row_plain str_split_at push_word_def printable [simplified] blank

lemma lines_from_line:
  "list_all (\<lambda>c. \<not> line_break c) l \<Longrightarrow> lines_from cur (l @ CHR 0x0A # s) = (cur @ l) # lines_from [] s"
  by (induction l arbitrary: cur) (auto simp: line_break_def)

lemma splitlines_unlines: "list_all (list_all (\<lambda>c. \<not> line_break c)) ls \<Longrightarrow> str_splitlines (unlines ls) = ls"
  by (induction ls) (simp_all add: str_splitlines_def unlines_def lines_from_line)

lemma run_map_append: "run_map f (xs @ ys) = run_bind (run_map f xs) (\<lambda>us. run_bind (run_map f ys) (\<lambda>vs. Inr (us @ vs)))"
  by (induction xs) (auto simp: run_bind_def split: sum.splits)

lemma logical_devices_append: "logical_devices (rs @ ss) = logical_devices rs @ logical_devices ss"
  by (simp add: logical_devices_def)

lemma recovery_fstab_1_lines: "list_all (list_all (\<lambda>c. \<not> line_break c)) recovery_fstab_1"
  by (simp add: recovery_fstab_1_def line_eval)

lemma recovery_fstab_2_lines: "list_all (list_all (\<lambda>c. \<not> line_break c)) recovery_fstab_2"
  by (simp add: recovery_fstab_2_def line_eval)

lemma stock_fstab_1_lines: "list_all (list_all (\<lambda>c. \<not> line_break c)) stock_fstab_1"
  by (simp add: stock_fstab_1_def line_eval)

lemma stock_fstab_2_lines: "list_all (list_all (\<lambda>c. \<not> line_break c)) stock_fstab_2"
  by (simp add: stock_fstab_2_def line_eval)

lemma stock_fstab_3_lines: "list_all (list_all (\<lambda>c. \<not> line_break c)) stock_fstab_3"
  by (simp add: stock_fstab_3_def line_eval)

lemma stock_fstab_4_lines: "list_all (list_all (\<lambda>c. \<not> line_break c)) stock_fstab_4"
  by (simp add: stock_fstab_4_def line_eval)

lemma stock_fstab_5_lines: "list_all (list_all (\<lambda>c. \<not> line_break c)) stock_fstab_5"
  by (simp add: stock_fstab_5_def line_eval)

lemma stock_fstab_6_lines: "list_all (list_all (\<lambda>c. \<not> line_break c)) stock_fstab_6"
  by (simp add: stock_fstab_6_def line_eval)

lemma stock_fstab_7_lines: "list_all (list_all (\<lambda>c. \<not> line_break c)) stock_fstab_7"
  by (simp add: stock_fstab_7_def line_eval)

lemma stock_fstab_8_lines: "list_all (list_all (\<lambda>c. \<not> line_break c)) stock_fstab_8"
  by (simp add: stock_fstab_8_def line_eval)

lemma stock_fstab_9_lines: "list_all (list_all (\<lambda>c. \<not> line_break c)) stock_fstab_9"
  by (simp add: stock_fstab_9_def line_eval)

lemma stock_fstab_10_lines: "list_all (list_all (\<lambda>c. \<not> line_break c)) stock_fstab_10"
  by (simp add: stock_fstab_10_def line_eval)

text \<open>The one line with quotes.\<close>

lemma rescue_row:
  "shlex_row (''/dev/block/by-name/rescue /cache ext4 noatime,nosuid,nodev,noauto_da_alloc,discard wait,check,formattable,wipeduringfactoryreset=0,display='' @ [CHR 0x22] @ ''Cache (Rescue)'' @ [CHR 0x22]) =
     Inr [''/dev/block/by-name/rescue'', ''/cache'', ''ext4'', ''noatime,nosuid,nodev,noauto_da_alloc,discard'', ''wait,check,formattable,wipeduringfactoryreset=0,display=Cache (Rescue)'']"
  by (simp add: shlex_row_def shlex_split_def shlex_whitespace_def shlex_quote_def emit_def)

definition recovery_rows_1 :: "row list" where
  "recovery_rows_1 = [
     [''system'', ''/system'', ''erofs'', ''ro'', ''wait,slotselect,logical''],
     [''system'', ''/system'', ''ext4'', ''ro'', ''wait,slotselect,logical''],
     [''system_ext'', ''/system_ext'', ''erofs'', ''ro'', ''wait,slotselect,logical''],
     [''system_ext'', ''/system_ext'', ''ext4'', ''ro'', ''wait,slotselect,logical''],
     [''vendor'', ''/vendor'', ''erofs'', ''ro'', ''wait,slotselect,logical''],
     [''vendor'', ''/vendor'', ''ext4'', ''ro'', ''wait,slotselect,logical''],
     [''product'', ''/product'', ''erofs'', ''ro'', ''wait,slotselect,logical''],
     [''product'', ''/product'', ''ext4'', ''ro'', ''wait,slotselect,logical''],
     [''odm'', ''/odm'', ''erofs'', ''ro'', ''wait,slotselect,logical''],
     [''odm'', ''/odm'', ''ext4'', ''ro'', ''wait,slotselect,logical''],
     [''vendor_dlkm'', ''/vendor_dlkm'', ''erofs'', ''ro'', ''wait,slotselect,logical''],
     [''vendor_dlkm'', ''/vendor_dlkm'', ''ext4'', ''ro'', ''wait,slotselect,logical''],
     [''odm_dlkm'', ''/odm_dlkm'', ''erofs'', ''ro'', ''wait,slotselect,logical''],
     [''odm_dlkm'', ''/odm_dlkm'', ''ext4'', ''ro'', ''wait,slotselect,logical''],
     [''system_dlkm'', ''/system_dlkm'', ''erofs'', ''ro'', ''wait,slotselect,logical''],
     [''system_dlkm'', ''/system_dlkm'', ''ext4'', ''ro'', ''wait,slotselect,logical''],
     [''mi_ext'', ''/mi_ext'', ''erofs'', ''ro'', ''wait,slotselect,logical''],
     [''mi_ext'', ''/mi_ext'', ''ext4'', ''ro'', ''wait,slotselect,logical'']]"

lemma recovery_fstab_1_read: "run_map shlex_row (filter content_line recovery_fstab_1) = Inr recovery_rows_1"
  by (simp add: recovery_fstab_1_def recovery_rows_1_def line_eval)

definition recovery_rows_2 :: "row list" where
  "recovery_rows_2 = [
     [''/dev/block/by-name/metadata'', ''/metadata'', ''f2fs'', ''noatime,nosuid,nodev,discard'', ''wait,check''],
     [''/dev/block/by-name/userdata'', ''/data'', ''f2fs'', ''noatime,nosuid,nodev,discard,noflush_merge,fsync_mode=nobarrier,reserve_root=134217,resgid=1065,gc_merge,atgc,age_extent_cache,inlinecrypt'', ''wait,check,quota,latemount,resize,reservedsize=128m,checkpoint=fs,fileencryption=aes-256-xts:aes-256-cts:v2+inlinecrypt_optimized,keydirectory=/metadata/vold/metadata_encryption,fsverity,storage,settingsstorage,userdataencryptbackup''],
     [''/dev/block/by-name/rescue'', ''/cache'', ''ext4'', ''noatime,nosuid,nodev,noauto_da_alloc,discard'', ''wait,check,formattable,wipeduringfactoryreset=0,display=Cache (Rescue)''],
     [''/devices/platform/soc/16701000.usb0/16700000.xhci*'', ''auto'', ''auto'', ''defaults'', ''voldmanaged=usbotg:auto,storage,removable,storagename=USB-OTG''],
     [''/dev/block/by-name/misc'', ''/misc'', ''emmc'', ''defaults'', ''defaults''],
     [''/dev/block/by-name/boot'', ''/boot'', ''emmc'', ''defaults'', ''slotselect''],
     [''/dev/block/by-name/init_boot'', ''/init_boot'', ''emmc'', ''defaults'', ''slotselect''],
     [''/dev/block/by-name/vendor_boot'', ''/vendor_boot'', ''emmc'', ''defaults'', ''slotselect''],
     [''/dev/block/by-name/dtbo'', ''/dtbo'', ''emmc'', ''defaults'', ''slotselect''],
     [''/dev/block/by-name/vbmeta'', ''/vbmeta'', ''emmc'', ''defaults'', ''slotselect''],
     [''/dev/block/by-name/vbmeta_system'', ''/vbmeta_system'', ''emmc'', ''defaults'', ''slotselect''],
     [''/dev/block/by-name/vbmeta_vendor'', ''/vbmeta_vendor'', ''emmc'', ''defaults'', ''slotselect'']]"

lemma recovery_fstab_2_read: "run_map shlex_row (filter content_line recovery_fstab_2) = Inr recovery_rows_2"
  by (simp add: recovery_fstab_2_def recovery_rows_2_def line_eval rescue_row [simplified])

lemma stock_fstab_1_logical:
  "logical_devices (map str_split (filter content_line stock_fstab_1)) = [''system'', ''system'', ''system_ext'', ''system_ext'', ''vendor'', ''vendor'', ''product'', ''product'', ''mi_ext'']"
  by (simp add: stock_fstab_1_def line_eval logical_devices_def)

lemma stock_fstab_2_logical:
  "logical_devices (map str_split (filter content_line stock_fstab_2)) = [''mi_ext'']"
  by (simp add: stock_fstab_2_def line_eval logical_devices_def)

lemma stock_fstab_3_logical:
  "logical_devices (map str_split (filter content_line stock_fstab_3)) = [''odm'', ''odm'', ''vendor_dlkm'', ''vendor_dlkm'', ''odm_dlkm'', ''odm_dlkm'', ''system_dlkm'', ''system_dlkm'']"
  by (simp add: stock_fstab_3_def line_eval logical_devices_def)

lemma stock_fstab_4_logical:
  "logical_devices (map str_split (filter content_line stock_fstab_4)) = []"
  by (simp add: stock_fstab_4_def line_eval logical_devices_def)

lemma stock_fstab_5_logical:
  "logical_devices (map str_split (filter content_line stock_fstab_5)) = []"
  by (simp add: stock_fstab_5_def line_eval logical_devices_def)

lemma stock_fstab_6_logical:
  "logical_devices (map str_split (filter content_line stock_fstab_6)) = []"
  by (simp add: stock_fstab_6_def line_eval logical_devices_def)

lemma stock_fstab_7_logical:
  "logical_devices (map str_split (filter content_line stock_fstab_7)) = []"
  by (simp add: stock_fstab_7_def line_eval logical_devices_def)

lemma stock_fstab_8_logical:
  "logical_devices (map str_split (filter content_line stock_fstab_8)) = []"
  by (simp add: stock_fstab_8_def line_eval logical_devices_def)

lemma stock_fstab_9_logical:
  "logical_devices (map str_split (filter content_line stock_fstab_9)) = []"
  by (simp add: stock_fstab_9_def line_eval logical_devices_def)

lemma stock_fstab_10_logical:
  "logical_devices (map str_split (filter content_line stock_fstab_10)) = []"
  by (simp add: stock_fstab_10_def line_eval logical_devices_def)

definition recovery_rows :: "row list" where
  "recovery_rows = recovery_rows_1 @ recovery_rows_2"

lemma recovery_fstab_read: "fstab_rows recovery_fstab = Inr recovery_rows"
  by (simp add: fstab_rows_def content_lines_def recovery_fstab_def splitlines_unlines recovery_rows_def run_map_append
      recovery_fstab_1_lines recovery_fstab_2_lines recovery_fstab_1_read recovery_fstab_2_read)

lemma stock_fstab_read: "logical_devices (map str_split (content_lines stock_fstab)) =
    [''system'', ''system'', ''system_ext'', ''system_ext'', ''vendor'', ''vendor'', ''product'', ''product'', ''mi_ext'', ''mi_ext'', ''odm'', ''odm'', ''vendor_dlkm'', ''vendor_dlkm'', ''odm_dlkm'', ''odm_dlkm'', ''system_dlkm'', ''system_dlkm'']"
  by (simp add: content_lines_def stock_fstab_def splitlines_unlines logical_devices_append
      stock_fstab_1_lines stock_fstab_1_logical
      stock_fstab_2_lines stock_fstab_2_logical
      stock_fstab_3_lines stock_fstab_3_logical
      stock_fstab_4_lines stock_fstab_4_logical
      stock_fstab_5_lines stock_fstab_5_logical
      stock_fstab_6_lines stock_fstab_6_logical
      stock_fstab_7_lines stock_fstab_7_logical
      stock_fstab_8_lines stock_fstab_8_logical
      stock_fstab_9_lines stock_fstab_9_logical
      stock_fstab_10_lines stock_fstab_10_logical)

section \<open>The checks on the repository's files\<close>

lemmas row_eval = recovery_rows_def recovery_rows_1_def recovery_rows_2_def

lemma recovery_logical: "run_map (logical_check recovery_rows) logical_names = Inr (map (\<lambda>n. (''fstab:logical:'' @ n, True)) logical_names)"
  by (simp add: logical_names_def logical_check_def row_eval row_at_def del: set_map set_filter)

lemma recovery_mounts:
  "mount_check recovery_rows ''/metadata'' (by_name_prefix @ ''metadata'') ''f2fs'' [] ''fstab:metadata'' = Inr (''fstab:metadata'', True)"
  "mount_check recovery_rows ''/data'' (by_name_prefix @ ''userdata'') ''f2fs'' required_userdata_flags ''fstab:userdata'' = Inr (''fstab:userdata'', True)"
  "mount_check recovery_rows ''/cache'' (by_name_prefix @ ''rescue'') ''ext4'' required_cache_flags ''fstab:cache-rescue'' = Inr (''fstab:cache-rescue'', True)"
  by (simp_all add: mount_check_def mount_rows_def row_eval row_at_def by_name_prefix_def required_userdata_flags_def
      required_cache_flags_def split_flags_def)

lemma recovery_usb: "usb_check recovery_rows = Inr (''fstab:single-usb-otg'', True)"
  by (simp add: usb_check_def row_eval row_at_def)

lemma recovery_by_name: "snd (by_name_check recovery_rows)"
  by (simp add: by_name_check_def row_eval by_name_prefix_def allowed_by_name_def insert_commute del: set_map set_filter)

lemma recovery_slots: "list_all snd (map (slot_check recovery_rows) [''vbmeta'', ''vbmeta_system'', ''vbmeta_vendor''])"
  by (simp add: slot_check_def row_eval by_name_prefix_def)

lemma sublist_line:
  assumes "CHR 0x0A \<notin> set t" "t \<noteq> []"
  shows "sublist t (l @ CHR 0x0A # s) \<longleftrightarrow> sublist t l \<or> sublist t s"
proof
  assume "sublist t (l @ CHR 0x0A # s)"
  then consider "sublist t l" | "sublist t (CHR 0x0A # s)"
    | u v where "t = u @ v" "suffix u l" "prefix v (CHR 0x0A # s)"
    by (auto simp: sublist_append)
  then show "sublist t l \<or> sublist t s"
  proof cases
    case 2
    then show ?thesis using assms by (auto simp: sublist_Cons_right prefix_Cons)
  next
    case 3
    then have "v = []" using assms(1) by (auto simp: prefix_Cons)
    with 3 show ?thesis by auto
  qed simp
next
  show "sublist t l \<or> sublist t s \<Longrightarrow> sublist t (l @ CHR 0x0A # s)"
    by (auto simp: sublist_append sublist_Cons_right)
qed

lemma str_in_unlines:
  assumes "CHR 0x0A \<notin> set t" "t \<noteq> []"
  shows "str_in t (unlines ls) \<longleftrightarrow> list_ex (str_in t) ls"
  using assms by (induction ls) (simp_all add: str_in_def unlines_def sublist_line)

lemma recovery_tokens:
  "list_all (\<lambda>token. \<not> str_in token recovery_fstab) forbidden_fstab"
  by (simp add: forbidden_fstab_def recovery_fstab_def str_in_unlines recovery_fstab_1_def recovery_fstab_2_def)
    (simp add: str_in_def sublist_Cons_right)

lemma recovery_devices: "logical_devices recovery_rows = [''system'', ''system'', ''system_ext'', ''system_ext'', ''vendor'', ''vendor'', ''product'', ''product'', ''odm'', ''odm'', ''vendor_dlkm'', ''vendor_dlkm'', ''odm_dlkm'', ''odm_dlkm'', ''system_dlkm'', ''system_dlkm'', ''mi_ext'', ''mi_ext'']"
  by (simp add: logical_devices_def row_eval)

lemma recovery_fstab_passes_doc:
  "\<exists>checks. fstab_checks recovery_fstab (Inr stock_fstab) = Inr checks \<and> list_all snd checks"
proof -
  have "snd (stock_check recovery_rows stock_fstab)"
    by (simp add: stock_check_def stock_fstab_read recovery_devices insert_commute)
  then show ?thesis
    using recovery_by_name recovery_slots recovery_tokens
    by (simp add: fstab_checks_def recovery_fstab_read recovery_logical recovery_mounts recovery_usb list_all_iff) auto
qed

section \<open>A tree that passes\<close>

text \<open>A small tree with one prebuilt file, around the repository's two fstab files.\<close>

definition doc_digest :: string where
  "doc_digest = ''0000000000000000000000000000000000000000000000000000000000000000''"

definition doc_project_lines :: "string list" where
  "doc_project_lines = project_required @ ''on boot'' # ''    wait /dev/xiaomi-touch 10'' #
     [''export EXTERNAL_STORAGE /data/media/0'', ''rmdir /sdcard'']"

definition doc_project_rc :: string where
  "doc_project_rc = unlines doc_project_lines"

definition doc_usb_rc :: string where
  "doc_usb_rc = ''import /init.recovery.project.rc\<newline>setprop sys.usb.configfs 1\<newline>setprop sys.usb.controller 16701000.usb0\<newline>''"

definition doc_android_mk :: string where
  "doc_android_mk = ''LOCAL_MODULE := init.recovery.project.rc\<newline>LOCAL_SRC_FILES := rootdir/init.recovery.project.rc\<newline>''"

definition doc_tree_with :: "string \<Rightarrow> verify_env" where
  "doc_tree_with board = \<lparr>
     env_files = [
       (''evidence/artifacts.json'', ''{}''),
       (''evidence/a15-prebuilts.sha256'', doc_digest @ '' prebuilt/a15-aidl/a.h\<newline>''),
       (''prebuilt/a15-aidl/a.h'', ''int a;''),
       (''extract-files.sh'', quoted ''$DEVICE_ROOT/evidence/stock-recovery.fstab''),
       (''BoardConfig.mk'', board),
       (''recovery.fstab'', recovery_fstab),
       (''evidence/stock-recovery.fstab'', stock_fstab),
       (''rootdir/init.recovery.mt6991.rc'', doc_usb_rc),
       (''rootdir/init.recovery.project.rc'', doc_project_rc),
       (''Android.mk'', doc_android_mk),
       (''device.mk'', ''init.recovery.project.rc'')],
     env_outside = (\<lambda>p. None), env_decode = Some, env_sha = (\<lambda>c. doc_digest), env_themes = (\<lambda>n. Some []),
     env_loads = (\<lambda>s. Inr [])\<rparr>"

definition doc_tree :: verify_env where
  "doc_tree = doc_tree_with (unlines board_required)"

lemma doc_tree_paths: "tree_paths_ok (env_files doc_tree)"
  by (simp add: tree_paths_ok_def doc_tree_def doc_tree_with_def path_parts_def)

lemma doc_with_reads:
  "read_file (doc_tree_with board) ''evidence/artifacts.json'' = Inr ''{}''"
  "read_file (doc_tree_with board) manifest_file = Inr (doc_digest @ '' prebuilt/a15-aidl/a.h\<newline>'')"
  "read_file (doc_tree_with board) ''extract-files.sh'' = Inr (quoted ''$DEVICE_ROOT/evidence/stock-recovery.fstab'')"
  "read_file (doc_tree_with board) ''BoardConfig.mk'' = Inr board"
  "read_file (doc_tree_with board) ''recovery.fstab'' = Inr recovery_fstab"
  "read_file (doc_tree_with board) ''evidence/stock-recovery.fstab'' = Inr stock_fstab"
  "read_file (doc_tree_with board) ''rootdir/init.recovery.mt6991.rc'' = Inr doc_usb_rc"
  "read_file (doc_tree_with board) ''rootdir/init.recovery.project.rc'' = Inr doc_project_rc"
  "read_file (doc_tree_with board) ''Android.mk'' = Inr doc_android_mk"
  "read_file (doc_tree_with board) ''device.mk'' = Inr ''init.recovery.project.rc''"
  by (simp_all add: read_file_def file_at_def path_parts_def doc_tree_with_def manifest_file_def)

lemma doc_tree_reads:
  "read_file doc_tree ''evidence/artifacts.json'' = Inr ''{}''"
  "read_file doc_tree manifest_file = Inr (doc_digest @ '' prebuilt/a15-aidl/a.h\<newline>'')"
  "read_file doc_tree ''extract-files.sh'' = Inr (quoted ''$DEVICE_ROOT/evidence/stock-recovery.fstab'')"
  "read_file doc_tree ''BoardConfig.mk'' = Inr (unlines board_required)"
  "read_file doc_tree ''recovery.fstab'' = Inr recovery_fstab"
  "read_file doc_tree ''evidence/stock-recovery.fstab'' = Inr stock_fstab"
  "read_file doc_tree ''rootdir/init.recovery.mt6991.rc'' = Inr doc_usb_rc"
  "read_file doc_tree ''rootdir/init.recovery.project.rc'' = Inr doc_project_rc"
  "read_file doc_tree ''Android.mk'' = Inr doc_android_mk"
  "read_file doc_tree ''device.mk'' = Inr ''init.recovery.project.rc''"
  by (simp_all add: doc_tree_def doc_with_reads)

lemma doc_prebuilts:
  "list_all snd (prebuilt_checks doc_tree (doc_digest @ '' prebuilt/a15-aidl/a.h\<newline>''))"
proof -
  let ?line = "doc_digest @ '' prebuilt/a15-aidl/a.h''"
  have s: "str_split ?line = [doc_digest, ''prebuilt/a15-aidl/a.h'']" "length doc_digest = 64"
    by (simp_all add: doc_digest_def str_split_def line_eval)
  have l: "str_splitlines (doc_digest @ '' prebuilt/a15-aidl/a.h\<newline>'') = [?line]"
    using splitlines_unlines [of "[?line]"] by (simp add: unlines_def doc_digest_def line_eval)
  have "manifest_line ?line doc_digest ''prebuilt/a15-aidl/a.h''"
    using s by (simp add: manifest_line_def prebuilt_prefix_def)
  then have "manifest_loop 1 [?line] Map.empty = ([], [''prebuilt/a15-aidl/a.h'' \<mapsto> doc_digest])"
      "manifest_paths [?line] = [''prebuilt/a15-aidl/a.h'']"
    using s(1) by (auto simp: manifest_loop_step manifest_paths_step)
  moreover have "actual_prebuilts doc_tree = [''prebuilt/a15-aidl/a.h'']"
    by (simp add: actual_prebuilts_def doc_tree_def doc_tree_with_def prebuilt_prefix_def)
  moreover have "file_at doc_tree ''prebuilt/a15-aidl/a.h'' = Some ''int a;''"
    by (simp add: file_at_def path_parts_def doc_tree_def doc_tree_with_def)
  ultimately show ?thesis
    by (simp add: prebuilt_checks_def l digest_checks_def List.map_filter_def doc_tree_def doc_tree_with_def)
qed

lemma doc_board: "list_all snd (board_checks (unlines board_required))"
proof -
  have "str_splitlines (unlines board_required) = board_required"
    by (rule splitlines_unlines) (simp add: board_required_def quoted_def line_eval)
  moreover have "list_all (\<lambda>token. list_ex (\<lambda>line. str_strip line = token) board_required) board_required"
    by (simp add: board_required_def quoted_def str_strip_def str_lstrip_def line_eval)
  moreover have "list_all (\<lambda>token. \<not> str_in token (unlines board_required)) board_forbidden"
    by (simp add: board_forbidden_def str_in_unlines board_required_def quoted_def) (simp add: str_in_def sublist_Cons_right)
  ultimately show ?thesis by (auto simp: board_checks_def list_all_iff)
qed

lemma str_in_line: "t \<in> set ls \<Longrightarrow> str_in t (unlines ls)"
  by (induction ls) (auto simp: str_in_def unlines_def sublist_append sublist_Cons_right)

lemma str_in_lines: "str_in (x @ CHR 0x0A # y) (unlines (a @ x # y # b))"
proof -
  have "unlines (a @ x # y # b) = unlines a @ (x @ CHR 0x0A # y) @ CHR 0x0A # unlines b" by (simp add: unlines_def)
  then show ?thesis unfolding str_in_def by (simp only: sublist_appendI)
qed

lemma doc_project_in:
  "list_all (\<lambda>t. str_in t doc_project_rc) doc_project_lines"
  "str_in ''on boot\<newline>    wait /dev/xiaomi-touch 10'' doc_project_rc"
  "\<not> str_in ''    oneshot\<newline>'' doc_project_rc"
proof -
  show "list_all (\<lambda>t. str_in t doc_project_rc) doc_project_lines"
    by (simp add: list_all_iff doc_project_rc_def str_in_line)
  show "str_in ''on boot\<newline>    wait /dev/xiaomi-touch 10'' doc_project_rc"
    using str_in_lines [of "''on boot''" "''    wait /dev/xiaomi-touch 10''"]
    unfolding doc_project_rc_def doc_project_lines_def by simp
  show "\<not> str_in ''    oneshot\<newline>'' doc_project_rc"
    by (simp add: doc_project_rc_def doc_project_lines_def project_required_def unlines_def str_in_def sublist_Cons_right)
qed

lemma doc_touch_order:
  "str_find ''insmod /lib/modules/xiaomi_touch_dash.ko'' doc_project_rc = 132"
  "str_find ''insmod /lib/modules/nt38771_touch_dash.ko'' doc_project_rc = 173"
  by (simp_all add: doc_project_rc_def doc_project_lines_def project_required_def unlines_def Let_def)

lemma doc_usb_in:
  "str_in ''import /init.recovery.project.rc'' doc_usb_rc" "str_in ''setprop sys.usb.configfs 1'' doc_usb_rc"
  "str_in ''16701000.usb0'' doc_usb_rc"
  by (simp_all add: doc_usb_rc_def str_in_def sublist_Cons_right)

lemma doc_scripts:
  "list_all snd (extract_checks (quoted ''$DEVICE_ROOT/evidence/stock-recovery.fstab''))"
  "list_all snd (rc_checks doc_usb_rc doc_project_rc)"
  "list_all snd (project_checks doc_usb_rc doc_project_rc)"
  "list_all snd (build_checks doc_android_mk ''init.recovery.project.rc'')"
proof -
  show "list_all snd (extract_checks (quoted ''$DEVICE_ROOT/evidence/stock-recovery.fstab''))"
    by (simp add: extract_checks_def quoted_def str_in_def sublist_Cons_right)
  show "list_all snd (rc_checks doc_usb_rc doc_project_rc)"
    using doc_usb_in doc_project_in(1) by (simp add: rc_checks_def doc_project_lines_def)
  show "list_all snd (project_checks doc_usb_rc doc_project_rc)"
    using doc_usb_in(1) doc_project_in doc_touch_order
    by (simp add: project_checks_def doc_project_lines_def list_all_iff)
  show "list_all snd (build_checks doc_android_mk ''init.recovery.project.rc'')"
    by (simp add: build_checks_def doc_android_mk_def str_in_def sublist_Cons_right)
qed

lemma doc_themes:
  "run_map (theme_check doc_tree) [''portrait.xml'', ''landscape.xml'', ''watch.xml''] = Inr [
     (''theme:portrait.xml:direct-storage-defaults'', True), (''theme:landscape.xml:direct-storage-defaults'', True),
     (''theme:watch.xml:direct-storage-defaults'', True)]"
  by (simp add: theme_check_def doc_tree_def doc_tree_with_def str_in_def)

lemma doc_with_runs: "\<exists>checks. verify_tree (doc_tree_with board) = Inr checks"
proof -
  obtain fs where fs: "fstab_checks recovery_fstab (Inr stock_fstab) = Inr fs"
    using recovery_fstab_passes_doc by blast
  have "env_loads (doc_tree_with board) ''{}'' = Inr []" by (simp add: doc_tree_with_def)
  moreover have "\<exists>ts. run_map (theme_check (doc_tree_with board)) [''portrait.xml'', ''landscape.xml'', ''watch.xml''] = Inr ts"
    by (simp add: theme_check_def doc_tree_with_def)
  ultimately show ?thesis using fs
    by (auto simp: verify_tree_def doc_with_reads simp del: run_map.simps)
qed

lemma doc_tree_passes: "\<exists>checks. verify_tree doc_tree = Inr checks \<and> verify_status checks = 0"
proof -
  obtain fs where fs: "fstab_checks recovery_fstab (Inr stock_fstab) = Inr fs" "list_all snd fs"
    using recovery_fstab_passes_doc by blast
  have "env_loads doc_tree ''{}'' = Inr []" by (simp add: doc_tree_def doc_tree_with_def)
  with fs doc_prebuilts doc_board doc_scripts show ?thesis
    by (simp add: verify_tree_def doc_tree_reads doc_themes verify_status_def del: run_map.simps)
qed

section \<open>Witnesses\<close>

lemma extra_languages_refused_witness:
  "\<exists>checks. verify_tree (doc_tree_with ''TW_EXTRA_LANGUAGES := true\<newline>'') = Inr checks \<and> verify_status checks = 1"
proof -
  obtain checks where "verify_tree (doc_tree_with ''TW_EXTRA_LANGUAGES := true\<newline>'') = Inr checks" using doc_with_runs by blast
  moreover have "read_file (doc_tree_with ''TW_EXTRA_LANGUAGES := true\<newline>'') ''BoardConfig.mk'' =
      Inr ([] @ ''TW_EXTRA_LANGUAGES := true'' @ ''\<newline>'')" by (simp add: doc_with_reads)
  ultimately show ?thesis using extra_languages_refused by blast
qed

lemma prebuilts_verified_witness:
  "\<exists>text. read_file doc_tree manifest_file = Inr text \<and>
     (\<exists>line \<in> set (str_splitlines text). manifest_line line doc_digest ''prebuilt/a15-aidl/a.h'')"
proof -
  obtain checks where c: "verify_tree doc_tree = Inr checks" "verify_status checks = 0" using doc_tree_passes by blast
  have "(''prebuilt/a15-aidl/a.h'', ''int a;'') \<in> set (env_files doc_tree)" "prefix prebuilt_prefix ''prebuilt/a15-aidl/a.h''"
      "env_sha doc_tree ''int a;'' = doc_digest"
    by (simp_all add: doc_tree_def doc_tree_with_def prebuilt_prefix_def)
  with prebuilts_verified [OF doc_tree_paths c] show ?thesis by fastforce
qed

lemma accepted_fstab_witness:
  "mount_row recovery_rows ''/cache'' ''/dev/block/by-name/rescue'' ''ext4''
     [''wait'', ''check'', ''formattable'', ''wipeduringfactoryreset=0'', ''display=Cache (Rescue)''] \<and>
   flagged_logical recovery_rows = flagged_logical (map str_split (content_lines stock_fstab))"
  using accepted_fstab [OF recovery_fstab_read, of stock_fstab] recovery_fstab_passes_doc by blast

lemma short_row_stops_witness:
  "fstab_checks ''system /system erofs'' (Inr []) = Inl Index_error"
proof -
  have "fstab_rows ''system /system erofs'' = Inr [[''system'', ''/system'', ''erofs'']]"
    by (simp add: fstab_rows_def content_lines_def str_splitlines_def line_eval)
  from short_row_stops [OF this, where name = "''system''"] show ?thesis by (simp add: logical_names_def)
qed

end
