(* ===== verification/Prelude.thy ===== *)
theory Prelude
  imports Main "HOL-Library.Word"
begin

text \<open>
  Shared vocabulary of the development: the machine types of the code (bytes, fixed-width
  unsigned integers, the signed 32-bit values of the AIDL enumerations), the in-memory image of
  an unsigned integer (the devices are little-endian arm64, so \<open>memcpy\<close> from a \<open>uint32_t\<close>
  writes its low byte first), the printed decimal form of \<open>std::to_string\<close>, short-circuit
  \<open>&&\<close> over a state, and the generic lemmas on lists and words used by several components.
\<close>

section \<open>Machine types\<close>

type_synonym byte = "8 word"
type_synonym u32 = "32 word"
type_synonym u64 = "64 word"

named_theorems wire_simps \<open>equations of the wire format: encodings and their lengths\<close>
named_theorems model_defs \<open>definitions of record-like operations that are safe to unfold\<close>

section \<open>Little-endian images\<close>

fun le_enc :: "nat \<Rightarrow> 'a::len word \<Rightarrow> byte list" where
  "le_enc 0 w = []"
| "le_enc (Suc n) w = ucast w # le_enc n (drop_bit 8 w)"

fun le_dec :: "byte list \<Rightarrow> 'a::len word" where
  "le_dec [] = 0"
| "le_dec (b # bs) = or (ucast b) (push_bit 8 (le_dec bs))"

lemma length_le_enc [simp]: "length (le_enc n w) = n"
  by (induction n arbitrary: w) auto

lemma le_dec_enc_take:
  fixes w :: "'a::len word"
  shows "(le_dec (le_enc n w) :: 'a word) = take_bit (8 * n) w"
proof (induction n arbitrary: w)
  case 0
  then show ?case by simp
next
  case (Suc n)
  have "bit (le_dec (le_enc (Suc n) w) :: 'a word) i = bit (take_bit (8 * Suc n) w) i"
    if "i < LENGTH('a)" for i
    using that by (auto simp: Suc bit_simps le_add_diff_inverse2)
  then show ?case by (intro bit_eqI) (simp add: possible_bit_word)
qed

lemma le_dec_enc:
  fixes w :: "'a::len word"
  assumes "LENGTH('a) \<le> 8 * n"
  shows "(le_dec (le_enc n w) :: 'a word) = w"
  using assms by (simp add: le_dec_enc_take take_bit_word_eq_self)

lemma le_enc_cong:
  fixes v w :: "'a::len word"
  assumes "\<And>i. i < 8 * n \<Longrightarrow> bit v i \<longleftrightarrow> bit w i"
  shows "le_enc n v = le_enc n w"
  using assms
proof (induction n arbitrary: v w)
  case 0
  then show ?case by simp
next
  case (Suc n)
  have "(ucast v :: byte) = ucast w"
    using Suc.prems by (intro bit_eqI) (auto simp: bit_simps)
  moreover have "le_enc n (drop_bit 8 v) = le_enc n (drop_bit 8 w)"
    using Suc.prems by (intro Suc.IH) (auto simp: bit_simps)
  ultimately show ?case by simp
qed

lemma le_enc_dec:
  "8 * length bs \<le> LENGTH('a) \<Longrightarrow> le_enc (length bs) (le_dec bs :: 'a::len word) = bs"
proof (induction bs)
  case Nil
  then show ?case by simp
next
  case (Cons b bs)
  have "ucast (or (ucast b) (push_bit 8 (le_dec bs)) :: 'a word) = b"
    using Cons.prems by (intro bit_eqI) (auto simp: bit_simps dest: bit_imp_le_length)
  moreover have "le_enc (length bs) (drop_bit 8 (or (ucast b) (push_bit 8 (le_dec bs)) :: 'a word))
      = le_enc (length bs) (le_dec bs :: 'a word)"
  proof (rule le_enc_cong)
    fix i assume "i < 8 * length bs"
    with Cons.prems show "bit (drop_bit 8 (or (ucast b) (push_bit 8 (le_dec bs)) :: 'a word)) i \<longleftrightarrow>
        bit (le_dec bs :: 'a word) i"
      by (auto simp: bit_simps dest: bit_imp_le_length)
  qed
  ultimately show ?case using Cons by simp
qed

definition le32 :: "u32 \<Rightarrow> byte list" where
  "le32 w = le_enc 4 w"

definition un_le32 :: "byte list \<Rightarrow> u32" where
  "un_le32 bs = le_dec bs"

definition le64 :: "u64 \<Rightarrow> byte list" where
  "le64 w = le_enc 8 w"

definition un_le64 :: "byte list \<Rightarrow> u64" where
  "un_le64 bs = le_dec bs"

lemma length_le32 [simp, wire_simps]: "length (le32 w) = 4"
  by (simp add: le32_def)

lemma length_le64 [simp, wire_simps]: "length (le64 w) = 8"
  by (simp add: le64_def)

lemma un_le32_le32 [simp, wire_simps]: "un_le32 (le32 w) = w"
  unfolding un_le32_def le32_def by (rule le_dec_enc) simp

lemma un_le64_le64 [simp, wire_simps]: "un_le64 (le64 w) = w"
  unfolding un_le64_def le64_def by (rule le_dec_enc) simp

lemma le32_inject [simp]: "le32 v = le32 w \<longleftrightarrow> v = w"
  by (metis un_le32_le32)

lemma le64_inject [simp]: "le64 v = le64 w \<longleftrightarrow> v = w"
  by (metis un_le64_le64)

section \<open>Short-circuit conjunction over a state\<close>

text \<open>
  The deserializers are chains \<open>read_a && read_b && ...\<close> whose operands advance a cursor and
  fill in fields, so each operand is a function on the state that also returns its truth value.
\<close>

definition and_then :: "('s \<Rightarrow> bool \<times> 's) \<Rightarrow> ('s \<Rightarrow> bool \<times> 's) \<Rightarrow> 's \<Rightarrow> bool \<times> 's" where
  "and_then f g s = (case f s of (ok, s') \<Rightarrow> if ok then g s' else (False, s'))"

lemma and_then_True [simp]: "f s = (True, s') \<Longrightarrow> and_then f g s = g s'"
  by (simp add: and_then_def)

lemma and_then_False [simp]: "f s = (False, s') \<Longrightarrow> and_then f g s = (False, s')"
  by (simp add: and_then_def)

lemma and_then_assoc: "and_then (and_then f g) h = and_then f (and_then g h)"
  by (rule ext) (simp add: and_then_def split: prod.splits)

section \<open>Decimal printing\<close>

fun nat_digits :: "nat \<Rightarrow> string" where
  "nat_digits n = (if n < 10 then [char_of (48 + n)] else nat_digits (n div 10) @ [char_of (48 + n mod 10)])"

declare nat_digits.simps [simp del]

definition int_to_string :: "int \<Rightarrow> string" where
  "int_to_string i = (if i < 0 then CHR ''-'' # nat_digits (nat (- i)) else nat_digits (nat i))"

fun digits_value :: "string \<Rightarrow> nat" where
  "digits_value s = foldl (\<lambda>acc c. 10 * acc + (of_char c - 48)) 0 s"

lemma of_char_digit: "d < 10 \<Longrightarrow> of_char (char_of (48 + d) :: char) = (48 + d :: nat)"
  by (simp add: of_char_of)

lemma digits_value_nat_digits: "digits_value (nat_digits n) = n"
proof (induction n rule: nat_digits.induct)
  case (1 n)
  show ?case
  proof (cases "n < 10")
    case True
    then show ?thesis by (subst nat_digits.simps) (simp add: of_char_digit)
  next
    case False
    then have "digits_value (nat_digits (n div 10)) = n div 10" using 1 by simp
    with False show ?thesis
      by (subst nat_digits.simps) (simp add: of_char_digit)
  qed
qed

lemma nat_digits_inject [simp]: "nat_digits m = nat_digits n \<longleftrightarrow> m = n"
  by (metis digits_value_nat_digits)

lemma nat_digits_hd: "\<exists>d < (10::nat). \<exists>cs. nat_digits n = char_of (48 + d) # cs"
proof (induction n rule: nat_digits.induct)
  case (1 n)
  show ?case
  proof (cases "n < 10")
    case True
    then show ?thesis by (subst nat_digits.simps) auto
  next
    case False
    with 1 obtain d :: nat and cs where "d < 10" "nat_digits (n div 10) = char_of (48 + d) # cs" by blast
    with False show ?thesis by (subst nat_digits.simps) auto
  qed
qed

definition starts_numeric :: "string \<Rightarrow> bool" where
  "starts_numeric s = (case s of [] \<Rightarrow> True
     | c # _ \<Rightarrow> c = CHR ''-'' \<or> (48 \<le> (of_char c :: nat) \<and> (of_char c :: nat) < 58))"

lemma nat_digits_no_minus: "nat_digits n \<noteq> CHR ''-'' # cs"
proof
  assume eq: "nat_digits n = CHR ''-'' # cs"
  obtain d :: nat and cs' where d: "d < 10" "nat_digits n = char_of (48 + d) # cs'"
    using nat_digits_hd by blast
  with eq have "char_of (48 + d) = CHR ''-''" by simp
  then have "of_char (char_of (48 + d) :: char) = (of_char CHR ''-'' :: nat)" by simp
  with d(1) show False by (simp add: of_char_digit)
qed

lemma int_to_string_inject [simp]: "int_to_string i = int_to_string j \<longleftrightarrow> i = j"
  using nat_digits_no_minus nat_digits_no_minus [symmetric]
  by (auto simp: int_to_string_def)

lemma int_to_string_numeric: "starts_numeric (int_to_string i)"
proof -
  obtain d :: nat and cs where "d < 10" "nat_digits (nat i) = char_of (48 + d) # cs"
    using nat_digits_hd by blast
  then show ?thesis
    by (auto simp: int_to_string_def starts_numeric_def of_char_digit)
qed

section \<open>Words and lists\<close>

lemma unat_of_nat_small: "n < 2 ^ LENGTH('a) \<Longrightarrow> unat (of_nat n :: 'a::len word) = n"
  by (simp only: unat_of_nat) simp

lemma find_Some_iff_unique:
  assumes "distinct (map f xs)" and "x \<in> set xs"
  shows "find (\<lambda>y. f y = f x) xs = Some x"
  using assms
proof (induction xs)
  case Nil
  then show ?case by simp
next
  case (Cons y ys)
  then show ?case by (cases "y = x") (auto simp: image_iff)
qed

lemma find_None_iff_notin: "find (\<lambda>y. f y = v) xs = None \<longleftrightarrow> v \<notin> f ` set xs"
  by (induction xs) auto

lemma find_SomeD: "find P xs = Some x \<Longrightarrow> x \<in> set xs \<and> P x"
  by (induction xs) (auto split: if_splits)

end
