(* ===== verification/PyBytes.thy ===== *)
theory PyBytes
  imports Prelude
begin

text \<open>
  The operations of Python's standard library that the tools under \<open>tools/\<close> use on byte strings:
  slices with their clamped and negative bounds, slice assignment on a \<open>bytearray\<close> (which resizes it),
  \<open>int(text, 16)\<close> with the white space, sign, prefix and underscores it accepts, strict UTF-8 decoding,
  \<open>splitlines\<close>, \<open>rstrip\<close>, and \<open>struct\<close> access to a little-endian 32-bit field.
\<close>

section \<open>Indices and slices\<close>

definition py_clamp :: "nat \<Rightarrow> int \<Rightarrow> nat" where
  "py_clamp n i = nat (min (int n) (if i < 0 then max 0 (i + int n) else i))"

definition py_slice :: "'a list \<Rightarrow> int \<Rightarrow> int \<Rightarrow> 'a list" where
  "py_slice xs i j = (let a = py_clamp (length xs) i; b = py_clamp (length xs) j in take (b - a) (drop a xs))"

definition py_from :: "'a list \<Rightarrow> int \<Rightarrow> 'a list" where
  "py_from xs i = drop (py_clamp (length xs) i) xs"

definition py_set_slice :: "'a list \<Rightarrow> int \<Rightarrow> int \<Rightarrow> 'a list \<Rightarrow> 'a list" where
  "py_set_slice xs i j ys =
     (let a = py_clamp (length xs) i; b = py_clamp (length xs) j in take a xs @ ys @ drop (max a b) xs)"

text \<open>\<open>xs[i]\<close>; \<open>None\<close> is the \<open>IndexError\<close>.\<close>

definition py_get :: "'a list \<Rightarrow> int \<Rightarrow> 'a option" where
  "py_get xs i = (let k = (if i < 0 then i + int (length xs) else i)
     in if 0 \<le> k \<and> k < int (length xs) then Some (xs ! nat k) else None)"

lemma py_clamp_nonneg [simp]: "0 \<le> i \<Longrightarrow> py_clamp n i = min n (nat i)"
  by (auto simp: py_clamp_def min_def nat_le_iff)

lemma py_clamp_of_nat [simp]: "py_clamp n (int k) = min n k"
  by simp

lemma py_slice_nat: "py_slice xs (int a) (int b) = take (b - a) (drop a xs)"
proof (cases "a \<le> length xs")
  case True
  then show ?thesis
    by (cases "b \<le> length xs") (simp_all add: py_slice_def min_def)
next
  case False
  then show ?thesis by (simp add: py_slice_def)
qed

lemma py_from_nat: "py_from xs (int a) = drop a xs"
  by (cases "a \<le> length xs") (simp_all add: py_from_def min_def)

lemma py_get_nat: "py_get xs (int k) = (if k < length xs then Some (xs ! k) else None)"
  by (simp add: py_get_def)

lemma py_set_slice_nat:
  assumes "a \<le> b" and "b \<le> length xs"
  shows "py_set_slice xs (int a) (int b) ys = take a xs @ ys @ drop b xs"
  using assms by (simp add: py_set_slice_def min_def max_def)

section \<open>Texts\<close>

text \<open>A bytes literal.\<close>

definition ascii :: "string \<Rightarrow> byte list" where
  "ascii s = map (\<lambda>c. of_nat (of_char c)) s"

lemma length_ascii [simp]: "length (ascii s) = length s"
  by (simp add: ascii_def)

lemma ascii_Nil [simp]: "ascii [] = []"
  by (simp add: ascii_def)

lemma ascii_Cons [simp]: "ascii (c # cs) = of_nat (of_char c) # ascii cs"
  by (simp add: ascii_def)

definition is_space :: "byte \<Rightarrow> bool" where
  "is_space b \<longleftrightarrow> b = 32 \<or> (9 \<le> b \<and> b \<le> 13)"

definition hex_val :: "byte \<Rightarrow> nat option" where
  "hex_val b = (if 48 \<le> b \<and> b \<le> 57 then Some (unat b - 48)
     else if 65 \<le> b \<and> b \<le> 70 then Some (unat b - 55)
     else if 97 \<le> b \<and> b \<le> 102 then Some (unat b - 87) else None)"

text \<open>The digits and single underscores between them; \<open>u\<close> is set after an underscore.\<close>

fun scan_hex :: "byte list \<Rightarrow> bool \<Rightarrow> nat \<Rightarrow> (nat \<times> byte list) option" where
  "scan_hex [] u acc = (if u then None else Some (acc, []))"
| "scan_hex (b # bs) u acc =
     (if b = 95 then (if u then None else scan_hex bs True acc)
      else case hex_val b of
        Some d \<Rightarrow> scan_hex bs False (16 * acc + d)
      | None \<Rightarrow> if u then None else Some (acc, b # bs))"

text \<open>\<open>int(text, 16)\<close>; \<open>None\<close> is the \<open>ValueError\<close>.\<close>

definition py_sign :: "byte list \<Rightarrow> bool \<times> byte list" where
  "py_sign s = (case s of [] \<Rightarrow> (False, [])
     | b # bs \<Rightarrow> if b = 43 then (False, bs) else if b = 45 then (True, bs) else (False, s))"

definition py_hex_prefix :: "byte list \<Rightarrow> byte list" where
  "py_hex_prefix s = (if 2 \<le> length s \<and> s ! 0 = 48 \<and> (s ! 1 = 120 \<or> s ! 1 = 88)
     then (if 2 < length s \<and> s ! 2 = 95 then drop 3 s else drop 2 s) else s)"

definition py_int16 :: "byte list \<Rightarrow> int option" where
  "py_int16 s =
     (let (neg, s) = py_sign (dropWhile is_space s);
          s = py_hex_prefix s
      in if s \<noteq> [] \<and> hd s = 95 then None
         else case scan_hex s False 0 of
           None \<Rightarrow> None
         | Some (v, rest) \<Rightarrow>
             if length rest = length s \<or> dropWhile is_space rest \<noteq> [] then None
             else Some (if neg then - int v else int v))"

text \<open>\<open>bytes.decode("utf-8", errors="strict")\<close> into code points.\<close>

definition utf8_cont :: "byte \<Rightarrow> bool" where
  "utf8_cont b \<longleftrightarrow> 0x80 \<le> b \<and> b \<le> 0xBF"

definition utf8_low :: "byte \<Rightarrow> nat" where
  "utf8_low b = unat b - 0x80"

fun utf8_decode :: "byte list \<Rightarrow> nat list option" where
  "utf8_decode [] = Some []"
| "utf8_decode (b # bs) =
     (if b < 0x80 then map_option ((#) (unat b)) (utf8_decode bs)
      else if 0xC2 \<le> b \<and> b \<le> 0xDF then
        (case bs of c # r \<Rightarrow>
           if utf8_cont c then map_option ((#) ((unat b - 0xC0) * 64 + utf8_low c)) (utf8_decode r) else None
         | _ \<Rightarrow> None)
      else if 0xE0 \<le> b \<and> b \<le> 0xEF then
        (case bs of c # d # r \<Rightarrow>
           if utf8_cont c \<and> utf8_cont d \<and> (b = 0xE0 \<longrightarrow> 0xA0 \<le> c) \<and> (b = 0xED \<longrightarrow> c \<le> 0x9F)
           then map_option ((#) ((unat b - 0xE0) * 4096 + utf8_low c * 64 + utf8_low d)) (utf8_decode r) else None
         | _ \<Rightarrow> None)
      else if 0xF0 \<le> b \<and> b \<le> 0xF4 then
        (case bs of c # d # e # r \<Rightarrow>
           if utf8_cont c \<and> utf8_cont d \<and> utf8_cont e \<and> (b = 0xF0 \<longrightarrow> 0x90 \<le> c) \<and> (b = 0xF4 \<longrightarrow> c \<le> 0x8F)
           then map_option ((#) ((unat b - 0xF0) * 262144 + utf8_low c * 4096 + utf8_low d * 64 + utf8_low e))
             (utf8_decode r) else None
         | _ \<Rightarrow> None)
      else None)"

text \<open>A string literal as code points.\<close>

definition py_str :: "string \<Rightarrow> nat list" where
  "py_str s = map of_char s"

lemma utf8_decode_ascii: "(\<And>c. c \<in> set s \<Longrightarrow> of_char c < (128::nat)) \<Longrightarrow> utf8_decode (ascii s) = Some (py_str s)"
proof (induction s)
  case Nil
  then show ?case by (simp add: py_str_def)
next
  case (Cons c s)
  then have c: "of_char c < (128::nat)" by simp
  then have "(of_nat (of_char c) :: byte) < 0x80"
    by (simp add: word_less_nat_alt unat_of_nat)
  moreover have "unat (of_nat (of_char c) :: byte) = of_char c"
    using c by (simp add: unat_of_nat)
  ultimately show ?case using Cons by (simp add: py_str_def)
qed

section \<open>Lines\<close>

text \<open>\<open>bytes.splitlines(keepends=True)\<close>: a line ends after \<open>\n\<close>, \<open>\r\<close> or \<open>\r\n\<close>.\<close>

fun split_lines :: "byte list \<Rightarrow> byte list \<Rightarrow> byte list list" where
  "split_lines cur [] = (if cur = [] then [] else [cur])"
| "split_lines cur (b # bs) =
     (if b = 10 then (cur @ [b]) # split_lines [] bs
      else if b = 13 then
        (case bs of c # r \<Rightarrow> if c = 10 then (cur @ [b, c]) # split_lines [] r else (cur @ [b]) # split_lines [] bs
         | [] \<Rightarrow> [cur @ [b]])
      else split_lines (cur @ [b]) bs)"

definition splitlines :: "byte list \<Rightarrow> byte list list" where
  "splitlines d = split_lines [] d"

definition rstrip :: "'a list \<Rightarrow> 'a list \<Rightarrow> 'a list" where
  "rstrip cs xs = rev (dropWhile (\<lambda>x. x \<in> set cs) (rev xs))"

lemma concat_split_lines: "concat (split_lines cur d) = cur @ d"
  by (induction cur d rule: split_lines.induct) (auto split: list.splits)

lemma concat_splitlines [simp]: "concat (splitlines d) = d"
  by (simp add: splitlines_def concat_split_lines)

text \<open>What a list of lines looks like: bodies without line ends, then a line end, which only the last line
  may lack; a \<open>\r\<close> is not followed by a line that starts with \<open>\n\<close>.\<close>

definition no_eol :: "byte list \<Rightarrow> bool" where
  "no_eol l \<longleftrightarrow> 10 \<notin> set l \<and> 13 \<notin> set l"

definition ends :: "byte list list" where
  "ends = [[10], [13], [13, 10]]"

fun line_list :: "byte list list \<Rightarrow> bool" where
  "line_list [] \<longleftrightarrow> True"
| "line_list [l] \<longleftrightarrow> l \<noteq> [] \<and> (no_eol l \<or> (\<exists>b e. l = b @ e \<and> no_eol b \<and> e \<in> set ends))"
| "line_list (l # l' # ls) \<longleftrightarrow> (\<exists>b e. l = b @ e \<and> no_eol b \<and> e \<in> set ends \<and> (e = [13] \<longrightarrow> hd l' \<noteq> 10)) \<and> line_list (l' # ls)"

lemma no_eol_append [simp]: "no_eol (a @ b) \<longleftrightarrow> no_eol a \<and> no_eol b"
  by (auto simp: no_eol_def)

lemma no_eol_Nil [simp]: "no_eol []"
  by (simp add: no_eol_def)

lemma no_eol_Cons [simp]: "no_eol (x # xs) \<longleftrightarrow> x \<noteq> 10 \<and> x \<noteq> 13 \<and> no_eol xs"
  by (auto simp: no_eol_def)

lemma ends_simps [simp]: "e \<in> set ends \<longleftrightarrow> e = [10] \<or> e = [13] \<or> e = [13, 10]"
  by (auto simp: ends_def)

lemma split_lines_body: "no_eol b \<Longrightarrow> split_lines cur (b @ r) = split_lines (cur @ b) r"
  by (induction b arbitrary: cur) auto

lemma splitlines_lines: "line_list ls \<Longrightarrow> splitlines (concat ls) = ls"
  unfolding splitlines_def
proof (induction ls rule: line_list.induct)
  case 1
  then show ?case by simp
next
  case (2 l)
  then show ?case
    by (auto simp: split_lines_body split_lines_body [where r = "[]", simplified])
next
  case (3 l l' ls)
  then obtain b e where l: "l = b @ e" "no_eol b" "e \<in> set ends" "e = [13] \<longrightarrow> hd l' \<noteq> 10"
    and rest: "line_list (l' # ls)" by auto
  then have IH: "split_lines [] (l' @ concat ls) = l' # ls" using 3 by simp
  have l': "l' \<noteq> []" using rest by (cases ls) auto
  then obtain h t where "l' = h # t" by (cases l') auto
  then show ?case using l IH by (auto simp: split_lines_body)
qed

lemma split_lines_nonempty: "[] \<notin> set (split_lines cur d)"
  by (induction cur d rule: split_lines.induct) (auto split: list.splits)

lemma hd_split_lines:
  assumes "split_lines cur d = l # ls"
  shows "cur @ d \<noteq> [] \<and> hd l = hd (cur @ d)"
proof -
  have "l @ concat ls = cur @ d" using concat_split_lines [of cur d] assms by simp
  moreover have "l \<noteq> []" using split_lines_nonempty [of cur d] assms by auto
  ultimately show ?thesis by (metis append_is_Nil_conv hd_append2)
qed

lemma line_list_Cons:
  assumes "no_eol b" "e \<in> set ends" "line_list ls" "e = [13] \<Longrightarrow> ls \<noteq> [] \<Longrightarrow> hd (hd ls) \<noteq> 10"
  shows "line_list ((b @ e) # ls)"
  using assms by (cases ls) auto

lemma line_list_split_lines: "no_eol cur \<Longrightarrow> line_list (split_lines cur d)"
proof (induction cur d rule: split_lines.induct)
  case (1 cur)
  then show ?case by simp
next
  case (2 cur b bs)
  consider "b = 10" | "b = 13" "bs = []" | r where "b = 13" "bs = 10 # r"
    | c r where "b = 13" "bs = c # r" "c \<noteq> 10" | "b \<noteq> 10" "b \<noteq> 13"
    by (cases bs) auto
  then show ?case
  proof cases
    case 1
    with 2 have "line_list ((cur @ [10]) # split_lines [] bs)" by (intro line_list_Cons) auto
    with 1 show ?thesis by simp
  next
    case b: 2
    have "line_list ((cur @ [13]) # [])" using "2.prems" by (intro line_list_Cons) auto
    with b show ?thesis by simp
  next
    case (3 r)
    with 2 have "line_list ((cur @ [13, 10]) # split_lines [] r)" by (intro line_list_Cons) auto
    with 3 show ?thesis by simp
  next
    case (4 c r)
    have "hd (hd (split_lines [] (c # r))) \<noteq> 10" if "split_lines [] (c # r) \<noteq> []"
      using that hd_split_lines [of "[]" "c # r"] 4(3) by (cases "split_lines [] (c # r)") auto
    with 2 4 have "line_list ((cur @ [13]) # split_lines [] (c # r))"
      by (intro line_list_Cons) auto
    with 4 show ?thesis by simp
  next
    case 5
    then show ?thesis using 2 by simp
  qed
qed

lemma line_list_splitlines: "line_list (splitlines d)"
  by (simp add: splitlines_def line_list_split_lines)

section \<open>struct\<close>

text \<open>\<open>struct.unpack_from("<I", d, off)\<close> and \<open>struct.pack_into("<I", d, off, v)\<close>; \<open>None\<close> is
  \<open>struct.error\<close>.\<close>

definition unpack_u32 :: "byte list \<Rightarrow> nat \<Rightarrow> nat option" where
  "unpack_u32 d off = (if off + 4 \<le> length d then Some (unat (un_le32 (take 4 (drop off d)))) else None)"

definition pack_u32 :: "byte list \<Rightarrow> nat \<Rightarrow> nat \<Rightarrow> byte list option" where
  "pack_u32 d off v = (if off + 4 \<le> length d \<and> v < 2 ^ 32
     then Some (take off d @ le32 (of_nat v) @ drop (off + 4) d) else None)"

lemma unpack_pack_u32:
  "pack_u32 d off v = Some d' \<Longrightarrow> unpack_u32 d' off = Some v"
  by (auto simp: pack_u32_def unpack_u32_def unat_of_nat split: if_splits)

lemma pack_u32_length: "pack_u32 d off v = Some d' \<Longrightarrow> length d' = length d"
  by (auto simp: pack_u32_def split: if_splits)

end
