(* ===== verification/VendorBoot.thy ===== *)
theory VendorBoot
  imports PyBytes
begin

text \<open>
  \<open>tools/repack_vendor_boot.py\<close> and \<open>tools/prepare_fragments.py\<close>: the reader \<open>rd\<close> of a vendor_boot image
  (header version 4, two ramdisk fragments), the part of \<open>main\<close> that lays out the new image, and the second
  reader \<open>parse\<close>. An image is its list of bytes. Every number is an unsigned 32-bit field or a length, so
  offsets are natural numbers; slices are Python's, which clamp, and a img_slice assignment to the \<open>bytearray\<close>
  resizes it when the lengths differ. Unpacking the fragments, \<open>lz4\<close>, \<open>cpio\<close> and the files are not modelled.
\<close>

section \<open>Reading\<close>

definition PAGE_SIZE :: nat where
  "PAGE_SIZE = 4096"

definition PART_SZ :: nat where
  "PART_SZ = 67108864"

definition align :: "nat \<Rightarrow> nat \<Rightarrow> nat" where
  "align v a = (v + a - 1) div a * a"

datatype vb_error = Struct_error | Decode_error | No_fragment | Dtb_not_found | Wrong_size (written_file: "byte list")

record vb_frag =
  fr_sz :: nat
  fr_off :: nat
  fr_typ :: nat
  fr_name :: "nat list"
  fr_payload :: "byte list"

record vb_image =
  vb_raw :: "byte list"
  vb_p0 :: "byte list"
  vb_hs :: nat
  vb_ds :: nat
  vb_rs :: nat
  vb_ro :: nat
  vb_dtbo :: nat
  vb_tblo :: nat
  vb_ec :: nat
  vb_es :: nat
  vb_frags :: "vb_frag list"

definition img_slice :: "byte list \<Rightarrow> nat \<Rightarrow> nat \<Rightarrow> byte list" where
  "img_slice d a b = py_slice d (int a) (int b)"

text \<open>The loop over the table: \<open>i\<close> runs while \<open>n\<close> entries are left.\<close>

fun read_frags :: "byte list \<Rightarrow> nat \<Rightarrow> nat \<Rightarrow> nat \<Rightarrow> nat \<Rightarrow> nat \<Rightarrow> vb_error + vb_frag list" where
  "read_frags d ro tblo es i 0 = Inr []"
| "read_frags d ro tblo es i (Suc n) =
     (let eo = tblo + i * es
      in if eo + 12 > length d then Inr []
         else case (unpack_u32 d eo, unpack_u32 d (eo + 4), unpack_u32 d (eo + 8)) of
           (Some sz, Some off, Some typ) \<Rightarrow>
             (case utf8_decode (rstrip [0] (img_slice d (eo + 12) (eo + 44))) of
                None \<Rightarrow> Inl Decode_error
              | Some name \<Rightarrow>
                  (case read_frags d ro tblo es (Suc i) n of
                     Inl e \<Rightarrow> Inl e
                   | Inr fs \<Rightarrow> Inr (\<lparr>fr_sz = sz, fr_off = off, fr_typ = typ, fr_name = name,
                       fr_payload = (if sz > 0 \<and> ro + off + sz \<le> length d then img_slice d (ro + off) (ro + off + sz) else [])\<rparr> # fs)))
         | _ \<Rightarrow> Inl Struct_error)"

definition rd :: "byte list \<Rightarrow> vb_error + vb_image" where
  "rd d = (case (unpack_u32 d 2096, unpack_u32 d 2100, unpack_u32 d 2112, unpack_u32 d 2116, unpack_u32 d 2120, unpack_u32 d 2124, unpack_u32 d 24) of
       (Some hs, Some ds, Some _, Some ec, Some es, Some _, Some rs) \<Rightarrow>
         (let ro = align hs PAGE_SIZE;
              dtbo = align (ro + rs) PAGE_SIZE;
              tblo = align (dtbo + align ds PAGE_SIZE) PAGE_SIZE
          in case read_frags d ro tblo es 0 ec of
            Inl e \<Rightarrow> Inl e
          | Inr frags \<Rightarrow> Inr \<lparr>vb_raw = d, vb_p0 = img_slice d 0 PAGE_SIZE, vb_hs = hs, vb_ds = ds, vb_rs = rs,
              vb_ro = ro, vb_dtbo = dtbo, vb_tblo = tblo, vb_ec = ec, vb_es = es, vb_frags = frags\<rparr>)
     | _ \<Rightarrow> Inl Struct_error)"

text \<open>\<open>prepare_fragments.parse\<close>: the same fields, the payloads img_slice out without a check.\<close>

fun parse_frags :: "byte list \<Rightarrow> nat \<Rightarrow> nat \<Rightarrow> nat \<Rightarrow> nat \<Rightarrow> nat \<Rightarrow> vb_error + byte list list" where
  "parse_frags d ro tblo es i 0 = Inr []"
| "parse_frags d ro tblo es i (Suc n) =
     (let eo = tblo + i * es
      in case (unpack_u32 d eo, unpack_u32 d (eo + 4), unpack_u32 d (eo + 8)) of
        (Some sz, Some off, Some typ) \<Rightarrow>
          (case parse_frags d ro tblo es (Suc i) n of
             Inl e \<Rightarrow> Inl e
           | Inr fs \<Rightarrow> Inr (img_slice d (ro + off) (ro + off + sz) # fs))
      | _ \<Rightarrow> Inl Struct_error)"

definition vb_parse :: "byte list \<Rightarrow> vb_error + byte list list" where
  "vb_parse d = (case (unpack_u32 d 2096, unpack_u32 d 2100, unpack_u32 d 24, unpack_u32 d 2116, unpack_u32 d 2120) of
       (Some hs, Some ds, Some rs, Some ec, Some es) \<Rightarrow>
         (let ro = align hs PAGE_SIZE;
              dtbo = align (ro + rs) PAGE_SIZE;
              tblo = align (dtbo + align ds PAGE_SIZE) PAGE_SIZE
          in parse_frags d ro tblo es 0 ec)
     | _ \<Rightarrow> Inl Struct_error)"

section \<open>Laying out the new image\<close>

definition assign :: "byte list \<Rightarrow> nat \<Rightarrow> nat \<Rightarrow> byte list \<Rightarrow> byte list" where
  "assign img a b ys = py_set_slice img (int a) (int b) ys"

definition dtb_magic :: "byte list" where
  "dtb_magic = [0xd0, 0x0d, 0xfe, 0xed]"

text \<open>The scan for the device tree: the first magic number, less the 64 bytes of its header.\<close>

fun find_magic :: "byte list \<Rightarrow> nat \<Rightarrow> nat \<Rightarrow> nat option" where
  "find_magic raw k 0 = None"
| "find_magic raw k (Suc n) = (if img_slice raw k (k + 4) = dtb_magic then Some k else find_magic raw (Suc k) n)"

definition dtb_start :: "vb_image \<Rightarrow> int option" where
  "dtb_start tpl = map_option (\<lambda>k. int k - 64)
     (find_magic (vb_raw tpl) (vb_dtbo tpl) (min (vb_dtbo tpl + 256) (length (vb_raw tpl)) - vb_dtbo tpl))"

text \<open>One entry of the table.\<close>

definition table_entry :: "nat \<Rightarrow> nat \<Rightarrow> nat \<Rightarrow> nat \<Rightarrow> byte list option" where
  "table_entry es len off typ =
     Option.bind (pack_u32 (replicate es 0) 0 len) (\<lambda>raw.
     Option.bind (pack_u32 raw 4 off) (\<lambda>raw.
     Option.bind (pack_u32 raw 8 typ) (\<lambda>raw. Some (assign raw 12 44 (replicate 32 0)))))"

text \<open>The image is written before its size is tested: a failure of the test leaves the file there, so that
  \<open>Wrong_size\<close> carries it. Every other error comes before the file is opened.\<close>

definition build :: "vb_image \<Rightarrow> byte list \<Rightarrow> vb_error + byte list" where
  "build tpl f1_new =
     (case vb_frags tpl of
        [] \<Rightarrow> Inl No_fragment
      | fr0 # _ \<Rightarrow>
          let f0 = fr_payload fr0;
              rsz = length f0 + length f1_new;
              img = assign (replicate PART_SZ 0) 0 PAGE_SIZE (img_slice (vb_p0 tpl) 0 PAGE_SIZE)
          in case pack_u32 img 24 rsz of
            None \<Rightarrow> Inl Struct_error
          | Some img \<Rightarrow>
              let ro = align (vb_hs tpl) PAGE_SIZE;
                  img = assign img ro (ro + length f0) f0;
                  img = assign img (ro + length f0) (ro + rsz) f1_new;
                  dtbo = align (ro + rsz) PAGE_SIZE
              in case dtb_start tpl of
                None \<Rightarrow> Inl Dtb_not_found
              | Some d_start \<Rightarrow>
                  if d_start < int (vb_dtbo tpl) then Inl Dtb_not_found
                  else let img = assign img dtbo (dtbo + vb_ds tpl)
                             (py_slice (vb_raw tpl) d_start (d_start + int (vb_ds tpl)));
                           tblo = align (dtbo + align (vb_ds tpl) PAGE_SIZE) PAGE_SIZE
                    in case (table_entry (vb_es tpl) (length f0) 0 1, table_entry (vb_es tpl) (length f1_new) (length f0) 2) of
                      (Some e0, Some e1) \<Rightarrow>
                        let img = assign img tblo (tblo + vb_es tpl) e0;
                            img = assign img (tblo + vb_es tpl) (tblo + 2 * vb_es tpl) e1
                        in if length img = PART_SZ then Inr img else Inl (Wrong_size img)
                    | _ \<Rightarrow> Inl Struct_error)"

section \<open>Alignment\<close>

lemma align_ge:
  assumes "0 < a"
  shows "v \<le> align v a"
proof -
  have "(v + a - 1) div a * a + (v + a - 1) mod a = v + a - 1" by simp
  then show ?thesis using mod_less_divisor [OF assms, of "v + a - 1"] unfolding align_def by linarith
qed

lemma align_less:
  assumes "0 < a"
  shows "align v a < v + a"
  using div_times_less_eq_dividend [of "v + a - 1" a] assms unfolding align_def by linarith

lemma align_dvd: "a dvd align v a"
  by (simp add: align_def)

lemma align_PAGE_pos: "1 \<le> v \<Longrightarrow> PAGE_SIZE \<le> align v PAGE_SIZE"
  using align_ge [of PAGE_SIZE v] align_dvd [of PAGE_SIZE v] by (auto simp: PAGE_SIZE_def dest: dvd_imp_le)

section \<open>Slices of an assigned image\<close>

lemma slice_take_drop: "img_slice d a b = take (b - a) (drop a d)"
  unfolding img_slice_def by (rule py_slice_nat)

lemma length_img_slice [simp]: "b \<le> length d \<Longrightarrow> length (img_slice d a b) = b - a"
  by (simp add: slice_take_drop)

lemma unpack_slice: "unpack_u32 d k = (if k + 4 \<le> length d then Some (unat (un_le32 (img_slice d k (k + 4)))) else None)"
  by (simp add: unpack_u32_def slice_take_drop)

lemma slice_slice: "b \<le> length d \<Longrightarrow> a + n \<le> b \<Longrightarrow> img_slice (img_slice d a b) m n = img_slice d (a + m) (a + n)"
  by (simp add: slice_take_drop take_drop min_def add.commute)

lemma assign_parts:
  assumes "a \<le> b" "b \<le> length img"
  shows "assign img a b ys = take a img @ ys @ drop b img"
  unfolding assign_def by (rule py_set_slice_nat [OF assms])

lemma slice_assign:
  assumes "a \<le> b" "b \<le> length img" "length ys = b - a"
  shows "length (assign img a b ys) = length img"
    and "d \<le> a \<Longrightarrow> img_slice (assign img a b ys) c d = img_slice img c d"
    and "b \<le> c \<Longrightarrow> img_slice (assign img a b ys) c d = img_slice img c d"
    and "a \<le> c \<Longrightarrow> d \<le> b \<Longrightarrow> img_slice (assign img a b ys) c d = img_slice ys (c - a) (d - a)"
    and "img_slice (assign img a b ys) a b = ys"
proof -
  note p = assign_parts [OF assms(1,2), of ys]
  show "length (assign img a b ys) = length img" using assms by (simp add: p)
  show "d \<le> a \<Longrightarrow> img_slice (assign img a b ys) c d = img_slice img c d"
  proof -
    assume "d \<le> a"
    then show ?thesis using assms by (cases "c \<le> d") (simp_all add: p slice_take_drop drop_take min_def)
  qed
  show "b \<le> c \<Longrightarrow> img_slice (assign img a b ys) c d = img_slice img c d"
  proof -
    assume "b \<le> c"
    then show ?thesis using assms by (simp add: p slice_take_drop)
  qed
  show "a \<le> c \<Longrightarrow> d \<le> b \<Longrightarrow> img_slice (assign img a b ys) c d = img_slice ys (c - a) (d - a)"
  proof -
    assume "a \<le> c" "d \<le> b"
    then show ?thesis using assms by (simp add: p slice_take_drop)
  qed
  show "img_slice (assign img a b ys) a b = ys" using assms by (simp add: p slice_take_drop)
qed

lemma pack_assign:
  "k + 4 \<le> length d \<Longrightarrow> v < 2 ^ 32 \<Longrightarrow> pack_u32 d k v = Some (assign d k (k + 4) (le32 (of_nat v)))"
  by (simp add: pack_u32_def assign_parts)

lemma unat_un_le32_le32: "v < 2 ^ 32 \<Longrightarrow> unat (un_le32 (le32 (of_nat v))) = v"
  by (simp add: unat_of_nat)

lemma table_entry:
  assumes "44 \<le> es" "len < 2 ^ 32" "off < 2 ^ 32" "typ < 2 ^ 32"
  shows "table_entry es len off typ =
    Some (le32 (of_nat len) @ le32 (of_nat off) @ le32 (of_nat typ) @ replicate (es - 12) 0)"
proof -
  have z: "replicate es 0 = replicate 4 (0::byte) @ replicate 4 0 @ replicate 4 0 @ replicate (es - 12) 0"
    using assms(1) by (simp add: replicate_add [symmetric])
  have r: "drop 44 (le32 a @ le32 b @ le32 c @ replicate (es - 12) (0::byte)) = replicate (es - 44) 0"
    "take 12 (le32 a @ le32 b @ le32 c @ replicate (es - 12) (0::byte)) = le32 a @ le32 b @ le32 c" for a b c
    using assms(1) by simp_all
  have "replicate (es - 12) (0::byte) = replicate 32 0 @ replicate (es - 44) 0"
    using assms(1) by (simp add: replicate_add [symmetric])
  then show ?thesis using assms
    unfolding table_entry_def z
    by (simp add: pack_u32_def assign_parts r)
qed

section \<open>The new image\<close>

definition new_dtbo :: "vb_image \<Rightarrow> byte list \<Rightarrow> byte list \<Rightarrow> nat" where
  "new_dtbo t f0 f1 = align (align (vb_hs t) PAGE_SIZE + (length f0 + length f1)) PAGE_SIZE"

definition new_tblo :: "vb_image \<Rightarrow> byte list \<Rightarrow> byte list \<Rightarrow> nat" where
  "new_tblo t f0 f1 = align (new_dtbo t f0 f1 + align (vb_ds t) PAGE_SIZE) PAGE_SIZE"

text \<open>The template is complete and the new fragments fit the partition.\<close>

definition vb_fits :: "vb_image \<Rightarrow> byte list \<Rightarrow> bool" where
  "vb_fits t f1 \<longleftrightarrow> (case vb_frags t of [] \<Rightarrow> False | fr0 # _ \<Rightarrow>
     1 \<le> vb_hs t \<and> PAGE_SIZE \<le> length (vb_raw t) \<and> 44 \<le> vb_es t \<and>
     fr_payload fr0 \<noteq> [] \<and> f1 \<noteq> [] \<and> new_tblo t (fr_payload fr0) f1 + 2 * vb_es t \<le> PART_SZ \<and>
     (case dtb_start t of None \<Rightarrow> False
      | Some s \<Rightarrow> int (vb_dtbo t) \<le> s \<and> nat s + vb_ds t \<le> length (vb_raw t)))"

text \<open>The table entries and the image, written out.\<close>

definition entry_bytes :: "nat \<Rightarrow> nat \<Rightarrow> nat \<Rightarrow> nat \<Rightarrow> byte list" where
  "entry_bytes es len off typ = le32 (of_nat len) @ le32 (of_nat off) @ le32 (of_nat typ) @ replicate (es - 12) 0"

definition new_image :: "vb_image \<Rightarrow> byte list \<Rightarrow> byte list \<Rightarrow> nat \<Rightarrow> byte list" where
  "new_image t f0 f1 s =
     (let ro = align (vb_hs t) PAGE_SIZE; rsz = length f0 + length f1; dtbo = new_dtbo t f0 f1; tblo = new_tblo t f0 f1;
          img = assign (replicate PART_SZ 0) 0 PAGE_SIZE (vb_p0 t);
          img = assign img 24 28 (le32 (of_nat rsz));
          img = assign img ro (ro + length f0) f0;
          img = assign img (ro + length f0) (ro + rsz) f1;
          img = assign img dtbo (dtbo + vb_ds t) (img_slice (vb_raw t) s (s + vb_ds t));
          img = assign img tblo (tblo + vb_es t) (entry_bytes (vb_es t) (length f0) 0 1)
      in assign img (tblo + vb_es t) (tblo + 2 * vb_es t) (entry_bytes (vb_es t) (length f1) (length f0) 2))"

lemma length_entry_bytes [simp]: "44 \<le> es \<Longrightarrow> length (entry_bytes es len off typ) = es"
  by (simp add: entry_bytes_def)

lemma layout_order:
  assumes "1 \<le> vb_hs t" "new_tblo t f0 f1 + 2 * vb_es t \<le> PART_SZ"
  defines "ro \<equiv> align (vb_hs t) PAGE_SIZE"
  shows "4096 \<le> ro" "ro + (length f0 + length f1) \<le> new_dtbo t f0 f1"
    "new_dtbo t f0 f1 + vb_ds t \<le> new_tblo t f0 f1" "new_tblo t f0 f1 + 2 * vb_es t \<le> 67108864"
    "length f0 + length f1 < 2 ^ 32"
proof -
  have p: "0 < PAGE_SIZE" by (simp add: PAGE_SIZE_def)
  show 1: "4096 \<le> ro" unfolding ro_def using align_PAGE_pos [OF assms(1)] by (simp add: PAGE_SIZE_def)
  show 2: "ro + (length f0 + length f1) \<le> new_dtbo t f0 f1"
    unfolding new_dtbo_def ro_def by (rule align_ge [OF p])
  have "new_dtbo t f0 f1 + align (vb_ds t) PAGE_SIZE \<le> new_tblo t f0 f1"
    unfolding new_tblo_def by (rule align_ge [OF p])
  then show 3: "new_dtbo t f0 f1 + vb_ds t \<le> new_tblo t f0 f1" using align_ge [OF p, of "vb_ds t"] by linarith
  show 4: "new_tblo t f0 f1 + 2 * vb_es t \<le> 67108864" using assms(2) by (simp add: PART_SZ_def)
  show "length f0 + length f1 < 2 ^ 32" using 2 3 4 by simp
qed

text \<open>The image as a chain of frames: what each later assignment leaves as it was.\<close>

lemma new_image_slices:
  assumes "1 \<le> vb_hs t" "new_tblo t f0 f1 + 2 * vb_es t \<le> PART_SZ" "44 \<le> vb_es t" "length (vb_p0 t) = PAGE_SIZE"
    and "s + vb_ds t \<le> length (vb_raw t)"
  defines "ro \<equiv> align (vb_hs t) PAGE_SIZE" and "dtbo \<equiv> new_dtbo t f0 f1" and "tblo \<equiv> new_tblo t f0 f1"
    and "img \<equiv> new_image t f0 f1 s"
  shows "length img = PART_SZ"
    and "b \<le> 4096 \<Longrightarrow> b \<le> 24 \<or> 28 \<le> a \<Longrightarrow> img_slice img a b = img_slice (vb_p0 t) a b"
    and "img_slice img 24 28 = le32 (of_nat (length f0 + length f1))"
    and "img_slice img ro (ro + length f0) = f0"
    and "img_slice img (ro + length f0) (ro + (length f0 + length f1)) = f1"
    and "img_slice img dtbo (dtbo + vb_ds t) = img_slice (vb_raw t) s (s + vb_ds t)"
    and "img_slice img tblo (tblo + vb_es t) = entry_bytes (vb_es t) (length f0) 0 1"
    and "img_slice img (tblo + vb_es t) (tblo + 2 * vb_es t) = entry_bytes (vb_es t) (length f1) (length f0) 2"
proof -
  define i0 where "i0 = assign (replicate PART_SZ 0) 0 PAGE_SIZE (vb_p0 t)"
  define i1 where "i1 = assign i0 24 28 (le32 (of_nat (length f0 + length f1)))"
  define i2 where "i2 = assign i1 ro (ro + length f0) f0"
  define i3 where "i3 = assign i2 (ro + length f0) (ro + (length f0 + length f1)) f1"
  define i4 where "i4 = assign i3 dtbo (dtbo + vb_ds t) (img_slice (vb_raw t) s (s + vb_ds t))"
  define i5 where "i5 = assign i4 tblo (tblo + vb_es t) (entry_bytes (vb_es t) (length f0) 0 1)"
  have img: "img = assign i5 (tblo + vb_es t) (tblo + 2 * vb_es t) (entry_bytes (vb_es t) (length f1) (length f0) 2)"
    by (simp add: img_def new_image_def Let_def i0_def i1_def i2_def i3_def i4_def i5_def ro_def dtbo_def tblo_def)
  note l = layout_order [OF assms(1,2), folded ro_def dtbo_def tblo_def]
  have P: "PAGE_SIZE = 4096" "PART_SZ = 67108864" by (simp_all add: PAGE_SIZE_def PART_SZ_def)
  have "0 \<le> PAGE_SIZE" "PAGE_SIZE \<le> length (replicate PART_SZ (0::byte))" "length (vb_p0 t) = PAGE_SIZE - 0"
    using assms(4) by (simp_all add: P)
  note a0 = slice_assign [OF this, folded i0_def]
  have n0: "length i0 = PART_SZ" using a0(1) by simp
  have "24 \<le> (28::nat)" "28 \<le> length i0" "length (le32 (of_nat (length f0 + length f1))) = 28 - 24"
    by (simp_all add: n0 P)
  note a1 = slice_assign [OF this, folded i1_def]
  have n1: "length i1 = PART_SZ" using a1(1) n0 by simp
  have "ro \<le> ro + length f0" "ro + length f0 \<le> length i1" "length f0 = ro + length f0 - ro"
    using l n1 by (simp_all add: P)
  note a2 = slice_assign [OF this, folded i2_def]
  have n2: "length i2 = PART_SZ" using a2(1) n1 by simp
  have "ro + length f0 \<le> ro + (length f0 + length f1)" "ro + (length f0 + length f1) \<le> length i2"
    "length f1 = ro + (length f0 + length f1) - (ro + length f0)" using l n2 by (simp_all add: P)
  note a3 = slice_assign [OF this, folded i3_def]
  have n3: "length i3 = PART_SZ" using a3(1) n2 by simp
  have "dtbo \<le> dtbo + vb_ds t" "dtbo + vb_ds t \<le> length i3"
    "length (img_slice (vb_raw t) s (s + vb_ds t)) = dtbo + vb_ds t - dtbo" using l n3 assms(5) by (simp_all add: P)
  note a4 = slice_assign [OF this, folded i4_def]
  have n4: "length i4 = PART_SZ" using a4(1) n3 by simp
  have "tblo \<le> tblo + vb_es t" "tblo + vb_es t \<le> length i4"
    "length (entry_bytes (vb_es t) (length f0) 0 1) = tblo + vb_es t - tblo" using l n4 assms(3) by (simp_all add: P)
  note a5 = slice_assign [OF this, folded i5_def]
  have n5: "length i5 = PART_SZ" using a5(1) n4 by simp
  have "tblo + vb_es t \<le> tblo + 2 * vb_es t" "tblo + 2 * vb_es t \<le> length i5"
    "length (entry_bytes (vb_es t) (length f1) (length f0) 2) = tblo + 2 * vb_es t - (tblo + vb_es t)"
    using l n5 assms(3) by (simp_all add: P)
  note a6 = slice_assign [OF this, folded img]
  show "length img = PART_SZ" using a6(1) n5 by simp
  show "b \<le> 4096 \<Longrightarrow> b \<le> 24 \<or> 28 \<le> a \<Longrightarrow> img_slice img a b = img_slice (vb_p0 t) a b"
    using l by (auto simp: a6(2) a5(2) a4(2) a3(2) a2(2) a1(2,3) a0(4) P)
  show "img_slice img 24 28 = le32 (of_nat (length f0 + length f1))"
    using l by (simp add: a6(2) a5(2) a4(2) a3(2) a2(2) a1(5))
  show "img_slice img ro (ro + length f0) = f0"
    using l by (simp add: a6(2) a5(2) a4(2) a3(2) a2(5))
  show "img_slice img (ro + length f0) (ro + (length f0 + length f1)) = f1"
    using l by (simp add: a6(2) a5(2) a4(2) a3(5))
  show "img_slice img dtbo (dtbo + vb_ds t) = img_slice (vb_raw t) s (s + vb_ds t)"
    using l by (simp add: a6(2) a5(2) a4(5))
  show "img_slice img tblo (tblo + vb_es t) = entry_bytes (vb_es t) (length f0) 0 1"
    using l by (simp add: a6(2) a5(5))
  show "img_slice img (tblo + vb_es t) (tblo + 2 * vb_es t) = entry_bytes (vb_es t) (length f1) (length f0) 2"
    by (rule a6(5))
qed

lemma vb_fitsD:
  assumes "vb_fits t f1"
  obtains fr0 frs s where "vb_frags t = fr0 # frs" "1 \<le> vb_hs t" "PAGE_SIZE \<le> length (vb_raw t)" "44 \<le> vb_es t"
    "fr_payload fr0 \<noteq> []" "f1 \<noteq> []" "new_tblo t (fr_payload fr0) f1 + 2 * vb_es t \<le> PART_SZ"
    "dtb_start t = Some (int s)" "vb_dtbo t \<le> s" "s + vb_ds t \<le> length (vb_raw t)"
proof -
  from assms obtain fr0 frs where f: "vb_frags t = fr0 # frs" by (auto simp: vb_fits_def split: list.splits)
  with assms obtain s where s: "dtb_start t = Some s" "int (vb_dtbo t) \<le> s" "nat s + vb_ds t \<le> length (vb_raw t)"
    by (auto simp: vb_fits_def split: option.splits)
  then obtain k where "s = int k" by (metis nonneg_int_cases of_nat_0_le_iff order_trans)
  with assms f s that show thesis by (auto simp: vb_fits_def)
qed

lemma build_new_image:
  assumes "vb_frags t = fr0 # frs" "1 \<le> vb_hs t" "44 \<le> vb_es t" "length (vb_p0 t) = PAGE_SIZE"
    "new_tblo t (fr_payload fr0) f1 + 2 * vb_es t \<le> PART_SZ"
    "dtb_start t = Some (int s)" "vb_dtbo t \<le> s" "s + vb_ds t \<le> length (vb_raw t)"
  shows "build t f1 = Inr (new_image t (fr_payload fr0) f1 s)"
proof -
  let ?f0 = "fr_payload fr0"
  note l = layout_order [OF assms(2,5)]
  have P: "PAGE_SIZE = 4096" "PART_SZ = 67108864" by (simp_all add: PAGE_SIZE_def PART_SZ_def)
  have p0: "img_slice (vb_p0 t) 0 PAGE_SIZE = vb_p0 t" using assms(4) by (simp add: slice_take_drop)
  have len: "length (assign (replicate PART_SZ 0) 0 PAGE_SIZE (vb_p0 t)) = PART_SZ"
    using assms(4) by (subst slice_assign(1)) (simp_all add: P)
  have pack: "pack_u32 (assign (replicate PART_SZ 0) 0 PAGE_SIZE (vb_p0 t)) 24 (length ?f0 + length f1)
      = Some (assign (assign (replicate PART_SZ 0) 0 PAGE_SIZE (vb_p0 t)) 24 28 (le32 (of_nat (length ?f0 + length f1))))"
    using pack_assign [of 24 _ "length ?f0 + length f1"] len l(5) by (simp add: P)
  have e: "table_entry (vb_es t) (length ?f0) 0 1 = Some (entry_bytes (vb_es t) (length ?f0) 0 1)"
    "table_entry (vb_es t) (length f1) (length ?f0) 2 = Some (entry_bytes (vb_es t) (length f1) (length ?f0) 2)"
    using assms(3) l(5) by (simp_all add: table_entry entry_bytes_def)
  have d: "py_slice (vb_raw t) (int s) (int s + int (vb_ds t)) = img_slice (vb_raw t) s (s + vb_ds t)"
    by (simp add: img_slice_def)
  note n = new_image_slices(1) [OF assms(2,5,3,4,8), unfolded new_image_def Let_def]
  show ?thesis
    unfolding build_def Let_def assms(1) list.case p0 pack option.case assms(6) e d
      new_dtbo_def [symmetric] new_tblo_def [symmetric] prod.case new_image_def
    using assms(7) n by simp
qed

lemma unpack_at:
  "img_slice d k (k + 4) = le32 (of_nat v) \<Longrightarrow> k + 4 \<le> length d \<Longrightarrow> v < 2 ^ 32 \<Longrightarrow> unpack_u32 d k = Some v"
  by (simp add: unpack_slice unat_un_le32_le32 del: un_le32_le32)

lemma read_entry:
  assumes e: "img_slice d eo (eo + es) = entry_bytes es len off typ" and "eo + es \<le> length d" "44 \<le> es"
    and "len < 2 ^ 32" "off < 2 ^ 32" "typ < 2 ^ 32"
  shows "unpack_u32 d eo = Some len" "unpack_u32 d (eo + 4) = Some off" "unpack_u32 d (eo + 8) = Some typ"
    "utf8_decode (rstrip [0] (img_slice d (eo + 12) (eo + 44))) = Some []" "\<not> length d < eo + 12"
proof -
  have s: "img_slice d (eo + a) (eo + b) = img_slice (entry_bytes es len off typ) a b" if "a \<le> b" "b \<le> es" for a b
    unfolding e [symmetric] using slice_slice [of "eo + es" d eo b a] assms(2) that by simp
  have w: "img_slice d eo (eo + 4) = le32 (of_nat len)" "img_slice d (eo + 4) (eo + 4 + 4) = le32 (of_nat off)"
    "img_slice d (eo + 8) (eo + 8 + 4) = le32 (of_nat typ)"
    using s [of 0 4] s [of 4 8] s [of 8 12] assms(3) by (simp_all add: entry_bytes_def slice_take_drop)
  show "unpack_u32 d eo = Some len" "unpack_u32 d (eo + 4) = Some off" "unpack_u32 d (eo + 8) = Some typ"
    by (rule unpack_at [OF w(1)] unpack_at [OF w(2)] unpack_at [OF w(3)]; use assms(2-) in simp)+
  have "img_slice d (eo + 12) (eo + 44) = replicate 32 0"
    using s [of 12 44] assms(3) by (simp add: entry_bytes_def slice_take_drop)
  moreover have "rstrip [0] (replicate n (0::byte)) = []" for n
    by (simp add: rstrip_def dropWhile_eq_Nil_conv)
  ultimately show "utf8_decode (rstrip [0] (img_slice d (eo + 12) (eo + 44))) = Some []" by simp
  show "\<not> length d < eo + 12" using assms(2,3) by simp
qed

lemma rd_fields:
  assumes "rd d = Inr t"
  shows "vb_raw t = d" "vb_p0 t = img_slice d 0 PAGE_SIZE" "unpack_u32 d 2096 = Some (vb_hs t)"
    "unpack_u32 d 2100 = Some (vb_ds t)" "unpack_u32 d 2116 = Some (vb_ec t)" "unpack_u32 d 2120 = Some (vb_es t)"
    "unpack_u32 d 24 = Some (vb_rs t)" "\<exists>x. unpack_u32 d 2112 = Some x" "\<exists>x. unpack_u32 d 2124 = Some x"
    "vb_ro t = align (vb_hs t) PAGE_SIZE" "vb_dtbo t = align (vb_ro t + vb_rs t) PAGE_SIZE"
    "vb_tblo t = align (vb_dtbo t + align (vb_ds t) PAGE_SIZE) PAGE_SIZE"
    "read_frags d (vb_ro t) (vb_tblo t) (vb_es t) 0 (vb_ec t) = Inr (vb_frags t)"
  using assms by (auto simp: rd_def Let_def split: option.splits sum.splits)

lemma rd_new_image:
  assumes rd: "rd d = Inr t" and "vb_ec t = 2" "vb_frags t = fr0 # frs" "1 \<le> vb_hs t" "44 \<le> vb_es t" "PAGE_SIZE \<le> length d"
    "fr_payload fr0 \<noteq> []" "f1 \<noteq> []"
    "new_tblo t (fr_payload fr0) f1 + 2 * vb_es t \<le> PART_SZ" "s + vb_ds t \<le> length d"
  defines "f0 \<equiv> fr_payload fr0"
  defines "img \<equiv> new_image t f0 f1 s"
  shows "rd img = Inr \<lparr>vb_raw = img, vb_p0 = img_slice img 0 PAGE_SIZE, vb_hs = vb_hs t, vb_ds = vb_ds t,
    vb_rs = length f0 + length f1, vb_ro = vb_ro t, vb_dtbo = new_dtbo t f0 f1, vb_tblo = new_tblo t f0 f1,
    vb_ec = 2, vb_es = vb_es t,
    vb_frags = [\<lparr>fr_sz = length f0, fr_off = 0, fr_typ = 1, fr_name = [], fr_payload = f0\<rparr>,
      \<lparr>fr_sz = length f1, fr_off = length f0, fr_typ = 2, fr_name = [], fr_payload = f1\<rparr>]\<rparr>"
proof -
  note r = rd_fields [OF rd]
  have P: "PAGE_SIZE = 4096" "PART_SZ = 67108864" by (simp_all add: PAGE_SIZE_def PART_SZ_def)
  have p0: "length (vb_p0 t) = PAGE_SIZE" using r(2) assms(6) by simp
  have fit: "new_tblo t f0 f1 + 2 * vb_es t \<le> PART_SZ" using assms(9) by (simp add: f0_def)
  have sd: "s + vb_ds t \<le> length (vb_raw t)" using assms(10) r(1) by simp
  note n = new_image_slices [OF assms(4) fit assms(5) p0 sd, folded img_def]
  note l = layout_order [OF assms(4) fit]
  have u: "unpack_u32 img k = unpack_u32 d k" if "28 \<le> k" "k + 4 \<le> 4096" for k
  proof -
    have "img_slice img k (k + 4) = img_slice (vb_p0 t) k (k + 4)" using that by (intro n(2)) simp_all
    also have "\<dots> = img_slice d k (k + 4)"
      unfolding r(2) using slice_slice [of PAGE_SIZE d 0 "k + 4" k] assms(6) that by (simp add: P)
    finally show ?thesis using that assms(6) n(1) by (simp add: unpack_slice P)
  qed
  have rs: "unpack_u32 img 24 = Some (length f0 + length f1)"
    using n(1,3) unat_un_le32_le32 [OF l(5)] by (simp add: unpack_slice P)
  have e0: "new_tblo t f0 f1 + vb_es t \<le> length img" and e1: "new_tblo t f0 f1 + vb_es t + vb_es t \<le> length img"
    using fit n(1) by simp_all
  have b: "length f0 < 2 ^ 32" "length f1 < 2 ^ 32" using l(5) by simp_all
  have c: "(0::nat) < 2 ^ 32" "(1::nat) < 2 ^ 32" "(2::nat) < 2 ^ 32" by simp_all
  note x0 = read_entry [OF n(7) e0 assms(5) b(1) c(1,2)]
  have n8: "img_slice img (new_tblo t f0 f1 + vb_es t) (new_tblo t f0 f1 + vb_es t + vb_es t) = entry_bytes (vb_es t) (length f1) (length f0) 2"
    using n(8) by (simp add: mult_2 add.assoc)
  note x1 = read_entry [OF n8 e1 assms(5) b(2) b(1) c(3)]
  have ro: "align (vb_hs t) PAGE_SIZE = vb_ro t" by (simp add: r(10))
  have fr: "read_frags img (vb_ro t) (new_tblo t f0 f1) (vb_es t) 0 (Suc (Suc 0)) =
      Inr [\<lparr>fr_sz = length f0, fr_off = 0, fr_typ = 1, fr_name = [], fr_payload = f0\<rparr>,
        \<lparr>fr_sz = length f1, fr_off = length f0, fr_typ = 2, fr_name = [], fr_payload = f1\<rparr>]"
    using x0 x1 n(1) n(4,5) [unfolded ro] l [unfolded ro] assms(7,8)
    by (simp add: f0_def P(2) add.assoc)
  obtain x y where xy: "unpack_u32 d 2112 = Some x" "unpack_u32 d 2124 = Some y" using r(8,9) by blast
  show ?thesis
    using fr [folded numeral_2_eq_2] u [of 2096] u [of 2100] u [of 2112] u [of 2116] u [of 2120] u [of 2124] rs r(3-6) xy assms(2)
    by (simp add: rd_def Let_def ro new_dtbo_def [unfolded ro, symmetric] new_dtbo_def new_tblo_def)
qed

section \<open>The device tree\<close>

lemma find_magic_first:
  "j < n \<Longrightarrow> img_slice raw (k + j) (k + j + 4) = dtb_magic \<Longrightarrow>
   (\<And>i. i < j \<Longrightarrow> img_slice raw (k + i) (k + i + 4) \<noteq> dtb_magic) \<Longrightarrow> find_magic raw k n = Some (k + j)"
proof (induction n arbitrary: k j)
  case 0
  then show ?case by simp
next
  case (Suc n)
  show ?case
  proof (cases j)
    case 0
    with Suc.prems show ?thesis by simp
  next
    case (Suc m)
    then have "find_magic raw (Suc k) n = Some (Suc k + m)"
      using Suc.prems Suc.prems(3) [of "Suc i" for i] by (intro Suc.IH) simp_all
    moreover have "img_slice raw k (k + 4) \<noteq> dtb_magic" using Suc.prems(3) [of 0] Suc by simp
    ultimately show ?thesis using Suc by simp
  qed
qed

section \<open>The two readers\<close>

lemma parse_frags_payloads:
  "read_frags d ro tblo es i n = Inr fs \<Longrightarrow> length fs = n \<Longrightarrow>
   (\<forall>f \<in> set fs. fr_sz f = 0 \<or> ro + fr_off f + fr_sz f \<le> length d) \<Longrightarrow>
   parse_frags d ro tblo es i n = Inr (map fr_payload fs)"
proof (induction n arbitrary: i fs)
  case 0
  then show ?case by simp
next
  case (Suc n)
  have c: "\<not> tblo + i * es + 12 > length d" using Suc.prems(1,2) by (auto simp: Let_def split: if_splits)
  with Suc.prems(1) obtain sz off ty name fs' where
    u: "unpack_u32 d (tblo + i * es) = Some sz" "unpack_u32 d (tblo + i * es + 4) = Some off"
      "unpack_u32 d (tblo + i * es + 8) = Some ty"
    and r: "read_frags d ro tblo es (Suc i) n = Inr fs'"
    and fs: "fs = \<lparr>fr_sz = sz, fr_off = off, fr_typ = ty, fr_name = name,
        fr_payload = (if sz > 0 \<and> ro + off + sz \<le> length d then img_slice d (ro + off) (ro + off + sz) else [])\<rparr> # fs'"
    by (auto simp: Let_def split: option.splits sum.splits)
  have "parse_frags d ro tblo es (Suc i) n = Inr (map fr_payload fs')"
    using Suc.prems(2,3) fs by (intro Suc.IH [OF r]) simp_all
  then show ?case using u fs Suc.prems(3) by (auto simp: Let_def slice_take_drop)
qed

section \<open>Properties\<close>

lemma build_read_back:
  assumes "rd d = Inr t" "vb_ec t = 2" "vb_fits t f1"
  shows "\<exists>img t' fr0 s. build t f1 = Inr img \<and> length img = PART_SZ \<and> rd img = Inr t' \<and>
    vb_frags t = fr0 # tl (vb_frags t) \<and> dtb_start t = Some (int s) \<and>
    (vb_hs t', vb_ds t', vb_ec t', vb_es t') = (vb_hs t, vb_ds t, 2, vb_es t) \<and>
    vb_rs t' = length (fr_payload fr0) + length f1 \<and>
    map (\<lambda>f. (fr_typ f, fr_off f, fr_name f, fr_payload f)) (vb_frags t') =
      [(1, 0, [], fr_payload fr0), (2, length (fr_payload fr0), [], f1)] \<and>
    (\<forall>a b. b \<le> PAGE_SIZE \<longrightarrow> b \<le> 24 \<or> 28 \<le> a \<longrightarrow> img_slice img a b = img_slice d a b) \<and>
    img_slice img (vb_dtbo t') (vb_dtbo t' + vb_ds t) = img_slice d s (s + vb_ds t)"
proof -
  obtain fr0 frs s where f: "vb_frags t = fr0 # frs" "1 \<le> vb_hs t" "PAGE_SIZE \<le> length (vb_raw t)" "44 \<le> vb_es t"
    "fr_payload fr0 \<noteq> []" "f1 \<noteq> []" "new_tblo t (fr_payload fr0) f1 + 2 * vb_es t \<le> PART_SZ"
    "dtb_start t = Some (int s)" "vb_dtbo t \<le> s" "s + vb_ds t \<le> length (vb_raw t)"
    by (rule vb_fitsD [OF assms(3)])
  note r = rd_fields [OF assms(1)]
  have P: "PAGE_SIZE = 4096" by (simp add: PAGE_SIZE_def)
  have p0: "length (vb_p0 t) = PAGE_SIZE" using f(3) r(1,2) by simp
  note n = new_image_slices [OF f(2,7,4) p0 f(10)]
  have b: "build t f1 = Inr (new_image t (fr_payload fr0) f1 s)"
    by (rule build_new_image [OF f(1,2,4) p0 f(7-10)])
  have d: "PAGE_SIZE \<le> length d" "s + vb_ds t \<le> length d" using f(3,10) r(1) by simp_all
  note rd' = rd_new_image [OF assms(1,2) f(1,2,4) d(1) f(5-7) d(2)]
  have pg: "img_slice (new_image t (fr_payload fr0) f1 s) a b = img_slice d a b"
    if "b \<le> PAGE_SIZE" "b \<le> 24 \<or> 28 \<le> a" for a b
  proof -
    have "img_slice (new_image t (fr_payload fr0) f1 s) a b = img_slice (vb_p0 t) a b"
      using that by (intro n(2)) (simp_all add: P)
    also have "\<dots> = img_slice d a b"
      unfolding r(2) using slice_slice [of PAGE_SIZE d 0 b a] d(1) that by simp
    finally show ?thesis .
  qed
  define img where "img = new_image t (fr_payload fr0) f1 s"
  note n = n [folded img_def] and b = b [folded img_def] and rd' = rd' [folded img_def] and pg = pg [folded img_def]
  from rd' obtain t' where t': "rd img = Inr t'" "(vb_hs t', vb_ds t', vb_ec t', vb_es t') = (vb_hs t, vb_ds t, 2, vb_es t)"
      "vb_rs t' = length (fr_payload fr0) + length f1" "vb_dtbo t' = new_dtbo t (fr_payload fr0) f1"
      "map (\<lambda>f. (fr_typ f, fr_off f, fr_name f, fr_payload f)) (vb_frags t') =
        [(1, 0, [], fr_payload fr0), (2, length (fr_payload fr0), [], f1)]"
    by simp
  have dtb: "img_slice img (vb_dtbo t') (vb_dtbo t' + vb_ds t) = img_slice d s (s + vb_ds t)"
    using n(6) t'(4) r(1) by simp
  have hd: "vb_frags t = fr0 # tl (vb_frags t)" using f(1) by simp
  have page: "\<forall>a b. b \<le> PAGE_SIZE \<longrightarrow> b \<le> 24 \<or> 28 \<le> a \<longrightarrow> img_slice img a b = img_slice d a b"
    using pg by blast
  show ?thesis
    by (rule exI [of _ img], rule exI [of _ t'], rule exI [of _ fr0], rule exI [of _ s])
      (intro conjI b n(1) t' hd f(8) page dtb)
qed

text \<open>C4 Repacking, read back: when the template is a complete image with two fragments and the new ones fit the
  partition, the layout step succeeds with an image of the partition's size, and \<open>rd\<close> finds in it the first
  fragment of the template and the new second one, one behind the other from the aligned header on, with their types
  and no names, the same header fields but for the ramdisk size, the template's first page but for the four bytes of
  that size, and the template's device tree with its 64-byte header at the new device tree offset.\<close>

theorem repack_reads_back:
  assumes "rd d = Inr t" "vb_ec t = 2" "vb_fits t f1"
  shows "\<exists>img t' fr0 s. build t f1 = Inr img \<and> length img = PART_SZ \<and> rd img = Inr t' \<and>
    vb_frags t = fr0 # tl (vb_frags t) \<and> dtb_start t = Some (int s) \<and>
    (vb_hs t', vb_ds t', vb_ec t', vb_es t') = (vb_hs t, vb_ds t, 2, vb_es t) \<and>
    vb_rs t' = length (fr_payload fr0) + length f1 \<and>
    map (\<lambda>f. (fr_typ f, fr_off f, fr_name f, fr_payload f)) (vb_frags t') =
      [(1, 0, [], fr_payload fr0), (2, length (fr_payload fr0), [], f1)] \<and>
    (\<forall>a b. b \<le> PAGE_SIZE \<longrightarrow> b \<le> 24 \<or> 28 \<le> a \<longrightarrow> img_slice img a b = img_slice d a b) \<and>
    img_slice img (vb_dtbo t') (vb_dtbo t' + vb_ds t) = img_slice d s (s + vb_ds t)"
  using assms by (rule build_read_back)

lemma parse_of_rd:
  assumes "rd d = Inr t" "length (vb_frags t) = vb_ec t"
    "\<forall>f \<in> set (vb_frags t). fr_sz f = 0 \<or> vb_ro t + fr_off f + fr_sz f \<le> length d"
  shows "vb_parse d = Inr (map fr_payload (vb_frags t))"
proof -
  note r = rd_fields [OF assms(1)]
  have "parse_frags d (vb_ro t) (vb_tblo t) (vb_es t) 0 (vb_ec t) = Inr (map fr_payload (vb_frags t))"
    by (rule parse_frags_payloads [OF r(13) assms(2,3)])
  then show ?thesis using r(3-7,10-12) by (simp add: vb_parse_def Let_def)
qed

text \<open>C40 The two readers agree: on an image whose table is complete and whose fragments lie in it,
  \<open>prepare_fragments.parse\<close> cuts out the payloads that \<open>repack_vendor_boot.rd\<close> returns.\<close>

theorem readers_agree:
  assumes "rd d = Inr t" "length (vb_frags t) = vb_ec t"
    "\<forall>f \<in> set (vb_frags t). fr_sz f = 0 \<or> vb_ro t + fr_off f + fr_sz f \<le> length d"
  shows "vb_parse d = Inr (map fr_payload (vb_frags t))"
  using assms by (rule parse_of_rd)

text \<open>C23 A template whose device tree stands at its offset without the 64-byte header is refused, since the scan
  subtracts the header from the first magic number and then finds the start before the section.\<close>

theorem plain_dtb_refused:
  assumes "rd d = Inr t" "vb_frags t = fr0 # frs" "PAGE_SIZE \<le> length d"
    "length (fr_payload fr0) + length f1 < 2 ^ 32" "vb_dtbo t < length d"
    "img_slice d (vb_dtbo t) (vb_dtbo t + 4) = dtb_magic"
  shows "build t f1 = Inl Dtb_not_found"
proof -
  note r = rd_fields [OF assms(1)]
  have P: "PAGE_SIZE = 4096" "PART_SZ = 67108864" by (simp_all add: PAGE_SIZE_def PART_SZ_def)
  have "length (assign (replicate PART_SZ 0) 0 PAGE_SIZE (img_slice (vb_p0 t) 0 PAGE_SIZE)) = PART_SZ"
    using assms(3) by (subst slice_assign(1)) (simp_all add: P r(2))
  then have pack: "\<exists>i. pack_u32 (assign (replicate PART_SZ 0) 0 PAGE_SIZE (img_slice (vb_p0 t) 0 PAGE_SIZE)) 24
      (length (fr_payload fr0) + length f1) = Some i"
    using assms(4) by (simp add: pack_assign P)
  have "find_magic d (vb_dtbo t) (min (vb_dtbo t + 256) (length d) - vb_dtbo t) = Some (vb_dtbo t)"
    using assms(5,6) find_magic_first [of 0] by simp
  then have "dtb_start t = Some (int (vb_dtbo t) - 64)" by (simp add: dtb_start_def r(1))
  with pack assms(2) show ?thesis by (auto simp: build_def Let_def)
qed

section \<open>A template\<close>

text \<open>A header page, two fragments of one byte, a device tree of 68 bytes with its header, and the table.\<close>

definition demo_page0 :: "byte list" where
  "demo_page0 = replicate 24 0 @ le32 2 @ replicate 2068 0 @ le32 2128 @ le32 68 @ replicate 8 0 @ le32 216
     @ le32 2 @ le32 108 @ replicate 1972 0"

definition demo_with :: "byte list \<Rightarrow> byte list" where
  "demo_with dtb = demo_page0 @ [65, 66] @ replicate 4094 0 @ dtb @ entry_bytes 108 1 0 1 @ entry_bytes 108 1 1 2"

definition demo_image :: "byte list" where
  "demo_image = demo_with (replicate 64 0 @ dtb_magic @ replicate 4028 0)"

definition template_of :: "byte list \<Rightarrow> vb_image" where
  "template_of d = \<lparr>vb_raw = d, vb_p0 = demo_page0, vb_hs = 2128, vb_ds = 68, vb_rs = 2, vb_ro = 4096,
     vb_dtbo = 8192, vb_tblo = 12288, vb_ec = 2, vb_es = 108,
     vb_frags = [\<lparr>fr_sz = 1, fr_off = 0, fr_typ = 1, fr_name = [], fr_payload = [65]\<rparr>,
       \<lparr>fr_sz = 1, fr_off = 1, fr_typ = 2, fr_name = [], fr_payload = [66]\<rparr>]\<rparr>"

lemma length_demo [simp]: "length demo_page0 = 4096" "length (demo_with s) = 8408 + length s"
  by (simp_all add: demo_page0_def demo_with_def)

lemma demo_header:
  "unpack_u32 (demo_with s) 24 = Some 2" "unpack_u32 (demo_with s) 2096 = Some 2128"
  "unpack_u32 (demo_with s) 2100 = Some 68" "unpack_u32 (demo_with s) 2112 = Some 216"
  "unpack_u32 (demo_with s) 2116 = Some 2" "unpack_u32 (demo_with s) 2120 = Some 108"
  "unpack_u32 (demo_with s) 2124 = Some 0"
proof -
  have z: "un_le32 [0, 0, 0, 0] = 0" by (simp add: un_le32_def)
  have "take 4 (replicate 1972 (0::byte)) = [0, 0, 0, 0]" by (simp add: numeral_eq_Suc)
  then show "unpack_u32 (demo_with s) 2124 = Some 0"
    by (simp add: unpack_u32_def demo_with_def demo_page0_def z)
qed (simp_all add: unpack_u32_def demo_with_def demo_page0_def)

lemma demo_rd:
  assumes "length s = 4096"
  shows "rd (demo_with s) = Inr (template_of (demo_with s))"
proof -
  let ?d = "demo_with s"
  have p: "img_slice ?d 0 4096 = demo_page0" "img_slice ?d 4096 4097 = [65]" "img_slice ?d 4097 4098 = [66]"
    by (simp_all add: slice_take_drop demo_with_def)
  have e: "img_slice ?d 12288 (12288 + 108) = entry_bytes 108 1 0 1" "img_slice ?d 12396 (12396 + 108) = entry_bytes 108 1 1 2"
    using assms by (simp_all add: slice_take_drop demo_with_def)
  note e0 = read_entry [OF e(1)] and e1 = read_entry [OF e(2)]
  have "unpack_u32 ?d 12288 = Some 1" "unpack_u32 ?d 12292 = Some 0" "unpack_u32 ?d 12296 = Some 1"
    "utf8_decode (rstrip [0] (img_slice ?d 12300 12332)) = Some []"
    "unpack_u32 ?d 12396 = Some 1" "unpack_u32 ?d 12400 = Some 1" "unpack_u32 ?d 12404 = Some 2"
    "utf8_decode (rstrip [0] (img_slice ?d 12408 12440)) = Some []"
    using e0 e1 assms by simp_all
  then have "read_frags ?d 4096 12288 108 0 (Suc (Suc 0)) = Inr (vb_frags (template_of ?d))"
    using assms p by (simp add: template_of_def)
  then show ?thesis
    using demo_header [of s] p(1)
    by (simp add: rd_def Let_def align_def PAGE_SIZE_def template_of_def numeral_2_eq_2 [symmetric])
qed

lemma demo_image_rd: "rd demo_image = Inr (template_of demo_image)"
  unfolding demo_image_def by (rule demo_rd) (simp add: dtb_magic_def)

lemma demo_with_nth: "i < length s \<Longrightarrow> demo_with s ! (8192 + i) = s ! i"
proof -
  assume i: "i < length s"
  have "demo_with s = (demo_page0 @ [65, 66] @ replicate 4094 0) @ s @ entry_bytes 108 1 0 1 @ entry_bytes 108 1 1 2"
    by (simp add: demo_with_def)
  moreover have "length (demo_page0 @ [65, 66] @ replicate 4094 (0::byte)) = 8192" by simp
  ultimately have "demo_with s ! (8192 + i) = (s @ entry_bytes 108 1 0 1 @ entry_bytes 108 1 1 2) ! i"
    by (metis nth_append_length_plus)
  with i show ?thesis by (simp add: nth_append)
qed

lemma demo_dtb_start: "dtb_start (template_of demo_image) = Some 8192"
proof -
  have nz: "img_slice demo_image (8192 + i) (8192 + i + 4) \<noteq> dtb_magic" if "i < 64" for i
  proof -
    have "demo_image ! (8192 + i) = 0"
      unfolding demo_image_def using that by (subst demo_with_nth) (simp_all add: nth_append)
    moreover have "length demo_image = 12504" by (simp add: demo_image_def dtb_magic_def)
    ultimately have "hd (img_slice demo_image (8192 + i) (8192 + i + 4)) = 0"
      using that by (simp add: slice_take_drop hd_drop_conv_nth)
    then show ?thesis by (auto simp: dtb_magic_def)
  qed
  have "img_slice demo_image (8192 + 64) (8192 + 64 + 4) = dtb_magic"
    by (simp add: slice_take_drop demo_image_def demo_with_def dtb_magic_def)
  from find_magic_first [OF _ this nz, of 256] show ?thesis
    by (simp add: dtb_start_def template_of_def demo_image_def dtb_magic_def)
qed

lemma demo_fits_two: "length d = 2 \<Longrightarrow> vb_fits (template_of demo_image) d"
  using demo_dtb_start
  by (simp add: vb_fits_def template_of_def new_tblo_def new_dtbo_def align_def PAGE_SIZE_def PART_SZ_def)
    (auto simp: demo_image_def dtb_magic_def)

lemma demo_fits: "vb_fits (template_of demo_image) [67, 68]"
  by (rule demo_fits_two) simp

lemma repack_reads_back_witness:
  "\<exists>img t'. build (template_of demo_image) [67, 68] = Inr img \<and> rd img = Inr t' \<and>
     map fr_payload (vb_frags t') = [[65], [67, 68]]"
proof -
  have "vb_ec (template_of demo_image) = 2" by (simp add: template_of_def)
  from repack_reads_back [OF demo_image_rd this demo_fits] obtain img t' fr0 where
      "build (template_of demo_image) [67, 68] = Inr img" "rd img = Inr t'"
      "vb_frags (template_of demo_image) = fr0 # tl (vb_frags (template_of demo_image))"
      "map (\<lambda>f. (fr_typ f, fr_off f, fr_name f, fr_payload f)) (vb_frags t') =
        [(1, 0, [], fr_payload fr0), (2, length (fr_payload fr0), [], [67, 68])]"
    by (elim exE conjE) (rule that)
  then show ?thesis by (auto simp: template_of_def)
qed

lemma demo_parse: "vb_parse demo_image = Inr [[65], [66]]"
proof -
  have "vb_parse demo_image = Inr (map fr_payload (vb_frags (template_of demo_image)))"
    by (rule parse_of_rd [OF demo_image_rd]) (simp_all add: template_of_def demo_image_def)
  then show ?thesis by (simp add: template_of_def)
qed

lemma readers_agree_witness: "vb_parse demo_image = Inr [[65], [66]]"
proof -
  have "vb_parse demo_image = Inr (map fr_payload (vb_frags (template_of demo_image)))"
    by (rule readers_agree [OF demo_image_rd]) (simp_all add: template_of_def demo_image_def)
  then show ?thesis by (simp add: template_of_def)
qed

text \<open>The same template without the 64 bytes in front of the tree.\<close>

lemma plain_dtb_refused_witness:
  "build (template_of (demo_with (dtb_magic @ replicate 4092 0))) [67, 68] = Inl Dtb_not_found"
proof -
  let ?d = "demo_with (dtb_magic @ replicate 4092 0)"
  have len: "length ?d = 12504" by (simp add: dtb_magic_def)
  show ?thesis
  proof (rule plain_dtb_refused)
    show "rd ?d = Inr (template_of ?d)" by (rule demo_rd) (simp add: dtb_magic_def)
    show "vb_frags (template_of ?d) = \<lparr>fr_sz = 1, fr_off = 0, fr_typ = 1, fr_name = [], fr_payload = [65]\<rparr> #
        [\<lparr>fr_sz = 1, fr_off = 1, fr_typ = 2, fr_name = [], fr_payload = [66]\<rparr>]" by (simp add: template_of_def)
    show "img_slice ?d (vb_dtbo (template_of ?d)) (vb_dtbo (template_of ?d) + 4) = dtb_magic"
      by (simp add: slice_take_drop demo_with_def dtb_magic_def template_of_def)
    show "vb_dtbo (template_of ?d) < length ?d" unfolding len by (simp add: template_of_def)
  qed (simp_all add: PAGE_SIZE_def)
qed

end
