(* ===== verification/FragmentPrep.thy ===== *)
theory FragmentPrep
  imports Main "HOL-Library.Sublist"
begin

text \<open>
  \<open>tools/prepare_fragments.py\<close> and \<open>tools/verify_fragments.py\<close> on unpacked fragments: the edits that turn the
  stock vendor ramdisk into fragment 0 and the validated recovery into fragment 1, and the checks that the second
  tool makes on them. A directory tree is a map from paths, lists of names, to files and directories; it has no
  symbolic links. \<open>lz4\<close> and \<open>cpio\<close>, run as processes, are outside the model: the second tool is applied to the tree that the first
  one packs. Messages on the console are not modelled.
\<close>

section \<open>Texts\<close>

text \<open>\<open>str.replace\<close>, for a text that is not empty.\<close>

function py_replace :: "string \<Rightarrow> string \<Rightarrow> string \<Rightarrow> string" where
  "py_replace old new s =
     (if old \<noteq> [] \<and> prefix old s then new @ py_replace old new (drop (length old) s)
      else case s of [] \<Rightarrow> [] | c # cs \<Rightarrow> c # py_replace old new cs)"
  by pat_completeness auto
termination
proof (relation "measure (\<lambda>(_, _, s). length s)", goal_cases)
  case (2 old new s)
  then have "0 < length old" "length old \<le> length s" by (auto dest: prefix_length_le)
  then have "length (drop (length old) s) < length s" unfolding length_drop by linarith
  then show ?case by simp
qed auto

declare py_replace.simps [simp del]

definition py_strip :: "string \<Rightarrow> string" where
  "py_strip s = (let ws = (\<lambda>c. c \<in> set '' \<newline>'') in rev (dropWhile ws (rev (dropWhile ws s))))"

text \<open>Reading a text file translates the line ends \<open>\r\n\<close> and \<open>\r\<close>.\<close>

fun read_text :: "string \<Rightarrow> string" where
  "read_text [] = []"
| "read_text (c # cs) =
     (if c = CHR 0x0D then CHR ''\<newline>'' # (case cs of [] \<Rightarrow> [] | d # ds \<Rightarrow> if d = CHR ''\<newline>'' then read_text ds else read_text cs)
      else c # read_text cs)"

lemma py_replace_unfold:
  "old \<noteq> [] \<Longrightarrow> prefix old s \<Longrightarrow> py_replace old new s = new @ py_replace old new (drop (length old) s)"
  by (subst py_replace.simps) simp

lemma py_replace_skip:
  "\<not> prefix old (c # cs) \<Longrightarrow> py_replace old new (c # cs) = c # py_replace old new cs"
  by (subst py_replace.simps) simp

lemma py_replace_Nil: "old \<noteq> [] \<Longrightarrow> py_replace old new [] = []"
  by (subst py_replace.simps) simp

lemma replace_contains: "old \<noteq> [] \<Longrightarrow> sublist old s \<Longrightarrow> sublist new (py_replace old new s)"
proof (induction s)
  case Nil
  then show ?case by simp
next
  case (Cons c cs)
  show ?case
  proof (cases "prefix old (c # cs)")
    case True
    then show ?thesis using Cons.prems by (simp add: py_replace_unfold)
  next
    case False
    then have "sublist old cs" using Cons.prems by (simp add: sublist_Cons_right)
    then show ?thesis using Cons False by (simp add: py_replace_skip sublist_Cons_right)
  qed
qed

lemma set_py_replace: "set (py_replace old new s) \<subseteq> set s \<union> set new"
proof (induction old new s rule: py_replace.induct)
  case (1 old new s)
  show ?case
  proof (cases "old \<noteq> [] \<and> prefix old s")
    case True
    with 1(1) show ?thesis by (subst py_replace.simps) (auto dest: in_set_dropD)
  next
    case False
    show ?thesis
    proof (cases s)
      case Nil
      with False show ?thesis by (subst py_replace.simps) auto
    next
      case (Cons c cs)
      then have "set (py_replace old new cs) \<subseteq> set cs \<union> set new" using 1(2) False by blast
      with False Cons show ?thesis by (subst py_replace.simps) auto
    qed
  qed
qed

lemma read_text_no_cr: "CHR 0x0D \<notin> set (read_text s)"
  by (induction s rule: read_text.induct) (auto split: list.splits)

lemma read_text_id: "CHR 0x0D \<notin> set s \<Longrightarrow> read_text s = s"
  by (induction s) auto

section \<open>Directory trees\<close>

datatype node = Dir | File string

type_synonym path = "string list"
type_synonym tree = "path \<rightharpoonup> node"

definition path_exists :: "tree \<Rightarrow> path \<Rightarrow> bool" where
  "path_exists t p \<longleftrightarrow> t p \<noteq> None"

text \<open>\<open>(shutil.rmtree if os.path.isdir(p) else os.remove)(p)\<close>, where the path exists.\<close>

definition remove_any :: "tree \<Rightarrow> path \<Rightarrow> tree" where
  "remove_any t p = (case t p of
       None \<Rightarrow> t
     | Some Dir \<Rightarrow> (\<lambda>q. if prefix p q then None else t q)
     | Some (File _) \<Rightarrow> t(p := None))"

text \<open>\<open>os.makedirs(p, exist_ok=True)\<close>; \<open>None\<close> is the exception for a file in the way.\<close>

definition makedirs :: "tree \<Rightarrow> path \<Rightarrow> tree option" where
  "makedirs t p =
     (if list_ex (\<lambda>q. q \<noteq> [] \<and> (case t q of Some (File _) \<Rightarrow> True | _ \<Rightarrow> False)) (prefixes p) then None
      else Some (\<lambda>q. if q \<noteq> [] \<and> prefix q p \<and> t q = None then Some Dir else t q))"

text \<open>\<open>shutil.copy2(src, dst)\<close>: into \<open>dst\<close> when that is a directory; \<open>None\<close> is the exception.\<close>

definition copy2 :: "tree \<Rightarrow> path \<Rightarrow> tree \<Rightarrow> path \<Rightarrow> tree option" where
  "copy2 src_tree src t dst =
     (case src_tree src of
        Some (File c) \<Rightarrow>
          let target = (if t dst = Some Dir then dst @ [last src] else dst)
          in if t target = Some Dir \<or> (butlast target \<noteq> [] \<and> t (butlast target) \<noteq> Some Dir) then None
             else Some (t(target \<mapsto> File c))
      | _ \<Rightarrow> None)"

section \<open>prepare_fragments\<close>

definition TWRP16_LIBS :: "string list" where
  "TWRP16_LIBS = [''libbase.so'', ''libbootloader_message.so'', ''libc++.so'', ''libcutils.so'',
     ''libfs_mgr.so'', ''liblog.so'', ''liblp.so'', ''libprotobuf-cpp-lite.so'', ''libutils.so'']"

definition DT_OVERLAY_RCS :: "string list" where
  "DT_OVERLAY_RCS = [''init.recovery.mt6991.rc'', ''init.recovery.project.rc'']"

definition STAGING_OVERLAY_FILES :: "path list" where
  "STAGING_OVERLAY_FILES = [[''system'', ''bin'', ''recovery''], [''system'', ''etc'', ''recovery.fstab''],
     [''twres'', ''languages'', ''en.xml'']]"

definition twrp16_dir :: path where
  "twrp16_dir = [''system'', ''lib64'', ''twrp16'']"

definition init_rc :: path where
  "init_rc = [''system'', ''etc'', ''init'', ''hw'', ''init.rc'']"

definition recovery_bin :: path where
  "recovery_bin = [''system'', ''bin'', ''recovery'']"

text \<open>Copying the libraries that the CI image has.\<close>

fun copy_libs :: "tree \<Rightarrow> string list \<Rightarrow> tree \<Rightarrow> tree option" where
  "copy_libs ci [] t = Some t"
| "copy_libs ci (lib # libs) t =
     (if path_exists ci [''system'', ''lib64'', lib]
      then Option.bind (copy2 ci [''system'', ''lib64'', lib] t (twrp16_dir @ [lib])) (copy_libs ci libs)
      else copy_libs ci libs t)"

definition old_service :: string where
  "old_service = ''    seclabel u:r:recovery:s0\<newline>    user root\<newline>''"

definition setenv_line :: string where
  "setenv_line = ''    setenv LD_LIBRARY_PATH /system/lib64/twrp16:/system/lib64\<newline>''"

definition add_setenv :: "string \<Rightarrow> string" where
  "add_setenv c =
     (if sublist old_service c \<and> \<not> sublist (py_strip setenv_line) c
      then py_replace old_service (old_service @ setenv_line) c else c)"

definition edit_init_rc :: "tree \<Rightarrow> tree option" where
  "edit_init_rc t = (case t init_rc of
       None \<Rightarrow> Some t
     | Some (File c) \<Rightarrow> Some (t(init_rc \<mapsto> File (add_setenv (read_text c))))
     | Some Dir \<Rightarrow> None)"

definition prepare_f0 :: "tree \<Rightarrow> tree \<Rightarrow> tree option" where
  "prepare_f0 stock ci =
     Option.bind (makedirs (remove_any (remove_any stock recovery_bin) [''res'']) twrp16_dir) (\<lambda>t.
     Option.bind (copy_libs ci TWRP16_LIBS t) edit_init_rc)"

fun overlay_staging :: "tree \<Rightarrow> path list \<Rightarrow> tree \<Rightarrow> tree option" where
  "overlay_staging staging [] t = Some t"
| "overlay_staging staging (rel # rels) t =
     (if path_exists staging rel
      then Option.bind (makedirs t (butlast rel)) (\<lambda>t.
           Option.bind (copy2 staging rel t rel) (overlay_staging staging rels))
      else overlay_staging staging rels t)"

fun overlay_rcs :: "tree \<Rightarrow> string list \<Rightarrow> tree \<Rightarrow> tree option" where
  "overlay_rcs dt [] t = Some t"
| "overlay_rcs dt (rc # rcs) t =
     (if path_exists dt [rc] then Option.bind (copy2 dt [rc] t [rc]) (overlay_rcs dt rcs)
      else overlay_rcs dt rcs t)"

text \<open>\<open>dt\<close> is the directory \<open>recovery/root\<close> of the device tree; \<open>staging\<close> is optional.\<close>

definition prepare_f1 :: "tree \<Rightarrow> tree option \<Rightarrow> tree \<Rightarrow> tree option" where
  "prepare_f1 validated staging dt =
     Option.bind (case staging of None \<Rightarrow> Some validated | Some st \<Rightarrow> overlay_staging st STAGING_OVERLAY_FILES validated)
       (overlay_rcs dt DT_OVERLAY_RCS)"

section \<open>verify_fragments\<close>

definition f0_checks :: "(path \<times> bool) list" where
  "f0_checks = [([''system'', ''lib64'', ''twrp16''], True),
     ([''system'', ''lib64'', ''twrp16'', ''libbase.so''], True), ([''system'', ''lib64'', ''twrp16'', ''libc++.so''], True),
     ([''system'', ''lib64'', ''twrp16'', ''liblog.so''], True), ([''system'', ''lib64'', ''twrp16'', ''libcutils.so''], True),
     ([''system'', ''lib64'', ''twrp16'', ''libutils.so''], True), ([''system'', ''lib64'', ''twrp16'', ''libfs_mgr.so''], True),
     ([''system'', ''lib64'', ''twrp16'', ''liblp.so''], True),
     ([''system'', ''lib64'', ''twrp16'', ''libbootloader_message.so''], True),
     ([''system'', ''lib64'', ''twrp16'', ''libprotobuf-cpp-lite.so''], True),
     ([''system'', ''etc'', ''init'', ''hw'', ''init.rc''], True), ([''system'', ''bin'', ''recovery''], False), ([''res''], False)]"

definition run_checks :: "tree \<Rightarrow> (path \<times> bool) list \<Rightarrow> bool" where
  "run_checks t checks = list_all (\<lambda>(p, should_exist). path_exists t p = should_exist) checks"

definition verify_f0 :: "tree \<Rightarrow> bool option" where
  "verify_f0 t =
     (let all_ok = run_checks t f0_checks
      in case t init_rc of
        None \<Rightarrow> Some all_ok
      | Some (File c) \<Rightarrow> Some (all_ok \<and> sublist ''LD_LIBRARY_PATH'' (read_text c) \<and>
            sublist ''/system/lib64/twrp16'' (read_text c))
      | Some Dir \<Rightarrow> None)"

definition f1_checks :: "(path \<times> bool) list" where
  "f1_checks = [([''system'', ''bin'', ''recovery''], True), ([''init.recovery.mt6991.rc''], True),
     ([''init.recovery.project.rc''], True), ([''system'', ''lib64'', ''libc.so''], True),
     ([''system'', ''lib64'', ''libtwrpmtp-ffs.so''], True)]"

definition verify_f1 :: "tree \<Rightarrow> bool" where
  "verify_f1 t = run_checks t f1_checks"

section \<open>What the edits keep\<close>

lemma makedirs_Some:
  assumes "makedirs t p = Some t'"
  shows "t' q = (if q \<noteq> [] \<and> prefix q p \<and> t q = None then Some Dir else t q)"
  using assms by (auto simp: makedirs_def split: if_splits)

text \<open>After a copy, the destination exists, and whatever existed still does, as the same kind of node; only one
  path is new or changed, and it is not a directory.\<close>

lemma copy2_Some:
  assumes "copy2 src_tree src t dst = Some t'"
  obtains c target where "src_tree src = Some (File c)" "t' = t(target \<mapsto> File c)" "t target \<noteq> Some Dir"
    "target = dst \<or> t dst = Some Dir \<and> target = dst @ [last src]"
  using assms by (auto simp: copy2_def Let_def split: option.splits node.splits if_splits)

lemma copy2_exists:
  assumes "copy2 src_tree src t dst = Some t'"
  shows "path_exists t' dst" "path_exists t q \<Longrightarrow> path_exists t' q"
    "path_exists t' q \<Longrightarrow> \<not> path_exists t q \<Longrightarrow> prefix dst q" "t q = Some Dir \<Longrightarrow> t' q = Some Dir"
    "\<not> prefix dst q \<Longrightarrow> t' q = t q"
proof -
  obtain c target where c: "t' = t(target \<mapsto> File c)" "t target \<noteq> Some Dir"
    "target = dst \<or> t dst = Some Dir \<and> target = dst @ [last src]"
    by (rule copy2_Some [OF assms])
  then have pre: "prefix dst target" by auto
  show "path_exists t' dst" using c by (cases "target = dst") (auto simp: path_exists_def)
  show "path_exists t q \<Longrightarrow> path_exists t' q" using c(1) by (simp add: path_exists_def)
  show "path_exists t' q \<Longrightarrow> \<not> path_exists t q \<Longrightarrow> prefix dst q"
    using c(1) pre by (simp add: path_exists_def split: if_splits)
  show "t q = Some Dir \<Longrightarrow> t' q = Some Dir" using c(1,2) by auto
  show "\<not> prefix dst q \<Longrightarrow> t' q = t q" using c(1) pre by auto
qed

lemma copy_libs_ConsE:
  assumes "copy_libs ci (lib # libs) t = Some t'"
  obtains "\<not> path_exists ci [''system'', ''lib64'', lib]" "copy_libs ci libs t = Some t'"
  | t1 where "path_exists ci [''system'', ''lib64'', lib]"
      "copy2 ci [''system'', ''lib64'', lib] t (twrp16_dir @ [lib]) = Some t1" "copy_libs ci libs t1 = Some t'"
  using assms by (auto simp: bind_eq_Some_conv split: if_splits)

lemma copy_libs_keeps:
  "copy_libs ci libs t = Some t' \<Longrightarrow> path_exists t q \<Longrightarrow> path_exists t' q"
  "copy_libs ci libs t = Some t' \<Longrightarrow> t q = Some Dir \<Longrightarrow> t' q = Some Dir"
  "copy_libs ci libs t = Some t' \<Longrightarrow> \<not> prefix twrp16_dir q \<Longrightarrow> t' q = t q"
proof (induction libs arbitrary: t)
  case (Cons lib libs)
  have p: "\<not> prefix twrp16_dir q \<Longrightarrow> \<not> prefix (twrp16_dir @ [lib]) q" by (metis append_prefixD)
  {
    case 1
    from 1(1) show ?case
    proof (cases rule: copy_libs_ConsE)
      case 1
      then show ?thesis using Cons.IH(1) \<open>path_exists t q\<close> by blast
    next
      case (2 t1)
      then show ?thesis using Cons.IH(1) copy2_exists(2) \<open>path_exists t q\<close> by blast
    qed
  next
    case 2
    from 2(1) show ?case
    proof (cases rule: copy_libs_ConsE)
      case 1
      then show ?thesis using Cons.IH(2) \<open>t q = Some Dir\<close> by blast
    next
      case (2 t1)
      then show ?thesis using Cons.IH(2) copy2_exists(4) \<open>t q = Some Dir\<close> by blast
    qed
  next
    case 3
    from 3(1) show ?case
    proof (cases rule: copy_libs_ConsE)
      case 1
      then show ?thesis using Cons.IH(3) \<open>\<not> prefix twrp16_dir q\<close> by blast
    next
      case (2 t1)
      then have "t' q = t1 q" using Cons.IH(3) \<open>\<not> prefix twrp16_dir q\<close> by blast
      also have "t1 q = t q" using copy2_exists(5) 2(2) p \<open>\<not> prefix twrp16_dir q\<close> by blast
      finally show ?thesis .
    qed
  }
qed simp_all

lemma copy2_exists_iff:
  assumes "copy2 src_tree src t dst = Some t'" and "length q \<le> length dst"
  shows "path_exists t' q \<longleftrightarrow> path_exists t q \<or> q = dst"
proof -
  have "prefix dst q \<Longrightarrow> q = dst" using assms(2) by (auto simp: prefix_def)
  then show ?thesis using copy2_exists(1-3) [OF assms(1)] by blast
qed

lemma copy_libs_exists:
  "copy_libs ci libs t = Some t' \<Longrightarrow> path_exists t' (twrp16_dir @ [l]) \<longleftrightarrow>
     path_exists t (twrp16_dir @ [l]) \<or> (l \<in> set libs \<and> path_exists ci [''system'', ''lib64'', l])"
proof (induction libs arbitrary: t)
  case (Cons lib libs)
  from Cons.prems show ?case
  proof (cases rule: copy_libs_ConsE)
    case 1
    then show ?thesis using Cons.IH by auto
  next
    case (2 t1)
    then have "path_exists t1 (twrp16_dir @ [l]) \<longleftrightarrow> path_exists t (twrp16_dir @ [l]) \<or> l = lib"
      by (simp add: copy2_exists_iff)
    then show ?thesis using Cons.IH [OF 2(3)] 2(1) by auto
  qed
qed simp

text \<open>The copies succeed when every library the CI image has is a file and no directory is in the way.\<close>

lemma copy_libs_succeeds:
  assumes "t twrp16_dir = Some Dir"
    and "\<And>l. l \<in> set libs \<Longrightarrow> ci [''system'', ''lib64'', l] \<noteq> Some Dir \<and> t (twrp16_dir @ [l]) \<noteq> Some Dir"
  shows "\<exists>t'. copy_libs ci libs t = Some t'"
  using assms
proof (induction libs arbitrary: t)
  case (Cons lib libs)
  note keep = Cons.prems
  show ?case
  proof (cases "ci [''system'', ''lib64'', lib]")
    case None
    then show ?thesis using Cons by (simp add: path_exists_def)
  next
    case (Some n)
    then obtain c where c: "ci [''system'', ''lib64'', lib] = Some (File c)" using keep(2) [of lib] by (cases n) auto
    then have one: "copy2 ci [''system'', ''lib64'', lib] t (twrp16_dir @ [lib]) = Some (t(twrp16_dir @ [lib] \<mapsto> File c))"
      using keep(1) keep(2) [of lib] by (simp add: copy2_def)
    have "\<exists>t'. copy_libs ci libs (t(twrp16_dir @ [lib] \<mapsto> File c)) = Some t'"
      using keep by (intro Cons.IH) auto
    then show ?thesis using c one by (simp add: path_exists_def)
  qed
qed simp

section \<open>Fragment 0\<close>

lemma remove_any_other: "\<not> prefix p q \<Longrightarrow> remove_any t p q = t q"
  by (auto simp: remove_any_def split: option.splits node.splits)

lemma remove_any_gone: "remove_any t p p = None"
  by (auto simp: remove_any_def split: option.splits node.splits)

lemmas f0_paths = twrp16_dir_def init_rc_def recovery_bin_def

definition f0_tree :: "tree \<Rightarrow> tree" where
  "f0_tree stock = remove_any (remove_any stock recovery_bin) [''res'']"

lemma f0_tree_removed: "f0_tree stock recovery_bin = None" "f0_tree stock [''res''] = None"
  by (simp_all add: f0_tree_def remove_any_gone remove_any_other) (simp add: f0_paths remove_any_other remove_any_gone)

lemma f0_tree_kept:
  "f0_tree stock init_rc = stock init_rc" "f0_tree stock (twrp16_dir @ p) = stock (twrp16_dir @ p)"
  "prefix q twrp16_dir \<Longrightarrow> q \<noteq> [] \<Longrightarrow> f0_tree stock q = stock q"
  by (auto simp: f0_tree_def f0_paths remove_any_other prefix_Cons)

text \<open>The stages of \<open>prepare_f0\<close>, seen from the paths that the second tool checks.\<close>

lemma prepare_f0_view:
  assumes "prepare_f0 stock ci = Some t"
  shows "path_exists t twrp16_dir" "\<not> path_exists t recovery_bin" "\<not> path_exists t [''res'']"
    "path_exists t (twrp16_dir @ [l]) \<longleftrightarrow> path_exists stock (twrp16_dir @ [l]) \<or>
       (l \<in> set TWRP16_LIBS \<and> path_exists ci [''system'', ''lib64'', l])"
    "t init_rc = (case stock init_rc of Some (File c) \<Rightarrow> Some (File (add_setenv (read_text c))) | _ \<Rightarrow> None)"
proof -
  obtain t1 t2 where m: "makedirs (f0_tree stock) twrp16_dir = Some t1" and c: "copy_libs ci TWRP16_LIBS t1 = Some t2"
    and e: "edit_init_rc t2 = Some t"
    using assms by (auto simp: prepare_f0_def f0_tree_def bind_eq_Some_conv)
  have outside: "t2 q = t1 q" if "\<not> prefix twrp16_dir q" for q
    using copy_libs_keeps(3) c that by blast
  have rest: "t q = t2 q" if "q \<noteq> init_rc" for q
    using e that by (auto simp: edit_init_rc_def split: option.splits node.splits)
  have "t1 twrp16_dir \<noteq> None" by (simp add: makedirs_Some [OF m] f0_paths)
  then have "path_exists t2 twrp16_dir" using copy_libs_keeps(1) c unfolding path_exists_def by blast
  then show "path_exists t twrp16_dir" by (simp add: path_exists_def rest) (simp add: f0_paths rest)
  have "t2 recovery_bin = None" "t2 [''res''] = None"
    by (simp_all add: outside f0_paths makedirs_Some [OF m])
       (simp_all add: f0_tree_removed flip: recovery_bin_def)
  then show "\<not> path_exists t recovery_bin" "\<not> path_exists t [''res'']"
    by (simp_all add: path_exists_def rest f0_paths)
  have "t1 (twrp16_dir @ [l]) = stock (twrp16_dir @ [l])"
    by (simp add: makedirs_Some [OF m] f0_tree_kept(2))
  moreover have "twrp16_dir @ [l] \<noteq> init_rc" by (simp add: f0_paths)
  ultimately show "path_exists t (twrp16_dir @ [l]) \<longleftrightarrow> path_exists stock (twrp16_dir @ [l]) \<or>
       (l \<in> set TWRP16_LIBS \<and> path_exists ci [''system'', ''lib64'', l])"
    using copy_libs_exists [OF c, of l] by (simp add: path_exists_def rest)
  have "t2 init_rc = t1 init_rc" by (rule outside) (simp add: f0_paths)
  also have "t1 init_rc = stock init_rc"
    using f0_tree_kept(1) [of stock] by (simp add: makedirs_Some [OF m]) (simp add: f0_paths)
  finally show "t init_rc = (case stock init_rc of Some (File c) \<Rightarrow> Some (File (add_setenv (read_text c))) | _ \<Rightarrow> None)"
    using e by (auto simp: edit_init_rc_def split: option.splits node.splits)
qed

lemma prepared_text_stable: "read_text (add_setenv (read_text c)) = add_setenv (read_text c)"
proof (rule read_text_id)
  have "set (add_setenv s) \<subseteq> set s \<union> set (old_service @ setenv_line)" for s
    using set_py_replace [of old_service "old_service @ setenv_line" s] by (auto simp: add_setenv_def)
  moreover have "CHR 0x0D \<notin> set (old_service @ setenv_line)" by (simp add: old_service_def setenv_line_def)
  ultimately show "CHR 0x0D \<notin> set (add_setenv (read_text c))" using read_text_no_cr [of c] by blast
qed

definition names_twrp16 :: "string \<Rightarrow> bool" where
  "names_twrp16 c \<longleftrightarrow> sublist ''LD_LIBRARY_PATH'' c \<and> sublist ''/system/lib64/twrp16'' c"

lemma service_text_named:
  assumes "sublist old_service c"
  shows "names_twrp16 (add_setenv c)"
proof -
  have line: "names_twrp16 s" if "sublist (py_strip setenv_line) s" for s
  proof -
    have "sublist ''LD_LIBRARY_PATH'' (py_strip setenv_line)" "sublist ''/system/lib64/twrp16'' (py_strip setenv_line)"
      by code_simp+
    then show ?thesis unfolding names_twrp16_def using that sublist_order.order_trans by blast
  qed
  show ?thesis
  proof (cases "sublist (py_strip setenv_line) c")
    case True
    then show ?thesis using line by (simp add: add_setenv_def)
  next
    case False
    have "old_service \<noteq> []" by (simp add: old_service_def)
    then have "sublist (old_service @ setenv_line) (py_replace old_service (old_service @ setenv_line) c)"
      by (rule replace_contains) (rule assms)
    moreover have "sublist (py_strip setenv_line) (old_service @ setenv_line)" by code_simp
    ultimately show ?thesis using False assms line sublist_order.order_trans by (fastforce simp: add_setenv_def)
  qed
qed

lemma f0_checks_prepared:
  assumes "prepare_f0 stock ci = Some t"
  shows "run_checks t f0_checks \<longleftrightarrow> (\<forall>lib \<in> set TWRP16_LIBS. path_exists t (twrp16_dir @ [lib])) \<and> path_exists t init_rc"
  using prepare_f0_view(1-3) [OF assms] by (auto simp: run_checks_def f0_checks_def TWRP16_LIBS_def f0_paths)

text \<open>C39 On what \<open>prepare_fragments\<close> makes of a stock and a CI tree, the F0 checks of \<open>verify_fragments\<close> succeed exactly
  when each of the nine libraries is in the CI image or already in the stock fragment, and the stock fragment has an
  \<open>init.rc\<close> whose edited text names the library path. The recovery binary, \<open>res\<close> and the directory are always right.\<close>

theorem prepared_f0_verified:
  assumes "prepare_f0 stock ci = Some t"
  shows "verify_f0 t = Some True \<longleftrightarrow>
    (\<forall>lib \<in> set TWRP16_LIBS. path_exists ci [''system'', ''lib64'', lib] \<or> path_exists stock (twrp16_dir @ [lib])) \<and>
    (\<exists>c. stock init_rc = Some (File c) \<and> names_twrp16 (add_setenv (read_text c)))"
proof -
  note view = prepare_f0_view [OF assms]
  have present: "(\<forall>lib \<in> set TWRP16_LIBS. path_exists t (twrp16_dir @ [lib])) \<longleftrightarrow>
      (\<forall>lib \<in> set TWRP16_LIBS. path_exists ci [''system'', ''lib64'', lib] \<or> path_exists stock (twrp16_dir @ [lib]))"
    using view(4) by blast
  show ?thesis
    unfolding verify_f0_def f0_checks_prepared [OF assms] present Let_def path_exists_def [of t init_rc] view(5) names_twrp16_def
    by (auto simp: prepared_text_stable split: option.splits node.splits)
qed

definition demo_stock :: tree where
  "demo_stock = [[''system''] \<mapsto> Dir, [''res''] \<mapsto> Dir, [''res'', ''logo''] \<mapsto> File ''png'', recovery_bin \<mapsto> File ''elf'',
     init_rc \<mapsto> File old_service]"

definition demo_ci :: tree where
  "demo_ci p = (if p \<in> (\<lambda>l. [''system'', ''lib64'', l]) ` set TWRP16_LIBS then Some (File ''lib'') else None)"

definition f0_ready :: "tree \<Rightarrow> tree \<Rightarrow> bool" where
  "f0_ready stock ci \<longleftrightarrow>
     (\<forall>l \<in> set TWRP16_LIBS. (\<exists>c. ci [''system'', ''lib64'', l] = Some (File c)) \<and> stock (twrp16_dir @ [l]) \<noteq> Some Dir) \<and>
     (\<forall>q \<in> set [[''system''], [''system'', ''lib64''], twrp16_dir]. stock q = None \<or> stock q = Some Dir) \<and>
     (\<exists>c. stock init_rc = Some (File c) \<and> sublist old_service (read_text c))"

lemma prepare_f0_returns:
  assumes "f0_ready stock ci"
  shows "\<exists>t. prepare_f0 stock ci = Some t"
proof -
  have "f0_tree stock q = None \<or> f0_tree stock q = Some Dir" if "prefix q twrp16_dir" "q \<noteq> []" for q
    using assms that by (subst (1 2) f0_tree_kept(3)) (auto simp: f0_ready_def f0_paths prefix_Cons)
  then have "\<not> list_ex (\<lambda>q. q \<noteq> [] \<and> (case f0_tree stock q of Some (File _) \<Rightarrow> True | _ \<Rightarrow> False)) (prefixes twrp16_dir)"
    by (force simp: list_ex_iff)
  then obtain t1 where t1: "makedirs (f0_tree stock) twrp16_dir = Some t1" by (simp add: makedirs_def)
  have "f0_tree stock twrp16_dir = None \<or> f0_tree stock twrp16_dir = Some Dir"
    using assms f0_tree_kept(2) [of stock "[]"] by (auto simp: f0_ready_def)
  then have "t1 twrp16_dir = Some Dir" by (auto simp: makedirs_Some [OF t1] f0_paths)
  moreover have "t1 (twrp16_dir @ [l]) = stock (twrp16_dir @ [l])" for l
    by (simp add: makedirs_Some [OF t1] f0_tree_kept(2))
  ultimately obtain t2 where t2: "copy_libs ci TWRP16_LIBS t1 = Some t2"
    using assms copy_libs_succeeds [of t1 TWRP16_LIBS ci] by (force simp: f0_ready_def)
  have "t2 init_rc = t1 init_rc" by (rule copy_libs_keeps(3) [OF t2]) (simp add: f0_paths)
  also have "t1 init_rc = stock init_rc"
    using f0_tree_kept(1) [of stock] by (simp add: makedirs_Some [OF t1]) (simp add: f0_paths)
  finally have "\<exists>t. edit_init_rc t2 = Some t" using assms by (auto simp: f0_ready_def edit_init_rc_def)
  with t1 t2 show ?thesis by (simp add: prepare_f0_def f0_tree_def)
qed

lemma demo_f0_ready: "f0_ready demo_stock demo_ci"
  by (auto simp: f0_ready_def demo_stock_def demo_ci_def f0_paths TWRP16_LIBS_def read_text_id old_service_def)

lemma prepared_f0_verified_witness:
  "\<exists>t. prepare_f0 demo_stock demo_ci = Some t \<and> (verify_f0 t = Some True \<longleftrightarrow>
    (\<forall>lib \<in> set TWRP16_LIBS. path_exists demo_ci [''system'', ''lib64'', lib] \<or> path_exists demo_stock (twrp16_dir @ [lib])) \<and>
    (\<exists>c. demo_stock init_rc = Some (File c) \<and> names_twrp16 (add_setenv (read_text c))))"
proof -
  obtain t where "prepare_f0 demo_stock demo_ci = Some t" using prepare_f0_returns [OF demo_f0_ready] by blast
  then show ?thesis using prepared_f0_verified by blast
qed

lemma prepare_f0_verified:
  assumes "f0_ready stock ci"
  shows "Option.bind (prepare_f0 stock ci) verify_f0 = Some True"
proof -
  obtain t where t: "prepare_f0 stock ci = Some t" using prepare_f0_returns [OF assms] by blast
  obtain c where c: "stock init_rc = Some (File c)" "sublist old_service (read_text c)"
    using assms by (auto simp: f0_ready_def)
  note view = prepare_f0_view [OF t]
  have rc: "t init_rc = Some (File (add_setenv (read_text c)))" using view(5) c(1) by simp
  have "\<forall>lib \<in> set TWRP16_LIBS. path_exists t (twrp16_dir @ [lib])"
    using assms unfolding view(4) by (auto simp: f0_ready_def path_exists_def)
  then have "run_checks t f0_checks" by (simp add: f0_checks_prepared [OF t] path_exists_def rc)
  moreover have "names_twrp16 (add_setenv (read_text c))" using service_text_named c(2) .
  ultimately show ?thesis
    using t rc by (simp add: verify_f0_def prepared_text_stable names_twrp16_def)
qed

text \<open>\<open>prepare_fragments\<close> cannot fail on fragment 0, and its result passes every F0 check of \<open>verify_fragments\<close>, when
  the CI image has the nine libraries as files, the stock fragment has an \<open>init.rc\<close> with the recovery service lines,
  and no node of the wrong kind is in the way of the new directory.\<close>

theorem prepared_f0_passes:
  assumes "f0_ready stock ci"
  shows "Option.bind (prepare_f0 stock ci) verify_f0 = Some True"
  using assms by (rule prepare_f0_verified)

lemma prepared_f0_passes_witness: "Option.bind (prepare_f0 demo_stock demo_ci) verify_f0 = Some True"
  using prepared_f0_passes [OF demo_f0_ready] .

section \<open>Fragment 1\<close>

lemma makedirs_exists: "makedirs t p = Some t' \<Longrightarrow> path_exists t' q \<longleftrightarrow> path_exists t q \<or> (q \<noteq> [] \<and> prefix q p)"
  by (auto simp: makedirs_Some path_exists_def)

text \<open>What an overlay adds to a path that is not a directory of it.\<close>

lemma overlay_staging_exists:
  assumes "overlay_staging staging rels t = Some t'"
    and "\<And>r. r \<in> set rels \<Longrightarrow> \<not> strict_prefix r q \<and> \<not> strict_prefix q r"
  shows "path_exists t' q \<longleftrightarrow> path_exists t q \<or> (q \<in> set rels \<and> path_exists staging q)"
  using assms
proof (induction rels arbitrary: t)
  case (Cons rel rels)
  show ?case
  proof (cases "path_exists staging rel")
    case False
    with Cons.prems Cons.IH [of t] show ?thesis by auto
  next
    case True
    with Cons.prems obtain t1 t2 where s: "makedirs t (butlast rel) = Some t1" "copy2 staging rel t1 rel = Some t2"
      "overlay_staging staging rels t2 = Some t'"
      by (auto simp: bind_eq_Some_conv)
    have near: "\<not> strict_prefix rel q" "\<not> strict_prefix q rel" using Cons.prems(2) by auto
    have "q \<noteq> [] \<Longrightarrow> \<not> prefix q (butlast rel) \<or> q = rel"
      using near(2) by (metis prefix_order.dual_order.trans prefixeq_butlast strict_prefix_def)
    then have "path_exists t1 q \<longleftrightarrow> path_exists t q \<or> (q = rel \<and> path_exists t1 q)"
      by (auto simp: makedirs_exists [OF s(1)])
    moreover have "path_exists t2 q \<longleftrightarrow> path_exists t1 q \<or> q = rel"
      using copy2_exists(1-3) [OF s(2)] near(1) by (metis strict_prefixI)
    ultimately show ?thesis using Cons.IH [OF s(3)] Cons.prems(2) True by auto
  qed
qed simp

lemma overlay_rcs_exists:
  "overlay_rcs dt rcs t = Some t' \<Longrightarrow> (\<And>r. r \<in> set rcs \<Longrightarrow> \<not> strict_prefix [r] q) \<Longrightarrow>
     path_exists t' q \<longleftrightarrow> path_exists t q \<or> (\<exists>r \<in> set rcs. q = [r] \<and> path_exists dt q)"
proof (induction rcs arbitrary: t)
  case (Cons rc rcs)
  show ?case
  proof (cases "path_exists dt [rc]")
    case False
    with Cons.prems Cons.IH [of t] show ?thesis by auto
  next
    case True
    with Cons.prems obtain t1 where s: "copy2 dt [rc] t [rc] = Some t1" "overlay_rcs dt rcs t1 = Some t'"
      by (auto simp: bind_eq_Some_conv)
    have "path_exists t1 q \<longleftrightarrow> path_exists t q \<or> q = [rc]"
      using copy2_exists(1-3) [OF s(1)] Cons.prems(2) [of rc] by (metis list.set_intros(1) strict_prefixI)
    then show ?thesis using Cons.IH [OF s(2)] Cons.prems(2) True by auto
  qed
qed simp

lemma prepare_f1_checked:
  assumes "prepare_f1 validated (Some staging) dt = Some t"
  shows "verify_f1 t \<longleftrightarrow>
    (path_exists validated recovery_bin \<or> path_exists staging recovery_bin) \<and>
    (\<forall>rc \<in> set DT_OVERLAY_RCS. path_exists validated [rc] \<or> path_exists dt [rc]) \<and>
    path_exists validated [''system'', ''lib64'', ''libc.so''] \<and>
    path_exists validated [''system'', ''lib64'', ''libtwrpmtp-ffs.so'']"
proof -
  obtain t1 where s: "overlay_staging staging STAGING_OVERLAY_FILES validated = Some t1"
    and r: "overlay_rcs dt DT_OVERLAY_RCS t1 = Some t"
    using assms by (auto simp: prepare_f1_def bind_eq_Some_conv)
  have apart: "\<not> strict_prefix r q \<and> \<not> strict_prefix q r"
    if "q \<in> fst ` set f1_checks" "r \<in> set STAGING_OVERLAY_FILES \<union> (\<lambda>r. [r]) ` set DT_OVERLAY_RCS" for q r
  proof -
    have "list_all (\<lambda>q. list_all (\<lambda>r. \<not> (prefix r q \<and> r \<noteq> q) \<and> \<not> (prefix q r \<and> q \<noteq> r))
      (STAGING_OVERLAY_FILES @ List.map (\<lambda>r. [r]) DT_OVERLAY_RCS)) (List.map fst f1_checks)"
      by code_simp
    with that show ?thesis by (force simp: list_all_iff strict_prefix_def)
  qed
  have at: "path_exists t q \<longleftrightarrow> path_exists validated q \<or> (q \<in> set STAGING_OVERLAY_FILES \<and> path_exists staging q) \<or>
      (\<exists>r \<in> set DT_OVERLAY_RCS. q = [r] \<and> path_exists dt q)" if "q \<in> fst ` set f1_checks" for q
    using overlay_staging_exists [OF s, of q] overlay_rcs_exists [OF r, of q] apart [OF that] by blast
  note checked = at [unfolded f1_checks_def, simplified, unfolded STAGING_OVERLAY_FILES_def DT_OVERLAY_RCS_def]
  have "verify_f1 t \<longleftrightarrow> path_exists t recovery_bin \<and> path_exists t [''init.recovery.mt6991.rc''] \<and>
      path_exists t [''init.recovery.project.rc''] \<and> path_exists t [''system'', ''lib64'', ''libc.so''] \<and>
      path_exists t [''system'', ''lib64'', ''libtwrpmtp-ffs.so'']"
    by (simp add: verify_f1_def run_checks_def f1_checks_def recovery_bin_def)
  also have "path_exists t recovery_bin \<longleftrightarrow> path_exists validated recovery_bin \<or> path_exists staging recovery_bin"
    by (simp add: checked recovery_bin_def)
  finally show ?thesis by (simp add: checked DT_OVERLAY_RCS_def)
qed

text \<open>C24 On what \<open>prepare_fragments\<close> makes of the validated tree, with a staging directory, the F1 checks succeed
  exactly when the recovery binary is in the validated tree or staged, each rc file is in the validated tree or in the
  device tree, and the validated tree has the two libraries, which nothing else supplies.\<close>

theorem prepared_f1_verified:
  assumes "prepare_f1 validated (Some staging) dt = Some t"
  shows "verify_f1 t \<longleftrightarrow>
    (path_exists validated recovery_bin \<or> path_exists staging recovery_bin) \<and>
    (\<forall>rc \<in> set DT_OVERLAY_RCS. path_exists validated [rc] \<or> path_exists dt [rc]) \<and>
    path_exists validated [''system'', ''lib64'', ''libc.so''] \<and>
    path_exists validated [''system'', ''lib64'', ''libtwrpmtp-ffs.so'']"
  using assms by (rule prepare_f1_checked)

definition demo_validated :: tree where
  "demo_validated = [[''system''] \<mapsto> Dir, [''system'', ''lib64''] \<mapsto> Dir, [''system'', ''lib64'', ''libc.so''] \<mapsto> File ''c'',
     [''system'', ''lib64'', ''libtwrpmtp-ffs.so''] \<mapsto> File ''mtp'', [''init.recovery.mt6991.rc''] \<mapsto> File ''rc'']"

definition demo_staging :: tree where
  "demo_staging = [recovery_bin \<mapsto> File ''elf'']"

definition demo_dt :: tree where
  "demo_dt = [[''init.recovery.project.rc''] \<mapsto> File ''rc'']"

lemma prepared_f1_verified_witness:
  "\<exists>t. prepare_f1 demo_validated (Some demo_staging) demo_dt = Some t \<and> verify_f1 t"
proof -
  have "prepare_f1 demo_validated (Some demo_staging) demo_dt \<noteq> None"
    by (simp add: prepare_f1_def STAGING_OVERLAY_FILES_def DT_OVERLAY_RCS_def path_exists_def demo_staging_def demo_dt_def
      demo_validated_def recovery_bin_def makedirs_def copy2_def)
  then obtain t where t: "prepare_f1 demo_validated (Some demo_staging) demo_dt = Some t" by blast
  show ?thesis
    using t prepared_f1_verified [OF t]
    by (auto simp: path_exists_def demo_staging_def demo_dt_def demo_validated_def recovery_bin_def DT_OVERLAY_RCS_def)
qed

end
