(* ===== verification/RepackTree.thy ===== *)
theory RepackTree
  imports FragmentPrep
begin

text \<open>
  The middle of \<open>main\<close> in \<open>tools/repack_vendor_boot.py\<close>: the tree of the new recovery fragment is the template's, with
  \<open>system/bin\<close> and \<open>system/lib64\<close> taken from the CI build, five core programs and the programs that the template
  does not have removed, and the template's missing programs restored. A tree maps paths to directories, files and
  symbolic links; a link is an entry of its own, and \<open>stat\<close> says what the link at a path of a tree leads to, \<open>None\<close> for
  a dangling one. Inner components of a path are directories. Exceptions are \<open>Os_error\<close>; where the code would
  go on behind a link, the model stops with \<open>Through_link\<close>. Modes, owners and times are not modelled.
\<close>

section \<open>Trees with links\<close>

datatype rnode = RDir | RFile string | RLink string

type_synonym rtree = "path \<rightharpoonup> rnode"
type_synonym link_stat = "rtree \<Rightarrow> path \<Rightarrow> rnode option"

datatype repack_error = Os_error | Through_link

type_synonym 'a repack = "repack_error + 'a"

definition repack_bind :: "'a repack \<Rightarrow> ('a \<Rightarrow> 'b repack) \<Rightarrow> 'b repack" where
  "repack_bind r f = (case r of Inl e \<Rightarrow> Inl e | Inr x \<Rightarrow> f x)"

text \<open>\<open>os.path.exists\<close> follows a link.\<close>

definition rexists :: "link_stat \<Rightarrow> rtree \<Rightarrow> path \<Rightarrow> bool" where
  "rexists stat t p = (case t p of None \<Rightarrow> False | Some (RLink _) \<Rightarrow> stat t p \<noteq> None | Some _ \<Rightarrow> True)"

text \<open>The entries that \<open>os.walk\<close> lists under \<open>files\<close>: all but directories and links to directories.\<close>

definition walk_file :: "link_stat \<Rightarrow> rtree \<Rightarrow> path \<Rightarrow> bool" where
  "walk_file stat t p = (case t p of None \<Rightarrow> False | Some RDir \<Rightarrow> False | Some (RFile _) \<Rightarrow> True
     | Some (RLink _) \<Rightarrow> stat t p \<noteq> Some RDir)"

definition rmtree :: "rtree \<Rightarrow> path \<Rightarrow> rtree repack" where
  "rmtree t p = (if t p = Some RDir then Inr (\<lambda>q. if prefix p q then None else t q) else Inl Os_error)"

text \<open>\<open>os.makedirs(p, exist_ok=True)\<close>.\<close>

definition rmakedirs :: "link_stat \<Rightarrow> rtree \<Rightarrow> path \<Rightarrow> rtree repack" where
  "rmakedirs stat t p =
     (let bad = filter (\<lambda>q. q \<noteq> [] \<and> t q \<noteq> None \<and> t q \<noteq> Some RDir) (prefixes p)
      in case bad of
           [] \<Rightarrow> Inr (\<lambda>q. if q \<noteq> [] \<and> prefix q p \<and> t q = None then Some RDir else t q)
         | q # _ \<Rightarrow> Inl (if (case t q of Some (RLink _) \<Rightarrow> stat t q = Some RDir | _ \<Rightarrow> False) then Through_link else Os_error))"

text \<open>\<open>shutil.copytree(src, dst, symlinks=True)\<close> to the same path of another tree.\<close>

definition copytree :: "link_stat \<Rightarrow> rtree \<Rightarrow> rtree \<Rightarrow> path \<Rightarrow> rtree repack" where
  "copytree stat src t p =
     (case src p of
        Some RDir \<Rightarrow>
          if t p \<noteq> None then Inl Os_error
          else repack_bind (rmakedirs stat t (butlast p)) (\<lambda>t. Inr (\<lambda>q. if prefix p q then src q else t q))
      | Some (RLink _) \<Rightarrow> Inl (if stat src p = Some RDir then Through_link else Os_error)
      | _ \<Rightarrow> Inl Os_error)"

text \<open>\<open>shutil.copy2(src, dst, follow_symlinks=False)\<close> of a regular file: into \<open>dst\<close> when that is a directory.\<close>

definition copy_node :: "rtree \<Rightarrow> path \<Rightarrow> rnode \<Rightarrow> rtree repack" where
  "copy_node t dst n =
     (case t (if t dst = Some RDir then dst @ [last dst] else dst) of
        Some RDir \<Rightarrow> Inl Os_error
      | Some (RLink _) \<Rightarrow> Inl Through_link
      | _ \<Rightarrow> Inr (t((if t dst = Some RDir then dst @ [last dst] else dst) \<mapsto> n)))"

section \<open>The new fragment\<close>

definition bin_dir :: path where
  "bin_dir = [''system'', ''bin'']"

definition lib_dir :: path where
  "lib_dir = [''system'', ''lib64'']"

definition core_names :: "string list" where
  "core_names = [''init'', ''linker64'', ''adbd'', ''fastbootd'', ''toybox'']"

definition core_paths :: "path list" where
  "core_paths = map (\<lambda>f. bin_dir @ [f]) core_names"

text \<open>The files below \<open>system/bin\<close>: \<open>tp_bins\<close> for the template.\<close>

definition bin_file :: "link_stat \<Rightarrow> rtree \<Rightarrow> path \<Rightarrow> bool" where
  "bin_file stat t p \<longleftrightarrow> strict_prefix bin_dir p \<and> walk_file stat t p"

definition drop_sub :: "link_stat \<Rightarrow> rtree \<Rightarrow> path \<Rightarrow> rtree repack" where
  "drop_sub stat t sub = (if rexists stat t sub then rmtree t sub else Inr t)"

definition copy_sub :: "link_stat \<Rightarrow> rtree \<Rightarrow> rtree \<Rightarrow> path \<Rightarrow> rtree repack" where
  "copy_sub stat ci t sub = (if rexists stat ci sub then copytree stat ci t sub else Inr t)"

fun drop_core :: "link_stat \<Rightarrow> rtree \<Rightarrow> path list \<Rightarrow> rtree repack" where
  "drop_core stat t [] = Inr t"
| "drop_core stat t (p # ps) =
     (if rexists stat t p then (if t p = Some RDir then Inl Os_error else drop_core stat (t(p := None)) ps)
      else drop_core stat t ps)"

definition drop_extra :: "link_stat \<Rightarrow> rtree \<Rightarrow> rtree \<Rightarrow> rtree" where
  "drop_extra stat tp t = (\<lambda>p. if bin_file stat t p \<and> \<not> bin_file stat tp p then None else t p)"

text \<open>The loop that restores: \<open>present\<close> is \<open>ci_names\<close>, taken before it.\<close>

fun restore_bins :: "link_stat \<Rightarrow> rtree \<Rightarrow> (path \<Rightarrow> bool) \<Rightarrow> rtree \<Rightarrow> path list \<Rightarrow> rtree repack" where
  "restore_bins stat tp present t [] = Inr t"
| "restore_bins stat tp present t (rel # rels) =
     (if present rel then restore_bins stat tp present t rels
      else case tp rel of
        None \<Rightarrow> restore_bins stat tp present t rels
      | Some n \<Rightarrow>
          repack_bind (rmakedirs stat t (butlast rel)) (\<lambda>t.
          repack_bind (case n of RLink _ \<Rightarrow> (if t rel \<noteq> None then Inl Os_error else Inr (t(rel \<mapsto> n)))
                       | _ \<Rightarrow> copy_node t rel n) (\<lambda>t.
          restore_bins stat tp present t rels)))"

text \<open>The whole step. \<open>tp_bins\<close> is the set of the template's programs in the order in which the loop finds them.\<close>

definition merge_f1 :: "link_stat \<Rightarrow> path list \<Rightarrow> rtree \<Rightarrow> rtree \<Rightarrow> rtree repack" where
  "merge_f1 stat tp_bins tp ci =
     repack_bind (drop_sub stat tp bin_dir) (\<lambda>t.
     repack_bind (drop_sub stat t lib_dir) (\<lambda>t.
     repack_bind (copy_sub stat ci t bin_dir) (\<lambda>t.
     repack_bind (copy_sub stat ci t lib_dir) (\<lambda>t.
     repack_bind (drop_core stat t core_paths) (\<lambda>t.
       let t = drop_extra stat tp t
       in restore_bins stat tp (walk_file stat t) t tp_bins)))))"

section \<open>Trees that can be merged\<close>

definition closed_tree :: "rtree \<Rightarrow> bool" where
  "closed_tree t \<longleftrightarrow> t [] = Some RDir \<and> (\<forall>p. t p \<noteq> None \<longrightarrow> p \<noteq> [] \<longrightarrow> t (butlast p) = Some RDir)"

text \<open>Trees made of entries of the two: the stages of the step and its result are such trees.\<close>

definition made_of :: "rtree \<Rightarrow> rtree \<Rightarrow> rtree \<Rightarrow> bool" where
  "made_of tp ci t \<longleftrightarrow> (\<forall>q. t q = None \<or> t q = tp q \<or> t q = ci q)"

text \<open>No symbolic link below \<open>system/bin\<close> leads to a directory, in a tree made of the two.\<close>

definition no_dir_links :: "link_stat \<Rightarrow> rtree \<Rightarrow> rtree \<Rightarrow> bool" where
  "no_dir_links stat tp ci \<longleftrightarrow>
     (\<forall>t p l. made_of tp ci t \<longrightarrow> strict_prefix bin_dir p \<longrightarrow> t p = Some (RLink l) \<longrightarrow> stat t p \<noteq> Some RDir)"

text \<open>The trees that the step is made for: no link below \<open>system/bin\<close> leads to a directory, the template has \<open>system\<close>, \<open>bin\<close>
  and \<open>lib64\<close> are directories where they exist, the core programs of the CI build are files, and what the template has as a
  program the CI build has not as a directory.\<close>

definition mergeable :: "link_stat \<Rightarrow> rtree \<Rightarrow> rtree \<Rightarrow> bool" where
  "mergeable stat tp ci \<longleftrightarrow>
     closed_tree tp \<and> closed_tree ci \<and> no_dir_links stat tp ci \<and> tp [''system''] = Some RDir \<and>
     (\<forall>d \<in> {bin_dir, lib_dir}. (tp d = None \<or> tp d = Some RDir) \<and> (ci d = None \<or> ci d = Some RDir)) \<and>
     (\<forall>p \<in> set core_paths. ci p = None \<or> (\<exists>c. ci p = Some (RFile c))) \<and>
     (\<forall>rel. bin_file stat tp rel \<longrightarrow> ci rel \<noteq> Some RDir \<and>
        (\<forall>q. strict_prefix bin_dir q \<and> strict_prefix q rel \<longrightarrow> ci q = None \<or> ci q = Some RDir))"

lemma closed_above:
  assumes "closed_tree t" "t p \<noteq> None" "strict_prefix q p"
  shows "t q = Some RDir"
  using assms(2,3)
proof (induction p rule: rev_induct)
  case (snoc x p)
  then have "t p = Some RDir" using assms(1) by (auto simp: closed_tree_def)
  with snoc show ?case by (cases "q = p") (auto simp: strict_prefix_def)
qed simp

lemma closed_below: "closed_tree t \<Longrightarrow> t p = None \<Longrightarrow> prefix p q \<Longrightarrow> t q = None"
  using closed_above [of t q p] by (cases "p = q"; cases "t q") (auto simp: strict_prefix_def)

lemma made_of_refl [simp]: "made_of tp ci tp" "made_of tp ci ci"
  by (simp_all add: made_of_def)

lemma walk_file_iff:
  assumes "no_dir_links stat tp ci" "made_of tp ci t" "strict_prefix bin_dir p"
  shows "walk_file stat t p \<longleftrightarrow> t p \<noteq> None \<and> t p \<noteq> Some RDir"
proof -
  have "t p = Some (RLink l) \<Longrightarrow> stat t p \<noteq> Some RDir" for l using assms by (simp add: no_dir_links_def)
  then show ?thesis by (auto simp: walk_file_def split: option.splits rnode.splits)
qed

lemma bin_file_iff:
  "no_dir_links stat tp ci \<Longrightarrow> made_of tp ci t \<Longrightarrow> bin_file stat t p \<longleftrightarrow> strict_prefix bin_dir p \<and> t p \<noteq> None \<and> t p \<noteq> Some RDir"
  using walk_file_iff by (auto simp: bin_file_def)

lemma repack_bind_Inr [simp]: "repack_bind (Inr x) f = f x" "repack_bind (Inl e) f = Inl e"
  by (simp_all add: repack_bind_def)

section \<open>The stages\<close>

lemma drop_sub_result:
  assumes "t p = None \<or> t p = Some RDir" "t p = None \<longrightarrow> (\<forall>q. prefix p q \<longrightarrow> t q = None)"
  shows "drop_sub stat t p = Inr (\<lambda>q. if prefix p q then None else t q)"
  using assms by (auto simp: drop_sub_def rexists_def rmtree_def)

lemma rmakedirs_id:
  assumes "\<And>q. q \<noteq> [] \<Longrightarrow> prefix q p \<Longrightarrow> t q = None \<or> t q = Some RDir"
  shows "rmakedirs stat t p = Inr (\<lambda>q. if q \<noteq> [] \<and> prefix q p \<and> t q = None then Some RDir else t q)"
proof -
  have "filter (\<lambda>q. q \<noteq> [] \<and> t q \<noteq> None \<and> t q \<noteq> Some RDir) (prefixes p) = []"
    using assms by (fastforce simp: filter_empty_conv)
  then show ?thesis by (simp add: rmakedirs_def)
qed

lemma copy_sub_result:
  assumes "ci p = None \<or> ci p = Some RDir" "ci p = None \<longrightarrow> (\<forall>q. prefix p q \<longrightarrow> ci q = None)"
    and "\<forall>q. prefix p q \<longrightarrow> t q = None" "\<forall>q. q \<noteq> [] \<longrightarrow> prefix q (butlast p) \<longrightarrow> t q = Some RDir"
  shows "copy_sub stat ci t p = Inr (\<lambda>q. if prefix p q then ci q else t q)"
proof (cases "ci p")
  case None
  then show ?thesis using assms(2,3) by (auto simp: copy_sub_def rexists_def)
next
  case (Some n)
  then have n: "ci p = Some RDir" using assms(1) by simp
  have "rmakedirs stat t (butlast p) = Inr (\<lambda>q. if q \<noteq> [] \<and> prefix q (butlast p) \<and> t q = None then Some RDir else t q)"
    by (rule rmakedirs_id) (use assms(4) in auto)
  also have "(\<lambda>q. if q \<noteq> [] \<and> prefix q (butlast p) \<and> t q = None then Some RDir else t q) = t"
    using assms(4) by (auto simp: fun_eq_iff)
  finally show ?thesis using n assms(3) by (simp add: copy_sub_def rexists_def copytree_def)
qed

lemma drop_core_result:
  assumes "\<forall>p \<in> set ps. t p = None \<or> (\<exists>c. t p = Some (RFile c))"
  shows "drop_core stat t ps = Inr (\<lambda>q. if q \<in> set ps then None else t q)"
  using assms
proof (induction ps arbitrary: t)
  case (Cons p ps)
  have "drop_core stat (t(p := None)) ps = Inr (\<lambda>q. if q \<in> set ps then None else (t(p := None)) q)"
    using Cons.prems by (intro Cons.IH) auto
  moreover have "drop_core stat t ps = Inr (\<lambda>q. if q \<in> set ps then None else t q)"
    using Cons.prems by (intro Cons.IH) auto
  ultimately show ?case using Cons.prems by (auto simp: rexists_def fun_eq_iff)
qed simp

lemma prefix_butlast_iff: "p \<noteq> [] \<Longrightarrow> prefix q (butlast p) \<longleftrightarrow> strict_prefix q p"
  by (cases p rule: rev_cases) (auto simp: strict_prefix_def dest: prefix_length_le)

lemma restore_bins_result:
  assumes "\<forall>r \<in> set rels. r \<noteq> [] \<and> tp r \<noteq> None \<and> tp r \<noteq> Some RDir \<and> (\<not> present r \<longrightarrow> t r = None)" "distinct rels"
    and "\<forall>r \<in> set rels. \<not> present r \<longrightarrow> (\<forall>q. q \<noteq> [] \<longrightarrow> strict_prefix q r \<longrightarrow> t q = None \<or> t q = Some RDir)"
    and "\<forall>r \<in> set rels. \<forall>r' \<in> set rels. \<not> strict_prefix r r'"
  shows "restore_bins stat tp present t rels = Inr (\<lambda>q.
    if q \<in> set rels \<and> \<not> present q then tp q
    else if t q = None \<and> q \<noteq> [] \<and> (\<exists>r \<in> set rels. \<not> present r \<and> strict_prefix q r) then Some RDir else t q)"
  using assms
proof (induction rels arbitrary: t)
  case (Cons rel rels)
  show ?case
  proof (cases "present rel")
    case True
    have "restore_bins stat tp present t rels = Inr (\<lambda>q.
      if q \<in> set rels \<and> \<not> present q then tp q
      else if t q = None \<and> q \<noteq> [] \<and> (\<exists>r \<in> set rels. \<not> present r \<and> strict_prefix q r) then Some RDir else t q)"
      using Cons.prems by (intro Cons.IH) auto
    with True show ?thesis by (auto simp: fun_eq_iff)
  next
    case False
    define u where "u = (\<lambda>q. if q \<noteq> [] \<and> strict_prefix q rel \<and> t q = None then Some RDir else t q)"
    obtain n where n: "tp rel = Some n" "n \<noteq> RDir" "rel \<noteq> []" "t rel = None" using Cons.prems(1) False by auto
    have dirs: "q \<noteq> [] \<Longrightarrow> strict_prefix q rel \<Longrightarrow> t q = None \<or> t q = Some RDir" for q using Cons.prems(3) False by auto
    have "rmakedirs stat t (butlast rel) = Inr u"
      unfolding u_def prefix_butlast_iff [OF n(3), symmetric]
      by (rule rmakedirs_id) (use dirs n(3) in \<open>auto simp: prefix_butlast_iff\<close>)
    moreover have "u rel = None" using n by (simp add: u_def)
    ultimately have "restore_bins stat tp present t (rel # rels) = restore_bins stat tp present (u(rel \<mapsto> n)) rels"
      using False n by (cases n) (auto simp: copy_node_def)
    also have "\<dots> = Inr (\<lambda>q.
      if q \<in> set rels \<and> \<not> present q then tp q
      else if (u(rel \<mapsto> n)) q = None \<and> q \<noteq> [] \<and> (\<exists>r \<in> set rels. \<not> present r \<and> strict_prefix q r) then Some RDir
      else (u(rel \<mapsto> n)) q)"
    proof (rule Cons.IH)
      show "\<forall>r \<in> set rels. r \<noteq> [] \<and> tp r \<noteq> None \<and> tp r \<noteq> Some RDir \<and> (\<not> present r \<longrightarrow> (u(rel \<mapsto> n)) r = None)"
        using Cons.prems by (auto simp: u_def)
      show "\<forall>r \<in> set rels. \<not> present r \<longrightarrow>
          (\<forall>q. q \<noteq> [] \<longrightarrow> strict_prefix q r \<longrightarrow> (u(rel \<mapsto> n)) q = None \<or> (u(rel \<mapsto> n)) q = Some RDir)"
        using Cons.prems(3,4) by (auto simp: u_def)
    qed (use Cons.prems in auto)
    finally show ?thesis using False n Cons.prems(2) by (auto simp: fun_eq_iff u_def)
  qed
qed simp

section \<open>The merged tree\<close>

lemma drop_extra_result:
  assumes "no_dir_links stat tp ci" "made_of tp ci t"
  shows "drop_extra stat tp t p = (if strict_prefix bin_dir p \<and> t p \<noteq> Some RDir \<and> \<not> bin_file stat tp p then None else t p)"
  by (auto simp: drop_extra_def bin_file_iff [OF assms])

lemma dir_prefixes [simp]: "\<not> prefix bin_dir (lib_dir @ p)" "\<not> prefix lib_dir (bin_dir @ p)"
  "butlast bin_dir = [''system'']" "butlast lib_dir = [''system'']"
  by (simp_all add: bin_dir_def lib_dir_def)

lemma not_both_dirs: "prefix bin_dir q \<Longrightarrow> \<not> prefix lib_dir q"
  by (metis dir_prefixes(1,2) prefix_def)

text \<open>Before the removals: the template with the two directories of the CI build.\<close>

definition swapped :: "rtree \<Rightarrow> rtree \<Rightarrow> rtree" where
  "swapped tp ci = (\<lambda>q. if prefix bin_dir q \<or> prefix lib_dir q then ci q else tp q)"

lemma swap_stage:
  assumes "mergeable stat tp ci"
  shows "repack_bind (drop_sub stat tp bin_dir) (\<lambda>t. repack_bind (drop_sub stat t lib_dir) (\<lambda>t.
    repack_bind (copy_sub stat ci t bin_dir) (\<lambda>t. repack_bind (copy_sub stat ci t lib_dir) f))) = f (swapped tp ci)"
proof -
  have tp: "closed_tree tp" "tp [''system''] = Some RDir" and ci: "closed_tree ci"
    and kinds: "tp bin_dir = None \<or> tp bin_dir = Some RDir" "ci bin_dir = None \<or> ci bin_dir = Some RDir"
      "tp lib_dir = None \<or> tp lib_dir = Some RDir" "ci lib_dir = None \<or> ci lib_dir = Some RDir"
    using assms by (auto simp: mergeable_def)
  have sys: "q \<noteq> [] \<Longrightarrow> prefix q [''system''] \<Longrightarrow> q = [''system'']" for q by (auto simp: prefix_Cons)
  let ?a = "\<lambda>q. if prefix bin_dir q then None else tp q"
  let ?b = "\<lambda>q. if prefix lib_dir q then None else ?a q"
  let ?c = "\<lambda>q. if prefix bin_dir q then ci q else ?b q"
  have nb: "\<not> prefix bin_dir lib_dir" "\<not> prefix bin_dir [''system'']" "\<not> prefix lib_dir [''system'']"
    "\<not> prefix lib_dir bin_dir"
    by (simp_all add: bin_dir_def lib_dir_def)
  have 1: "drop_sub stat tp bin_dir = Inr ?a"
    by (rule drop_sub_result) (use kinds closed_below [OF tp(1)] in auto)
  have 2: "drop_sub stat ?a lib_dir = Inr ?b"
    by (rule drop_sub_result) (use kinds closed_below [OF tp(1)] nb in auto)
  have 3: "copy_sub stat ci ?b bin_dir = Inr ?c"
    by (rule copy_sub_result) (use kinds closed_below [OF ci] nb tp(2) in \<open>auto dest!: sys\<close>)
  have 4: "copy_sub stat ci ?c lib_dir = Inr (\<lambda>q. if prefix lib_dir q then ci q else ?c q)"
    by (rule copy_sub_result) (use kinds closed_below [OF ci] nb tp(2) not_both_dirs in \<open>auto dest!: sys\<close>)
  have "(\<lambda>q. if prefix lib_dir q then ci q else ?c q) = swapped tp ci"
    by (auto simp: swapped_def fun_eq_iff)
  then show ?thesis by (simp only: 1 2 3 4 repack_bind_Inr)
qed

lemma core_in_bin: "p \<in> set core_paths \<Longrightarrow> strict_prefix bin_dir p"
  by (auto simp: core_paths_def strict_prefix_def)

lemma merge_f1_result:
  assumes "mergeable stat tp ci" "set tp_bins = {p. bin_file stat tp p}" "distinct tp_bins"
  shows "merge_f1 stat tp_bins tp ci = Inr (\<lambda>q.
    if bin_file stat tp q then (if bin_file stat ci q \<and> q \<notin> set core_paths then ci q else tp q)
    else if prefix bin_dir q then
      (if ci q = Some RDir \<or> (\<exists>r \<in> set tp_bins. strict_prefix q r) then Some RDir else None)
    else if prefix lib_dir q then ci q else tp q)"
proof -
  have nd: "no_dir_links stat tp ci" and tp: "closed_tree tp" and ci: "closed_tree ci"
    and core: "\<forall>p \<in> set core_paths. ci p = None \<or> (\<exists>c. ci p = Some (RFile c))"
    and kinds: "\<And>r. bin_file stat tp r \<Longrightarrow> ci r \<noteq> Some RDir"
      "\<And>r q. bin_file stat tp r \<Longrightarrow> strict_prefix bin_dir q \<Longrightarrow> strict_prefix q r \<Longrightarrow> ci q = None \<or> ci q = Some RDir"
    and cib: "ci bin_dir = None \<or> ci bin_dir = Some RDir" and sys: "tp [''system''] = Some RDir"
    using assms(1) by (auto simp: mergeable_def)
  define t5 where "t5 = (\<lambda>q. if q \<in> set core_paths then None else swapped tp ci q)"
  define t6 where "t6 = drop_extra stat tp t5"
  have 5: "drop_core stat (swapped tp ci) core_paths = Inr t5"
    unfolding t5_def by (rule drop_core_result) (use core core_in_bin in \<open>auto simp: swapped_def strict_prefix_def\<close>)
  have m5: "made_of tp ci t5" by (auto simp: made_of_def t5_def swapped_def)
  have t6: "t6 q = (if strict_prefix bin_dir q then
        (if q \<in> set core_paths \<or> (ci q \<noteq> Some RDir \<and> \<not> bin_file stat tp q) then None else ci q)
      else swapped tp ci q)" for q
    using core_in_bin unfolding t6_def drop_extra_result [OF nd m5] by (auto simp: t5_def swapped_def strict_prefix_def)
  have m6: "made_of tp ci t6" by (auto simp: made_of_def t6 swapped_def)
  have files: "bin_file stat tp r \<longleftrightarrow> strict_prefix bin_dir r \<and> tp r \<noteq> None \<and> tp r \<noteq> Some RDir"
    "bin_file stat ci r \<longleftrightarrow> strict_prefix bin_dir r \<and> ci r \<noteq> None \<and> ci r \<noteq> Some RDir" for r
    by (rule bin_file_iff [OF nd], simp)+
  have walk: "walk_file stat t6 r \<longleftrightarrow> t6 r \<noteq> None \<and> t6 r \<noteq> Some RDir" if "bin_file stat tp r" for r
    by (rule walk_file_iff [OF nd m6]) (use that in \<open>simp add: files\<close>)
  have present: "walk_file stat t6 r \<longleftrightarrow> bin_file stat ci r \<and> r \<notin> set core_paths" if "bin_file stat tp r" for r
    using that unfolding walk [OF that] t6 files by auto
  have missing: "t6 r = None" if "bin_file stat tp r" "\<not> walk_file stat t6 r" for r
    using that kinds(1) [OF that(1)] unfolding walk [OF that(1)] t6 files by auto
  have above: "q = [''system'']" if "q \<noteq> []" "strict_prefix q r" "strict_prefix bin_dir r" "\<not> prefix bin_dir q" for q r
  proof -
    have "prefix q bin_dir" using that prefix_same_cases [of q r bin_dir] by (auto simp: strict_prefix_def)
    then show ?thesis using that(1,4) by (auto simp: bin_dir_def prefix_Cons)
  qed
  have dirs: "t6 q = None \<or> t6 q = Some RDir" if "bin_file stat tp r" "q \<noteq> []" "strict_prefix q r" for q r
  proof (cases "prefix bin_dir q")
    case True
    then show ?thesis using cib kinds(2) [OF that(1) _ that(3)] by (cases "q = bin_dir") (auto simp: t6 swapped_def strict_prefix_def)
  next
    case False
    then have "q = [''system'']" using above [OF that(2,3)] that(1) by (simp add: files)
    then show ?thesis using sys by (simp add: t6 swapped_def bin_dir_def lib_dir_def)
  qed
  have "restore_bins stat tp (walk_file stat t6) t6 tp_bins = Inr (\<lambda>q.
      if q \<in> set tp_bins \<and> \<not> walk_file stat t6 q then tp q
      else if t6 q = None \<and> q \<noteq> [] \<and> (\<exists>r \<in> set tp_bins. \<not> walk_file stat t6 r \<and> strict_prefix q r) then Some RDir else t6 q)"
  proof (rule restore_bins_result)
    show "\<forall>r \<in> set tp_bins. \<forall>r' \<in> set tp_bins. \<not> strict_prefix r r'"
      using closed_above [OF tp] by (fastforce simp: assms(2) files)
  qed (use assms(2,3) missing dirs in \<open>auto simp: files\<close>)
  then have "merge_f1 stat tp_bins tp ci = Inr (\<lambda>q.
      if q \<in> set tp_bins \<and> \<not> walk_file stat t6 q then tp q
      else if t6 q = None \<and> q \<noteq> [] \<and> (\<exists>r \<in> set tp_bins. \<not> walk_file stat t6 r \<and> strict_prefix q r) then Some RDir else t6 q)"
    by (simp add: merge_f1_def swap_stage [OF assms(1)] 5 t6_def [symmetric])
  also have "(\<lambda>q.
      if q \<in> set tp_bins \<and> \<not> walk_file stat t6 q then tp q
      else if t6 q = None \<and> q \<noteq> [] \<and> (\<exists>r \<in> set tp_bins. \<not> walk_file stat t6 r \<and> strict_prefix q r) then Some RDir else t6 q) =
    (\<lambda>q. if bin_file stat tp q then (if bin_file stat ci q \<and> q \<notin> set core_paths then ci q else tp q)
    else if prefix bin_dir q then
      (if ci q = Some RDir \<or> (\<exists>r \<in> set tp_bins. strict_prefix q r) then Some RDir else None)
    else if prefix lib_dir q then ci q else tp q)" (is "?l = ?r")
  proof
    fix q
    consider (prog) "bin_file stat tp q" | (bin) "\<not> bin_file stat tp q" "prefix bin_dir q"
      | (other) "\<not> prefix bin_dir q" by blast
    then show "?l q = ?r q"
    proof cases
      case prog
      then have "\<not> (\<exists>r \<in> set tp_bins. strict_prefix q r)"
        using closed_above [OF tp] by (fastforce simp: assms(2) files)
      moreover have "t6 q = ci q" if "bin_file stat ci q" "q \<notin> set core_paths"
        using prog that by (simp add: t6 files)
      ultimately show ?thesis using prog present [OF prog] by (auto simp: assms(2))
    next
      case bin
      have "t6 q = (if ci q = Some RDir then Some RDir else None)"
        using bin core cib by (cases "q = bin_dir") (auto simp: t6 swapped_def strict_prefix_def)
      moreover have "ci q = Some RDir" if "r \<in> set tp_bins" "walk_file stat t6 r" "strict_prefix q r" for r
        using that present closed_above [OF ci, of r q] by (simp add: assms(2) files)
      moreover have "q \<noteq> []" using bin(2) by (auto simp: bin_dir_def)
      ultimately show ?thesis using bin by (auto simp: assms(2))
    next
      case other
      have q: "t6 q = (if prefix lib_dir q then ci q else tp q)"
        using other by (auto simp: t6 swapped_def strict_prefix_def)
      have "t6 q \<noteq> None" if "q \<noteq> []" "r \<in> set tp_bins" "strict_prefix q r" for r
        using above [OF that(1,3) _ other] that(2) sys unfolding q by (auto simp: assms(2) files lib_dir_def)
      moreover have "\<not> bin_file stat tp q" using other by (auto simp: files strict_prefix_def)
      ultimately have "?l q = t6 q" by (auto simp: assms(2))
      with q other \<open>\<not> bin_file stat tp q\<close> show ?thesis by simp
    qed
  qed
  finally show ?thesis .
qed

section \<open>Properties\<close>

lemma merged_view:
  assumes "mergeable stat tp ci" "set tp_bins = {p. bin_file stat tp p}" "distinct tp_bins"
  obtains t where "merge_f1 stat tp_bins tp ci = Inr t"
    "\<And>p. bin_file stat t p \<longleftrightarrow> bin_file stat tp p"
    "\<And>p. bin_file stat tp p \<Longrightarrow> t p = (if bin_file stat ci p \<and> p \<notin> set core_paths then ci p else tp p)"
    "\<And>p. prefix lib_dir p \<Longrightarrow> t p = ci p"
    "\<And>p. \<not> prefix bin_dir p \<Longrightarrow> \<not> prefix lib_dir p \<Longrightarrow> t p = tp p"
proof -
  obtain t where t: "merge_f1 stat tp_bins tp ci = Inr t" using merge_f1_result [OF assms] by blast
  note at = merge_f1_result [OF assms, unfolded t sum.inject, THEN fun_cong]
  have nd: "no_dir_links stat tp ci" and tp: "closed_tree tp" using assms(1) by (simp_all add: mergeable_def)
  have "t q = None \<or> t q = tp q \<or> t q = ci q" for q
  proof -
    have "tp q = Some RDir" if "r \<in> set tp_bins" "strict_prefix q r" for r
      using that closed_above [OF tp, of r q] by (auto simp: assms(2) bin_file_def walk_file_def split: option.splits)
    then show ?thesis by (auto simp: at)
  qed
  then have m: "made_of tp ci t" by (simp add: made_of_def)
  have lib: "\<not> bin_file stat tp p" "\<not> prefix bin_dir p" if "prefix lib_dir p" for p
    using not_both_dirs [of p] that by (auto simp: bin_file_def strict_prefix_def)
  show ?thesis
  proof (rule that [OF t])
    fix p
    show "bin_file stat t p \<longleftrightarrow> bin_file stat tp p"
      by (auto simp: bin_file_iff [OF nd m] bin_file_iff [OF nd made_of_refl(1)] bin_file_iff [OF nd made_of_refl(2)] at strict_prefix_def)
    show "bin_file stat tp p \<Longrightarrow> t p = (if bin_file stat ci p \<and> p \<notin> set core_paths then ci p else tp p)"
      by (simp add: at)
    show "prefix lib_dir p \<Longrightarrow> t p = ci p" by (simp add: at lib)
    show "\<not> prefix bin_dir p \<Longrightarrow> \<not> prefix lib_dir p \<Longrightarrow> t p = tp p"
      by (simp add: at bin_file_def strict_prefix_def)
  qed
qed

text \<open>C7 The new recovery fragment has exactly the programs of the template: each is the CI build's where that has it
  as a file and it is not one of the five core programs, and the template's otherwise. The libraries are exactly those
  of the CI build, and everything else is the template's. No exception is raised. This is for trees that agree in kind
  (\<open>mergeable\<close>): \<open>system\<close>, \<open>bin\<close> and \<open>lib64\<close> are directories, the core programs of the CI build are files, no program of the
  template is a directory there, and no symbolic link below \<open>system/bin\<close> leads to a directory.\<close>

theorem merged_recovery:
  assumes "mergeable stat tp ci" "set tp_bins = {p. bin_file stat tp p}" "distinct tp_bins"
  shows "\<exists>t. merge_f1 stat tp_bins tp ci = Inr t \<and> (\<forall>p. bin_file stat t p \<longleftrightarrow> bin_file stat tp p) \<and>
    (\<forall>p. t p = (if bin_file stat tp p then (if bin_file stat ci p \<and> p \<notin> set core_paths then ci p else tp p)
       else if prefix lib_dir p then ci p else if prefix bin_dir p then t p else tp p))"
proof -
  obtain t where t: "merge_f1 stat tp_bins tp ci = Inr t" "\<And>p. bin_file stat t p \<longleftrightarrow> bin_file stat tp p"
    "\<And>p. bin_file stat tp p \<Longrightarrow> t p = (if bin_file stat ci p \<and> p \<notin> set core_paths then ci p else tp p)"
    "\<And>p. prefix lib_dir p \<Longrightarrow> t p = ci p" "\<And>p. \<not> prefix bin_dir p \<Longrightarrow> \<not> prefix lib_dir p \<Longrightarrow> t p = tp p"
    by (rule merged_view [OF assms]) (rule that)
  have "t p = (if bin_file stat tp p then (if bin_file stat ci p \<and> p \<notin> set core_paths then ci p else tp p)
       else if prefix lib_dir p then ci p else if prefix bin_dir p then t p else tp p)" for p
    using t(3-5) [of p] by simp
  with t(1,2) show ?thesis by blast
qed

section \<open>An instance\<close>

text \<open>Links to a name in the same directory, followed as the kernel does, up to forty of them.\<close>

fun follow :: "nat \<Rightarrow> rtree \<Rightarrow> path \<Rightarrow> rnode option" where
  "follow 0 t p = None"
| "follow (Suc n) t p = (case t p of Some (RLink l) \<Rightarrow> follow n t (butlast p @ [l]) | r \<Rightarrow> r)"

definition name_stat :: link_stat where
  "name_stat t p = follow 40 t p"

definition demo_template :: rtree where
  "demo_template = [[] \<mapsto> RDir, [''system''] \<mapsto> RDir, bin_dir \<mapsto> RDir, lib_dir \<mapsto> RDir,
     bin_dir @ [''init''] \<mapsto> RFile ''init-t'', bin_dir @ [''recovery''] \<mapsto> RFile ''rec-t'', bin_dir @ [''sh''] \<mapsto> RLink ''recovery'',
     lib_dir @ [''libc.so''] \<mapsto> RFile ''libc-t'', [''init.rc''] \<mapsto> RFile ''rc'']"

definition demo_ci_build :: rtree where
  "demo_ci_build = [[] \<mapsto> RDir, [''system''] \<mapsto> RDir, bin_dir \<mapsto> RDir, lib_dir \<mapsto> RDir,
     bin_dir @ [''init''] \<mapsto> RFile ''init-c'', bin_dir @ [''recovery''] \<mapsto> RFile ''rec-c'', bin_dir @ [''gdb''] \<mapsto> RFile ''gdb'',
     lib_dir @ [''libz.so''] \<mapsto> RFile ''libz-c'']"

definition demo_bins :: "path list" where
  "demo_bins = [bin_dir @ [''sh''], bin_dir @ [''init''], bin_dir @ [''recovery'']]"

lemma demo_links:
  assumes "\<And>p l. ci p = Some (RLink l) \<Longrightarrow> demo_template p = Some (RLink l)" "ci (bin_dir @ [''recovery'']) \<noteq> Some RDir"
  shows "no_dir_links name_stat demo_template ci"
  unfolding no_dir_links_def
proof (intro allI impI)
  fix t p l
  assume m: "made_of demo_template ci t" and l: "t p = Some (RLink l)"
  then have "demo_template p = Some (RLink l)" using assms(1) unfolding made_of_def by (metis option.distinct(1))
  then have p: "p = bin_dir @ [''sh'']" "l = ''recovery''" by (auto simp: demo_template_def split: if_splits)
  have r: "t (bin_dir @ [''recovery'']) \<noteq> Some RDir" "t (bin_dir @ [''recovery'']) \<noteq> Some (RLink k)" for k
  proof -
    have "demo_template (bin_dir @ [''recovery'']) = Some (RFile ''rec-t'')" by (simp add: demo_template_def bin_dir_def lib_dir_def)
    moreover have "t (bin_dir @ [''recovery'']) \<in> {None, demo_template (bin_dir @ [''recovery'']), ci (bin_dir @ [''recovery''])}"
      using m by (auto simp: made_of_def)
    ultimately show "t (bin_dir @ [''recovery'']) \<noteq> Some RDir" "t (bin_dir @ [''recovery'']) \<noteq> Some (RLink k)"
      using assms(1) [of "bin_dir @ [''recovery'']"] assms(2) by auto
  qed
  have "follow (Suc (Suc n)) t p \<noteq> Some RDir" for n
    using l r p by (auto split: option.splits rnode.splits)
  from this [of 38] show "name_stat t p \<noteq> Some RDir" by (simp add: name_stat_def del: follow.simps)
qed

lemma demo_bins: "set demo_bins = {p. bin_file name_stat demo_template p}" "distinct demo_bins"
proof -
  have "no_dir_links name_stat demo_template demo_template"
    by (rule demo_links) (simp_all add: demo_template_def bin_dir_def lib_dir_def)
  note iff = bin_file_iff [OF this made_of_refl(1)]
  show "set demo_bins = {p. bin_file name_stat demo_template p}" "distinct demo_bins"
    unfolding iff
    by (auto simp: demo_bins_def demo_template_def bin_dir_def lib_dir_def strict_prefix_def split: if_splits)
qed

lemma demo_closed: "closed_tree demo_template" "closed_tree demo_ci_build" "closed_tree [[] \<mapsto> RDir]"
  by (auto simp: closed_tree_def demo_template_def demo_ci_build_def bin_dir_def lib_dir_def split: if_splits)

lemma demo_bin_file: "bin_file name_stat demo_template p \<longleftrightarrow> p \<in> set demo_bins"
  by (simp add: demo_bins(1))

lemma demo_mergeableI:
  assumes "no_dir_links name_stat demo_template ci" "closed_tree ci" "\<forall>rel \<in> set demo_bins. ci rel \<noteq> Some RDir"
    and "\<forall>p \<in> set core_paths. ci p = None \<or> (\<exists>c. ci p = Some (RFile c))"
    and "\<forall>d \<in> {bin_dir, lib_dir}. ci d = None \<or> ci d = Some RDir"
  shows "mergeable name_stat demo_template ci"
proof -
  have "\<not> (strict_prefix bin_dir q \<and> strict_prefix q rel)" if "rel \<in> set demo_bins" for q rel
    using that by (auto simp: demo_bins_def bin_dir_def strict_prefix_def prefix_Cons)
  then have "\<forall>rel. rel \<in> set demo_bins \<longrightarrow> (\<forall>q. strict_prefix bin_dir q \<and> strict_prefix q rel \<longrightarrow> ci q = None \<or> ci q = Some RDir)"
    by blast
  moreover have "\<forall>d \<in> {bin_dir, lib_dir}. demo_template d = None \<or> demo_template d = Some RDir"
    "demo_template [''system''] = Some RDir"
    by (simp_all add: demo_template_def bin_dir_def lib_dir_def)
  ultimately show ?thesis
    unfolding mergeable_def demo_bin_file using demo_closed(1) assms by simp
qed

lemma demo_mergeable:
  "mergeable name_stat demo_template demo_ci_build" "mergeable name_stat demo_template demo_template"
  "mergeable name_stat demo_template [[] \<mapsto> RDir]"
  by (rule demo_mergeableI, rule demo_links; use demo_closed in \<open>simp add: demo_bins_def core_paths_def core_names_def
      demo_ci_build_def demo_template_def bin_dir_def lib_dir_def split: if_splits\<close>)+

lemma merged_recovery_witness:
  "\<exists>t. merge_f1 name_stat demo_bins demo_template demo_ci_build = Inr t \<and>
     t (bin_dir @ [''init'']) = Some (RFile ''init-t'') \<and> t (bin_dir @ [''recovery'']) = Some (RFile ''rec-c'')"
proof -
  obtain t where t: "merge_f1 name_stat demo_bins demo_template demo_ci_build = Inr t"
    "\<forall>p. t p = (if bin_file name_stat demo_template p
        then (if bin_file name_stat demo_ci_build p \<and> p \<notin> set core_paths then demo_ci_build p else demo_template p)
        else if prefix lib_dir p then demo_ci_build p else if prefix bin_dir p then t p else demo_template p)"
    using merged_recovery [OF demo_mergeable(1) demo_bins] by blast
  have "bin_dir @ [''recovery''] \<notin> set core_paths" "bin_dir @ [''init''] \<in> set core_paths"
    "bin_dir @ [''recovery''] \<in> set demo_bins" "bin_dir @ [''init''] \<in> set demo_bins"
    "demo_ci_build (bin_dir @ [''recovery'']) = Some (RFile ''rec-c'')"
    "demo_template (bin_dir @ [''init'']) = Some (RFile ''init-t'')"
    "bin_file name_stat demo_ci_build (bin_dir @ [''recovery''])"
    by (simp_all add: core_paths_def core_names_def demo_bins_def demo_ci_build_def demo_template_def bin_dir_def lib_dir_def
        bin_file_def walk_file_def)
  then show ?thesis using t(1) t(2) [rule_format, of "bin_dir @ [''init'']"] t(2) [rule_format, of "bin_dir @ [''recovery'']"]
    by (auto simp: demo_bin_file)
qed

end
