(* ===== verification/ToolFlows.thy ===== *)
theory ToolFlows
  imports VendorBoot RepackTree
begin

text \<open>
  The tools from end to end: \<open>main\<close> of \<open>tools/repack_vendor_boot.py\<close>, and \<open>main\<close> of \<open>tools/prepare_fragments.py\<close>
  followed by \<open>main\<close> of \<open>tools/verify_fragments.py\<close>. Unpacking (\<open>lz4 -d\<close> and \<open>cpio -i\<close>) and packing (\<open>find\<close>, \<open>cpio -o\<close>
  and \<open>lz4\<close>) are processes of other programs and parameters here; what is relied upon is that unpacking what was packed
  gives the tree back. Printing, the manifest and the removal of temporary directories are not modelled.
\<close>

section \<open>repack_vendor_boot\<close>

datatype flow_error = Image_error vb_error | Tree_error repack_error | Fragment_missing

text \<open>\<open>uz\<close> empties its directory; when \<open>lz4\<close> fails it returns \<open>None\<close> with the directory empty.\<close>

definition unpacked :: "rtree option \<Rightarrow> rtree" where
  "unpacked r = (case r of None \<Rightarrow> [[] \<mapsto> RDir] | Some t \<Rightarrow> t)"

record repack_env =
  rp_stat :: link_stat
  rp_order :: "rtree \<Rightarrow> path list"
  rp_uz :: "byte list \<Rightarrow> rtree option"
  rp_pk :: "rtree \<Rightarrow> byte list"

text \<open>\<open>rp_order\<close> is the order in which the loop visits the set \<open>tp_bins\<close>.\<close>

definition repack_main :: "repack_env \<Rightarrow> byte list \<Rightarrow> byte list \<Rightarrow> flow_error + byte list" where
  "repack_main E template ci_image =
     (case rd template of Inl e \<Rightarrow> Inl (Image_error e) | Inr tpl \<Rightarrow>
      (case rd ci_image of Inl e \<Rightarrow> Inl (Image_error e) | Inr ci \<Rightarrow>
        if length (vb_frags tpl) < 2 \<or> length (vb_frags ci) < 2 then Inl Fragment_missing
        else let ci_dir = unpacked (rp_uz E (fr_payload (vb_frags ci ! 1)));
                 tp_dir = unpacked (rp_uz E (fr_payload (vb_frags tpl ! 1)))
          in case merge_f1 (rp_stat E) (rp_order E tp_dir) tp_dir ci_dir of
               Inl e \<Rightarrow> Inl (Tree_error e)
             | Inr f1_dir \<Rightarrow>
                 (case build tpl (rp_pk E f1_dir) of Inl e \<Rightarrow> Inl (Image_error e) | Inr img \<Rightarrow> Inr img)))"

definition set_order :: "repack_env \<Rightarrow> rtree \<Rightarrow> bool" where
  "set_order E t \<longleftrightarrow> set (rp_order E t) = {p. bin_file (rp_stat E) t p} \<and> distinct (rp_order E t)"

text \<open>The run, whether or not the CI fragment could be unpacked.\<close>

lemma repack_run:
  assumes "rd template = Inr tpl" "rd ci_image = Inr ci" "vb_ec tpl = 2" "2 \<le> length (vb_frags tpl)" "2 \<le> length (vb_frags ci)"
    and "rp_uz E (fr_payload (vb_frags tpl ! 1)) = Some tp" "cb = unpacked (rp_uz E (fr_payload (vb_frags ci ! 1)))"
    and "mergeable (rp_stat E) tp cb" "set_order E tp"
    and "\<And>t. merge_f1 (rp_stat E) (rp_order E tp) tp cb = Inr t \<Longrightarrow> vb_fits tpl (rp_pk E t) \<and> rp_uz E (rp_pk E t) = Some t"
  obtains img new t where "repack_main E template ci_image = Inr img" "length img = PART_SZ" "rd img = Inr new"
    "fr_payload (vb_frags new ! 0) = fr_payload (vb_frags tpl ! 0)" "rp_uz E (fr_payload (vb_frags new ! 1)) = Some t"
    "\<And>p. bin_file (rp_stat E) t p \<longleftrightarrow> bin_file (rp_stat E) tp p"
    "\<And>p. bin_file (rp_stat E) tp p \<Longrightarrow> t p = (if bin_file (rp_stat E) cb p \<and> p \<notin> set core_paths then cb p else tp p)"
    "\<And>p. prefix lib_dir p \<Longrightarrow> t p = cb p"
proof -
  obtain t where t: "merge_f1 (rp_stat E) (rp_order E tp) tp cb = Inr t"
    "\<And>p. bin_file (rp_stat E) t p \<longleftrightarrow> bin_file (rp_stat E) tp p"
    "\<And>p. bin_file (rp_stat E) tp p \<Longrightarrow> t p = (if bin_file (rp_stat E) cb p \<and> p \<notin> set core_paths then cb p else tp p)"
    "\<And>p. prefix lib_dir p \<Longrightarrow> t p = cb p"
    by (rule merged_view [OF assms(8)]) (use assms(9) in \<open>auto simp: set_order_def intro: that\<close>)
  note packed = assms(10) [OF t(1)]
  obtain img new fr0 s where img: "build tpl (rp_pk E t) = Inr img" "length img = PART_SZ" "rd img = Inr new"
      "vb_frags tpl = fr0 # tl (vb_frags tpl)"
      "map (\<lambda>f. (fr_typ f, fr_off f, fr_name f, fr_payload f)) (vb_frags new) =
        [(1, 0, [], fr_payload fr0), (2, length (fr_payload fr0), [], rp_pk E t)]"
    using build_read_back [OF assms(1,3) conjunct1 [OF packed]] by (elim exE conjE) (rule that)
  have main: "repack_main E template ci_image = Inr img"
    using assms(4,5) t(1) [unfolded assms(7)] img(1)
    by (simp add: repack_main_def assms(1,2) assms(6) [unfolded One_nat_def] unpacked_def [of "Some tp"])
  from img(5) have "map fr_payload (vb_frags new) = [fr_payload fr0, rp_pk E t]"
    by (auto simp: map_eq_Cons_conv)
  then have f: "fr_payload (vb_frags new ! 0) = fr_payload (vb_frags tpl ! 0)" "fr_payload (vb_frags new ! 1) = rp_pk E t"
    by (auto simp: map_eq_Cons_conv) (subst img(4), simp)
  show thesis
    by (rule that [OF main img(2,3) f(1), of t]) (use t(2-4) packed f(2) in simp_all)
qed

text \<open>C5 \<open>repack_vendor_boot\<close> from end to end: when the two fragments unpack, their trees agree in kind (\<open>mergeable\<close>: no
  symbolic link below \<open>system/bin\<close> leads to a directory, the core programs of the CI build are files, \<open>bin\<close> and \<open>lib64\<close> are
  directories), the packed result fits and unpacking undoes packing on it, \<open>main\<close> writes a partition-sized image; read back,
  its fragment 0 is the template's and its fragment 1 unpacks to a tree with exactly the template's programs and exactly
  the CI libraries.\<close>

theorem repacked_image:
  assumes "rd template = Inr tpl" "rd ci_image = Inr ci" "vb_ec tpl = 2" "2 \<le> length (vb_frags tpl)" "2 \<le> length (vb_frags ci)"
    and "rp_uz E (fr_payload (vb_frags tpl ! 1)) = Some tp" "rp_uz E (fr_payload (vb_frags ci ! 1)) = Some cb"
    and "mergeable (rp_stat E) tp cb" "set_order E tp"
    and "\<And>t. merge_f1 (rp_stat E) (rp_order E tp) tp cb = Inr t \<Longrightarrow> vb_fits tpl (rp_pk E t) \<and> rp_uz E (rp_pk E t) = Some t"
  shows "\<exists>img new t. repack_main E template ci_image = Inr img \<and> length img = PART_SZ \<and> rd img = Inr new \<and>
    fr_payload (vb_frags new ! 0) = fr_payload (vb_frags tpl ! 0) \<and> rp_uz E (fr_payload (vb_frags new ! 1)) = Some t \<and>
    (\<forall>p. bin_file (rp_stat E) t p \<longleftrightarrow> bin_file (rp_stat E) tp p) \<and> (\<forall>p. prefix lib_dir p \<longrightarrow> t p = cb p)"
proof -
  have "cb = unpacked (rp_uz E (fr_payload (vb_frags ci ! 1)))" by (simp only: assms(7) unpacked_def option.case)
  then show ?thesis by (rule repack_run [OF assms(1-6) _ assms(8-10)]) blast+
qed

text \<open>C22 When \<open>lz4\<close> cannot decompress fragment 1 of the CI image, \<open>uz\<close> returns \<open>None\<close>, which \<open>main\<close> does not look at: the
  directory is empty, and the run succeeds. It writes an image whose fragment 1 unpacks to a tree with the template's
  programs, each as the template has it, and without a single library. The conditions on the template and on packing are
  those of a run that unpacks.\<close>

theorem unpack_failure_unnoticed:
  assumes "rd template = Inr tpl" "rd ci_image = Inr ci" "vb_ec tpl = 2" "2 \<le> length (vb_frags tpl)" "2 \<le> length (vb_frags ci)"
    and "rp_uz E (fr_payload (vb_frags tpl ! 1)) = Some tp" "rp_uz E (fr_payload (vb_frags ci ! 1)) = None"
    and "mergeable (rp_stat E) tp [[] \<mapsto> RDir]" "set_order E tp"
    and "\<And>t. merge_f1 (rp_stat E) (rp_order E tp) tp [[] \<mapsto> RDir] = Inr t \<Longrightarrow>
      vb_fits tpl (rp_pk E t) \<and> rp_uz E (rp_pk E t) = Some t"
  shows "\<exists>img new t. repack_main E template ci_image = Inr img \<and> rd img = Inr new \<and>
    rp_uz E (fr_payload (vb_frags new ! 1)) = Some t \<and>
    (\<forall>p. bin_file (rp_stat E) t p \<longleftrightarrow> bin_file (rp_stat E) tp p) \<and> (\<forall>p. bin_file (rp_stat E) tp p \<longrightarrow> t p = tp p) \<and>
    (\<forall>p. prefix lib_dir p \<longrightarrow> t p = None)"
proof -
  have "[[] \<mapsto> RDir] = unpacked (rp_uz E (fr_payload (vb_frags ci ! 1)))" by (simp only: assms(7) unpacked_def option.case)
  moreover have "\<not> bin_file (rp_stat E) [[] \<mapsto> RDir] p" for p by (simp add: bin_file_def walk_file_def)
  moreover have "prefix lib_dir p \<Longrightarrow> [[] \<mapsto> RDir] p = None" for p by (auto simp: lib_dir_def)
  ultimately show ?thesis by (rule_tac repack_run [OF assms(1-6) _ assms(8-10)]) auto
qed

section \<open>prepare_fragments and verify_fragments\<close>

text \<open>\<open>decompress_fragment\<close>: whether both processes end with 0, and the tree that is in the directory afterwards.
  \<open>prepare_fragments\<close> does not look at the first. The trees have no links.\<close>

record prepare_env =
  pe_unpack :: "byte list \<Rightarrow> bool \<times> tree"
  pe_pack :: "tree \<Rightarrow> byte list"

datatype prepare_error = Parse_error vb_error | Index_out_of_range | Tree_exception

text \<open>The packed fragments 0 and 1.\<close>

definition prepare_main ::
    "prepare_env \<Rightarrow> byte list \<Rightarrow> byte list \<Rightarrow> byte list \<Rightarrow> tree option \<Rightarrow> tree \<Rightarrow> prepare_error + byte list \<times> byte list" where
  "prepare_main E stock ci validated staging dt_rc =
     (case (vb_parse stock, vb_parse ci, vb_parse validated) of
        (Inl e, _, _) \<Rightarrow> Inl (Parse_error e)
      | (_, Inl e, _) \<Rightarrow> Inl (Parse_error e)
      | (_, _, Inl e) \<Rightarrow> Inl (Parse_error e)
      | (Inr stk_frags, Inr ci_frags, Inr val_frags) \<Rightarrow>
          if stk_frags = [] \<or> length ci_frags < 2 then Inl Index_out_of_range
          else case prepare_f0 (snd (pe_unpack E (stk_frags ! 0))) (snd (pe_unpack E (ci_frags ! 1))) of
            None \<Rightarrow> Inl Tree_exception
          | Some f0 \<Rightarrow>
              if length val_frags < 2 then Inl Index_out_of_range
              else case prepare_f1 (snd (pe_unpack E (val_frags ! 1))) staging dt_rc of
                None \<Rightarrow> Inl Tree_exception
              | Some f1 \<Rightarrow> Inr (pe_pack E f0, pe_pack E f1))"

text \<open>\<open>verify_fragments.main\<close>: both fragments are checked; \<open>None\<close> is an exception while \<open>init.rc\<close> is read.\<close>

definition verify_main :: "prepare_env \<Rightarrow> byte list \<Rightarrow> byte list \<Rightarrow> bool option" where
  "verify_main E f0 f1 =
     (case (if fst (pe_unpack E f0) then verify_f0 (snd (pe_unpack E f0)) else Some False) of
        None \<Rightarrow> None
      | Some ok0 \<Rightarrow> Some (ok0 \<and> fst (pe_unpack E f1) \<and> verify_f1 (snd (pe_unpack E f1))))"

text \<open>C6 The two tools fit together: when the three images parse, unpacking undoes packing, the CI image has the nine
  libraries and the stock fragment the service lines (\<open>f0_ready\<close>), fragment 1 can be overlaid without an exception, and
  the recovery binary, the rc files and the two libraries come from the validated, staged or device trees, then
  \<open>prepare_fragments\<close> writes two fragments on which \<open>verify_fragments\<close> reports that all checks passed.\<close>

theorem prepared_fragments_verified:
  assumes "vb_parse stock = Inr (s0 # ss)" "vb_parse ci = Inr (c0 # c1 # cs)" "vb_parse validated = Inr (v0 # v1 # vs)"
    and "f0_ready (snd (pe_unpack E s0)) (snd (pe_unpack E c1))"
    and "prepare_f1 (snd (pe_unpack E v1)) (Some staging) dt_rc = Some f1"
    and "path_exists (snd (pe_unpack E v1)) recovery_bin \<or> path_exists staging recovery_bin"
    and "\<forall>rc \<in> set DT_OVERLAY_RCS. path_exists (snd (pe_unpack E v1)) [rc] \<or> path_exists dt_rc [rc]"
    and "path_exists (snd (pe_unpack E v1)) [''system'', ''lib64'', ''libc.so'']"
    and "path_exists (snd (pe_unpack E v1)) [''system'', ''lib64'', ''libtwrpmtp-ffs.so'']"
    and "pe_unpack E (pe_pack E f1) = (True, f1)"
    and "\<And>f0. prepare_f0 (snd (pe_unpack E s0)) (snd (pe_unpack E c1)) = Some f0 \<Longrightarrow> pe_unpack E (pe_pack E f0) = (True, f0)"
  shows "\<exists>a b. prepare_main E stock ci validated (Some staging) dt_rc = Inr (a, b) \<and> verify_main E a b = Some True"
proof -
  obtain f0 where f0: "prepare_f0 (snd (pe_unpack E s0)) (snd (pe_unpack E c1)) = Some f0" "verify_f0 f0 = Some True"
    using prepare_f0_verified [OF assms(4)] by (auto simp: bind_eq_Some_conv)
  have f1: "verify_f1 f1"
    using prepare_f1_checked [OF assms(5)] assms(6-9) by simp
  show ?thesis
    using f0 f1 assms(11) [OF f0(1)] by (simp add: prepare_main_def verify_main_def assms(1-3,5,10))
qed

section \<open>Instances\<close>

text \<open>The template repacked with its own programs.\<close>

definition self_env :: repack_env where
  "self_env = \<lparr>rp_stat = name_stat, rp_order = (\<lambda>_. demo_bins),
     rp_uz = (\<lambda>d. if d = [66] then Some demo_template
        else Some (projr (merge_f1 name_stat demo_bins demo_template demo_template))),
     rp_pk = (\<lambda>_. [67, 68])\<rparr>"

lemma repacked_image_witness:
  "\<exists>img new t. repack_main self_env demo_image demo_image = Inr img \<and> rd img = Inr new \<and>
    rp_uz self_env (fr_payload (vb_frags new ! 1)) = Some t \<and> (\<forall>p. bin_file name_stat t p \<longleftrightarrow> bin_file name_stat demo_template p)"
proof -
  have frags: "vb_frags (template_of demo_image) ! 1 =
      \<lparr>fr_sz = 1, fr_off = 1, fr_typ = 2, fr_name = [], fr_payload = [66]\<rparr>"
    "length (vb_frags (template_of demo_image)) = 2" "vb_ec (template_of demo_image) = 2"
    by (simp_all add: template_of_def)
  have "rp_uz self_env (fr_payload (vb_frags (template_of demo_image) ! 1)) = Some demo_template"
    by (simp only: frags) (simp add: self_env_def)
  moreover have "mergeable (rp_stat self_env) demo_template demo_template" using demo_mergeable(2) by (simp add: self_env_def)
  moreover have "set_order self_env demo_template" using demo_bins by (simp add: set_order_def self_env_def)
  moreover have "vb_fits (template_of demo_image) (rp_pk self_env t) \<and> rp_uz self_env (rp_pk self_env t) = Some t"
    if "merge_f1 (rp_stat self_env) (rp_order self_env demo_template) demo_template demo_template = Inr t" for t
    using that demo_fits by (simp add: self_env_def)
  ultimately obtain img new t where "repack_main self_env demo_image demo_image = Inr img" "rd img = Inr new"
      "rp_uz self_env (fr_payload (vb_frags new ! 1)) = Some t"
      "\<forall>p. bin_file (rp_stat self_env) t p \<longleftrightarrow> bin_file (rp_stat self_env) demo_template p"
    using repacked_image [OF demo_image_rd demo_image_rd frags(3), of self_env demo_template demo_template] frags(2) by auto
  then show ?thesis by (auto simp: self_env_def)
qed

text \<open>A CI image whose fragment 1 is not an \<open>lz4\<close> file.\<close>

definition broken_env :: repack_env where
  "broken_env = self_env\<lparr>rp_uz := (\<lambda>d. if d = [66] then Some demo_template
     else if d = [67, 68] then Some (projr (merge_f1 name_stat demo_bins demo_template [[] \<mapsto> RDir])) else None)\<rparr>"

lemma unpack_failure_unnoticed_witness:
  "\<exists>ci_image img new t. repack_main broken_env demo_image ci_image = Inr img \<and> rd img = Inr new \<and>
    rp_uz broken_env (fr_payload (vb_frags new ! 1)) = Some t \<and> t (bin_dir @ [''init'']) = Some (RFile ''init-t'') \<and>
    t (lib_dir @ [''libc.so'']) = None"
proof -
  let ?tpl = "template_of demo_image"
  have tpl: "vb_frags ?tpl ! 1 = \<lparr>fr_sz = 1, fr_off = 1, fr_typ = 2, fr_name = [], fr_payload = [66]\<rparr>"
    "length (vb_frags ?tpl) = 2" "vb_ec ?tpl = 2"
    by (simp_all add: template_of_def)
  obtain ci_image ci where ci: "rd ci_image = Inr ci" "map fr_payload (vb_frags ci) = [[65], [70, 71]]"
  proof -
    from build_read_back [OF demo_image_rd tpl(3) demo_fits_two [of "[70, 71]"]] obtain i n fr0 where i: "rd i = Inr n"
      "vb_frags ?tpl = fr0 # tl (vb_frags ?tpl)"
      "map (\<lambda>f. (fr_typ f, fr_off f, fr_name f, fr_payload f)) (vb_frags n) =
        [(1, 0, [], fr_payload fr0), (2, length (fr_payload fr0), [], [70, 71])]"
      by auto
    from i(2) have "fr_payload fr0 = [65]" by (auto simp: template_of_def)
    then show ?thesis using i(1,3) by (intro that [of i n]) (auto simp: map_eq_Cons_conv)
  qed
  have "length (vb_frags ci) = 2" "fr_payload (vb_frags ci ! 1) = [70, 71]"
    using arg_cong [OF ci(2), of length] ci(2) by (auto simp: map_eq_Cons_conv)
  then have "rp_uz broken_env (fr_payload (vb_frags ci ! 1)) = None" "2 \<le> length (vb_frags ci)"
    by (simp_all add: broken_env_def)
  moreover have "rp_uz broken_env (fr_payload (vb_frags ?tpl ! 1)) = Some demo_template"
    by (simp only: tpl) (simp add: broken_env_def)
  moreover have env: "rp_stat broken_env = name_stat" by (simp add: broken_env_def self_env_def)
  then have "mergeable (rp_stat broken_env) demo_template [[] \<mapsto> RDir]" using demo_mergeable(3) by simp
  moreover have "set_order broken_env demo_template" using demo_bins by (simp add: set_order_def broken_env_def self_env_def)
  moreover have "vb_fits ?tpl (rp_pk broken_env t) \<and> rp_uz broken_env (rp_pk broken_env t) = Some t"
    if "merge_f1 (rp_stat broken_env) (rp_order broken_env demo_template) demo_template [[] \<mapsto> RDir] = Inr t" for t
    using that demo_fits by (simp add: broken_env_def self_env_def)
  ultimately obtain img new t where "repack_main broken_env demo_image ci_image = Inr img" "rd img = Inr new"
      "rp_uz broken_env (fr_payload (vb_frags new ! 1)) = Some t"
      "\<forall>p. bin_file name_stat demo_template p \<longrightarrow> t p = demo_template p" "\<forall>p. prefix lib_dir p \<longrightarrow> t p = None"
    using unpack_failure_unnoticed [OF demo_image_rd ci(1) tpl(3), of broken_env demo_template] tpl(2) unfolding env by auto
  moreover have "bin_file name_stat demo_template (bin_dir @ [''init''])" by (simp add: demo_bin_file demo_bins_def)
  moreover have "demo_template (bin_dir @ [''init'']) = Some (RFile ''init-t'')"
    by (simp add: demo_template_def bin_dir_def lib_dir_def)
  moreover have "prefix lib_dir (lib_dir @ [''libc.so''])" by simp
  ultimately show ?thesis by metis
qed

text \<open>One image for all three roles: its fragment 1 has the libraries and the validated recovery.\<close>

definition both_tree :: tree where
  "both_tree = demo_ci ++ demo_validated"

definition fragment_env :: prepare_env where
  "fragment_env = \<lparr>pe_unpack = (\<lambda>d. (True,
       if d = [65] then demo_stock else if d = [66] then both_tree
       else if d = [67] then the (prepare_f0 demo_stock both_tree)
       else the (prepare_f1 both_tree (Some demo_staging) demo_dt))),
     pe_pack = (\<lambda>t. if path_exists t recovery_bin then [68] else [67])\<rparr>"

lemma both_tree_at: "both_tree p = (case demo_validated p of None \<Rightarrow> demo_ci p | Some n \<Rightarrow> Some n)"
  by (simp add: both_tree_def map_add_def)

lemma both_ready: "f0_ready demo_stock both_tree"
  by (auto simp: f0_ready_def both_tree_at demo_validated_def demo_stock_def demo_ci_def f0_paths TWRP16_LIBS_def read_text_id
      old_service_def)

lemma both_overlay: "\<exists>f1. prepare_f1 both_tree (Some demo_staging) demo_dt = Some f1 \<and> path_exists f1 recovery_bin"
  by (simp add: prepare_f1_def STAGING_OVERLAY_FILES_def DT_OVERLAY_RCS_def path_exists_def demo_staging_def demo_dt_def
      both_tree_at demo_validated_def demo_ci_def TWRP16_LIBS_def recovery_bin_def makedirs_def copy2_def)

lemma prepared_fragments_verified_witness:
  "\<exists>a b. prepare_main fragment_env demo_image demo_image demo_image (Some demo_staging) demo_dt = Inr (a, b) \<and>
    verify_main fragment_env a b = Some True"
proof -
  obtain f1 where f1: "prepare_f1 both_tree (Some demo_staging) demo_dt = Some f1" "path_exists f1 recovery_bin"
    using both_overlay by blast
  have un: "snd (pe_unpack fragment_env [65]) = demo_stock" "snd (pe_unpack fragment_env [66]) = both_tree"
    by (simp_all add: fragment_env_def)
  have "pe_unpack fragment_env (pe_pack fragment_env f1) = (True, f1)" using f1 by (simp add: fragment_env_def)
  moreover have "pe_unpack fragment_env (pe_pack fragment_env f0) = (True, f0)" if "prepare_f0 demo_stock both_tree = Some f0" for f0
    using that prepare_f0_view(2) [OF that] by (simp add: fragment_env_def)
  ultimately show ?thesis
    using prepared_fragments_verified [OF demo_parse demo_parse demo_parse, of fragment_env demo_staging demo_dt f1, unfolded un]
      both_ready f1(1)
    by (simp add: path_exists_def both_tree_at demo_validated_def demo_staging_def demo_dt_def DT_OVERLAY_RCS_def recovery_bin_def)
qed

end
