(* ===== verification/NewcCpio.thy ===== *)
theory NewcCpio
  imports PyBytes
begin

text \<open>
  \<open>tools/patch_recovery_adbd_props.py\<close>: \<open>aligned\<close> and \<open>parse_newc\<close>, the parser of the newc CPIO archive in
  a recovery fragment. Offsets are Python integers: a numeric field is read by \<open>int(text, 16)\<close>, which
  accepts a minus sign, so the loop may move backwards and need not end; \<open>parse_loop\<close> is a
  \<open>partial_function\<close>, \<open>None\<close> being the run that does not return. \<open>newc_walk\<close> is the walk of a successful
  run as a relation; \<open>newc_encode\<close> is a writer of the format, for the round trip.
\<close>

section \<open>The parser\<close>

definition aligned :: "int \<Rightarrow> int \<Rightarrow> int" where
  "aligned v alignment = (v + alignment - 1) div alignment * alignment"

datatype newc_error =
    Truncated_header int | Invalid_magic int | Invalid_numeric int | Invalid_name int
  | Index_error | Unicode_error | Truncated_data "nat list" | Mode_overflow
  | Trailer_has_data | Trailer_missing | Nonzero_after_trailer

record newc_entry =
  ent_path :: "nat list"
  ent_type :: int
  ent_mode :: int
  ent_uid :: int
  ent_gid :: int
  ent_nlink :: int
  ent_mtime :: int
  ent_size :: int
  ent_device_major :: int
  ent_device_minor :: int
  ent_rdevice_major :: int
  ent_rdevice_minor :: int
  ent_check :: int
  header_start :: int
  data_start :: int
  data_end :: int

definition newc_fields :: "byte list \<Rightarrow> int list option" where
  "newc_fields header = those (map (\<lambda>k. py_int16 (py_slice header (int (6 + 8 * k)) (int (14 + 8 * k)))) [0..<13])"

text \<open>\<open>stat.S_IFMT\<close>, for a mode that is not negative.\<close>

definition S_IFMT :: "int \<Rightarrow> int" where
  "S_IFMT mode = and mode 0xF000"

text \<open>One iteration: the entry at \<open>offset\<close> and \<open>next_offset\<close>.\<close>

definition newc_step :: "byte list \<Rightarrow> int \<Rightarrow> newc_error + newc_entry \<times> int" where
  "newc_step blob offset =
     (if offset + 110 > int (length blob) then Inl (Truncated_header offset)
      else let header = py_slice blob offset (offset + 110) in
        if take 6 header \<noteq> ascii ''070701'' \<and> take 6 header \<noteq> ascii ''070702'' then Inl (Invalid_magic offset)
        else case newc_fields header of
          None \<Rightarrow> Inl (Invalid_numeric offset)
        | Some f \<Rightarrow>
            let mode = f ! 1; size = f ! 6; name_size = f ! 11;
                name_start = offset + 110; name_end = name_start + name_size
            in if name_size < 1 \<or> name_end > int (length blob) then Inl (Invalid_name offset)
               else case py_get blob (name_end - 1) of
                 None \<Rightarrow> Inl Index_error
               | Some z \<Rightarrow>
                   if z \<noteq> 0 then Inl (Invalid_name offset)
                   else case utf8_decode (py_slice blob name_start (name_end - 1)) of
                     None \<Rightarrow> Inl Unicode_error
                   | Some name \<Rightarrow>
                       let data_start = aligned name_end 4; data_end = data_start + size
                       in if data_end > int (length blob) then Inl (Truncated_data name)
                          else let next_offset = aligned data_end 4
                            in if mode < 0 then Inl Mode_overflow
                               else Inr (\<lparr>ent_path = name, ent_type = S_IFMT mode, ent_mode = mode, ent_uid = f ! 2,
                                   ent_gid = f ! 3, ent_nlink = f ! 4, ent_mtime = f ! 5, ent_size = size,
                                   ent_device_major = f ! 7, ent_device_minor = f ! 8, ent_rdevice_major = f ! 9,
                                   ent_rdevice_minor = f ! 10, ent_check = f ! 12, header_start = offset,
                                   data_start = data_start, data_end = data_end\<rparr>, next_offset))"

definition TRAILER :: "nat list" where
  "TRAILER = py_str ''TRAILER!!!''"

text \<open>The loop: the entries, and the offset after the trailer when one was found.\<close>

partial_function (option) parse_loop ::
    "byte list \<Rightarrow> int \<Rightarrow> newc_entry list \<Rightarrow> (newc_error + newc_entry list \<times> int option) option" where
  "parse_loop blob offset entries =
     (if offset < int (length blob) then
        case newc_step blob offset of
          Inl e \<Rightarrow> Some (Inl e)
        | Inr (e, next_offset) \<Rightarrow>
            if ent_path e = TRAILER then
              if ent_size e \<noteq> 0 then Some (Inl Trailer_has_data) else Some (Inr (entries, Some next_offset))
            else parse_loop blob next_offset (entries @ [e])
      else Some (Inr (entries, None)))"

definition parse_newc :: "byte list \<Rightarrow> (newc_error + newc_entry list) option" where
  "parse_newc blob = map_option (\<lambda>r. case r of
       Inl e \<Rightarrow> Inl e
     | Inr (entries, None) \<Rightarrow> Inl Trailer_missing
     | Inr (entries, Some offset) \<Rightarrow>
         if list_ex (\<lambda>b. b \<noteq> 0) (py_from blob offset) then Inl Nonzero_after_trailer else Inr entries)
     (parse_loop blob 0 [])"

section \<open>A step\<close>

lemma aligned_ge: "v \<le> aligned v 4"
  unfolding aligned_def by presburger

lemma aligned_lt: "aligned v 4 < v + 4"
  unfolding aligned_def by presburger

lemma aligned_dvd: "4 dvd aligned v 4"
  by (simp add: aligned_def)

lemma aligned_id: "4 dvd v \<Longrightarrow> aligned v 4 = v"
  unfolding aligned_def by presburger

lemma newc_step_Inr:
  assumes "newc_step blob offset = Inr (e, n)"
  obtains f name where
    "offset + 110 \<le> int (length blob)"
    "take 6 (py_slice blob offset (offset + 110)) = ascii ''070701'' \<or> take 6 (py_slice blob offset (offset + 110)) = ascii ''070702''"
    "newc_fields (py_slice blob offset (offset + 110)) = Some f"
    "1 \<le> f ! 11" "offset + 110 + f ! 11 \<le> int (length blob)" "0 \<le> f ! 1"
    "py_get blob (offset + 110 + f ! 11 - 1) = Some 0"
    "utf8_decode (py_slice blob (offset + 110) (offset + 110 + f ! 11 - 1)) = Some name"
    "aligned (offset + 110 + f ! 11) 4 + f ! 6 \<le> int (length blob)"
    "e = \<lparr>ent_path = name, ent_type = S_IFMT (f ! 1), ent_mode = f ! 1, ent_uid = f ! 2,
        ent_gid = f ! 3, ent_nlink = f ! 4, ent_mtime = f ! 5, ent_size = f ! 6,
        ent_device_major = f ! 7, ent_device_minor = f ! 8, ent_rdevice_major = f ! 9,
        ent_rdevice_minor = f ! 10, ent_check = f ! 12, header_start = offset,
        data_start = aligned (offset + 110 + f ! 11) 4, data_end = aligned (offset + 110 + f ! 11) 4 + f ! 6\<rparr>"
    "n = aligned (aligned (offset + 110 + f ! 11) 4 + f ! 6) 4"
  using assms unfolding newc_step_def Let_def
  by (simp split: if_splits option.splits; force)

lemma newc_stepD:
  assumes "newc_step blob offset = Inr (e, n)"
  shows "header_start e = offset" "data_end e = data_start e + ent_size e" "n = aligned (data_end e) 4"
    "data_end e \<le> int (length blob)" "offset + 111 \<le> data_start e" "offset + 110 \<le> int (length blob)"
    "ent_type e = S_IFMT (ent_mode e)" "0 \<le> ent_mode e"
proof -
  obtain f name where f: "1 \<le> f ! 11" "offset + 110 \<le> int (length blob)"
      "aligned (offset + 110 + f ! 11) 4 + f ! 6 \<le> int (length blob)" "0 \<le> f ! 1"
    and e: "e = \<lparr>ent_path = name, ent_type = S_IFMT (f ! 1), ent_mode = f ! 1, ent_uid = f ! 2,
        ent_gid = f ! 3, ent_nlink = f ! 4, ent_mtime = f ! 5, ent_size = f ! 6,
        ent_device_major = f ! 7, ent_device_minor = f ! 8, ent_rdevice_major = f ! 9,
        ent_rdevice_minor = f ! 10, ent_check = f ! 12, header_start = offset,
        data_start = aligned (offset + 110 + f ! 11) 4, data_end = aligned (offset + 110 + f ! 11) 4 + f ! 6\<rparr>"
    and n: "n = aligned (aligned (offset + 110 + f ! 11) 4 + f ! 6) 4"
    using newc_step_Inr [OF assms] by metis
  have "offset + 111 \<le> offset + 110 + f ! 11" using f(1) by simp
  also have "\<dots> \<le> aligned (offset + 110 + f ! 11) 4" by (rule aligned_ge)
  finally show "offset + 111 \<le> data_start e" using e by simp
  show "header_start e = offset" "data_end e = data_start e + ent_size e" "n = aligned (data_end e) 4"
    "data_end e \<le> int (length blob)" "offset + 110 \<le> int (length blob)"
    "ent_type e = S_IFMT (ent_mode e)" "0 \<le> ent_mode e"
    using f e n by simp_all
qed

lemma py_slice_cong:
  assumes "0 \<le> a" "0 \<le> b" "length ys = length xs"
    "\<And>i. i < length xs \<Longrightarrow> a \<le> int i \<Longrightarrow> int i < b \<Longrightarrow> ys ! i = xs ! i"
  shows "py_slice ys a b = py_slice xs a b"
proof -
  obtain m k where "a = int m" "b = int k" using assms(1,2) by (metis nonneg_int_cases)
  then show ?thesis using assms
    by (auto simp: py_slice_nat intro!: nth_equalityI)
qed

text \<open>Two archives of the same length with the same bytes at some indices.\<close>

definition same_on :: "(int \<Rightarrow> bool) \<Rightarrow> byte list \<Rightarrow> byte list \<Rightarrow> bool" where
  "same_on P xs ys \<longleftrightarrow> length ys = length xs \<and> (\<forall>i < length xs. P (int i) \<longrightarrow> ys ! i = xs ! i)"

lemma same_on_mono: "same_on P xs ys \<Longrightarrow> (\<And>i. Q i \<Longrightarrow> 0 \<le> i \<Longrightarrow> P i) \<Longrightarrow> same_on Q xs ys"
  by (simp add: same_on_def)

lemma same_on_length: "same_on P xs ys \<Longrightarrow> length ys = length xs"
  by (simp add: same_on_def)

lemma same_on_slice:
  "same_on P xs ys \<Longrightarrow> 0 \<le> a \<Longrightarrow> 0 \<le> b \<Longrightarrow> (\<And>i. a \<le> i \<Longrightarrow> i < b \<Longrightarrow> P i) \<Longrightarrow> py_slice ys a b = py_slice xs a b"
  by (rule py_slice_cong) (simp_all add: same_on_def)

text \<open>A step reads the header and the name only.\<close>

lemma newc_step_cong:
  assumes step: "newc_step blob offset = Inr (e, n)" and "0 \<le> offset"
    and same: "same_on (\<lambda>i. offset \<le> i \<and> i < data_start e) blob blob'"
  shows "newc_step blob' offset = Inr (e, n)"
proof (rule newc_step_Inr [OF step], goal_cases)
  case (1 f name)
  have ds: "offset + 110 + f ! 11 \<le> data_start e" using 1(10) aligned_ge by simp
  have len: "length blob' = length blob" using same by (rule same_on_length)
  have h: "py_slice blob' offset (offset + 110) = py_slice blob offset (offset + 110)"
    using ds \<open>0 \<le> offset\<close> 1(4) by (intro same_on_slice [OF same]) auto
  have m: "py_slice blob' (offset + 110) (offset + 110 + f ! 11 - 1) = py_slice blob (offset + 110) (offset + 110 + f ! 11 - 1)"
    using ds \<open>0 \<le> offset\<close> 1(4) by (intro same_on_slice [OF same]) auto
  obtain k where k: "offset + 110 + f ! 11 - 1 = int k"
    using \<open>0 \<le> offset\<close> 1(4) nonneg_int_cases [of "offset + 110 + f ! 11 - 1"] by auto
  then have "k < length blob \<Longrightarrow> blob' ! k = blob ! k"
    using ds 1(4) same by (simp add: same_on_def)
  then have "py_get blob' (offset + 110 + f ! 11 - 1) = py_get blob (offset + 110 + f ! 11 - 1)"
    unfolding k by (simp add: py_get_nat len)
  with 1 h m show ?case
    unfolding newc_step_def Let_def by (auto simp: len)
qed

section \<open>Walks\<close>

inductive newc_walk :: "byte list \<Rightarrow> int \<Rightarrow> newc_entry list \<Rightarrow> int option \<Rightarrow> bool" for blob where
  walk_end: "int (length blob) \<le> offset \<Longrightarrow> newc_walk blob offset [] None"
| walk_trailer: "offset < int (length blob) \<Longrightarrow> newc_step blob offset = Inr (e, n) \<Longrightarrow> ent_path e = TRAILER \<Longrightarrow>
    ent_size e = 0 \<Longrightarrow> newc_walk blob offset [] (Some n)"
| walk_entry: "offset < int (length blob) \<Longrightarrow> newc_step blob offset = Inr (e, n) \<Longrightarrow> ent_path e \<noteq> TRAILER \<Longrightarrow>
    newc_walk blob n es fin \<Longrightarrow> newc_walk blob offset (e # es) fin"

inductive_cases walk_ConsE: "newc_walk blob offset (e # es) fin"
inductive_cases walk_NilE: "newc_walk blob offset [] fin"

lemma parse_loop_walk:
  "parse_loop blob offset acc = Some r \<Longrightarrow> r = Inr (entries, fin) \<Longrightarrow>
   \<exists>es. entries = acc @ es \<and> newc_walk blob offset es fin"
proof (induction arbitrary: entries fin rule: parse_loop.raw_induct [rotated 1, consumes 1])
  case (1 loop blob offset acc r)
  from 1(2,3) show ?case
  proof (cases "offset < int (length blob)")
    case False
    then show ?thesis using 1(2,3) by (auto intro: walk_end)
  next
    case True
    then obtain e n where s: "newc_step blob offset = Inr (e, n)"
      using 1(2,3) by (auto split: sum.splits)
    show ?thesis
    proof (cases "ent_path e = TRAILER")
      case True': True
      then show ?thesis using True s 1(2,3) by (auto split: if_splits intro: walk_trailer)
    next
      case False
      with True s 1(2) have "loop blob n (acc @ [e]) = Some r" by simp
      from 1(1) [OF this 1(3)] obtain es where "entries = acc @ e # es" "newc_walk blob n es fin"
        by auto
      then show ?thesis using walk_entry [OF True s False] by blast
    qed
  qed
qed

lemma walk_parse_loop:
  "newc_walk blob offset es fin \<Longrightarrow> parse_loop blob offset acc = Some (Inr (acc @ es, fin))"
proof (induction arbitrary: acc rule: newc_walk.induct)
  case (walk_end offset)
  then show ?case by (subst parse_loop.simps) simp
next
  case (walk_trailer offset e n)
  then show ?case by (subst parse_loop.simps) simp
next
  case (walk_entry offset e n es fin)
  then show ?case by (subst parse_loop.simps) simp
qed

lemma parse_newc_Inr:
  "parse_newc blob = Some (Inr es) \<longleftrightarrow>
   (\<exists>n. newc_walk blob 0 es (Some n) \<and> (\<forall>b \<in> set (py_from blob n). b = 0))"
proof
  assume "parse_newc blob = Some (Inr es)"
  then obtain r where r: "parse_loop blob 0 [] = Some r"
    and "(case r of Inl e \<Rightarrow> Inl e | Inr (entries, None) \<Rightarrow> Inl Trailer_missing
       | Inr (entries, Some offset) \<Rightarrow>
           if list_ex (\<lambda>b. b \<noteq> 0) (py_from blob offset) then Inl Nonzero_after_trailer else Inr entries) = Inr es"
    unfolding parse_newc_def by auto
  then obtain n where "r = Inr (es, Some n)" "\<not> list_ex (\<lambda>b. b \<noteq> 0) (py_from blob n)"
    by (cases r) (auto split: option.splits if_splits)
  with r have "parse_loop blob 0 [] = Some (Inr (es, Some n))" "\<not> list_ex (\<lambda>b. b \<noteq> 0) (py_from blob n)"
    by simp_all
  with parse_loop_walk show "\<exists>n. newc_walk blob 0 es (Some n) \<and> (\<forall>b \<in> set (py_from blob n). b = 0)"
    by (fastforce simp: list_ex_iff)
next
  assume "\<exists>n. newc_walk blob 0 es (Some n) \<and> (\<forall>b \<in> set (py_from blob n). b = 0)"
  then show "parse_newc blob = Some (Inr es)"
    using walk_parse_loop [where acc = "[]"] unfolding parse_newc_def
    by (fastforce simp: list_ex_iff)
qed

section \<open>Archives whose sizes are not negative\<close>

definition sizes_ok :: "newc_entry list \<Rightarrow> bool" where
  "sizes_ok es \<longleftrightarrow> (\<forall>e \<in> set es. 0 \<le> ent_size e)"

lemma sizes_ok_simps [simp]:
  "sizes_ok []" "sizes_ok (e # es) \<longleftrightarrow> 0 \<le> ent_size e \<and> sizes_ok es"
  by (auto simp: sizes_ok_def)

lemma newc_step_forward:
  assumes "newc_step blob offset = Inr (e, n)" "0 \<le> ent_size e"
  shows "offset + 111 \<le> n" "data_end e \<le> n" "data_start e \<le> data_end e"
  using newc_stepD [OF assms(1)] assms(2) aligned_ge [of "data_end e"] by auto

lemma walk_regions:
  "newc_walk blob offset es fin \<Longrightarrow> sizes_ok es \<Longrightarrow> e \<in> set es \<Longrightarrow>
   offset + 111 \<le> data_start e \<and> data_start e \<le> data_end e \<and> data_end e \<le> int (length blob)"
proof (induction rule: newc_walk.induct)
  case (walk_entry offset d n es fin)
  note f = newc_stepD(4,5) [OF walk_entry(2)] newc_step_forward [OF walk_entry(2)]
  show ?case
  proof (cases "e = d")
    case True
    then show ?thesis using f walk_entry.prems by simp
  next
    case False
    then have "n + 111 \<le> data_start e \<and> data_start e \<le> data_end e \<and> data_end e \<le> int (length blob)"
      using walk_entry.IH walk_entry.prems by simp
    then show ?thesis using f walk_entry.prems by simp
  qed
qed simp_all

lemma walk_count:
  "newc_walk blob offset es fin \<Longrightarrow> sizes_ok es \<Longrightarrow> 4 dvd offset \<Longrightarrow> fin \<noteq> None \<Longrightarrow>
   offset + 112 * int (length es) + 110 \<le> int (length blob)"
proof (induction rule: newc_walk.induct)
  case (walk_end offset)
  then show ?case by simp
next
  case (walk_trailer offset e n)
  then show ?case using newc_stepD [OF walk_trailer(2)] by auto
next
  case (walk_entry offset e n es fin)
  have n: "4 dvd n" "offset + 111 \<le> n"
    using newc_stepD(3) [OF walk_entry(2)] aligned_dvd newc_step_forward(1) [OF walk_entry(2)] walk_entry.prems
    by auto
  have "offset + 112 \<le> n" using n walk_entry.prems(2) by presburger
  with walk_entry n(1) show ?case by simp
qed

text \<open>The walk is the same in an archive that differs before its start, or in the contents of one entry.\<close>

lemma walk_same_from:
  "newc_walk blob offset es fin \<Longrightarrow> sizes_ok es \<Longrightarrow> 0 \<le> offset \<Longrightarrow> same_on (\<lambda>i. offset \<le> i) blob blob' \<Longrightarrow>
   newc_walk blob' offset es fin"
proof (induction rule: newc_walk.induct)
  case (walk_end offset)
  then show ?case by (intro newc_walk.walk_end) (simp add: same_on_length)
next
  case (walk_trailer offset e n)
  then have "newc_step blob' offset = Inr (e, n)"
    by (intro newc_step_cong [OF walk_trailer(2)] same_on_mono [OF walk_trailer.prems(3)]) simp_all
  with walk_trailer show ?case by (intro newc_walk.walk_trailer) (simp_all add: same_on_length)
next
  case (walk_entry offset e n es fin)
  have n: "offset + 111 \<le> n" using newc_step_forward(1) [OF walk_entry(2)] walk_entry.prems by simp
  have "newc_step blob' offset = Inr (e, n)"
    using walk_entry.prems(2)
    by (intro newc_step_cong [OF walk_entry(2)] same_on_mono [OF walk_entry.prems(3)]) simp_all
  moreover have "same_on (\<lambda>i. n \<le> i) blob blob'" using n by (intro same_on_mono [OF walk_entry.prems(3)]) simp
  then have "newc_walk blob' n es fin" using walk_entry.IH walk_entry.prems n by simp
  ultimately show ?case using walk_entry(1,3) walk_entry.prems(3)
    by (intro newc_walk.walk_entry) (simp_all add: same_on_length)
qed

lemma walk_same_headers:
  "newc_walk blob offset es fin \<Longrightarrow> sizes_ok es \<Longrightarrow> 0 \<le> offset \<Longrightarrow> d \<in> set es \<Longrightarrow>
   same_on (\<lambda>i. \<not> (data_start d \<le> i \<and> i < data_end d)) blob blob' \<Longrightarrow> newc_walk blob' offset es fin"
proof (induction rule: newc_walk.induct)
  case (walk_entry offset e n es fin)
  note step = walk_entry(2) and same = walk_entry.prems(4)
  have f: "offset + 111 \<le> n" "data_end e \<le> n" "data_start e \<le> data_end e"
    using newc_step_forward [OF step] walk_entry.prems by auto
  have len: "offset < int (length blob')" using walk_entry(1) same by (simp add: same_on_length)
  show ?case
  proof (cases "d = e")
    case True
    have "newc_step blob' offset = Inr (e, n)" using walk_entry.prems True
      by (intro newc_step_cong [OF step] same_on_mono [OF same]) auto
    moreover have "newc_walk blob' n es fin" using walk_entry.prems f True
      by (intro walk_same_from [OF walk_entry(4)] same_on_mono [OF same]) auto
    ultimately show ?thesis using len walk_entry(3) by (intro newc_walk.walk_entry)
  next
    case False
    then have d: "n + 111 \<le> data_start d" using walk_regions [OF walk_entry(4)] walk_entry.prems by auto
    have "newc_step blob' offset = Inr (e, n)" using walk_entry.prems d f
      by (intro newc_step_cong [OF step] same_on_mono [OF same]) auto
    moreover have "newc_walk blob' n es fin"
      using walk_entry.IH walk_entry.prems f False by simp
    ultimately show ?thesis using len walk_entry(3) by (intro newc_walk.walk_entry)
  qed
qed simp_all

text \<open>The bytes from the trailer on are not in an entry.\<close>

lemma walk_fin:
  "newc_walk blob offset es fin \<Longrightarrow> sizes_ok es \<Longrightarrow> fin = Some m \<Longrightarrow> offset + 111 \<le> m \<and> (\<forall>e \<in> set es. data_end e \<le> m)"
proof (induction rule: newc_walk.induct)
  case (walk_trailer offset e n)
  then show ?case using newc_step_forward [OF walk_trailer(2)] by auto
next
  case (walk_entry offset e n es fin)
  then show ?case using newc_step_forward [OF walk_entry(2)] by auto
qed simp

lemma parse_newc_same_headers:
  assumes "parse_newc blob = Some (Inr es)" "sizes_ok es" "d \<in> set es"
    and same: "same_on (\<lambda>i. \<not> (data_start d \<le> i \<and> i < data_end d)) blob blob'"
  shows "parse_newc blob' = Some (Inr es)"
proof -
  obtain n where w: "newc_walk blob 0 es (Some n)" and z: "\<forall>b \<in> set (py_from blob n). b = 0"
    using assms(1) by (auto simp: parse_newc_Inr)
  have n: "111 \<le> n" "data_end d \<le> n" using walk_fin [OF w assms(2)] assms(3) by auto
  then obtain k where k: "n = int k" using nonneg_int_cases [of n] by auto
  have "newc_walk blob' 0 es (Some n)" using assms by (intro walk_same_headers [OF w]) auto
  moreover have "py_from blob' n = py_from blob n"
    unfolding k py_from_nat using n k same
    by (intro nth_equalityI) (auto simp: same_on_def)
  ultimately show ?thesis using z by (auto simp: parse_newc_Inr)
qed

section \<open>Termination\<close>

text \<open>The offsets the loop reaches.\<close>

inductive newc_reach :: "byte list \<Rightarrow> int \<Rightarrow> bool" for blob where
  reach_start: "newc_reach blob 0"
| reach_next: "newc_reach blob offset \<Longrightarrow> offset < int (length blob) \<Longrightarrow> newc_step blob offset = Inr (e, n) \<Longrightarrow>
    ent_path e \<noteq> TRAILER \<Longrightarrow> newc_reach blob n"

lemma parse_loop_returns:
  assumes "\<And>offset e n. newc_reach blob offset \<Longrightarrow> newc_step blob offset = Inr (e, n) \<Longrightarrow> 0 \<le> ent_size e"
    and "newc_reach blob offset"
  shows "\<exists>r. parse_loop blob offset acc = Some r"
  using assms(2)
proof (induction "nat (int (length blob) - offset)" arbitrary: offset acc rule: less_induct)
  case less
  show ?case
  proof (cases "offset < int (length blob)")
    case False
    then show ?thesis by (subst parse_loop.simps) simp
  next
    case True
    show ?thesis
    proof (cases "newc_step blob offset")
      case (Inl x)
      with True show ?thesis by (subst parse_loop.simps) simp
    next
      case (Inr p)
      obtain e n where p: "p = (e, n)" by (cases p)
      show ?thesis
      proof (cases "ent_path e = TRAILER")
        case True': True
        with True Inr p show ?thesis by (subst parse_loop.simps) simp
      next
        case False
        have "offset + 111 \<le> n" using newc_step_forward(1) Inr p assms(1) less.prems by blast
        moreover have "newc_reach blob n" using reach_next [OF less.prems True] Inr p False by blast
        ultimately have "\<exists>r. parse_loop blob n (acc @ [e]) = Some r" using True by (intro less.hyps) auto
        with True Inr p False show ?thesis by (subst parse_loop.simps) simp
      qed
    qed
  qed
qed

section \<open>A writer of the format\<close>

definition hex_digit :: "nat \<Rightarrow> byte" where
  "hex_digit d = (if d < 10 then of_nat (48 + d) else of_nat (55 + d))"

fun hex_digits :: "nat \<Rightarrow> nat \<Rightarrow> nat list" where
  "hex_digits 0 n = []"
| "hex_digits (Suc k) n = hex_digits k (n div 16) @ [n mod 16]"

definition hex8 :: "nat \<Rightarrow> byte list" where
  "hex8 n = map hex_digit (hex_digits 8 n)"

record cpio_file =
  cf_inode :: nat
  cf_mode :: nat
  cf_uid :: nat
  cf_gid :: nat
  cf_nlink :: nat
  cf_mtime :: nat
  cf_devmajor :: nat
  cf_devminor :: nat
  cf_rdevmajor :: nat
  cf_rdevminor :: nat
  cf_check :: nat
  cf_name :: "byte list"
  cf_data :: "byte list"

definition cpio_fields :: "cpio_file \<Rightarrow> nat list" where
  "cpio_fields f = [cf_inode f, cf_mode f, cf_uid f, cf_gid f, cf_nlink f, cf_mtime f, length (cf_data f),
     cf_devmajor f, cf_devminor f, cf_rdevmajor f, cf_rdevminor f, Suc (length (cf_name f)), cf_check f]"

definition newc_pad :: "nat \<Rightarrow> byte list" where
  "newc_pad n = replicate ((4 - n mod 4) mod 4) 0"

definition newc_encode :: "cpio_file \<Rightarrow> byte list" where
  "newc_encode f = ascii ''070701'' @ concat (map hex8 (cpio_fields f)) @ cf_name f @ [0]
     @ newc_pad (110 + Suc (length (cf_name f))) @ cf_data f @ newc_pad (length (cf_data f))"

definition trailer_file :: cpio_file where
  "trailer_file = \<lparr>cf_inode = 0, cf_mode = 0, cf_uid = 0, cf_gid = 0, cf_nlink = 1, cf_mtime = 0,
     cf_devmajor = 0, cf_devminor = 0, cf_rdevmajor = 0, cf_rdevminor = 0, cf_check = 0,
     cf_name = ascii ''TRAILER!!!'', cf_data = []\<rparr>"

definition newc_archive :: "cpio_file list \<Rightarrow> nat \<Rightarrow> byte list" where
  "newc_archive fs k = concat (map newc_encode fs) @ newc_encode trailer_file @ replicate k 0"

text \<open>What the format can hold, and what a reader should get back.\<close>

definition cpio_file_ok :: "cpio_file \<Rightarrow> bool" where
  "cpio_file_ok f \<longleftrightarrow> (\<forall>n \<in> set (cpio_fields f). n < 16 ^ 8) \<and> utf8_decode (cf_name f) \<noteq> None"

definition file_view :: "cpio_file \<Rightarrow> nat list \<times> int \<times> int list \<times> byte list" where
  "file_view f = (the (utf8_decode (cf_name f)), S_IFMT (int (cf_mode f)),
     map int [cf_mode f, cf_uid f, cf_gid f, cf_nlink f, cf_mtime f, length (cf_data f), cf_devmajor f, cf_devminor f,
       cf_rdevmajor f, cf_rdevminor f, cf_check f], cf_data f)"

definition entry_view :: "byte list \<Rightarrow> newc_entry \<Rightarrow> nat list \<times> int \<times> int list \<times> byte list" where
  "entry_view blob e = (ent_path e, ent_type e,
     [ent_mode e, ent_uid e, ent_gid e, ent_nlink e, ent_mtime e, ent_size e, ent_device_major e, ent_device_minor e,
      ent_rdevice_major e, ent_rdevice_minor e, ent_check e], py_slice blob (data_start e) (data_end e))"

subsection \<open>A field of eight hexadecimal digits\<close>

lemma hex_digit_facts:
  assumes "d < 16"
  shows "hex_val (hex_digit d) = Some d" "hex_digit d \<noteq> 95" "\<not> is_space (hex_digit d)"
    "hex_digit d \<noteq> 43" "hex_digit d \<noteq> 45" "hex_digit d \<noteq> 120" "hex_digit d \<noteq> 88"
proof -
  have "\<forall>d \<in> set [0..<16]. hex_val (hex_digit d) = Some d \<and> hex_digit d \<noteq> 95 \<and> \<not> is_space (hex_digit d) \<and>
      hex_digit d \<noteq> 43 \<and> hex_digit d \<noteq> 45 \<and> hex_digit d \<noteq> 120 \<and> hex_digit d \<noteq> 88"
    by code_simp
  then have "hex_val (hex_digit d) = Some d \<and> hex_digit d \<noteq> 95 \<and> \<not> is_space (hex_digit d) \<and>
      hex_digit d \<noteq> 43 \<and> hex_digit d \<noteq> 45 \<and> hex_digit d \<noteq> 120 \<and> hex_digit d \<noteq> 88"
    using assms by (metis atLeastLessThan_iff le0 set_upt)
  then show "hex_val (hex_digit d) = Some d" "hex_digit d \<noteq> 95" "\<not> is_space (hex_digit d)"
    "hex_digit d \<noteq> 43" "hex_digit d \<noteq> 45" "hex_digit d \<noteq> 120" "hex_digit d \<noteq> 88"
    by simp_all
qed

lemma length_hex_digits [simp]: "length (hex_digits k n) = k"
  by (induction k arbitrary: n) simp_all

lemma hex_digits_less: "d \<in> set (hex_digits k n) \<Longrightarrow> d < 16"
  by (induction k arbitrary: n) auto

lemma hex_digits_value: "foldl (\<lambda>a d. 16 * a + d) 0 (hex_digits k n) = n mod 16 ^ k"
proof (induction k arbitrary: n)
  case 0
  then show ?case by simp
next
  case (Suc k)
  have "n mod 16 ^ Suc k = 16 * (n div 16 mod 16 ^ k) + n mod 16"
    by (simp add: mod_mult2_eq mult.commute)
  then show ?case by (simp add: Suc)
qed

lemma scan_hex_digits:
  "(\<And>d. d \<in> set ds \<Longrightarrow> d < 16) \<Longrightarrow> ds \<noteq> [] \<or> \<not> u \<Longrightarrow>
   scan_hex (map hex_digit ds) u acc = Some (foldl (\<lambda>a d. 16 * a + d) acc ds, [])"
  by (induction ds arbitrary: u acc) (auto simp: hex_digit_facts)

lemma py_int16_digits:
  assumes "\<And>d. d \<in> set ds \<Longrightarrow> d < 16" "2 \<le> length ds"
  shows "py_int16 (map hex_digit ds) = Some (int (foldl (\<lambda>a d. 16 * a + d) 0 ds))"
proof -
  obtain a b r where ds: "ds = a # b # r" using assms(2) by (auto simp: Suc_le_length_iff numeral_2_eq_2)
  have ab: "a < 16" "b < 16" using assms(1) ds by auto
  have "scan_hex (map hex_digit ds) False 0 = Some (foldl (\<lambda>a d. 16 * a + d) 0 ds, [])"
    by (rule scan_hex_digits) (auto simp: assms)
  then show ?thesis using hex_digit_facts [OF ab(1)] hex_digit_facts [OF ab(2)]
    by (simp add: ds py_int16_def py_sign_def py_hex_prefix_def)
qed

lemma py_int16_hex8: "n < 16 ^ 8 \<Longrightarrow> py_int16 (hex8 n) = Some (int n)"
  unfolding hex8_def
  by (subst py_int16_digits) (auto simp: hex_digits_value dest: hex_digits_less)

lemma length_hex8 [simp]: "length (hex8 n) = 8"
  by (simp add: hex8_def)

subsection \<open>Reading an encoded file back\<close>

lemma pad_dvd: "4 dvd n + length (newc_pad n)"
proof -
  have "n mod 4 + (4 - n mod 4) = 4" by (rule le_add_diff_inverse) (simp add: less_imp_le)
  then have "(n + (4 - n mod 4) mod 4) mod 4 = 0"
    by (metis mod_add_left_eq mod_add_right_eq mod_self)
  then show ?thesis unfolding newc_pad_def length_replicate by (simp only: dvd_eq_mod_eq_0)
qed

lemma length_pad: "length (newc_pad n) < 4"
  by (simp add: newc_pad_def)

lemma aligned_unique: "4 dvd w \<Longrightarrow> v \<le> w \<Longrightarrow> w < v + 4 \<Longrightarrow> aligned v 4 = w"
  using aligned_ge [of v] aligned_lt [of v] aligned_dvd [of v] by presburger

lemma aligned_pad:
  assumes "4 dvd m"
  shows "aligned (int (m + n)) 4 = int (m + n + length (newc_pad n))"
proof (rule aligned_unique)
  have "4 dvd m + (n + length (newc_pad n))" using assms pad_dvd by (rule dvd_add)
  then show "4 dvd int (m + n + length (newc_pad n))" by (metis add.assoc int_dvd_int_iff of_nat_numeral)
qed (use length_pad [of n] in simp_all)

lemma drop_chunks: "\<forall>c \<in> set cs. length c = 8 \<Longrightarrow> drop (8 * k) (concat cs) = concat (drop k cs)"
proof (induction k arbitrary: cs)
  case 0
  then show ?case by simp
next
  case (Suc k)
  then show ?case by (cases cs) simp_all
qed

lemma length_hex8s [simp]: "length (concat (map hex8 ns)) = 8 * length ns"
  by (induction ns) simp_all

lemma those_map_Some: "(\<And>x. x \<in> set xs \<Longrightarrow> g x = Some (h x)) \<Longrightarrow> those (map g xs) = Some (map h xs)"
  by (induction xs) simp_all

lemma length_cpio_fields [simp]: "length (cpio_fields f) = 13"
  by (simp add: cpio_fields_def)

lemma newc_fields_chunks:
  assumes "length m = 6" "length cs = 13" "\<forall>c \<in> set cs. length c = 8"
  shows "newc_fields (m @ concat cs) = those (map py_int16 cs)"
proof -
  have f: "py_slice (m @ concat cs) (int (6 + 8 * k)) (int (14 + 8 * k)) = cs ! k" if "k < 13" for k
  proof -
    have "drop k cs = cs ! k # drop (Suc k) cs" using that assms(2) by (simp add: Cons_nth_drop_Suc)
    moreover have "length (cs ! k) = 8" using assms that by simp
    moreover have "drop (6 + 8 * k) (m @ concat cs) = concat (drop k cs)"
      using drop_chunks [OF assms(3)] by (simp add: assms(1))
    ultimately show ?thesis unfolding py_slice_nat by simp
  qed
  have "map (\<lambda>k. py_int16 (py_slice (m @ concat cs) (int (6 + 8 * k)) (int (14 + 8 * k)))) [0..<13] = map py_int16 cs"
    using assms(2) by (intro nth_equalityI) (auto simp: f simp del: of_nat_add of_nat_mult of_nat_numeral)
  then show ?thesis unfolding newc_fields_def by simp
qed

lemma newc_fields_encode:
  assumes "\<forall>n \<in> set ns. n < 16 ^ 8" "length ns = 13"
  shows "newc_fields (ascii ''070701'' @ concat (map hex8 ns)) = Some (map int ns)"
proof -
  have "newc_fields (ascii ''070701'' @ concat (map hex8 ns)) = those (map py_int16 (map hex8 ns))"
    by (rule newc_fields_chunks) (simp_all add: assms)
  also have "\<dots> = Some (map int ns)"
    unfolding map_map using assms by (intro those_map_Some) (auto simp: py_int16_hex8 simp del: One_nat_def)
  finally show ?thesis .
qed

lemma length_newc_encode_mod: "4 dvd length (newc_encode f)"
proof -
  let ?m = "110 + Suc (length (cf_name f))" and ?n = "length (cf_data f)"
  have "length (newc_encode f) = (?m + length (newc_pad ?m)) + (?n + length (newc_pad ?n))"
    by (simp add: newc_encode_def)
  then show ?thesis by (simp only: dvd_add pad_dvd)
qed

lemma newc_step_encode:
  assumes ok: "cpio_file_ok f" and dvd: "4 dvd length pre"
  shows "\<exists>e. newc_step (pre @ newc_encode f @ post) (int (length pre)) = Inr (e, int (length (pre @ newc_encode f)))
    \<and> entry_view (pre @ newc_encode f @ post) e = file_view f \<and> ent_size e = int (length (cf_data f))"
proof -
  define hdr where "hdr = ascii ''070701'' @ concat (map hex8 (cpio_fields f))"
  define nm where "nm = cf_name f"
  define p1 where "p1 = newc_pad (110 + Suc (length nm))"
  define p2 where "p2 = newc_pad (length (cf_data f))"
  define blob where "blob = pre @ newc_encode f @ post"
  have blob: "blob = pre @ hdr @ nm @ [0] @ p1 @ cf_data f @ p2 @ post"
    by (simp add: blob_def newc_encode_def hdr_def nm_def p1_def p2_def)
  have hdr: "length hdr = 110" by (simp add: hdr_def)
  have len: "length blob = length pre + 110 + Suc (length nm) + length p1 + length (cf_data f) + length p2 + length post"
    by (simp add: blob hdr)
  obtain str where str: "utf8_decode nm = Some str" using ok by (auto simp: cpio_file_ok_def nm_def)
  have o: "int (length pre) + 110 = int (length pre + 110)" by simp
  have header: "py_slice blob (int (length pre)) (int (length pre) + 110) = hdr"
    unfolding o py_slice_nat by (simp add: blob hdr)
  have fields: "newc_fields hdr = Some (map int (cpio_fields f))"
    unfolding hdr_def using ok by (intro newc_fields_encode) (auto simp: cpio_file_ok_def)
  have magic: "take 6 hdr = ascii ''070701''" by (simp add: hdr_def)
  have f: "map int (cpio_fields f) ! 1 = int (cf_mode f)" "map int (cpio_fields f) ! 6 = int (length (cf_data f))"
    "map int (cpio_fields f) ! 11 = int (Suc (length nm))"
    by (simp_all add: cpio_fields_def nm_def)
  have zero: "py_get blob (int (length pre) + 110 + int (Suc (length nm)) - 1) = Some 0"
  proof -
    have "int (length pre) + 110 + int (Suc (length nm)) - 1 = int (length (pre @ hdr @ nm))" by (simp add: hdr)
    then show ?thesis by (simp only: py_get_nat) (simp add: blob hdr nth_append)
  qed
  have name: "py_slice blob (int (length pre) + 110) (int (length pre) + 110 + int (Suc (length nm)) - 1) = nm"
  proof -
    have "int (length pre) + 110 = int (length (pre @ hdr))"
      "int (length (pre @ hdr)) + int (Suc (length nm)) - 1 = int (length (pre @ hdr @ nm))" by (simp_all add: hdr)
    then show ?thesis by (simp only: py_slice_nat) (simp add: blob)
  qed
  have ds: "aligned (int (length pre) + 110 + int (Suc (length nm))) 4 = int (length (pre @ hdr @ nm @ [0] @ p1))"
    using aligned_pad [OF dvd, of "110 + Suc (length nm)"] by (simp add: hdr p1_def algebra_simps)
  have enc: "length (pre @ newc_encode f) = length (pre @ hdr @ nm @ [0] @ p1) + length (cf_data f) + length p2"
    by (simp add: newc_encode_def hdr_def nm_def p1_def p2_def)
  have "4 dvd length (pre @ hdr @ nm @ [0] @ p1)"
    by (metis aligned_dvd ds int_dvd_int_iff of_nat_numeral)
  then have nx: "aligned (int (length (pre @ hdr @ nm @ [0] @ p1)) + int (length (cf_data f))) 4 = int (length (pre @ newc_encode f))"
    using aligned_pad [of "length (pre @ hdr @ nm @ [0] @ p1)" "length (cf_data f)"]
    unfolding enc p2_def of_nat_add [symmetric] by blast
  have data: "py_slice blob (int (length (pre @ hdr @ nm @ [0] @ p1))) (int (length (pre @ hdr @ nm @ [0] @ p1)) + int (length (cf_data f)))
      = cf_data f"
    unfolding of_nat_add [symmetric] py_slice_nat by (simp add: blob)
  let ?F = "map int (cpio_fields f)"
  define e where "e = \<lparr>ent_path = str, ent_type = S_IFMT (int (cf_mode f)), ent_mode = int (cf_mode f), ent_uid = ?F ! 2,
      ent_gid = ?F ! 3, ent_nlink = ?F ! 4, ent_mtime = ?F ! 5, ent_size = int (length (cf_data f)),
      ent_device_major = ?F ! 7, ent_device_minor = ?F ! 8, ent_rdevice_major = ?F ! 9,
      ent_rdevice_minor = ?F ! 10, ent_check = ?F ! 12, header_start = int (length pre),
      data_start = int (length (pre @ hdr @ nm @ [0] @ p1)),
      data_end = int (length (pre @ hdr @ nm @ [0] @ p1)) + int (length (cf_data f))\<rparr>"
  have c: "\<not> int (length pre) + 110 > int (length blob)" "\<not> int (Suc (length nm)) < 1"
    "\<not> int (length pre) + 110 + int (Suc (length nm)) > int (length blob)"
    "\<not> int (length (pre @ hdr @ nm @ [0] @ p1)) + int (length (cf_data f)) > int (length blob)" "\<not> int (cf_mode f) < 0"
    by (simp_all add: len hdr)
  have "newc_step blob (int (length pre)) = Inr (e, int (length (pre @ newc_encode f)))"
    unfolding newc_step_def Let_def header fields option.case f zero name str ds nx e_def
    using c magic by simp
  moreover have "entry_view blob e = file_view f"
    using data str by (simp add: entry_view_def file_view_def e_def cpio_fields_def nm_def)
  ultimately show ?thesis unfolding blob_def by (auto simp: e_def)
qed

lemma trailer_file_name: "utf8_decode (cf_name trailer_file) = Some TRAILER"
  unfolding trailer_file_def TRAILER_def cpio_file.simps
  by (rule utf8_decode_ascii) auto

lemma trailer_file_ok: "cpio_file_ok trailer_file"
  unfolding cpio_file_ok_def trailer_file_name by (simp add: cpio_fields_def trailer_file_def)

lemma walk_archive:
  "(\<forall>f \<in> set fs. cpio_file_ok f \<and> utf8_decode (cf_name f) \<noteq> Some TRAILER) \<Longrightarrow> 4 dvd length pre \<Longrightarrow>
   \<exists>es. newc_walk (pre @ newc_archive fs k) (int (length pre)) es
          (Some (int (length (pre @ concat (map newc_encode fs) @ newc_encode trailer_file))))
      \<and> map (entry_view (pre @ newc_archive fs k)) es = map file_view fs"
proof (induction fs arbitrary: pre)
  case Nil
  let ?blob = "pre @ newc_archive [] k"
  obtain e where e: "newc_step ?blob (int (length pre)) = Inr (e, int (length (pre @ newc_encode trailer_file)))"
      "entry_view ?blob e = file_view trailer_file" "ent_size e = int (length (cf_data trailer_file))"
    using newc_step_encode [OF trailer_file_ok Nil.prems(2), of "replicate k 0"]
    by (auto simp: newc_archive_def)
  have "newc_walk ?blob (int (length pre)) [] (Some (int (length (pre @ newc_encode trailer_file))))"
  proof (rule walk_trailer [OF _ e(1)])
    show "int (length pre) < int (length ?blob)" using newc_stepD(6) [OF e(1)] by linarith
    show "ent_path e = TRAILER" using e(2) trailer_file_name by (simp add: entry_view_def file_view_def)
    show "ent_size e = 0" using e(3) by (simp add: trailer_file_def)
  qed
  then show ?case by auto
next
  case (Cons f fs)
  let ?blob = "pre @ newc_archive (f # fs) k"
  have blob: "?blob = pre @ newc_encode f @ newc_archive fs k" "?blob = (pre @ newc_encode f) @ newc_archive fs k"
    by (simp_all add: newc_archive_def)
  have ok: "cpio_file_ok f" "utf8_decode (cf_name f) \<noteq> Some TRAILER" using Cons.prems by simp_all
  obtain e where e: "newc_step ?blob (int (length pre)) = Inr (e, int (length (pre @ newc_encode f)))"
      "entry_view ?blob e = file_view f"
    using newc_step_encode [OF ok(1) Cons.prems(2), of "newc_archive fs k"] unfolding blob(1) by auto
  have "4 dvd length (pre @ newc_encode f)"
    using Cons.prems(2) length_newc_encode_mod [of f] by (simp add: dvd_add)
  then obtain es where es: "newc_walk ?blob (int (length (pre @ newc_encode f))) es
        (Some (int (length ((pre @ newc_encode f) @ concat (map newc_encode fs) @ newc_encode trailer_file))))"
      "map (entry_view ?blob) es = map file_view fs"
    using Cons.IH [of "pre @ newc_encode f"] Cons.prems unfolding blob(2) by auto
  have "newc_walk ?blob (int (length pre)) (e # es)
      (Some (int (length ((pre @ newc_encode f) @ concat (map newc_encode fs) @ newc_encode trailer_file))))"
  proof (rule walk_entry [OF _ e(1) _ es(1)])
    show "int (length pre) < int (length ?blob)" using newc_stepD(6) [OF e(1)] by linarith
    show "ent_path e \<noteq> TRAILER" using e(2) ok by (auto simp: entry_view_def file_view_def cpio_file_ok_def)
  qed
  with e(2) es(2) show ?case by (intro exI [of _ "e # es"]) simp
qed

lemma archive_parsed:
  assumes "\<forall>f \<in> set fs. cpio_file_ok f \<and> utf8_decode (cf_name f) \<noteq> Some TRAILER"
  shows "\<exists>es. parse_newc (newc_archive fs k) = Some (Inr es) \<and>
    map (entry_view (newc_archive fs k)) es = map file_view fs"
proof -
  obtain es where es: "newc_walk (newc_archive fs k) 0 es
        (Some (int (length (concat (map newc_encode fs) @ newc_encode trailer_file))))"
      "map (entry_view (newc_archive fs k)) es = map file_view fs"
    using walk_archive [OF assms, of "[]" k] by auto
  have "py_from (newc_archive fs k) (int (length (concat (map newc_encode fs) @ newc_encode trailer_file))) = replicate k 0"
    unfolding py_from_nat by (simp add: newc_archive_def)
  then have "\<forall>b \<in> set (py_from (newc_archive fs k) (int (length (concat (map newc_encode fs) @ newc_encode trailer_file)))). b = 0"
    by (simp only: set_replicate_conv_if split: if_splits) simp
  with es show ?thesis unfolding parse_newc_Inr by blast
qed

section \<open>Properties\<close>

text \<open>C2 \<open>parse_newc\<close> reads back every archive of the newc format: for files whose numbers fit eight
  hexadecimal digits and whose names are valid UTF-8 other than the trailer's, written one after another with
  their padding, the trailer and any number of zero bytes, the parser returns one entry per file, in order,
  with the name, the type, every number and the contents.\<close>

theorem newc_round_trip:
  assumes "\<forall>f \<in> set fs. cpio_file_ok f \<and> utf8_decode (cf_name f) \<noteq> Some TRAILER"
  shows "\<exists>es. parse_newc (newc_archive fs k) = Some (Inr es) \<and>
    map (entry_view (newc_archive fs k)) es = map file_view fs"
  using assms by (rule archive_parsed)

definition doc_file :: cpio_file where
  "doc_file = trailer_file\<lparr>cf_mode := 0x81A4, cf_name := ascii ''init.rc'', cf_data := ascii ''on boot''\<rparr>"

lemma doc_file_ok: "\<forall>f \<in> set [doc_file]. cpio_file_ok f \<and> utf8_decode (cf_name f) \<noteq> Some TRAILER"
proof -
  have "utf8_decode (cf_name doc_file) = Some (py_str ''init.rc'')"
    using utf8_decode_ascii [of "''init.rc''"] by (simp add: doc_file_def del: ascii_Cons) force
  then show ?thesis
    unfolding cpio_file_ok_def by (simp add: cpio_fields_def doc_file_def trailer_file_def TRAILER_def py_str_def)
qed

lemma newc_round_trip_witness:
  "\<exists>es. parse_newc (newc_archive [doc_file] 3) = Some (Inr es) \<and>
    map (entry_view (newc_archive [doc_file] 3)) es = map file_view [doc_file]"
  using doc_file_ok by (rule newc_round_trip)

lemma reach_walk:
  "newc_reach blob offset \<Longrightarrow> newc_walk blob 0 es (Some m) \<Longrightarrow>
   \<exists>es'. newc_walk blob offset es' (Some m) \<and> set es' \<subseteq> set es"
proof (induction rule: newc_reach.induct)
  case reach_start
  then show ?case by blast
next
  case (reach_next offset e n)
  then obtain es' where w: "newc_walk blob offset es' (Some m)" "set es' \<subseteq> set es" by blast
  from w(1) reach_next(2-4) obtain es'' where "es' = e # es''" "newc_walk blob n es'' (Some m)"
    by cases auto
  with w(2) show ?case by auto
qed

lemma reach_sizes_ok:
  assumes "parse_newc blob = Some (Inr es)" "sizes_ok es" "newc_reach blob offset" "newc_step blob offset = Inr (e, n)"
  shows "0 \<le> ent_size e"
proof -
  obtain m where "newc_walk blob 0 es (Some m)" using assms(1) by (auto simp: parse_newc_Inr)
  then obtain es' where "newc_walk blob offset es' (Some m)" "set es' \<subseteq> set es"
    using reach_walk [OF assms(3)] by blast
  then show ?thesis using assms(2,4) by cases (auto simp: sizes_ok_def)
qed

text \<open>C15 The loop of \<open>parse_newc\<close> ends, with entries or an exception, on every archive in which no header that
  it reaches announces a negative size.\<close>

theorem newc_returns:
  assumes "\<And>offset e n. newc_reach blob offset \<Longrightarrow> newc_step blob offset = Inr (e, n) \<Longrightarrow> 0 \<le> ent_size e"
  shows "\<exists>r. parse_newc blob = Some r"
proof -
  obtain r where "parse_loop blob 0 [] = Some r"
    using parse_loop_returns [of blob 0 "[]"] assms reach_start by blast
  then show ?thesis by (simp add: parse_newc_def)
qed

text \<open>One turn of the loop that goes on: from an offset to the next one.\<close>

definition newc_next :: "byte list \<Rightarrow> int \<Rightarrow> int \<Rightarrow> bool" where
  "newc_next blob offset n \<longleftrightarrow> offset < int (length blob) \<and>
     (case newc_step blob offset of Inl _ \<Rightarrow> False | Inr (e, n') \<Rightarrow> ent_path e \<noteq> TRAILER \<and> n' = n)"

lemma newc_nextE:
  assumes "newc_next blob offset n"
  obtains e where "offset < int (length blob)" "newc_step blob offset = Inr (e, n)" "ent_path e \<noteq> TRAILER"
  using assms by (auto simp: newc_next_def split: sum.splits)

lemma newc_next_det: "newc_next blob offset n \<Longrightarrow> newc_next blob offset n' \<Longrightarrow> n = n'"
  by (auto elim!: newc_nextE)

lemma newc_reach_next: "newc_reach blob offset \<Longrightarrow> newc_next blob offset n \<Longrightarrow> newc_reach blob n"
  by (auto elim!: newc_nextE intro: reach_next)

lemma parse_loop_next:
  assumes "newc_next blob offset n"
  shows "\<exists>e. parse_loop blob offset acc = parse_loop blob n (acc @ [e])"
  using assms by (elim newc_nextE) (subst parse_loop.simps, auto)

lemma parse_loop_reach:
  "newc_reach blob offset \<Longrightarrow> \<exists>acc. parse_loop blob 0 [] = parse_loop blob offset acc"
proof (induction rule: newc_reach.induct)
  case (reach_next offset e n)
  then obtain acc where "parse_loop blob 0 [] = parse_loop blob offset acc" by blast
  moreover have "newc_next blob offset n" using reach_next(2-4) by (simp add: newc_next_def)
  ultimately show ?case using parse_loop_next by metis
qed blast

text \<open>On a cycle the loop has no result.\<close>

lemma parse_loop_diverges:
  "parse_loop b offset acc = Some r \<Longrightarrow> b = blob \<Longrightarrow> \<not> (newc_next blob)\<^sup>+\<^sup>+ offset offset"
proof (induction rule: parse_loop.raw_induct [rotated 1, consumes 1])
  case (1 loop b offset acc r)
  show ?case
  proof
    assume cycle: "(newc_next blob)\<^sup>+\<^sup>+ offset offset"
    then obtain n where n: "newc_next blob offset n" "(newc_next blob)\<^sup>*\<^sup>* n offset" by (meson tranclpD)
    then obtain e where "offset < int (length blob)" "newc_step blob offset = Inr (e, n)" "ent_path e \<noteq> TRAILER"
      by (elim newc_nextE)
    with 1(2,3) have "loop blob n (acc @ [e]) = Some r" by simp
    then have "\<not> (newc_next blob)\<^sup>+\<^sup>+ n n" using 1(1) by blast
    moreover have "(newc_next blob)\<^sup>+\<^sup>+ n n" using n by (meson rtranclp_into_tranclp1)
    ultimately show False by blast
  qed
qed

text \<open>Off a cycle it has one: a header lies inside the archive, so that there are finitely many offsets to visit.\<close>

lemma newc_step_offset: "newc_step blob offset = Inr p \<Longrightarrow> - int (length blob) - 110 \<le> offset"
proof (rule ccontr)
  assume step: "newc_step blob offset = Inr p" and "\<not> - int (length blob) - 110 \<le> offset"
  then have "py_slice blob offset (offset + 110) = []" by (simp add: py_slice_def py_clamp_def)
  with step show False by (simp add: newc_step_def split: if_splits)
qed

lemma parse_loop_terminates:
  assumes "\<And>a. newc_reach blob a \<Longrightarrow> \<not> (newc_next blob)\<^sup>+\<^sup>+ a a" and "newc_reach blob offset"
  shows "\<exists>r. parse_loop blob offset acc = Some r"
proof -
  define R where "R = {(a, n). newc_reach blob a \<and> newc_next blob a n}"
  have "finite R"
  proof (rule finite_subset)
    show "R \<subseteq> (\<lambda>a. (a, THE n. newc_next blob a n)) ` {- int (length blob) - 110..int (length blob)}"
    proof
      fix q assume "q \<in> R"
      then obtain a n where q: "q = (a, n)" "newc_next blob a n" by (auto simp: R_def)
      then have "(THE n. newc_next blob a n) = n" using newc_next_det by blast
      moreover have "- int (length blob) - 110 \<le> a \<and> a \<le> int (length blob)"
        using q(2) newc_step_offset by (elim newc_nextE) fastforce
      ultimately show "q \<in> (\<lambda>a. (a, THE n. newc_next blob a n)) ` {- int (length blob) - 110..int (length blob)}"
        using q(1) by auto
    qed
  qed simp
  moreover have "acyclic R"
  proof (rule acyclicI, intro allI notI)
    fix a assume cycle: "(a, a) \<in> R\<^sup>+"
    then have "newc_reach blob a" by (auto simp: R_def dest: tranclD)
    moreover have "(newc_next blob)\<^sup>+\<^sup>+ a b" if "(a, b) \<in> R\<^sup>+" for b
      using that by (induction rule: trancl_induct) (auto simp: R_def intro: tranclp.intros)
    ultimately show False using assms(1) cycle by blast
  qed
  ultimately have "wf (R\<inverse>)" by (rule finite_acyclic_wf_converse)
  then show ?thesis using assms(2)
  proof (induction offset arbitrary: acc rule: wf_induct_rule)
    case (less offset)
    show ?case
    proof (cases "\<exists>n. newc_next blob offset n")
      case True
      then obtain n where n: "newc_next blob offset n" by blast
      then have "(n, offset) \<in> R\<inverse>" "newc_reach blob n" using less.prems newc_reach_next by (auto simp: R_def)
      then show ?thesis using less.IH parse_loop_next [OF n, of acc] by metis
    next
      case False
      then show ?thesis by (subst parse_loop.simps) (auto simp: newc_next_def split: sum.splits)
    qed
  qed
qed

lemma parse_newc_None: "parse_newc blob = None \<longleftrightarrow> parse_loop blob 0 [] = None"
  by (simp add: parse_newc_def)

text \<open>C16 The parser runs for ever exactly when the loop, from an offset that it reaches, comes back to that offset;
  and only when a header that it reaches announces a negative size.\<close>

theorem newc_negative_size_diverges:
  "(parse_newc blob = None \<longleftrightarrow> (\<exists>a. newc_reach blob a \<and> (newc_next blob)\<^sup>+\<^sup>+ a a)) \<and>
   (parse_newc blob = None \<longrightarrow> (\<exists>offset e n. newc_reach blob offset \<and> newc_step blob offset = Inr (e, n) \<and> ent_size e < 0))"
proof (intro conjI iffI impI)
  assume "parse_newc blob = None"
  then show "\<exists>a. newc_reach blob a \<and> (newc_next blob)\<^sup>+\<^sup>+ a a"
    using parse_loop_terminates [of blob 0 "[]"] reach_start by (auto simp: parse_newc_None)
next
  assume "\<exists>a. newc_reach blob a \<and> (newc_next blob)\<^sup>+\<^sup>+ a a"
  then show "parse_newc blob = None"
    unfolding parse_newc_None using parse_loop_reach parse_loop_diverges by (metis option.exhaust)
next
  assume "parse_newc blob = None"
  then show "\<exists>offset e n. newc_reach blob offset \<and> newc_step blob offset = Inr (e, n) \<and> ent_size e < 0"
    using parse_loop_returns [of blob 0 "[]"] reach_start unfolding parse_newc_None by (metis not_le option.distinct(1))
qed

text \<open>Such an archive: two headers of 112 bytes, the first of an empty file, the second with a size field that reads
  \<open>-00000e0\<close>, which leads back to the first.\<close>

definition loop_header :: "string \<Rightarrow> byte list" where
  "loop_header sz = ascii ''070701'' @ concat (map ascii [''00000000'', ''00000000'', ''00000000'', ''00000000'', ''00000001'',
     ''00000000'', sz, ''00000000'', ''00000000'', ''00000000'', ''00000000'', ''00000002'', ''00000000''])"

definition loop_archive :: "byte list" where
  "loop_archive = loop_header ''00000000'' @ [97, 0] @ loop_header ''-00000e0'' @ [98, 0]"

lemma loop_header_length: "length sz = 8 \<Longrightarrow> length (loop_header sz) = 110"
  by (simp add: loop_header_def)

lemma loop_header_value:
  assumes "length sz = 8" "py_int16 (ascii sz) = Some v"
  shows "newc_fields (loop_header sz) = Some [0, 0, 0, 0, 1, 0, v, 0, 0, 0, 0, 2, 0]"
  unfolding loop_header_def by (subst newc_fields_chunks)
    (use assms in \<open>simp_all add: py_int16_def [of "_ # _"] py_sign_def is_space_def py_hex_prefix_def hex_val_def\<close>)

lemma loop_step:
  assumes "length sz = 8" "py_int16 (ascii sz) = Some v" "c < 128" "blob = P @ (loop_header sz @ [c, 0]) @ S"
    and "4 dvd length P" "int (length P) + 112 + v \<le> int (length blob)" "4 dvd v"
  shows "newc_next blob (int (length P)) (int (length P) + 112 + v) \<and>
    (\<exists>e n. newc_step blob (int (length P)) = Inr (e, n) \<and> ent_size e = v)"
proof -
  note len = loop_header_length [OF assms(1)]
  have header: "py_slice blob (int (length P)) (int (length P) + 110) = loop_header sz"
    using py_slice_nat [of blob "length P" "length P + 110"] len by (simp add: assms(4))
  have z: "py_get blob (111 + int (length P)) = Some 0"
    using py_get_nat [of blob "111 + length P"] len by (simp add: assms(4) nth_append)
  have n: "utf8_decode (py_slice blob (int (length P) + 110) (111 + int (length P))) = Some [unat c]"
    using py_slice_nat [of blob "length P + 110" "111 + length P"] len assms(3) by (simp add: assms(4))
  have "length blob = length P + 112 + length S" using len by (simp add: assms(4))
  moreover have "take 6 (loop_header sz) = ascii ''070701''" by (simp add: loop_header_def)
  moreover have "aligned (112 + int (length P)) 4 = int (length P) + 112" "aligned (int (length P) + 112 + v) 4 = int (length P) + 112 + v"
    using assms(5,7) unfolding aligned_def by presburger+
  ultimately show ?thesis
    using assms(6) by (simp add: newc_next_def newc_step_def Let_def header loop_header_value [OF assms(1,2)] z n TRAILER_def
        py_str_def del: ascii_Cons)
qed

lemma newc_negative_size_diverges_witness:
  "parse_newc loop_archive = None \<and>
   (\<exists>offset e n. newc_reach loop_archive offset \<and> newc_step loop_archive offset = Inr (e, n) \<and> ent_size e < 0)"
proof -
  have v: "py_int16 (ascii ''00000000'') = Some 0" "py_int16 (ascii ''-00000e0'') = Some (- 224)"
    by (simp_all add: py_int16_def py_sign_def is_space_def py_hex_prefix_def hex_val_def)
  have len: "length loop_archive = 224" by (simp add: loop_archive_def loop_header_length)
  have 1: "newc_next loop_archive 0 112"
    using loop_step [of "''00000000''" 0 97 loop_archive "[]" "loop_header ''-00000e0'' @ [98, 0]"] v len
    by (simp add: loop_archive_def)
  have 2: "newc_next loop_archive 112 0"
    using loop_step [of "''-00000e0''" "- 224" 98 loop_archive "loop_header ''00000000'' @ [97, 0]" "[]"] v len
    by (simp add: loop_archive_def loop_header_length)
  from 1 2 have "(newc_next loop_archive)\<^sup>+\<^sup>+ 0 0" by (meson tranclp.intros)
  then have "parse_newc loop_archive = None" using newc_negative_size_diverges [of loop_archive] reach_start by blast
  then show ?thesis using newc_negative_size_diverges [of loop_archive] by blast
qed

lemma walk_sorted:
  "newc_walk blob offset es fin \<Longrightarrow> sizes_ok es \<Longrightarrow> sorted_wrt (\<lambda>d e. data_end d \<le> header_start e) es \<and>
   (\<forall>e \<in> set es. offset \<le> header_start e \<and> header_start e + 111 \<le> data_start e)"
proof (induction rule: newc_walk.induct)
  case (walk_entry offset e n es fin)
  note f = newc_stepD(1,5) [OF walk_entry(2)] newc_step_forward [OF walk_entry(2)]
  have IH: "sorted_wrt (\<lambda>d e. data_end d \<le> header_start e) es"
    "\<forall>e \<in> set es. n \<le> header_start e \<and> header_start e + 111 \<le> data_start e"
    using walk_entry.IH walk_entry.prems by simp_all
  have "data_end e \<le> header_start x \<and> offset \<le> header_start x" if "x \<in> set es" for x
    using f IH(2) that walk_entry.prems by fastforce
  with IH f show ?case by simp
qed simp_all

lemma views_sizes_ok: "map (entry_view blob) es = map file_view fs \<Longrightarrow> sizes_ok es"
proof (induction es arbitrary: fs)
  case (Cons e es)
  then obtain f fs' where "fs = f # fs'" "entry_view blob e = file_view f" "map (entry_view blob) es = map file_view fs'"
    by (cases fs) auto
  moreover from this(2) have "0 \<le> ent_size e" by (simp add: entry_view_def file_view_def)
  ultimately show ?case using Cons.IH by simp
qed simp

text \<open>C17 An archive whose sizes are not negative holds at most one entry per 112 bytes, and the contents of its
  entries are ranges of the archive that lie one after another, each behind its own header.\<close>

theorem newc_entries_in_bounds:
  assumes "parse_newc blob = Some (Inr es)" "sizes_ok es"
  shows "112 * length es + 110 \<le> length blob \<and>
    sorted_wrt (\<lambda>d e. data_end d \<le> header_start e) es \<and>
    (\<forall>e \<in> set es. 0 \<le> header_start e \<and> header_start e + 111 \<le> data_start e \<and>
       data_start e \<le> data_end e \<and> data_end e \<le> int (length blob))"
proof -
  obtain n where w: "newc_walk blob 0 es (Some n)" using assms(1) by (auto simp: parse_newc_Inr)
  show ?thesis using walk_count [OF w assms(2)] walk_sorted [OF w assms(2)] walk_regions [OF w assms(2)] by auto
qed

lemma doc_archive_parsed:
  "\<exists>es. parse_newc (newc_archive [doc_file] 3) = Some (Inr es) \<and> sizes_ok es"
  using archive_parsed [OF doc_file_ok] views_sizes_ok by blast

lemma newc_entries_in_bounds_witness:
  "\<exists>es. parse_newc (newc_archive [doc_file] 3) = Some (Inr es) \<and> 112 * length es + 110 \<le> length (newc_archive [doc_file] 3)"
  using doc_archive_parsed newc_entries_in_bounds by blast

lemma newc_returns_witness: "\<exists>r. parse_newc (newc_archive [doc_file] 3) = Some r"
proof -
  obtain es where "parse_newc (newc_archive [doc_file] 3) = Some (Inr es)" "sizes_ok es"
    using doc_archive_parsed by blast
  then show ?thesis using reach_sizes_ok by (intro newc_returns) blast
qed

end
