(* ===== verification/AdbdPatch.thy ===== *)
theory AdbdPatch
  imports NewcCpio
begin

text \<open>
  \<open>tools/patch_recovery_adbd_props.py\<close>: \<open>count_exact_lines\<close> and \<open>patch_properties\<close>, which turns
  \<open>ro.secure\<close> off and \<open>ro.debuggable\<close> on in the \<open>prop.default\<close> of a recovery archive and refuses to
  return an archive in which anything else changed. \<open>sha\<close> stands for \<open>sha256_bytes\<close>, whose values only go
  into the report. \<open>main\<close> is in \<open>PatchMain\<close>.
\<close>

section \<open>The patcher\<close>

text \<open>\<open>PROPERTY_PATCHES\<close>: the old line, the new line and the property.\<close>

definition PROPERTY_PATCHES :: "(byte list \<times> byte list \<times> string) list" where
  "PROPERTY_PATCHES = [(ascii ''ro.secure=1'', ascii ''ro.secure=0'', ''ro.secure''),
     (ascii ''ro.debuggable=0'', ascii ''ro.debuggable=1'', ''ro.debuggable'')]"

definition CRLF :: "byte list" where
  "CRLF = [13, 10]"

fun exact_lines :: "nat \<Rightarrow> byte list list \<Rightarrow> byte list \<Rightarrow> nat list" where
  "exact_lines cursor [] wanted = []"
| "exact_lines cursor (l # ls) wanted =
     (if rstrip CRLF l = wanted then [cursor] else []) @ exact_lines (cursor + length l) ls wanted"

definition count_exact_lines :: "byte list \<Rightarrow> byte list \<Rightarrow> nat list" where
  "count_exact_lines data wanted = exact_lines 0 (splitlines data) wanted"

datatype patch_error =
    Parse_error newc_error | Entry_count nat | Not_regular | Old_line_count "byte list" nat
  | Change_count nat | Old_line_survived "byte list" | New_line_not_unique "byte list"

record 'h patch_report =
  rep_entry :: string
  rep_entry_size :: nat
  rep_sha_before :: 'h
  rep_sha_after :: 'h
  rep_properties :: "string list"
  rep_byte_count :: nat
  rep_offsets :: "nat list"
  rep_preservation :: string

text \<open>The loop that rewrites the lines; the hits are those of the contents before the patch.\<close>

fun apply_patches ::
    "int \<Rightarrow> byte list \<Rightarrow> (byte list \<times> byte list \<times> string) list \<Rightarrow> byte list \<Rightarrow> patch_error + byte list" where
  "apply_patches ds before [] output = Inr output"
| "apply_patches ds before ((old_line, new_line, property_name) # ps) output =
     (let hits = count_exact_lines before old_line
      in if length hits \<noteq> 1 then Inl (Old_line_count old_line (length hits))
         else let line_start = ds + int (hits ! 0)
           in apply_patches ds before ps
                (py_set_slice output line_start (line_start + int (length old_line)) new_line))"

text \<open>The loop that checks the contents after the patch.\<close>

fun check_patches :: "byte list \<Rightarrow> (byte list \<times> byte list \<times> string) list \<Rightarrow> patch_error option" where
  "check_patches after [] = None"
| "check_patches after ((old_line, new_line, property_name) # ps) =
     (if count_exact_lines after old_line \<noteq> [] then Some (Old_line_survived old_line)
      else if length (count_exact_lines after new_line) \<noteq> 1 then Some (New_line_not_unique new_line)
      else check_patches after ps)"

definition changed_offsets :: "byte list \<Rightarrow> byte list \<Rightarrow> nat list" where
  "changed_offsets xs ys = filter (\<lambda>i. xs ! i \<noteq> ys ! i) [0..<min (length xs) (length ys)]"

definition S_IFREG :: int where
  "S_IFREG = 0x8000"

definition preservation :: string where
  "preservation = ''all decompressed CPIO bytes outside the two property value bytes are unchanged''"

definition patch_properties ::
    "(byte list \<Rightarrow> 'h) \<Rightarrow> byte list \<Rightarrow> (patch_error + byte list \<times> 'h patch_report) option" where
  "patch_properties sha cpio = map_option (\<lambda>r. case r of
       Inl e \<Rightarrow> Inl (Parse_error e)
     | Inr entries \<Rightarrow>
         let targets = filter (\<lambda>e. ent_path e = py_str ''prop.default'') entries
         in if length targets \<noteq> 1 then Inl (Entry_count (length targets))
            else let e = targets ! 0
              in if ent_type e \<noteq> S_IFREG then Inl Not_regular
                 else let before = py_slice cpio (data_start e) (data_end e)
                   in case apply_patches (data_start e) before PROPERTY_PATCHES cpio of
                     Inl err \<Rightarrow> Inl err
                   | Inr output \<Rightarrow>
                       let offsets = changed_offsets cpio output
                       in if length offsets \<noteq> length PROPERTY_PATCHES then Inl (Change_count (length offsets))
                          else let after = py_slice output (data_start e) (data_end e)
                            in case check_patches after PROPERTY_PATCHES of
                              Some err \<Rightarrow> Inl err
                            | None \<Rightarrow> Inr (output, \<lparr>rep_entry = ''prop.default'', rep_entry_size = length before,
                                rep_sha_before = sha before, rep_sha_after = sha after,
                                rep_properties = map (\<lambda>(_, _, p). p) PROPERTY_PATCHES,
                                rep_byte_count = length offsets, rep_offsets = offsets,
                                rep_preservation = preservation\<rparr>))
     (parse_newc cpio)"

section \<open>Lines of a text\<close>

lemma rstrip_line:
  assumes "no_eol b" "e = [] \<or> e \<in> set ends"
  shows "rstrip CRLF (b @ e) = b"
proof -
  have "dropWhile (\<lambda>x. x \<in> set CRLF) (rev e @ rev b) = dropWhile (\<lambda>x. x \<in> set CRLF) (rev b)"
    using assms(2) by (auto simp: CRLF_def)
  also have "\<dots> = rev b"
    using assms(1) by (cases "rev b") (auto simp: CRLF_def no_eol_def dest: arg_cong [where f = set])
  finally show ?thesis by (simp add: rstrip_def)
qed

lemma line_list_nth:
  "line_list ls \<Longrightarrow> k < length ls \<Longrightarrow> \<exists>b e. ls ! k = b @ e \<and> no_eol b \<and> (e = [] \<or> e \<in> set ends)"
proof (induction ls arbitrary: k rule: line_list.induct)
  case (2 l)
  then show ?case by auto
next
  case (3 l l' ls)
  then show ?case by (cases k) auto
qed simp

text \<open>The line that a search finds is the text searched for and a line end.\<close>

lemma rstrip_nth:
  assumes "line_list ls" "k < length ls" "rstrip CRLF (ls ! k) = w"
  obtains e where "ls ! k = w @ e" "no_eol w" "e = [] \<or> e \<in> set ends"
  using line_list_nth [OF assms(1,2)] rstrip_line assms(3) by metis

lemma line_list_update:
  assumes "line_list ls" "k < length ls" "ls ! k = b @ e" "no_eol b" "no_eol b'" "b' \<noteq> []" "e = [] \<or> e \<in> set ends"
  shows "line_list (ls[k := b' @ e])"
  using assms
proof (induction ls arbitrary: k rule: line_list.induct)
  case (2 l)
  then show ?case by auto
next
  case (3 l l' ls)
  show ?case
  proof (cases k)
    case 0
    from "3.prems" obtain b0 e0 where l: "l = b0 @ e0" "no_eol b0" "e0 \<in> set ends" "e0 = [13] \<longrightarrow> hd l' \<noteq> 10" by auto
    have "b0 = b \<and> e0 = e"
    proof -
      have le: "l = b @ e" and b: "no_eol b" and e: "e = [] \<or> e \<in> set ends" using "3.prems"(3,4,7) 0 by simp_all
      have "rstrip CRLF l = b0" unfolding l(1) by (rule rstrip_line [OF l(2)]) (use l(3) in blast)
      moreover have "rstrip CRLF l = b" unfolding le by (rule rstrip_line [OF b e])
      ultimately have "b0 = b" by simp
      then show ?thesis using l(1) le by simp
    qed
    with 0 l "3.prems" show ?thesis by auto
  next
    case (Suc j)
    have IH: "line_list ((l' # ls)[j := b' @ e])" using 3 Suc by auto
    have hd: "hd ((l' # ls)[j := b' @ e] ! 0) = (if j = 0 then hd b' else hd l')"
      using "3.prems" Suc by (cases j) auto
    have "b' \<noteq> [] \<Longrightarrow> hd b' \<noteq> 10" using "3.prems" by (cases b') auto
    with hd IH "3.prems" Suc show ?thesis
      by (cases j) auto
  qed
qed simp

section \<open>Where the lines are\<close>

definition line_pos :: "'a list list \<Rightarrow> nat \<Rightarrow> nat" where
  "line_pos ls k = length (concat (take k ls))"

definition line_hits :: "byte list list \<Rightarrow> byte list \<Rightarrow> nat list" where
  "line_hits ls w = filter (\<lambda>k. rstrip CRLF (ls ! k) = w) [0..<length ls]"

lemma upt_Suc_map: "[0..<Suc n] = 0 # map Suc [0..<n]"
  by (simp add: upt_conv_Cons map_Suc_upt del: upt_Suc)

lemma exact_lines_hits: "exact_lines c ls w = map (\<lambda>k. c + line_pos ls k) (line_hits ls w)"
proof (induction ls arbitrary: c)
  case Nil
  then show ?case by (simp add: line_hits_def)
next
  case (Cons l ls)
  have "line_hits (l # ls) w = (if rstrip CRLF l = w then [0] else []) @ map Suc (line_hits ls w)"
    by (simp add: line_hits_def upt_Suc_map filter_map o_def del: upt_Suc)
  then show ?case using Cons [of "c + length l"] by (simp add: line_pos_def o_def add.assoc)
qed

lemma count_exact_lines_hits:
  "count_exact_lines d w = map (line_pos (splitlines d)) (line_hits (splitlines d) w)"
  by (simp add: count_exact_lines_def exact_lines_hits)

lemma filter_one: "k < n \<Longrightarrow> filter (\<lambda>j. j = k) [0..<n] = [k]"
  by (induction n) (auto simp: less_Suc_eq filter_empty_conv)

lemma length_filter_two:
  assumes "k < n" "l < n" "k \<noteq> l"
  shows "length (filter (\<lambda>j. j = k \<or> j = l) [0..<n]) = 2"
proof -
  have "length (filter (\<lambda>j. j = k \<or> j = l) [0..<n]) = card (set (filter (\<lambda>j. j = k \<or> j = l) [0..<n]))"
    by (rule distinct_card [symmetric]) simp
  also have "set (filter (\<lambda>j. j = k \<or> j = l) [0..<n]) = {k, l}" using assms by auto
  finally show ?thesis using assms by simp
qed

lemma set_line_hits: "set (line_hits ls w) = {j. j < length ls \<and> rstrip CRLF (ls ! j) = w}"
  by (auto simp: line_hits_def)

lemma line_hits_single:
  "line_hits ls w = [k] \<longleftrightarrow> k < length ls \<and> (\<forall>j < length ls. rstrip CRLF (ls ! j) = w \<longleftrightarrow> j = k)"
proof
  assume "line_hits ls w = [k]"
  then have "{j. j < length ls \<and> rstrip CRLF (ls ! j) = w} = {k}" using set_line_hits [of ls w] by simp
  then show "k < length ls \<and> (\<forall>j < length ls. rstrip CRLF (ls ! j) = w \<longleftrightarrow> j = k)" by blast
next
  assume r: "k < length ls \<and> (\<forall>j < length ls. rstrip CRLF (ls ! j) = w \<longleftrightarrow> j = k)"
  then have "line_hits ls w = filter (\<lambda>j. j = k) [0..<length ls]"
    unfolding line_hits_def by (intro filter_cong) auto
  with r show "line_hits ls w = [k]" by (simp add: filter_one)
qed

lemma line_hits_Nil: "line_hits ls w = [] \<longleftrightarrow> (\<forall>j < length ls. rstrip CRLF (ls ! j) \<noteq> w)"
  by (auto simp: line_hits_def filter_empty_conv)

text \<open>Rewriting a line inside the archive.\<close>

lemma concat_nth_split:
  "k < length ls \<Longrightarrow> concat ls = concat (take k ls) @ ls ! k @ concat (drop (Suc k) ls)"
  by (metis append.assoc concat.simps(2) concat_append id_take_nth_drop append_Cons)

lemma concat_update_split:
  "k < length ls \<Longrightarrow> concat (ls[k := l]) = concat (take k ls) @ l @ concat (drop (Suc k) ls)"
  by (simp add: upd_conv_take_nth_drop)

lemma set_slice_line:
  assumes "k < length ls" "ls ! k = old @ e"
  shows "py_set_slice (P @ concat ls @ S) (int (length P + line_pos ls k))
      (int (length P + line_pos ls k + length old)) new = P @ concat (ls[k := new @ e]) @ S"
proof -
  have "P @ concat ls @ S = (P @ concat (take k ls)) @ old @ e @ concat (drop (Suc k) ls) @ S"
    using concat_nth_split [OF assms(1)] assms(2) by simp
  then show ?thesis
    unfolding line_pos_def
    by (subst py_set_slice_nat) (simp_all add: concat_update_split [OF assms(1)])
qed

lemma concat_update_nth:
  assumes "k < length ls" "j < length (ls ! k)"
  shows "concat (ls[k := (ls ! k)[j := c]]) = (concat ls)[line_pos ls k + j := c]"
  using assms
  by (simp add: concat_update_split concat_nth_split [OF assms(1)] list_update_append line_pos_def)

lemma line_pos_update: "length l = length (ls ! k) \<Longrightarrow> line_pos (ls[k := l]) m = line_pos ls m"
proof -
  assume "length l = length (ls ! k)"
  then have "map length (take m (ls[k := l])) = map length (take m ls)"
    by (intro nth_equalityI) (auto, metis nth_list_update_eq nth_list_update_neq)
  then show ?thesis unfolding line_pos_def length_concat by simp
qed

lemma line_pos_less:
  assumes "k < length ls" "j < length (ls ! k)"
  shows "line_pos ls k + j < length (concat ls)"
  using assms by (simp add: concat_nth_split [OF assms(1)] line_pos_def)

section \<open>What a successful patch does\<close>

text \<open>The archive the patcher is made for: the two properties stand in one line each.\<close>

definition file_lines :: "byte list \<Rightarrow> newc_entry \<Rightarrow> byte list list" where
  "file_lines cpio d = splitlines (py_slice cpio (data_start d) (data_end d))"

definition patch_ready :: "byte list \<Rightarrow> newc_entry list \<Rightarrow> newc_entry \<Rightarrow> nat \<Rightarrow> nat \<Rightarrow> bool" where
  "patch_ready cpio es d k1 k2 \<longleftrightarrow>
     parse_newc cpio = Some (Inr es) \<and> sizes_ok es \<and>
     filter (\<lambda>e. ent_path e = py_str ''prop.default'') es = [d] \<and> ent_type d = S_IFREG \<and>
     line_hits (file_lines cpio d) (ascii ''ro.secure=1'') = [k1] \<and>
     line_hits (file_lines cpio d) (ascii ''ro.debuggable=0'') = [k2]"

text \<open>The two bytes that change.\<close>

definition secure_offset :: "byte list \<Rightarrow> newc_entry \<Rightarrow> nat \<Rightarrow> nat" where
  "secure_offset cpio d k = nat (data_start d) + line_pos (file_lines cpio d) k + 10"

definition debuggable_offset :: "byte list \<Rightarrow> newc_entry \<Rightarrow> nat \<Rightarrow> nat" where
  "debuggable_offset cpio d k = nat (data_start d) + line_pos (file_lines cpio d) k + 14"

definition patched :: "byte list \<Rightarrow> newc_entry \<Rightarrow> nat \<Rightarrow> nat \<Rightarrow> byte list" where
  "patched cpio d k1 k2 = cpio[secure_offset cpio d k1 := 48, debuggable_offset cpio d k2 := 49]"

definition swap_line :: "byte list \<Rightarrow> byte list" where
  "swap_line l =
     (if rstrip CRLF l = ascii ''ro.secure=1'' then l[10 := 48]
      else if rstrip CRLF l = ascii ''ro.debuggable=0'' then l[14 := 49] else l)"

lemma entry_split:
  assumes "parse_newc cpio = Some (Inr es)" "sizes_ok es" "d \<in> set es"
  obtains P S where "cpio = P @ py_slice cpio (data_start d) (data_end d) @ S" "data_start d = int (length P)"
    "data_end d = int (length P + length (py_slice cpio (data_start d) (data_end d)))"
proof -
  obtain n where w: "newc_walk cpio 0 es (Some n)" using assms(1) by (auto simp: parse_newc_Inr)
  have b: "0 \<le> data_start d" "data_start d \<le> data_end d" "data_end d \<le> int (length cpio)"
    using walk_regions [OF w assms(2,3)] by auto
  then obtain a z where az: "data_start d = int a" "data_end d = int z" by (metis nonneg_int_cases order_trans)
  have s: "py_slice cpio (data_start d) (data_end d) = take (z - a) (drop a cpio)"
    unfolding az by (rule py_slice_nat)
  show ?thesis
  proof
    show "cpio = take a cpio @ py_slice cpio (data_start d) (data_end d) @ drop z cpio"
      unfolding s using b az by (metis append_take_drop_id drop_drop le_add_diff_inverse2 of_nat_le_iff)
    show "data_start d = int (length (take a cpio))"
      "data_end d = int (length (take a cpio) + length (py_slice cpio (data_start d) (data_end d)))"
      unfolding s using b az by simp_all
  qed
qed

definition patched_lines :: "byte list \<Rightarrow> newc_entry \<Rightarrow> nat \<Rightarrow> nat \<Rightarrow> byte list list" where
  "patched_lines cpio d k1 k2 =
     (let ls = file_lines cpio d in ls[k1 := (ls ! k1)[10 := 48], k2 := (ls ! k2)[14 := 49]])"

lemma no_eol_lines [simp]:
  "no_eol (ascii ''ro.secure=1'')" "no_eol (ascii ''ro.secure=0'')"
  "no_eol (ascii ''ro.debuggable=0'')" "no_eol (ascii ''ro.debuggable=1'')"
  by simp_all

lemma lines_distinct [simp]:
  "ascii ''ro.secure=1'' \<noteq> ascii ''ro.debuggable=0''" "ascii ''ro.debuggable=0'' \<noteq> ascii ''ro.secure=1''"
  "ascii ''ro.secure=1'' \<noteq> ascii ''ro.secure=0''" "ascii ''ro.secure=0'' \<noteq> ascii ''ro.secure=1''"
  "ascii ''ro.secure=0'' \<noteq> ascii ''ro.debuggable=0''" "ascii ''ro.debuggable=1'' \<noteq> ascii ''ro.secure=1''"
  "ascii ''ro.debuggable=1'' \<noteq> ascii ''ro.debuggable=0''" "ascii ''ro.secure=0'' \<noteq> ascii ''ro.debuggable=1''"
  "ascii ''ro.debuggable=1'' \<noteq> ascii ''ro.secure=0''" "ascii ''ro.debuggable=0'' \<noteq> ascii ''ro.secure=0''"
  "ascii ''ro.debuggable=0'' \<noteq> ascii ''ro.debuggable=1''" "ascii ''ro.secure=1'' \<noteq> ascii ''ro.debuggable=1''"
  "ascii ''ro.secure=0'' \<noteq> []" "ascii ''ro.debuggable=1'' \<noteq> []"
  by simp_all

lemma lines_updated:
  "(ascii ''ro.secure=1'' @ e)[10 := 48] = ascii ''ro.secure=0'' @ e"
  "(ascii ''ro.debuggable=0'' @ e)[14 := 49] = ascii ''ro.debuggable=1'' @ e"
  by simp_all

declare ascii_Cons [simp del]

lemma ready_parsed:
  assumes "patch_ready cpio es d k1 k2"
  shows "parse_newc cpio = Some (Inr es)" "sizes_ok es" "d \<in> set es"
proof -
  show "parse_newc cpio = Some (Inr es)" "sizes_ok es" using assms by (simp_all add: patch_ready_def)
  have "d \<in> set (filter (\<lambda>e. ent_path e = py_str ''prop.default'') es)" using assms by (simp add: patch_ready_def)
  then show "d \<in> set es" by simp
qed

lemma file_lines:
  "line_list (file_lines cpio d)" "concat (file_lines cpio d) = py_slice cpio (data_start d) (data_end d)"
  by (simp_all add: file_lines_def line_list_splitlines)

lemma ready_hits:
  assumes "patch_ready cpio es d k1 k2"
  shows "k1 < length (file_lines cpio d)" "k2 < length (file_lines cpio d)"
    "j < length (file_lines cpio d) \<Longrightarrow> rstrip CRLF (file_lines cpio d ! j) = ascii ''ro.secure=1'' \<longleftrightarrow> j = k1"
    "j < length (file_lines cpio d) \<Longrightarrow> rstrip CRLF (file_lines cpio d ! j) = ascii ''ro.debuggable=0'' \<longleftrightarrow> j = k2"
  using assms unfolding patch_ready_def line_hits_single by blast+

lemma ready_distinct:
  assumes "patch_ready cpio es d k1 k2"
  shows "k1 \<noteq> k2"
  using ready_hits [OF assms] lines_distinct(1) by metis

lemma ready_old_lines:
  assumes "patch_ready cpio es d k1 k2"
  obtains e1 e2 where
    "file_lines cpio d ! k1 = ascii ''ro.secure=1'' @ e1" "file_lines cpio d ! k2 = ascii ''ro.debuggable=0'' @ e2"
    "e1 = [] \<or> e1 \<in> set ends" "e2 = [] \<or> e2 \<in> set ends"
proof -
  have "rstrip CRLF (file_lines cpio d ! k1) = ascii ''ro.secure=1''"
    "rstrip CRLF (file_lines cpio d ! k2) = ascii ''ro.debuggable=0''"
    using ready_hits [OF assms] by simp_all
  then show thesis using that file_lines(1) ready_hits(1,2) [OF assms] by (metis rstrip_nth)
qed

lemma patched_lines:
  assumes ready: "patch_ready cpio es d k1 k2"
  shows "line_list (patched_lines cpio d k1 k2)" "length (patched_lines cpio d k1 k2) = length (file_lines cpio d)"
    "rstrip CRLF (patched_lines cpio d k1 k2 ! k1) = ascii ''ro.secure=0''"
    "rstrip CRLF (patched_lines cpio d k1 k2 ! k2) = ascii ''ro.debuggable=1''"
    "j \<noteq> k1 \<Longrightarrow> j \<noteq> k2 \<Longrightarrow> patched_lines cpio d k1 k2 ! j = file_lines cpio d ! j"
proof -
  let ?ls = "file_lines cpio d"
  obtain e1 e2 where e: "?ls ! k1 = ascii ''ro.secure=1'' @ e1" "?ls ! k2 = ascii ''ro.debuggable=0'' @ e2"
      "e1 = [] \<or> e1 \<in> set ends" "e2 = [] \<or> e2 \<in> set ends"
    by (rule ready_old_lines [OF ready])
  note k = ready_hits(1,2) [OF ready] ready_distinct [OF ready]
  have n: "patched_lines cpio d k1 k2 = ?ls[k1 := ascii ''ro.secure=0'' @ e1, k2 := ascii ''ro.debuggable=1'' @ e2]"
    unfolding patched_lines_def Let_def e lines_updated ..
  have 1: "line_list (?ls[k1 := ascii ''ro.secure=0'' @ e1])"
    by (rule line_list_update [OF file_lines(1) k(1) e(1) _ _ _ e(3)]) simp_all
  have 2: "?ls[k1 := ascii ''ro.secure=0'' @ e1] ! k2 = ascii ''ro.debuggable=0'' @ e2" using k e(2) by simp
  show "line_list (patched_lines cpio d k1 k2)" unfolding n
    by (rule line_list_update [OF 1 _ 2 _ _ _ e(4)]) (use k in simp_all)
  show "length (patched_lines cpio d k1 k2) = length ?ls" unfolding n by simp
  show "rstrip CRLF (patched_lines cpio d k1 k2 ! k1) = ascii ''ro.secure=0''"
    "rstrip CRLF (patched_lines cpio d k1 k2 ! k2) = ascii ''ro.debuggable=1''"
    unfolding n using k rstrip_line [OF _ e(3)] rstrip_line [OF _ e(4)] by simp_all
  show "j \<noteq> k1 \<Longrightarrow> j \<noteq> k2 \<Longrightarrow> patched_lines cpio d k1 k2 ! j = ?ls ! j" unfolding n by simp
qed

text \<open>The loop sets the two bytes.\<close>

lemma ready_apply:
  assumes ready: "patch_ready cpio es d k1 k2"
  shows "apply_patches (data_start d) (py_slice cpio (data_start d) (data_end d)) PROPERTY_PATCHES cpio
      = Inr (patched cpio d k1 k2)"
    and "py_slice (patched cpio d k1 k2) (data_start d) (data_end d) = concat (patched_lines cpio d k1 k2)"
    and "secure_offset cpio d k1 < length cpio" "debuggable_offset cpio d k2 < length cpio"
    "secure_offset cpio d k1 \<noteq> debuggable_offset cpio d k2"
    "cpio ! secure_offset cpio d k1 = 49" "cpio ! debuggable_offset cpio d k2 = 48"
    "data_start d \<le> int (secure_offset cpio d k1)" "int (secure_offset cpio d k1) < data_end d"
    "data_start d \<le> int (debuggable_offset cpio d k2)" "int (debuggable_offset cpio d k2) < data_end d"
proof -
  define ls where "ls = file_lines cpio d"
  define ls2 where "ls2 = patched_lines cpio d k1 k2"
  define c where "c = py_slice cpio (data_start d) (data_end d)"
  obtain e1 e2 where e: "ls ! k1 = ascii ''ro.secure=1'' @ e1" "ls ! k2 = ascii ''ro.debuggable=0'' @ e2"
    unfolding ls_def by (rule ready_old_lines [OF ready])
  have k: "k1 < length ls" "k2 < length ls" "k1 \<noteq> k2"
    unfolding ls_def using ready_hits(1,2) [OF ready] ready_distinct [OF ready] by simp_all
  obtain P S where PS: "cpio = P @ c @ S" "data_start d = int (length P)" "data_end d = int (length P + length c)"
    unfolding c_def by (rule entry_split [OF ready_parsed [OF ready]])
  have c: "c = concat ls" by (simp add: c_def ls_def file_lines)
  let ?ls1 = "ls[k1 := (ls ! k1)[10 := 48]]"
  have ls2: "ls2 = ?ls1[k2 := (ls ! k2)[14 := 49]]" by (simp add: ls2_def patched_lines_def Let_def ls_def)
  have len: "10 < length (ls ! k1)" "14 < length (ls ! k2)" by (simp_all add: e)
  have ls1k: "?ls1 ! k2 = ls ! k2" using k by simp
  have pos1: "line_pos ?ls1 k2 = line_pos ls k2" by (simp add: line_pos_update)
  have h1: "count_exact_lines c (ascii ''ro.secure=1'') = [line_pos ls k1]"
    and h2: "count_exact_lines c (ascii ''ro.debuggable=0'') = [line_pos ls k2]"
    using ready by (simp_all add: count_exact_lines_hits patch_ready_def file_lines_def c_def ls_def)
  have s1: "py_set_slice (P @ concat ls @ S) (int (length P) + int (line_pos ls k1)) (int (length P) + int (line_pos ls k1) + 11)
      (ascii ''ro.secure=0'') = P @ concat ?ls1 @ S"
    using set_slice_line [OF k(1) e(1), of P S "ascii ''ro.secure=0''"]
    by (simp add: e lines_updated algebra_simps)
  have s2: "py_set_slice (P @ concat ?ls1 @ S) (int (length P) + int (line_pos ls k2))
      (int (length P) + int (line_pos ls k2) + 15) (ascii ''ro.debuggable=1'') = P @ concat ls2 @ S"
    using set_slice_line [of k2 ?ls1 "ascii ''ro.debuggable=0''" e2 P S "ascii ''ro.debuggable=1''"] k ls1k e(2)
    by (simp add: pos1 ls2 e(2) lines_updated algebra_simps)
  have u: "concat ls2 = c[line_pos ls k1 + 10 := 48, line_pos ls k2 + 14 := 49]"
    using concat_update_nth [OF k(1) len(1), of 48] concat_update_nth [of k2 ?ls1 14 49] k len
    by (simp add: ls2 pos1 c)
  have o: "secure_offset cpio d k1 = length P + (line_pos ls k1 + 10)"
    "debuggable_offset cpio d k2 = length P + (line_pos ls k2 + 14)"
    by (simp_all add: secure_offset_def debuggable_offset_def PS(2) ls_def)
  have less: "line_pos ls k1 + 10 < length c" "line_pos ls k2 + 14 < length c"
    unfolding c using line_pos_less k len by blast+
  have patched: "patched cpio d k1 k2 = P @ concat ls2 @ S"
    unfolding patched_def o u using less by (subst PS(1)) (simp add: list_update_append)
  have "apply_patches (int (length P)) c PROPERTY_PATCHES (P @ c @ S) = Inr (P @ concat ls2 @ S)"
    using h1 h2 s1 s2 by (simp add: PROPERTY_PATCHES_def Let_def c)
  then show "apply_patches (data_start d) (py_slice cpio (data_start d) (data_end d)) PROPERTY_PATCHES cpio
      = Inr (patched cpio d k1 k2)"
    unfolding patched unfolding c_def [symmetric] unfolding PS(2) PS(1) [symmetric] .
  have lc: "length (concat ls2) = length c" unfolding u by simp
  show "py_slice (patched cpio d k1 k2) (data_start d) (data_end d) = concat (patched_lines cpio d k1 k2)"
    unfolding patched PS(2,3) py_slice_nat ls2_def [symmetric] using lc by simp
  have lc2: "length cpio = length P + (length c + length S)" using PS(1) by (metis length_append)
  show "secure_offset cpio d k1 < length cpio" "debuggable_offset cpio d k2 < length cpio"
    using less lc2 by (simp_all add: o)
  show "data_start d \<le> int (secure_offset cpio d k1)" "int (secure_offset cpio d k1) < data_end d"
    "data_start d \<le> int (debuggable_offset cpio d k2)" "int (debuggable_offset cpio d k2) < data_end d"
    using less by (simp_all add: o PS(2,3))
  have "c ! (line_pos ls k1 + 10) = 49"
    unfolding c concat_nth_split [OF k(1)] by (simp add: line_pos_def nth_append e ascii_Cons)
  moreover have "c ! (line_pos ls k2 + 14) = 48"
    unfolding c concat_nth_split [OF k(2)] by (simp add: line_pos_def nth_append e ascii_Cons)
  ultimately have "(P @ c @ S) ! secure_offset cpio d k1 = 49" "(P @ c @ S) ! debuggable_offset cpio d k2 = 48"
    unfolding o using less by (simp_all add: nth_append)
  then show v: "cpio ! secure_offset cpio d k1 = 49" "cpio ! debuggable_offset cpio d k2 = 48"
    unfolding PS(1) [symmetric] .
  from v show "secure_offset cpio d k1 \<noteq> debuggable_offset cpio d k2" by auto
qed

lemma ready_same_headers:
  assumes ready: "patch_ready cpio es d k1 k2"
  shows "parse_newc (patched cpio d k1 k2) = Some (Inr es)"
proof (rule parse_newc_same_headers [OF ready_parsed [OF ready]])
  show "same_on (\<lambda>i. \<not> (data_start d \<le> i \<and> i < data_end d)) cpio (patched cpio d k1 k2)"
    using ready_apply(8-11) [OF ready] by (auto simp: same_on_def patched_def nth_list_update)
qed

lemma ready_changed_list:
  assumes ready: "patch_ready cpio es d k1 k2"
  shows "changed_offsets cpio (patched cpio d k1 k2) = sort [secure_offset cpio d k1, debuggable_offset cpio d k2]"
proof (rule sorted_distinct_set_unique)
  define i j where "i = secure_offset cpio d k1" "j = debuggable_offset cpio d k2"
  note f = ready_apply(3-7) [OF ready, folded i_j_def]
  have eq: "changed_offsets cpio (patched cpio d k1 k2) = filter (\<lambda>k. k = i \<or> k = j) [0..<length cpio]"
    unfolding changed_offsets_def patched_def i_j_def [symmetric] using f
    by (auto intro!: filter_cong simp: nth_list_update)
  then show "set (changed_offsets cpio (patched cpio d k1 k2)) =
      set (sort [secure_offset cpio d k1, debuggable_offset cpio d k2])"
    unfolding i_j_def [symmetric] using f(1-3) by auto
  show "sorted (changed_offsets cpio (patched cpio d k1 k2))" "distinct (changed_offsets cpio (patched cpio d k1 k2))"
    unfolding eq by (simp_all add: sorted_wrt_filter)
  show "distinct (sort [secure_offset cpio d k1, debuggable_offset cpio d k2])"
    using f(3) unfolding i_j_def by simp
qed simp

lemma ready_changed:
  assumes ready: "patch_ready cpio es d k1 k2"
  shows "length (changed_offsets cpio (patched cpio d k1 k2)) = 2"
    "set (changed_offsets cpio (patched cpio d k1 k2)) = {secure_offset cpio d k1, debuggable_offset cpio d k2}"
  unfolding ready_changed_list [OF ready] by auto

text \<open>The report of a successful patch.\<close>

definition patched_report :: "(byte list \<Rightarrow> 'h) \<Rightarrow> byte list \<Rightarrow> newc_entry \<Rightarrow> nat \<Rightarrow> nat \<Rightarrow> 'h patch_report" where
  "patched_report sha cpio d k1 k2 = \<lparr>rep_entry = ''prop.default'',
     rep_entry_size = length (py_slice cpio (data_start d) (data_end d)),
     rep_sha_before = sha (py_slice cpio (data_start d) (data_end d)),
     rep_sha_after = sha (py_slice (patched cpio d k1 k2) (data_start d) (data_end d)),
     rep_properties = [''ro.secure'', ''ro.debuggable''],
     rep_byte_count = 2,
     rep_offsets = changed_offsets cpio (patched cpio d k1 k2),
     rep_preservation = preservation\<rparr>"

lemma ready_after:
  assumes ready: "patch_ready cpio es d k1 k2"
  shows "file_lines (patched cpio d k1 k2) d = patched_lines cpio d k1 k2"
  unfolding file_lines_def ready_apply(2) [OF ready] by (rule splitlines_lines [OF patched_lines(1) [OF ready]])

lemma ready_check:
  assumes ready: "patch_ready cpio es d k1 k2"
  defines "ls \<equiv> file_lines cpio d"
  shows "check_patches (py_slice (patched cpio d k1 k2) (data_start d) (data_end d)) PROPERTY_PATCHES =
    (if line_hits ls (ascii ''ro.secure=0'') \<noteq> [] then Some (New_line_not_unique (ascii ''ro.secure=0''))
     else if line_hits ls (ascii ''ro.debuggable=1'') \<noteq> [] then Some (New_line_not_unique (ascii ''ro.debuggable=1''))
     else None)"
proof -
  define ls2 where "ls2 = patched_lines cpio d k1 k2"
  have k: "k1 < length ls" "k2 < length ls" "k1 \<noteq> k2"
    unfolding ls_def using ready_hits(1,2) [OF ready] ready_distinct [OF ready] by simp_all
  note old = ready_hits(3,4) [OF ready, folded ls_def]
  note new = patched_lines(2-5) [OF ready, folded ls_def ls2_def]
  have cnt: "count_exact_lines (py_slice (patched cpio d k1 k2) (data_start d) (data_end d)) w
      = map (line_pos ls2) (line_hits ls2 w)" for w
    using ready_after [OF ready] unfolding count_exact_lines_hits file_lines_def ls2_def by simp
  have gone: "line_hits ls2 (ascii ''ro.secure=1'') = []" "line_hits ls2 (ascii ''ro.debuggable=0'') = []"
    unfolding line_hits_Nil using old new by (metis lines_distinct)+
  have len: "length xs = 1 \<longleftrightarrow> (\<exists>x. xs = [x])" for xs :: "nat list" by (auto simp: length_Suc_conv)
  have s: "length (line_hits ls2 (ascii ''ro.secure=0'')) = 1 \<longleftrightarrow> line_hits ls (ascii ''ro.secure=0'') = []"
  proof -
    have "length (line_hits ls2 (ascii ''ro.secure=0'')) = 1 \<longleftrightarrow> line_hits ls2 (ascii ''ro.secure=0'') = [k1]"
      unfolding len line_hits_single using new k by auto
    also have "\<dots> \<longleftrightarrow> line_hits ls (ascii ''ro.secure=0'') = []"
      unfolding line_hits_single line_hits_Nil using old new k by (metis lines_distinct)
    finally show ?thesis .
  qed
  have t: "length (line_hits ls2 (ascii ''ro.debuggable=1'')) = 1 \<longleftrightarrow> line_hits ls (ascii ''ro.debuggable=1'') = []"
  proof -
    have "length (line_hits ls2 (ascii ''ro.debuggable=1'')) = 1 \<longleftrightarrow> line_hits ls2 (ascii ''ro.debuggable=1'') = [k2]"
      unfolding len line_hits_single using new k by auto
    also have "\<dots> \<longleftrightarrow> line_hits ls (ascii ''ro.debuggable=1'') = []"
      unfolding line_hits_single line_hits_Nil using old new k by (metis lines_distinct)
    finally show ?thesis .
  qed
  show ?thesis using s t by (simp add: PROPERTY_PATCHES_def cnt gone)
qed

lemma patched_swap:
  assumes ready: "patch_ready cpio es d k1 k2"
  shows "patched_lines cpio d k1 k2 = map swap_line (file_lines cpio d)"
proof (rule nth_equalityI)
  show "length (patched_lines cpio d k1 k2) = length (map swap_line (file_lines cpio d))"
    using patched_lines(2) [OF ready] by simp
  fix j assume "j < length (patched_lines cpio d k1 k2)"
  then have j: "j < length (file_lines cpio d)" using patched_lines(2) [OF ready] by simp
  note h = ready_hits(3,4) [OF ready j] ready_hits(1,2) [OF ready] ready_distinct [OF ready]
  show "patched_lines cpio d k1 k2 ! j = map swap_line (file_lines cpio d) ! j"
    using h j by (auto simp: swap_line_def patched_lines_def Let_def nth_list_update)
qed

lemma ready_result:
  assumes ready: "patch_ready cpio es d k1 k2"
  shows "patch_properties sha cpio = Some (
    if line_hits (file_lines cpio d) (ascii ''ro.secure=0'') \<noteq> [] then Inl (New_line_not_unique (ascii ''ro.secure=0''))
    else if line_hits (file_lines cpio d) (ascii ''ro.debuggable=1'') \<noteq> []
      then Inl (New_line_not_unique (ascii ''ro.debuggable=1''))
    else Inr (patched cpio d k1 k2, patched_report sha cpio d k1 k2))"
proof -
  have "filter (\<lambda>e. ent_path e = py_str ''prop.default'') es = [d]" "ent_type d = S_IFREG"
    using ready by (simp_all add: patch_ready_def)
  moreover have "length PROPERTY_PATCHES = 2" "map (\<lambda>(_, _, p). p) PROPERTY_PATCHES = [''ro.secure'', ''ro.debuggable'']"
    by (simp_all add: PROPERTY_PATCHES_def)
  ultimately show ?thesis
    unfolding patch_properties_def ready_parsed(1) [OF ready]
    by (simp add: Let_def ready_apply(1) [OF ready] ready_changed [OF ready] ready_check [OF ready] patched_report_def)
qed

lemma patch_success_ready:
  assumes "patch_properties sha cpio = Some (Inr r)" "parse_newc cpio = Some (Inr es)" "sizes_ok es"
  shows "\<exists>d k1 k2. patch_ready cpio es d k1 k2"
proof -
  have one: "length xs = 1 \<Longrightarrow> \<exists>x. xs = [x]" for xs :: "'x list" by (simp add: length_Suc_conv)
  have "length (filter (\<lambda>e. ent_path e = py_str ''prop.default'') es) = 1"
    using assms(1,2) by (auto simp: patch_properties_def Let_def split: if_splits)
  then obtain d where d: "filter (\<lambda>e. ent_path e = py_str ''prop.default'') es = [d]" using one by blast
  with assms(1,2) have reg: "ent_type d = S_IFREG"
    by (auto simp: patch_properties_def Let_def split: if_splits)
  from assms(1,2) d reg obtain out where
    "apply_patches (data_start d) (py_slice cpio (data_start d) (data_end d)) PROPERTY_PATCHES cpio = Inr out"
    by (auto simp: patch_properties_def Let_def split: sum.splits)
  then have "length (line_hits (file_lines cpio d) (ascii ''ro.secure=1'')) = 1"
    "length (line_hits (file_lines cpio d) (ascii ''ro.debuggable=0'')) = 1"
    by (auto simp: PROPERTY_PATCHES_def Let_def count_exact_lines_hits file_lines_def split: if_splits)
  then obtain k1 k2 where "line_hits (file_lines cpio d) (ascii ''ro.secure=1'') = [k1]"
    "line_hits (file_lines cpio d) (ascii ''ro.debuggable=0'') = [k2]"
    using one by blast
  with assms(2,3) d reg show ?thesis unfolding patch_ready_def by blast
qed

section \<open>An archive\<close>

definition demo_file :: cpio_file where
  "demo_file = trailer_file\<lparr>cf_mode := 0x81A4, cf_name := ascii ''prop.default'',
     cf_data := ascii ''ro.secure=1'' @ [10] @ ascii ''ro.debuggable=0'' @ [10]\<rparr>"

definition demo_archive :: "byte list" where
  "demo_archive = newc_archive [demo_file] 4"

lemma demo_file_ok: "\<forall>f \<in> set [demo_file]. cpio_file_ok f \<and> utf8_decode (cf_name f) \<noteq> Some TRAILER"
proof -
  have "utf8_decode (cf_name demo_file) = Some (py_str ''prop.default'')"
    using utf8_decode_ascii [of "''prop.default''"] by (simp add: demo_file_def) force
  then show ?thesis
    unfolding cpio_file_ok_def by (simp add: cpio_fields_def demo_file_def trailer_file_def TRAILER_def py_str_def)
qed

lemma demo_lines:
  "splitlines (cf_data demo_file) = [ascii ''ro.secure=1'' @ [10], ascii ''ro.debuggable=0'' @ [10]]"
  "rstrip CRLF (ascii ''ro.secure=1'' @ [10]) = ascii ''ro.secure=1''"
  "rstrip CRLF (ascii ''ro.debuggable=0'' @ [10]) = ascii ''ro.debuggable=0''"
proof -
  show "splitlines (cf_data demo_file) = [ascii ''ro.secure=1'' @ [10], ascii ''ro.debuggable=0'' @ [10]]"
    using splitlines_lines [of "[ascii ''ro.secure=1'' @ [10], ascii ''ro.debuggable=0'' @ [10]]"]
    by (simp add: demo_file_def) force
qed (rule rstrip_line; simp)+

lemma demo_ready: "\<exists>es d. patch_ready demo_archive es d 0 1 \<and> file_lines demo_archive d = splitlines (cf_data demo_file)"
proof -
  obtain es where es: "parse_newc demo_archive = Some (Inr es)" "map (entry_view demo_archive) es = map file_view [demo_file]"
    unfolding demo_archive_def using archive_parsed [OF demo_file_ok] by blast
  then obtain d where d: "es = [d]" "entry_view demo_archive d = file_view demo_file" by auto
  have name: "utf8_decode (cf_name demo_file) = Some (py_str ''prop.default'')"
    using utf8_decode_ascii [of "''prop.default''"] by (simp add: demo_file_def) force
  have c: "py_slice demo_archive (data_start d) (data_end d) = cf_data demo_file"
    and p: "ent_path d = py_str ''prop.default''" and t: "ent_type d = S_IFMT 0x81A4"
    using d(2) name by (simp_all add: entry_view_def file_view_def) (simp add: demo_file_def)
  have "patch_ready demo_archive es d 0 1"
    using es(1) views_sizes_ok [OF es(2)] p t
    by (simp add: patch_ready_def d(1) file_lines_def c demo_lines line_hits_def S_IFMT_def S_IFREG_def upt_rec)
  moreover have "file_lines demo_archive d = splitlines (cf_data demo_file)" by (simp only: file_lines_def c)
  ultimately show ?thesis by blast
qed

lemma demo_patched:
  "\<exists>es out rep. parse_newc demo_archive = Some (Inr es) \<and> sizes_ok es \<and>
     patch_properties sha demo_archive = Some (Inr (out, rep))"
proof -
  obtain es d where ready: "patch_ready demo_archive es d 0 1"
    and l: "file_lines demo_archive d = splitlines (cf_data demo_file)" using demo_ready by blast
  have "line_hits (file_lines demo_archive d) (ascii ''ro.secure=0'') = []"
    "line_hits (file_lines demo_archive d) (ascii ''ro.debuggable=1'') = []"
    by (simp_all add: l demo_lines line_hits_def upt_rec)
  then show ?thesis using ready_result [OF ready, of sha] ready_parsed [OF ready] by auto
qed

section \<open>Properties\<close>

text \<open>C3 \<open>patch_properties\<close>, on an archive whose entries have no negative size, succeeds exactly when the archive
  holds one \<open>prop.default\<close>, a regular file, in which each of the two old lines stands once and neither new line
  stands. The result is then the archive with the byte after \<open>ro.secure=\<close> set to \<open>0\<close> and the byte after
  \<open>ro.debuggable=\<close> set to \<open>1\<close>, and the report names the entry, its size, the digests of its contents before and
  after, the two properties in the order of the patches, and the offsets of the two bytes in ascending order.\<close>

theorem patch_exact:
  assumes "parse_newc cpio = Some (Inr es)" "sizes_ok es"
  shows "patch_properties sha cpio = Some (Inr (out, rep)) \<longleftrightarrow>
    (\<exists>d k1 k2. filter (\<lambda>e. ent_path e = py_str ''prop.default'') es = [d] \<and> ent_type d = S_IFREG \<and>
       line_hits (file_lines cpio d) (ascii ''ro.secure=1'') = [k1] \<and>
       line_hits (file_lines cpio d) (ascii ''ro.debuggable=0'') = [k2] \<and>
       line_hits (file_lines cpio d) (ascii ''ro.secure=0'') = [] \<and>
       line_hits (file_lines cpio d) (ascii ''ro.debuggable=1'') = [] \<and>
       out = cpio[secure_offset cpio d k1 := 48, debuggable_offset cpio d k2 := 49] \<and>
       rep = \<lparr>rep_entry = ''prop.default'', rep_entry_size = length (py_slice cpio (data_start d) (data_end d)),
         rep_sha_before = sha (py_slice cpio (data_start d) (data_end d)),
         rep_sha_after = sha (py_slice out (data_start d) (data_end d)),
         rep_properties = [''ro.secure'', ''ro.debuggable''], rep_byte_count = 2,
         rep_offsets = sort [secure_offset cpio d k1, debuggable_offset cpio d k2],
         rep_preservation = preservation\<rparr>)"
    (is "?L \<longleftrightarrow> (\<exists>d k1 k2. ?R d k1 k2)")
proof -
  have res: "?L \<longleftrightarrow> ?R d k1 k2" if ready: "patch_ready cpio es d k1 k2" for d k1 k2
    using ready unfolding ready_result [OF ready] patch_ready_def
    by (auto simp: patched_def patched_report_def ready_changed_list [OF ready, unfolded patched_def])
  have ready: "patch_ready cpio es d k1 k2" if "?R d k1 k2" for d k1 k2
    using that assms by (simp add: patch_ready_def)
  show ?thesis
  proof
    assume L: ?L
    then obtain d k1 k2 where "patch_ready cpio es d k1 k2" using patch_success_ready [OF L assms] by blast
    with L res show "\<exists>d k1 k2. ?R d k1 k2" by blast
  qed (use res ready in blast)
qed

lemma patch_keeps:
  assumes "parse_newc cpio = Some (Inr es)" "sizes_ok es" "patch_properties sha cpio = Some (Inr (out, rep))"
  shows "\<exists>d \<in> set es. ent_path d = py_str ''prop.default'' \<and> parse_newc out = Some (Inr es) \<and>
    length out = length cpio \<and> length (rep_offsets rep) = 2 \<and>
    (\<forall>i \<in> set (rep_offsets rep). data_start d \<le> int i \<and> int i < data_end d) \<and>
    (\<forall>i < length cpio. i \<notin> set (rep_offsets rep) \<longrightarrow> out ! i = cpio ! i) \<and>
    splitlines (py_slice out (data_start d) (data_end d)) =
      map swap_line (splitlines (py_slice cpio (data_start d) (data_end d)))"
proof -
  obtain d k1 k2 where ready: "patch_ready cpio es d k1 k2" using patch_success_ready [OF assms(3,1,2)] by blast
  then have out: "out = patched cpio d k1 k2" and rep: "rep_offsets rep = changed_offsets cpio out"
    using assms(3) unfolding ready_result [OF ready] by (auto simp: patched_report_def split: if_splits)
  note c = ready_changed [OF ready, folded out rep]
  have "ent_path d = py_str ''prop.default''"
  proof -
    have "d \<in> set (filter (\<lambda>e. ent_path e = py_str ''prop.default'') es)" using ready by (simp add: patch_ready_def)
    then show ?thesis by simp
  qed
  moreover have "splitlines (py_slice out (data_start d) (data_end d)) =
      map swap_line (splitlines (py_slice cpio (data_start d) (data_end d)))"
    using ready_after [OF ready] patched_swap [OF ready] by (simp add: out file_lines_def)
  moreover have "\<forall>i < length cpio. i \<notin> set (rep_offsets rep) \<longrightarrow> out ! i = cpio ! i"
    unfolding c(2) by (simp add: out patched_def)
  moreover have "length out = length cpio" by (simp add: out patched_def)
  ultimately show ?thesis
    using c ready_apply(8-11) [OF ready] ready_same_headers [OF ready] ready_parsed(3) [OF ready]
    by (intro bexI [of _ d]) (auto simp: out)
qed

text \<open>A successful patch changes nothing but the two lines: the patched archive has the same length and parses to
  the same entries, it differs from the input at the reported offsets only, which are two bytes of the contents of
  \<open>prop.default\<close>, and the lines of that file are the old ones with the two lines swapped.\<close>

theorem patch_preserves:
  assumes "parse_newc cpio = Some (Inr es)" "sizes_ok es" "patch_properties sha cpio = Some (Inr (out, rep))"
  shows "\<exists>d \<in> set es. ent_path d = py_str ''prop.default'' \<and> parse_newc out = Some (Inr es) \<and>
    length out = length cpio \<and> length (rep_offsets rep) = 2 \<and>
    (\<forall>i \<in> set (rep_offsets rep). data_start d \<le> int i \<and> int i < data_end d) \<and>
    (\<forall>i < length cpio. i \<notin> set (rep_offsets rep) \<longrightarrow> out ! i = cpio ! i) \<and>
    splitlines (py_slice out (data_start d) (data_end d)) =
      map swap_line (splitlines (py_slice cpio (data_start d) (data_end d)))"
  using assms by (rule patch_keeps)

lemma patch_refused_again:
  assumes "parse_newc cpio = Some (Inr es)" "sizes_ok es" "patch_properties sha cpio = Some (Inr (out, rep))"
  shows "patch_properties sha out = Some (Inl (Old_line_count (ascii ''ro.secure=1'') 0))"
proof -
  obtain d k1 k2 where ready: "patch_ready cpio es d k1 k2" using patch_success_ready [OF assms(3,1,2)] by blast
  then have out: "out = patched cpio d k1 k2"
    using assms(3) unfolding ready_result [OF ready] by (auto split: if_splits)
  have "count_exact_lines (py_slice out (data_start d) (data_end d)) (ascii ''ro.secure=1'') = []"
    using assms(3) ready_check [OF ready] unfolding ready_result [OF ready] out
    by (auto simp: PROPERTY_PATCHES_def split: if_splits)
  moreover have "filter (\<lambda>e. ent_path e = py_str ''prop.default'') es = [d]" "ent_type d = S_IFREG"
    using ready by (simp_all add: patch_ready_def)
  ultimately show ?thesis
    using ready_same_headers [OF ready] unfolding out
    by (simp add: patch_properties_def Let_def PROPERTY_PATCHES_def)
qed

text \<open>The patcher refuses an archive it has already patched: the old line is no longer there.\<close>

theorem patch_not_twice:
  assumes "parse_newc cpio = Some (Inr es)" "sizes_ok es" "patch_properties sha cpio = Some (Inr (out, rep))"
  shows "patch_properties sha out = Some (Inl (Old_line_count (ascii ''ro.secure=1'') 0))"
  using assms by (rule patch_refused_again)

lemma patch_exact_witness:
  "\<exists>es d k1 k2 out rep. parse_newc demo_archive = Some (Inr es) \<and>
     line_hits (file_lines demo_archive d) (ascii ''ro.secure=1'') = [k1] \<and>
     out = demo_archive[secure_offset demo_archive d k1 := 48, debuggable_offset demo_archive d k2 := 49] \<and>
     rep_offsets rep = sort [secure_offset demo_archive d k1, debuggable_offset demo_archive d k2] \<and>
     patch_properties length demo_archive = Some (Inr (out, rep))"
proof -
  obtain es out rep where s: "parse_newc demo_archive = Some (Inr es)" "sizes_ok es"
      "patch_properties length demo_archive = Some (Inr (out, rep))"
    using demo_patched [of length] by blast
  from patch_exact [of demo_archive es length out rep, OF s(1,2)] s(3) obtain d k1 k2 where
    "line_hits (file_lines demo_archive d) (ascii ''ro.secure=1'') = [k1]"
    "out = demo_archive[secure_offset demo_archive d k1 := 48, debuggable_offset demo_archive d k2 := 49]"
    "rep_offsets rep = sort [secure_offset demo_archive d k1, debuggable_offset demo_archive d k2]"
    by auto
  with s show ?thesis by blast
qed

lemma patch_preserves_witness:
  "\<exists>es out. parse_newc demo_archive = Some (Inr es) \<and> parse_newc out = Some (Inr es) \<and> length out = length demo_archive"
proof -
  obtain es out rep where "parse_newc demo_archive = Some (Inr es)" "sizes_ok es"
      "patch_properties length demo_archive = Some (Inr (out, rep))"
    using demo_patched [of length] by blast
  then show ?thesis using patch_preserves [of demo_archive es length out rep] by blast
qed

lemma patch_not_twice_witness:
  "\<exists>out rep. patch_properties length demo_archive = Some (Inr (out, rep)) \<and>
     patch_properties length out = Some (Inl (Old_line_count (ascii ''ro.secure=1'') 0))"
proof -
  obtain es out rep where "parse_newc demo_archive = Some (Inr es)" "sizes_ok es"
      "patch_properties length demo_archive = Some (Inr (out, rep))"
    using demo_patched [of length] by blast
  then show ?thesis using patch_not_twice [of demo_archive es length out rep] by blast
qed

end
