(* ===== verification/PatchMain.thy ===== *)
theory PatchMain
  imports AdbdPatch "HOL-Library.Sublist"
begin

text \<open>
  \<open>main\<close> of \<open>tools/patch_recovery_adbd_props.py\<close> with \<open>decode_fragment\<close> and \<open>compress_fragment\<close>, over a file system that maps
  paths to regular files, directories and other nodes. A path is the list of its components below the root, its
  directory part resolved, so that no prefix of it is a symbolic link. \<open>lz4\<close> is a program of its own: a record of what it
  decodes, what it writes and how it ends, and whether its test succeeds. The run gives the exit status and the files it
  leaves; the handler around \<open>main\<close> turns four classes of exceptions into status 2, any other ends Python with status 1.
\<close>

section \<open>The world of the script\<close>

datatype fnode = Regular "byte list" | Directory | Other_node

type_synonym path = "string list"

type_synonym files_at = "path \<rightharpoonup> fnode"

record lz4_tool =
  lz_found :: bool
  lz_decode :: "byte list \<Rightarrow> byte list option"
  lz_encode :: "byte list \<Rightarrow> byte list \<times> bool"
  lz_test :: "byte list \<Rightarrow> bool"

text \<open>\<open>lz_found\<close>: the program is a file or a bare name. \<open>lz_decode\<close> is \<open>None\<close> when the status is not 0. \<open>lz_encode\<close> gives the
  bytes that reach the output file and whether the status is 0.\<close>

record patch_args =
  pa_input :: path
  pa_output :: path
  pa_report :: path

text \<open>\<open>pm_can\<close>: the operating system lets a file or a directory be created at a path that is free. \<open>pm_json\<close> is the text of
  the report.\<close>

record 'h patch_env =
  pm_sha :: "byte list \<Rightarrow> 'h"
  pm_lz4 :: lz4_tool
  pm_can :: "path \<Rightarrow> bool"
  pm_json :: "patch_args \<Rightarrow> byte list \<Rightarrow> byte list \<Rightarrow> byte list \<Rightarrow> byte list \<Rightarrow> 'h patch_report \<Rightarrow> byte list"

section \<open>Directories\<close>

text \<open>\<open>parent.mkdir(parents=True, exist_ok=True)\<close>: the missing directories above a path are made from the top down; a node that
  is no directory, or a directory that may not be made, is an exception, and what was made before it stays.\<close>

definition ancestors :: "path \<Rightarrow> path list" where
  "ancestors p = map (\<lambda>n. take n p) [1..<length p]"

definition mkdir_one :: "(path \<Rightarrow> bool) \<Rightarrow> path \<Rightarrow> files_at \<Rightarrow> bool \<times> files_at" where
  "mkdir_one can p fs = (case fs p of
     None \<Rightarrow> if can p then (True, fs(p \<mapsto> Directory)) else (False, fs)
   | Some n \<Rightarrow> (n = Directory, fs))"

fun mkdirs :: "(path \<Rightarrow> bool) \<Rightarrow> path list \<Rightarrow> files_at \<Rightarrow> bool \<times> files_at" where
  "mkdirs can [] fs = (True, fs)"
| "mkdirs can (p # ps) fs = (case mkdir_one can p fs of (ok, fs') \<Rightarrow> if ok then mkdirs can ps fs' else (False, fs'))"

definition make_parents :: "(path \<Rightarrow> bool) \<Rightarrow> path \<Rightarrow> files_at \<Rightarrow> bool \<times> files_at" where
  "make_parents can p fs = mkdirs can (ancestors p) fs"

text \<open>What it may do to the files: new directories above the path, and nothing else.\<close>

definition above_only :: "files_at \<Rightarrow> files_at \<Rightarrow> path \<Rightarrow> bool" where
  "above_only fs fs' q \<longleftrightarrow> (\<forall>p. fs' p = fs p \<or> fs p = None \<and> fs' p = Some Directory \<and> p \<noteq> [] \<and> strict_prefix p q)"

lemma set_ancestors: "p \<in> set (ancestors q) \<longleftrightarrow> p \<noteq> [] \<and> strict_prefix p q"
proof
  assume "p \<in> set (ancestors q)"
  then obtain n where n: "1 \<le> n" "n < length q" "p = take n q" by (auto simp: ancestors_def)
  then have "length p = n" by simp
  with n show "p \<noteq> [] \<and> strict_prefix p q" by (auto simp: strict_prefix_def take_is_prefix)
next
  assume p: "p \<noteq> [] \<and> strict_prefix p q"
  then obtain r where q: "q = p @ r" "r \<noteq> []" by (auto simp: strict_prefix_def prefix_def)
  then show "p \<in> set (ancestors q)"
    unfolding ancestors_def using p by (auto simp: Suc_le_eq intro!: image_eqI [of _ _ "length p"])
qed

lemma mkdirs_grow:
  "mkdirs can ps fs = (ok, fs') \<Longrightarrow> fs' p = fs p \<or> fs p = None \<and> fs' p = Some Directory \<and> p \<in> set ps"
proof (induction ps arbitrary: fs)
  case (Cons q ps)
  obtain o1 fs1 where 1: "mkdir_one can q fs = (o1, fs1)" by fastforce
  then have "fs1 p = fs p \<or> fs p = None \<and> fs1 p = Some Directory \<and> p = q"
    by (auto simp: mkdir_one_def split: option.splits if_splits)
  with Cons 1 show ?case by (cases o1) fastforce+
qed simp

lemma make_parents_above: "make_parents can q fs = (ok, fs') \<Longrightarrow> above_only fs fs' q"
  unfolding make_parents_def above_only_def using mkdirs_grow by (metis set_ancestors)

lemma mkdirs_succeed:
  "(\<And>p. p \<in> set ps \<Longrightarrow> fs p = None \<or> fs p = Some Directory) \<Longrightarrow> (\<And>p. can p) \<Longrightarrow> \<exists>fs'. mkdirs can ps fs = (True, fs')"
proof (induction ps arbitrary: fs)
  case (Cons q ps)
  obtain fs1 where 1: "mkdir_one can q fs = (True, fs1)" "\<And>p. p \<in> set ps \<Longrightarrow> fs1 p = None \<or> fs1 p = Some Directory"
    using Cons.prems(1) [of q] Cons.prems by (cases "fs q") (simp_all add: mkdir_one_def)
  obtain fs' where "mkdirs can ps fs1 = (True, fs')" using Cons.IH [of fs1] 1(2) Cons.prems(2) by blast
  with 1(1) show ?case by simp
qed simp

lemma make_parents_succeed:
  "(\<And>p. strict_prefix p q \<Longrightarrow> fs p = None \<or> fs p = Some Directory) \<Longrightarrow> (\<And>p. can p) \<Longrightarrow> \<exists>fs'. make_parents can q fs = (True, fs')"
  unfolding make_parents_def by (intro mkdirs_succeed) (auto simp: set_ancestors)

lemma above_only_keeps: "above_only fs fs' q \<Longrightarrow> fs p = Some n \<Longrightarrow> fs' p = Some n"
  by (auto simp: above_only_def) (metis option.distinct(1))

lemma above_only_free: "above_only fs fs' q \<Longrightarrow> \<not> strict_prefix p q \<Longrightarrow> fs' p = fs p"
  by (auto simp: above_only_def)

lemma above_only_refl [simp]: "above_only fs fs q"
  by (simp add: above_only_def)

section \<open>The script\<close>

definition LZ4_LEGACY_MAGIC :: "byte list" where
  "LZ4_LEGACY_MAGIC = [0x02, 0x21, 0x4c, 0x18]"

definition is_regular :: "files_at \<Rightarrow> path \<Rightarrow> bool" where
  "is_regular fs p = (case fs p of Some (Regular _) \<Rightarrow> True | _ \<Rightarrow> False)"

text \<open>\<open>None\<close> is \<open>CalledProcessError\<close>.\<close>

definition decode_fragment :: "lz4_tool \<Rightarrow> files_at \<Rightarrow> path \<Rightarrow> byte list option" where
  "decode_fragment lz4 fs p = (case fs p of Some (Regular d) \<Rightarrow> lz_decode lz4 d | _ \<Rightarrow> None)"

text \<open>The directories, the exclusive creation, the magic number and the test of the written file. The first component
  says that no exception was raised.\<close>

definition compress_fragment :: "'h patch_env \<Rightarrow> byte list \<Rightarrow> path \<Rightarrow> files_at \<Rightarrow> bool \<times> files_at" where
  "compress_fragment E cpio out fs =
     (case make_parents (pm_can E) out fs of (made, fs1) \<Rightarrow>
        if \<not> made \<or> fs1 out \<noteq> None \<or> \<not> pm_can E out then (False, fs1)
        else case lz_encode (pm_lz4 E) cpio of (z, ok) \<Rightarrow>
          (ok \<and> take 4 z = LZ4_LEGACY_MAGIC \<and> lz_test (pm_lz4 E) z, fs1(out \<mapsto> Regular z)))"

text \<open>\<open>IndexError\<close> and \<open>OverflowError\<close> are not among the exceptions that the handler names.\<close>

definition patch_status :: "patch_error \<Rightarrow> int" where
  "patch_status e = (case e of Parse_error Index_error \<Rightarrow> 1 | Parse_error Mode_overflow \<Rightarrow> 1 | _ \<Rightarrow> 2)"

definition patch_main :: "'h patch_env \<Rightarrow> patch_args \<Rightarrow> files_at \<Rightarrow> (int \<times> files_at) option" where
  "patch_main E a fs =
     (if \<not> is_regular fs (pa_input a) \<or> \<not> lz_found (pm_lz4 E) \<or> pa_output a = pa_input a \<or>
         fs (pa_output a) \<noteq> None \<or> fs (pa_report a) \<noteq> None then Some (2, fs)
      else case decode_fragment (pm_lz4 E) fs (pa_input a) of
        None \<Rightarrow> Some (2, fs)
      | Some input_cpio \<Rightarrow> map_option (\<lambda>r. case r of
            Inl e \<Rightarrow> (patch_status e, fs)
          | Inr (output_cpio, rep) \<Rightarrow>
              (case compress_fragment E output_cpio (pa_output a) fs of (ok, fs1) \<Rightarrow>
                 if \<not> ok \<or> decode_fragment (pm_lz4 E) fs1 (pa_output a) \<noteq> Some output_cpio then (2, fs1)
                 else case make_parents (pm_can E) (pa_report a) fs1 of (made, fs2) \<Rightarrow>
                   if \<not> made \<or> fs2 (pa_report a) \<noteq> None \<or> \<not> pm_can E (pa_report a) then (2, fs2)
                   else (0, fs2(pa_report a \<mapsto> Regular (pm_json E a
                     (case fs (pa_input a) of Some (Regular d) \<Rightarrow> d | _ \<Rightarrow> [])
                     (case fs1 (pa_output a) of Some (Regular d) \<Rightarrow> d | _ \<Rightarrow> []) input_cpio output_cpio rep)))))
          (patch_properties (pm_sha E) input_cpio))"

section \<open>Runs\<close>

lemma compress_fragment_file:
  assumes "compress_fragment E cpio out fs = (ok, fs')"
  obtains (unwritten) "\<not> ok" "above_only fs fs' out"
  | (written) fs1 z where "above_only fs fs1 out" "fs1 out = None" "fs' = fs1(out \<mapsto> Regular z)"
      "ok \<Longrightarrow> take 4 z = LZ4_LEGACY_MAGIC \<and> lz_test (pm_lz4 E) z"
proof -
  obtain made fs1 where m: "make_parents (pm_can E) out fs = (made, fs1)" by fastforce
  obtain z zok where z: "lz_encode (pm_lz4 E) cpio = (z, zok)" by fastforce
  note above = make_parents_above [OF m]
  show thesis
  proof (cases "\<not> made \<or> fs1 out \<noteq> None \<or> \<not> pm_can E out")
    case True
    then have "\<not> ok" "fs' = fs1" using assms m by (auto simp: compress_fragment_def)
    with above show ?thesis by (intro unwritten) simp_all
  next
    case False
    then have "fs' = fs1(out \<mapsto> Regular z)" "ok \<longleftrightarrow> zok \<and> take 4 z = LZ4_LEGACY_MAGIC \<and> lz_test (pm_lz4 E) z" "fs1 out = None"
      using assms m z by (auto simp: compress_fragment_def)
    then show ?thesis using written above by blast
  qed
qed

text \<open>A run, by where it ends.\<close>

lemma patch_main_cases:
  assumes "patch_main E a fs = Some (status, fs')"
  obtains (early) "status \<noteq> 0" "above_only fs fs' (pa_output a)"
    | (late) fs1 z where "status = 2" "above_only fs fs1 (pa_output a)" "fs1 (pa_output a) = None"
        "above_only (fs1(pa_output a \<mapsto> Regular z)) fs' (pa_report a)"
    | (finished) fs1 fs2 z j cpio out rep where "status = 0" "fs (pa_output a) = None" "fs (pa_report a) = None"
        "above_only fs fs1 (pa_output a)" "above_only (fs1(pa_output a \<mapsto> Regular z)) fs2 (pa_report a)"
        "fs2 (pa_report a) = None" "fs' = fs2(pa_report a \<mapsto> Regular j)"
        "decode_fragment (pm_lz4 E) fs (pa_input a) = Some cpio" "patch_properties (pm_sha E) cpio = Some (Inr (out, rep))"
        "lz_decode (pm_lz4 E) z = Some out" "take 4 z = LZ4_LEGACY_MAGIC" "lz_test (pm_lz4 E) z"
proof -
  let ?refused = "\<not> is_regular fs (pa_input a) \<or> \<not> lz_found (pm_lz4 E) \<or> pa_output a = pa_input a \<or>
         fs (pa_output a) \<noteq> None \<or> fs (pa_report a) \<noteq> None"
  show thesis
  proof (cases "?refused \<or> decode_fragment (pm_lz4 E) fs (pa_input a) = None")
    case True
    then have "fs' = fs \<and> status = 2" using assms by (auto simp: patch_main_def split: if_splits option.splits)
    then show ?thesis using early by simp
  next
    case False
    then obtain cpio r where c: "decode_fragment (pm_lz4 E) fs (pa_input a) = Some cpio"
      "patch_properties (pm_sha E) cpio = Some r"
      using assms by (auto simp: patch_main_def)
    from False have refused: "\<not> ?refused" by blast
    note run = assms [unfolded patch_main_def if_not_P [OF refused] c option.case option.map option.inject]
    show ?thesis
    proof (cases r)
      case (Inl e)
      then have "fs' = fs \<and> status \<noteq> 0" using run by (auto simp: patch_status_def split: patch_error.splits newc_error.splits)
      then show ?thesis using early by simp
    next
      case (Inr x)
      obtain out rep where x: "x = (out, rep)" by fastforce
      obtain ok fs1 where k: "compress_fragment E out (pa_output a) fs = (ok, fs1)" by fastforce
      note run = run [unfolded Inr x sum.case prod.case k]
      from k show ?thesis
      proof (cases rule: compress_fragment_file)
        case unwritten
        then show ?thesis using run early by simp
      next
        case (written fs0 z)
        show ?thesis
        proof (cases "\<not> ok \<or> decode_fragment (pm_lz4 E) fs1 (pa_output a) \<noteq> Some out")
          case True
          then have "status = 2" "fs' = fs1" using run by simp_all
          with written show ?thesis by (intro late [of fs0 z]) simp_all
        next
          case False
          then have ok: ok and dec: "lz_decode (pm_lz4 E) z = Some out" by (simp_all add: written(3) decode_fragment_def)
          obtain made fs2 where m: "make_parents (pm_can E) (pa_report a) fs1 = (made, fs2)" by fastforce
          note above = make_parents_above [OF m, unfolded written(3)]
          note run = run [unfolded if_not_P [OF False] m prod.case]
          show ?thesis
          proof (cases "\<not> made \<or> fs2 (pa_report a) \<noteq> None \<or> \<not> pm_can E (pa_report a)")
            case True
            then have "status = 2" "fs' = fs2" using run by simp_all
            with written above show ?thesis by (intro late [of fs0 z]) simp_all
          next
            case False
            then have "status = 0" "\<exists>j. fs' = fs2(pa_report a \<mapsto> Regular j)" "fs2 (pa_report a) = None" using run by auto
            then show ?thesis using finished [of fs0 z fs2 _ cpio out rep] written(1,3) written(4) [OF ok] above c Inr x dec refused by blast
          qed
        qed
      qed
    qed
  qed
qed

section \<open>Properties\<close>

lemma above_only_cases:
  assumes "above_only fs fs' q" "fs p = None" "fs' p = Some n"
  shows "n = Directory \<and> strict_prefix p q"
  using assms by (auto simp: above_only_def) (metis option.distinct(1) option.inject)+

lemma above_only_le: "above_only fs fs' q \<Longrightarrow> fs \<subseteq>\<^sub>m fs'"
  by (auto simp: map_le_def above_only_def) (metis option.distinct(1))

lemma two_steps_new:
  assumes "above_only fs fs1 q" "above_only (fs1(q \<mapsto> Regular z)) fs2 r" "fs p = None" "fs2 p = Some n"
  shows "p = q \<and> n = Regular z \<or> n = Directory \<and> (strict_prefix p q \<or> strict_prefix p r)"
proof (cases "p = q")
  case True
  then show ?thesis using above_only_keeps [OF assms(2), of q "Regular z"] assms(4) by simp
next
  case False
  show ?thesis
  proof (cases "fs1 p")
    case None
    then show ?thesis using above_only_cases [OF assms(2) _ assms(4)] False by simp
  next
    case (Some m)
    then have "fs2 p = Some m" using above_only_keeps [OF assms(2), of p m] False by simp
    then show ?thesis using above_only_cases [OF assms(1,3) Some] assms(4) by simp
  qed
qed


lemma patched_output:
  assumes "patch_main E a fs = Some (0, fs')" "decode_fragment (pm_lz4 E) fs (pa_input a) = Some cpio"
    and "parse_newc cpio = Some (Inr es)" "sizes_ok es"
  obtains z out offs d where "fs' (pa_output a) = Some (Regular z)" "take 4 z = LZ4_LEGACY_MAGIC" "lz_decode (pm_lz4 E) z = Some out"
    "d \<in> set es" "ent_path d = py_str ''prop.default''" "parse_newc out = Some (Inr es)" "length out = length cpio" "length offs = 2"
    "\<forall>i \<in> set offs. data_start d \<le> int i \<and> int i < data_end d" "\<forall>i < length cpio. i \<notin> set offs \<longrightarrow> out ! i = cpio ! i"
    "splitlines (py_slice out (data_start d) (data_end d)) = map swap_line (splitlines (py_slice cpio (data_start d) (data_end d)))"
    "\<exists>rep. patch_properties (pm_sha E) cpio = Some (Inr (out, rep))"
  using assms(1)
proof (cases rule: patch_main_cases)
  case (finished fs1 fs2 z j c out rep)
  then have p: "patch_properties (pm_sha E) cpio = Some (Inr (out, rep))" using assms(2) by simp
  from patch_keeps [OF assms(3,4) p] obtain d where d: "d \<in> set es" "ent_path d = py_str ''prop.default''"
    "parse_newc out = Some (Inr es)" "length out = length cpio" "length (rep_offsets rep) = 2"
    "\<forall>i \<in> set (rep_offsets rep). data_start d \<le> int i \<and> int i < data_end d"
    "\<forall>i < length cpio. i \<notin> set (rep_offsets rep) \<longrightarrow> out ! i = cpio ! i"
    "splitlines (py_slice out (data_start d) (data_end d)) = map swap_line (splitlines (py_slice cpio (data_start d) (data_end d)))"
    by blast
  have "fs2 (pa_output a) = Some (Regular z)" using above_only_keeps [OF finished(5)] by simp
  moreover from this have "pa_report a \<noteq> pa_output a" using finished(6) by auto
  ultimately have "fs' (pa_output a) = Some (Regular z)" using finished(7) by simp
  from that [OF this finished(11,10) d] show ?thesis using p by blast
qed simp_all

text \<open>C13 Status 0, on an input whose archive has no entry with a negative size, means that the output fragment is a legacy LZ4 file that decodes to the input's archive with two bytes of
  the contents of \<open>prop.default\<close> changed and its lines those of the input with the two properties swapped.\<close>

theorem patch_run_succeeded:
  assumes "patch_main E a fs = Some (0, fs')" "decode_fragment (pm_lz4 E) fs (pa_input a) = Some cpio"
    and "parse_newc cpio = Some (Inr es)" "sizes_ok es"
  shows "\<exists>z out offs. \<exists>d \<in> set es. fs' (pa_output a) = Some (Regular z) \<and> take 4 z = LZ4_LEGACY_MAGIC \<and>
    lz_decode (pm_lz4 E) z = Some out \<and> ent_path d = py_str ''prop.default'' \<and> parse_newc out = Some (Inr es) \<and>
    length out = length cpio \<and> length offs = 2 \<and> (\<forall>i \<in> set offs. data_start d \<le> int i \<and> int i < data_end d) \<and>
    (\<forall>i < length cpio. i \<notin> set offs \<longrightarrow> out ! i = cpio ! i) \<and>
    splitlines (py_slice out (data_start d) (data_end d)) = map swap_line (splitlines (py_slice cpio (data_start d) (data_end d)))"
  by (rule patched_output [OF assms]) blast


text \<open>A run that fails after \<open>lz4\<close> has started leaves the output file behind, and a further run with the same arguments
  is refused because of it, even with an \<open>lz4\<close> that works.\<close>

lemma failed_run_blocks_retry:
  assumes "patch_main E a fs = Some (2, fs')" "fs' (pa_output a) \<noteq> None"
  shows "patch_main E' a fs' = Some (2, fs')"
  using assms(2) by (simp add: patch_main_def)

text \<open>With an \<open>lz4\<close> that works on the patched archive, a run on an archive the patcher is made for ends with status 0, in
  directories that are there or can be made.\<close>

lemma patch_run_succeeds:
  assumes "is_regular fs (pa_input a)" "lz_found (pm_lz4 E)" "pa_output a \<noteq> pa_input a"
    and "fs (pa_output a) = None" "fs (pa_report a) = None" "\<And>p. pm_can E p"
    and dirs: "\<And>p. strict_prefix p (pa_output a) \<or> strict_prefix p (pa_report a) \<Longrightarrow> fs p = None \<or> fs p = Some Directory"
    and apart: "\<not> prefix (pa_output a) (pa_report a)" "\<not> prefix (pa_report a) (pa_output a)"
    and "decode_fragment (pm_lz4 E) fs (pa_input a) = Some cpio" "patch_properties (pm_sha E) cpio = Some (Inr (out, rep))"
    and "lz_encode (pm_lz4 E) out = (z, True)" "take 4 z = LZ4_LEGACY_MAGIC" "lz_test (pm_lz4 E) z" "lz_decode (pm_lz4 E) z = Some out"
  shows "\<exists>fs'. patch_main E a fs = Some (0, fs')"
proof -
  obtain fs1 where m1: "make_parents (pm_can E) (pa_output a) fs = (True, fs1)"
    using make_parents_succeed [of "pa_output a" fs "pm_can E"] dirs assms(6) by blast
  note above1 = make_parents_above [OF m1]
  have free: "fs1 (pa_output a) = None" "fs1 (pa_report a) = None"
    using above_only_free [OF above1] assms(4,5) apart by (auto simp: strict_prefix_def)
  let ?fs = "fs1(pa_output a \<mapsto> Regular z)"
  have "?fs p = None \<or> ?fs p = Some Directory" if "strict_prefix p (pa_report a)" for p
    using that dirs [of p] above1 apart by (auto simp: above_only_def strict_prefix_def) metis+
  then obtain fs2 where m2: "make_parents (pm_can E) (pa_report a) ?fs = (True, fs2)"
    using make_parents_succeed [of "pa_report a" ?fs "pm_can E"] assms(6) by blast
  have "fs2 (pa_report a) = None"
    using above_only_free [OF make_parents_above [OF m2], of "pa_report a"] free apart by auto
  with m1 m2 free assms show ?thesis
    by (simp add: patch_main_def compress_fragment_def decode_fragment_def [of _ ?fs])
qed

section \<open>An instance\<close>

text \<open>An \<open>lz4\<close> that stores: the magic number and the bytes.\<close>

definition store_lz4 :: lz4_tool where
  "store_lz4 = \<lparr>lz_found = True, lz_decode = (\<lambda>d. if take 4 d = LZ4_LEGACY_MAGIC then Some (drop 4 d) else None),
     lz_encode = (\<lambda>d. (LZ4_LEGACY_MAGIC @ d, True)), lz_test = (\<lambda>d. take 4 d = LZ4_LEGACY_MAGIC)\<rparr>"

definition store_env :: "unit patch_env" where
  "store_env = \<lparr>pm_sha = (\<lambda>_. ()), pm_lz4 = store_lz4, pm_can = (\<lambda>_. True), pm_json = (\<lambda>_ _ _ _ _ _. [])\<rparr>"

definition demo_args :: patch_args where
  "demo_args = \<lparr>pa_input = [''in.lz4''], pa_output = [''out'', ''out.lz4''], pa_report = [''report.json'']\<rparr>"

definition demo_files :: files_at where
  "demo_files = [[''in.lz4''] \<mapsto> Regular (LZ4_LEGACY_MAGIC @ demo_archive)]"

lemma demo_run:
  obtains es fs' where "patch_main store_env demo_args demo_files = Some (0, fs')"
    "decode_fragment (pm_lz4 store_env) demo_files (pa_input demo_args) = Some demo_archive"
    "parse_newc demo_archive = Some (Inr es)" "sizes_ok es"
proof -
  obtain es out rep where p: "parse_newc demo_archive = Some (Inr es)" "sizes_ok es"
    "patch_properties (\<lambda>_. ()) demo_archive = Some (Inr (out, rep))" using demo_patched by blast
  have m: "length LZ4_LEGACY_MAGIC = 4" by (simp add: LZ4_LEGACY_MAGIC_def)
  have d: "decode_fragment (pm_lz4 store_env) demo_files (pa_input demo_args) = Some demo_archive"
    by (simp add: decode_fragment_def demo_files_def demo_args_def store_env_def store_lz4_def m)
  have "\<exists>fs'. patch_main store_env demo_args demo_files = Some (0, fs')"
    by (rule patch_run_succeeds [where cpio = demo_archive and out = out and rep = rep and z = "LZ4_LEGACY_MAGIC @ out"])
      (use d p(3) in \<open>auto simp: demo_args_def demo_files_def is_regular_def store_env_def store_lz4_def m strict_prefix_def
         prefix_Cons\<close>)
  with d p that show ?thesis by blast
qed


lemma patch_run_succeeded_witness:
  "\<exists>fs' z out. patch_main store_env demo_args demo_files = Some (0, fs') \<and> fs' [''out'', ''out.lz4''] = Some (Regular z) \<and>
    lz_decode store_lz4 z = Some out \<and> length out = length demo_archive"
proof -
  obtain es fs' where r: "patch_main store_env demo_args demo_files = Some (0, fs')"
    "decode_fragment (pm_lz4 store_env) demo_files (pa_input demo_args) = Some demo_archive"
    "parse_newc demo_archive = Some (Inr es)" "sizes_ok es" by (rule demo_run)
  have "pm_lz4 store_env = store_lz4" "pa_output demo_args = [''out'', ''out.lz4'']" by (simp_all add: store_env_def demo_args_def)
  with r(1) patch_run_succeeded [OF r] show ?thesis by auto
qed


end
