(* ===== verification/AidlEnums.thy ===== *)
theory AidlEnums
  imports Prelude
begin

text \<open>
  The enumerations of the AIDL interface \<open>android.hardware.security.keymint\<close>, version 3
  (\<open>prebuilt/a15-aidl/include/keymint-v3/aidl/android/hardware/security/keymint\<close>), apart from the two
  long ones. An enumeration has a datatype with its enumerators, their values, the strings of the
  cases of \<open>toString\<close> and the array \<open>enum_values\<close>. A variable of the C++ type can hold any signed
  32-bit number, so \<open>toString\<close> is a function on numbers: the case of the enumerator when there is
  one, the decimal number by default. \<open>aidl_enum\<close> is what the generator of these files promises.
\<close>

section \<open>The contract of a generated enumeration\<close>

definition enum_toString :: "'e list \<Rightarrow> ('e \<Rightarrow> int) \<Rightarrow> ('e \<Rightarrow> string) \<Rightarrow> int \<Rightarrow> string" where
  "enum_toString vals val name v =
     (case find (\<lambda>e. val e = v) vals of Some e \<Rightarrow> name e | None \<Rightarrow> int_to_string v)"

locale aidl_enum =
  fixes vals :: "'e list" and val :: "'e \<Rightarrow> int" and name :: "'e \<Rightarrow> string"
  assumes all_vals: "e \<in> set vals"
    and distinct_vals: "distinct (List.map val vals)"
    and distinct_names: "distinct (List.map name vals)"
    and names_not_numbers: "list_all (\<lambda>e. \<not> starts_numeric (name e)) vals"
    and vals_in_range: "list_all (\<lambda>e. - 2147483648 \<le> val e \<and> val e < 2147483648) vals"
begin

lemma val_inject [simp]: "val e = val e' \<longleftrightarrow> e = e'"
  using distinct_vals all_vals [of e] all_vals [of e'] by (auto simp: distinct_map inj_on_def)

lemma name_inject [simp]: "name e = name e' \<longleftrightarrow> e = e'"
  using distinct_names all_vals [of e] all_vals [of e'] by (auto simp: distinct_map inj_on_def)

lemma val_range: "- 2147483648 \<le> val e \<and> val e < 2147483648"
  using vals_in_range all_vals [of e] by (auto simp: list_all_iff)

lemma toString_val: "enum_toString vals val name (val e) = name e"
  using find_Some_iff_unique [OF distinct_vals all_vals [of e]] by (simp add: enum_toString_def)

lemma toString_other: "v \<notin> range val \<Longrightarrow> enum_toString vals val name v = int_to_string v"
proof -
  assume "v \<notin> range val"
  then have "find (\<lambda>e. val e = v) vals = None" by (auto simp: find_None_iff)
  then show ?thesis by (simp add: enum_toString_def)
qed

lemma toString_numeric_iff: "starts_numeric (enum_toString vals val name v) \<longleftrightarrow> v \<notin> range val"
  using names_not_numbers all_vals
  by (cases "v \<in> range val") (auto simp: toString_val toString_other int_to_string_numeric list_all_iff)

text \<open>Two numbers never print alike: the default case cannot be mistaken for an enumerator.\<close>

lemma toString_inject [simp]: "enum_toString vals val name v = enum_toString vals val name w \<longleftrightarrow> v = w"
proof
  assume eq: "enum_toString vals val name v = enum_toString vals val name w"
  then have iff: "v \<in> range val \<longleftrightarrow> w \<in> range val" by (metis toString_numeric_iff)
  show "v = w"
  proof (cases "v \<in> range val")
    case True
    with iff obtain e e' where "v = val e" "w = val e'" by blast
    with eq show ?thesis by (simp add: toString_val)
  next
    case False
    with iff eq show ?thesis by (simp add: toString_other)
  qed
qed simp

end

section \<open>Algorithm\<close>

datatype Algorithm =
    Algorithm_RSA | Algorithm_EC | Algorithm_AES | Algorithm_TRIPLE_DES | Algorithm_HMAC

primrec Algorithm_val :: "Algorithm \<Rightarrow> int" where
  "Algorithm_val Algorithm_RSA = 1"
| "Algorithm_val Algorithm_EC = 3"
| "Algorithm_val Algorithm_AES = 32"
| "Algorithm_val Algorithm_TRIPLE_DES = 33"
| "Algorithm_val Algorithm_HMAC = 128"

primrec Algorithm_name :: "Algorithm \<Rightarrow> string" where
  "Algorithm_name Algorithm_RSA = ''RSA''"
| "Algorithm_name Algorithm_EC = ''EC''"
| "Algorithm_name Algorithm_AES = ''AES''"
| "Algorithm_name Algorithm_TRIPLE_DES = ''TRIPLE_DES''"
| "Algorithm_name Algorithm_HMAC = ''HMAC''"

definition Algorithm_values :: "Algorithm list" where
  "Algorithm_values =
    [Algorithm_RSA, Algorithm_EC, Algorithm_AES, Algorithm_TRIPLE_DES, Algorithm_HMAC]"

definition Algorithm_toString :: "int \<Rightarrow> string" where
  "Algorithm_toString v = enum_toString Algorithm_values Algorithm_val Algorithm_name v"

interpretation Algorithm: aidl_enum Algorithm_values Algorithm_val Algorithm_name
proof
  show "e \<in> set Algorithm_values" for e :: Algorithm
    by (cases e) (simp_all add: Algorithm_values_def)
qed (simp_all add: Algorithm_values_def starts_numeric_def)

section \<open>BlockMode\<close>

datatype BlockMode =
    BlockMode_ECB | BlockMode_CBC | BlockMode_CTR | BlockMode_GCM

primrec BlockMode_val :: "BlockMode \<Rightarrow> int" where
  "BlockMode_val BlockMode_ECB = 1"
| "BlockMode_val BlockMode_CBC = 2"
| "BlockMode_val BlockMode_CTR = 3"
| "BlockMode_val BlockMode_GCM = 32"

primrec BlockMode_name :: "BlockMode \<Rightarrow> string" where
  "BlockMode_name BlockMode_ECB = ''ECB''"
| "BlockMode_name BlockMode_CBC = ''CBC''"
| "BlockMode_name BlockMode_CTR = ''CTR''"
| "BlockMode_name BlockMode_GCM = ''GCM''"

definition BlockMode_values :: "BlockMode list" where
  "BlockMode_values =
    [BlockMode_ECB, BlockMode_CBC, BlockMode_CTR, BlockMode_GCM]"

definition BlockMode_toString :: "int \<Rightarrow> string" where
  "BlockMode_toString v = enum_toString BlockMode_values BlockMode_val BlockMode_name v"

interpretation BlockMode: aidl_enum BlockMode_values BlockMode_val BlockMode_name
proof
  show "e \<in> set BlockMode_values" for e :: BlockMode
    by (cases e) (simp_all add: BlockMode_values_def)
qed (simp_all add: BlockMode_values_def starts_numeric_def)

section \<open>Digest\<close>

datatype Digest =
    Digest_NONE | Digest_MD5 | Digest_SHA1 | Digest_SHA_2_224 | Digest_SHA_2_256 | Digest_SHA_2_384
  | Digest_SHA_2_512

primrec Digest_val :: "Digest \<Rightarrow> int" where
  "Digest_val Digest_NONE = 0"
| "Digest_val Digest_MD5 = 1"
| "Digest_val Digest_SHA1 = 2"
| "Digest_val Digest_SHA_2_224 = 3"
| "Digest_val Digest_SHA_2_256 = 4"
| "Digest_val Digest_SHA_2_384 = 5"
| "Digest_val Digest_SHA_2_512 = 6"

primrec Digest_name :: "Digest \<Rightarrow> string" where
  "Digest_name Digest_NONE = ''NONE''"
| "Digest_name Digest_MD5 = ''MD5''"
| "Digest_name Digest_SHA1 = ''SHA1''"
| "Digest_name Digest_SHA_2_224 = ''SHA_2_224''"
| "Digest_name Digest_SHA_2_256 = ''SHA_2_256''"
| "Digest_name Digest_SHA_2_384 = ''SHA_2_384''"
| "Digest_name Digest_SHA_2_512 = ''SHA_2_512''"

definition Digest_values :: "Digest list" where
  "Digest_values =
    [Digest_NONE, Digest_MD5, Digest_SHA1, Digest_SHA_2_224, Digest_SHA_2_256, Digest_SHA_2_384
     , Digest_SHA_2_512]"

definition Digest_toString :: "int \<Rightarrow> string" where
  "Digest_toString v = enum_toString Digest_values Digest_val Digest_name v"

interpretation Digest: aidl_enum Digest_values Digest_val Digest_name
proof
  show "e \<in> set Digest_values" for e :: Digest
    by (cases e) (simp_all add: Digest_values_def)
qed (simp_all add: Digest_values_def starts_numeric_def)

section \<open>EcCurve\<close>

datatype EcCurve =
    EcCurve_P_224 | EcCurve_P_256 | EcCurve_P_384 | EcCurve_P_521 | EcCurve_CURVE_25519

primrec EcCurve_val :: "EcCurve \<Rightarrow> int" where
  "EcCurve_val EcCurve_P_224 = 0"
| "EcCurve_val EcCurve_P_256 = 1"
| "EcCurve_val EcCurve_P_384 = 2"
| "EcCurve_val EcCurve_P_521 = 3"
| "EcCurve_val EcCurve_CURVE_25519 = 4"

primrec EcCurve_name :: "EcCurve \<Rightarrow> string" where
  "EcCurve_name EcCurve_P_224 = ''P_224''"
| "EcCurve_name EcCurve_P_256 = ''P_256''"
| "EcCurve_name EcCurve_P_384 = ''P_384''"
| "EcCurve_name EcCurve_P_521 = ''P_521''"
| "EcCurve_name EcCurve_CURVE_25519 = ''CURVE_25519''"

definition EcCurve_values :: "EcCurve list" where
  "EcCurve_values =
    [EcCurve_P_224, EcCurve_P_256, EcCurve_P_384, EcCurve_P_521, EcCurve_CURVE_25519]"

definition EcCurve_toString :: "int \<Rightarrow> string" where
  "EcCurve_toString v = enum_toString EcCurve_values EcCurve_val EcCurve_name v"

interpretation EcCurve: aidl_enum EcCurve_values EcCurve_val EcCurve_name
proof
  show "e \<in> set EcCurve_values" for e :: EcCurve
    by (cases e) (simp_all add: EcCurve_values_def)
qed (simp_all add: EcCurve_values_def starts_numeric_def)

section \<open>HardwareAuthenticatorType\<close>

datatype HardwareAuthenticatorType =
    HardwareAuthenticatorType_NONE | HardwareAuthenticatorType_PASSWORD
  | HardwareAuthenticatorType_FINGERPRINT | HardwareAuthenticatorType_ANY

primrec HardwareAuthenticatorType_val :: "HardwareAuthenticatorType \<Rightarrow> int" where
  "HardwareAuthenticatorType_val HardwareAuthenticatorType_NONE = 0"
| "HardwareAuthenticatorType_val HardwareAuthenticatorType_PASSWORD = 1"
| "HardwareAuthenticatorType_val HardwareAuthenticatorType_FINGERPRINT = 2"
| "HardwareAuthenticatorType_val HardwareAuthenticatorType_ANY = - 1"

primrec HardwareAuthenticatorType_name :: "HardwareAuthenticatorType \<Rightarrow> string" where
  "HardwareAuthenticatorType_name HardwareAuthenticatorType_NONE = ''NONE''"
| "HardwareAuthenticatorType_name HardwareAuthenticatorType_PASSWORD = ''PASSWORD''"
| "HardwareAuthenticatorType_name HardwareAuthenticatorType_FINGERPRINT = ''FINGERPRINT''"
| "HardwareAuthenticatorType_name HardwareAuthenticatorType_ANY = ''ANY''"

definition HardwareAuthenticatorType_values :: "HardwareAuthenticatorType list" where
  "HardwareAuthenticatorType_values =
    [HardwareAuthenticatorType_NONE, HardwareAuthenticatorType_PASSWORD
     , HardwareAuthenticatorType_FINGERPRINT, HardwareAuthenticatorType_ANY]"

definition HardwareAuthenticatorType_toString :: "int \<Rightarrow> string" where
  "HardwareAuthenticatorType_toString v = enum_toString HardwareAuthenticatorType_values HardwareAuthenticatorType_val HardwareAuthenticatorType_name v"

interpretation HardwareAuthenticatorType: aidl_enum HardwareAuthenticatorType_values HardwareAuthenticatorType_val HardwareAuthenticatorType_name
proof
  show "e \<in> set HardwareAuthenticatorType_values" for e :: HardwareAuthenticatorType
    by (cases e) (simp_all add: HardwareAuthenticatorType_values_def)
qed (simp_all add: HardwareAuthenticatorType_values_def starts_numeric_def)

section \<open>KeyFormat\<close>

datatype KeyFormat =
    KeyFormat_X509 | KeyFormat_PKCS8 | KeyFormat_RAW

primrec KeyFormat_val :: "KeyFormat \<Rightarrow> int" where
  "KeyFormat_val KeyFormat_X509 = 0"
| "KeyFormat_val KeyFormat_PKCS8 = 1"
| "KeyFormat_val KeyFormat_RAW = 3"

primrec KeyFormat_name :: "KeyFormat \<Rightarrow> string" where
  "KeyFormat_name KeyFormat_X509 = ''X509''"
| "KeyFormat_name KeyFormat_PKCS8 = ''PKCS8''"
| "KeyFormat_name KeyFormat_RAW = ''RAW''"

definition KeyFormat_values :: "KeyFormat list" where
  "KeyFormat_values =
    [KeyFormat_X509, KeyFormat_PKCS8, KeyFormat_RAW]"

definition KeyFormat_toString :: "int \<Rightarrow> string" where
  "KeyFormat_toString v = enum_toString KeyFormat_values KeyFormat_val KeyFormat_name v"

interpretation KeyFormat: aidl_enum KeyFormat_values KeyFormat_val KeyFormat_name
proof
  show "e \<in> set KeyFormat_values" for e :: KeyFormat
    by (cases e) (simp_all add: KeyFormat_values_def)
qed (simp_all add: KeyFormat_values_def starts_numeric_def)

section \<open>KeyOrigin\<close>

datatype KeyOrigin =
    KeyOrigin_GENERATED | KeyOrigin_DERIVED | KeyOrigin_IMPORTED | KeyOrigin_RESERVED
  | KeyOrigin_SECURELY_IMPORTED

primrec KeyOrigin_val :: "KeyOrigin \<Rightarrow> int" where
  "KeyOrigin_val KeyOrigin_GENERATED = 0"
| "KeyOrigin_val KeyOrigin_DERIVED = 1"
| "KeyOrigin_val KeyOrigin_IMPORTED = 2"
| "KeyOrigin_val KeyOrigin_RESERVED = 3"
| "KeyOrigin_val KeyOrigin_SECURELY_IMPORTED = 4"

primrec KeyOrigin_name :: "KeyOrigin \<Rightarrow> string" where
  "KeyOrigin_name KeyOrigin_GENERATED = ''GENERATED''"
| "KeyOrigin_name KeyOrigin_DERIVED = ''DERIVED''"
| "KeyOrigin_name KeyOrigin_IMPORTED = ''IMPORTED''"
| "KeyOrigin_name KeyOrigin_RESERVED = ''RESERVED''"
| "KeyOrigin_name KeyOrigin_SECURELY_IMPORTED = ''SECURELY_IMPORTED''"

definition KeyOrigin_values :: "KeyOrigin list" where
  "KeyOrigin_values =
    [KeyOrigin_GENERATED, KeyOrigin_DERIVED, KeyOrigin_IMPORTED, KeyOrigin_RESERVED
     , KeyOrigin_SECURELY_IMPORTED]"

definition KeyOrigin_toString :: "int \<Rightarrow> string" where
  "KeyOrigin_toString v = enum_toString KeyOrigin_values KeyOrigin_val KeyOrigin_name v"

interpretation KeyOrigin: aidl_enum KeyOrigin_values KeyOrigin_val KeyOrigin_name
proof
  show "e \<in> set KeyOrigin_values" for e :: KeyOrigin
    by (cases e) (simp_all add: KeyOrigin_values_def)
qed (simp_all add: KeyOrigin_values_def starts_numeric_def)

section \<open>KeyPurpose\<close>

datatype KeyPurpose =
    KeyPurpose_ENCRYPT | KeyPurpose_DECRYPT | KeyPurpose_SIGN | KeyPurpose_VERIFY | KeyPurpose_WRAP_KEY
  | KeyPurpose_AGREE_KEY | KeyPurpose_ATTEST_KEY

primrec KeyPurpose_val :: "KeyPurpose \<Rightarrow> int" where
  "KeyPurpose_val KeyPurpose_ENCRYPT = 0"
| "KeyPurpose_val KeyPurpose_DECRYPT = 1"
| "KeyPurpose_val KeyPurpose_SIGN = 2"
| "KeyPurpose_val KeyPurpose_VERIFY = 3"
| "KeyPurpose_val KeyPurpose_WRAP_KEY = 5"
| "KeyPurpose_val KeyPurpose_AGREE_KEY = 6"
| "KeyPurpose_val KeyPurpose_ATTEST_KEY = 7"

primrec KeyPurpose_name :: "KeyPurpose \<Rightarrow> string" where
  "KeyPurpose_name KeyPurpose_ENCRYPT = ''ENCRYPT''"
| "KeyPurpose_name KeyPurpose_DECRYPT = ''DECRYPT''"
| "KeyPurpose_name KeyPurpose_SIGN = ''SIGN''"
| "KeyPurpose_name KeyPurpose_VERIFY = ''VERIFY''"
| "KeyPurpose_name KeyPurpose_WRAP_KEY = ''WRAP_KEY''"
| "KeyPurpose_name KeyPurpose_AGREE_KEY = ''AGREE_KEY''"
| "KeyPurpose_name KeyPurpose_ATTEST_KEY = ''ATTEST_KEY''"

definition KeyPurpose_values :: "KeyPurpose list" where
  "KeyPurpose_values =
    [KeyPurpose_ENCRYPT, KeyPurpose_DECRYPT, KeyPurpose_SIGN, KeyPurpose_VERIFY, KeyPurpose_WRAP_KEY
     , KeyPurpose_AGREE_KEY, KeyPurpose_ATTEST_KEY]"

definition KeyPurpose_toString :: "int \<Rightarrow> string" where
  "KeyPurpose_toString v = enum_toString KeyPurpose_values KeyPurpose_val KeyPurpose_name v"

interpretation KeyPurpose: aidl_enum KeyPurpose_values KeyPurpose_val KeyPurpose_name
proof
  show "e \<in> set KeyPurpose_values" for e :: KeyPurpose
    by (cases e) (simp_all add: KeyPurpose_values_def)
qed (simp_all add: KeyPurpose_values_def starts_numeric_def)

section \<open>PaddingMode\<close>

datatype PaddingMode =
    PaddingMode_NONE | PaddingMode_RSA_OAEP | PaddingMode_RSA_PSS | PaddingMode_RSA_PKCS1_1_5_ENCRYPT
  | PaddingMode_RSA_PKCS1_1_5_SIGN | PaddingMode_PKCS7

primrec PaddingMode_val :: "PaddingMode \<Rightarrow> int" where
  "PaddingMode_val PaddingMode_NONE = 1"
| "PaddingMode_val PaddingMode_RSA_OAEP = 2"
| "PaddingMode_val PaddingMode_RSA_PSS = 3"
| "PaddingMode_val PaddingMode_RSA_PKCS1_1_5_ENCRYPT = 4"
| "PaddingMode_val PaddingMode_RSA_PKCS1_1_5_SIGN = 5"
| "PaddingMode_val PaddingMode_PKCS7 = 64"

primrec PaddingMode_name :: "PaddingMode \<Rightarrow> string" where
  "PaddingMode_name PaddingMode_NONE = ''NONE''"
| "PaddingMode_name PaddingMode_RSA_OAEP = ''RSA_OAEP''"
| "PaddingMode_name PaddingMode_RSA_PSS = ''RSA_PSS''"
| "PaddingMode_name PaddingMode_RSA_PKCS1_1_5_ENCRYPT = ''RSA_PKCS1_1_5_ENCRYPT''"
| "PaddingMode_name PaddingMode_RSA_PKCS1_1_5_SIGN = ''RSA_PKCS1_1_5_SIGN''"
| "PaddingMode_name PaddingMode_PKCS7 = ''PKCS7''"

definition PaddingMode_values :: "PaddingMode list" where
  "PaddingMode_values =
    [PaddingMode_NONE, PaddingMode_RSA_OAEP, PaddingMode_RSA_PSS, PaddingMode_RSA_PKCS1_1_5_ENCRYPT
     , PaddingMode_RSA_PKCS1_1_5_SIGN, PaddingMode_PKCS7]"

definition PaddingMode_toString :: "int \<Rightarrow> string" where
  "PaddingMode_toString v = enum_toString PaddingMode_values PaddingMode_val PaddingMode_name v"

interpretation PaddingMode: aidl_enum PaddingMode_values PaddingMode_val PaddingMode_name
proof
  show "e \<in> set PaddingMode_values" for e :: PaddingMode
    by (cases e) (simp_all add: PaddingMode_values_def)
qed (simp_all add: PaddingMode_values_def starts_numeric_def)

section \<open>SecurityLevel\<close>

datatype SecurityLevel =
    SecurityLevel_SOFTWARE | SecurityLevel_TRUSTED_ENVIRONMENT | SecurityLevel_STRONGBOX
  | SecurityLevel_KEYSTORE

primrec SecurityLevel_val :: "SecurityLevel \<Rightarrow> int" where
  "SecurityLevel_val SecurityLevel_SOFTWARE = 0"
| "SecurityLevel_val SecurityLevel_TRUSTED_ENVIRONMENT = 1"
| "SecurityLevel_val SecurityLevel_STRONGBOX = 2"
| "SecurityLevel_val SecurityLevel_KEYSTORE = 100"

primrec SecurityLevel_name :: "SecurityLevel \<Rightarrow> string" where
  "SecurityLevel_name SecurityLevel_SOFTWARE = ''SOFTWARE''"
| "SecurityLevel_name SecurityLevel_TRUSTED_ENVIRONMENT = ''TRUSTED_ENVIRONMENT''"
| "SecurityLevel_name SecurityLevel_STRONGBOX = ''STRONGBOX''"
| "SecurityLevel_name SecurityLevel_KEYSTORE = ''KEYSTORE''"

definition SecurityLevel_values :: "SecurityLevel list" where
  "SecurityLevel_values =
    [SecurityLevel_SOFTWARE, SecurityLevel_TRUSTED_ENVIRONMENT, SecurityLevel_STRONGBOX
     , SecurityLevel_KEYSTORE]"

definition SecurityLevel_toString :: "int \<Rightarrow> string" where
  "SecurityLevel_toString v = enum_toString SecurityLevel_values SecurityLevel_val SecurityLevel_name v"

interpretation SecurityLevel: aidl_enum SecurityLevel_values SecurityLevel_val SecurityLevel_name
proof
  show "e \<in> set SecurityLevel_values" for e :: SecurityLevel
    by (cases e) (simp_all add: SecurityLevel_values_def)
qed (simp_all add: SecurityLevel_values_def starts_numeric_def)

section \<open>TagType\<close>

datatype TagType =
    TagType_INVALID | TagType_ENUM | TagType_ENUM_REP | TagType_UINT | TagType_UINT_REP | TagType_ULONG
  | TagType_DATE | TagType_BOOL | TagType_BIGNUM | TagType_BYTES | TagType_ULONG_REP

primrec TagType_val :: "TagType \<Rightarrow> int" where
  "TagType_val TagType_INVALID = 0"
| "TagType_val TagType_ENUM = 268435456"
| "TagType_val TagType_ENUM_REP = 536870912"
| "TagType_val TagType_UINT = 805306368"
| "TagType_val TagType_UINT_REP = 1073741824"
| "TagType_val TagType_ULONG = 1342177280"
| "TagType_val TagType_DATE = 1610612736"
| "TagType_val TagType_BOOL = 1879048192"
| "TagType_val TagType_BIGNUM = - 2147483648"
| "TagType_val TagType_BYTES = - 1879048192"
| "TagType_val TagType_ULONG_REP = - 1610612736"

primrec TagType_name :: "TagType \<Rightarrow> string" where
  "TagType_name TagType_INVALID = ''INVALID''"
| "TagType_name TagType_ENUM = ''ENUM''"
| "TagType_name TagType_ENUM_REP = ''ENUM_REP''"
| "TagType_name TagType_UINT = ''UINT''"
| "TagType_name TagType_UINT_REP = ''UINT_REP''"
| "TagType_name TagType_ULONG = ''ULONG''"
| "TagType_name TagType_DATE = ''DATE''"
| "TagType_name TagType_BOOL = ''BOOL''"
| "TagType_name TagType_BIGNUM = ''BIGNUM''"
| "TagType_name TagType_BYTES = ''BYTES''"
| "TagType_name TagType_ULONG_REP = ''ULONG_REP''"

definition TagType_values :: "TagType list" where
  "TagType_values =
    [TagType_INVALID, TagType_ENUM, TagType_ENUM_REP, TagType_UINT, TagType_UINT_REP, TagType_ULONG
     , TagType_DATE, TagType_BOOL, TagType_BIGNUM, TagType_BYTES, TagType_ULONG_REP]"

definition TagType_toString :: "int \<Rightarrow> string" where
  "TagType_toString v = enum_toString TagType_values TagType_val TagType_name v"

interpretation TagType: aidl_enum TagType_values TagType_val TagType_name
proof
  show "e \<in> set TagType_values" for e :: TagType
    by (cases e) (simp_all add: TagType_values_def)
qed (simp_all add: TagType_values_def starts_numeric_def)

section \<open>KeyParameterValue::Tag\<close>

datatype KeyParameterValue_Tag =
    KPV_invalid | KPV_algorithm | KPV_blockMode | KPV_paddingMode | KPV_digest | KPV_ecCurve | KPV_origin
  | KPV_keyPurpose | KPV_hardwareAuthenticatorType | KPV_securityLevel | KPV_boolValue | KPV_integer
  | KPV_longInteger | KPV_dateTime | KPV_blob

primrec KeyParameterValue_Tag_val :: "KeyParameterValue_Tag \<Rightarrow> int" where
  "KeyParameterValue_Tag_val KPV_invalid = 0"
| "KeyParameterValue_Tag_val KPV_algorithm = 1"
| "KeyParameterValue_Tag_val KPV_blockMode = 2"
| "KeyParameterValue_Tag_val KPV_paddingMode = 3"
| "KeyParameterValue_Tag_val KPV_digest = 4"
| "KeyParameterValue_Tag_val KPV_ecCurve = 5"
| "KeyParameterValue_Tag_val KPV_origin = 6"
| "KeyParameterValue_Tag_val KPV_keyPurpose = 7"
| "KeyParameterValue_Tag_val KPV_hardwareAuthenticatorType = 8"
| "KeyParameterValue_Tag_val KPV_securityLevel = 9"
| "KeyParameterValue_Tag_val KPV_boolValue = 10"
| "KeyParameterValue_Tag_val KPV_integer = 11"
| "KeyParameterValue_Tag_val KPV_longInteger = 12"
| "KeyParameterValue_Tag_val KPV_dateTime = 13"
| "KeyParameterValue_Tag_val KPV_blob = 14"

primrec KeyParameterValue_Tag_name :: "KeyParameterValue_Tag \<Rightarrow> string" where
  "KeyParameterValue_Tag_name KPV_invalid = ''invalid''"
| "KeyParameterValue_Tag_name KPV_algorithm = ''algorithm''"
| "KeyParameterValue_Tag_name KPV_blockMode = ''blockMode''"
| "KeyParameterValue_Tag_name KPV_paddingMode = ''paddingMode''"
| "KeyParameterValue_Tag_name KPV_digest = ''digest''"
| "KeyParameterValue_Tag_name KPV_ecCurve = ''ecCurve''"
| "KeyParameterValue_Tag_name KPV_origin = ''origin''"
| "KeyParameterValue_Tag_name KPV_keyPurpose = ''keyPurpose''"
| "KeyParameterValue_Tag_name KPV_hardwareAuthenticatorType = ''hardwareAuthenticatorType''"
| "KeyParameterValue_Tag_name KPV_securityLevel = ''securityLevel''"
| "KeyParameterValue_Tag_name KPV_boolValue = ''boolValue''"
| "KeyParameterValue_Tag_name KPV_integer = ''integer''"
| "KeyParameterValue_Tag_name KPV_longInteger = ''longInteger''"
| "KeyParameterValue_Tag_name KPV_dateTime = ''dateTime''"
| "KeyParameterValue_Tag_name KPV_blob = ''blob''"

definition KeyParameterValue_Tag_values :: "KeyParameterValue_Tag list" where
  "KeyParameterValue_Tag_values =
    [KPV_invalid, KPV_algorithm, KPV_blockMode, KPV_paddingMode, KPV_digest, KPV_ecCurve, KPV_origin
     , KPV_keyPurpose, KPV_hardwareAuthenticatorType, KPV_securityLevel, KPV_boolValue, KPV_integer
     , KPV_longInteger, KPV_dateTime, KPV_blob]"

definition KeyParameterValue_Tag_toString :: "int \<Rightarrow> string" where
  "KeyParameterValue_Tag_toString v = enum_toString KeyParameterValue_Tag_values KeyParameterValue_Tag_val KeyParameterValue_Tag_name v"

interpretation KeyParameterValue_Tag: aidl_enum KeyParameterValue_Tag_values KeyParameterValue_Tag_val KeyParameterValue_Tag_name
proof
  show "e \<in> set KeyParameterValue_Tag_values" for e :: KeyParameterValue_Tag
    by (cases e) (simp_all add: KeyParameterValue_Tag_values_def)
qed (simp_all add: KeyParameterValue_Tag_values_def starts_numeric_def)

end
