(* ===== verification/AidlTags.thy ===== *)
theory AidlTags
  imports AidlEnums
begin

text \<open>
  The enumeration \<open>Tag\<close>, the tags of authorizations, of the AIDL interface
  \<open>android.hardware.security.keymint\<close>, with the same parts as those of \<open>AidlEnums\<close>.
\<close>

section \<open>Tag\<close>

datatype (plugins only:) Tag =
    Tag_INVALID | Tag_PURPOSE | Tag_ALGORITHM | Tag_KEY_SIZE | Tag_BLOCK_MODE | Tag_DIGEST | Tag_PADDING
  | Tag_CALLER_NONCE | Tag_MIN_MAC_LENGTH | Tag_EC_CURVE | Tag_RSA_PUBLIC_EXPONENT | Tag_INCLUDE_UNIQUE_ID
  | Tag_RSA_OAEP_MGF_DIGEST | Tag_BOOTLOADER_ONLY | Tag_ROLLBACK_RESISTANCE | Tag_HARDWARE_TYPE
  | Tag_EARLY_BOOT_ONLY | Tag_ACTIVE_DATETIME | Tag_ORIGINATION_EXPIRE_DATETIME
  | Tag_USAGE_EXPIRE_DATETIME | Tag_MIN_SECONDS_BETWEEN_OPS | Tag_MAX_USES_PER_BOOT
  | Tag_USAGE_COUNT_LIMIT | Tag_USER_ID | Tag_USER_SECURE_ID | Tag_NO_AUTH_REQUIRED | Tag_USER_AUTH_TYPE
  | Tag_AUTH_TIMEOUT | Tag_ALLOW_WHILE_ON_BODY | Tag_TRUSTED_USER_PRESENCE_REQUIRED
  | Tag_TRUSTED_CONFIRMATION_REQUIRED | Tag_UNLOCKED_DEVICE_REQUIRED | Tag_APPLICATION_ID
  | Tag_APPLICATION_DATA | Tag_CREATION_DATETIME | Tag_ORIGIN | Tag_ROOT_OF_TRUST | Tag_OS_VERSION
  | Tag_OS_PATCHLEVEL | Tag_UNIQUE_ID | Tag_ATTESTATION_CHALLENGE | Tag_ATTESTATION_APPLICATION_ID
  | Tag_ATTESTATION_ID_BRAND | Tag_ATTESTATION_ID_DEVICE | Tag_ATTESTATION_ID_PRODUCT
  | Tag_ATTESTATION_ID_SERIAL | Tag_ATTESTATION_ID_IMEI | Tag_ATTESTATION_ID_MEID
  | Tag_ATTESTATION_ID_MANUFACTURER | Tag_ATTESTATION_ID_MODEL | Tag_VENDOR_PATCHLEVEL
  | Tag_BOOT_PATCHLEVEL | Tag_DEVICE_UNIQUE_ATTESTATION | Tag_IDENTITY_CREDENTIAL_KEY | Tag_STORAGE_KEY
  | Tag_ATTESTATION_ID_SECOND_IMEI | Tag_ASSOCIATED_DATA | Tag_NONCE | Tag_MAC_LENGTH
  | Tag_RESET_SINCE_ID_ROTATION | Tag_CONFIRMATION_TOKEN | Tag_CERTIFICATE_SERIAL
  | Tag_CERTIFICATE_SUBJECT | Tag_CERTIFICATE_NOT_BEFORE | Tag_CERTIFICATE_NOT_AFTER | Tag_MAX_BOOT_LEVEL

primrec Tag_val :: "Tag \<Rightarrow> int" where
  "Tag_val Tag_INVALID = 0"
| "Tag_val Tag_PURPOSE = 536870913"
| "Tag_val Tag_ALGORITHM = 268435458"
| "Tag_val Tag_KEY_SIZE = 805306371"
| "Tag_val Tag_BLOCK_MODE = 536870916"
| "Tag_val Tag_DIGEST = 536870917"
| "Tag_val Tag_PADDING = 536870918"
| "Tag_val Tag_CALLER_NONCE = 1879048199"
| "Tag_val Tag_MIN_MAC_LENGTH = 805306376"
| "Tag_val Tag_EC_CURVE = 268435466"
| "Tag_val Tag_RSA_PUBLIC_EXPONENT = 1342177480"
| "Tag_val Tag_INCLUDE_UNIQUE_ID = 1879048394"
| "Tag_val Tag_RSA_OAEP_MGF_DIGEST = 536871115"
| "Tag_val Tag_BOOTLOADER_ONLY = 1879048494"
| "Tag_val Tag_ROLLBACK_RESISTANCE = 1879048495"
| "Tag_val Tag_HARDWARE_TYPE = 268435760"
| "Tag_val Tag_EARLY_BOOT_ONLY = 1879048497"
| "Tag_val Tag_ACTIVE_DATETIME = 1610613136"
| "Tag_val Tag_ORIGINATION_EXPIRE_DATETIME = 1610613137"
| "Tag_val Tag_USAGE_EXPIRE_DATETIME = 1610613138"
| "Tag_val Tag_MIN_SECONDS_BETWEEN_OPS = 805306771"
| "Tag_val Tag_MAX_USES_PER_BOOT = 805306772"
| "Tag_val Tag_USAGE_COUNT_LIMIT = 805306773"
| "Tag_val Tag_USER_ID = 805306869"
| "Tag_val Tag_USER_SECURE_ID = - 1610612234"
| "Tag_val Tag_NO_AUTH_REQUIRED = 1879048695"
| "Tag_val Tag_USER_AUTH_TYPE = 268435960"
| "Tag_val Tag_AUTH_TIMEOUT = 805306873"
| "Tag_val Tag_ALLOW_WHILE_ON_BODY = 1879048698"
| "Tag_val Tag_TRUSTED_USER_PRESENCE_REQUIRED = 1879048699"
| "Tag_val Tag_TRUSTED_CONFIRMATION_REQUIRED = 1879048700"
| "Tag_val Tag_UNLOCKED_DEVICE_REQUIRED = 1879048701"
| "Tag_val Tag_APPLICATION_ID = - 1879047591"
| "Tag_val Tag_APPLICATION_DATA = - 1879047492"
| "Tag_val Tag_CREATION_DATETIME = 1610613437"
| "Tag_val Tag_ORIGIN = 268436158"
| "Tag_val Tag_ROOT_OF_TRUST = - 1879047488"
| "Tag_val Tag_OS_VERSION = 805307073"
| "Tag_val Tag_OS_PATCHLEVEL = 805307074"
| "Tag_val Tag_UNIQUE_ID = - 1879047485"
| "Tag_val Tag_ATTESTATION_CHALLENGE = - 1879047484"
| "Tag_val Tag_ATTESTATION_APPLICATION_ID = - 1879047483"
| "Tag_val Tag_ATTESTATION_ID_BRAND = - 1879047482"
| "Tag_val Tag_ATTESTATION_ID_DEVICE = - 1879047481"
| "Tag_val Tag_ATTESTATION_ID_PRODUCT = - 1879047480"
| "Tag_val Tag_ATTESTATION_ID_SERIAL = - 1879047479"
| "Tag_val Tag_ATTESTATION_ID_IMEI = - 1879047478"
| "Tag_val Tag_ATTESTATION_ID_MEID = - 1879047477"
| "Tag_val Tag_ATTESTATION_ID_MANUFACTURER = - 1879047476"
| "Tag_val Tag_ATTESTATION_ID_MODEL = - 1879047475"
| "Tag_val Tag_VENDOR_PATCHLEVEL = 805307086"
| "Tag_val Tag_BOOT_PATCHLEVEL = 805307087"
| "Tag_val Tag_DEVICE_UNIQUE_ATTESTATION = 1879048912"
| "Tag_val Tag_IDENTITY_CREDENTIAL_KEY = 1879048913"
| "Tag_val Tag_STORAGE_KEY = 1879048914"
| "Tag_val Tag_ATTESTATION_ID_SECOND_IMEI = - 1879047469"
| "Tag_val Tag_ASSOCIATED_DATA = - 1879047192"
| "Tag_val Tag_NONCE = - 1879047191"
| "Tag_val Tag_MAC_LENGTH = 805307371"
| "Tag_val Tag_RESET_SINCE_ID_ROTATION = 1879049196"
| "Tag_val Tag_CONFIRMATION_TOKEN = - 1879047187"
| "Tag_val Tag_CERTIFICATE_SERIAL = - 2147482642"
| "Tag_val Tag_CERTIFICATE_SUBJECT = - 1879047185"
| "Tag_val Tag_CERTIFICATE_NOT_BEFORE = 1610613744"
| "Tag_val Tag_CERTIFICATE_NOT_AFTER = 1610613745"
| "Tag_val Tag_MAX_BOOT_LEVEL = 805307378"

primrec Tag_name :: "Tag \<Rightarrow> string" where
  "Tag_name Tag_INVALID = ''INVALID''"
| "Tag_name Tag_PURPOSE = ''PURPOSE''"
| "Tag_name Tag_ALGORITHM = ''ALGORITHM''"
| "Tag_name Tag_KEY_SIZE = ''KEY_SIZE''"
| "Tag_name Tag_BLOCK_MODE = ''BLOCK_MODE''"
| "Tag_name Tag_DIGEST = ''DIGEST''"
| "Tag_name Tag_PADDING = ''PADDING''"
| "Tag_name Tag_CALLER_NONCE = ''CALLER_NONCE''"
| "Tag_name Tag_MIN_MAC_LENGTH = ''MIN_MAC_LENGTH''"
| "Tag_name Tag_EC_CURVE = ''EC_CURVE''"
| "Tag_name Tag_RSA_PUBLIC_EXPONENT = ''RSA_PUBLIC_EXPONENT''"
| "Tag_name Tag_INCLUDE_UNIQUE_ID = ''INCLUDE_UNIQUE_ID''"
| "Tag_name Tag_RSA_OAEP_MGF_DIGEST = ''RSA_OAEP_MGF_DIGEST''"
| "Tag_name Tag_BOOTLOADER_ONLY = ''BOOTLOADER_ONLY''"
| "Tag_name Tag_ROLLBACK_RESISTANCE = ''ROLLBACK_RESISTANCE''"
| "Tag_name Tag_HARDWARE_TYPE = ''HARDWARE_TYPE''"
| "Tag_name Tag_EARLY_BOOT_ONLY = ''EARLY_BOOT_ONLY''"
| "Tag_name Tag_ACTIVE_DATETIME = ''ACTIVE_DATETIME''"
| "Tag_name Tag_ORIGINATION_EXPIRE_DATETIME = ''ORIGINATION_EXPIRE_DATETIME''"
| "Tag_name Tag_USAGE_EXPIRE_DATETIME = ''USAGE_EXPIRE_DATETIME''"
| "Tag_name Tag_MIN_SECONDS_BETWEEN_OPS = ''MIN_SECONDS_BETWEEN_OPS''"
| "Tag_name Tag_MAX_USES_PER_BOOT = ''MAX_USES_PER_BOOT''"
| "Tag_name Tag_USAGE_COUNT_LIMIT = ''USAGE_COUNT_LIMIT''"
| "Tag_name Tag_USER_ID = ''USER_ID''"
| "Tag_name Tag_USER_SECURE_ID = ''USER_SECURE_ID''"
| "Tag_name Tag_NO_AUTH_REQUIRED = ''NO_AUTH_REQUIRED''"
| "Tag_name Tag_USER_AUTH_TYPE = ''USER_AUTH_TYPE''"
| "Tag_name Tag_AUTH_TIMEOUT = ''AUTH_TIMEOUT''"
| "Tag_name Tag_ALLOW_WHILE_ON_BODY = ''ALLOW_WHILE_ON_BODY''"
| "Tag_name Tag_TRUSTED_USER_PRESENCE_REQUIRED = ''TRUSTED_USER_PRESENCE_REQUIRED''"
| "Tag_name Tag_TRUSTED_CONFIRMATION_REQUIRED = ''TRUSTED_CONFIRMATION_REQUIRED''"
| "Tag_name Tag_UNLOCKED_DEVICE_REQUIRED = ''UNLOCKED_DEVICE_REQUIRED''"
| "Tag_name Tag_APPLICATION_ID = ''APPLICATION_ID''"
| "Tag_name Tag_APPLICATION_DATA = ''APPLICATION_DATA''"
| "Tag_name Tag_CREATION_DATETIME = ''CREATION_DATETIME''"
| "Tag_name Tag_ORIGIN = ''ORIGIN''"
| "Tag_name Tag_ROOT_OF_TRUST = ''ROOT_OF_TRUST''"
| "Tag_name Tag_OS_VERSION = ''OS_VERSION''"
| "Tag_name Tag_OS_PATCHLEVEL = ''OS_PATCHLEVEL''"
| "Tag_name Tag_UNIQUE_ID = ''UNIQUE_ID''"
| "Tag_name Tag_ATTESTATION_CHALLENGE = ''ATTESTATION_CHALLENGE''"
| "Tag_name Tag_ATTESTATION_APPLICATION_ID = ''ATTESTATION_APPLICATION_ID''"
| "Tag_name Tag_ATTESTATION_ID_BRAND = ''ATTESTATION_ID_BRAND''"
| "Tag_name Tag_ATTESTATION_ID_DEVICE = ''ATTESTATION_ID_DEVICE''"
| "Tag_name Tag_ATTESTATION_ID_PRODUCT = ''ATTESTATION_ID_PRODUCT''"
| "Tag_name Tag_ATTESTATION_ID_SERIAL = ''ATTESTATION_ID_SERIAL''"
| "Tag_name Tag_ATTESTATION_ID_IMEI = ''ATTESTATION_ID_IMEI''"
| "Tag_name Tag_ATTESTATION_ID_MEID = ''ATTESTATION_ID_MEID''"
| "Tag_name Tag_ATTESTATION_ID_MANUFACTURER = ''ATTESTATION_ID_MANUFACTURER''"
| "Tag_name Tag_ATTESTATION_ID_MODEL = ''ATTESTATION_ID_MODEL''"
| "Tag_name Tag_VENDOR_PATCHLEVEL = ''VENDOR_PATCHLEVEL''"
| "Tag_name Tag_BOOT_PATCHLEVEL = ''BOOT_PATCHLEVEL''"
| "Tag_name Tag_DEVICE_UNIQUE_ATTESTATION = ''DEVICE_UNIQUE_ATTESTATION''"
| "Tag_name Tag_IDENTITY_CREDENTIAL_KEY = ''IDENTITY_CREDENTIAL_KEY''"
| "Tag_name Tag_STORAGE_KEY = ''STORAGE_KEY''"
| "Tag_name Tag_ATTESTATION_ID_SECOND_IMEI = ''ATTESTATION_ID_SECOND_IMEI''"
| "Tag_name Tag_ASSOCIATED_DATA = ''ASSOCIATED_DATA''"
| "Tag_name Tag_NONCE = ''NONCE''"
| "Tag_name Tag_MAC_LENGTH = ''MAC_LENGTH''"
| "Tag_name Tag_RESET_SINCE_ID_ROTATION = ''RESET_SINCE_ID_ROTATION''"
| "Tag_name Tag_CONFIRMATION_TOKEN = ''CONFIRMATION_TOKEN''"
| "Tag_name Tag_CERTIFICATE_SERIAL = ''CERTIFICATE_SERIAL''"
| "Tag_name Tag_CERTIFICATE_SUBJECT = ''CERTIFICATE_SUBJECT''"
| "Tag_name Tag_CERTIFICATE_NOT_BEFORE = ''CERTIFICATE_NOT_BEFORE''"
| "Tag_name Tag_CERTIFICATE_NOT_AFTER = ''CERTIFICATE_NOT_AFTER''"
| "Tag_name Tag_MAX_BOOT_LEVEL = ''MAX_BOOT_LEVEL''"

definition Tag_values :: "Tag list" where
  "Tag_values =
    [Tag_INVALID, Tag_PURPOSE, Tag_ALGORITHM, Tag_KEY_SIZE, Tag_BLOCK_MODE, Tag_DIGEST, Tag_PADDING
     , Tag_CALLER_NONCE, Tag_MIN_MAC_LENGTH, Tag_EC_CURVE, Tag_RSA_PUBLIC_EXPONENT, Tag_INCLUDE_UNIQUE_ID
     , Tag_RSA_OAEP_MGF_DIGEST, Tag_BOOTLOADER_ONLY, Tag_ROLLBACK_RESISTANCE, Tag_HARDWARE_TYPE
     , Tag_EARLY_BOOT_ONLY, Tag_ACTIVE_DATETIME, Tag_ORIGINATION_EXPIRE_DATETIME
     , Tag_USAGE_EXPIRE_DATETIME, Tag_MIN_SECONDS_BETWEEN_OPS, Tag_MAX_USES_PER_BOOT
     , Tag_USAGE_COUNT_LIMIT, Tag_USER_ID, Tag_USER_SECURE_ID, Tag_NO_AUTH_REQUIRED, Tag_USER_AUTH_TYPE
     , Tag_AUTH_TIMEOUT, Tag_ALLOW_WHILE_ON_BODY, Tag_TRUSTED_USER_PRESENCE_REQUIRED
     , Tag_TRUSTED_CONFIRMATION_REQUIRED, Tag_UNLOCKED_DEVICE_REQUIRED, Tag_APPLICATION_ID
     , Tag_APPLICATION_DATA, Tag_CREATION_DATETIME, Tag_ORIGIN, Tag_ROOT_OF_TRUST, Tag_OS_VERSION
     , Tag_OS_PATCHLEVEL, Tag_UNIQUE_ID, Tag_ATTESTATION_CHALLENGE, Tag_ATTESTATION_APPLICATION_ID
     , Tag_ATTESTATION_ID_BRAND, Tag_ATTESTATION_ID_DEVICE, Tag_ATTESTATION_ID_PRODUCT
     , Tag_ATTESTATION_ID_SERIAL, Tag_ATTESTATION_ID_IMEI, Tag_ATTESTATION_ID_MEID
     , Tag_ATTESTATION_ID_MANUFACTURER, Tag_ATTESTATION_ID_MODEL, Tag_VENDOR_PATCHLEVEL
     , Tag_BOOT_PATCHLEVEL, Tag_DEVICE_UNIQUE_ATTESTATION, Tag_IDENTITY_CREDENTIAL_KEY, Tag_STORAGE_KEY
     , Tag_ATTESTATION_ID_SECOND_IMEI, Tag_ASSOCIATED_DATA, Tag_NONCE, Tag_MAC_LENGTH
     , Tag_RESET_SINCE_ID_ROTATION, Tag_CONFIRMATION_TOKEN, Tag_CERTIFICATE_SERIAL
     , Tag_CERTIFICATE_SUBJECT, Tag_CERTIFICATE_NOT_BEFORE, Tag_CERTIFICATE_NOT_AFTER, Tag_MAX_BOOT_LEVEL]"

definition Tag_toString :: "int \<Rightarrow> string" where
  "Tag_toString v = enum_toString Tag_values Tag_val Tag_name v"

interpretation Tag: aidl_enum Tag_values Tag_val Tag_name
proof
  show "e \<in> set Tag_values" for e :: Tag
    by (cases e) (simp_all add: Tag_values_def)
qed (simp_all add: Tag_values_def starts_numeric_def)

end
