(* ===== verification/AidlValues.thy ===== *)
theory AidlValues
  imports AidlTags "HOL-Library.List_Lexorder" "HOL-Library.Product_Lexorder" "HOL-Library.Char_ord"
begin

text \<open>
  The union \<open>KeyParameterValue\<close> and the parcelables of the AIDL interfaces of KeyMint (version 3), of
  the secure clock and of Gatekeeper, with the comparison operators and \<open>toString\<close> that their headers
  define. A variable of an enumeration type is the signed number it holds; \<open>int32_t\<close> and \<open>int64_t\<close> are
  \<open>int\<close>, as only comparisons are made of them. A \<open>std::shared_ptr\<close> is the address it holds. The functions
  \<open>android::internal::ToString\<close> are in \<open>binder_to_string.h\<close>, outside the repository, and are the fields of
  a record; reading from and writing to parcels is in \<open>.cpp\<close> files.

  \<open>std::tie(a, b) < std::tie(c, d)\<close> is the lexicographic order of tuples, \<open><\<close> on \<open>std::vector\<close> and on
  \<open>std::string\<close> that of lists. Every class is made an instance of \<open>linorder\<close> with its own operators.
\<close>

section \<open>The contract of the generated operators\<close>

locale cpp_comparison =
  fixes eq ne lt gt ge le :: "'a \<Rightarrow> 'a \<Rightarrow> bool"
    and key :: "'a \<Rightarrow> 'k :: linorder"
  assumes key_inject: "key a = key b \<longleftrightarrow> a = b"
    and eq_key: "eq a b \<longleftrightarrow> key a = key b"
    and lt_key: "lt a b \<longleftrightarrow> key a < key b"
    and ne_eq: "ne a b \<longleftrightarrow> \<not> eq a b"
    and gt_lt: "gt a b \<longleftrightarrow> lt b a"
    and ge_lt: "ge a b \<longleftrightarrow> \<not> lt a b"
    and le_lt: "le a b \<longleftrightarrow> \<not> lt b a"
begin

lemma eq_iff: "eq a b \<longleftrightarrow> a = b"
  by (simp add: eq_key key_inject)

lemma trichotomy: "lt a b \<or> eq a b \<or> gt a b"
  by (auto simp: lt_key eq_key gt_lt)

lemma exclusive: "\<not> (lt a b \<and> eq a b)" "\<not> (lt a b \<and> gt a b)" "\<not> (eq a b \<and> gt a b)"
  by (auto simp: lt_key eq_key gt_lt)

lemma lt_trans: "lt a b \<Longrightarrow> lt b c \<Longrightarrow> lt a c"
  by (auto simp: lt_key)

lemma le_iff: "le a b \<longleftrightarrow> lt a b \<or> eq a b"
  by (auto simp: le_lt lt_key eq_key)

lemma ge_iff: "ge a b \<longleftrightarrow> gt a b \<or> eq a b"
  by (auto simp: ge_lt gt_lt lt_key eq_key)

lemma order_laws: "lt a b \<longleftrightarrow> le a b \<and> \<not> le b a" "le a a" "le a b \<Longrightarrow> le b c \<Longrightarrow> le a c"
  "le a b \<Longrightarrow> le b a \<Longrightarrow> a = b" "le a b \<or> le b a"
  by (auto simp: le_lt lt_key key_inject)

end

section \<open>Printing of members\<close>

record to_string =
  ts_int :: "int \<Rightarrow> string"
  ts_enum :: "(int \<Rightarrow> string) \<Rightarrow> int \<Rightarrow> string"
  ts_bool :: "bool \<Rightarrow> string"
  ts_string :: "string \<Rightarrow> string"
  ts_bytes :: "byte list \<Rightarrow> string"
  ts_pointer :: "nat \<Rightarrow> string"
  ts_object :: "string \<Rightarrow> string"
  ts_objects :: "string list \<Rightarrow> string"

section \<open>KeyParameterValue\<close>

datatype KeyParameterValue =
    KPV_invalid_value int
  | KPV_algorithm_value int
  | KPV_blockMode_value int
  | KPV_paddingMode_value int
  | KPV_digest_value int
  | KPV_ecCurve_value int
  | KPV_origin_value int
  | KPV_keyPurpose_value int
  | KPV_hardwareAuthenticatorType_value int
  | KPV_securityLevel_value int
  | KPV_boolValue_value bool
  | KPV_integer_value int
  | KPV_longInteger_value int
  | KPV_dateTime_value int
  | KPV_blob_value "byte list"

primrec KeyParameterValue_getTag :: "KeyParameterValue \<Rightarrow> KeyParameterValue_Tag" where
  "KeyParameterValue_getTag (KPV_invalid_value v) = KPV_invalid"
| "KeyParameterValue_getTag (KPV_algorithm_value v) = KPV_algorithm"
| "KeyParameterValue_getTag (KPV_blockMode_value v) = KPV_blockMode"
| "KeyParameterValue_getTag (KPV_paddingMode_value v) = KPV_paddingMode"
| "KeyParameterValue_getTag (KPV_digest_value v) = KPV_digest"
| "KeyParameterValue_getTag (KPV_ecCurve_value v) = KPV_ecCurve"
| "KeyParameterValue_getTag (KPV_origin_value v) = KPV_origin"
| "KeyParameterValue_getTag (KPV_keyPurpose_value v) = KPV_keyPurpose"
| "KeyParameterValue_getTag (KPV_hardwareAuthenticatorType_value v) = KPV_hardwareAuthenticatorType"
| "KeyParameterValue_getTag (KPV_securityLevel_value v) = KPV_securityLevel"
| "KeyParameterValue_getTag (KPV_boolValue_value v) = KPV_boolValue"
| "KeyParameterValue_getTag (KPV_integer_value v) = KPV_integer"
| "KeyParameterValue_getTag (KPV_longInteger_value v) = KPV_longInteger"
| "KeyParameterValue_getTag (KPV_dateTime_value v) = KPV_dateTime"
| "KeyParameterValue_getTag (KPV_blob_value v) = KPV_blob"

definition KeyParameterValue_default :: KeyParameterValue where
  "KeyParameterValue_default = KPV_invalid_value 0"

text \<open>\<open>std::variant\<close> compares the alternatives first and then the values of the same alternative.\<close>

definition same_alternative_less :: "KeyParameterValue \<Rightarrow> KeyParameterValue \<Rightarrow> bool" where
  "same_alternative_less v w = (case v of
       KPV_invalid_value x \<Rightarrow> (case w of KPV_invalid_value y \<Rightarrow> x < y | _ \<Rightarrow> False)
     | KPV_algorithm_value x \<Rightarrow> (case w of KPV_algorithm_value y \<Rightarrow> x < y | _ \<Rightarrow> False)
     | KPV_blockMode_value x \<Rightarrow> (case w of KPV_blockMode_value y \<Rightarrow> x < y | _ \<Rightarrow> False)
     | KPV_paddingMode_value x \<Rightarrow> (case w of KPV_paddingMode_value y \<Rightarrow> x < y | _ \<Rightarrow> False)
     | KPV_digest_value x \<Rightarrow> (case w of KPV_digest_value y \<Rightarrow> x < y | _ \<Rightarrow> False)
     | KPV_ecCurve_value x \<Rightarrow> (case w of KPV_ecCurve_value y \<Rightarrow> x < y | _ \<Rightarrow> False)
     | KPV_origin_value x \<Rightarrow> (case w of KPV_origin_value y \<Rightarrow> x < y | _ \<Rightarrow> False)
     | KPV_keyPurpose_value x \<Rightarrow> (case w of KPV_keyPurpose_value y \<Rightarrow> x < y | _ \<Rightarrow> False)
     | KPV_hardwareAuthenticatorType_value x \<Rightarrow> (case w of KPV_hardwareAuthenticatorType_value y \<Rightarrow> x < y | _ \<Rightarrow> False)
     | KPV_securityLevel_value x \<Rightarrow> (case w of KPV_securityLevel_value y \<Rightarrow> x < y | _ \<Rightarrow> False)
     | KPV_boolValue_value x \<Rightarrow> (case w of KPV_boolValue_value y \<Rightarrow> x < y | _ \<Rightarrow> False)
     | KPV_integer_value x \<Rightarrow> (case w of KPV_integer_value y \<Rightarrow> x < y | _ \<Rightarrow> False)
     | KPV_longInteger_value x \<Rightarrow> (case w of KPV_longInteger_value y \<Rightarrow> x < y | _ \<Rightarrow> False)
     | KPV_dateTime_value x \<Rightarrow> (case w of KPV_dateTime_value y \<Rightarrow> x < y | _ \<Rightarrow> False)
     | KPV_blob_value x \<Rightarrow> (case w of KPV_blob_value y \<Rightarrow> x < y | _ \<Rightarrow> False))"

definition variant_index :: "KeyParameterValue \<Rightarrow> int" where
  "variant_index v = KeyParameterValue_Tag_val (KeyParameterValue_getTag v)"

definition KeyParameterValue_eq :: "KeyParameterValue \<Rightarrow> KeyParameterValue \<Rightarrow> bool" where
  "KeyParameterValue_eq a b \<longleftrightarrow> a = b"

definition KeyParameterValue_lt :: "KeyParameterValue \<Rightarrow> KeyParameterValue \<Rightarrow> bool" where
  "KeyParameterValue_lt a b \<longleftrightarrow> variant_index a < variant_index b \<or> variant_index a = variant_index b \<and> same_alternative_less a b"

definition KeyParameterValue_ne :: "KeyParameterValue \<Rightarrow> KeyParameterValue \<Rightarrow> bool" where
  "KeyParameterValue_ne a b \<longleftrightarrow> \<not> KeyParameterValue_eq a b"

definition KeyParameterValue_gt :: "KeyParameterValue \<Rightarrow> KeyParameterValue \<Rightarrow> bool" where
  "KeyParameterValue_gt a b \<longleftrightarrow> KeyParameterValue_lt b a"

definition KeyParameterValue_ge :: "KeyParameterValue \<Rightarrow> KeyParameterValue \<Rightarrow> bool" where
  "KeyParameterValue_ge a b \<longleftrightarrow> \<not> KeyParameterValue_lt a b"

definition KeyParameterValue_le :: "KeyParameterValue \<Rightarrow> KeyParameterValue \<Rightarrow> bool" where
  "KeyParameterValue_le a b \<longleftrightarrow> \<not> KeyParameterValue_lt b a"

text \<open>The alternative and the value as a list of numbers: a key of the order.\<close>

primrec variant_payload :: "KeyParameterValue \<Rightarrow> int list" where
  "variant_payload (KPV_invalid_value v) = [v]"
| "variant_payload (KPV_algorithm_value v) = [v]"
| "variant_payload (KPV_blockMode_value v) = [v]"
| "variant_payload (KPV_paddingMode_value v) = [v]"
| "variant_payload (KPV_digest_value v) = [v]"
| "variant_payload (KPV_ecCurve_value v) = [v]"
| "variant_payload (KPV_origin_value v) = [v]"
| "variant_payload (KPV_keyPurpose_value v) = [v]"
| "variant_payload (KPV_hardwareAuthenticatorType_value v) = [v]"
| "variant_payload (KPV_securityLevel_value v) = [v]"
| "variant_payload (KPV_boolValue_value v) = [of_bool v]"
| "variant_payload (KPV_integer_value v) = [v]"
| "variant_payload (KPV_longInteger_value v) = [v]"
| "variant_payload (KPV_dateTime_value v) = [v]"
| "variant_payload (KPV_blob_value v) = List.map uint v"

lemma map_uint_less: "List.map uint xs < List.map uint ys \<longleftrightarrow> xs < (ys :: byte list)"
proof (induction xs arbitrary: ys)
  case Nil
  then show ?case by (cases ys) simp_all
next
  case (Cons x xs)
  then show ?case by (cases ys) (simp_all add: word_less_def word_uint_eq_iff)
qed

lemma map_uint_inject: "List.map uint xs = List.map uint ys \<longleftrightarrow> xs = (ys :: byte list)"
  by (rule inj_map_eq_map) (simp add: inj_def word_uint_eq_iff)

lemma payload_less:
  "variant_index v = variant_index w \<Longrightarrow> same_alternative_less v w \<longleftrightarrow> variant_payload v < variant_payload w"
  by (cases v; cases w) (auto simp: variant_index_def same_alternative_less_def map_uint_less)

lemma payload_inject:
  "variant_index v = variant_index w \<Longrightarrow> variant_payload v = variant_payload w \<longleftrightarrow> v = w"
  by (cases v; cases w) (auto simp: variant_index_def map_uint_inject)

interpretation KeyParameterValue_order: cpp_comparison KeyParameterValue_eq KeyParameterValue_ne KeyParameterValue_lt KeyParameterValue_gt KeyParameterValue_ge KeyParameterValue_le
    "\<lambda>v. (variant_index v, variant_payload v)"
proof
  fix a b :: KeyParameterValue
  show inj: "(variant_index a, variant_payload a) = (variant_index b, variant_payload b) \<longleftrightarrow> a = b"
    using payload_inject by auto
  show "KeyParameterValue_eq a b \<longleftrightarrow> (variant_index a, variant_payload a) = (variant_index b, variant_payload b)"
    unfolding inj by (simp add: KeyParameterValue_eq_def)
  show "KeyParameterValue_lt a b \<longleftrightarrow> (variant_index a, variant_payload a) < (variant_index b, variant_payload b)"
    using payload_less by (auto simp: KeyParameterValue_lt_def)
qed (simp_all add: KeyParameterValue_ne_def KeyParameterValue_gt_def KeyParameterValue_ge_def KeyParameterValue_le_def)

instantiation KeyParameterValue :: linorder
begin

definition less_eq_KeyParameterValue :: "KeyParameterValue \<Rightarrow> KeyParameterValue \<Rightarrow> bool" where
  "less_eq_KeyParameterValue = KeyParameterValue_le"

definition less_KeyParameterValue :: "KeyParameterValue \<Rightarrow> KeyParameterValue \<Rightarrow> bool" where
  "less_KeyParameterValue = KeyParameterValue_lt"

instance
  by (standard, unfold less_eq_KeyParameterValue_def less_KeyParameterValue_def) (fact KeyParameterValue_order.order_laws)+

end

definition KeyParameterValue_print :: "to_string \<Rightarrow> KeyParameterValue \<Rightarrow> string" where
  "KeyParameterValue_print P v = ''KeyParameterValue{'' @ (case v of
       KPV_invalid_value x \<Rightarrow> ''invalid: '' @ ts_int P x
     | KPV_algorithm_value x \<Rightarrow> ''algorithm: '' @ ts_enum P Algorithm_toString x
     | KPV_blockMode_value x \<Rightarrow> ''blockMode: '' @ ts_enum P BlockMode_toString x
     | KPV_paddingMode_value x \<Rightarrow> ''paddingMode: '' @ ts_enum P PaddingMode_toString x
     | KPV_digest_value x \<Rightarrow> ''digest: '' @ ts_enum P Digest_toString x
     | KPV_ecCurve_value x \<Rightarrow> ''ecCurve: '' @ ts_enum P EcCurve_toString x
     | KPV_origin_value x \<Rightarrow> ''origin: '' @ ts_enum P KeyOrigin_toString x
     | KPV_keyPurpose_value x \<Rightarrow> ''keyPurpose: '' @ ts_enum P KeyPurpose_toString x
     | KPV_hardwareAuthenticatorType_value x \<Rightarrow> ''hardwareAuthenticatorType: '' @ ts_enum P HardwareAuthenticatorType_toString x
     | KPV_securityLevel_value x \<Rightarrow> ''securityLevel: '' @ ts_enum P SecurityLevel_toString x
     | KPV_boolValue_value x \<Rightarrow> ''boolValue: '' @ ts_bool P x
     | KPV_integer_value x \<Rightarrow> ''integer: '' @ ts_int P x
     | KPV_longInteger_value x \<Rightarrow> ''longInteger: '' @ ts_int P x
     | KPV_dateTime_value x \<Rightarrow> ''dateTime: '' @ ts_int P x
     | KPV_blob_value x \<Rightarrow> ''blob: '' @ ts_bytes P x) @ ''}''"

section \<open>KeyParameter\<close>

datatype KeyParameter = KeyParameter
  (KeyParameter_tag: int)
  (KeyParameter_value: KeyParameterValue)

definition KeyParameter_default :: KeyParameter where
  "KeyParameter_default = KeyParameter (Tag_val Tag_INVALID) KeyParameterValue_default"

definition KeyParameter_tie :: "KeyParameter \<Rightarrow> int \<times> KeyParameterValue" where
  "KeyParameter_tie a = (KeyParameter_tag a, KeyParameter_value a)"

definition KeyParameter_eq :: "KeyParameter \<Rightarrow> KeyParameter \<Rightarrow> bool" where
  "KeyParameter_eq a b \<longleftrightarrow> KeyParameter_tie a = KeyParameter_tie b"

definition KeyParameter_lt :: "KeyParameter \<Rightarrow> KeyParameter \<Rightarrow> bool" where
  "KeyParameter_lt a b \<longleftrightarrow> KeyParameter_tie a < KeyParameter_tie b"

definition KeyParameter_ne :: "KeyParameter \<Rightarrow> KeyParameter \<Rightarrow> bool" where
  "KeyParameter_ne a b \<longleftrightarrow> \<not> KeyParameter_eq a b"

definition KeyParameter_gt :: "KeyParameter \<Rightarrow> KeyParameter \<Rightarrow> bool" where
  "KeyParameter_gt a b \<longleftrightarrow> KeyParameter_lt b a"

definition KeyParameter_ge :: "KeyParameter \<Rightarrow> KeyParameter \<Rightarrow> bool" where
  "KeyParameter_ge a b \<longleftrightarrow> \<not> KeyParameter_lt a b"

definition KeyParameter_le :: "KeyParameter \<Rightarrow> KeyParameter \<Rightarrow> bool" where
  "KeyParameter_le a b \<longleftrightarrow> \<not> KeyParameter_lt b a"

interpretation KeyParameter_order: cpp_comparison KeyParameter_eq KeyParameter_ne KeyParameter_lt KeyParameter_gt KeyParameter_ge KeyParameter_le
    KeyParameter_tie
  by unfold_locales (auto simp: KeyParameter_tie_def KeyParameter_eq_def KeyParameter_lt_def KeyParameter_ne_def KeyParameter_gt_def KeyParameter_ge_def KeyParameter_le_def intro: KeyParameter.expand)

instantiation KeyParameter :: linorder
begin

definition less_eq_KeyParameter :: "KeyParameter \<Rightarrow> KeyParameter \<Rightarrow> bool" where
  "less_eq_KeyParameter = KeyParameter_le"

definition less_KeyParameter :: "KeyParameter \<Rightarrow> KeyParameter \<Rightarrow> bool" where
  "less_KeyParameter = KeyParameter_lt"

instance
  by (standard, unfold less_eq_KeyParameter_def less_KeyParameter_def) (fact KeyParameter_order.order_laws)+

end

definition KeyParameter_print :: "to_string \<Rightarrow> KeyParameter \<Rightarrow> string" where
  "KeyParameter_print P a = ''KeyParameter{'' @
     ''tag: '' @ ts_enum P Tag_toString (KeyParameter_tag a) @
     '', value: '' @ ts_object P (KeyParameterValue_print P (KeyParameter_value a)) @ ''}''"

section \<open>Timestamp\<close>

datatype Timestamp = Timestamp
  (Timestamp_milliSeconds: int)

definition Timestamp_default :: Timestamp where
  "Timestamp_default = Timestamp 0"

definition Timestamp_tie :: "Timestamp \<Rightarrow> int" where
  "Timestamp_tie a = Timestamp_milliSeconds a"

definition Timestamp_eq :: "Timestamp \<Rightarrow> Timestamp \<Rightarrow> bool" where
  "Timestamp_eq a b \<longleftrightarrow> Timestamp_tie a = Timestamp_tie b"

definition Timestamp_lt :: "Timestamp \<Rightarrow> Timestamp \<Rightarrow> bool" where
  "Timestamp_lt a b \<longleftrightarrow> Timestamp_tie a < Timestamp_tie b"

definition Timestamp_ne :: "Timestamp \<Rightarrow> Timestamp \<Rightarrow> bool" where
  "Timestamp_ne a b \<longleftrightarrow> \<not> Timestamp_eq a b"

definition Timestamp_gt :: "Timestamp \<Rightarrow> Timestamp \<Rightarrow> bool" where
  "Timestamp_gt a b \<longleftrightarrow> Timestamp_lt b a"

definition Timestamp_ge :: "Timestamp \<Rightarrow> Timestamp \<Rightarrow> bool" where
  "Timestamp_ge a b \<longleftrightarrow> \<not> Timestamp_lt a b"

definition Timestamp_le :: "Timestamp \<Rightarrow> Timestamp \<Rightarrow> bool" where
  "Timestamp_le a b \<longleftrightarrow> \<not> Timestamp_lt b a"

interpretation Timestamp_order: cpp_comparison Timestamp_eq Timestamp_ne Timestamp_lt Timestamp_gt Timestamp_ge Timestamp_le
    Timestamp_tie
  by unfold_locales (auto simp: Timestamp_tie_def Timestamp_eq_def Timestamp_lt_def Timestamp_ne_def Timestamp_gt_def Timestamp_ge_def Timestamp_le_def intro: Timestamp.expand)

instantiation Timestamp :: linorder
begin

definition less_eq_Timestamp :: "Timestamp \<Rightarrow> Timestamp \<Rightarrow> bool" where
  "less_eq_Timestamp = Timestamp_le"

definition less_Timestamp :: "Timestamp \<Rightarrow> Timestamp \<Rightarrow> bool" where
  "less_Timestamp = Timestamp_lt"

instance
  by (standard, unfold less_eq_Timestamp_def less_Timestamp_def) (fact Timestamp_order.order_laws)+

end

definition Timestamp_print :: "to_string \<Rightarrow> Timestamp \<Rightarrow> string" where
  "Timestamp_print P a = ''Timestamp{'' @
     ''milliSeconds: '' @ ts_int P (Timestamp_milliSeconds a) @ ''}''"

section \<open>TimeStampToken\<close>

datatype TimeStampToken = TimeStampToken
  (TimeStampToken_challenge: int)
  (TimeStampToken_timestamp: Timestamp)
  (TimeStampToken_mac: "byte list")

definition TimeStampToken_default :: TimeStampToken where
  "TimeStampToken_default = TimeStampToken 0 Timestamp_default []"

definition TimeStampToken_tie :: "TimeStampToken \<Rightarrow> int \<times> Timestamp \<times> byte list" where
  "TimeStampToken_tie a = (TimeStampToken_challenge a, TimeStampToken_timestamp a, TimeStampToken_mac a)"

definition TimeStampToken_eq :: "TimeStampToken \<Rightarrow> TimeStampToken \<Rightarrow> bool" where
  "TimeStampToken_eq a b \<longleftrightarrow> TimeStampToken_tie a = TimeStampToken_tie b"

definition TimeStampToken_lt :: "TimeStampToken \<Rightarrow> TimeStampToken \<Rightarrow> bool" where
  "TimeStampToken_lt a b \<longleftrightarrow> TimeStampToken_tie a < TimeStampToken_tie b"

definition TimeStampToken_ne :: "TimeStampToken \<Rightarrow> TimeStampToken \<Rightarrow> bool" where
  "TimeStampToken_ne a b \<longleftrightarrow> \<not> TimeStampToken_eq a b"

definition TimeStampToken_gt :: "TimeStampToken \<Rightarrow> TimeStampToken \<Rightarrow> bool" where
  "TimeStampToken_gt a b \<longleftrightarrow> TimeStampToken_lt b a"

definition TimeStampToken_ge :: "TimeStampToken \<Rightarrow> TimeStampToken \<Rightarrow> bool" where
  "TimeStampToken_ge a b \<longleftrightarrow> \<not> TimeStampToken_lt a b"

definition TimeStampToken_le :: "TimeStampToken \<Rightarrow> TimeStampToken \<Rightarrow> bool" where
  "TimeStampToken_le a b \<longleftrightarrow> \<not> TimeStampToken_lt b a"

interpretation TimeStampToken_order: cpp_comparison TimeStampToken_eq TimeStampToken_ne TimeStampToken_lt TimeStampToken_gt TimeStampToken_ge TimeStampToken_le
    TimeStampToken_tie
  by unfold_locales (auto simp: TimeStampToken_tie_def TimeStampToken_eq_def TimeStampToken_lt_def TimeStampToken_ne_def TimeStampToken_gt_def TimeStampToken_ge_def TimeStampToken_le_def intro: TimeStampToken.expand)

instantiation TimeStampToken :: linorder
begin

definition less_eq_TimeStampToken :: "TimeStampToken \<Rightarrow> TimeStampToken \<Rightarrow> bool" where
  "less_eq_TimeStampToken = TimeStampToken_le"

definition less_TimeStampToken :: "TimeStampToken \<Rightarrow> TimeStampToken \<Rightarrow> bool" where
  "less_TimeStampToken = TimeStampToken_lt"

instance
  by (standard, unfold less_eq_TimeStampToken_def less_TimeStampToken_def) (fact TimeStampToken_order.order_laws)+

end

definition TimeStampToken_print :: "to_string \<Rightarrow> TimeStampToken \<Rightarrow> string" where
  "TimeStampToken_print P a = ''TimeStampToken{'' @
     ''challenge: '' @ ts_int P (TimeStampToken_challenge a) @
     '', timestamp: '' @ ts_object P (Timestamp_print P (TimeStampToken_timestamp a)) @
     '', mac: '' @ ts_bytes P (TimeStampToken_mac a) @ ''}''"

section \<open>HardwareAuthToken\<close>

datatype HardwareAuthToken = HardwareAuthToken
  (HardwareAuthToken_challenge: int)
  (HardwareAuthToken_userId: int)
  (HardwareAuthToken_authenticatorId: int)
  (HardwareAuthToken_authenticatorType: int)
  (HardwareAuthToken_timestamp: Timestamp)
  (HardwareAuthToken_mac: "byte list")

definition HardwareAuthToken_default :: HardwareAuthToken where
  "HardwareAuthToken_default = HardwareAuthToken 0 0 0 (HardwareAuthenticatorType_val HardwareAuthenticatorType_NONE) Timestamp_default []"

definition HardwareAuthToken_tie :: "HardwareAuthToken \<Rightarrow> int \<times> int \<times> int \<times> int \<times> Timestamp \<times> byte list" where
  "HardwareAuthToken_tie a = (HardwareAuthToken_challenge a, HardwareAuthToken_userId a, HardwareAuthToken_authenticatorId a, HardwareAuthToken_authenticatorType a, HardwareAuthToken_timestamp a, HardwareAuthToken_mac a)"

definition HardwareAuthToken_eq :: "HardwareAuthToken \<Rightarrow> HardwareAuthToken \<Rightarrow> bool" where
  "HardwareAuthToken_eq a b \<longleftrightarrow> HardwareAuthToken_tie a = HardwareAuthToken_tie b"

definition HardwareAuthToken_lt :: "HardwareAuthToken \<Rightarrow> HardwareAuthToken \<Rightarrow> bool" where
  "HardwareAuthToken_lt a b \<longleftrightarrow> HardwareAuthToken_tie a < HardwareAuthToken_tie b"

definition HardwareAuthToken_ne :: "HardwareAuthToken \<Rightarrow> HardwareAuthToken \<Rightarrow> bool" where
  "HardwareAuthToken_ne a b \<longleftrightarrow> \<not> HardwareAuthToken_eq a b"

definition HardwareAuthToken_gt :: "HardwareAuthToken \<Rightarrow> HardwareAuthToken \<Rightarrow> bool" where
  "HardwareAuthToken_gt a b \<longleftrightarrow> HardwareAuthToken_lt b a"

definition HardwareAuthToken_ge :: "HardwareAuthToken \<Rightarrow> HardwareAuthToken \<Rightarrow> bool" where
  "HardwareAuthToken_ge a b \<longleftrightarrow> \<not> HardwareAuthToken_lt a b"

definition HardwareAuthToken_le :: "HardwareAuthToken \<Rightarrow> HardwareAuthToken \<Rightarrow> bool" where
  "HardwareAuthToken_le a b \<longleftrightarrow> \<not> HardwareAuthToken_lt b a"

interpretation HardwareAuthToken_order: cpp_comparison HardwareAuthToken_eq HardwareAuthToken_ne HardwareAuthToken_lt HardwareAuthToken_gt HardwareAuthToken_ge HardwareAuthToken_le
    HardwareAuthToken_tie
  by unfold_locales (auto simp: HardwareAuthToken_tie_def HardwareAuthToken_eq_def HardwareAuthToken_lt_def HardwareAuthToken_ne_def HardwareAuthToken_gt_def HardwareAuthToken_ge_def HardwareAuthToken_le_def intro: HardwareAuthToken.expand)

instantiation HardwareAuthToken :: linorder
begin

definition less_eq_HardwareAuthToken :: "HardwareAuthToken \<Rightarrow> HardwareAuthToken \<Rightarrow> bool" where
  "less_eq_HardwareAuthToken = HardwareAuthToken_le"

definition less_HardwareAuthToken :: "HardwareAuthToken \<Rightarrow> HardwareAuthToken \<Rightarrow> bool" where
  "less_HardwareAuthToken = HardwareAuthToken_lt"

instance
  by (standard, unfold less_eq_HardwareAuthToken_def less_HardwareAuthToken_def) (fact HardwareAuthToken_order.order_laws)+

end

definition HardwareAuthToken_print :: "to_string \<Rightarrow> HardwareAuthToken \<Rightarrow> string" where
  "HardwareAuthToken_print P a = ''HardwareAuthToken{'' @
     ''challenge: '' @ ts_int P (HardwareAuthToken_challenge a) @
     '', userId: '' @ ts_int P (HardwareAuthToken_userId a) @
     '', authenticatorId: '' @ ts_int P (HardwareAuthToken_authenticatorId a) @
     '', authenticatorType: '' @ ts_enum P HardwareAuthenticatorType_toString (HardwareAuthToken_authenticatorType a) @
     '', timestamp: '' @ ts_object P (Timestamp_print P (HardwareAuthToken_timestamp a)) @
     '', mac: '' @ ts_bytes P (HardwareAuthToken_mac a) @ ''}''"

section \<open>AttestationKey\<close>

datatype AttestationKey = AttestationKey
  (AttestationKey_keyBlob: "byte list")
  (AttestationKey_attestKeyParams: "KeyParameter list")
  (AttestationKey_issuerSubjectName: "byte list")

definition AttestationKey_default :: AttestationKey where
  "AttestationKey_default = AttestationKey [] [] []"

definition AttestationKey_tie :: "AttestationKey \<Rightarrow> byte list \<times> KeyParameter list \<times> byte list" where
  "AttestationKey_tie a = (AttestationKey_keyBlob a, AttestationKey_attestKeyParams a, AttestationKey_issuerSubjectName a)"

definition AttestationKey_eq :: "AttestationKey \<Rightarrow> AttestationKey \<Rightarrow> bool" where
  "AttestationKey_eq a b \<longleftrightarrow> AttestationKey_tie a = AttestationKey_tie b"

definition AttestationKey_lt :: "AttestationKey \<Rightarrow> AttestationKey \<Rightarrow> bool" where
  "AttestationKey_lt a b \<longleftrightarrow> AttestationKey_tie a < AttestationKey_tie b"

definition AttestationKey_ne :: "AttestationKey \<Rightarrow> AttestationKey \<Rightarrow> bool" where
  "AttestationKey_ne a b \<longleftrightarrow> \<not> AttestationKey_eq a b"

definition AttestationKey_gt :: "AttestationKey \<Rightarrow> AttestationKey \<Rightarrow> bool" where
  "AttestationKey_gt a b \<longleftrightarrow> AttestationKey_lt b a"

definition AttestationKey_ge :: "AttestationKey \<Rightarrow> AttestationKey \<Rightarrow> bool" where
  "AttestationKey_ge a b \<longleftrightarrow> \<not> AttestationKey_lt a b"

definition AttestationKey_le :: "AttestationKey \<Rightarrow> AttestationKey \<Rightarrow> bool" where
  "AttestationKey_le a b \<longleftrightarrow> \<not> AttestationKey_lt b a"

interpretation AttestationKey_order: cpp_comparison AttestationKey_eq AttestationKey_ne AttestationKey_lt AttestationKey_gt AttestationKey_ge AttestationKey_le
    AttestationKey_tie
  by unfold_locales (auto simp: AttestationKey_tie_def AttestationKey_eq_def AttestationKey_lt_def AttestationKey_ne_def AttestationKey_gt_def AttestationKey_ge_def AttestationKey_le_def intro: AttestationKey.expand)

instantiation AttestationKey :: linorder
begin

definition less_eq_AttestationKey :: "AttestationKey \<Rightarrow> AttestationKey \<Rightarrow> bool" where
  "less_eq_AttestationKey = AttestationKey_le"

definition less_AttestationKey :: "AttestationKey \<Rightarrow> AttestationKey \<Rightarrow> bool" where
  "less_AttestationKey = AttestationKey_lt"

instance
  by (standard, unfold less_eq_AttestationKey_def less_AttestationKey_def) (fact AttestationKey_order.order_laws)+

end

definition AttestationKey_print :: "to_string \<Rightarrow> AttestationKey \<Rightarrow> string" where
  "AttestationKey_print P a = ''AttestationKey{'' @
     ''keyBlob: '' @ ts_bytes P (AttestationKey_keyBlob a) @
     '', attestKeyParams: '' @ ts_objects P (List.map (KeyParameter_print P) (AttestationKey_attestKeyParams a)) @
     '', issuerSubjectName: '' @ ts_bytes P (AttestationKey_issuerSubjectName a) @ ''}''"

section \<open>BeginResult\<close>

datatype BeginResult = BeginResult
  (BeginResult_challenge: int)
  (BeginResult_params: "KeyParameter list")
  (BeginResult_operation: nat)

definition BeginResult_default :: BeginResult where
  "BeginResult_default = BeginResult 0 [] 0"

definition BeginResult_tie :: "BeginResult \<Rightarrow> int \<times> KeyParameter list \<times> nat" where
  "BeginResult_tie a = (BeginResult_challenge a, BeginResult_params a, BeginResult_operation a)"

definition BeginResult_eq :: "BeginResult \<Rightarrow> BeginResult \<Rightarrow> bool" where
  "BeginResult_eq a b \<longleftrightarrow> BeginResult_tie a = BeginResult_tie b"

definition BeginResult_lt :: "BeginResult \<Rightarrow> BeginResult \<Rightarrow> bool" where
  "BeginResult_lt a b \<longleftrightarrow> BeginResult_tie a < BeginResult_tie b"

definition BeginResult_ne :: "BeginResult \<Rightarrow> BeginResult \<Rightarrow> bool" where
  "BeginResult_ne a b \<longleftrightarrow> \<not> BeginResult_eq a b"

definition BeginResult_gt :: "BeginResult \<Rightarrow> BeginResult \<Rightarrow> bool" where
  "BeginResult_gt a b \<longleftrightarrow> BeginResult_lt b a"

definition BeginResult_ge :: "BeginResult \<Rightarrow> BeginResult \<Rightarrow> bool" where
  "BeginResult_ge a b \<longleftrightarrow> \<not> BeginResult_lt a b"

definition BeginResult_le :: "BeginResult \<Rightarrow> BeginResult \<Rightarrow> bool" where
  "BeginResult_le a b \<longleftrightarrow> \<not> BeginResult_lt b a"

interpretation BeginResult_order: cpp_comparison BeginResult_eq BeginResult_ne BeginResult_lt BeginResult_gt BeginResult_ge BeginResult_le
    BeginResult_tie
  by unfold_locales (auto simp: BeginResult_tie_def BeginResult_eq_def BeginResult_lt_def BeginResult_ne_def BeginResult_gt_def BeginResult_ge_def BeginResult_le_def intro: BeginResult.expand)

instantiation BeginResult :: linorder
begin

definition less_eq_BeginResult :: "BeginResult \<Rightarrow> BeginResult \<Rightarrow> bool" where
  "less_eq_BeginResult = BeginResult_le"

definition less_BeginResult :: "BeginResult \<Rightarrow> BeginResult \<Rightarrow> bool" where
  "less_BeginResult = BeginResult_lt"

instance
  by (standard, unfold less_eq_BeginResult_def less_BeginResult_def) (fact BeginResult_order.order_laws)+

end

definition BeginResult_print :: "to_string \<Rightarrow> BeginResult \<Rightarrow> string" where
  "BeginResult_print P a = ''BeginResult{'' @
     ''challenge: '' @ ts_int P (BeginResult_challenge a) @
     '', params: '' @ ts_objects P (List.map (KeyParameter_print P) (BeginResult_params a)) @
     '', operation: '' @ ts_pointer P (BeginResult_operation a) @ ''}''"

section \<open>Certificate\<close>

datatype Certificate = Certificate
  (Certificate_encodedCertificate: "byte list")

definition Certificate_default :: Certificate where
  "Certificate_default = Certificate []"

definition Certificate_tie :: "Certificate \<Rightarrow> byte list" where
  "Certificate_tie a = Certificate_encodedCertificate a"

definition Certificate_eq :: "Certificate \<Rightarrow> Certificate \<Rightarrow> bool" where
  "Certificate_eq a b \<longleftrightarrow> Certificate_tie a = Certificate_tie b"

definition Certificate_lt :: "Certificate \<Rightarrow> Certificate \<Rightarrow> bool" where
  "Certificate_lt a b \<longleftrightarrow> Certificate_tie a < Certificate_tie b"

definition Certificate_ne :: "Certificate \<Rightarrow> Certificate \<Rightarrow> bool" where
  "Certificate_ne a b \<longleftrightarrow> \<not> Certificate_eq a b"

definition Certificate_gt :: "Certificate \<Rightarrow> Certificate \<Rightarrow> bool" where
  "Certificate_gt a b \<longleftrightarrow> Certificate_lt b a"

definition Certificate_ge :: "Certificate \<Rightarrow> Certificate \<Rightarrow> bool" where
  "Certificate_ge a b \<longleftrightarrow> \<not> Certificate_lt a b"

definition Certificate_le :: "Certificate \<Rightarrow> Certificate \<Rightarrow> bool" where
  "Certificate_le a b \<longleftrightarrow> \<not> Certificate_lt b a"

interpretation Certificate_order: cpp_comparison Certificate_eq Certificate_ne Certificate_lt Certificate_gt Certificate_ge Certificate_le
    Certificate_tie
  by unfold_locales (auto simp: Certificate_tie_def Certificate_eq_def Certificate_lt_def Certificate_ne_def Certificate_gt_def Certificate_ge_def Certificate_le_def intro: Certificate.expand)

instantiation Certificate :: linorder
begin

definition less_eq_Certificate :: "Certificate \<Rightarrow> Certificate \<Rightarrow> bool" where
  "less_eq_Certificate = Certificate_le"

definition less_Certificate :: "Certificate \<Rightarrow> Certificate \<Rightarrow> bool" where
  "less_Certificate = Certificate_lt"

instance
  by (standard, unfold less_eq_Certificate_def less_Certificate_def) (fact Certificate_order.order_laws)+

end

definition Certificate_print :: "to_string \<Rightarrow> Certificate \<Rightarrow> string" where
  "Certificate_print P a = ''Certificate{'' @
     ''encodedCertificate: '' @ ts_bytes P (Certificate_encodedCertificate a) @ ''}''"

section \<open>KeyCharacteristics\<close>

datatype KeyCharacteristics = KeyCharacteristics
  (KeyCharacteristics_securityLevel: int)
  (KeyCharacteristics_authorizations: "KeyParameter list")

definition KeyCharacteristics_default :: KeyCharacteristics where
  "KeyCharacteristics_default = KeyCharacteristics (SecurityLevel_val SecurityLevel_SOFTWARE) []"

definition KeyCharacteristics_tie :: "KeyCharacteristics \<Rightarrow> int \<times> KeyParameter list" where
  "KeyCharacteristics_tie a = (KeyCharacteristics_securityLevel a, KeyCharacteristics_authorizations a)"

definition KeyCharacteristics_eq :: "KeyCharacteristics \<Rightarrow> KeyCharacteristics \<Rightarrow> bool" where
  "KeyCharacteristics_eq a b \<longleftrightarrow> KeyCharacteristics_tie a = KeyCharacteristics_tie b"

definition KeyCharacteristics_lt :: "KeyCharacteristics \<Rightarrow> KeyCharacteristics \<Rightarrow> bool" where
  "KeyCharacteristics_lt a b \<longleftrightarrow> KeyCharacteristics_tie a < KeyCharacteristics_tie b"

definition KeyCharacteristics_ne :: "KeyCharacteristics \<Rightarrow> KeyCharacteristics \<Rightarrow> bool" where
  "KeyCharacteristics_ne a b \<longleftrightarrow> \<not> KeyCharacteristics_eq a b"

definition KeyCharacteristics_gt :: "KeyCharacteristics \<Rightarrow> KeyCharacteristics \<Rightarrow> bool" where
  "KeyCharacteristics_gt a b \<longleftrightarrow> KeyCharacteristics_lt b a"

definition KeyCharacteristics_ge :: "KeyCharacteristics \<Rightarrow> KeyCharacteristics \<Rightarrow> bool" where
  "KeyCharacteristics_ge a b \<longleftrightarrow> \<not> KeyCharacteristics_lt a b"

definition KeyCharacteristics_le :: "KeyCharacteristics \<Rightarrow> KeyCharacteristics \<Rightarrow> bool" where
  "KeyCharacteristics_le a b \<longleftrightarrow> \<not> KeyCharacteristics_lt b a"

interpretation KeyCharacteristics_order: cpp_comparison KeyCharacteristics_eq KeyCharacteristics_ne KeyCharacteristics_lt KeyCharacteristics_gt KeyCharacteristics_ge KeyCharacteristics_le
    KeyCharacteristics_tie
  by unfold_locales (auto simp: KeyCharacteristics_tie_def KeyCharacteristics_eq_def KeyCharacteristics_lt_def KeyCharacteristics_ne_def KeyCharacteristics_gt_def KeyCharacteristics_ge_def KeyCharacteristics_le_def intro: KeyCharacteristics.expand)

instantiation KeyCharacteristics :: linorder
begin

definition less_eq_KeyCharacteristics :: "KeyCharacteristics \<Rightarrow> KeyCharacteristics \<Rightarrow> bool" where
  "less_eq_KeyCharacteristics = KeyCharacteristics_le"

definition less_KeyCharacteristics :: "KeyCharacteristics \<Rightarrow> KeyCharacteristics \<Rightarrow> bool" where
  "less_KeyCharacteristics = KeyCharacteristics_lt"

instance
  by (standard, unfold less_eq_KeyCharacteristics_def less_KeyCharacteristics_def) (fact KeyCharacteristics_order.order_laws)+

end

definition KeyCharacteristics_print :: "to_string \<Rightarrow> KeyCharacteristics \<Rightarrow> string" where
  "KeyCharacteristics_print P a = ''KeyCharacteristics{'' @
     ''securityLevel: '' @ ts_enum P SecurityLevel_toString (KeyCharacteristics_securityLevel a) @
     '', authorizations: '' @ ts_objects P (List.map (KeyParameter_print P) (KeyCharacteristics_authorizations a)) @ ''}''"

section \<open>KeyCreationResult\<close>

datatype KeyCreationResult = KeyCreationResult
  (KeyCreationResult_keyBlob: "byte list")
  (KeyCreationResult_keyCharacteristics: "KeyCharacteristics list")
  (KeyCreationResult_certificateChain: "Certificate list")

definition KeyCreationResult_default :: KeyCreationResult where
  "KeyCreationResult_default = KeyCreationResult [] [] []"

definition KeyCreationResult_tie :: "KeyCreationResult \<Rightarrow> byte list \<times> KeyCharacteristics list \<times> Certificate list" where
  "KeyCreationResult_tie a = (KeyCreationResult_keyBlob a, KeyCreationResult_keyCharacteristics a, KeyCreationResult_certificateChain a)"

definition KeyCreationResult_eq :: "KeyCreationResult \<Rightarrow> KeyCreationResult \<Rightarrow> bool" where
  "KeyCreationResult_eq a b \<longleftrightarrow> KeyCreationResult_tie a = KeyCreationResult_tie b"

definition KeyCreationResult_lt :: "KeyCreationResult \<Rightarrow> KeyCreationResult \<Rightarrow> bool" where
  "KeyCreationResult_lt a b \<longleftrightarrow> KeyCreationResult_tie a < KeyCreationResult_tie b"

definition KeyCreationResult_ne :: "KeyCreationResult \<Rightarrow> KeyCreationResult \<Rightarrow> bool" where
  "KeyCreationResult_ne a b \<longleftrightarrow> \<not> KeyCreationResult_eq a b"

definition KeyCreationResult_gt :: "KeyCreationResult \<Rightarrow> KeyCreationResult \<Rightarrow> bool" where
  "KeyCreationResult_gt a b \<longleftrightarrow> KeyCreationResult_lt b a"

definition KeyCreationResult_ge :: "KeyCreationResult \<Rightarrow> KeyCreationResult \<Rightarrow> bool" where
  "KeyCreationResult_ge a b \<longleftrightarrow> \<not> KeyCreationResult_lt a b"

definition KeyCreationResult_le :: "KeyCreationResult \<Rightarrow> KeyCreationResult \<Rightarrow> bool" where
  "KeyCreationResult_le a b \<longleftrightarrow> \<not> KeyCreationResult_lt b a"

interpretation KeyCreationResult_order: cpp_comparison KeyCreationResult_eq KeyCreationResult_ne KeyCreationResult_lt KeyCreationResult_gt KeyCreationResult_ge KeyCreationResult_le
    KeyCreationResult_tie
  by unfold_locales (auto simp: KeyCreationResult_tie_def KeyCreationResult_eq_def KeyCreationResult_lt_def KeyCreationResult_ne_def KeyCreationResult_gt_def KeyCreationResult_ge_def KeyCreationResult_le_def intro: KeyCreationResult.expand)

instantiation KeyCreationResult :: linorder
begin

definition less_eq_KeyCreationResult :: "KeyCreationResult \<Rightarrow> KeyCreationResult \<Rightarrow> bool" where
  "less_eq_KeyCreationResult = KeyCreationResult_le"

definition less_KeyCreationResult :: "KeyCreationResult \<Rightarrow> KeyCreationResult \<Rightarrow> bool" where
  "less_KeyCreationResult = KeyCreationResult_lt"

instance
  by (standard, unfold less_eq_KeyCreationResult_def less_KeyCreationResult_def) (fact KeyCreationResult_order.order_laws)+

end

definition KeyCreationResult_print :: "to_string \<Rightarrow> KeyCreationResult \<Rightarrow> string" where
  "KeyCreationResult_print P a = ''KeyCreationResult{'' @
     ''keyBlob: '' @ ts_bytes P (KeyCreationResult_keyBlob a) @
     '', keyCharacteristics: '' @ ts_objects P (List.map (KeyCharacteristics_print P) (KeyCreationResult_keyCharacteristics a)) @
     '', certificateChain: '' @ ts_objects P (List.map (Certificate_print P) (KeyCreationResult_certificateChain a)) @ ''}''"

section \<open>KeyMintHardwareInfo\<close>

datatype KeyMintHardwareInfo = KeyMintHardwareInfo
  (KeyMintHardwareInfo_versionNumber: int)
  (KeyMintHardwareInfo_securityLevel: int)
  (KeyMintHardwareInfo_keyMintName: string)
  (KeyMintHardwareInfo_keyMintAuthorName: string)
  (KeyMintHardwareInfo_timestampTokenRequired: bool)

definition KeyMintHardwareInfo_default :: KeyMintHardwareInfo where
  "KeyMintHardwareInfo_default = KeyMintHardwareInfo 0 (SecurityLevel_val SecurityLevel_SOFTWARE) [] [] False"

definition KeyMintHardwareInfo_tie :: "KeyMintHardwareInfo \<Rightarrow> int \<times> int \<times> string \<times> string \<times> bool" where
  "KeyMintHardwareInfo_tie a = (KeyMintHardwareInfo_versionNumber a, KeyMintHardwareInfo_securityLevel a, KeyMintHardwareInfo_keyMintName a, KeyMintHardwareInfo_keyMintAuthorName a, KeyMintHardwareInfo_timestampTokenRequired a)"

definition KeyMintHardwareInfo_eq :: "KeyMintHardwareInfo \<Rightarrow> KeyMintHardwareInfo \<Rightarrow> bool" where
  "KeyMintHardwareInfo_eq a b \<longleftrightarrow> KeyMintHardwareInfo_tie a = KeyMintHardwareInfo_tie b"

definition KeyMintHardwareInfo_lt :: "KeyMintHardwareInfo \<Rightarrow> KeyMintHardwareInfo \<Rightarrow> bool" where
  "KeyMintHardwareInfo_lt a b \<longleftrightarrow> KeyMintHardwareInfo_tie a < KeyMintHardwareInfo_tie b"

definition KeyMintHardwareInfo_ne :: "KeyMintHardwareInfo \<Rightarrow> KeyMintHardwareInfo \<Rightarrow> bool" where
  "KeyMintHardwareInfo_ne a b \<longleftrightarrow> \<not> KeyMintHardwareInfo_eq a b"

definition KeyMintHardwareInfo_gt :: "KeyMintHardwareInfo \<Rightarrow> KeyMintHardwareInfo \<Rightarrow> bool" where
  "KeyMintHardwareInfo_gt a b \<longleftrightarrow> KeyMintHardwareInfo_lt b a"

definition KeyMintHardwareInfo_ge :: "KeyMintHardwareInfo \<Rightarrow> KeyMintHardwareInfo \<Rightarrow> bool" where
  "KeyMintHardwareInfo_ge a b \<longleftrightarrow> \<not> KeyMintHardwareInfo_lt a b"

definition KeyMintHardwareInfo_le :: "KeyMintHardwareInfo \<Rightarrow> KeyMintHardwareInfo \<Rightarrow> bool" where
  "KeyMintHardwareInfo_le a b \<longleftrightarrow> \<not> KeyMintHardwareInfo_lt b a"

interpretation KeyMintHardwareInfo_order: cpp_comparison KeyMintHardwareInfo_eq KeyMintHardwareInfo_ne KeyMintHardwareInfo_lt KeyMintHardwareInfo_gt KeyMintHardwareInfo_ge KeyMintHardwareInfo_le
    KeyMintHardwareInfo_tie
  by unfold_locales (auto simp: KeyMintHardwareInfo_tie_def KeyMintHardwareInfo_eq_def KeyMintHardwareInfo_lt_def KeyMintHardwareInfo_ne_def KeyMintHardwareInfo_gt_def KeyMintHardwareInfo_ge_def KeyMintHardwareInfo_le_def intro: KeyMintHardwareInfo.expand)

instantiation KeyMintHardwareInfo :: linorder
begin

definition less_eq_KeyMintHardwareInfo :: "KeyMintHardwareInfo \<Rightarrow> KeyMintHardwareInfo \<Rightarrow> bool" where
  "less_eq_KeyMintHardwareInfo = KeyMintHardwareInfo_le"

definition less_KeyMintHardwareInfo :: "KeyMintHardwareInfo \<Rightarrow> KeyMintHardwareInfo \<Rightarrow> bool" where
  "less_KeyMintHardwareInfo = KeyMintHardwareInfo_lt"

instance
  by (standard, unfold less_eq_KeyMintHardwareInfo_def less_KeyMintHardwareInfo_def) (fact KeyMintHardwareInfo_order.order_laws)+

end

definition KeyMintHardwareInfo_print :: "to_string \<Rightarrow> KeyMintHardwareInfo \<Rightarrow> string" where
  "KeyMintHardwareInfo_print P a = ''KeyMintHardwareInfo{'' @
     ''versionNumber: '' @ ts_int P (KeyMintHardwareInfo_versionNumber a) @
     '', securityLevel: '' @ ts_enum P SecurityLevel_toString (KeyMintHardwareInfo_securityLevel a) @
     '', keyMintName: '' @ ts_string P (KeyMintHardwareInfo_keyMintName a) @
     '', keyMintAuthorName: '' @ ts_string P (KeyMintHardwareInfo_keyMintAuthorName a) @
     '', timestampTokenRequired: '' @ ts_bool P (KeyMintHardwareInfo_timestampTokenRequired a) @ ''}''"

section \<open>GatekeeperEnrollResponse\<close>

datatype GatekeeperEnrollResponse = GatekeeperEnrollResponse
  (GatekeeperEnrollResponse_statusCode: int)
  (GatekeeperEnrollResponse_timeoutMs: int)
  (GatekeeperEnrollResponse_secureUserId: int)
  (GatekeeperEnrollResponse_data: "byte list")

definition GatekeeperEnrollResponse_default :: GatekeeperEnrollResponse where
  "GatekeeperEnrollResponse_default = GatekeeperEnrollResponse 0 0 0 []"

definition GatekeeperEnrollResponse_tie :: "GatekeeperEnrollResponse \<Rightarrow> int \<times> int \<times> int \<times> byte list" where
  "GatekeeperEnrollResponse_tie a = (GatekeeperEnrollResponse_statusCode a, GatekeeperEnrollResponse_timeoutMs a, GatekeeperEnrollResponse_secureUserId a, GatekeeperEnrollResponse_data a)"

definition GatekeeperEnrollResponse_eq :: "GatekeeperEnrollResponse \<Rightarrow> GatekeeperEnrollResponse \<Rightarrow> bool" where
  "GatekeeperEnrollResponse_eq a b \<longleftrightarrow> GatekeeperEnrollResponse_tie a = GatekeeperEnrollResponse_tie b"

definition GatekeeperEnrollResponse_lt :: "GatekeeperEnrollResponse \<Rightarrow> GatekeeperEnrollResponse \<Rightarrow> bool" where
  "GatekeeperEnrollResponse_lt a b \<longleftrightarrow> GatekeeperEnrollResponse_tie a < GatekeeperEnrollResponse_tie b"

definition GatekeeperEnrollResponse_ne :: "GatekeeperEnrollResponse \<Rightarrow> GatekeeperEnrollResponse \<Rightarrow> bool" where
  "GatekeeperEnrollResponse_ne a b \<longleftrightarrow> \<not> GatekeeperEnrollResponse_eq a b"

definition GatekeeperEnrollResponse_gt :: "GatekeeperEnrollResponse \<Rightarrow> GatekeeperEnrollResponse \<Rightarrow> bool" where
  "GatekeeperEnrollResponse_gt a b \<longleftrightarrow> GatekeeperEnrollResponse_lt b a"

definition GatekeeperEnrollResponse_ge :: "GatekeeperEnrollResponse \<Rightarrow> GatekeeperEnrollResponse \<Rightarrow> bool" where
  "GatekeeperEnrollResponse_ge a b \<longleftrightarrow> \<not> GatekeeperEnrollResponse_lt a b"

definition GatekeeperEnrollResponse_le :: "GatekeeperEnrollResponse \<Rightarrow> GatekeeperEnrollResponse \<Rightarrow> bool" where
  "GatekeeperEnrollResponse_le a b \<longleftrightarrow> \<not> GatekeeperEnrollResponse_lt b a"

interpretation GatekeeperEnrollResponse_order: cpp_comparison GatekeeperEnrollResponse_eq GatekeeperEnrollResponse_ne GatekeeperEnrollResponse_lt GatekeeperEnrollResponse_gt GatekeeperEnrollResponse_ge GatekeeperEnrollResponse_le
    GatekeeperEnrollResponse_tie
  by unfold_locales (auto simp: GatekeeperEnrollResponse_tie_def GatekeeperEnrollResponse_eq_def GatekeeperEnrollResponse_lt_def GatekeeperEnrollResponse_ne_def GatekeeperEnrollResponse_gt_def GatekeeperEnrollResponse_ge_def GatekeeperEnrollResponse_le_def intro: GatekeeperEnrollResponse.expand)

instantiation GatekeeperEnrollResponse :: linorder
begin

definition less_eq_GatekeeperEnrollResponse :: "GatekeeperEnrollResponse \<Rightarrow> GatekeeperEnrollResponse \<Rightarrow> bool" where
  "less_eq_GatekeeperEnrollResponse = GatekeeperEnrollResponse_le"

definition less_GatekeeperEnrollResponse :: "GatekeeperEnrollResponse \<Rightarrow> GatekeeperEnrollResponse \<Rightarrow> bool" where
  "less_GatekeeperEnrollResponse = GatekeeperEnrollResponse_lt"

instance
  by (standard, unfold less_eq_GatekeeperEnrollResponse_def less_GatekeeperEnrollResponse_def) (fact GatekeeperEnrollResponse_order.order_laws)+

end

definition GatekeeperEnrollResponse_print :: "to_string \<Rightarrow> GatekeeperEnrollResponse \<Rightarrow> string" where
  "GatekeeperEnrollResponse_print P a = ''GatekeeperEnrollResponse{'' @
     ''statusCode: '' @ ts_int P (GatekeeperEnrollResponse_statusCode a) @
     '', timeoutMs: '' @ ts_int P (GatekeeperEnrollResponse_timeoutMs a) @
     '', secureUserId: '' @ ts_int P (GatekeeperEnrollResponse_secureUserId a) @
     '', data: '' @ ts_bytes P (GatekeeperEnrollResponse_data a) @ ''}''"

section \<open>GatekeeperVerifyResponse\<close>

datatype GatekeeperVerifyResponse = GatekeeperVerifyResponse
  (GatekeeperVerifyResponse_statusCode: int)
  (GatekeeperVerifyResponse_timeoutMs: int)
  (GatekeeperVerifyResponse_hardwareAuthToken: HardwareAuthToken)

definition GatekeeperVerifyResponse_default :: GatekeeperVerifyResponse where
  "GatekeeperVerifyResponse_default = GatekeeperVerifyResponse 0 0 HardwareAuthToken_default"

definition GatekeeperVerifyResponse_tie :: "GatekeeperVerifyResponse \<Rightarrow> int \<times> int \<times> HardwareAuthToken" where
  "GatekeeperVerifyResponse_tie a = (GatekeeperVerifyResponse_statusCode a, GatekeeperVerifyResponse_timeoutMs a, GatekeeperVerifyResponse_hardwareAuthToken a)"

definition GatekeeperVerifyResponse_eq :: "GatekeeperVerifyResponse \<Rightarrow> GatekeeperVerifyResponse \<Rightarrow> bool" where
  "GatekeeperVerifyResponse_eq a b \<longleftrightarrow> GatekeeperVerifyResponse_tie a = GatekeeperVerifyResponse_tie b"

definition GatekeeperVerifyResponse_lt :: "GatekeeperVerifyResponse \<Rightarrow> GatekeeperVerifyResponse \<Rightarrow> bool" where
  "GatekeeperVerifyResponse_lt a b \<longleftrightarrow> GatekeeperVerifyResponse_tie a < GatekeeperVerifyResponse_tie b"

definition GatekeeperVerifyResponse_ne :: "GatekeeperVerifyResponse \<Rightarrow> GatekeeperVerifyResponse \<Rightarrow> bool" where
  "GatekeeperVerifyResponse_ne a b \<longleftrightarrow> \<not> GatekeeperVerifyResponse_eq a b"

definition GatekeeperVerifyResponse_gt :: "GatekeeperVerifyResponse \<Rightarrow> GatekeeperVerifyResponse \<Rightarrow> bool" where
  "GatekeeperVerifyResponse_gt a b \<longleftrightarrow> GatekeeperVerifyResponse_lt b a"

definition GatekeeperVerifyResponse_ge :: "GatekeeperVerifyResponse \<Rightarrow> GatekeeperVerifyResponse \<Rightarrow> bool" where
  "GatekeeperVerifyResponse_ge a b \<longleftrightarrow> \<not> GatekeeperVerifyResponse_lt a b"

definition GatekeeperVerifyResponse_le :: "GatekeeperVerifyResponse \<Rightarrow> GatekeeperVerifyResponse \<Rightarrow> bool" where
  "GatekeeperVerifyResponse_le a b \<longleftrightarrow> \<not> GatekeeperVerifyResponse_lt b a"

interpretation GatekeeperVerifyResponse_order: cpp_comparison GatekeeperVerifyResponse_eq GatekeeperVerifyResponse_ne GatekeeperVerifyResponse_lt GatekeeperVerifyResponse_gt GatekeeperVerifyResponse_ge GatekeeperVerifyResponse_le
    GatekeeperVerifyResponse_tie
  by unfold_locales (auto simp: GatekeeperVerifyResponse_tie_def GatekeeperVerifyResponse_eq_def GatekeeperVerifyResponse_lt_def GatekeeperVerifyResponse_ne_def GatekeeperVerifyResponse_gt_def GatekeeperVerifyResponse_ge_def GatekeeperVerifyResponse_le_def intro: GatekeeperVerifyResponse.expand)

instantiation GatekeeperVerifyResponse :: linorder
begin

definition less_eq_GatekeeperVerifyResponse :: "GatekeeperVerifyResponse \<Rightarrow> GatekeeperVerifyResponse \<Rightarrow> bool" where
  "less_eq_GatekeeperVerifyResponse = GatekeeperVerifyResponse_le"

definition less_GatekeeperVerifyResponse :: "GatekeeperVerifyResponse \<Rightarrow> GatekeeperVerifyResponse \<Rightarrow> bool" where
  "less_GatekeeperVerifyResponse = GatekeeperVerifyResponse_lt"

instance
  by (standard, unfold less_eq_GatekeeperVerifyResponse_def less_GatekeeperVerifyResponse_def) (fact GatekeeperVerifyResponse_order.order_laws)+

end

definition GatekeeperVerifyResponse_print :: "to_string \<Rightarrow> GatekeeperVerifyResponse \<Rightarrow> string" where
  "GatekeeperVerifyResponse_print P a = ''GatekeeperVerifyResponse{'' @
     ''statusCode: '' @ ts_int P (GatekeeperVerifyResponse_statusCode a) @
     '', timeoutMs: '' @ ts_int P (GatekeeperVerifyResponse_timeoutMs a) @
     '', hardwareAuthToken: '' @ ts_object P (HardwareAuthToken_print P (GatekeeperVerifyResponse_hardwareAuthToken a)) @ ''}''"

section \<open>Properties\<close>

text \<open>The comparison operators of \<open>KeyParameter\<close>, which orders authorizations by tag and then by value,
  are a strict total order and its companions: equality is equality of all members, exactly one of
  \<open><\<close>, \<open>==\<close> and \<open>>\<close> holds, and \<open><=\<close> is \<open><\<close> or \<open>==\<close>.\<close>

theorem key_parameter_order:
  "(KeyParameter_eq a b \<longleftrightarrow> a = b)
   \<and> (KeyParameter_lt a b \<or> KeyParameter_eq a b \<or> KeyParameter_gt a b)
   \<and> \<not> (KeyParameter_lt a b \<and> KeyParameter_eq a b) \<and> \<not> (KeyParameter_lt a b \<and> KeyParameter_gt a b)
   \<and> (KeyParameter_le a b \<longleftrightarrow> KeyParameter_lt a b \<or> KeyParameter_eq a b)
   \<and> (KeyParameter_ge a b \<longleftrightarrow> KeyParameter_gt a b \<or> KeyParameter_eq a b)
   \<and> (KeyParameter_lt a b \<longleftrightarrow> KeyParameter_tag a < KeyParameter_tag b
        \<or> KeyParameter_tag a = KeyParameter_tag b \<and> KeyParameterValue_lt (KeyParameter_value a) (KeyParameter_value b))"
proof (intro conjI)
  show "KeyParameter_lt a b \<longleftrightarrow> KeyParameter_tag a < KeyParameter_tag b
        \<or> KeyParameter_tag a = KeyParameter_tag b \<and> KeyParameterValue_lt (KeyParameter_value a) (KeyParameter_value b)"
    by (auto simp: KeyParameter_lt_def KeyParameter_tie_def less_KeyParameterValue_def)
qed (fact KeyParameter_order.eq_iff KeyParameter_order.trichotomy KeyParameter_order.exclusive
    KeyParameter_order.le_iff KeyParameter_order.ge_iff)+

end
