(* ===== verification/AidlDelegators.thy ===== *)
theory AidlDelegators
  imports AidlValues
begin

text \<open>
  The AIDL interfaces and their delegators: \<open>IKeyMintDevice.h\<close>, \<open>IKeyMintOperation.h\<close>, \<open>ISecureClock.h\<close>,
  \<open>IGatekeeper.h\<close> and the \<open>Bn*.h\<close> files with the delegator classes. An implementation of an interface is the record of
  its virtual methods over the state of the service; an \<open>_aidl_return\<close> pointer is the cell's old value as the last
  argument and its new value in the result, and the status is of the type that the NDK gives it. The constructor of a
  delegator asks the implementation for its version and calls \<open>__assert2\<close>, which ends the process on bionic (\<open>None\<close>)
  and is an empty expression elsewhere. The methods of the \<open>Bn\<close> classes that report version and hash are generated
  outside the repository; the locale \<open>bn_contract\<close> states what they report.
\<close>

section \<open>What the interfaces share\<close>

record ('st, 'w) bn_methods =
  bn_getInterfaceVersion :: "int \<Rightarrow> 'w \<Rightarrow> 'st \<times> int \<times> 'w"
  bn_getInterfaceHash :: "string \<Rightarrow> 'w \<Rightarrow> 'st \<times> string \<times> 'w"

locale bn_contract =
  fixes isOk :: "'st \<Rightarrow> bool" and B :: "('st, 'w) bn_methods" and version :: int
  assumes reports: "\<exists>st. isOk st \<and> bn_getInterfaceVersion B c w = (st, version, w)"

text \<open>A delegator around a delegator around ..., \<open>n\<close> times; \<open>None\<close> when a constructor ends the process.\<close>

fun delegate_chain :: "('i \<Rightarrow> 'w \<Rightarrow> 'd option \<times> 'w) \<Rightarrow> ('d \<Rightarrow> 'i) \<Rightarrow> nat \<Rightarrow> 'i \<Rightarrow> 'w \<Rightarrow> 'i option \<times> 'w" where
  "delegate_chain ctor object 0 i w = (Some i, w)"
| "delegate_chain ctor object (Suc n) i w =
     (case ctor i w of (None, w1) \<Rightarrow> (None, w1) | (Some d, w1) \<Rightarrow> delegate_chain ctor object n (object d) w1)"

text \<open>The contract of a delegator class: the constructor checks the version where assertions are checked, and the object is
  the implementation with the two reporting methods replaced.\<close>

locale delegation =
  fixes get_version :: "'i \<Rightarrow> 'w \<Rightarrow> 'st \<times> int \<times> 'w" and ctor :: "'i \<Rightarrow> 'w \<Rightarrow> 'd option \<times> 'w"
    and object :: "'d \<Rightarrow> 'i" and rebase :: "'i \<Rightarrow> 'i" and isOk :: "'st \<Rightarrow> bool" and version :: int and checked :: bool
  assumes ctor_checks: "get_version i w = (st, v, w1) \<Longrightarrow> checked \<Longrightarrow> \<not> (isOk st \<and> v = version) \<Longrightarrow> ctor i w = (None, w1)"
    and ctor_wraps: "get_version i w = (st, v, w1) \<Longrightarrow> \<not> checked \<or> isOk st \<and> v = version \<Longrightarrow>
      \<exists>d. ctor i w = (Some d, w1) \<and> object d = rebase i"
    and rebased_version: "\<exists>st. isOk st \<and> get_version (rebase i) w = (st, version, w)"
    and rebase_twice: "rebase (rebase i) = rebase i"
begin

lemma chain_of_rebased: "delegate_chain ctor object n (rebase i) w = (Some (rebase i), w)"
proof (induction n)
  case (Suc n)
  obtain st where "isOk st" "get_version (rebase i) w = (st, version, w)" using rebased_version by blast
  with ctor_wraps obtain d where "ctor (rebase i) w = (Some d, w)" "object d = rebase i"
    by (metis rebase_twice)
  with Suc show ?case by simp
qed simp

lemma chain_transparent:
  assumes "get_version i w = (st, v, w1)" "0 < n"
  shows "delegate_chain ctor object n i w = (if \<not> checked \<or> isOk st \<and> v = version then Some (rebase i) else None, w1)"
proof (cases "\<not> checked \<or> isOk st \<and> v = version")
  case True
  then obtain d where "ctor i w = (Some d, w1)" "object d = rebase i" using ctor_wraps [OF assms(1)] by blast
  with True assms(2) show ?thesis by (cases n) (simp_all add: chain_of_rebased)
next
  case False
  with ctor_checks [OF assms(1)] assms(2) show ?thesis by (cases n) auto
qed

end

section \<open>IKeyMintDevice and its delegator\<close>

record ('st, 'w) IKeyMintDevice =
  kmd_getHardwareInfo :: "KeyMintHardwareInfo \<Rightarrow> 'w \<Rightarrow> 'st \<times> KeyMintHardwareInfo \<times> 'w"
  kmd_addRngEntropy :: "byte list \<Rightarrow> 'w \<Rightarrow> 'st \<times> 'w"
  kmd_generateKey :: "KeyParameter list \<Rightarrow> AttestationKey option \<Rightarrow> KeyCreationResult \<Rightarrow> 'w \<Rightarrow> 'st \<times> KeyCreationResult \<times> 'w"
  kmd_importKey :: "KeyParameter list \<Rightarrow> int \<Rightarrow> byte list \<Rightarrow> AttestationKey option \<Rightarrow> KeyCreationResult \<Rightarrow> 'w \<Rightarrow> 'st \<times> KeyCreationResult \<times> 'w"
  kmd_importWrappedKey :: "byte list \<Rightarrow> byte list \<Rightarrow> byte list \<Rightarrow> KeyParameter list \<Rightarrow> int \<Rightarrow> int \<Rightarrow> KeyCreationResult \<Rightarrow> 'w \<Rightarrow> 'st \<times> KeyCreationResult \<times> 'w"
  kmd_upgradeKey :: "byte list \<Rightarrow> KeyParameter list \<Rightarrow> byte list \<Rightarrow> 'w \<Rightarrow> 'st \<times> byte list \<times> 'w"
  kmd_deleteKey :: "byte list \<Rightarrow> 'w \<Rightarrow> 'st \<times> 'w"
  kmd_deleteAllKeys :: "'w \<Rightarrow> 'st \<times> 'w"
  kmd_destroyAttestationIds :: "'w \<Rightarrow> 'st \<times> 'w"
  kmd_begin :: "int \<Rightarrow> byte list \<Rightarrow> KeyParameter list \<Rightarrow> HardwareAuthToken option \<Rightarrow> BeginResult \<Rightarrow> 'w \<Rightarrow> 'st \<times> BeginResult \<times> 'w"
  kmd_deviceLocked :: "bool \<Rightarrow> TimeStampToken option \<Rightarrow> 'w \<Rightarrow> 'st \<times> 'w"
  kmd_earlyBootEnded :: "'w \<Rightarrow> 'st \<times> 'w"
  kmd_convertStorageKeyToEphemeral :: "byte list \<Rightarrow> byte list \<Rightarrow> 'w \<Rightarrow> 'st \<times> byte list \<times> 'w"
  kmd_getKeyCharacteristics :: "byte list \<Rightarrow> byte list \<Rightarrow> byte list \<Rightarrow> KeyCharacteristics list \<Rightarrow> 'w \<Rightarrow> 'st \<times> KeyCharacteristics list \<times> 'w"
  kmd_getRootOfTrustChallenge :: "byte list \<Rightarrow> 'w \<Rightarrow> 'st \<times> byte list \<times> 'w"
  kmd_getRootOfTrust :: "byte list \<Rightarrow> byte list \<Rightarrow> 'w \<Rightarrow> 'st \<times> byte list \<times> 'w"
  kmd_sendRootOfTrust :: "byte list \<Rightarrow> 'w \<Rightarrow> 'st \<times> 'w"
  kmd_getInterfaceVersion :: "int \<Rightarrow> 'w \<Rightarrow> 'st \<times> int \<times> 'w"
  kmd_getInterfaceHash :: "string \<Rightarrow> 'w \<Rightarrow> 'st \<times> string \<times> 'w"

definition IKeyMintDevice_version :: int where
  "IKeyMintDevice_version = 3"

definition IKeyMintDevice_hash :: string where
  "IKeyMintDevice_hash = ''74a538630d5d90f732f361a2313cbb69b09eb047''"

definition IKeyMintDevice_AUTH_TOKEN_MAC_LENGTH :: int where
  "IKeyMintDevice_AUTH_TOKEN_MAC_LENGTH = 32"

datatype (plugins only:) IKeyMintDevice_call = kmd_T_getHardwareInfo
  | kmd_T_addRngEntropy
  | kmd_T_generateKey
  | kmd_T_importKey
  | kmd_T_importWrappedKey
  | kmd_T_upgradeKey
  | kmd_T_deleteKey
  | kmd_T_deleteAllKeys
  | kmd_T_destroyAttestationIds
  | kmd_T_begin
  | kmd_T_deviceLocked
  | kmd_T_earlyBootEnded
  | kmd_T_convertStorageKeyToEphemeral
  | kmd_T_getKeyCharacteristics
  | kmd_T_getRootOfTrustChallenge
  | kmd_T_getRootOfTrust
  | kmd_T_sendRootOfTrust

primrec IKeyMintDevice_TRANSACTION :: "u32 \<Rightarrow> IKeyMintDevice_call \<Rightarrow> u32" where
   "IKeyMintDevice_TRANSACTION FIRST kmd_T_getHardwareInfo = FIRST + 0"
| "IKeyMintDevice_TRANSACTION FIRST kmd_T_addRngEntropy = FIRST + 1"
| "IKeyMintDevice_TRANSACTION FIRST kmd_T_generateKey = FIRST + 2"
| "IKeyMintDevice_TRANSACTION FIRST kmd_T_importKey = FIRST + 3"
| "IKeyMintDevice_TRANSACTION FIRST kmd_T_importWrappedKey = FIRST + 4"
| "IKeyMintDevice_TRANSACTION FIRST kmd_T_upgradeKey = FIRST + 5"
| "IKeyMintDevice_TRANSACTION FIRST kmd_T_deleteKey = FIRST + 6"
| "IKeyMintDevice_TRANSACTION FIRST kmd_T_deleteAllKeys = FIRST + 7"
| "IKeyMintDevice_TRANSACTION FIRST kmd_T_destroyAttestationIds = FIRST + 8"
| "IKeyMintDevice_TRANSACTION FIRST kmd_T_begin = FIRST + 9"
| "IKeyMintDevice_TRANSACTION FIRST kmd_T_deviceLocked = FIRST + 10"
| "IKeyMintDevice_TRANSACTION FIRST kmd_T_earlyBootEnded = FIRST + 11"
| "IKeyMintDevice_TRANSACTION FIRST kmd_T_convertStorageKeyToEphemeral = FIRST + 12"
| "IKeyMintDevice_TRANSACTION FIRST kmd_T_getKeyCharacteristics = FIRST + 13"
| "IKeyMintDevice_TRANSACTION FIRST kmd_T_getRootOfTrustChallenge = FIRST + 14"
| "IKeyMintDevice_TRANSACTION FIRST kmd_T_getRootOfTrust = FIRST + 15"
| "IKeyMintDevice_TRANSACTION FIRST kmd_T_sendRootOfTrust = FIRST + 16"

record ('st, 'w) IKeyMintDeviceDelegator =
  kmd_impl :: "('st, 'w) IKeyMintDevice"

definition IKeyMintDeviceDelegator_ctor ::
    "bool \<Rightarrow> ('st \<Rightarrow> bool) \<Rightarrow> ('st, 'w) IKeyMintDevice \<Rightarrow> 'w \<Rightarrow> ('st, 'w) IKeyMintDeviceDelegator option \<times> 'w" where
  "IKeyMintDeviceDelegator_ctor bionic isOk impl w =
     (case kmd_getInterfaceVersion impl 0 w of (st, impl_ver, w1) \<Rightarrow>
        if \<not> isOk st \<and> bionic then (None, w1)
        else if impl_ver \<noteq> IKeyMintDevice_version \<and> bionic then (None, w1)
        else (Some \<lparr>kmd_impl = impl\<rparr>, w1))"

definition IKeyMintDeviceDelegator_getHardwareInfo ::
    "('st, 'w) IKeyMintDeviceDelegator \<Rightarrow> KeyMintHardwareInfo \<Rightarrow> 'w \<Rightarrow> 'st \<times> KeyMintHardwareInfo \<times> 'w" where
  "IKeyMintDeviceDelegator_getHardwareInfo d ret w = kmd_getHardwareInfo (kmd_impl d) ret w"

definition IKeyMintDeviceDelegator_addRngEntropy ::
    "('st, 'w) IKeyMintDeviceDelegator \<Rightarrow> byte list \<Rightarrow> 'w \<Rightarrow> 'st \<times> 'w" where
  "IKeyMintDeviceDelegator_addRngEntropy d in_data w = kmd_addRngEntropy (kmd_impl d) in_data w"

definition IKeyMintDeviceDelegator_generateKey ::
    "('st, 'w) IKeyMintDeviceDelegator \<Rightarrow> KeyParameter list \<Rightarrow> AttestationKey option \<Rightarrow> KeyCreationResult \<Rightarrow> 'w \<Rightarrow> 'st \<times> KeyCreationResult \<times> 'w" where
  "IKeyMintDeviceDelegator_generateKey d in_keyParams in_attestationKey ret w =
     kmd_generateKey (kmd_impl d) in_keyParams in_attestationKey ret w"

definition IKeyMintDeviceDelegator_importKey ::
    "('st, 'w) IKeyMintDeviceDelegator \<Rightarrow> KeyParameter list \<Rightarrow> int \<Rightarrow> byte list \<Rightarrow> AttestationKey option \<Rightarrow> KeyCreationResult \<Rightarrow> 'w \<Rightarrow> 'st \<times> KeyCreationResult \<times> 'w" where
  "IKeyMintDeviceDelegator_importKey d in_keyParams in_keyFormat in_keyData in_attestationKey ret w =
     kmd_importKey (kmd_impl d) in_keyParams in_keyFormat in_keyData in_attestationKey ret w"

definition IKeyMintDeviceDelegator_importWrappedKey ::
    "('st, 'w) IKeyMintDeviceDelegator \<Rightarrow> byte list \<Rightarrow> byte list \<Rightarrow> byte list \<Rightarrow> KeyParameter list \<Rightarrow> int \<Rightarrow> int \<Rightarrow> KeyCreationResult \<Rightarrow> 'w \<Rightarrow> 'st \<times> KeyCreationResult \<times> 'w" where
  "IKeyMintDeviceDelegator_importWrappedKey d in_wrappedKeyData in_wrappingKeyBlob in_maskingKey in_unwrappingParams in_passwordSid in_biometricSid ret w =
     kmd_importWrappedKey (kmd_impl d) in_wrappedKeyData in_wrappingKeyBlob in_maskingKey in_unwrappingParams in_passwordSid in_biometricSid ret w"

definition IKeyMintDeviceDelegator_upgradeKey ::
    "('st, 'w) IKeyMintDeviceDelegator \<Rightarrow> byte list \<Rightarrow> KeyParameter list \<Rightarrow> byte list \<Rightarrow> 'w \<Rightarrow> 'st \<times> byte list \<times> 'w" where
  "IKeyMintDeviceDelegator_upgradeKey d in_keyBlobToUpgrade in_upgradeParams ret w =
     kmd_upgradeKey (kmd_impl d) in_keyBlobToUpgrade in_upgradeParams ret w"

definition IKeyMintDeviceDelegator_deleteKey ::
    "('st, 'w) IKeyMintDeviceDelegator \<Rightarrow> byte list \<Rightarrow> 'w \<Rightarrow> 'st \<times> 'w" where
  "IKeyMintDeviceDelegator_deleteKey d in_keyBlob w = kmd_deleteKey (kmd_impl d) in_keyBlob w"

definition IKeyMintDeviceDelegator_deleteAllKeys ::
    "('st, 'w) IKeyMintDeviceDelegator \<Rightarrow> 'w \<Rightarrow> 'st \<times> 'w" where
  "IKeyMintDeviceDelegator_deleteAllKeys d w = kmd_deleteAllKeys (kmd_impl d) w"

definition IKeyMintDeviceDelegator_destroyAttestationIds ::
    "('st, 'w) IKeyMintDeviceDelegator \<Rightarrow> 'w \<Rightarrow> 'st \<times> 'w" where
  "IKeyMintDeviceDelegator_destroyAttestationIds d w = kmd_destroyAttestationIds (kmd_impl d) w"

definition IKeyMintDeviceDelegator_begin ::
    "('st, 'w) IKeyMintDeviceDelegator \<Rightarrow> int \<Rightarrow> byte list \<Rightarrow> KeyParameter list \<Rightarrow> HardwareAuthToken option \<Rightarrow> BeginResult \<Rightarrow> 'w \<Rightarrow> 'st \<times> BeginResult \<times> 'w" where
  "IKeyMintDeviceDelegator_begin d in_purpose in_keyBlob in_params in_authToken ret w =
     kmd_begin (kmd_impl d) in_purpose in_keyBlob in_params in_authToken ret w"

definition IKeyMintDeviceDelegator_deviceLocked ::
    "('st, 'w) IKeyMintDeviceDelegator \<Rightarrow> bool \<Rightarrow> TimeStampToken option \<Rightarrow> 'w \<Rightarrow> 'st \<times> 'w" where
  "IKeyMintDeviceDelegator_deviceLocked d in_passwordOnly in_timestampToken w =
     kmd_deviceLocked (kmd_impl d) in_passwordOnly in_timestampToken w"

definition IKeyMintDeviceDelegator_earlyBootEnded ::
    "('st, 'w) IKeyMintDeviceDelegator \<Rightarrow> 'w \<Rightarrow> 'st \<times> 'w" where
  "IKeyMintDeviceDelegator_earlyBootEnded d w = kmd_earlyBootEnded (kmd_impl d) w"

definition IKeyMintDeviceDelegator_convertStorageKeyToEphemeral ::
    "('st, 'w) IKeyMintDeviceDelegator \<Rightarrow> byte list \<Rightarrow> byte list \<Rightarrow> 'w \<Rightarrow> 'st \<times> byte list \<times> 'w" where
  "IKeyMintDeviceDelegator_convertStorageKeyToEphemeral d in_storageKeyBlob ret w =
     kmd_convertStorageKeyToEphemeral (kmd_impl d) in_storageKeyBlob ret w"

definition IKeyMintDeviceDelegator_getKeyCharacteristics ::
    "('st, 'w) IKeyMintDeviceDelegator \<Rightarrow> byte list \<Rightarrow> byte list \<Rightarrow> byte list \<Rightarrow> KeyCharacteristics list \<Rightarrow> 'w \<Rightarrow> 'st \<times> KeyCharacteristics list \<times> 'w" where
  "IKeyMintDeviceDelegator_getKeyCharacteristics d in_keyBlob in_appId in_appData ret w =
     kmd_getKeyCharacteristics (kmd_impl d) in_keyBlob in_appId in_appData ret w"

definition IKeyMintDeviceDelegator_getRootOfTrustChallenge ::
    "('st, 'w) IKeyMintDeviceDelegator \<Rightarrow> byte list \<Rightarrow> 'w \<Rightarrow> 'st \<times> byte list \<times> 'w" where
  "IKeyMintDeviceDelegator_getRootOfTrustChallenge d ret w = kmd_getRootOfTrustChallenge (kmd_impl d) ret w"

definition IKeyMintDeviceDelegator_getRootOfTrust ::
    "('st, 'w) IKeyMintDeviceDelegator \<Rightarrow> byte list \<Rightarrow> byte list \<Rightarrow> 'w \<Rightarrow> 'st \<times> byte list \<times> 'w" where
  "IKeyMintDeviceDelegator_getRootOfTrust d in_challenge ret w = kmd_getRootOfTrust (kmd_impl d) in_challenge ret w"

definition IKeyMintDeviceDelegator_sendRootOfTrust ::
    "('st, 'w) IKeyMintDeviceDelegator \<Rightarrow> byte list \<Rightarrow> 'w \<Rightarrow> 'st \<times> 'w" where
  "IKeyMintDeviceDelegator_sendRootOfTrust d in_rootOfTrust w = kmd_sendRootOfTrust (kmd_impl d) in_rootOfTrust w"

text \<open>The delegator object as an implementation of its interface: its own methods and, from \<open>BnKeyMintDevice\<close>, the two that report version and hash.\<close>

definition IKeyMintDeviceDelegator_object ::
    "('st, 'w) bn_methods \<Rightarrow> ('st, 'w) IKeyMintDeviceDelegator \<Rightarrow> ('st, 'w) IKeyMintDevice" where
  "IKeyMintDeviceDelegator_object B d = \<lparr>
     kmd_getHardwareInfo = IKeyMintDeviceDelegator_getHardwareInfo d,
     kmd_addRngEntropy = IKeyMintDeviceDelegator_addRngEntropy d,
     kmd_generateKey = IKeyMintDeviceDelegator_generateKey d,
     kmd_importKey = IKeyMintDeviceDelegator_importKey d,
     kmd_importWrappedKey = IKeyMintDeviceDelegator_importWrappedKey d,
     kmd_upgradeKey = IKeyMintDeviceDelegator_upgradeKey d,
     kmd_deleteKey = IKeyMintDeviceDelegator_deleteKey d,
     kmd_deleteAllKeys = IKeyMintDeviceDelegator_deleteAllKeys d,
     kmd_destroyAttestationIds = IKeyMintDeviceDelegator_destroyAttestationIds d,
     kmd_begin = IKeyMintDeviceDelegator_begin d,
     kmd_deviceLocked = IKeyMintDeviceDelegator_deviceLocked d,
     kmd_earlyBootEnded = IKeyMintDeviceDelegator_earlyBootEnded d,
     kmd_convertStorageKeyToEphemeral = IKeyMintDeviceDelegator_convertStorageKeyToEphemeral d,
     kmd_getKeyCharacteristics = IKeyMintDeviceDelegator_getKeyCharacteristics d,
     kmd_getRootOfTrustChallenge = IKeyMintDeviceDelegator_getRootOfTrustChallenge d,
     kmd_getRootOfTrust = IKeyMintDeviceDelegator_getRootOfTrust d,
     kmd_sendRootOfTrust = IKeyMintDeviceDelegator_sendRootOfTrust d,
     kmd_getInterfaceVersion = bn_getInterfaceVersion B,
     kmd_getInterfaceHash = bn_getInterfaceHash B\<rparr>"

lemmas IKeyMintDeviceDelegator_methods = IKeyMintDeviceDelegator_getHardwareInfo_def
    IKeyMintDeviceDelegator_addRngEntropy_def IKeyMintDeviceDelegator_generateKey_def
    IKeyMintDeviceDelegator_importKey_def IKeyMintDeviceDelegator_importWrappedKey_def
    IKeyMintDeviceDelegator_upgradeKey_def IKeyMintDeviceDelegator_deleteKey_def
    IKeyMintDeviceDelegator_deleteAllKeys_def IKeyMintDeviceDelegator_destroyAttestationIds_def
    IKeyMintDeviceDelegator_begin_def IKeyMintDeviceDelegator_deviceLocked_def
    IKeyMintDeviceDelegator_earlyBootEnded_def IKeyMintDeviceDelegator_convertStorageKeyToEphemeral_def
    IKeyMintDeviceDelegator_getKeyCharacteristics_def IKeyMintDeviceDelegator_getRootOfTrustChallenge_def
    IKeyMintDeviceDelegator_getRootOfTrust_def IKeyMintDeviceDelegator_sendRootOfTrust_def

definition IKeyMintDeviceDelegator_rebase ::
    "('st, 'w) bn_methods \<Rightarrow> ('st, 'w) IKeyMintDevice \<Rightarrow> ('st, 'w) IKeyMintDevice" where
  "IKeyMintDeviceDelegator_rebase B i = i\<lparr>kmd_getInterfaceVersion := bn_getInterfaceVersion B, kmd_getInterfaceHash := bn_getInterfaceHash B\<rparr>"

lemma IKeyMintDeviceDelegator_object_rebase [simp]: "IKeyMintDeviceDelegator_object B \<lparr>kmd_impl = impl\<rparr> = IKeyMintDeviceDelegator_rebase B impl"
  by (cases impl) (simp add: IKeyMintDeviceDelegator_object_def IKeyMintDeviceDelegator_rebase_def IKeyMintDeviceDelegator_methods fun_eq_iff)

lemma IKeyMintDeviceDelegator_delegation:
  assumes "bn_contract isOk B IKeyMintDevice_version"
  shows "delegation (\<lambda>i. kmd_getInterfaceVersion i 0) (IKeyMintDeviceDelegator_ctor bionic isOk) (IKeyMintDeviceDelegator_object B)
    (IKeyMintDeviceDelegator_rebase B) isOk IKeyMintDevice_version bionic"
proof
  show "\<exists>st. isOk st \<and> kmd_getInterfaceVersion (IKeyMintDeviceDelegator_rebase B i) 0 w = (st, IKeyMintDevice_version, w)" for i :: "('a, 'b) IKeyMintDevice" and w
    using bn_contract.reports [OF assms] by (simp add: IKeyMintDeviceDelegator_rebase_def)
qed (auto simp: IKeyMintDeviceDelegator_ctor_def IKeyMintDeviceDelegator_rebase_def)

section \<open>IKeyMintOperation and its delegator\<close>

record ('st, 'w) IKeyMintOperation =
  kmo_updateAad :: "byte list \<Rightarrow> HardwareAuthToken option \<Rightarrow> TimeStampToken option \<Rightarrow> 'w \<Rightarrow> 'st \<times> 'w"
  kmo_update :: "byte list \<Rightarrow> HardwareAuthToken option \<Rightarrow> TimeStampToken option \<Rightarrow> byte list \<Rightarrow> 'w \<Rightarrow> 'st \<times> byte list \<times> 'w"
  kmo_finish :: "byte list option \<Rightarrow> byte list option \<Rightarrow> HardwareAuthToken option \<Rightarrow> TimeStampToken option \<Rightarrow> byte list option \<Rightarrow> byte list \<Rightarrow> 'w \<Rightarrow> 'st \<times> byte list \<times> 'w"
  kmo_abort :: "'w \<Rightarrow> 'st \<times> 'w"
  kmo_getInterfaceVersion :: "int \<Rightarrow> 'w \<Rightarrow> 'st \<times> int \<times> 'w"
  kmo_getInterfaceHash :: "string \<Rightarrow> 'w \<Rightarrow> 'st \<times> string \<times> 'w"

definition IKeyMintOperation_version :: int where
  "IKeyMintOperation_version = 3"

definition IKeyMintOperation_hash :: string where
  "IKeyMintOperation_hash = ''74a538630d5d90f732f361a2313cbb69b09eb047''"

datatype (plugins only:) IKeyMintOperation_call = kmo_T_updateAad
  | kmo_T_update
  | kmo_T_finish
  | kmo_T_abort

primrec IKeyMintOperation_TRANSACTION :: "u32 \<Rightarrow> IKeyMintOperation_call \<Rightarrow> u32" where
   "IKeyMintOperation_TRANSACTION FIRST kmo_T_updateAad = FIRST + 0"
| "IKeyMintOperation_TRANSACTION FIRST kmo_T_update = FIRST + 1"
| "IKeyMintOperation_TRANSACTION FIRST kmo_T_finish = FIRST + 2"
| "IKeyMintOperation_TRANSACTION FIRST kmo_T_abort = FIRST + 3"

record ('st, 'w) IKeyMintOperationDelegator =
  kmo_impl :: "('st, 'w) IKeyMintOperation"

definition IKeyMintOperationDelegator_ctor ::
    "bool \<Rightarrow> ('st \<Rightarrow> bool) \<Rightarrow> ('st, 'w) IKeyMintOperation \<Rightarrow> 'w \<Rightarrow> ('st, 'w) IKeyMintOperationDelegator option \<times> 'w" where
  "IKeyMintOperationDelegator_ctor bionic isOk impl w =
     (case kmo_getInterfaceVersion impl 0 w of (st, impl_ver, w1) \<Rightarrow>
        if \<not> isOk st \<and> bionic then (None, w1)
        else if impl_ver \<noteq> IKeyMintOperation_version \<and> bionic then (None, w1)
        else (Some \<lparr>kmo_impl = impl\<rparr>, w1))"

definition IKeyMintOperationDelegator_updateAad ::
    "('st, 'w) IKeyMintOperationDelegator \<Rightarrow> byte list \<Rightarrow> HardwareAuthToken option \<Rightarrow> TimeStampToken option \<Rightarrow> 'w \<Rightarrow> 'st \<times> 'w" where
  "IKeyMintOperationDelegator_updateAad d in_input in_authToken in_timeStampToken w =
     kmo_updateAad (kmo_impl d) in_input in_authToken in_timeStampToken w"

definition IKeyMintOperationDelegator_update ::
    "('st, 'w) IKeyMintOperationDelegator \<Rightarrow> byte list \<Rightarrow> HardwareAuthToken option \<Rightarrow> TimeStampToken option \<Rightarrow> byte list \<Rightarrow> 'w \<Rightarrow> 'st \<times> byte list \<times> 'w" where
  "IKeyMintOperationDelegator_update d in_input in_authToken in_timeStampToken ret w =
     kmo_update (kmo_impl d) in_input in_authToken in_timeStampToken ret w"

definition IKeyMintOperationDelegator_finish ::
    "('st, 'w) IKeyMintOperationDelegator \<Rightarrow> byte list option \<Rightarrow> byte list option \<Rightarrow> HardwareAuthToken option \<Rightarrow> TimeStampToken option \<Rightarrow> byte list option \<Rightarrow> byte list \<Rightarrow> 'w \<Rightarrow> 'st \<times> byte list \<times> 'w" where
  "IKeyMintOperationDelegator_finish d in_input in_signature in_authToken in_timestampToken in_confirmationToken ret w =
     kmo_finish (kmo_impl d) in_input in_signature in_authToken in_timestampToken in_confirmationToken ret w"

definition IKeyMintOperationDelegator_abort ::
    "('st, 'w) IKeyMintOperationDelegator \<Rightarrow> 'w \<Rightarrow> 'st \<times> 'w" where
  "IKeyMintOperationDelegator_abort d w = kmo_abort (kmo_impl d) w"

text \<open>The delegator object as an implementation of its interface: its own methods and, from \<open>BnKeyMintOperation\<close>, the two that report version and hash.\<close>

definition IKeyMintOperationDelegator_object ::
    "('st, 'w) bn_methods \<Rightarrow> ('st, 'w) IKeyMintOperationDelegator \<Rightarrow> ('st, 'w) IKeyMintOperation" where
  "IKeyMintOperationDelegator_object B d = \<lparr>
     kmo_updateAad = IKeyMintOperationDelegator_updateAad d,
     kmo_update = IKeyMintOperationDelegator_update d,
     kmo_finish = IKeyMintOperationDelegator_finish d,
     kmo_abort = IKeyMintOperationDelegator_abort d,
     kmo_getInterfaceVersion = bn_getInterfaceVersion B,
     kmo_getInterfaceHash = bn_getInterfaceHash B\<rparr>"

lemmas IKeyMintOperationDelegator_methods = IKeyMintOperationDelegator_updateAad_def
    IKeyMintOperationDelegator_update_def IKeyMintOperationDelegator_finish_def
    IKeyMintOperationDelegator_abort_def

definition IKeyMintOperationDelegator_rebase ::
    "('st, 'w) bn_methods \<Rightarrow> ('st, 'w) IKeyMintOperation \<Rightarrow> ('st, 'w) IKeyMintOperation" where
  "IKeyMintOperationDelegator_rebase B i = i\<lparr>kmo_getInterfaceVersion := bn_getInterfaceVersion B, kmo_getInterfaceHash := bn_getInterfaceHash B\<rparr>"

lemma IKeyMintOperationDelegator_object_rebase [simp]: "IKeyMintOperationDelegator_object B \<lparr>kmo_impl = impl\<rparr> = IKeyMintOperationDelegator_rebase B impl"
  by (cases impl) (simp add: IKeyMintOperationDelegator_object_def IKeyMintOperationDelegator_rebase_def IKeyMintOperationDelegator_methods fun_eq_iff)

lemma IKeyMintOperationDelegator_delegation:
  assumes "bn_contract isOk B IKeyMintOperation_version"
  shows "delegation (\<lambda>i. kmo_getInterfaceVersion i 0) (IKeyMintOperationDelegator_ctor bionic isOk) (IKeyMintOperationDelegator_object B)
    (IKeyMintOperationDelegator_rebase B) isOk IKeyMintOperation_version bionic"
proof
  show "\<exists>st. isOk st \<and> kmo_getInterfaceVersion (IKeyMintOperationDelegator_rebase B i) 0 w = (st, IKeyMintOperation_version, w)" for i :: "('a, 'b) IKeyMintOperation" and w
    using bn_contract.reports [OF assms] by (simp add: IKeyMintOperationDelegator_rebase_def)
qed (auto simp: IKeyMintOperationDelegator_ctor_def IKeyMintOperationDelegator_rebase_def)

section \<open>ISecureClock and its delegator\<close>

record ('st, 'w) ISecureClock =
  clk_generateTimeStamp :: "int \<Rightarrow> TimeStampToken \<Rightarrow> 'w \<Rightarrow> 'st \<times> TimeStampToken \<times> 'w"
  clk_getInterfaceVersion :: "int \<Rightarrow> 'w \<Rightarrow> 'st \<times> int \<times> 'w"
  clk_getInterfaceHash :: "string \<Rightarrow> 'w \<Rightarrow> 'st \<times> string \<times> 'w"

definition ISecureClock_version :: int where
  "ISecureClock_version = 1"

definition ISecureClock_hash :: string where
  "ISecureClock_hash = ''cd55ca9963c6a57fa5f2f120a45c6e0c4fafb423''"

datatype (plugins only:) ISecureClock_call = clk_T_generateTimeStamp

primrec ISecureClock_TRANSACTION :: "u32 \<Rightarrow> ISecureClock_call \<Rightarrow> u32" where
   "ISecureClock_TRANSACTION FIRST clk_T_generateTimeStamp = FIRST + 0"

record ('st, 'w) ISecureClockDelegator =
  clk_impl :: "('st, 'w) ISecureClock"

definition ISecureClockDelegator_ctor ::
    "bool \<Rightarrow> ('st \<Rightarrow> bool) \<Rightarrow> ('st, 'w) ISecureClock \<Rightarrow> 'w \<Rightarrow> ('st, 'w) ISecureClockDelegator option \<times> 'w" where
  "ISecureClockDelegator_ctor bionic isOk impl w =
     (case clk_getInterfaceVersion impl 0 w of (st, impl_ver, w1) \<Rightarrow>
        if \<not> isOk st \<and> bionic then (None, w1)
        else if impl_ver \<noteq> ISecureClock_version \<and> bionic then (None, w1)
        else (Some \<lparr>clk_impl = impl\<rparr>, w1))"

definition ISecureClockDelegator_generateTimeStamp ::
    "('st, 'w) ISecureClockDelegator \<Rightarrow> int \<Rightarrow> TimeStampToken \<Rightarrow> 'w \<Rightarrow> 'st \<times> TimeStampToken \<times> 'w" where
  "ISecureClockDelegator_generateTimeStamp d in_challenge ret w =
     clk_generateTimeStamp (clk_impl d) in_challenge ret w"

text \<open>The delegator object as an implementation of its interface: its own methods and, from \<open>BnSecureClock\<close>, the two that report version and hash.\<close>

definition ISecureClockDelegator_object ::
    "('st, 'w) bn_methods \<Rightarrow> ('st, 'w) ISecureClockDelegator \<Rightarrow> ('st, 'w) ISecureClock" where
  "ISecureClockDelegator_object B d = \<lparr>
     clk_generateTimeStamp = ISecureClockDelegator_generateTimeStamp d,
     clk_getInterfaceVersion = bn_getInterfaceVersion B,
     clk_getInterfaceHash = bn_getInterfaceHash B\<rparr>"

lemmas ISecureClockDelegator_methods = ISecureClockDelegator_generateTimeStamp_def

definition ISecureClockDelegator_rebase ::
    "('st, 'w) bn_methods \<Rightarrow> ('st, 'w) ISecureClock \<Rightarrow> ('st, 'w) ISecureClock" where
  "ISecureClockDelegator_rebase B i = i\<lparr>clk_getInterfaceVersion := bn_getInterfaceVersion B, clk_getInterfaceHash := bn_getInterfaceHash B\<rparr>"

lemma ISecureClockDelegator_object_rebase [simp]: "ISecureClockDelegator_object B \<lparr>clk_impl = impl\<rparr> = ISecureClockDelegator_rebase B impl"
  by (cases impl) (simp add: ISecureClockDelegator_object_def ISecureClockDelegator_rebase_def ISecureClockDelegator_methods fun_eq_iff)

lemma ISecureClockDelegator_delegation:
  assumes "bn_contract isOk B ISecureClock_version"
  shows "delegation (\<lambda>i. clk_getInterfaceVersion i 0) (ISecureClockDelegator_ctor bionic isOk) (ISecureClockDelegator_object B)
    (ISecureClockDelegator_rebase B) isOk ISecureClock_version bionic"
proof
  show "\<exists>st. isOk st \<and> clk_getInterfaceVersion (ISecureClockDelegator_rebase B i) 0 w = (st, ISecureClock_version, w)" for i :: "('a, 'b) ISecureClock" and w
    using bn_contract.reports [OF assms] by (simp add: ISecureClockDelegator_rebase_def)
qed (auto simp: ISecureClockDelegator_ctor_def ISecureClockDelegator_rebase_def)

section \<open>IGatekeeper and its delegator\<close>

record ('st, 'w) IGatekeeper =
  gk_deleteAllUsers :: "'w \<Rightarrow> 'st \<times> 'w"
  gk_deleteUser :: "int \<Rightarrow> 'w \<Rightarrow> 'st \<times> 'w"
  gk_enroll :: "int \<Rightarrow> byte list \<Rightarrow> byte list \<Rightarrow> byte list \<Rightarrow> GatekeeperEnrollResponse \<Rightarrow> 'w \<Rightarrow> 'st \<times> GatekeeperEnrollResponse \<times> 'w"
  gk_verify :: "int \<Rightarrow> int \<Rightarrow> byte list \<Rightarrow> byte list \<Rightarrow> GatekeeperVerifyResponse \<Rightarrow> 'w \<Rightarrow> 'st \<times> GatekeeperVerifyResponse \<times> 'w"
  gk_getInterfaceVersion :: "int \<Rightarrow> 'w \<Rightarrow> 'st \<times> int \<times> 'w"
  gk_getInterfaceHash :: "string \<Rightarrow> 'w \<Rightarrow> 'st \<times> string \<times> 'w"

definition IGatekeeper_version :: int where
  "IGatekeeper_version = 1"

definition IGatekeeper_hash :: string where
  "IGatekeeper_hash = ''d877e8a1608a00fd9068bcd7e69ea480a7ea17f0''"

definition IGatekeeper_STATUS_REENROLL :: int where
  "IGatekeeper_STATUS_REENROLL = 1"

definition IGatekeeper_STATUS_OK :: int where
  "IGatekeeper_STATUS_OK = 0"

definition IGatekeeper_ERROR_GENERAL_FAILURE :: int where
  "IGatekeeper_ERROR_GENERAL_FAILURE = - 1"

definition IGatekeeper_ERROR_RETRY_TIMEOUT :: int where
  "IGatekeeper_ERROR_RETRY_TIMEOUT = - 2"

definition IGatekeeper_ERROR_NOT_IMPLEMENTED :: int where
  "IGatekeeper_ERROR_NOT_IMPLEMENTED = - 3"

datatype (plugins only:) IGatekeeper_call = gk_T_deleteAllUsers
  | gk_T_deleteUser
  | gk_T_enroll
  | gk_T_verify

primrec IGatekeeper_TRANSACTION :: "u32 \<Rightarrow> IGatekeeper_call \<Rightarrow> u32" where
   "IGatekeeper_TRANSACTION FIRST gk_T_deleteAllUsers = FIRST + 0"
| "IGatekeeper_TRANSACTION FIRST gk_T_deleteUser = FIRST + 1"
| "IGatekeeper_TRANSACTION FIRST gk_T_enroll = FIRST + 2"
| "IGatekeeper_TRANSACTION FIRST gk_T_verify = FIRST + 3"

record ('st, 'w) IGatekeeperDelegator =
  gk_impl :: "('st, 'w) IGatekeeper"

definition IGatekeeperDelegator_ctor ::
    "bool \<Rightarrow> ('st \<Rightarrow> bool) \<Rightarrow> ('st, 'w) IGatekeeper \<Rightarrow> 'w \<Rightarrow> ('st, 'w) IGatekeeperDelegator option \<times> 'w" where
  "IGatekeeperDelegator_ctor bionic isOk impl w =
     (case gk_getInterfaceVersion impl 0 w of (st, impl_ver, w1) \<Rightarrow>
        if \<not> isOk st \<and> bionic then (None, w1)
        else if impl_ver \<noteq> IGatekeeper_version \<and> bionic then (None, w1)
        else (Some \<lparr>gk_impl = impl\<rparr>, w1))"

definition IGatekeeperDelegator_deleteAllUsers ::
    "('st, 'w) IGatekeeperDelegator \<Rightarrow> 'w \<Rightarrow> 'st \<times> 'w" where
  "IGatekeeperDelegator_deleteAllUsers d w = gk_deleteAllUsers (gk_impl d) w"

definition IGatekeeperDelegator_deleteUser ::
    "('st, 'w) IGatekeeperDelegator \<Rightarrow> int \<Rightarrow> 'w \<Rightarrow> 'st \<times> 'w" where
  "IGatekeeperDelegator_deleteUser d in_uid w = gk_deleteUser (gk_impl d) in_uid w"

definition IGatekeeperDelegator_enroll ::
    "('st, 'w) IGatekeeperDelegator \<Rightarrow> int \<Rightarrow> byte list \<Rightarrow> byte list \<Rightarrow> byte list \<Rightarrow> GatekeeperEnrollResponse \<Rightarrow> 'w \<Rightarrow> 'st \<times> GatekeeperEnrollResponse \<times> 'w" where
  "IGatekeeperDelegator_enroll d in_uid in_currentPasswordHandle in_currentPassword in_desiredPassword ret w =
     gk_enroll (gk_impl d) in_uid in_currentPasswordHandle in_currentPassword in_desiredPassword ret w"

definition IGatekeeperDelegator_verify ::
    "('st, 'w) IGatekeeperDelegator \<Rightarrow> int \<Rightarrow> int \<Rightarrow> byte list \<Rightarrow> byte list \<Rightarrow> GatekeeperVerifyResponse \<Rightarrow> 'w \<Rightarrow> 'st \<times> GatekeeperVerifyResponse \<times> 'w" where
  "IGatekeeperDelegator_verify d in_uid in_challenge in_enrolledPasswordHandle in_providedPassword ret w =
     gk_verify (gk_impl d) in_uid in_challenge in_enrolledPasswordHandle in_providedPassword ret w"

text \<open>The delegator object as an implementation of its interface: its own methods and, from \<open>BnGatekeeper\<close>, the two that report version and hash.\<close>

definition IGatekeeperDelegator_object ::
    "('st, 'w) bn_methods \<Rightarrow> ('st, 'w) IGatekeeperDelegator \<Rightarrow> ('st, 'w) IGatekeeper" where
  "IGatekeeperDelegator_object B d = \<lparr>
     gk_deleteAllUsers = IGatekeeperDelegator_deleteAllUsers d,
     gk_deleteUser = IGatekeeperDelegator_deleteUser d,
     gk_enroll = IGatekeeperDelegator_enroll d,
     gk_verify = IGatekeeperDelegator_verify d,
     gk_getInterfaceVersion = bn_getInterfaceVersion B,
     gk_getInterfaceHash = bn_getInterfaceHash B\<rparr>"

lemmas IGatekeeperDelegator_methods = IGatekeeperDelegator_deleteAllUsers_def
    IGatekeeperDelegator_deleteUser_def IGatekeeperDelegator_enroll_def IGatekeeperDelegator_verify_def

definition IGatekeeperDelegator_rebase ::
    "('st, 'w) bn_methods \<Rightarrow> ('st, 'w) IGatekeeper \<Rightarrow> ('st, 'w) IGatekeeper" where
  "IGatekeeperDelegator_rebase B i = i\<lparr>gk_getInterfaceVersion := bn_getInterfaceVersion B, gk_getInterfaceHash := bn_getInterfaceHash B\<rparr>"

lemma IGatekeeperDelegator_object_rebase [simp]: "IGatekeeperDelegator_object B \<lparr>gk_impl = impl\<rparr> = IGatekeeperDelegator_rebase B impl"
  by (cases impl) (simp add: IGatekeeperDelegator_object_def IGatekeeperDelegator_rebase_def IGatekeeperDelegator_methods fun_eq_iff)

lemma IGatekeeperDelegator_delegation:
  assumes "bn_contract isOk B IGatekeeper_version"
  shows "delegation (\<lambda>i. gk_getInterfaceVersion i 0) (IGatekeeperDelegator_ctor bionic isOk) (IGatekeeperDelegator_object B)
    (IGatekeeperDelegator_rebase B) isOk IGatekeeper_version bionic"
proof
  show "\<exists>st. isOk st \<and> gk_getInterfaceVersion (IGatekeeperDelegator_rebase B i) 0 w = (st, IGatekeeper_version, w)" for i :: "('a, 'b) IGatekeeper" and w
    using bn_contract.reports [OF assms] by (simp add: IGatekeeperDelegator_rebase_def)
qed (auto simp: IGatekeeperDelegator_ctor_def IGatekeeperDelegator_rebase_def)

section \<open>Properties of the delegators\<close>

text \<open>The generated \<open>Bn\<close> methods as their documentation describes them, over a status that is just success or failure.\<close>

definition doc_bn :: "int \<Rightarrow> (bool, 'w) bn_methods" where
  "doc_bn v = \<lparr>bn_getInterfaceVersion = (\<lambda>c w. (True, v, w)), bn_getInterfaceHash = (\<lambda>c w. (True, [], w))\<rparr>"

interpretation doc_bn: bn_contract "\<lambda>b. b" "doc_bn v" v for v
  by (unfold_locales, rule exI [of _ True]) (simp add: doc_bn_def)

interpretation doc_kmd: delegation "\<lambda>i. kmd_getInterfaceVersion i 0" "IKeyMintDeviceDelegator_ctor bionic (\<lambda>b. b)"
  "IKeyMintDeviceDelegator_object (doc_bn IKeyMintDevice_version)" "IKeyMintDeviceDelegator_rebase (doc_bn IKeyMintDevice_version)" "\<lambda>b. b" IKeyMintDevice_version bionic for bionic
  by (rule IKeyMintDeviceDelegator_delegation [OF doc_bn.bn_contract_axioms])

interpretation doc_kmo: delegation "\<lambda>i. kmo_getInterfaceVersion i 0" "IKeyMintOperationDelegator_ctor bionic (\<lambda>b. b)"
  "IKeyMintOperationDelegator_object (doc_bn IKeyMintOperation_version)" "IKeyMintOperationDelegator_rebase (doc_bn IKeyMintOperation_version)" "\<lambda>b. b" IKeyMintOperation_version bionic for bionic
  by (rule IKeyMintOperationDelegator_delegation [OF doc_bn.bn_contract_axioms])

interpretation doc_clk: delegation "\<lambda>i. clk_getInterfaceVersion i 0" "ISecureClockDelegator_ctor bionic (\<lambda>b. b)"
  "ISecureClockDelegator_object (doc_bn ISecureClock_version)" "ISecureClockDelegator_rebase (doc_bn ISecureClock_version)" "\<lambda>b. b" ISecureClock_version bionic for bionic
  by (rule ISecureClockDelegator_delegation [OF doc_bn.bn_contract_axioms])

interpretation doc_gk: delegation "\<lambda>i. gk_getInterfaceVersion i 0" "IGatekeeperDelegator_ctor bionic (\<lambda>b. b)"
  "IGatekeeperDelegator_object (doc_bn IGatekeeper_version)" "IGatekeeperDelegator_rebase (doc_bn IGatekeeper_version)" "\<lambda>b. b" IGatekeeper_version bionic for bionic
  by (rule IGatekeeperDelegator_delegation [OF doc_bn.bn_contract_axioms])

text \<open>C26 Delegators around an implementation, as many as one likes, pass every call on to it, with the same result and the
  same effects, except the queries for version and hash, which \<open>BnKeyMintDevice\<close> answers. On bionic the first constructor
  ends the process when the implementation does not report version 3 with success; elsewhere \<open>__assert2\<close> is an empty
  expression and every implementation is accepted.\<close>

theorem device_delegators_transparent:
  assumes "bn_contract isOk B IKeyMintDevice_version" "kmd_getInterfaceVersion impl 0 w = (st, v, w1)" "0 < n"
  shows "delegate_chain (IKeyMintDeviceDelegator_ctor bionic isOk) (IKeyMintDeviceDelegator_object B) n impl w =
    (if \<not> bionic \<or> isOk st \<and> v = 3
     then Some (impl\<lparr>kmd_getInterfaceVersion := bn_getInterfaceVersion B, kmd_getInterfaceHash := bn_getInterfaceHash B\<rparr>)
     else None, w1)"
  using delegation.chain_transparent [OF IKeyMintDeviceDelegator_delegation [OF assms(1)] assms(2,3), of bionic]
  by (simp add: IKeyMintDeviceDelegator_rebase_def IKeyMintDevice_version_def)

definition doc_device :: "(bool, nat) IKeyMintDevice" where
  "doc_device = \<lparr>
     kmd_getHardwareInfo = (\<lambda>r w. (True, r, w)), kmd_addRngEntropy = (\<lambda>d w. (True, w + length d)),
     kmd_generateKey = (\<lambda>p a r w. (False, r, w)), kmd_importKey = (\<lambda>p f d a r w. (False, r, w)),
     kmd_importWrappedKey = (\<lambda>d b m p s c r w. (False, r, w)), kmd_upgradeKey = (\<lambda>b p r w. (True, b, w)),
     kmd_deleteKey = (\<lambda>b w. (True, w)), kmd_deleteAllKeys = (\<lambda>w. (True, 0)), kmd_destroyAttestationIds = (\<lambda>w. (False, w)),
     kmd_begin = (\<lambda>u b p a r w. (False, r, w)), kmd_deviceLocked = (\<lambda>p t w. (True, w)), kmd_earlyBootEnded = (\<lambda>w. (True, w)),
     kmd_convertStorageKeyToEphemeral = (\<lambda>b r w. (True, b, w)), kmd_getKeyCharacteristics = (\<lambda>b i d r w. (True, r, w)),
     kmd_getRootOfTrustChallenge = (\<lambda>r w. (False, r, w)), kmd_getRootOfTrust = (\<lambda>c r w. (False, r, w)),
     kmd_sendRootOfTrust = (\<lambda>d w. (False, w)), kmd_getInterfaceVersion = (\<lambda>c w. (True, 3, w)),
     kmd_getInterfaceHash = (\<lambda>c w. (True, [], w))\<rparr>"

lemma doc_device_rebase:
  "doc_device\<lparr>kmd_getInterfaceVersion := bn_getInterfaceVersion (doc_bn IKeyMintDevice_version),
     kmd_getInterfaceHash := bn_getInterfaceHash (doc_bn IKeyMintDevice_version)\<rparr> = doc_device"
  by (simp add: doc_device_def doc_bn_def IKeyMintDevice_version_def)

lemma doc_device_version: "kmd_getInterfaceVersion doc_device c w = (True, IKeyMintDevice_version, w)"
  by (simp add: doc_device_def IKeyMintDevice_version_def)

lemma device_delegators_transparent_witness:
  "delegate_chain (IKeyMintDeviceDelegator_ctor True (\<lambda>b. b)) (IKeyMintDeviceDelegator_object (doc_bn IKeyMintDevice_version))
     2 doc_device 7 = (Some doc_device, 7)"
  using device_delegators_transparent [OF doc_bn.bn_contract_axioms doc_device_version, of 2 True 7]
  by (simp only: IKeyMintDevice_version_def refl doc_device_rebase [unfolded IKeyMintDevice_version_def] simp_thms if_True)

text \<open>The transaction codes of an interface are the consecutive numbers from \<open>FIRST_CALL_TRANSACTION\<close> in the order of
  its methods; no two methods share one, whatever the first number is.\<close>

lemma transaction_codes_inj:
  "inj (IKeyMintDevice_TRANSACTION FIRST)" "inj (IKeyMintOperation_TRANSACTION FIRST)" "inj (IGatekeeper_TRANSACTION FIRST)"
  by (rule injI, case_tac x; case_tac y; simp)+

end
