(* ===== verification/NgTags.thy ===== *)
theory NgTags
  imports AidlEnums
begin

text \<open>
  \<open>keymaster-ng/keymaster_tags.h\<close>: the typed tags of the HIDL interface of Keymaster 3. The numbers of the
  tags and tag types are in \<open>types.hal\<close>, outside the repository; they are the arguments \<open>code\<close> and \<open>tc\<close>,
  the tag types having the names of \<open>TagType\<close>. A parameter is its tag, the eight bytes of its union and
  its blob; the union keeps what was written last, whatever field is read.
\<close>

unbundle bit_operations_syntax

section \<open>Typed tags\<close>

datatype (plugins only:) ng_tag =
    NG_INVALID | NG_KEY_SIZE | NG_MAC_LENGTH | NG_CALLER_NONCE | NG_MIN_MAC_LENGTH
  | NG_RSA_PUBLIC_EXPONENT | NG_ECIES_SINGLE_HASH_MODE | NG_INCLUDE_UNIQUE_ID | NG_ACTIVE_DATETIME
  | NG_ORIGINATION_EXPIRE_DATETIME | NG_USAGE_EXPIRE_DATETIME | NG_MIN_SECONDS_BETWEEN_OPS
  | NG_MAX_USES_PER_BOOT | NG_ALL_USERS | NG_USER_ID | NG_USER_SECURE_ID | NG_NO_AUTH_REQUIRED
  | NG_AUTH_TIMEOUT | NG_ALLOW_WHILE_ON_BODY | NG_ALL_APPLICATIONS | NG_APPLICATION_ID
  | NG_APPLICATION_DATA | NG_CREATION_DATETIME | NG_ROLLBACK_RESISTANT | NG_ROOT_OF_TRUST
  | NG_ASSOCIATED_DATA | NG_NONCE | NG_AUTH_TOKEN | NG_BOOTLOADER_ONLY | NG_OS_VERSION | NG_OS_PATCHLEVEL
  | NG_UNIQUE_ID | NG_ATTESTATION_CHALLENGE | NG_ATTESTATION_APPLICATION_ID | NG_RESET_SINCE_ID_ROTATION
  | NG_PURPOSE | NG_ALGORITHM | NG_BLOCK_MODE | NG_DIGEST | NG_PADDING | NG_BLOB_USAGE_REQUIREMENTS
  | NG_ORIGIN | NG_USER_AUTH_TYPE | NG_KDF | NG_EC_CURVE

text \<open>The names that \<open>DECLARE_TYPED_TAG\<close> records.\<close>

primrec Tag2String :: "ng_tag \<Rightarrow> string" where
  "Tag2String NG_INVALID = ''Tag::INVALID''"
| "Tag2String NG_KEY_SIZE = ''Tag::KEY_SIZE''"
| "Tag2String NG_MAC_LENGTH = ''Tag::MAC_LENGTH''"
| "Tag2String NG_CALLER_NONCE = ''Tag::CALLER_NONCE''"
| "Tag2String NG_MIN_MAC_LENGTH = ''Tag::MIN_MAC_LENGTH''"
| "Tag2String NG_RSA_PUBLIC_EXPONENT = ''Tag::RSA_PUBLIC_EXPONENT''"
| "Tag2String NG_ECIES_SINGLE_HASH_MODE = ''Tag::ECIES_SINGLE_HASH_MODE''"
| "Tag2String NG_INCLUDE_UNIQUE_ID = ''Tag::INCLUDE_UNIQUE_ID''"
| "Tag2String NG_ACTIVE_DATETIME = ''Tag::ACTIVE_DATETIME''"
| "Tag2String NG_ORIGINATION_EXPIRE_DATETIME = ''Tag::ORIGINATION_EXPIRE_DATETIME''"
| "Tag2String NG_USAGE_EXPIRE_DATETIME = ''Tag::USAGE_EXPIRE_DATETIME''"
| "Tag2String NG_MIN_SECONDS_BETWEEN_OPS = ''Tag::MIN_SECONDS_BETWEEN_OPS''"
| "Tag2String NG_MAX_USES_PER_BOOT = ''Tag::MAX_USES_PER_BOOT''"
| "Tag2String NG_ALL_USERS = ''Tag::ALL_USERS''"
| "Tag2String NG_USER_ID = ''Tag::USER_ID''"
| "Tag2String NG_USER_SECURE_ID = ''Tag::USER_SECURE_ID''"
| "Tag2String NG_NO_AUTH_REQUIRED = ''Tag::NO_AUTH_REQUIRED''"
| "Tag2String NG_AUTH_TIMEOUT = ''Tag::AUTH_TIMEOUT''"
| "Tag2String NG_ALLOW_WHILE_ON_BODY = ''Tag::ALLOW_WHILE_ON_BODY''"
| "Tag2String NG_ALL_APPLICATIONS = ''Tag::ALL_APPLICATIONS''"
| "Tag2String NG_APPLICATION_ID = ''Tag::APPLICATION_ID''"
| "Tag2String NG_APPLICATION_DATA = ''Tag::APPLICATION_DATA''"
| "Tag2String NG_CREATION_DATETIME = ''Tag::CREATION_DATETIME''"
| "Tag2String NG_ROLLBACK_RESISTANT = ''Tag::ROLLBACK_RESISTANT''"
| "Tag2String NG_ROOT_OF_TRUST = ''Tag::ROOT_OF_TRUST''"
| "Tag2String NG_ASSOCIATED_DATA = ''Tag::ASSOCIATED_DATA''"
| "Tag2String NG_NONCE = ''Tag::NONCE''"
| "Tag2String NG_AUTH_TOKEN = ''Tag::AUTH_TOKEN''"
| "Tag2String NG_BOOTLOADER_ONLY = ''Tag::BOOTLOADER_ONLY''"
| "Tag2String NG_OS_VERSION = ''Tag::OS_VERSION''"
| "Tag2String NG_OS_PATCHLEVEL = ''Tag::OS_PATCHLEVEL''"
| "Tag2String NG_UNIQUE_ID = ''Tag::UNIQUE_ID''"
| "Tag2String NG_ATTESTATION_CHALLENGE = ''Tag::ATTESTATION_CHALLENGE''"
| "Tag2String NG_ATTESTATION_APPLICATION_ID = ''Tag::ATTESTATION_APPLICATION_ID''"
| "Tag2String NG_RESET_SINCE_ID_ROTATION = ''Tag::RESET_SINCE_ID_ROTATION''"
| "Tag2String NG_PURPOSE = ''Tag::PURPOSE''"
| "Tag2String NG_ALGORITHM = ''Tag::ALGORITHM''"
| "Tag2String NG_BLOCK_MODE = ''Tag::BLOCK_MODE''"
| "Tag2String NG_DIGEST = ''Tag::DIGEST''"
| "Tag2String NG_PADDING = ''Tag::PADDING''"
| "Tag2String NG_BLOB_USAGE_REQUIREMENTS = ''Tag::BLOB_USAGE_REQUIREMENTS''"
| "Tag2String NG_ORIGIN = ''Tag::ORIGIN''"
| "Tag2String NG_USER_AUTH_TYPE = ''Tag::USER_AUTH_TYPE''"
| "Tag2String NG_KDF = ''Tag::KDF''"
| "Tag2String NG_EC_CURVE = ''Tag::EC_CURVE''"

definition ng_all_tags :: "ng_tag list" where
  "ng_all_tags =
    [NG_INVALID, NG_KEY_SIZE, NG_MAC_LENGTH, NG_CALLER_NONCE, NG_MIN_MAC_LENGTH,
     NG_RSA_PUBLIC_EXPONENT, NG_ECIES_SINGLE_HASH_MODE, NG_INCLUDE_UNIQUE_ID, NG_ACTIVE_DATETIME,
     NG_ORIGINATION_EXPIRE_DATETIME, NG_USAGE_EXPIRE_DATETIME, NG_MIN_SECONDS_BETWEEN_OPS,
     NG_MAX_USES_PER_BOOT, NG_ALL_USERS, NG_USER_ID, NG_USER_SECURE_ID, NG_NO_AUTH_REQUIRED,
     NG_AUTH_TIMEOUT, NG_ALLOW_WHILE_ON_BODY, NG_ALL_APPLICATIONS, NG_APPLICATION_ID,
     NG_APPLICATION_DATA, NG_CREATION_DATETIME, NG_ROLLBACK_RESISTANT, NG_ROOT_OF_TRUST,
     NG_ASSOCIATED_DATA, NG_NONCE, NG_AUTH_TOKEN, NG_BOOTLOADER_ONLY, NG_OS_VERSION,
     NG_OS_PATCHLEVEL, NG_UNIQUE_ID, NG_ATTESTATION_CHALLENGE, NG_ATTESTATION_APPLICATION_ID,
     NG_RESET_SINCE_ID_ROTATION, NG_PURPOSE, NG_ALGORITHM, NG_BLOCK_MODE, NG_DIGEST, NG_PADDING,
     NG_BLOB_USAGE_REQUIREMENTS, NG_ORIGIN, NG_USER_AUTH_TYPE, NG_KDF, NG_EC_CURVE]"

definition ng_typeFromTag :: "int \<Rightarrow> int" where
  "ng_typeFromTag tag = sint (and (of_int tag :: u32) 0xF0000000)"

definition ng_TypedTag_check :: "int \<Rightarrow> int \<Rightarrow> bool" where
  "ng_TypedTag_check tag_type tag \<longleftrightarrow> ng_typeFromTag tag = tag_type"

definition ng_KM_TAG_DIGEST_OLD :: "(TagType \<Rightarrow> int) \<Rightarrow> int" where
  "ng_KM_TAG_DIGEST_OLD tc = or (tc TagType_ENUM) 5"

definition ng_KM_TAG_PADDING_OLD :: "(TagType \<Rightarrow> int) \<Rightarrow> int" where
  "ng_KM_TAG_PADDING_OLD tc = or (tc TagType_ENUM) 7"

section \<open>Access to the value of a parameter\<close>

datatype ng_field = F_longInteger | F_dateTime | F_integer | F_boolValue | F_blob
  | F_algorithm | F_keyBlobUsageRequirements | F_blockMode | F_digest | F_ecCurve | F_keyDerivationFunction
  | F_origin | F_paddingMode | F_purpose | F_hardwareAuthenticatorType

definition ng_type_accessors :: "(TagType \<times> ng_field) list" where
  "ng_type_accessors =
     [(TagType_ULONG, F_longInteger), (TagType_ULONG_REP, F_longInteger), (TagType_DATE, F_dateTime),
      (TagType_UINT, F_integer), (TagType_UINT_REP, F_integer), (TagType_BOOL, F_boolValue),
      (TagType_BYTES, F_blob), (TagType_BIGNUM, F_blob)]"

definition ng_enum_accessors :: "(ng_tag \<times> ng_field) list" where
  "ng_enum_accessors =
     [(NG_ALGORITHM, F_algorithm), (NG_BLOB_USAGE_REQUIREMENTS, F_keyBlobUsageRequirements),
      (NG_BLOCK_MODE, F_blockMode), (NG_DIGEST, F_digest), (NG_EC_CURVE, F_ecCurve),
      (NG_KDF, F_keyDerivationFunction), (NG_ORIGIN, F_origin), (NG_PADDING, F_paddingMode),
      (NG_PURPOSE, F_purpose), (NG_USER_AUTH_TYPE, F_hardwareAuthenticatorType)]"

text \<open>The field for a typed tag; \<open>None\<close> when there is no accessor.\<close>

definition ng_field_of :: "(TagType \<Rightarrow> int) \<Rightarrow> (ng_tag \<Rightarrow> int) \<Rightarrow> int \<Rightarrow> ng_field option" where
  "ng_field_of tc code tag =
     (case map_of (map (\<lambda>(ty, f). (tc ty, f)) ng_type_accessors) (ng_typeFromTag tag) of
        Some f \<Rightarrow> Some f
      | None \<Rightarrow> map_of (map (\<lambda>(t, f). (code t, f)) ng_enum_accessors) tag)"

record ng_param =
  ng_tag_of :: int
  ng_f :: "byte list"
  ng_blob :: "byte list"

definition ng_width :: "ng_field \<Rightarrow> nat" where
  "ng_width f = (case f of F_longInteger \<Rightarrow> 8 | F_dateTime \<Rightarrow> 8 | F_boolValue \<Rightarrow> 1 | _ \<Rightarrow> 4)"

text \<open>\<open>accessTagValue\<close> returns a reference to the field: it can be read and written.\<close>

definition ng_access :: "ng_field \<Rightarrow> ng_param \<Rightarrow> byte list" where
  "ng_access f p = (if f = F_blob then ng_blob p else take (ng_width f) (ng_f p))"

definition ng_store :: "ng_field \<Rightarrow> byte list \<Rightarrow> ng_param \<Rightarrow> ng_param" where
  "ng_store f v p = (if f = F_blob then p\<lparr>ng_blob := v\<rparr> else p\<lparr>ng_f := v @ drop (ng_width f) (ng_f p)\<rparr>)"

text \<open>\<open>junk\<close> is the parameter before it is initialised.\<close>

definition ng_makeKeyParameter :: "int \<Rightarrow> ng_field \<Rightarrow> byte list \<Rightarrow> ng_param \<Rightarrow> ng_param" where
  "ng_makeKeyParameter tag f v junk =
     ng_store f v (ng_store F_longInteger (le64 0) (junk\<lparr>ng_tag_of := tag\<rparr>))"

definition ng_makeKeyParameter_bool :: "int \<Rightarrow> ng_param \<Rightarrow> ng_param" where
  "ng_makeKeyParameter_bool tag junk = ng_store F_boolValue [1] (junk\<lparr>ng_tag_of := tag\<rparr>)"

text \<open>\<open>Authorization\<close>: a boolean tag takes no argument, another tag exactly one.\<close>

definition ng_Authorization ::
    "(TagType \<Rightarrow> int) \<Rightarrow> (ng_tag \<Rightarrow> int) \<Rightarrow> int \<Rightarrow> byte list list \<Rightarrow> ng_param \<Rightarrow> ng_param option" where
  "ng_Authorization tc code tag args junk =
     (if ng_typeFromTag tag = tc TagType_BOOL
      then (case args of [] \<Rightarrow> Some (ng_makeKeyParameter_bool tag junk) | _ \<Rightarrow> None)
      else (case (args, ng_field_of tc code tag) of
          ([v], Some f) \<Rightarrow> if f = F_blob \<or> length v = ng_width f then Some (ng_makeKeyParameter tag f v junk) else None
        | _ \<Rightarrow> None))"

section \<open>NullOr\<close>

record 'a null_or =
  no_value :: 'a
  no_null :: bool

text \<open>\<open>init\<close> is the value of the initializer that the wrapped type selects.\<close>

definition NullOr_empty :: "'a \<Rightarrow> 'a null_or" where
  "NullOr_empty init = \<lparr>no_value = init, no_null = True\<rparr>"

definition NullOr :: "'a \<Rightarrow> 'a null_or" where
  "NullOr v = \<lparr>no_value = v, no_null = False\<rparr>"

definition NullOr_isOk :: "'a null_or \<Rightarrow> bool" where
  "NullOr_isOk n \<longleftrightarrow> \<not> no_null n"

fun ng_NullOrOr :: "'a \<Rightarrow> 'a null_or list \<Rightarrow> 'a null_or" where
  "ng_NullOrOr init [] = NullOr_empty init"
| "ng_NullOrOr init (head # tail) = (if NullOr_isOk head then head else ng_NullOrOr init tail)"

definition ng_defaultOr :: "'a null_or \<Rightarrow> 'a \<Rightarrow> 'a" where
  "ng_defaultOr v def = (if NullOr_isOk v then no_value v else def)"

definition ng_authorizationValue :: "ng_field \<Rightarrow> byte list \<Rightarrow> int \<Rightarrow> ng_param \<Rightarrow> byte list null_or" where
  "ng_authorizationValue f null tag p =
     (if tag \<noteq> ng_tag_of p then NullOr_empty null else NullOr (ng_access f p))"

lemma NullOrOr_isOk: "NullOr_isOk (ng_NullOrOr init vs) \<longleftrightarrow> (\<exists>v\<in>set vs. NullOr_isOk v)"
  by (induction vs) (auto simp: NullOr_isOk_def NullOr_empty_def)

lemma le64_zero: "le64 0 = replicate 8 0"
  by (simp add: le64_def numeral_eq_Suc)

lemma ng_width_bounds: "0 < ng_width f \<and> ng_width f \<le> 8"
  by (cases f) (simp_all add: ng_width_def)

section \<open>Properties\<close>

text \<open>The list \<open>all_tags_t\<close> of the HIDL tags is complete and without repetitions, and every tag has
  its own name.\<close>

theorem ng_tags_complete: "set ng_all_tags = UNIV \<and> distinct (map Tag2String ng_all_tags)"
proof
  have "t \<in> set ng_all_tags" for t by (cases t) (simp_all add: ng_all_tags_def)
  then show "set ng_all_tags = UNIV" by blast
  show "distinct (map Tag2String ng_all_tags)" by (simp add: ng_all_tags_def)
qed

text \<open>A parameter that \<open>Authorization\<close> made with a value does not depend on what was in the memory
  before: the bytes of the union beyond the field are zero, and the value is read back under its tag
  and no other.\<close>

theorem ng_authorization_round_trip:
  assumes "ng_Authorization tc code tag [v] junk = Some p" and "ng_field_of tc code tag = Some f"
    and "length (ng_f junk) = 8"
  shows "ng_authorizationValue f null tag p = NullOr v
    \<and> ng_f p = (if f = F_blob then replicate 8 0 else v @ replicate (8 - ng_width f) 0)
    \<and> (tag' = tag \<or> \<not> NullOr_isOk (ng_authorizationValue f' null tag' p))"
  using assms ng_width_bounds [of f]
  by (auto simp: ng_Authorization_def ng_makeKeyParameter_def ng_store_def ng_authorizationValue_def ng_access_def
      NullOr_isOk_def NullOr_empty_def le64_zero ng_width_def split: if_splits)

text \<open>Numbers for the witnesses.\<close>

definition sample_code :: "ng_tag \<Rightarrow> int" where
  "sample_code t = (if t = NG_KEY_SIZE then 0x30000003 else 0x10000002)"

lemma ng_authorization_round_trip_witness:
  "ng_authorizationValue F_integer [] (sample_code NG_KEY_SIZE)
     (ng_makeKeyParameter (sample_code NG_KEY_SIZE) F_integer (le32 2048) \<lparr>ng_tag_of = 0, ng_f = replicate 8 7, ng_blob = []\<rparr>)
   = NullOr (le32 2048)"
  using ng_authorization_round_trip [of TagType_val sample_code "sample_code NG_KEY_SIZE" "le32 2048"
      "\<lparr>ng_tag_of = 0, ng_f = replicate 8 7, ng_blob = []\<rparr>"]
  by (simp add: ng_Authorization_def ng_field_of_def ng_type_accessors_def ng_typeFromTag_def sample_code_def ng_width_def)

text \<open>A boolean parameter sets only the first byte of the union: the other bytes are what the memory
  held before, unlike those of a parameter with a value.\<close>

theorem ng_bool_parameter_leaks:
  assumes "ng_f junk = b # rest"
  shows "ng_f (ng_makeKeyParameter_bool tag junk) = 1 # rest"
  using assms by (simp add: ng_makeKeyParameter_bool_def ng_store_def ng_width_def)

lemma ng_bool_parameter_leaks_witness:
  "ng_f (ng_makeKeyParameter_bool 0x700001F7 \<lparr>ng_tag_of = 0, ng_f = [1, 2, 3, 4, 5, 6, 7, 8], ng_blob = []\<rparr>)
   = [1, 2, 3, 4, 5, 6, 7, 8]"
  using ng_bool_parameter_leaks [of "\<lparr>ng_tag_of = 0, ng_f = [1, 2, 3, 4, 5, 6, 7, 8], ng_blob = []\<rparr>" 1] by simp

end
