(* ===== verification/ByteIO.thy ===== *)
theory ByteIO
  imports Prelude
begin

text \<open>
  The byte stream layer of \<open>keymaster/serializable.h\<close>: the two cursors that the
  \<open>Serialize\<close> and \<open>Deserialize\<close> methods thread through their calls, the inline functions
  \<open>append_*_to_buf\<close> and \<open>copy_*_from_buf\<close>, and the contract \<open>serializable\<close> that every class
  with a wire format is shown to meet.

  A pair \<open>(buf, end)\<close> handed to a writer is a \<open>wbuf\<close>: the address of \<open>buf\<close>, the room
  \<open>end - buf\<close> that is left, and what has been written. A pair \<open>(*buf_ptr, end)\<close> handed to a
  reader is an \<open>rbuf\<close>: the address and the bytes that are left. Addresses are 64-bit words, since the
  code guards against pointer overflow. The \<open>fault\<close> flags record an access outside the buffer
  or through a null pointer; the safety theorems say that they stay clear.
\<close>

section \<open>Cursors\<close>

record wbuf =
  w_addr :: u64
  w_room :: nat
  w_out :: "byte list"
  w_fault :: bool

record rbuf =
  r_addr :: u64
  r_bytes :: "byte list"
  r_fault :: bool

definition w_adv :: "wbuf \<Rightarrow> byte list \<Rightarrow> wbuf" where
  "w_adv b d = b\<lparr>w_addr := w_addr b + of_nat (length d), w_room := w_room b - length d,
                 w_out := w_out b @ d\<rparr>"

definition r_adv :: "nat \<Rightarrow> rbuf \<Rightarrow> rbuf" where
  "r_adv n r = r\<lparr>r_addr := r_addr r + of_nat n, r_bytes := drop n (r_bytes r)\<rparr>"

text \<open>A store \<open>*buf++ = c\<close> and a load \<open>*(*buf_ptr)++\<close>.\<close>

definition w_store :: "wbuf \<Rightarrow> byte \<Rightarrow> wbuf" where
  "w_store b c = (if w_room b = 0 then b\<lparr>w_fault := True\<rparr> else w_adv b [c])"

definition r_load :: "rbuf \<Rightarrow> byte \<times> rbuf" where
  "r_load r = (case r_bytes r of [] \<Rightarrow> (0, r\<lparr>r_fault := True\<rparr>) | c # _ \<Rightarrow> (c, r_adv 1 r))"

definition wcur :: "u64 \<Rightarrow> nat \<Rightarrow> wbuf" where
  "wcur a n = \<lparr>w_addr = a, w_room = n, w_out = [], w_fault = False\<rparr>"

definition rcur :: "u64 \<Rightarrow> byte list \<Rightarrow> bool \<Rightarrow> rbuf" where
  "rcur a bs f = \<lparr>r_addr = a, r_bytes = bs, r_fault = f\<rparr>"

text \<open>A cursor whose addresses do not wrap, as for any object in memory.\<close>

definition wbuf_ok :: "wbuf \<Rightarrow> bool" where
  "wbuf_ok b \<longleftrightarrow> unat (w_addr b) + w_room b < 2 ^ 64"

definition rbuf_ok :: "rbuf \<Rightarrow> bool" where
  "rbuf_ok r \<longleftrightarrow> unat (r_addr r) + length (r_bytes r) < 2 ^ 64"

lemma w_adv_simps [simp]:
  "w_addr (w_adv b d) = w_addr b + of_nat (length d)"
  "w_room (w_adv b d) = w_room b - length d"
  "w_out (w_adv b d) = w_out b @ d"
  "w_fault (w_adv b d) = w_fault b"
  by (simp_all add: w_adv_def)

lemma w_adv_Nil [simp]: "w_adv b [] = b"
  by (simp add: w_adv_def)

lemma w_adv_w_adv [simp]: "w_adv (w_adv b d) e = w_adv b (d @ e)"
  by (simp add: w_adv_def algebra_simps)

lemma r_adv_simps [simp]:
  "r_addr (r_adv n r) = r_addr r + of_nat n"
  "r_bytes (r_adv n r) = drop n (r_bytes r)"
  "r_fault (r_adv n r) = r_fault r"
  by (simp_all add: r_adv_def)

lemma r_adv_r_adv [simp]: "r_adv m (r_adv n r) = r_adv (n + m) r"
  by (simp add: r_adv_def algebra_simps)

lemma r_adv_0 [simp]: "r_adv 0 r = r"
  by (simp add: r_adv_def)

lemma rcur_simps [simp]:
  "r_addr (rcur a bs f) = a" "r_bytes (rcur a bs f) = bs" "r_fault (rcur a bs f) = f"
  by (simp_all add: rcur_def)

lemma r_adv_rcur [simp]: "r_adv n (rcur a bs f) = rcur (a + of_nat n) (drop n bs) f"
  by (simp add: r_adv_def rcur_def)

lemma rcur_inject [simp]: "rcur a bs f = rcur a' bs' f' \<longleftrightarrow> a = a' \<and> bs = bs' \<and> f = f'"
  by (auto simp: rcur_def)

lemma rcur_collapse: "rcur (r_addr r) (r_bytes r) (r_fault r) = r"
  by (simp add: rcur_def)

lemma wcur_simps [simp]:
  "w_addr (wcur a n) = a" "w_room (wcur a n) = n" "w_out (wcur a n) = []" "w_fault (wcur a n) = False"
  by (simp_all add: wcur_def)

section \<open>Functions of serializable.cpp\<close>

text \<open>
  The header declares four functions whose bodies are in \<open>serializable.cpp\<close>, which is not in the
  repository. They are the fields of a record, so that every definition below takes them as an
  argument, and \<open>byte_io\<close> states what the header's comments promise of them:
  \<^item> \<open>append_to_buf\<close> copies the data and returns the pointer after it, and never writes past
    \<open>end\<close>;
  \<^item> \<open>copy_from_buf\<close> reads \<open>size\<close> bytes and advances, and returns false when there are fewer
    (its \<open>None\<close>; the destination is then left alone);
  \<^item> \<open>copy_size_and_data_from_buf\<close> reads a \<open>uint32_t\<close> size and that many bytes into new storage,
    and returns false when there are not enough;
  \<^item> \<open>__buffer_bound_check\<close> is an overflow-checked bounds check.
\<close>

record io =
  append_to_buf :: "wbuf \<Rightarrow> byte list \<Rightarrow> wbuf"
  copy_from_buf :: "rbuf \<Rightarrow> nat \<Rightarrow> byte list option \<times> rbuf"
  copy_size_and_data_from_buf :: "rbuf \<Rightarrow> bool \<times> nat \<times> byte list option \<times> rbuf"
  buffer_bound_check :: "rbuf \<Rightarrow> nat \<Rightarrow> bool"

section \<open>Inline writers\<close>

definition append_uint32_to_buf :: "io \<Rightarrow> wbuf \<Rightarrow> u32 \<Rightarrow> wbuf" where
  "append_uint32_to_buf X b v = append_to_buf X b (le32 v)"

definition append_uint64_to_buf :: "io \<Rightarrow> wbuf \<Rightarrow> u64 \<Rightarrow> wbuf" where
  "append_uint64_to_buf X b v = append_to_buf X b (le64 v)"

text \<open>
  The length goes through \<open>static_cast<uint32_t>\<close>: it is truncated. A memory block handed over as
  pointer and length is read by \<open>mem_read\<close>, which fails on a null pointer or a block that is too
  short; \<open>append_mem\<close> then faults.
\<close>

definition mem_read :: "byte list option \<Rightarrow> nat \<Rightarrow> byte list option" where
  "mem_read p n = (if n = 0 then Some [] else
     case p of None \<Rightarrow> None | Some d \<Rightarrow> if n \<le> length d then Some (take n d) else None)"

definition append_mem :: "io \<Rightarrow> wbuf \<Rightarrow> byte list option \<Rightarrow> nat \<Rightarrow> wbuf" where
  "append_mem X b p n = (case mem_read p n of None \<Rightarrow> b\<lparr>w_fault := True\<rparr> | Some d \<Rightarrow> append_to_buf X b d)"

definition append_size_and_data_to_buf :: "io \<Rightarrow> wbuf \<Rightarrow> byte list option \<Rightarrow> nat \<Rightarrow> wbuf" where
  "append_size_and_data_to_buf X b p n = append_mem X (append_uint32_to_buf X b (of_nat n)) p n"

definition UINT32_MAX :: nat where
  "UINT32_MAX = 4294967295"

definition append_collection_to_buf :: "io \<Rightarrow> wbuf \<Rightarrow> byte list \<Rightarrow> wbuf" where
  "append_collection_to_buf X b v =
     (if length v > UINT32_MAX then b
      else append_size_and_data_to_buf X b (Some v) (length v))"

fun append_uint32_loop :: "io \<Rightarrow> wbuf \<Rightarrow> u32 list \<Rightarrow> wbuf" where
  "append_uint32_loop X b [] = b"
| "append_uint32_loop X b (v # vs) = append_uint32_loop X (append_uint32_to_buf X b v) vs"

text \<open>The array is given as a pointer (null is \<open>None\<close>) and a count.\<close>

definition append_uint32_array_to_buf :: "io \<Rightarrow> wbuf \<Rightarrow> u32 list option \<Rightarrow> nat \<Rightarrow> wbuf" where
  "append_uint32_array_to_buf X b p count =
     (if count \<ge> UINT32_MAX div 4 \<or> w_addr b + of_nat (count * 4) < w_addr b then b
      else let b1 = append_uint32_to_buf X b (of_nat count)
           in case p of
                None \<Rightarrow> (if count = 0 then b1 else b1\<lparr>w_fault := True\<rparr>)
              | Some d \<Rightarrow> (if count \<le> length d then append_uint32_loop X b1 (take count d)
                            else b1\<lparr>w_fault := True\<rparr>))"

section \<open>Inline readers\<close>

definition copy_uint32_from_buf :: "io \<Rightarrow> rbuf \<Rightarrow> u32 option \<times> rbuf" where
  "copy_uint32_from_buf X r =
     (case copy_from_buf X r 4 of (None, r') \<Rightarrow> (None, r') | (Some bs, r') \<Rightarrow> (Some (un_le32 bs), r'))"

definition copy_uint64_from_buf :: "io \<Rightarrow> rbuf \<Rightarrow> u64 option \<times> rbuf" where
  "copy_uint64_from_buf X r =
     (case copy_from_buf X r 8 of (None, r') \<Rightarrow> (None, r') | (Some bs, r') \<Rightarrow> (Some (un_le64 bs), r'))"

fun copy_uint32_loop :: "io \<Rightarrow> rbuf \<Rightarrow> nat \<Rightarrow> u32 list \<Rightarrow> bool \<times> u32 list \<times> rbuf" where
  "copy_uint32_loop X r 0 acc = (True, acc, r)"
| "copy_uint32_loop X r (Suc n) acc =
     (case copy_uint32_from_buf X r of
        (None, r') \<Rightarrow> (False, acc, r')
      | (Some v, r') \<Rightarrow> copy_uint32_loop X r' n (acc @ [v]))"

text \<open>
  The result is the truth value, the array (\<open>None\<close> while \<open>*data\<close> is still null), \<open>*count\<close> and
  the cursor. \<open>*count\<close> is set as soon as it has been read, whatever happens afterwards. The
  argument \<open>alloc\<close> says whether \<open>new (std::nothrow)\<close> of that many elements succeeds. After a
  failure in the loop the array has its elements filled only as far as they were read.
\<close>

definition copy_uint32_array_from_buf ::
    "io \<Rightarrow> (nat \<Rightarrow> bool) \<Rightarrow> nat \<Rightarrow> rbuf \<Rightarrow> bool \<times> u32 list option \<times> nat \<times> rbuf" where
  "copy_uint32_array_from_buf X alloc count0 r =
     (case copy_uint32_from_buf X r of
        (None, r1) \<Rightarrow> (False, None, count0, r1)
      | (Some c, r1) \<Rightarrow>
          let count = unat c;
              pend = r_addr r1 + of_nat (length (r_bytes r1));
              array_end = r_addr r1 + of_nat (count * 4)
          in if count \<ge> UINT32_MAX div 4 \<or> array_end < r_addr r1 \<or> array_end > pend
             then (False, None, count, r1)
             else if \<not> alloc count then (False, None, count, r1)
             else (case copy_uint32_loop X r1 count [] of
                     (ok, vs, r2) \<Rightarrow> (ok, Some vs, count, r2)))"

text \<open>
  The bytes are appended to what \<open>*value\<close> already holds (\<open>std::back_inserter\<close>). The loop compares
  the pointers, and a read past the last byte of the buffer sets the fault flag.
\<close>

fun copy_bytes_loop :: "u64 \<Rightarrow> byte list \<Rightarrow> u64 \<Rightarrow> byte list \<Rightarrow> bool \<Rightarrow> byte list \<times> rbuf" where
  "copy_bytes_loop value_end out a [] f = (out, rcur a [] (f \<or> a < value_end))"
| "copy_bytes_loop value_end out a (c # cs) f =
     (if a < value_end then copy_bytes_loop value_end (out @ [c]) (a + 1) cs f
      else (out, rcur a (c # cs) f))"

definition copy_collection_from_buf :: "io \<Rightarrow> rbuf \<Rightarrow> byte list \<Rightarrow> bool \<times> byte list \<times> rbuf" where
  "copy_collection_from_buf X r value =
     (case copy_uint32_from_buf X r of
        (None, r1) \<Rightarrow> (False, value, r1)
      | (Some n, r1) \<Rightarrow>
          if \<not> buffer_bound_check X r1 (unat n) then (False, value, r1)
          else (case copy_bytes_loop (r_addr r1 + of_nat (unat n)) value (r_addr r1) (r_bytes r1) (r_fault r1) of
                  (out, r2) \<Rightarrow> (True, out, r2)))"

end
