(* ===== verification/Wire.thy ===== *)
theory Wire
  imports ByteIO "HOL-Library.Sublist"
begin

text \<open>
  The contracts of the byte stream layer. \<open>byte_io\<close> is what the comments of
  \<open>serializable.h\<close> promise of the functions of \<open>serializable.cpp\<close>; the behaviour of every
  inline reader and writer follows from it. \<open>serializable\<close> is the contract of the class
  \<open>Serializable\<close>: a wire image that \<open>Serialize\<close> writes and that \<open>Deserialize\<close> reads back;
  \<open>sized_serializable\<close> adds that \<open>SerializedSize\<close> is its length. The combinators
  \<open>rd_u32\<close>, \<open>rd_u64\<close> and \<open>rd_obj\<close> are the operands of the \<open>&&\<close> chains of the
  deserializers.
\<close>

section \<open>Operands of a deserializer\<close>

definition rd_u32 :: "io \<Rightarrow> (u32 \<Rightarrow> 'o \<Rightarrow> 'o) \<Rightarrow> 'o \<times> rbuf \<Rightarrow> bool \<times> 'o \<times> rbuf" where
  "rd_u32 X upd s = (case s of (obj, r) \<Rightarrow> (case copy_uint32_from_buf X r of
     (None, r') \<Rightarrow> (False, obj, r') | (Some v, r') \<Rightarrow> (True, upd v obj, r')))"

definition rd_u64 :: "io \<Rightarrow> (u64 \<Rightarrow> 'o \<Rightarrow> 'o) \<Rightarrow> 'o \<times> rbuf \<Rightarrow> bool \<times> 'o \<times> rbuf" where
  "rd_u64 X upd s = (case s of (obj, r) \<Rightarrow> (case copy_uint64_from_buf X r of
     (None, r') \<Rightarrow> (False, obj, r') | (Some v, r') \<Rightarrow> (True, upd v obj, r')))"

definition rd_coll :: "io \<Rightarrow> ('o \<Rightarrow> byte list) \<Rightarrow> (byte list \<Rightarrow> 'o \<Rightarrow> 'o) \<Rightarrow> 'o \<times> rbuf \<Rightarrow> bool \<times> 'o \<times> rbuf" where
  "rd_coll X get upd s = (case s of (obj, r) \<Rightarrow> (case copy_collection_from_buf X r (get obj) of
     (ok, v, r') \<Rightarrow> (ok, upd v obj, r')))"

definition rd_obj :: "('f \<times> rbuf \<Rightarrow> bool \<times> 'f \<times> rbuf) \<Rightarrow> ('o \<Rightarrow> 'f) \<Rightarrow> ('f \<Rightarrow> 'o \<Rightarrow> 'o)
    \<Rightarrow> 'o \<times> rbuf \<Rightarrow> bool \<times> 'o \<times> rbuf" where
  "rd_obj des get upd s = (case s of (obj, r) \<Rightarrow> (case des (get obj, r) of
     (ok, f, r') \<Rightarrow> (ok, upd f obj, r')))"

text \<open>The statements \<open>buf = s(buf, end); buf = t(buf, end);\<close> of a serializer.\<close>

definition then_write :: "(wbuf \<Rightarrow> wbuf) \<Rightarrow> (wbuf \<Rightarrow> wbuf) \<Rightarrow> wbuf \<Rightarrow> wbuf" where
  "then_write s t b = t (s b)"

section \<open>Readers and writers of an image\<close>

text \<open>
  \<open>writes s w\<close>: into a buffer with enough room, \<open>s\<close> writes exactly \<open>w\<close>. \<open>bounded s\<close>: whatever
  the room, \<open>s\<close> stays inside it. \<open>parses p w upd\<close>: \<open>p\<close> consumes exactly \<open>w\<close>, whatever follows it, and
  changes the receiver by \<open>upd\<close>; and \<open>p\<close> refuses every input that is cut short inside \<open>w\<close>. \<open>guarded p\<close>:
  on no input at all does \<open>p\<close> read outside the buffer. Each is closed under sequencing, so that a
  message has it once its fields have it.
\<close>

definition writes :: "(wbuf \<Rightarrow> wbuf) \<Rightarrow> byte list \<Rightarrow> bool" where
  "writes s w \<longleftrightarrow> (\<forall>b. length w \<le> w_room b \<longrightarrow> wbuf_ok b \<longrightarrow> s b = w_adv b w)"

definition bounded :: "(wbuf \<Rightarrow> wbuf) \<Rightarrow> bool" where
  "bounded s \<longleftrightarrow> (\<forall>b. \<exists>e. s b = w_adv b e \<and> length e \<le> w_room b)"

definition parses :: "('o \<times> rbuf \<Rightarrow> bool \<times> 'o \<times> rbuf) \<Rightarrow> byte list \<Rightarrow> ('o \<Rightarrow> 'o) \<Rightarrow> bool" where
  "parses p w upd \<longleftrightarrow>
     (\<forall>old a rest f. unat a + length w + length rest < 2 ^ 64 \<longrightarrow>
        p (old, rcur a (w @ rest) f) = (True, upd old, rcur (a + of_nat (length w)) rest f)) \<and>
     (\<forall>old a q f. unat a + length w < 2 ^ 64 \<longrightarrow> strict_prefix q w \<longrightarrow> \<not> fst (p (old, rcur a q f)))"

definition guarded :: "('o \<times> rbuf \<Rightarrow> bool \<times> 'o \<times> rbuf) \<Rightarrow> bool" where
  "guarded p \<longleftrightarrow> (\<forall>old r. rbuf_ok r \<longrightarrow> (\<exists>k \<le> length (r_bytes r). snd (snd (p (old, r))) = r_adv k r))"

lemma writesD: "writes s w \<Longrightarrow> length w \<le> w_room b \<Longrightarrow> wbuf_ok b \<Longrightarrow> s b = w_adv b w"
  by (simp add: writes_def)

lemma wbuf_ok_adv [simp]: "wbuf_ok b \<Longrightarrow> length d \<le> w_room b \<Longrightarrow> wbuf_ok (w_adv b d)"
  by (simp add: wbuf_ok_def unat_word_ariths unat_of_nat)

lemma rbuf_ok_adv [simp]: "rbuf_ok r \<Longrightarrow> k \<le> length (r_bytes r) \<Longrightarrow> rbuf_ok (r_adv k r)"
  by (simp add: rbuf_ok_def unat_word_ariths unat_of_nat)

named_theorems wire_rules \<open>reading and writing of images, field by field\<close>

lemma writes_nothing [wire_rules]: "writes (\<lambda>b. b) []"
  by (simp add: writes_def)

lemma writes_seq [wire_rules]:
  "writes s w \<Longrightarrow> writes t v \<Longrightarrow> writes (then_write s t) (w @ v)"
  by (simp add: writes_def then_write_def)

lemma bounded_nothing [wire_rules]: "bounded (\<lambda>b. b)"
  unfolding bounded_def by (intro allI exI [of _ "[]"]) simp

lemma bounded_seq [wire_rules]:
  assumes "bounded s" and "bounded t"
  shows "bounded (then_write s t)"
  unfolding bounded_def then_write_def
proof
  fix b
  obtain e where e: "s b = w_adv b e" "length e \<le> w_room b"
    using assms(1) unfolding bounded_def by blast
  obtain e' where "t (s b) = w_adv (s b) e'" "length e' \<le> w_room (s b)"
    using assms(2) unfolding bounded_def by blast
  with e show "\<exists>e. t (s b) = w_adv b e \<and> length e \<le> w_room b"
    by (intro exI [of _ "e @ e'"]) simp
qed

lemma parsesD:
  "parses p w upd \<Longrightarrow> unat a + length w + length rest < 2 ^ 64 \<Longrightarrow>
   p (old, rcur a (w @ rest) f) = (True, upd old, rcur (a + of_nat (length w)) rest f)"
  by (simp add: parses_def)

lemma parses_end:
  "parses p w upd \<Longrightarrow> unat a + length w < 2 ^ 64 \<Longrightarrow>
   p (old, rcur a w f) = (True, upd old, rcur (a + of_nat (length w)) [] f)"
  using parsesD [where rest = "[]"] by simp

lemma parses_cut:
  "parses p w upd \<Longrightarrow> unat a + length w < 2 ^ 64 \<Longrightarrow> strict_prefix q w \<Longrightarrow> \<not> fst (p (old, rcur a q f))"
  by (simp add: parses_def)

lemma parses_cong: "parses p w u \<Longrightarrow> (\<And>obj. u obj = u' obj) \<Longrightarrow> parses p w u'"
  by (simp add: parses_def)

lemma parses_nothing [wire_rules]: "parses (\<lambda>s. (True, s)) [] (\<lambda>obj. obj)"
  by (simp add: parses_def)

lemma strict_prefix_le:
  "strict_prefix q w \<Longrightarrow> length q < length (w :: byte list)"
  by (rule prefix_length_less)

lemma strict_prefix_append_cases:
  assumes "strict_prefix q (w @ v)"
  obtains "strict_prefix q w" | q' where "q = w @ q'" "strict_prefix q' v"
proof (cases "prefix w q")
  case True
  then obtain q' where "q = w @ q'" by (auto elim: prefixE)
  with assms that(2) show thesis by (simp add: strict_prefix_def)
next
  case False
  have "prefix q (w @ v)" using assms by (simp add: strict_prefix_def)
  with False have "prefix q w" by (metis prefix_append prefix_same_cases prefixI)
  with False that(1) show thesis by (auto simp: strict_prefix_def)
qed

lemma parses_and_then [wire_rules]:
  assumes p: "parses p w u" and p': "parses p' w' u'"
  shows "parses (and_then p p') (w @ w') (\<lambda>obj. u' (u obj))"
  unfolding parses_def
proof (intro conjI allI impI)
  fix old a rest f
  assume a: "unat (a :: u64) + length (w @ w') + length (rest :: byte list) < 2 ^ 64"
  have first: "p (old, rcur a (w @ w' @ rest) f) = (True, u old, rcur (a + of_nat (length w)) (w' @ rest) f)"
    using a by (intro parsesD [OF p]) simp
  have "unat (a + of_nat (length w)) = unat a + length w"
    using a by (simp add: unat_word_ariths unat_of_nat)
  then have "p' (u old, rcur (a + of_nat (length w)) (w' @ rest) f) =
      (True, u' (u old), rcur (a + of_nat (length w) + of_nat (length w')) rest f)"
    using a by (intro parsesD [OF p']) simp
  with first show "and_then p p' (old, rcur a ((w @ w') @ rest) f) =
      (True, u' (u old), rcur (a + of_nat (length (w @ w'))) rest f)"
    by (simp add: and_then_def algebra_simps)
next
  fix old a q f
  assume a: "unat (a :: u64) + length (w @ w') < 2 ^ 64" and "strict_prefix q (w @ w')"
  from this(2) show "\<not> fst (and_then p p' (old, rcur a q f))"
  proof (cases rule: strict_prefix_append_cases)
    case 1
    with a have "\<not> fst (p (old, rcur a q f))"
      by (intro parses_cut [OF p]) simp_all
    then show ?thesis by (auto simp: and_then_def split: prod.splits)
  next
    case (2 q')
    then have len: "length q' \<le> length w'"
      by (simp add: prefix_length_le strict_prefix_def)
    have "p (old, rcur a (w @ q') f) = (True, u old, rcur (a + of_nat (length w)) q' f)"
      using a len by (intro parsesD [OF p]) simp
    moreover have "unat (a + of_nat (length w)) = unat a + length w"
      using a by (simp add: unat_word_ariths unat_of_nat)
    with a 2(2) have "\<not> fst (p' (u old, rcur (a + of_nat (length w)) q' f))"
      by (intro parses_cut [OF p']) simp_all
    ultimately show ?thesis using 2(1) by (simp add: and_then_def)
  qed
qed

lemma guarded_nothing [wire_rules]: "guarded (\<lambda>s. (True, s))"
  unfolding guarded_def by (intro allI impI exI [of _ 0]) simp

lemma guardedD:
  assumes "guarded p" and "rbuf_ok r" and "p (old, r) = (ok, obj, r')"
  obtains k where "k \<le> length (r_bytes r)" "r' = r_adv k r"
proof -
  from assms(1,2) have "\<exists>k \<le> length (r_bytes r). snd (snd (p (old, r))) = r_adv k r"
    unfolding guarded_def by blast
  with assms(3) that show thesis by auto
qed

lemma guarded_and_then [wire_rules]:
  assumes "guarded p" and "guarded p'"
  shows "guarded (and_then p p')"
  unfolding guarded_def
proof (intro allI impI)
  fix old r
  assume "rbuf_ok r"
  obtain ok obj r1 where p: "p (old, r) = (ok, obj, r1)" by (cases "p (old, r)") auto
  obtain k where k: "k \<le> length (r_bytes r)" "r1 = r_adv k r"
    by (rule guardedD [OF assms(1) \<open>rbuf_ok r\<close> p])
  obtain k' where k': "k' \<le> length (r_bytes r1)" "snd (snd (p' (obj, r1))) = r_adv k' r1"
    using assms(2) \<open>rbuf_ok r\<close> k unfolding guarded_def by (metis rbuf_ok_adv)
  show "\<exists>k \<le> length (r_bytes r). snd (snd (and_then p p' (old, r))) = r_adv k r"
  proof (cases ok)
    case True
    with p k k' show ?thesis by (intro exI [of _ "k + k'"]) (simp add: and_then_def)
  next
    case False
    with p k show ?thesis by (auto simp: and_then_def)
  qed
qed

lemma guarded_no_fault:
  "guarded p \<Longrightarrow> rbuf_ok r \<Longrightarrow> r_fault (snd (snd (p (old, r)))) = r_fault r"
  by (cases "p (old, r)") (auto elim: guardedD)

lemma bounded_no_fault: "bounded s \<Longrightarrow> w_fault (s b) = w_fault b \<and> length (w_out (s b)) \<le> length (w_out b) + w_room b"
  unfolding bounded_def by (metis add_left_mono length_append w_adv_simps(3) w_adv_simps(4))

section \<open>The documented behaviour of serializable.cpp\<close>

text \<open>
  Reading a block of no bytes leaves the destination pointer at \<open>E\<close>: the header does not say
  whether that is null or an empty allocation. The reads that are documented to succeed are taken to
  find the memory they allocate.
\<close>

locale byte_io =
  fixes X :: io
    and E :: "byte list option"
  assumes empty_data: "E = None \<or> E = Some []"
    and append_fits: "length d \<le> w_room b \<Longrightarrow> append_to_buf X b d = w_adv b d"
    and append_in_bounds: "\<exists>e. append_to_buf X b d = w_adv b e \<and> length e \<le> w_room b"
    and copy_enough: "n \<le> length (r_bytes r) \<Longrightarrow>
      copy_from_buf X r n = (Some (take n (r_bytes r)), r_adv n r)"
    and copy_short: "length (r_bytes r) < n \<Longrightarrow> fst (copy_from_buf X r n) = None"
    and copy_in_bounds: "\<exists>k \<le> length (r_bytes r). snd (copy_from_buf X r n) = r_adv k r"
    and data_enough: "length d < 2 ^ 32 \<Longrightarrow> r_bytes r = le32 (of_nat (length d)) @ d @ rest \<Longrightarrow>
      copy_size_and_data_from_buf X r =
        (True, length d, if d = [] then E else Some d, r_adv (4 + length d) r)"
    and data_short: "length (r_bytes r) < 4 \<or>
        length (r_bytes r) < 4 + unat (un_le32 (take 4 (r_bytes r))) \<Longrightarrow>
      fst (copy_size_and_data_from_buf X r) = False"
    and data_in_bounds:
      "\<exists>k \<le> length (r_bytes r). snd (snd (snd (copy_size_and_data_from_buf X r))) = r_adv k r"
begin

lemma append_uint32_writes [wire_rules]: "writes (\<lambda>b. append_uint32_to_buf X b v) (le32 v)"
  by (simp add: writes_def append_uint32_to_buf_def append_fits)

lemma append_uint64_writes [wire_rules]: "writes (\<lambda>b. append_uint64_to_buf X b v) (le64 v)"
  by (simp add: writes_def append_uint64_to_buf_def append_fits)

lemma append_to_buf_bounded [wire_rules]: "bounded (\<lambda>b. append_to_buf X b d)"
  unfolding bounded_def using append_in_bounds by blast

lemma append_to_buf_writes [wire_rules]: "writes (\<lambda>b. append_to_buf X b d) d"
  by (simp add: writes_def append_fits)

lemma append_uint32_bounded [wire_rules]: "bounded (\<lambda>b. append_uint32_to_buf X b v)"
  unfolding append_uint32_to_buf_def by (rule append_to_buf_bounded)

lemma append_uint64_bounded [wire_rules]: "bounded (\<lambda>b. append_uint64_to_buf X b v)"
  unfolding append_uint64_to_buf_def by (rule append_to_buf_bounded)

lemma append_size_and_data_eq:
  "mem_read p n = Some d \<Longrightarrow> (\<lambda>b. append_size_and_data_to_buf X b p n) =
     then_write (\<lambda>b. append_uint32_to_buf X b (of_nat n)) (\<lambda>b. append_to_buf X b d)"
  by (simp add: fun_eq_iff append_size_and_data_to_buf_def append_mem_def then_write_def)

lemma append_size_and_data_writes:
  "mem_read p n = Some d \<Longrightarrow> writes (\<lambda>b. append_size_and_data_to_buf X b p n) (le32 (of_nat n) @ d)"
  by (simp only: append_size_and_data_eq) (intro wire_rules)

lemma append_size_and_data_bounded:
  "mem_read p n = Some d \<Longrightarrow> bounded (\<lambda>b. append_size_and_data_to_buf X b p n)"
  by (simp only: append_size_and_data_eq) (intro wire_rules)

lemma append_collection_eq:
  "length v < 2 ^ 32 \<Longrightarrow> append_collection_to_buf X b v =
     append_size_and_data_to_buf X b (Some v) (length v)"
  by (simp add: append_collection_to_buf_def UINT32_MAX_def)

lemma append_collection_writes:
  "length v < 2 ^ 32 \<Longrightarrow> writes (\<lambda>b. append_collection_to_buf X b v) (le32 (of_nat (length v)) @ v)"
  unfolding append_collection_eq by (rule append_size_and_data_writes) (simp add: mem_read_def)

lemma append_collection_bounded [wire_rules]: "bounded (\<lambda>b. append_collection_to_buf X b v)"
proof (cases "length v > UINT32_MAX")
  case True
  then show ?thesis unfolding append_collection_to_buf_def by (simp add: bounded_nothing)
next
  case False
  then have "bounded (\<lambda>b. append_size_and_data_to_buf X b (Some v) (length v))"
    by (intro append_size_and_data_bounded [of _ _ v]) (simp add: mem_read_def)
  with False show ?thesis unfolding append_collection_to_buf_def by simp
qed

lemma append_uint32_loop_Cons:
  "(\<lambda>b. append_uint32_loop X b (v # vs)) =
     then_write (\<lambda>b. append_uint32_to_buf X b v) (\<lambda>b. append_uint32_loop X b vs)"
  by (simp add: fun_eq_iff then_write_def)

lemma append_uint32_loop_writes: "writes (\<lambda>b. append_uint32_loop X b vs) (concat (List.map le32 vs))"
proof (induction vs)
  case Nil
  then show ?case by (simp add: writes_nothing)
next
  case (Cons v vs)
  then show ?case
    unfolding append_uint32_loop_Cons list.map concat.simps by (intro wire_rules)
qed

lemma append_uint32_loop_bounded: "bounded (\<lambda>b. append_uint32_loop X b vs)"
proof (induction vs)
  case Nil
  then show ?case by (simp add: bounded_nothing)
next
  case (Cons v vs)
  then show ?case unfolding append_uint32_loop_Cons by (intro wire_rules)
qed

text \<open>Operands of the deserializers.\<close>

lemma copy_uint32_rcur [simp]:
  "copy_uint32_from_buf X (rcur a (le32 v @ rest) f) = (Some v, rcur (a + 4) rest f)"
  by (simp add: copy_uint32_from_buf_def copy_enough)

lemma copy_uint64_rcur [simp]:
  "copy_uint64_from_buf X (rcur a (le64 v @ rest) f) = (Some v, rcur (a + 8) rest f)"
  by (simp add: copy_uint64_from_buf_def copy_enough)

lemma copy_uint32_short: "length (r_bytes r) < 4 \<Longrightarrow> \<exists>r'. copy_uint32_from_buf X r = (None, r')"
  using copy_short [of r 4] by (auto simp: copy_uint32_from_buf_def split: prod.splits option.splits)

lemma copy_uint64_short: "length (r_bytes r) < 8 \<Longrightarrow> \<exists>r'. copy_uint64_from_buf X r = (None, r')"
  using copy_short [of r 8] by (auto simp: copy_uint64_from_buf_def split: prod.splits option.splits)

lemma copy_uint32_in_bounds: "\<exists>k \<le> length (r_bytes r). snd (copy_uint32_from_buf X r) = r_adv k r"
  using copy_in_bounds [of r 4] by (auto simp: copy_uint32_from_buf_def split: prod.splits option.splits)

lemma copy_uint64_in_bounds: "\<exists>k \<le> length (r_bytes r). snd (copy_uint64_from_buf X r) = r_adv k r"
  using copy_in_bounds [of r 8] by (auto simp: copy_uint64_from_buf_def split: prod.splits option.splits)

lemma rd_u32_parses [wire_rules]: "parses (rd_u32 X upd) (le32 v) (upd v)"
  unfolding parses_def
proof (intro conjI allI impI)
  fix old a q f
  assume "strict_prefix q (le32 v)"
  then have "length q < 4" using strict_prefix_le by fastforce
  then obtain r' where "copy_uint32_from_buf X (rcur a q f) = (None, r')"
    using copy_uint32_short [of "rcur a q f"] by auto
  then show "\<not> fst (rd_u32 X upd (old, rcur a q f))" by (simp add: rd_u32_def)
qed (simp add: rd_u32_def)

lemma rd_u64_parses [wire_rules]: "parses (rd_u64 X upd) (le64 v) (upd v)"
  unfolding parses_def
proof (intro conjI allI impI)
  fix old a q f
  assume "strict_prefix q (le64 v)"
  then have "length q < 8" using strict_prefix_le by fastforce
  then obtain r' where "copy_uint64_from_buf X (rcur a q f) = (None, r')"
    using copy_uint64_short [of "rcur a q f"] by auto
  then show "\<not> fst (rd_u64 X upd (old, rcur a q f))" by (simp add: rd_u64_def)
qed (simp add: rd_u64_def)

lemma rd_u32_guarded [wire_rules]: "guarded (rd_u32 X upd)"
  using copy_uint32_in_bounds by (auto simp: guarded_def rd_u32_def split: prod.splits option.splits) (metis snd_conv)+

lemma rd_u64_guarded [wire_rules]: "guarded (rd_u64 X upd)"
  using copy_uint64_in_bounds by (auto simp: guarded_def rd_u64_def split: prod.splits option.splits) (metis snd_conv)+

end

section \<open>Collections\<close>

definition coll_wire :: "byte list \<Rightarrow> byte list" where
  "coll_wire v = le32 (of_nat (length v)) @ v"

lemma length_coll_wire [simp, wire_simps]: "length (coll_wire v) = 4 + length v"
  by (simp add: coll_wire_def)

lemma copy_bytes_loop_eq:
  "unat a + n < 2 ^ 64 \<Longrightarrow> n \<le> length bs \<Longrightarrow>
   copy_bytes_loop (a + of_nat n) out a bs f = (out @ take n bs, rcur (a + of_nat n) (drop n bs) f)"
proof (induction n arbitrary: a bs out)
  case 0
  then show ?case by (cases bs) (simp_all add: word_less_nat_alt)
next
  case (Suc n)
  then obtain c cs where bs: "bs = c # cs" by (cases bs) simp_all
  have lt: "a < a + of_nat (Suc n)"
    using Suc.prems(1) by (simp add: word_less_nat_alt unat_word_ariths unat_of_nat)
  have "unat (a + 1) + n < 2 ^ 64"
    using Suc.prems(1) by (simp add: unat_word_ariths)
  then have "copy_bytes_loop (a + 1 + of_nat n) (out @ [c]) (a + 1) cs f =
      ((out @ [c]) @ take n cs, rcur (a + 1 + of_nat n) (drop n cs) f)"
    using Suc.prems(2) bs by (intro Suc.IH) simp_all
  with bs lt show ?case by (simp add: ac_simps)
qed

text \<open>
  The comment of \<open>__buffer_bound_check\<close> says that the end of the block must be \<open>less than\<close> the end of the
  buffer. Whether or not that takes in a block that ends exactly there, what is accepted lies inside the
  buffer: this is \<open>byte_io_guarded\<close>, and it is all that the safety of the readers needs. The round trips need
  \<open>byte_io_coll\<close>, the reading under which a block that ends at \<open>end\<close> is accepted; what the strict reading
  would mean for them is shown where the messages are.
\<close>

locale byte_io_guarded = byte_io +
  assumes bound_check_inside: "rbuf_ok r \<Longrightarrow> buffer_bound_check X r n \<Longrightarrow> n \<le> length (r_bytes r)"
begin

lemma rd_coll_guarded [wire_rules]: "guarded (rd_coll X get upd)"
  unfolding guarded_def
proof (intro allI impI)
  fix old r
  assume ok: "rbuf_ok r"
  obtain res r1 where 1: "copy_uint32_from_buf X r = (res, r1)" by fastforce
  with copy_uint32_in_bounds [of r] obtain k where k: "k \<le> length (r_bytes r)" "r1 = r_adv k r" by auto
  show "\<exists>k \<le> length (r_bytes r). snd (snd (rd_coll X get upd (old, r))) = r_adv k r"
  proof (cases "case res of None \<Rightarrow> False | Some n \<Rightarrow> buffer_bound_check X r1 (unat n)")
    case False
    with 1 k show ?thesis
      by (intro exI [of _ k]) (auto simp: rd_coll_def copy_collection_from_buf_def split: option.splits)
  next
    case True
    then obtain n where n: "res = Some n" "buffer_bound_check X r1 (unat n)" by (cases res) auto
    have ok1: "rbuf_ok r1" using ok k by simp
    with n(2) have le: "unat n \<le> length (r_bytes r1)" by (intro bound_check_inside)
    with ok1 have "unat (r_addr r1) + unat n < 2 ^ 64" by (simp add: rbuf_ok_def)
    from copy_bytes_loop_eq [OF this le] 1 n have
      "snd (snd (rd_coll X get upd (old, r))) =
         rcur (r_addr r1 + of_nat (unat n)) (drop (unat n) (r_bytes r1)) (r_fault r1)"
      by (simp add: rd_coll_def copy_collection_from_buf_def)
    also have "\<dots> = r_adv (unat n) r1" by (simp add: r_adv_def rcur_def)
    finally show ?thesis using k le by (intro exI [of _ "k + unat n"]) simp
  qed
qed

end

locale byte_io_coll = byte_io_guarded +
  assumes bound_check_accepts: "rbuf_ok r \<Longrightarrow> n \<le> length (r_bytes r) \<Longrightarrow> buffer_bound_check X r n"
begin

lemma bound_check: "rbuf_ok r \<Longrightarrow> buffer_bound_check X r n \<longleftrightarrow> n \<le> length (r_bytes r)"
  using bound_check_inside bound_check_accepts by blast

lemma collection_writes [wire_rules]:
  "length v < 2 ^ 32 \<Longrightarrow> writes (\<lambda>b. append_collection_to_buf X b v) (coll_wire v)"
  unfolding coll_wire_def by (rule append_collection_writes)

lemma copy_collection_rcur:
  assumes "unat a + 4 + length v + length rest < 2 ^ 64" and "length v < 2 ^ 32"
  shows "copy_collection_from_buf X (rcur a (le32 (of_nat (length v)) @ v @ rest) f) old =
           (True, old @ v, rcur (a + of_nat (4 + length v)) rest f)"
proof -
  have n: "unat (of_nat (length v) :: u32) = length v"
    using assms(2) by (intro unat_of_nat_small) simp
  have a4: "unat (a + 4) = unat a + 4"
    using assms(1) by (simp add: unat_word_ariths)
  then have "rbuf_ok (rcur (a + 4) (v @ rest) f)" and "unat (a + 4) + length v < 2 ^ 64"
    using assms(1) by (simp_all add: rbuf_ok_def)
  with n copy_bytes_loop_eq [of "a + 4" "length v" "v @ rest" old f] show ?thesis
    by (simp add: copy_collection_from_buf_def bound_check ac_simps)
qed

lemma copy_collection_cut:
  assumes "unat a + 4 + length v < 2 ^ 64" and "length v < 2 ^ 32"
    and "strict_prefix q (le32 (of_nat (length v)) @ v)"
  shows "\<not> fst (copy_collection_from_buf X (rcur a q f) old)"
  using assms(3)
proof (cases rule: strict_prefix_append_cases)
  case 1
  then have "length q < 4" using strict_prefix_le by fastforce
  then obtain r' where "copy_uint32_from_buf X (rcur a q f) = (None, r')"
    using copy_uint32_short [of "rcur a q f"] by auto
  then show ?thesis by (simp add: copy_collection_from_buf_def)
next
  case (2 q')
  then have len: "length q' < length v" by (simp add: strict_prefix_le)
  have n: "unat (of_nat (length v) :: u32) = length v"
    using assms(2) by (intro unat_of_nat_small) simp
  have "unat (a + 4) = unat a + 4"
    using assms(1) by (simp add: unat_word_ariths)
  then have "rbuf_ok (rcur (a + 4) q' f)"
    using assms(1) len by (simp add: rbuf_ok_def)
  with 2(1) n len show ?thesis
    by (simp add: copy_collection_from_buf_def bound_check)
qed

lemma rd_coll_parses [wire_rules]:
  assumes "length v < 2 ^ 32"
  shows "parses (rd_coll X get upd) (coll_wire v) (\<lambda>obj. upd (get obj @ v) obj)"
  unfolding parses_def coll_wire_def
proof (intro conjI allI impI)
  fix old a rest f
  assume "unat (a :: u64) + length (le32 (of_nat (length v)) @ v) + length (rest :: byte list) < 2 ^ 64"
  then show "rd_coll X get upd (old, rcur a ((le32 (of_nat (length v)) @ v) @ rest) f) =
      (True, upd (get old @ v) old, rcur (a + of_nat (length (le32 (of_nat (length v)) @ v))) rest f)"
    using copy_collection_rcur [OF _ assms, of a rest f "get old"] by (simp add: rd_coll_def algebra_simps)
next
  fix old a q f
  assume "unat (a :: u64) + length (le32 (of_nat (length v)) @ v) < 2 ^ 64"
    and "strict_prefix q (le32 (of_nat (length v)) @ v)"
  then show "\<not> fst (rd_coll X get upd (old, rcur a q f))"
    using copy_collection_cut [OF _ assms, of a q f "get old"]
    by (cases "copy_collection_from_buf X (rcur a q f) (get old)") (simp add: rd_coll_def)
qed

end

section \<open>The contract of a serializable class\<close>

text \<open>
  \<open>wire obj\<close> is the byte image of an object, \<open>wf\<close> holds of the objects whose image determines
  them, and \<open>recv old obj\<close> is the receiver \<open>old\<close> after it has read the image of \<open>obj\<close>.
\<close>

locale serializable =
  fixes ser :: "'o \<Rightarrow> wbuf \<Rightarrow> wbuf"
    and des :: "'o \<times> rbuf \<Rightarrow> bool \<times> 'o \<times> rbuf"
    and wire :: "'o \<Rightarrow> byte list"
    and wf :: "'o \<Rightarrow> bool"
    and recv :: "'o \<Rightarrow> 'o \<Rightarrow> 'o"
  assumes ser_wire: "wf obj \<Longrightarrow> writes (ser obj) (wire obj)"
    and ser_bounded: "wf obj \<Longrightarrow> bounded (ser obj)"
    and des_wire: "wf obj \<Longrightarrow> parses des (wire obj) (\<lambda>old. recv old obj)"
    and des_guarded: "guarded des"
begin

text \<open>An object as a field of a message.\<close>

lemma rd_obj_parses:
  assumes "wf obj"
  shows "parses (rd_obj des get upd) (wire obj) (\<lambda>m. upd (recv (get m) obj) m)"
  unfolding parses_def
proof (intro conjI allI impI)
  fix old a rest f
  assume "unat (a :: u64) + length (wire obj) + length (rest :: byte list) < 2 ^ 64"
  then show "rd_obj des get upd (old, rcur a (wire obj @ rest) f) =
      (True, upd (recv (get old) obj) old, rcur (a + of_nat (length (wire obj))) rest f)"
    using parsesD [OF des_wire [OF assms], of a rest "get old" f] by (simp add: rd_obj_def)
next
  fix old a q f
  assume "unat (a :: u64) + length (wire obj) < 2 ^ 64" and "strict_prefix q (wire obj)"
  then show "\<not> fst (rd_obj des get upd (old, rcur a q f))"
    using parses_cut [OF des_wire [OF assms], of a q "get old" f]
    by (cases "des (get old, rcur a q f)") (simp add: rd_obj_def)
qed

lemma rd_obj_guarded: "guarded (rd_obj des get upd)"
  using des_guarded by (auto simp: guarded_def rd_obj_def split: prod.splits) (metis snd_conv)

text \<open>What is written into a buffer of the right size is read back, and nothing is left.\<close>

lemma round_trip:
  assumes "wf obj" and "n = length (wire obj)" and "unat a + n < 2 ^ 64"
  shows "des (old, rcur a (w_out (ser obj (wcur a n))) False) =
           (True, recv old obj, rcur (a + of_nat n) [] False)"
proof -
  have "ser obj (wcur a n) = w_adv (wcur a n) (wire obj)"
    using assms by (intro writesD [OF ser_wire]) (simp_all add: wbuf_ok_def)
  with assms show ?thesis using parses_end [OF des_wire, of obj a old False] by simp
qed

text \<open>A buffer that was filled only in part is refused.\<close>

lemma truncated:
  assumes "wf obj" and "k < length (wire obj)" and "unat a + length (wire obj) < 2 ^ 64"
  shows "\<not> fst (des (old, rcur a (take k (wire obj)) f))"
proof -
  have "strict_prefix (take k (wire obj)) (wire obj)"
    using assms(2) by (auto simp: strict_prefix_def take_is_prefix dest: arg_cong [of _ _ length])
  with assms show ?thesis by (intro parses_cut [OF des_wire])
qed

end

locale sized_serializable = serializable +
  fixes size :: "'a \<Rightarrow> nat"
  assumes size_wire: "wf obj \<Longrightarrow> size obj = length (wire obj)"
begin

text \<open>The buffer that \<open>SerializedSize\<close> announces is filled exactly, and read back.\<close>

lemma size_exact:
  assumes "wf obj" and "unat a + size obj < 2 ^ 64"
  shows "ser obj (wcur a (size obj)) = w_adv (wcur a (size obj)) (wire obj)"
  using assms by (intro writesD [OF ser_wire]) (simp_all add: wbuf_ok_def size_wire)

lemma sized_round_trip:
  assumes "wf obj" and "unat a + size obj < 2 ^ 64"
  shows "des (old, rcur a (w_out (ser obj (wcur a (size obj)))) False) =
           (True, recv old obj, rcur (a + of_nat (size obj)) [] False)"
  using round_trip [of obj "size obj" a old] assms by (simp add: size_wire)

end

text \<open>
  A class has the contract when its fields have it: the reader is put together field by field, and
  the update that results is then compared with the intended one.
\<close>

lemma sized_serializableI:
  fixes wf :: "'o \<Rightarrow> bool"
  assumes "\<And>obj. wf obj \<Longrightarrow> writes (ser obj) (wire obj)"
    and "\<And>obj. wf obj \<Longrightarrow> bounded (ser obj)"
    and "\<And>obj. wf obj \<Longrightarrow> parses des (wire obj) (upd obj)"
    and "\<And>obj old. upd obj old = recv old obj"
    and "guarded des"
    and "\<And>obj. wf obj \<Longrightarrow> sz obj = length (wire obj)"
  shows "sized_serializable ser des wire wf recv sz"
proof
  fix obj
  assume "wf obj"
  then show "parses des (wire obj) (\<lambda>old. recv old obj)"
    by (rule parses_cong [OF assms(3)]) (rule assms(4))
qed (fact assms)+

section \<open>Functions that meet the documented behaviour\<close>

text \<open>
  The comments determine the functions on every input that fits; where they leave a choice (how far
  a refused read has advanced), these instances do nothing. They show that the contract can be met.
\<close>

definition doc_io :: io where
  "doc_io = \<lparr>
     append_to_buf = (\<lambda>b d. if length d \<le> w_room b then w_adv b d else b),
     copy_from_buf = (\<lambda>r n. if n \<le> length (r_bytes r) then (Some (take n (r_bytes r)), r_adv n r) else (None, r)),
     copy_size_and_data_from_buf = (\<lambda>r.
       if length (r_bytes r) < 4 then (False, 0, None, r)
       else let n = unat (un_le32 (take 4 (r_bytes r)))
            in if length (r_bytes r) < 4 + n then (False, n, None, r)
               else (True, n, if n = 0 then None else Some (take n (drop 4 (r_bytes r))), r_adv (4 + n) r)),
     buffer_bound_check = (\<lambda>r n. n \<le> length (r_bytes r))\<rparr>"

interpretation doc: byte_io_coll doc_io None
proof unfold_locales
  fix d b
  show "\<exists>e. append_to_buf doc_io b d = w_adv b e \<and> length e \<le> w_room b"
    by (cases "length d \<le> w_room b") (auto simp: doc_io_def intro: exI [of _ "[]"])
next
  fix r n
  show "\<exists>k \<le> length (r_bytes r). snd (copy_from_buf doc_io r n) = r_adv k r"
    by (cases "n \<le> length (r_bytes r)") (auto simp: doc_io_def intro: exI [of _ 0])
next
  fix r
  show "\<exists>k \<le> length (r_bytes r). snd (snd (snd (copy_size_and_data_from_buf doc_io r))) = r_adv k r"
    by (auto simp: doc_io_def Let_def intro: exI [of _ 0] exI [of _ "4 + unat (un_le32 (take 4 (r_bytes r)))"])
next
  fix d rest :: "byte list" and r :: rbuf
  assume "length d < 2 ^ 32" and "r_bytes r = le32 (of_nat (length d)) @ d @ rest"
  then show "copy_size_and_data_from_buf doc_io r =
      (True, length d, if d = [] then None else Some d, r_adv (4 + length d) r)"
    by (auto simp: doc_io_def unat_of_nat Let_def)
qed (auto simp: doc_io_def Let_def)

text \<open>The strict reading of the comment of \<open>__buffer_bound_check\<close>.\<close>

definition strict_io :: io where
  "strict_io = doc_io\<lparr>buffer_bound_check := \<lambda>r n. n < length (r_bytes r)\<rparr>"

lemma strict_io_byte_io: "byte_io strict_io None"
  using doc.byte_io_axioms by (simp add: byte_io_def strict_io_def)

interpretation strict: byte_io_guarded strict_io None
  by (intro byte_io_guarded.intro strict_io_byte_io byte_io_guarded_axioms.intro) (simp add: strict_io_def)

end
