(* ===== verification/KmUtils.thy ===== *)
theory KmUtils
  imports Wire
begin

text \<open>
  \<open>keymaster/mem.h\<close> and \<open>keymaster/android_keymaster_utils.h\<close>: array helpers, byte order
  conversion, the owning byte blob \<open>TKeymasterBlob\<close> and the owning \<open>CertificateChain\<close>.

  A pointer that owns a buffer is \<open>None\<close> when null and \<open>Some\<close> of the contents otherwise. Each
  \<open>new (std::nothrow)\<close> takes its outcome as an argument; the contents of a fresh, uninitialised
  buffer are an argument too. \<open>dup_buffer\<close> is defined in \<open>mem.cpp\<close>, outside the repository, and is
  a parameter with the contract \<open>buffer_dup\<close>. An operation that frees buffers returns what they held
  when they were freed, so that wiping can be stated.
\<close>

section \<open>mem.h\<close>

definition dup_array :: "(nat \<Rightarrow> bool) \<Rightarrow> 'a list \<Rightarrow> nat \<Rightarrow> 'a list option" where
  "dup_array alloc a n = (if alloc n then Some (take n a) else None)"

fun copy_array_from :: "nat \<Rightarrow> 'a list \<Rightarrow> 'a list \<Rightarrow> 'a list" where
  "copy_array_from i [] dest = dest"
| "copy_array_from i (x # xs) dest = copy_array_from (Suc i) xs (dest[i := x])"

definition copy_array :: "'a list \<Rightarrow> 'a list \<Rightarrow> 'a list" where
  "copy_array arr dest = copy_array_from 0 arr dest"

fun array_contains :: "'a list \<Rightarrow> 'a \<Rightarrow> bool" where
  "array_contains [] val = False"
| "array_contains (x # xs) val = (if x = val then True else array_contains xs val)"

lemma array_contains_iff: "array_contains a val \<longleftrightarrow> val \<in> set a"
  by (induction a) auto

lemma copy_array_from_eq:
  "i + length xs \<le> length dest \<Longrightarrow>
   copy_array_from i xs dest = take i dest @ xs @ drop (i + length xs) dest"
proof (induction xs arbitrary: i dest)
  case Nil
  then show ?case by simp
next
  case (Cons x xs)
  then have "copy_array_from (Suc i) xs (dest[i := x]) =
      take (Suc i) (dest[i := x]) @ xs @ drop (Suc i + length xs) (dest[i := x])"
    by (intro Cons.IH) simp
  with Cons.prems show ?case
    by (simp add: take_Suc_conv_app_nth)
qed

lemma copy_array_eq: "length arr \<le> length dest \<Longrightarrow> copy_array arr dest = arr @ drop (length arr) dest"
  by (simp add: copy_array_def copy_array_from_eq)

text \<open>\<open>memset_s\<close> fills the first \<open>n\<close> bytes unless the pointer is null.\<close>

definition memset_s :: "byte list option \<Rightarrow> byte \<Rightarrow> nat \<Rightarrow> byte list option" where
  "memset_s p c n = (case p of None \<Rightarrow> None | Some d \<Rightarrow> Some (replicate n c @ drop n d))"

text \<open>The destructor of an \<open>Eraser\<close> on a buffer.\<close>

record eraser =
  er_buf :: "byte list option"
  er_size :: nat

definition Eraser_destroy :: "eraser \<Rightarrow> byte list option" where
  "Eraser_destroy e = memset_s (er_buf e) 0 (er_size e)"

section \<open>Java time and byte order\<close>

text \<open>\<open>None\<close>: the multiplication overflows a signed 64-bit integer, which is undefined.\<close>

definition java_time :: "int \<Rightarrow> int option" where
  "java_time t = (if - (2 ^ 63) \<le> t * 1000 \<and> t * 1000 < 2 ^ 63 then Some (t * 1000) else None)"

definition sizeof :: "'a::len word \<Rightarrow> nat" where
  "sizeof t = LENGTH('a) div 8"

fun ntoh_loop :: "byte list \<Rightarrow> 'a::len word \<Rightarrow> 'a word" where
  "ntoh_loop [] retval = retval"
| "ntoh_loop (c # cs) retval = ntoh_loop cs (or (push_bit 8 retval) (ucast c))"

definition ntoh :: "'a::len word \<Rightarrow> 'a word" where
  "ntoh t = ntoh_loop (le_enc (sizeof t) t) 0"

fun hton_loop :: "nat \<Rightarrow> 'a::len word \<Rightarrow> byte list \<Rightarrow> byte list" where
  "hton_loop 0 t bytes = bytes"
| "hton_loop (Suc i) t bytes = hton_loop i (drop_bit 8 t) (bytes[i := ucast (and t 0xFF)])"

text \<open>The first argument is the image of the uninitialised \<open>retval\<close>.\<close>

definition hton :: "byte list \<Rightarrow> 'a::len word \<Rightarrow> 'a word" where
  "hton junk t = le_dec (hton_loop (sizeof t) t junk)"

lemma ucast_low_byte: "(ucast (and t 0xFF) :: byte) = ucast (t :: 'a::len word)"
proof -
  have "and t 0xFF = take_bit 8 t"
    by (simp add: take_bit_eq_mask mask_eq_exp_minus_1)
  then show ?thesis
    by (intro bit_eqI) (auto simp: bit_simps)
qed

lemma hton_loop_eq:
  "i \<le> length bytes \<Longrightarrow> hton_loop i t bytes = rev (le_enc i t) @ drop i bytes"
proof (induction i arbitrary: t bytes)
  case 0
  then show ?case by simp
next
  case (Suc i)
  then show ?case
    by (simp add: ucast_low_byte Cons_nth_drop_Suc [symmetric])
qed

lemma le_dec_append:
  "8 * length xs < LENGTH('a) \<Longrightarrow>
   (le_dec (xs @ [c]) :: 'a::len word) = or (le_dec xs) (push_bit (8 * length xs) (ucast c))"
  by (induction xs) (auto intro!: bit_eqI simp: bit_simps)

lemma ntoh_loop_snoc: "ntoh_loop (cs @ [c]) acc = or (push_bit 8 (ntoh_loop cs acc)) (ucast c)"
  by (induction cs arbitrary: acc) simp_all

lemma ntoh_loop_eq: "ntoh_loop cs 0 = le_dec (rev cs)"
  by (induction cs rule: rev_induct) (simp_all add: ntoh_loop_snoc or.commute)

text \<open>Both conversions reverse the bytes of the operand, and each undoes the other.\<close>

lemma ntoh_rev: "ntoh t = le_dec (rev (le_enc (sizeof t) t))"
  by (simp add: ntoh_def ntoh_loop_eq)

lemma hton_rev: "length junk = sizeof t \<Longrightarrow> hton junk t = le_dec (rev (le_enc (sizeof t) t))"
  by (simp add: hton_def hton_loop_eq)

lemma rev_bytes_involution:
  fixes t :: "'a::len word"
  assumes "LENGTH('a) = 8 * n"
  shows "(le_dec (rev (le_enc n (le_dec (rev (le_enc n t)) :: 'a word))) :: 'a word) = t"
proof -
  have "le_enc n (le_dec (rev (le_enc n t)) :: 'a word) = rev (le_enc n t)"
    using le_enc_dec [of "rev (le_enc n t)", where 'a = 'a] assms by simp
  then show ?thesis using assms by (simp add: le_dec_enc)
qed

section \<open>TKeymasterBlob\<close>

text \<open>
  \<open>keymaster_blob_t\<close> and \<open>keymaster_key_blob_t\<close> have the same two fields, reached through
  \<open>accessBlobData\<close> and \<open>accessBlobSize\<close>: the selectors and updates of this record.
\<close>

record blob =
  blob_data :: "byte list option"
  blob_size :: nat

definition empty_blob :: blob where
  "empty_blob = \<lparr>blob_data = None, blob_size = 0\<rparr>"

text \<open>The constructors from a pointer and a size, from an array and from another blob.\<close>

definition sized_data :: "byte list option \<Rightarrow> nat \<Rightarrow> blob" where
  "sized_data p n = \<lparr>blob_data = p, blob_size = (if p = None then 0 else n)\<rparr>"

definition blob_from :: "(byte list option \<Rightarrow> nat \<Rightarrow> byte list option) \<Rightarrow> byte list option \<Rightarrow> nat \<Rightarrow> blob" where
  "blob_from dup_buffer data n = sized_data (dup_buffer data n) n"

text \<open>\<open>fresh\<close> is the result of \<open>new (std::nothrow) uint8_t[size]\<close>.\<close>

definition blob_sized :: "(nat \<Rightarrow> byte list option) \<Rightarrow> nat \<Rightarrow> blob" where
  "blob_sized fresh n = sized_data (fresh n) n"

definition blob_copy :: "(byte list option \<Rightarrow> nat \<Rightarrow> byte list option) \<Rightarrow> blob \<Rightarrow> blob" where
  "blob_copy dup_buffer b = sized_data (dup_buffer (blob_data b) (blob_size b)) (blob_size b)"

definition blob_move :: "blob \<Rightarrow> blob \<times> blob" where
  "blob_move rhs = (\<lparr>blob_data = blob_data rhs, blob_size = blob_size rhs\<rparr>,
                    rhs\<lparr>blob_size := 0, blob_data := None\<rparr>)"

text \<open>The cleared blob and the buffer that was freed, as it was when it was freed.\<close>

definition blob_Clear :: "blob \<Rightarrow> blob \<times> byte list option" where
  "blob_Clear b = (let p = (if blob_size b \<noteq> 0 then memset_s (blob_data b) 0 (blob_size b) else blob_data b)
                   in (b\<lparr>blob_data := None, blob_size := 0\<rparr>, p))"

text \<open>The assignments; \<open>same\<close> says that both operands are one object.\<close>

definition blob_assign ::
    "(byte list option \<Rightarrow> nat \<Rightarrow> byte list option) \<Rightarrow> bool \<Rightarrow> blob \<Rightarrow> blob \<Rightarrow> blob \<times> byte list option" where
  "blob_assign dup_buffer same this b =
     (if \<not> same then
        let (this1, freed) = blob_Clear this;
            this2 = this1\<lparr>blob_data := dup_buffer (blob_data b) (blob_size b)\<rparr>
        in (this2\<lparr>blob_size := blob_size b\<rparr>, freed)
      else (this, None))"

definition blob_move_assign :: "bool \<Rightarrow> blob \<Rightarrow> blob \<Rightarrow> blob \<times> blob \<times> byte list option" where
  "blob_move_assign same this rhs =
     (if \<not> same then
        let (this1, freed) = blob_Clear this;
            this2 = this1\<lparr>blob_size := blob_size rhs, blob_data := blob_data rhs\<rparr>
        in (this2, rhs\<lparr>blob_size := 0, blob_data := None\<rparr>, freed)
      else (this, rhs, None))"

definition blob_Reset :: "(nat \<Rightarrow> byte list option) \<Rightarrow> nat \<Rightarrow> blob \<Rightarrow> byte list option \<times> blob \<times> byte list option" where
  "blob_Reset fresh n b =
     (let (b1, freed) = blob_Clear b;
          b2 = b1\<lparr>blob_data := fresh n\<rparr>;
          b3 = (if blob_data b2 \<noteq> None then b2\<lparr>blob_size := n\<rparr> else b2)
      in (blob_data b3, b3, freed))"

definition blob_release :: "blob \<Rightarrow> blob \<times> blob" where
  "blob_release b = (\<lparr>blob_data = blob_data b, blob_size = blob_size b\<rparr>,
                     b\<lparr>blob_data := None, blob_size := 0\<rparr>)"

definition blob_SerializedSize :: "blob \<Rightarrow> nat" where
  "blob_SerializedSize b = 4 + blob_size b"

definition blob_Serialize :: "io \<Rightarrow> blob \<Rightarrow> wbuf \<Rightarrow> wbuf" where
  "blob_Serialize X b w = append_size_and_data_to_buf X w (blob_data b) (blob_size b)"

text \<open>\<open>Deserialize\<close> clears the blob first; the second component is the buffer that is freed by that.\<close>

definition blob_Deserialize_freed :: "io \<Rightarrow> blob \<times> rbuf \<Rightarrow> (bool \<times> blob \<times> rbuf) \<times> byte list option" where
  "blob_Deserialize_freed X s = (case s of (b, r) \<Rightarrow>
     let (b1, freed) = blob_Clear b
     in case copy_size_and_data_from_buf X r of
          (ok, n, tmp, r') \<Rightarrow>
            if \<not> ok then ((False, b1\<lparr>blob_data := None, blob_size := 0\<rparr>, r'), freed)
            else ((True, b1\<lparr>blob_size := n, blob_data := tmp\<rparr>, r'), freed))"

definition blob_Deserialize :: "io \<Rightarrow> blob \<times> rbuf \<Rightarrow> bool \<times> blob \<times> rbuf" where
  "blob_Deserialize X s = fst (blob_Deserialize_freed X s)"

text \<open>The destructor; its result is what it frees.\<close>

definition blob_destroy :: "blob \<Rightarrow> byte list option" where
  "blob_destroy b = snd (blob_Clear b)"

lemmas blob_ops = blob_from_def blob_sized_def blob_copy_def blob_move_def blob_Clear_def blob_assign_def
  blob_move_assign_def blob_Reset_def blob_release_def sized_data_def empty_blob_def

text \<open>A blob owns a buffer of exactly its size, or nothing. Its abstract value is a byte string.\<close>

definition blob_ok :: "blob \<Rightarrow> bool" where
  "blob_ok b = (case blob_data b of None \<Rightarrow> blob_size b = 0 | Some d \<Rightarrow> length d = blob_size b)"

definition blob_bytes :: "blob \<Rightarrow> byte list" where
  "blob_bytes b = (case blob_data b of None \<Rightarrow> [] | Some d \<Rightarrow> d)"

lemma blob_ok_cases:
  assumes "blob_ok b"
  obtains "blob_data b = None" "blob_size b = 0" "blob_bytes b = []"
  | d where "blob_data b = Some d" "blob_size b = length d" "blob_bytes b = d"
  using assms by (auto simp: blob_ok_def blob_bytes_def split: option.splits)

lemma length_blob_bytes [simp]: "blob_ok b \<Longrightarrow> length (blob_bytes b) = blob_size b"
  by (auto elim: blob_ok_cases)

lemma mem_read_blob [simp]: "blob_ok b \<Longrightarrow> mem_read (blob_data b) (blob_size b) = Some (blob_bytes b)"
  by (auto simp: mem_read_def elim: blob_ok_cases)

lemma mem_read_length: "mem_read p n = Some d \<Longrightarrow> length d = n"
  by (auto simp: mem_read_def split: if_splits option.splits)

text \<open>The contract of \<open>dup_buffer\<close>: null when the allocation fails, a copy otherwise.\<close>

locale buffer_dup =
  fixes dup :: "byte list option \<Rightarrow> nat \<Rightarrow> byte list option"
  assumes dup_copy: "dup p n = None \<or> dup p n = mem_read p n"
begin

lemma dup_length: "dup p n = Some d \<Longrightarrow> length d = n"
  using dup_copy [of p n] mem_read_length by fastforce

lemma copy_ok: "blob_ok (sized_data (dup p n) n)"
  by (auto simp: blob_ok_def sized_data_def dup_length split: option.splits)

lemma copy_value:
  "mem_read p n = Some d \<Longrightarrow> blob_bytes (sized_data (dup p n) n) = (if dup p n = None then [] else d)"
  using dup_copy [of p n] by (auto simp: blob_bytes_def sized_data_def)

text \<open>The copy constructor is safe; the copy assignment only when the allocation succeeds.\<close>

lemma copy_constructed: "blob_ok (blob_copy dup b)"
  unfolding blob_copy_def by (rule copy_ok)

lemma copy_constructed_value:
  "blob_ok b \<Longrightarrow> blob_bytes (blob_copy dup b) = (if dup (blob_data b) (blob_size b) = None then [] else blob_bytes b)"
  unfolding blob_copy_def by (rule copy_value) simp

lemma assign_ok_iff:
  "blob_ok (fst (blob_assign dup False this b)) \<longleftrightarrow>
   (dup (blob_data b) (blob_size b) \<noteq> None \<or> blob_size b = 0)"
  by (auto simp: blob_assign_def blob_Clear_def blob_ok_def dup_length split: option.splits)

lemma assign_value:
  assumes "blob_ok b" and "dup (blob_data b) (blob_size b) \<noteq> None"
  shows "blob_bytes (fst (blob_assign dup False this b)) = blob_bytes b"
proof -
  from assms dup_copy [of "blob_data b" "blob_size b"]
  have "dup (blob_data b) (blob_size b) = Some (blob_bytes b)" by auto
  then show ?thesis by (simp add: blob_assign_def Let_def blob_bytes_def split: prod.splits)
qed

end

definition malloc_dup :: "(nat \<Rightarrow> bool) \<Rightarrow> byte list option \<Rightarrow> nat \<Rightarrow> byte list option" where
  "malloc_dup alloc p n = (if alloc n then mem_read p n else None)"

interpretation malloc: buffer_dup "malloc_dup alloc" for alloc
  by unfold_locales (auto simp: malloc_dup_def)

lemma Clear_wipes:
  "blob_ok b \<Longrightarrow> blob_Clear b = (empty_blob, map_option (\<lambda>d. replicate (length d) 0) (blob_data b))"
  by (cases b) (auto simp: blob_Clear_def memset_s_def empty_blob_def blob_ok_def split: option.splits)

lemma empty_blob_ok [simp]: "blob_ok empty_blob"
  by (simp add: blob_ok_def empty_blob_def)

lemma blob_bytes_empty [simp]: "blob_bytes empty_blob = []"
  by (simp add: blob_bytes_def empty_blob_def)

lemma blob_move_ok:
  "blob_ok rhs \<Longrightarrow> blob_ok (fst (blob_move rhs)) \<and> snd (blob_move rhs) = empty_blob \<and>
     blob_bytes (fst (blob_move rhs)) = blob_bytes rhs"
  by (cases rhs) (simp add: blob_ops blob_ok_def blob_bytes_def)

text \<open>The wire format of a blob. Only blobs below four gigabytes are sent faithfully.\<close>

definition blob_wire :: "blob \<Rightarrow> byte list" where
  "blob_wire b = le32 (of_nat (blob_size b)) @ blob_bytes b"

definition blob_wf :: "blob \<Rightarrow> bool" where
  "blob_wf b \<longleftrightarrow> blob_ok b \<and> blob_size b < 2 ^ 32"

definition blob_recv :: "byte list option \<Rightarrow> blob \<Rightarrow> blob \<Rightarrow> blob" where
  "blob_recv E old b = \<lparr>blob_data = (if blob_size b = 0 then E else blob_data b), blob_size = blob_size b\<rparr>"

lemma blob_recv_bytes: "E = None \<or> E = Some [] \<Longrightarrow> blob_ok b \<Longrightarrow>
   blob_ok (blob_recv E old b) \<and> blob_bytes (blob_recv E old b) = blob_bytes b"
  by (auto simp: blob_recv_def blob_ok_def blob_bytes_def split: option.splits)

lemma length_blob_wire [simp, wire_simps]: "blob_ok b \<Longrightarrow> length (blob_wire b) = 4 + blob_size b"
  by (simp add: blob_wire_def)

text \<open>The contract of \<open>Serializable\<close>, for blobs over any byte stream that behaves as documented.\<close>

context byte_io
begin

lemma blob_writes: "blob_ok b \<Longrightarrow> writes (blob_Serialize X b) (blob_wire b)"
  using append_size_and_data_writes [of "blob_data b" "blob_size b"]
  by (simp add: blob_Serialize_def [abs_def] blob_wire_def)

lemma blob_bounded: "blob_ok b \<Longrightarrow> bounded (blob_Serialize X b)"
  using append_size_and_data_bounded [of "blob_data b" "blob_size b"]
  by (simp add: blob_Serialize_def [abs_def])

lemma read_blob:
  assumes "blob_wf b"
  shows "blob_Deserialize X (old, rcur a (blob_wire b @ rest) f) =
           (True, blob_recv E old b, rcur (a + of_nat (length (blob_wire b))) rest f)"
proof -
  have len: "length (blob_bytes b) = blob_size b" "blob_size b < 2 ^ 32" "blob_ok b"
    using assms by (simp_all add: blob_wf_def)
  have "copy_size_and_data_from_buf X (rcur a (le32 (of_nat (length (blob_bytes b))) @ blob_bytes b @ rest) f) =
      (True, length (blob_bytes b), if blob_bytes b = [] then E else Some (blob_bytes b),
       r_adv (4 + length (blob_bytes b)) (rcur a (le32 (of_nat (length (blob_bytes b))) @ blob_bytes b @ rest) f))"
    using len(1,2) by (intro data_enough) simp_all
  moreover have "(if blob_bytes b = [] then E else Some (blob_bytes b)) =
      (if blob_size b = 0 then E else blob_data b)"
    using len by (auto elim: blob_ok_cases)
  ultimately show ?thesis
    using len(1,3) by (simp add: blob_Deserialize_def blob_Deserialize_freed_def blob_wire_def blob_recv_def blob_Clear_def)
qed

text \<open>A blob that does not fit in what is left is refused, and the receiver is then empty.\<close>

lemma read_blob_short:
  assumes "length (r_bytes r) < 4 \<or> length (r_bytes r) < 4 + unat (un_le32 (take 4 (r_bytes r)))"
  shows "\<exists>r'. blob_Deserialize X (old, r) = (False, empty_blob, r')"
  using data_short [OF assms]
  by (cases old) (auto simp: blob_Deserialize_def blob_Deserialize_freed_def blob_Clear_def empty_blob_def Let_def split: prod.splits)

lemma blob_parses: 
  assumes "blob_wf b"
  shows "parses (blob_Deserialize X) (blob_wire b) (\<lambda>old. blob_recv E old b)"
  unfolding parses_def
proof (intro conjI allI impI)
  fix old a q f
  assume "strict_prefix q (blob_wire b)"
  then have "length q < 4 \<or> length q < 4 + unat (un_le32 (take 4 q))"
    unfolding blob_wire_def
  proof (cases rule: strict_prefix_append_cases)
    case 1
    then show ?thesis using strict_prefix_le by fastforce
  next
    case (2 q')
    moreover have "unat (of_nat (blob_size b) :: u32) = blob_size b"
      using assms by (intro unat_of_nat_small) (simp add: blob_wf_def)
    ultimately show ?thesis
      using assms strict_prefix_le [OF 2(2)] by (simp add: blob_wf_def)
  qed
  then show "\<not> fst (blob_Deserialize X (old, rcur a q f))"
    using read_blob_short [of "rcur a q f" old] by auto
qed (rule read_blob [OF assms])

lemma blob_guarded: "guarded (blob_Deserialize X)"
  unfolding guarded_def
proof (intro allI impI)
  fix old r
  show "\<exists>k \<le> length (r_bytes r). snd (snd (blob_Deserialize X (old, r))) = r_adv k r"
    using data_in_bounds [of r] by (auto simp: blob_Deserialize_def blob_Deserialize_freed_def Let_def split: prod.splits)
qed

end

sublocale byte_io \<subseteq> blob: sized_serializable "blob_Serialize X" "blob_Deserialize X" blob_wire blob_wf
    "blob_recv E" blob_SerializedSize
  by unfold_locales
    (simp_all add: blob_writes blob_bounded blob_parses blob_guarded blob_wf_def blob_SerializedSize_def)

section \<open>CertificateChain\<close>

record cert_chain =
  entries :: "blob list option"
  entry_count :: nat

definition empty_chain :: cert_chain where
  "empty_chain = \<lparr>entries = None, entry_count = 0\<rparr>"

definition chain_sized :: "(nat \<Rightarrow> bool) \<Rightarrow> nat \<Rightarrow> cert_chain" where
  "chain_sized alloc n =
     (if \<not> alloc n then empty_chain
      else \<lparr>entries = Some (replicate n empty_blob), entry_count = n\<rparr>)"

text \<open>The cleared chain and the certificate buffers that were freed.\<close>

definition chain_Clear :: "cert_chain \<Rightarrow> cert_chain \<times> byte list list" where
  "chain_Clear c =
     (c\<lparr>entry_count := 0, entries := None\<rparr>,
      case entries c of None \<Rightarrow> []
      | Some es \<Rightarrow> List.map_filter blob_data (take (entry_count c) es))"

definition chain_move_assign :: "bool \<Rightarrow> cert_chain \<Rightarrow> cert_chain \<Rightarrow> cert_chain \<times> cert_chain \<times> byte list list" where
  "chain_move_assign same this other =
     (let (this1, freed) = chain_Clear this;
          other1 = (if same then this1 else other);
          this2 = \<lparr>entries = entries other1, entry_count = entry_count other1\<rparr>
      in if same then (empty_chain, empty_chain, freed) else (this2, empty_chain, freed))"

definition chain_move :: "cert_chain \<Rightarrow> cert_chain \<times> cert_chain" where
  "chain_move other = (let (this, other', _) = chain_move_assign False empty_chain other in (this, other'))"

text \<open>
  The loop of \<open>clone\<close>: \<open>alloc i n\<close> says whether the allocation of \<open>n\<close> bytes for entry \<open>i\<close>
  succeeds, \<open>done\<close> are the entries cloned so far. The outer \<open>None\<close> is an access through a null
  pointer; \<open>Inl\<close> is the early return, with the buffers that the destructor of \<open>retval\<close> frees.
\<close>

fun clone_loop :: "(nat \<Rightarrow> nat \<Rightarrow> bool) \<Rightarrow> nat \<Rightarrow> blob list \<Rightarrow> blob list \<Rightarrow> (byte list list + blob list) option" where
  "clone_loop alloc i [] cloned = Some (Inr cloned)"
| "clone_loop alloc i (e # es) cloned =
     (if \<not> alloc i (blob_size e) then Some (Inl (List.map_filter blob_data cloned))
      else case mem_read (blob_data e) (blob_size e) of
        None \<Rightarrow> None
      | Some d \<Rightarrow> clone_loop alloc (Suc i) es (cloned @ [\<lparr>blob_data = Some d, blob_size = blob_size e\<rparr>]))"

definition chain_clone ::
    "(nat \<Rightarrow> bool) \<Rightarrow> (nat \<Rightarrow> nat \<Rightarrow> bool) \<Rightarrow> cert_chain \<Rightarrow> (cert_chain \<times> byte list list) option" where
  "chain_clone alloc alloc_entry other =
     (if \<not> alloc (entry_count other) then Some (empty_chain, [])
      else case entries other of
        None \<Rightarrow> (if entry_count other = 0 then Some (\<lparr>entries = Some [], entry_count = 0\<rparr>, []) else None)
      | Some es \<Rightarrow>
          if length es < entry_count other then None
          else case clone_loop alloc_entry 0 (take (entry_count other) es) [] of
            None \<Rightarrow> None
          | Some (Inl freed) \<Rightarrow> Some (empty_chain, freed)
          | Some (Inr cloned) \<Rightarrow> Some (\<lparr>entries = Some cloned, entry_count = entry_count other\<rparr>, []))"

definition chain_bool :: "cert_chain \<Rightarrow> bool" where
  "chain_bool c \<longleftrightarrow> entries c \<noteq> None"

definition chain_push_front :: "(nat \<Rightarrow> bool) \<Rightarrow> blob \<Rightarrow> cert_chain \<Rightarrow> bool \<times> cert_chain" where
  "chain_push_front alloc new_entry c =
     (if \<not> alloc (entry_count c + 1) then (False, c)
      else (True, c\<lparr>entries := Some (new_entry # (case entries c of None \<Rightarrow> [] | Some es \<Rightarrow> take (entry_count c) es)),
                    entry_count := entry_count c + 1\<rparr>))"

definition chain_release :: "cert_chain \<Rightarrow> cert_chain \<times> cert_chain" where
  "chain_release c = (\<lparr>entries = entries c, entry_count = entry_count c\<rparr>, c\<lparr>entries := None, entry_count := 0\<rparr>)"

lemmas chain_ops = chain_sized_def chain_Clear_def chain_move_assign_def chain_move_def chain_push_front_def
  chain_release_def chain_bool_def empty_chain_def

definition chain_ok :: "cert_chain \<Rightarrow> bool" where
  "chain_ok c = (case entries c of None \<Rightarrow> entry_count c = 0
     | Some es \<Rightarrow> length es = entry_count c \<and> list_all blob_ok es)"

definition chain_certs :: "cert_chain \<Rightarrow> byte list list" where
  "chain_certs c = (case entries c of None \<Rightarrow> [] | Some es \<Rightarrow> List.map blob_bytes es)"

lemma chain_ops_ok:
  "chain_ok empty_chain" "chain_ok (chain_sized alloc n)"
  "chain_ok (fst (chain_Clear c))"
  "chain_ok c \<Longrightarrow> blob_ok e \<Longrightarrow> chain_ok (snd (chain_push_front alloc e c))"
  "chain_ok c \<Longrightarrow> chain_ok (fst (chain_move c))"
  by (auto simp: chain_ok_def chain_ops list_all_iff split: option.splits)

lemma chain_push_front_certs:
  "chain_ok c \<Longrightarrow> chain_push_front alloc e c = (ok, c') \<Longrightarrow>
     chain_certs c' = (if ok then blob_bytes e # chain_certs c else chain_certs c)"
  by (auto simp: chain_ok_def chain_certs_def chain_ops split: option.splits if_splits)

lemma clone_loop_ok:
  assumes "list_all blob_ok es" and "list_all blob_ok cloned"
  shows "\<exists>res. clone_loop alloc i es cloned = Some res \<and>
    (case res of
       Inl freed \<Rightarrow> (\<exists>j < length es. \<not> alloc (i + j) (blob_size (es ! j)))
     | Inr out \<Rightarrow> list_all blob_ok out \<and>
         List.map blob_bytes out = List.map blob_bytes cloned @ List.map blob_bytes es)"
  using assms
proof (induction es arbitrary: i cloned)
  case Nil
  then show ?case by simp
next
  case (Cons e es)
  show ?case
  proof (cases "alloc i (blob_size e)")
    case False
    then show ?thesis by (auto intro!: exI [of _ 0])
  next
    case True
    let ?e = "\<lparr>blob_data = Some (blob_bytes e), blob_size = blob_size e\<rparr>"
    have e: "blob_ok ?e" "blob_bytes ?e = blob_bytes e"
      using Cons.prems(1) by (simp_all add: blob_ok_def [of ?e] blob_bytes_def [of ?e])
    obtain res where res: "clone_loop alloc (Suc i) es (cloned @ [?e]) = Some res"
      and cases: "case res of
       Inl freed \<Rightarrow> (\<exists>j < length es. \<not> alloc (Suc i + j) (blob_size (es ! j)))
     | Inr out \<Rightarrow> list_all blob_ok out \<and>
         List.map blob_bytes out = List.map blob_bytes (cloned @ [?e]) @ List.map blob_bytes es"
      using Cons.IH [of "cloned @ [?e]" "Suc i"] Cons.prems e(1) by auto
    from cases have "case res of
       Inl freed \<Rightarrow> (\<exists>j < length (e # es). \<not> alloc (i + j) (blob_size ((e # es) ! j)))
     | Inr out \<Rightarrow> list_all blob_ok out \<and>
         List.map blob_bytes out = List.map blob_bytes cloned @ List.map blob_bytes (e # es)"
      using e(2) by (cases res) (auto intro: exI [of _ "Suc j" for j])
    with res True Cons.prems(1) show ?thesis by auto
  qed
qed

section \<open>Constants\<close>

definition kUndefinedExpirationDateTime :: int where
  "kUndefinedExpirationDateTime = 253402300799000"

definition kConfirmationTokenSize :: nat where
  "kConfirmationTokenSize = 32"

definition kConfirmationTokenMessageTag :: string where
  "kConfirmationTokenMessageTag = ''confirmation token''"

definition kConfirmationTokenMessageTagSize :: nat where
  "kConfirmationTokenMessageTagSize = (length kConfirmationTokenMessageTag + 1) - 1"

definition kConfirmationMessageMaxSize :: nat where
  "kConfirmationMessageMaxSize = 6144"

text \<open>The undefined expiration date is the last second of the year 9999 in milliseconds.\<close>

lemma undefined_expiration_is_java_time:
  "java_time 253402300799 = Some kUndefinedExpirationDateTime"
  by (simp add: java_time_def kUndefinedExpirationDateTime_def)

section \<open>Properties\<close>

text \<open>\<open>ntoh\<close> and \<open>hton\<close> are inverse to each other on every unsigned type of whole bytes, whatever
  the uninitialised result held.\<close>

theorem ntoh_hton_inverse:
  fixes t :: "'a::len word"
  assumes "LENGTH('a) = 8 * n" and "length junk = n"
  shows "ntoh (hton junk t) = t \<and> hton junk (ntoh t) = t"
proof -
  have "sizeof u = n" for u :: "'a word"
    using assms(1) by (simp add: sizeof_def)
  with assms show ?thesis
    by (simp add: ntoh_rev hton_rev rev_bytes_involution)
qed

lemma ntoh_hton_inverse_witness:
  "ntoh (hton [1, 2, 3, 4] (0x01020304 :: u32)) = 0x01020304 \<and> hton [1, 2, 3, 4] (ntoh (0x01020304 :: u32)) = 0x01020304"
  by (rule ntoh_hton_inverse [of 4]) simp_all

text \<open>C12 Every buffer that a blob frees, in \<open>Clear\<close>, in its destructor, when another blob is copied or moved
  into it, in \<open>Reset\<close> and in \<open>Deserialize\<close>, is zero in all its bytes when it is freed; assigning a blob to itself
  frees nothing and leaves it as it is.\<close>

theorem blob_freed_wiped:
  assumes "blob_ok b"
  shows "blob_Clear b = (empty_blob, map_option (\<lambda>d. replicate (length d) 0) (blob_data b))
    \<and> blob_destroy b = map_option (\<lambda>d. replicate (length d) 0) (blob_data b)
    \<and> snd (blob_assign dup False b c) = map_option (\<lambda>d. replicate (length d) 0) (blob_data b)
    \<and> snd (snd (blob_move_assign False b c)) = map_option (\<lambda>d. replicate (length d) 0) (blob_data b)
    \<and> snd (snd (blob_Reset fresh n b)) = map_option (\<lambda>d. replicate (length d) 0) (blob_data b)
    \<and> snd (blob_Deserialize_freed X (b, r)) = map_option (\<lambda>d. replicate (length d) 0) (blob_data b)
    \<and> blob_assign dup True b b = (b, None) \<and> blob_move_assign True b b = (b, b, None)"
  using assms by (simp add: Clear_wipes blob_destroy_def blob_assign_def blob_move_assign_def blob_Reset_def
      blob_Deserialize_freed_def Let_def split: prod.splits)

lemma blob_freed_wiped_witness:
  "blob_Clear \<lparr>blob_data = Some [7, 8], blob_size = 2\<rparr> = (empty_blob, Some [0, 0])
   \<and> snd (blob_Deserialize_freed doc_io (\<lparr>blob_data = Some [7, 8], blob_size = 2\<rparr>, rcur 4096 [1, 0, 0, 0, 9] False))
     = Some [0, 0]"
  using blob_freed_wiped [of "\<lparr>blob_data = Some [7, 8], blob_size = 2\<rparr>"]
  by (simp add: blob_ok_def numeral_2_eq_2)

text \<open>C28 \<open>CertificateChain::clone\<close> of a valid chain never reads through a null pointer, and gives
  either an empty chain, after an allocation that failed, or a valid chain with the same
  certificates in the same order.\<close>

theorem chain_clone_correct:
  assumes "chain_ok c"
  shows "\<exists>c' freed. chain_clone alloc alloc_entry c = Some (c', freed) \<and> chain_ok c' \<and>
    (c' = empty_chain \<and>
       (\<not> alloc (entry_count c) \<or> (\<exists>j < entry_count c. \<not> alloc_entry j (blob_size (the (entries c) ! j))))
     \<or> chain_certs c' = chain_certs c \<and> freed = [])"
proof (cases "entries c")
  case None
  with assms show ?thesis
    by (auto simp: chain_clone_def chain_ok_def chain_certs_def empty_chain_def)
next
  case (Some es)
  with assms have es: "length es = entry_count c" "list_all blob_ok es"
    by (simp_all add: chain_ok_def)
  from clone_loop_ok [OF es(2), of "[]" alloc_entry 0] obtain res where
    res: "clone_loop alloc_entry 0 es [] = Some res"
    and cases: "case res of Inl freed \<Rightarrow> (\<exists>j < length es. \<not> alloc_entry j (blob_size (es ! j)))
      | Inr out \<Rightarrow> list_all blob_ok out \<and> List.map blob_bytes out = List.map blob_bytes es"
    by (auto cong: sum.case_cong simp del: ex_simps)
  show ?thesis
  proof (cases res)
    case (Inl freed)
    with cases obtain j where "j < entry_count c" "\<not> alloc_entry j (blob_size (the (entries c) ! j))"
      using Some es(1) by auto
    with Inl Some es(1) res show ?thesis
      by (auto simp: chain_clone_def chain_ops_ok)
  next
    case (Inr out)
    with cases have out: "list_all blob_ok out" "List.map blob_bytes out = List.map blob_bytes es" by simp_all
    from out(2) have "length out = length es" by (rule map_eq_imp_length_eq)
    with out Inr Some es(1) res show ?thesis
      by (simp add: chain_clone_def chain_ok_def chain_certs_def empty_chain_def)
  qed
qed

lemma chain_clone_correct_witness:
  "\<exists>c' freed. chain_clone (\<lambda>_. True) (\<lambda>_ _. True)
      \<lparr>entries = Some [\<lparr>blob_data = Some [7, 8], blob_size = 2\<rparr>], entry_count = 1\<rparr> = Some (c', freed)
    \<and> chain_certs c' = [[7, 8]]"
  using chain_clone_correct [of "\<lparr>entries = Some [\<lparr>blob_data = Some [7, 8], blob_size = 2\<rparr>], entry_count = 1\<rparr>"
      "\<lambda>_. True" "\<lambda>_ _. True"]
  by (auto simp: chain_ok_def blob_ok_def chain_certs_def blob_bytes_def)

end
