(* ===== verification/MsgTypes.thy ===== *)
theory MsgTypes
  imports KmUtils
begin

text \<open>
  The parts of \<open>keymaster/android_keymaster_messages.h\<close> that the messages are built from: the command
  numbers, the Keymaster versions of \<open>keymaster/km_version.h\<close> and their message versions, the base
  classes, the class \<open>Buffer\<close> of \<open>keymaster/serializable.h\<close> and the structures that messages carry.

  Several of these classes have their \<open>Serialize\<close> and \<open>Deserialize\<close> in \<open>.cpp\<close> files outside the
  repository (\<open>Buffer\<close>, \<open>AuthorizationSet\<close>, \<open>HardwareAuthToken\<close>, \<open>VerificationToken\<close>,
  \<open>HmacSharingParameters\<close>). A message that carries one is modelled over a \<open>codec\<close>: the three
  functions of that class, whose contract is the comment of the class \<open>Serializable\<close>.
\<close>

section \<open>Commands and versions\<close>

datatype AndroidKeymasterCommand =
    GENERATE_KEY | BEGIN_OPERATION | UPDATE_OPERATION | FINISH_OPERATION | ABORT_OPERATION
  | IMPORT_KEY | EXPORT_KEY | GET_VERSION | ADD_RNG_ENTROPY | GET_SUPPORTED_ALGORITHMS
  | GET_SUPPORTED_BLOCK_MODES | GET_SUPPORTED_PADDING_MODES | GET_SUPPORTED_DIGESTS
  | GET_SUPPORTED_IMPORT_FORMATS | GET_SUPPORTED_EXPORT_FORMATS | GET_KEY_CHARACTERISTICS
  | ATTEST_KEY | UPGRADE_KEY | CONFIGURE | GET_HMAC_SHARING_PARAMETERS | COMPUTE_SHARED_HMAC
  | VERIFY_AUTHORIZATION | DELETE_KEY | DELETE_ALL_KEYS | DESTROY_ATTESTATION_IDS
  | IMPORT_WRAPPED_KEY | EARLY_BOOT_ENDED | DEVICE_LOCKED | GET_VERSION_2 | GENERATE_RKP_KEY
  | GENERATE_CSR | GENERATE_TIMESTAMP_TOKEN | CONFIGURE_VENDOR_PATCHLEVEL
  | CONFIGURE_BOOT_PATCHLEVEL | CONFIGURE_VERIFIED_BOOT_INFO | GET_ROOT_OF_TRUST | GET_HW_INFO
  | GENERATE_CSR_V2 | SET_ATTESTATION_IDS | SET_ATTESTATION_IDS_KM3

fun command_val :: "AndroidKeymasterCommand \<Rightarrow> u32" where
  "command_val GENERATE_KEY = 0"
| "command_val BEGIN_OPERATION = 1"
| "command_val UPDATE_OPERATION = 2"
| "command_val FINISH_OPERATION = 3"
| "command_val ABORT_OPERATION = 4"
| "command_val IMPORT_KEY = 5"
| "command_val EXPORT_KEY = 6"
| "command_val GET_VERSION = 7"
| "command_val ADD_RNG_ENTROPY = 8"
| "command_val GET_SUPPORTED_ALGORITHMS = 9"
| "command_val GET_SUPPORTED_BLOCK_MODES = 10"
| "command_val GET_SUPPORTED_PADDING_MODES = 11"
| "command_val GET_SUPPORTED_DIGESTS = 12"
| "command_val GET_SUPPORTED_IMPORT_FORMATS = 13"
| "command_val GET_SUPPORTED_EXPORT_FORMATS = 14"
| "command_val GET_KEY_CHARACTERISTICS = 15"
| "command_val ATTEST_KEY = 16"
| "command_val UPGRADE_KEY = 17"
| "command_val CONFIGURE = 18"
| "command_val GET_HMAC_SHARING_PARAMETERS = 19"
| "command_val COMPUTE_SHARED_HMAC = 20"
| "command_val VERIFY_AUTHORIZATION = 21"
| "command_val DELETE_KEY = 22"
| "command_val DELETE_ALL_KEYS = 23"
| "command_val DESTROY_ATTESTATION_IDS = 24"
| "command_val IMPORT_WRAPPED_KEY = 25"
| "command_val EARLY_BOOT_ENDED = 26"
| "command_val DEVICE_LOCKED = 27"
| "command_val GET_VERSION_2 = 28"
| "command_val GENERATE_RKP_KEY = 29"
| "command_val GENERATE_CSR = 30"
| "command_val GENERATE_TIMESTAMP_TOKEN = 31"
| "command_val CONFIGURE_VENDOR_PATCHLEVEL = 32"
| "command_val CONFIGURE_BOOT_PATCHLEVEL = 33"
| "command_val CONFIGURE_VERIFIED_BOOT_INFO = 34"
| "command_val GET_ROOT_OF_TRUST = 35"
| "command_val GET_HW_INFO = 36"
| "command_val GENERATE_CSR_V2 = 37"
| "command_val SET_ATTESTATION_IDS = 38"
| "command_val SET_ATTESTATION_IDS_KM3 = 39"

lemma command_val_bound: "command_val c < 40"
  by (cases c) simp_all

datatype KmVersion = KEYMASTER_1 | KEYMASTER_1_1 | KEYMASTER_2 | KEYMASTER_3 | KEYMASTER_4
  | KEYMASTER_4_1 | KEYMINT_1 | KEYMINT_2 | KEYMINT_3

fun KmVersion_val :: "KmVersion \<Rightarrow> int" where
  "KmVersion_val KEYMASTER_1 = 10"
| "KmVersion_val KEYMASTER_1_1 = 11"
| "KmVersion_val KEYMASTER_2 = 20"
| "KmVersion_val KEYMASTER_3 = 30"
| "KmVersion_val KEYMASTER_4 = 40"
| "KmVersion_val KEYMASTER_4_1 = 41"
| "KmVersion_val KEYMINT_1 = 100"
| "KmVersion_val KEYMINT_2 = 200"
| "KmVersion_val KEYMINT_3 = 300"

definition kInvalidMessageVersion :: int where
  "kInvalidMessageVersion = - 1"

definition kMaxMessageVersion :: int where
  "kMaxMessageVersion = 4"

definition kDefaultMessageVersion :: int where
  "kDefaultMessageVersion = 3"

text \<open>A variable of the enumeration can hold any \<open>int\<close>, so the switch is on the number.\<close>

definition MessageVersion :: "int \<Rightarrow> int" where
  "MessageVersion version =
     (if version = KmVersion_val KEYMASTER_1 then 1
      else if version = KmVersion_val KEYMASTER_1_1 then 2
      else if version \<in> {KmVersion_val KEYMASTER_2, KmVersion_val KEYMASTER_3,
                          KmVersion_val KEYMASTER_4, KmVersion_val KEYMASTER_4_1} then 3
      else if version \<in> {KmVersion_val KEYMINT_1, KmVersion_val KEYMINT_2, KmVersion_val KEYMINT_3} then 4
      else kInvalidMessageVersion)"

lemma KmVersion_val_inject [simp]: "KmVersion_val v = KmVersion_val w \<longleftrightarrow> v = w"
  by (cases v; cases w) simp_all

lemma MessageVersion_supported: "1 \<le> MessageVersion (KmVersion_val v) \<and> MessageVersion (KmVersion_val v) \<le> kMaxMessageVersion"
  by (cases v) (simp_all add: MessageVersion_def kMaxMessageVersion_def)

lemma MessageVersion_mono:
  "KmVersion_val v \<le> KmVersion_val w \<Longrightarrow> MessageVersion (KmVersion_val v) \<le> MessageVersion (KmVersion_val w)"
  by (cases v; cases w) (simp_all add: MessageVersion_def)

section \<open>Base classes\<close>

text \<open>
  The version of a message is set once by its constructor. \<open>None\<close> is the failed assertion that the
  version is not negative.
\<close>

record keymaster_message =
  message_version :: int

definition KeymasterMessage :: "int \<Rightarrow> keymaster_message option" where
  "KeymasterMessage ver = (if ver \<ge> 0 then Some \<lparr>message_version = ver\<rparr> else None)"

definition KM_ERROR_OK :: u32 where
  "KM_ERROR_OK = 0"

record keymaster_response = keymaster_message +
  error :: u32

text \<open>
  The codes \<open>KM_ERROR_UNKNOWN_ERROR\<close> and \<open>KM_ERROR_MEMORY_ALLOCATION_FAILED\<close> are defined in
  \<open>hardware/keymaster_defs.h\<close>, outside the repository, and are arguments where they are used.
\<close>

definition KeymasterResponse :: "u32 \<Rightarrow> int \<Rightarrow> keymaster_response option" where
  "KeymasterResponse unknown_error ver =
     map_option (\<lambda>m. \<lparr>message_version = message_version m, error = unknown_error\<rparr>) (KeymasterMessage ver)"

lemma no_message_of_unknown_version:
  "KeymasterMessage (MessageVersion v) = None \<longleftrightarrow> v \<notin> range KmVersion_val"
proof
  assume "KeymasterMessage (MessageVersion v) = None"
  then have "MessageVersion v < 0" by (simp add: KeymasterMessage_def split: if_splits)
  then show "v \<notin> range KmVersion_val"
    using MessageVersion_supported by (metis imageE not_le order.trans zero_le_one linorder_not_le)
next
  assume none: "v \<notin> range KmVersion_val"
  then have "v \<noteq> KmVersion_val w" for w by blast
  then show "KeymasterMessage (MessageVersion v) = None"
    by (simp add: MessageVersion_def KeymasterMessage_def kInvalidMessageVersion_def del: KmVersion_val.simps)
qed

section \<open>Buffer\<close>

record buffer =
  buffer_data :: "byte list option"
  buffer_size :: nat
  read_position :: nat
  write_position :: nat

definition empty_buffer :: buffer where
  "empty_buffer = \<lparr>buffer_data = None, buffer_size = 0, read_position = 0, write_position = 0\<rparr>"

text \<open>The first argument says that both operands are the same object.\<close>

definition Buffer_move_assign :: "bool \<Rightarrow> buffer \<Rightarrow> buffer \<Rightarrow> buffer \<times> buffer" where
  "Buffer_move_assign same this other =
     (if same then (this, other)
      else (this\<lparr>buffer_data := buffer_data other, buffer_size := buffer_size other,
                 read_position := read_position other, write_position := write_position other\<rparr>,
            other\<lparr>buffer_data := None, buffer_size := 0, read_position := 0, write_position := 0\<rparr>))"

text \<open>The move constructor assigns to members that hold anything.\<close>

definition Buffer_move :: "buffer \<Rightarrow> buffer \<Rightarrow> buffer \<times> buffer" where
  "Buffer_move uninit b = Buffer_move_assign False (uninit\<lparr>buffer_data := None\<rparr>) b"

text \<open>A pointer into the buffer is its position, or \<open>None\<close> when there is no buffer.\<close>

definition peek_read :: "buffer \<Rightarrow> nat option" where
  "peek_read b = map_option (\<lambda>_. read_position b) (buffer_data b)"

definition peek_write :: "buffer \<Rightarrow> nat option" where
  "peek_write b = map_option (\<lambda>_. write_position b) (buffer_data b)"

text \<open>
  \<open>Reinitialize(const Buffer&)\<close> passes the readable part on; \<open>available_read\<close> and the other
  overload of \<open>Reinitialize\<close> are in \<open>serializable.cpp\<close>.
\<close>

definition Buffer_Reinitialize_copy ::
    "(byte list option \<Rightarrow> nat \<Rightarrow> buffer \<Rightarrow> bool \<times> buffer) \<Rightarrow> (buffer \<Rightarrow> nat) \<Rightarrow> buffer \<Rightarrow> buffer \<Rightarrow> bool \<times> buffer" where
  "Buffer_Reinitialize_copy reinitialize available_read b this =
     reinitialize (map_option (drop (read_position b)) (buffer_data b)) (available_read b) this"

definition buffer_ok :: "buffer \<Rightarrow> bool" where
  "buffer_ok b \<longleftrightarrow> read_position b \<le> write_position b \<and> write_position b \<le> buffer_size b \<and>
     (case buffer_data b of None \<Rightarrow> buffer_size b = 0 | Some d \<Rightarrow> length d = buffer_size b)"

lemma Buffer_move_ok:
  "buffer_ok b \<Longrightarrow> buffer_ok (fst (Buffer_move u b)) \<and> snd (Buffer_move u b) = empty_buffer
    \<and> fst (Buffer_move u b) = b"
  by (cases b; cases u) (simp add: Buffer_move_def Buffer_move_assign_def buffer_ok_def empty_buffer_def)

section \<open>Structures that messages carry\<close>

record 'f codec =
  c_size :: "'f \<Rightarrow> nat"
  c_ser :: "'f \<Rightarrow> wbuf \<Rightarrow> wbuf"
  c_des :: "'f \<times> rbuf \<Rightarrow> bool \<times> 'f \<times> rbuf"

text \<open>
  The structures \<open>HardwareAuthToken\<close> and \<open>VerificationToken\<close>, over the class \<open>'a\<close> of authorization
  sets. Their move constructors start from members with default values and hand \<open>mac\<close> on; the
  parameter set moves by its own move assignment, an argument.
\<close>

record hardware_auth_token =
  hat_challenge :: u64
  hat_user_id :: u64
  hat_authenticator_id :: u64
  hat_authenticator_type :: u32
  hat_timestamp :: u64
  hat_mac :: blob

definition km_HardwareAuthToken :: hardware_auth_token where
  "km_HardwareAuthToken = \<lparr>hat_challenge = 0, hat_user_id = 0, hat_authenticator_id = 0,
     hat_authenticator_type = 0, hat_timestamp = 0, hat_mac = empty_blob\<rparr>"

definition km_HardwareAuthToken_move :: "hardware_auth_token \<Rightarrow> hardware_auth_token \<times> hardware_auth_token" where
  "km_HardwareAuthToken_move other =
     (let this = km_HardwareAuthToken;
          (mac, other_mac, _) = blob_move_assign False (hat_mac this) (hat_mac other)
      in (this\<lparr>hat_challenge := hat_challenge other, hat_user_id := hat_user_id other,
               hat_authenticator_id := hat_authenticator_id other,
               hat_authenticator_type := hat_authenticator_type other,
               hat_timestamp := hat_timestamp other, hat_mac := mac\<rparr>,
          other\<lparr>hat_mac := other_mac\<rparr>))"

record 'a verification_token =
  vt_challenge :: u64
  vt_timestamp :: u64
  vt_parameters_verified :: 'a
  vt_security_level :: u32
  vt_mac :: blob

definition VerificationToken :: "'a \<Rightarrow> 'a verification_token" where
  "VerificationToken empty_set = \<lparr>vt_challenge = 0, vt_timestamp = 0, vt_parameters_verified = empty_set,
     vt_security_level = 0, vt_mac = empty_blob\<rparr>"

definition VerificationToken_move ::
    "'a \<Rightarrow> ('a \<Rightarrow> 'a \<Rightarrow> 'a \<times> 'a) \<Rightarrow> 'a verification_token \<Rightarrow> 'a verification_token \<times> 'a verification_token" where
  "VerificationToken_move empty_set move_assign other =
     (let this = VerificationToken empty_set;
          (params, other_params) = move_assign (vt_parameters_verified this) (vt_parameters_verified other);
          (mac, other_mac, _) = blob_move_assign False (vt_mac this) (vt_mac other)
      in (this\<lparr>vt_challenge := vt_challenge other, vt_timestamp := vt_timestamp other,
               vt_parameters_verified := params, vt_security_level := vt_security_level other,
               vt_mac := mac\<rparr>,
          other\<lparr>vt_parameters_verified := other_params, vt_mac := other_mac\<rparr>))"

lemma blob_move_assign_fresh:
  "blob_move_assign False empty_blob (b :: blob) = (b, empty_blob, None)"
  by (cases b) (simp add: blob_move_assign_def blob_Clear_def empty_blob_def Let_def)

lemma km_HardwareAuthToken_move_eq:
  "km_HardwareAuthToken_move other = (other, other\<lparr>hat_mac := empty_blob\<rparr>)"
  by (cases other) (simp add: km_HardwareAuthToken_move_def km_HardwareAuthToken_def blob_move_assign_fresh)

lemma VerificationToken_move_eq:
  assumes "move_assign empty_set (vt_parameters_verified other) = (vt_parameters_verified other, empty_set)"
  shows "VerificationToken_move empty_set move_assign other =
    (other, other\<lparr>vt_parameters_verified := empty_set, vt_mac := empty_blob\<rparr>)"
  using assms by (cases other) (simp add: VerificationToken_move_def VerificationToken_def blob_move_assign_fresh)

text \<open>The sharing parameters: a seed and a nonce of 32 bytes.\<close>

record hmac_sharing_parameters =
  hsp_seed :: blob
  hsp_nonce :: "byte list"

definition HmacSharingParameters :: hmac_sharing_parameters where
  "HmacSharingParameters = \<lparr>hsp_seed = empty_blob, hsp_nonce = replicate 32 0\<rparr>"

definition HmacSharingParameters_move ::
    "byte list \<Rightarrow> hmac_sharing_parameters \<Rightarrow> hmac_sharing_parameters \<times> hmac_sharing_parameters" where
  "HmacSharingParameters_move uninit other =
     (let (seed, other_seed, _) = blob_move_assign False empty_blob (hsp_seed other)
      in (\<lparr>hsp_seed = seed, hsp_nonce = take 32 (hsp_nonce other) @ drop 32 uninit\<rparr>,
          other\<lparr>hsp_seed := other_seed\<rparr>))"

definition HmacSharingParameters_SetSeed ::
    "blob \<Rightarrow> hmac_sharing_parameters \<Rightarrow> hmac_sharing_parameters \<times> blob" where
  "HmacSharingParameters_SetSeed value p =
     (let (seed, value', _) = blob_move_assign False (hsp_seed p) value in (p\<lparr>hsp_seed := seed\<rparr>, value'))"

record hmac_sharing_parameters_array =
  params_array :: "hmac_sharing_parameters list option"
  num_params :: nat

text \<open>
  The move constructor of the array deletes its own \<open>params_array\<close> before it has a value: \<open>uninit\<close> is
  whatever the member held. The second result is the pointer that is deleted.
\<close>

definition HmacSharingParametersArray_move ::
    "hmac_sharing_parameters list option \<Rightarrow> hmac_sharing_parameters_array \<Rightarrow>
     hmac_sharing_parameters_array \<times> hmac_sharing_parameters list option \<times> hmac_sharing_parameters_array" where
  "HmacSharingParametersArray_move uninit other =
     (\<lparr>params_array = params_array other, num_params = num_params other\<rparr>, uninit,
      other\<lparr>params_array := None, num_params := 0\<rparr>)"

end
