(* ===== verification/KmTags.thy ===== *)
theory KmTags
  imports KmUtils AidlEnums
begin

text \<open>
  \<open>keymaster/keymaster_tags.h\<close>: the typed tags of Keymaster. The numbers of tags and tag types, the
  structure \<open>keymaster_key_param_t\<close> and the functions \<open>keymaster_param_*\<close> that make one come from
  \<open>hardware/keymaster_defs.h\<close>, outside the repository; they are arguments here: \<open>type_code\<close>, \<open>tag_code\<close>, the
  type variable \<open>'p\<close> and the record \<open>param_fns\<close>. Template arguments are ordinary arguments, and a call
  that does not compile (no overload matches) is \<open>None\<close>.
\<close>

section \<open>Tag types and their values\<close>

datatype km_tag_type = KM_INVALID | KM_ENUM | KM_ENUM_REP | KM_UINT | KM_UINT_REP | KM_ULONG | KM_ULONG_REP | KM_DATE | KM_BOOL | KM_BIGNUM | KM_BYTES

text \<open>\<open>TagValueType\<close>: the C++ type of the values of a tag type; enumerations have no entry.\<close>

datatype km_value_type = T_uint64 | T_uint32 | T_void | T_bool | T_blob

primrec TagValueType :: "km_tag_type \<Rightarrow> km_value_type option" where
  "TagValueType KM_ULONG = Some T_uint64"
| "TagValueType KM_ULONG_REP = Some T_uint64"
| "TagValueType KM_DATE = Some T_uint64"
| "TagValueType KM_UINT = Some T_uint32"
| "TagValueType KM_UINT_REP = Some T_uint32"
| "TagValueType KM_INVALID = Some T_void"
| "TagValueType KM_BOOL = Some T_bool"
| "TagValueType KM_BYTES = Some T_blob"
| "TagValueType KM_BIGNUM = Some T_blob"
| "TagValueType KM_ENUM = None"
| "TagValueType KM_ENUM_REP = None"

text \<open>The assertions of the constructors of \<open>TypedTag\<close> and \<open>TypedEnumTag\<close>.\<close>

definition TypedTag_check :: "(km_tag_type \<Rightarrow> u32) \<Rightarrow> km_tag_type \<Rightarrow> u32 \<Rightarrow> bool" where
  "TypedTag_check type_code ty tag \<longleftrightarrow>
     and tag (type_code ty) = type_code ty \<and> ty \<noteq> KM_ENUM \<and> ty \<noteq> KM_ENUM_REP"

definition TypedEnumTag_check :: "(km_tag_type \<Rightarrow> u32) \<Rightarrow> km_tag_type \<Rightarrow> u32 \<Rightarrow> bool" where
  "TypedEnumTag_check type_code ty tag \<longleftrightarrow>
     and tag (type_code ty) = type_code ty \<and> (ty = KM_ENUM \<or> ty = KM_ENUM_REP)"

definition KM_TAG_DIGEST_OLD :: "(km_tag_type \<Rightarrow> u32) \<Rightarrow> u32" where
  "KM_TAG_DIGEST_OLD type_code = or (type_code KM_ENUM) 5"

definition KM_TAG_PADDING_OLD :: "(km_tag_type \<Rightarrow> u32) \<Rightarrow> u32" where
  "KM_TAG_PADDING_OLD type_code = or (type_code KM_ENUM) 7"

section \<open>The declared tags\<close>

datatype (plugins only:) km_tag =
    TAG_INVALID | TAG_KEY_SIZE | TAG_MAC_LENGTH | TAG_CALLER_NONCE | TAG_MIN_MAC_LENGTH
  | TAG_RSA_PUBLIC_EXPONENT | TAG_ECIES_SINGLE_HASH_MODE | TAG_INCLUDE_UNIQUE_ID | TAG_ACTIVE_DATETIME
  | TAG_ORIGINATION_EXPIRE_DATETIME | TAG_USAGE_EXPIRE_DATETIME | TAG_MIN_SECONDS_BETWEEN_OPS
  | TAG_MAX_USES_PER_BOOT | TAG_USAGE_COUNT_LIMIT | TAG_ALL_USERS | TAG_USER_ID | TAG_USER_SECURE_ID
  | TAG_NO_AUTH_REQUIRED | TAG_AUTH_TIMEOUT | TAG_ALLOW_WHILE_ON_BODY | TAG_UNLOCKED_DEVICE_REQUIRED
  | TAG_TRUSTED_CONFIRMATION_REQUIRED | TAG_ALL_APPLICATIONS | TAG_APPLICATION_ID | TAG_APPLICATION_DATA
  | TAG_CREATION_DATETIME | TAG_ROLLBACK_RESISTANCE | TAG_ROLLBACK_RESISTANT | TAG_ROOT_OF_TRUST
  | TAG_ASSOCIATED_DATA | TAG_NONCE | TAG_AUTH_TOKEN | TAG_BOOTLOADER_ONLY | TAG_OS_VERSION
  | TAG_OS_PATCHLEVEL | TAG_UNIQUE_ID | TAG_ATTESTATION_CHALLENGE | TAG_ATTESTATION_APPLICATION_ID
  | TAG_RESET_SINCE_ID_ROTATION | TAG_ATTESTATION_ID_BRAND | TAG_ATTESTATION_ID_DEVICE
  | TAG_ATTESTATION_ID_PRODUCT | TAG_ATTESTATION_ID_SERIAL | TAG_ATTESTATION_ID_IMEI
  | TAG_ATTESTATION_ID_SECOND_IMEI | TAG_ATTESTATION_ID_MEID | TAG_ATTESTATION_ID_MANUFACTURER
  | TAG_ATTESTATION_ID_MODEL | TAG_EARLY_BOOT_ONLY | TAG_DEVICE_UNIQUE_ATTESTATION
  | TAG_IDENTITY_CREDENTIAL_KEY | TAG_STORAGE_KEY | TAG_TRUSTED_USER_PRESENCE_REQUIRED
  | TAG_BOOT_PATCHLEVEL | TAG_VENDOR_PATCHLEVEL | TAG_CONFIRMATION_TOKEN | TAG_CERTIFICATE_SERIAL
  | TAG_CERTIFICATE_SUBJECT | TAG_CERTIFICATE_NOT_BEFORE | TAG_CERTIFICATE_NOT_AFTER | TAG_PURPOSE
  | TAG_ALGORITHM | TAG_BLOCK_MODE | TAG_DIGEST | TAG_DIGEST_OLD | TAG_PADDING | TAG_PADDING_OLD
  | TAG_BLOB_USAGE_REQUIREMENTS | TAG_ORIGIN | TAG_USER_AUTH_TYPE | TAG_KDF | TAG_EC_CURVE
  | TAG_RSA_OAEP_MGF_DIGEST

primrec declared_type :: "km_tag \<Rightarrow> km_tag_type" where
  "declared_type TAG_INVALID = KM_INVALID"
| "declared_type TAG_KEY_SIZE = KM_UINT"
| "declared_type TAG_MAC_LENGTH = KM_UINT"
| "declared_type TAG_CALLER_NONCE = KM_BOOL"
| "declared_type TAG_MIN_MAC_LENGTH = KM_UINT"
| "declared_type TAG_RSA_PUBLIC_EXPONENT = KM_ULONG"
| "declared_type TAG_ECIES_SINGLE_HASH_MODE = KM_BOOL"
| "declared_type TAG_INCLUDE_UNIQUE_ID = KM_BOOL"
| "declared_type TAG_ACTIVE_DATETIME = KM_DATE"
| "declared_type TAG_ORIGINATION_EXPIRE_DATETIME = KM_DATE"
| "declared_type TAG_USAGE_EXPIRE_DATETIME = KM_DATE"
| "declared_type TAG_MIN_SECONDS_BETWEEN_OPS = KM_UINT"
| "declared_type TAG_MAX_USES_PER_BOOT = KM_UINT"
| "declared_type TAG_USAGE_COUNT_LIMIT = KM_UINT"
| "declared_type TAG_ALL_USERS = KM_BOOL"
| "declared_type TAG_USER_ID = KM_UINT"
| "declared_type TAG_USER_SECURE_ID = KM_ULONG_REP"
| "declared_type TAG_NO_AUTH_REQUIRED = KM_BOOL"
| "declared_type TAG_AUTH_TIMEOUT = KM_UINT"
| "declared_type TAG_ALLOW_WHILE_ON_BODY = KM_BOOL"
| "declared_type TAG_UNLOCKED_DEVICE_REQUIRED = KM_BOOL"
| "declared_type TAG_TRUSTED_CONFIRMATION_REQUIRED = KM_BOOL"
| "declared_type TAG_ALL_APPLICATIONS = KM_BOOL"
| "declared_type TAG_APPLICATION_ID = KM_BYTES"
| "declared_type TAG_APPLICATION_DATA = KM_BYTES"
| "declared_type TAG_CREATION_DATETIME = KM_DATE"
| "declared_type TAG_ROLLBACK_RESISTANCE = KM_BOOL"
| "declared_type TAG_ROLLBACK_RESISTANT = KM_BOOL"
| "declared_type TAG_ROOT_OF_TRUST = KM_BYTES"
| "declared_type TAG_ASSOCIATED_DATA = KM_BYTES"
| "declared_type TAG_NONCE = KM_BYTES"
| "declared_type TAG_AUTH_TOKEN = KM_BYTES"
| "declared_type TAG_BOOTLOADER_ONLY = KM_BOOL"
| "declared_type TAG_OS_VERSION = KM_UINT"
| "declared_type TAG_OS_PATCHLEVEL = KM_UINT"
| "declared_type TAG_UNIQUE_ID = KM_BYTES"
| "declared_type TAG_ATTESTATION_CHALLENGE = KM_BYTES"
| "declared_type TAG_ATTESTATION_APPLICATION_ID = KM_BYTES"
| "declared_type TAG_RESET_SINCE_ID_ROTATION = KM_BOOL"
| "declared_type TAG_ATTESTATION_ID_BRAND = KM_BYTES"
| "declared_type TAG_ATTESTATION_ID_DEVICE = KM_BYTES"
| "declared_type TAG_ATTESTATION_ID_PRODUCT = KM_BYTES"
| "declared_type TAG_ATTESTATION_ID_SERIAL = KM_BYTES"
| "declared_type TAG_ATTESTATION_ID_IMEI = KM_BYTES"
| "declared_type TAG_ATTESTATION_ID_SECOND_IMEI = KM_BYTES"
| "declared_type TAG_ATTESTATION_ID_MEID = KM_BYTES"
| "declared_type TAG_ATTESTATION_ID_MANUFACTURER = KM_BYTES"
| "declared_type TAG_ATTESTATION_ID_MODEL = KM_BYTES"
| "declared_type TAG_EARLY_BOOT_ONLY = KM_BOOL"
| "declared_type TAG_DEVICE_UNIQUE_ATTESTATION = KM_BOOL"
| "declared_type TAG_IDENTITY_CREDENTIAL_KEY = KM_BOOL"
| "declared_type TAG_STORAGE_KEY = KM_BOOL"
| "declared_type TAG_TRUSTED_USER_PRESENCE_REQUIRED = KM_BOOL"
| "declared_type TAG_BOOT_PATCHLEVEL = KM_UINT"
| "declared_type TAG_VENDOR_PATCHLEVEL = KM_UINT"
| "declared_type TAG_CONFIRMATION_TOKEN = KM_BYTES"
| "declared_type TAG_CERTIFICATE_SERIAL = KM_BIGNUM"
| "declared_type TAG_CERTIFICATE_SUBJECT = KM_BYTES"
| "declared_type TAG_CERTIFICATE_NOT_BEFORE = KM_DATE"
| "declared_type TAG_CERTIFICATE_NOT_AFTER = KM_DATE"
| "declared_type TAG_PURPOSE = KM_ENUM_REP"
| "declared_type TAG_ALGORITHM = KM_ENUM"
| "declared_type TAG_BLOCK_MODE = KM_ENUM_REP"
| "declared_type TAG_DIGEST = KM_ENUM_REP"
| "declared_type TAG_DIGEST_OLD = KM_ENUM"
| "declared_type TAG_PADDING = KM_ENUM_REP"
| "declared_type TAG_PADDING_OLD = KM_ENUM"
| "declared_type TAG_BLOB_USAGE_REQUIREMENTS = KM_ENUM"
| "declared_type TAG_ORIGIN = KM_ENUM"
| "declared_type TAG_USER_AUTH_TYPE = KM_ENUM"
| "declared_type TAG_KDF = KM_ENUM_REP"
| "declared_type TAG_EC_CURVE = KM_ENUM"
| "declared_type TAG_RSA_OAEP_MGF_DIGEST = KM_ENUM_REP"

text \<open>The enumeration types of the tags declared with \<open>DECLARE_KEYMASTER_ENUM_TAG\<close>.\<close>

datatype km_enum_type = E_purpose | E_algorithm | E_block_mode | E_digest | E_padding | E_key_blob_usage_requirements
  | E_key_origin | E_hw_authenticatorype | E_kdf | E_ec_curve

primrec declared_enum :: "km_tag \<Rightarrow> km_enum_type option" where
  "declared_enum TAG_PURPOSE = Some E_purpose"
| "declared_enum TAG_ALGORITHM = Some E_algorithm"
| "declared_enum TAG_BLOCK_MODE = Some E_block_mode"
| "declared_enum TAG_DIGEST = Some E_digest"
| "declared_enum TAG_DIGEST_OLD = Some E_digest"
| "declared_enum TAG_PADDING = Some E_padding"
| "declared_enum TAG_PADDING_OLD = Some E_padding"
| "declared_enum TAG_BLOB_USAGE_REQUIREMENTS = Some E_key_blob_usage_requirements"
| "declared_enum TAG_ORIGIN = Some E_key_origin"
| "declared_enum TAG_USER_AUTH_TYPE = Some E_hw_authenticatorype"
| "declared_enum TAG_KDF = Some E_kdf"
| "declared_enum TAG_EC_CURVE = Some E_ec_curve"
| "declared_enum TAG_RSA_OAEP_MGF_DIGEST = Some E_digest"
| "declared_enum TAG_INVALID = None"
| "declared_enum TAG_KEY_SIZE = None"
| "declared_enum TAG_MAC_LENGTH = None"
| "declared_enum TAG_CALLER_NONCE = None"
| "declared_enum TAG_MIN_MAC_LENGTH = None"
| "declared_enum TAG_RSA_PUBLIC_EXPONENT = None"
| "declared_enum TAG_ECIES_SINGLE_HASH_MODE = None"
| "declared_enum TAG_INCLUDE_UNIQUE_ID = None"
| "declared_enum TAG_ACTIVE_DATETIME = None"
| "declared_enum TAG_ORIGINATION_EXPIRE_DATETIME = None"
| "declared_enum TAG_USAGE_EXPIRE_DATETIME = None"
| "declared_enum TAG_MIN_SECONDS_BETWEEN_OPS = None"
| "declared_enum TAG_MAX_USES_PER_BOOT = None"
| "declared_enum TAG_USAGE_COUNT_LIMIT = None"
| "declared_enum TAG_ALL_USERS = None"
| "declared_enum TAG_USER_ID = None"
| "declared_enum TAG_USER_SECURE_ID = None"
| "declared_enum TAG_NO_AUTH_REQUIRED = None"
| "declared_enum TAG_AUTH_TIMEOUT = None"
| "declared_enum TAG_ALLOW_WHILE_ON_BODY = None"
| "declared_enum TAG_UNLOCKED_DEVICE_REQUIRED = None"
| "declared_enum TAG_TRUSTED_CONFIRMATION_REQUIRED = None"
| "declared_enum TAG_ALL_APPLICATIONS = None"
| "declared_enum TAG_APPLICATION_ID = None"
| "declared_enum TAG_APPLICATION_DATA = None"
| "declared_enum TAG_CREATION_DATETIME = None"
| "declared_enum TAG_ROLLBACK_RESISTANCE = None"
| "declared_enum TAG_ROLLBACK_RESISTANT = None"
| "declared_enum TAG_ROOT_OF_TRUST = None"
| "declared_enum TAG_ASSOCIATED_DATA = None"
| "declared_enum TAG_NONCE = None"
| "declared_enum TAG_AUTH_TOKEN = None"
| "declared_enum TAG_BOOTLOADER_ONLY = None"
| "declared_enum TAG_OS_VERSION = None"
| "declared_enum TAG_OS_PATCHLEVEL = None"
| "declared_enum TAG_UNIQUE_ID = None"
| "declared_enum TAG_ATTESTATION_CHALLENGE = None"
| "declared_enum TAG_ATTESTATION_APPLICATION_ID = None"
| "declared_enum TAG_RESET_SINCE_ID_ROTATION = None"
| "declared_enum TAG_ATTESTATION_ID_BRAND = None"
| "declared_enum TAG_ATTESTATION_ID_DEVICE = None"
| "declared_enum TAG_ATTESTATION_ID_PRODUCT = None"
| "declared_enum TAG_ATTESTATION_ID_SERIAL = None"
| "declared_enum TAG_ATTESTATION_ID_IMEI = None"
| "declared_enum TAG_ATTESTATION_ID_SECOND_IMEI = None"
| "declared_enum TAG_ATTESTATION_ID_MEID = None"
| "declared_enum TAG_ATTESTATION_ID_MANUFACTURER = None"
| "declared_enum TAG_ATTESTATION_ID_MODEL = None"
| "declared_enum TAG_EARLY_BOOT_ONLY = None"
| "declared_enum TAG_DEVICE_UNIQUE_ATTESTATION = None"
| "declared_enum TAG_IDENTITY_CREDENTIAL_KEY = None"
| "declared_enum TAG_STORAGE_KEY = None"
| "declared_enum TAG_TRUSTED_USER_PRESENCE_REQUIRED = None"
| "declared_enum TAG_BOOT_PATCHLEVEL = None"
| "declared_enum TAG_VENDOR_PATCHLEVEL = None"
| "declared_enum TAG_CONFIRMATION_TOKEN = None"
| "declared_enum TAG_CERTIFICATE_SERIAL = None"
| "declared_enum TAG_CERTIFICATE_SUBJECT = None"
| "declared_enum TAG_CERTIFICATE_NOT_BEFORE = None"
| "declared_enum TAG_CERTIFICATE_NOT_AFTER = None"

text \<open>Exactly the tags with an enumeration type are declared with a type of enumerations.\<close>

lemma declared_enum_iff: "declared_enum t \<noteq> None \<longleftrightarrow> declared_type t \<in> {KM_ENUM, KM_ENUM_REP}"
  by (cases t) simp_all

lemma declared_value_type: "TagValueType (declared_type t) = None \<longleftrightarrow> declared_enum t \<noteq> None"
  by (cases t) simp_all

section \<open>Authorizations\<close>

record 'p param_fns =
  param_bool :: "u32 \<Rightarrow> 'p"
  param_int :: "u32 \<Rightarrow> u32 \<Rightarrow> 'p"
  param_long :: "u32 \<Rightarrow> u64 \<Rightarrow> 'p"
  param_date :: "u32 \<Rightarrow> u64 \<Rightarrow> 'p"
  param_blob :: "u32 \<Rightarrow> byte list option \<Rightarrow> nat \<Rightarrow> 'p"
  param_enum :: "u32 \<Rightarrow> u32 \<Rightarrow> 'p"

text \<open>The further arguments of a call of \<open>Authorization\<close>.\<close>

datatype auth_args = A_none | A_uint32 u32 | A_uint64 u64 | A_bytes "byte list option" nat | A_blob blob | A_enum u32

definition Authorization :: "'p param_fns \<Rightarrow> km_tag_type \<Rightarrow> u32 \<Rightarrow> auth_args \<Rightarrow> 'p option" where
  "Authorization F ty tag args = (case (ty, args) of
       (KM_BOOL, A_none) \<Rightarrow> Some (param_bool F tag)
     | (KM_UINT, A_uint32 v) \<Rightarrow> Some (param_int F tag v)
     | (KM_UINT_REP, A_uint32 v) \<Rightarrow> Some (param_int F tag v)
     | (KM_ULONG, A_uint64 v) \<Rightarrow> Some (param_long F tag v)
     | (KM_ULONG_REP, A_uint64 v) \<Rightarrow> Some (param_long F tag v)
     | (KM_DATE, A_uint64 v) \<Rightarrow> Some (param_date F tag v)
     | (KM_BYTES, A_bytes p n) \<Rightarrow> Some (param_blob F tag p n)
     | (KM_BYTES, A_blob b) \<Rightarrow> Some (param_blob F tag (blob_data b) (blob_size b))
     | (KM_BIGNUM, A_bytes p n) \<Rightarrow> Some (param_blob F tag p n)
     | (KM_BIGNUM, A_blob b) \<Rightarrow> Some (param_blob F tag (blob_data b) (blob_size b))
     | (KM_ENUM, A_enum v) \<Rightarrow> Some (param_enum F tag v)
     | (KM_ENUM_REP, A_enum v) \<Rightarrow> Some (param_enum F tag v)
     | _ \<Rightarrow> None)"

text \<open>The arguments that fit a tag type, and that a call compiles for exactly these.\<close>

definition args_fit :: "km_tag_type \<Rightarrow> auth_args \<Rightarrow> bool" where
  "args_fit ty args = (case args of
       A_none \<Rightarrow> ty = KM_BOOL
     | A_uint32 _ \<Rightarrow> TagValueType ty = Some T_uint32
     | A_uint64 _ \<Rightarrow> TagValueType ty = Some T_uint64
     | A_bytes _ _ \<Rightarrow> TagValueType ty = Some T_blob
     | A_blob _ \<Rightarrow> TagValueType ty = Some T_blob
     | A_enum _ \<Rightarrow> TagValueType ty = None)"

lemma Authorization_fits: "Authorization F ty tag args \<noteq> None \<longleftrightarrow> args_fit ty args"
  by (cases ty; cases args) (simp_all add: Authorization_def args_fit_def)

section \<open>Properties\<close>

text \<open>The check of \<open>TypedTag\<close> does not exclude tags of another type: a tag whose type has all the bits of
  the type \<open>ty\<close> passes as \<open>ty\<close>, although the comment says that this is impossible.\<close>

theorem typed_tag_check_too_weak:
  assumes "and tag 0xF0000000 = type_code other" and "and (type_code other) (type_code ty) = type_code ty"
    and "ty \<noteq> KM_ENUM" and "ty \<noteq> KM_ENUM_REP"
  shows "TypedTag_check type_code ty tag"
proof -
  have "and tag (type_code other) = type_code other"
    unfolding assms(1) [symmetric] by simp
  then have "and tag (and (type_code other) (type_code ty)) = and (type_code other) (type_code ty)"
    by (simp add: and.assoc [symmetric])
  with assms show ?thesis by (simp add: TypedTag_check_def)
qed

text \<open>The numbers of the enumeration \<open>TagType\<close> of KeyMint.\<close>

primrec keymint_type_code :: "km_tag_type \<Rightarrow> u32" where
  "keymint_type_code KM_INVALID = of_int (TagType_val TagType_INVALID)"
| "keymint_type_code KM_ENUM = of_int (TagType_val TagType_ENUM)"
| "keymint_type_code KM_ENUM_REP = of_int (TagType_val TagType_ENUM_REP)"
| "keymint_type_code KM_UINT = of_int (TagType_val TagType_UINT)"
| "keymint_type_code KM_UINT_REP = of_int (TagType_val TagType_UINT_REP)"
| "keymint_type_code KM_ULONG = of_int (TagType_val TagType_ULONG)"
| "keymint_type_code KM_ULONG_REP = of_int (TagType_val TagType_ULONG_REP)"
| "keymint_type_code KM_DATE = of_int (TagType_val TagType_DATE)"
| "keymint_type_code KM_BOOL = of_int (TagType_val TagType_BOOL)"
| "keymint_type_code KM_BIGNUM = of_int (TagType_val TagType_BIGNUM)"
| "keymint_type_code KM_BYTES = of_int (TagType_val TagType_BYTES)"

lemma typed_tag_check_too_weak_witness:
  "TypedTag_check keymint_type_code KM_UINT 0x70000007 \<and> keymint_type_code KM_UINT \<noteq> and 0x70000007 0xF0000000"
  using typed_tag_check_too_weak [of "0x70000007" keymint_type_code KM_BOOL KM_UINT] by simp

text \<open>An overload of \<open>Authorization\<close> exists for a declared tag exactly when the further arguments have the
  type that \<open>TagValueType\<close> or the declaration associates with the tag: a tag is never paired with a value
  of another type.\<close>

theorem authorization_type_safe:
  "Authorization F (declared_type t) tag args \<noteq> None \<longleftrightarrow> (case args of
       A_none \<Rightarrow> declared_type t = KM_BOOL
     | A_uint32 _ \<Rightarrow> TagValueType (declared_type t) = Some T_uint32
     | A_uint64 _ \<Rightarrow> TagValueType (declared_type t) = Some T_uint64
     | A_bytes _ _ \<Rightarrow> TagValueType (declared_type t) = Some T_blob
     | A_blob _ \<Rightarrow> TagValueType (declared_type t) = Some T_blob
     | A_enum _ \<Rightarrow> (case declared_enum t of None \<Rightarrow> False | Some _ \<Rightarrow> True))"
  using Authorization_fits [of F "declared_type t" tag args] declared_value_type [of t]
  by (cases args; cases "declared_enum t") (simp_all add: args_fit_def)

end
