(* ===== verification/KmAuthSet.thy ===== *)
theory KmAuthSet
  imports KmTags "HOL-Library.Monad_Syntax"
begin

text \<open>
  \<open>keymaster/authorization_set.h\<close>: the class \<open>AuthorizationSet\<close> as far as it is defined in the header,
  \<open>AuthorizationSetBuilder\<close>, \<open>AuthProxy\<close> and its iterator. The methods whose bodies are in
  \<open>authorization_set.cpp\<close> are the fields of the record \<open>aset_ext\<close>; the contract \<open>aset_functions\<close> states
  what their comments promise. \<open>'p\<close> is \<open>keymaster_key_param_t\<close>.
\<close>

section \<open>AuthorizationSet\<close>

datatype aset_error = ASET_OK | ALLOCATION_FAILURE | MALFORMED_DATA

record 'p authorization_set =
  elems :: "'p list option"
  elems_size :: nat
  elems_capacity :: nat
  indirect_data :: "byte list option"
  indirect_data_size :: nat
  indirect_data_capacity :: nat
  aset_error :: aset_error

record 'p aset_ext =
  x_Reinitialize :: "'p list option \<Rightarrow> nat \<Rightarrow> 'p authorization_set \<Rightarrow> bool \<times> 'p authorization_set"
  x_Deserialize :: "'p authorization_set \<times> rbuf \<Rightarrow> bool \<times> 'p authorization_set \<times> rbuf"
  x_FreeData :: "'p authorization_set \<Rightarrow> 'p authorization_set"
  x_MoveFrom :: "'p authorization_set \<Rightarrow> 'p authorization_set \<Rightarrow> 'p authorization_set \<times> 'p authorization_set"
  x_find :: "'p authorization_set \<Rightarrow> u32 \<Rightarrow> int \<Rightarrow> int"
  x_index :: "'p authorization_set \<Rightarrow> int \<Rightarrow> 'p option"
  x_GetTagCount :: "'p authorization_set \<Rightarrow> u32 \<Rightarrow> nat"
  x_Enum :: "'p authorization_set \<Rightarrow> u32 \<Rightarrow> u32 option"
  x_EnumRep :: "'p authorization_set \<Rightarrow> u32 \<Rightarrow> nat \<Rightarrow> u32 option"
  x_Int :: "'p authorization_set \<Rightarrow> u32 \<Rightarrow> u32 option"
  x_IntRep :: "'p authorization_set \<Rightarrow> u32 \<Rightarrow> nat \<Rightarrow> u32 option"
  x_Long :: "'p authorization_set \<Rightarrow> u32 \<Rightarrow> u64 option"
  x_LongRep :: "'p authorization_set \<Rightarrow> u32 \<Rightarrow> nat \<Rightarrow> u64 option"
  x_Blob :: "'p authorization_set \<Rightarrow> u32 \<Rightarrow> blob option"
  x_Bool :: "'p authorization_set \<Rightarrow> u32 \<Rightarrow> bool"
  x_ContainsEnum :: "'p authorization_set \<Rightarrow> u32 \<Rightarrow> u32 \<Rightarrow> bool"
  x_ContainsInt :: "'p authorization_set \<Rightarrow> u32 \<Rightarrow> u32 \<Rightarrow> bool"
  x_push_back :: "'p \<Rightarrow> 'p authorization_set \<Rightarrow> bool \<times> 'p authorization_set"
  x_Deduplicate :: "'p authorization_set \<Rightarrow> 'p authorization_set"

definition AuthorizationSet :: "'p authorization_set" where
  "AuthorizationSet = \<lparr>elems = None, elems_size = 0, elems_capacity = 0, indirect_data = None,
     indirect_data_size = 0, indirect_data_capacity = 0, aset_error = ASET_OK\<rparr>"

text \<open>The constructors that copy. They leave \<open>elems_size_\<close> to the function they call; \<open>junk\<close> is its
  value before.\<close>

definition aset_uninit :: "nat \<Rightarrow> 'p authorization_set" where
  "aset_uninit junk = AuthorizationSet\<lparr>elems_size := junk\<rparr>"

definition AuthorizationSet_from :: "'p aset_ext \<Rightarrow> nat \<Rightarrow> 'p list option \<Rightarrow> nat \<Rightarrow> 'p authorization_set" where
  "AuthorizationSet_from X junk es count = snd (x_Reinitialize X es count (aset_uninit junk))"

definition AuthorizationSet_deserialized :: "'p aset_ext \<Rightarrow> nat \<Rightarrow> rbuf \<Rightarrow> 'p authorization_set" where
  "AuthorizationSet_deserialized X junk r = fst (snd (x_Deserialize X (aset_uninit junk, r)))"

definition AuthorizationSet_copy :: "'p aset_ext \<Rightarrow> nat \<Rightarrow> 'p authorization_set \<Rightarrow> 'p authorization_set" where
  "AuthorizationSet_copy X junk other =
     (let this = (aset_uninit junk)\<lparr>aset_error := aset_error other\<rparr>
      in if aset_error this \<noteq> ASET_OK then this
         else snd (x_Reinitialize X (elems other) (elems_size other) this))"

definition AuthorizationSet_move ::
    "'p aset_ext \<Rightarrow> 'p authorization_set \<Rightarrow> 'p authorization_set \<Rightarrow> 'p authorization_set \<times> 'p authorization_set" where
  "AuthorizationSet_move X uninit other = x_MoveFrom X uninit other"

definition AuthorizationSet_assign ::
    "'p aset_ext \<Rightarrow> bool \<Rightarrow> 'p authorization_set \<Rightarrow> 'p authorization_set \<Rightarrow> 'p authorization_set" where
  "AuthorizationSet_assign X same this other =
     (if same then this
      else (snd (x_Reinitialize X (elems other) (elems_size other) this))\<lparr>aset_error := aset_error other\<rparr>)"

definition AuthorizationSet_move_assign ::
    "'p aset_ext \<Rightarrow> 'p authorization_set \<Rightarrow> 'p authorization_set \<Rightarrow> 'p authorization_set \<times> 'p authorization_set" where
  "AuthorizationSet_move_assign X this other = x_MoveFrom X (x_FreeData X this) other"

definition aset_size :: "'p authorization_set \<Rightarrow> nat" where
  "aset_size s = elems_size s"

definition aset_empty :: "'p authorization_set \<Rightarrow> bool" where
  "aset_empty s \<longleftrightarrow> aset_size s = 0"

text \<open>The elements as a list.\<close>

definition aset_list :: "'p authorization_set \<Rightarrow> 'p list" where
  "aset_list s = (case elems s of None \<Rightarrow> [] | Some es \<Rightarrow> take (elems_size s) es)"

section \<open>Lookup\<close>

definition Contains_tag :: "'p aset_ext \<Rightarrow> 'p authorization_set \<Rightarrow> u32 \<Rightarrow> bool" where
  "Contains_tag X s tag \<longleftrightarrow> x_find X s tag (- 1) \<noteq> - 1"

text \<open>The overloads with a value: \<open>None\<close> when there is none for the type.\<close>

definition Contains_value :: "'p aset_ext \<Rightarrow> 'p authorization_set \<Rightarrow> km_tag_type \<Rightarrow> u32 \<Rightarrow> u32 \<Rightarrow> bool option" where
  "Contains_value X s ty tag val = (case ty of
       KM_ENUM_REP \<Rightarrow> Some (x_ContainsEnum X s tag val)
     | KM_ENUM \<Rightarrow> Some (x_ContainsEnum X s tag val)
     | KM_UINT \<Rightarrow> Some (x_ContainsInt X s tag val)
     | _ \<Rightarrow> None)"

text \<open>
  The overloads of \<open>GetTagValue\<close>, with the instance where one is given. The inner \<open>None\<close> is the result
  false, which leaves \<open>*val\<close> as it was.
\<close>

datatype tag_result = R_uint32 u32 | R_uint64 u64 | R_blob blob | R_true

definition GetTagValue ::
    "'p aset_ext \<Rightarrow> 'p authorization_set \<Rightarrow> km_tag_type \<Rightarrow> u32 \<Rightarrow> nat option \<Rightarrow> tag_result option option" where
  "GetTagValue X s ty tag inst = (case (ty, inst) of
       (KM_UINT, None) \<Rightarrow> Some (map_option R_uint32 (x_Int X s tag))
     | (KM_UINT_REP, Some i) \<Rightarrow> Some (map_option R_uint32 (x_IntRep X s tag i))
     | (KM_ULONG, None) \<Rightarrow> Some (map_option R_uint64 (x_Long X s tag))
     | (KM_ULONG_REP, Some i) \<Rightarrow> Some (map_option R_uint64 (x_LongRep X s tag i))
     | (KM_ULONG_REP, None) \<Rightarrow> Some (map_option R_uint64 (x_Long X s tag))
     | (KM_DATE, None) \<Rightarrow> Some (map_option R_uint64 (x_Long X s tag))
     | (KM_ENUM, None) \<Rightarrow> Some (map_option R_uint32 (x_Enum X s tag))
     | (KM_ENUM_REP, Some i) \<Rightarrow> Some (map_option R_uint32 (x_EnumRep X s tag i))
     | (KM_ENUM_REP, None) \<Rightarrow> Some (if x_GetTagCount X s tag \<noteq> 1 then None
                                  else map_option R_uint32 (x_EnumRep X s tag 0))
     | (KM_BYTES, None) \<Rightarrow> Some (map_option R_blob (x_Blob X s tag))
     | (KM_BIGNUM, None) \<Rightarrow> Some (map_option R_blob (x_Blob X s tag))
     | (KM_BOOL, None) \<Rightarrow> Some (if x_Bool X s tag then Some R_true else None)
     | _ \<Rightarrow> None)"

text \<open>\<open>push_back\<close> of a typed tag with a value makes an authorization and appends it.\<close>

definition push_back_typed ::
    "'p aset_ext \<Rightarrow> 'p param_fns \<Rightarrow> km_tag_type \<Rightarrow> u32 \<Rightarrow> auth_args \<Rightarrow> 'p authorization_set \<Rightarrow> (bool \<times> 'p authorization_set) option" where
  "push_back_typed X F ty tag args s = map_option (\<lambda>p. x_push_back X p s) (Authorization F ty tag args)"

section \<open>AuthorizationSetBuilder\<close>

text \<open>
  The enumerators of \<open>hardware/keymaster_defs.h\<close> that the builder uses, with the functions and the tag
  numbers it depends on. A builder is the set it builds; its methods return it.
\<close>

record 'p builder_env =
  be_ext :: "'p aset_ext"
  be_fns :: "'p param_fns"
  be_tag :: "km_tag \<Rightarrow> u32"
  KM_ALGORITHM_RSA :: u32
  KM_ALGORITHM_EC :: u32
  KM_ALGORITHM_AES :: u32
  KM_ALGORITHM_TRIPLE_DES :: u32
  KM_ALGORITHM_HMAC :: u32
  KM_PURPOSE_SIGN :: u32
  KM_PURPOSE_VERIFY :: u32
  KM_PURPOSE_ENCRYPT :: u32
  KM_PURPOSE_DECRYPT :: u32
  KM_DIGEST_NONE :: u32
  KM_PAD_NONE :: u32
  KM_MODE_ECB :: u32

definition builder_add :: "'p builder_env \<Rightarrow> km_tag \<Rightarrow> auth_args \<Rightarrow> 'p authorization_set \<Rightarrow> 'p authorization_set" where
  "builder_add V t args b =
     (case push_back_typed (be_ext V) (be_fns V) (declared_type t) (be_tag V t) args b of
        None \<Rightarrow> b | Some (_, b') \<Rightarrow> b')"

definition SigningKey :: "'p builder_env \<Rightarrow> 'p authorization_set \<Rightarrow> 'p authorization_set" where
  "SigningKey V b = builder_add V TAG_PURPOSE (A_enum (KM_PURPOSE_VERIFY V))
     (builder_add V TAG_PURPOSE (A_enum (KM_PURPOSE_SIGN V)) b)"

definition EncryptionKey :: "'p builder_env \<Rightarrow> 'p authorization_set \<Rightarrow> 'p authorization_set" where
  "EncryptionKey V b = builder_add V TAG_PURPOSE (A_enum (KM_PURPOSE_DECRYPT V))
     (builder_add V TAG_PURPOSE (A_enum (KM_PURPOSE_ENCRYPT V)) b)"

definition RsaKey :: "'p builder_env \<Rightarrow> u32 \<Rightarrow> u64 \<Rightarrow> 'p authorization_set \<Rightarrow> 'p authorization_set" where
  "RsaKey V key_size public_exponent b =
     builder_add V TAG_RSA_PUBLIC_EXPONENT (A_uint64 public_exponent)
       (builder_add V TAG_KEY_SIZE (A_uint32 key_size)
         (builder_add V TAG_ALGORITHM (A_enum (KM_ALGORITHM_RSA V)) b))"

definition EcdsaKey :: "'p builder_env \<Rightarrow> u32 \<Rightarrow> 'p authorization_set \<Rightarrow> 'p authorization_set" where
  "EcdsaKey V key_size b = builder_add V TAG_KEY_SIZE (A_uint32 key_size)
     (builder_add V TAG_ALGORITHM (A_enum (KM_ALGORITHM_EC V)) b)"

definition AesKey :: "'p builder_env \<Rightarrow> u32 \<Rightarrow> 'p authorization_set \<Rightarrow> 'p authorization_set" where
  "AesKey V key_size b = builder_add V TAG_KEY_SIZE (A_uint32 key_size)
     (builder_add V TAG_ALGORITHM (A_enum (KM_ALGORITHM_AES V)) b)"

definition TripleDesKey :: "'p builder_env \<Rightarrow> u32 \<Rightarrow> 'p authorization_set \<Rightarrow> 'p authorization_set" where
  "TripleDesKey V key_size b = builder_add V TAG_KEY_SIZE (A_uint32 key_size)
     (builder_add V TAG_ALGORITHM (A_enum (KM_ALGORITHM_TRIPLE_DES V)) b)"

definition HmacKey :: "'p builder_env \<Rightarrow> u32 \<Rightarrow> 'p authorization_set \<Rightarrow> 'p authorization_set" where
  "HmacKey V key_size b = SigningKey V (builder_add V TAG_KEY_SIZE (A_uint32 key_size)
     (builder_add V TAG_ALGORITHM (A_enum (KM_ALGORITHM_HMAC V)) b))"

definition RsaSigningKey :: "'p builder_env \<Rightarrow> u32 \<Rightarrow> u64 \<Rightarrow> 'p authorization_set \<Rightarrow> 'p authorization_set" where
  "RsaSigningKey V key_size public_exponent b = SigningKey V (RsaKey V key_size public_exponent b)"

definition RsaEncryptionKey :: "'p builder_env \<Rightarrow> u32 \<Rightarrow> u64 \<Rightarrow> 'p authorization_set \<Rightarrow> 'p authorization_set" where
  "RsaEncryptionKey V key_size public_exponent b = EncryptionKey V (RsaKey V key_size public_exponent b)"

definition EcdsaSigningKey :: "'p builder_env \<Rightarrow> u32 \<Rightarrow> 'p authorization_set \<Rightarrow> 'p authorization_set" where
  "EcdsaSigningKey V key_size b = SigningKey V (EcdsaKey V key_size b)"

definition AesEncryptionKey :: "'p builder_env \<Rightarrow> u32 \<Rightarrow> 'p authorization_set \<Rightarrow> 'p authorization_set" where
  "AesEncryptionKey V key_size b = EncryptionKey V (AesKey V key_size b)"

definition TripleDesEncryptionKey :: "'p builder_env \<Rightarrow> u32 \<Rightarrow> 'p authorization_set \<Rightarrow> 'p authorization_set" where
  "TripleDesEncryptionKey V key_size b = EncryptionKey V (TripleDesKey V key_size b)"

definition NoDigestOrPadding :: "'p builder_env \<Rightarrow> 'p authorization_set \<Rightarrow> 'p authorization_set" where
  "NoDigestOrPadding V b = builder_add V TAG_PADDING (A_enum (KM_PAD_NONE V))
     (builder_add V TAG_DIGEST (A_enum (KM_DIGEST_NONE V)) b)"

definition EcbMode :: "'p builder_env \<Rightarrow> 'p authorization_set \<Rightarrow> 'p authorization_set" where
  "EcbMode V b = builder_add V TAG_BLOCK_MODE (A_enum (KM_MODE_ECB V)) b"

definition builder_Digest :: "'p builder_env \<Rightarrow> u32 \<Rightarrow> 'p authorization_set \<Rightarrow> 'p authorization_set" where
  "builder_Digest V digest b = builder_add V TAG_DIGEST (A_enum digest) b"

definition builder_OaepMgfDigest :: "'p builder_env \<Rightarrow> u32 \<Rightarrow> 'p authorization_set \<Rightarrow> 'p authorization_set" where
  "builder_OaepMgfDigest V digest b = builder_add V TAG_RSA_OAEP_MGF_DIGEST (A_enum digest) b"

definition builder_BlockMode :: "'p builder_env \<Rightarrow> u32 \<Rightarrow> 'p authorization_set \<Rightarrow> 'p authorization_set" where
  "builder_BlockMode V mode b = builder_add V TAG_BLOCK_MODE (A_enum mode) b"

definition builder_Padding :: "'p builder_env \<Rightarrow> u32 \<Rightarrow> 'p authorization_set \<Rightarrow> 'p authorization_set" where
  "builder_Padding V padding b = builder_add V TAG_PADDING (A_enum padding) b"

definition builder_Deduplicate :: "'p builder_env \<Rightarrow> 'p authorization_set \<Rightarrow> 'p authorization_set" where
  "builder_Deduplicate V b = x_Deduplicate (be_ext V) b"

section \<open>AuthProxy\<close>

text \<open>The two sets are tried in turn: first the hardware-enforced one.\<close>

definition AuthProxy_Contains :: "('s \<Rightarrow> bool) \<Rightarrow> 's \<Rightarrow> 's \<Rightarrow> bool" where
  "AuthProxy_Contains contains hw sw \<longleftrightarrow> contains hw \<or> contains sw"

definition AuthProxy_GetTagValue :: "('s \<Rightarrow> 'v option) \<Rightarrow> 's \<Rightarrow> 's \<Rightarrow> 'v option" where
  "AuthProxy_GetTagValue get hw sw = (case get hw of Some v \<Rightarrow> Some v | None \<Rightarrow> get sw)"

definition AuthProxy_GetTagCount :: "'p aset_ext \<Rightarrow> 'p authorization_set \<Rightarrow> 'p authorization_set \<Rightarrow> u32 \<Rightarrow> nat" where
  "AuthProxy_GetTagCount X hw sw tag = x_GetTagCount X hw tag + x_GetTagCount X sw tag"

definition AuthProxy_size :: "'p authorization_set \<Rightarrow> 'p authorization_set \<Rightarrow> nat" where
  "AuthProxy_size hw sw = aset_size hw + aset_size sw"

text \<open>\<open>operator[]\<close> on the sets takes an \<open>int\<close>: the position is converted.\<close>

definition as_int :: "u64 \<Rightarrow> int" where
  "as_int p = sint (ucast p :: u32)"

definition AuthProxy_index :: "'p aset_ext \<Rightarrow> 'p \<Rightarrow> 'p authorization_set \<Rightarrow> 'p authorization_set \<Rightarrow> u64 \<Rightarrow> 'p option" where
  "AuthProxy_index X default_param hw sw pos =
     (if unat pos < aset_size hw then x_index X hw (as_int pos)
      else if unat (pos - of_nat (aset_size hw)) < aset_size sw
      then x_index X sw (as_int (pos - of_nat (aset_size hw)))
      else Some default_param)"

text \<open>
  The iterator holds a position and the addresses of the sets (0 is null); \<open>S\<close> gives the set at an
  address.
\<close>

record auth_proxy_iterator =
  iter_pos :: u64
  auth_set1 :: nat
  auth_set2 :: nat

definition iterator_invalid :: u64 where
  "iterator_invalid = not 0"

definition AuthProxy_end :: auth_proxy_iterator where
  "AuthProxy_end = \<lparr>iter_pos = iterator_invalid, auth_set1 = 0, auth_set2 = 0\<rparr>"

definition AuthProxy_begin :: "nat \<Rightarrow> nat \<Rightarrow> auth_proxy_iterator" where
  "AuthProxy_begin a1 a2 = \<lparr>iter_pos = 0, auth_set1 = a1, auth_set2 = a2\<rparr>"

definition AuthProxyIterator_assign :: "bool \<Rightarrow> auth_proxy_iterator \<Rightarrow> auth_proxy_iterator \<Rightarrow> auth_proxy_iterator" where
  "AuthProxyIterator_assign same this rhs =
     (if \<not> same then this\<lparr>iter_pos := iter_pos rhs, auth_set1 := auth_set1 rhs, auth_set2 := auth_set2 rhs\<rparr> else this)"

definition AuthProxyIterator_incr ::
    "(nat \<Rightarrow> 'p authorization_set option) \<Rightarrow> auth_proxy_iterator \<Rightarrow> auth_proxy_iterator option" where
  "AuthProxyIterator_incr S it =
     (if iter_pos it = iterator_invalid then Some it
      else do {
        s1 \<leftarrow> S (auth_set1 it);
        s2 \<leftarrow> S (auth_set2 it);
        let it1 = it\<lparr>iter_pos := iter_pos it + 1\<rparr>;
        Some (if iter_pos it1 = of_nat (aset_size s1 + aset_size s2) then it1\<lparr>iter_pos := iterator_invalid\<rparr> else it1) })"

definition AuthProxyIterator_deref ::
    "'p aset_ext \<Rightarrow> (nat \<Rightarrow> 'p authorization_set option) \<Rightarrow> auth_proxy_iterator \<Rightarrow> 'p option" where
  "AuthProxyIterator_deref X S it = do {
     s1 \<leftarrow> S (auth_set1 it);
     s2 \<leftarrow> S (auth_set2 it);
     if unat (iter_pos it) < aset_size s1 then x_index X s1 (as_int (iter_pos it))
     else x_index X s2 (as_int (iter_pos it - of_nat (aset_size s1))) }"

definition AuthProxyIterator_eq :: "auth_proxy_iterator \<Rightarrow> auth_proxy_iterator \<Rightarrow> bool" where
  "AuthProxyIterator_eq it rhs =
     (if iter_pos it = iter_pos rhs then
        iter_pos it = iterator_invalid \<or> (auth_set1 it = auth_set1 rhs \<and> auth_set2 it = auth_set2 rhs)
      else False)"

text \<open>The loop \<open>for (auto it = begin(); it != end(); ++it) out.push_back(*it)\<close>.\<close>

partial_function (option) AuthProxy_walk ::
    "'p aset_ext \<Rightarrow> (nat \<Rightarrow> 'p authorization_set option) \<Rightarrow> auth_proxy_iterator \<Rightarrow> 'p list \<Rightarrow> 'p list option" where
  "AuthProxy_walk X S it out =
     (if AuthProxyIterator_eq it AuthProxy_end then Some out
      else do {
        p \<leftarrow> AuthProxyIterator_deref X S it;
        it' \<leftarrow> AuthProxyIterator_incr S it;
        AuthProxy_walk X S it' (out @ [p]) })"

text \<open>The copy of an iterator, \<open>it++\<close> (the old iterator and the new one), \<open>->\<close> and \<open>!=\<close>.\<close>

definition AuthProxyIterator_copy :: "auth_proxy_iterator \<Rightarrow> auth_proxy_iterator" where
  "AuthProxyIterator_copy rhs =
     \<lparr>iter_pos = iter_pos rhs, auth_set1 = auth_set1 rhs, auth_set2 = auth_set2 rhs\<rparr>"

definition AuthProxyIterator_post_incr ::
    "(nat \<Rightarrow> 'p authorization_set option) \<Rightarrow> auth_proxy_iterator \<Rightarrow> (auth_proxy_iterator \<times> auth_proxy_iterator) option" where
  "AuthProxyIterator_post_incr S it = do {
     let dummy = AuthProxyIterator_copy it;
     it' \<leftarrow> AuthProxyIterator_incr S it;
     Some (dummy, it') }"

definition AuthProxyIterator_arrow ::
    "'p aset_ext \<Rightarrow> (nat \<Rightarrow> 'p authorization_set option) \<Rightarrow> auth_proxy_iterator \<Rightarrow> 'p option" where
  "AuthProxyIterator_arrow X S it = AuthProxyIterator_deref X S it"

definition AuthProxyIterator_ne :: "auth_proxy_iterator \<Rightarrow> auth_proxy_iterator \<Rightarrow> bool" where
  "AuthProxyIterator_ne it rhs \<longleftrightarrow> \<not> AuthProxyIterator_eq it rhs"

text \<open>\<open>*it++\<close> reads the element that \<open>*it\<close> reads, and leaves the iterator where \<open>++it\<close> does.\<close>

lemma AuthProxyIterator_post_incr_deref:
  "do { (old, it') \<leftarrow> AuthProxyIterator_post_incr S it; p \<leftarrow> AuthProxyIterator_deref X S old; Some (p, it') } =
   do { p \<leftarrow> AuthProxyIterator_deref X S it; it' \<leftarrow> AuthProxyIterator_incr S it; Some (p, it') }"
  by (cases "AuthProxyIterator_incr S it"; cases "AuthProxyIterator_deref X S it"; cases it)
    (simp_all add: AuthProxyIterator_post_incr_def AuthProxyIterator_copy_def)

section \<open>Accessors and further overloads\<close>

definition aset_is_valid :: "'p authorization_set \<Rightarrow> aset_error" where
  "aset_is_valid s = aset_error s"

definition aset_indirect_size :: "'p authorization_set \<Rightarrow> nat" where
  "aset_indirect_size s = indirect_data_size s"

definition Reinitialize_set ::
    "'p aset_ext \<Rightarrow> 'p authorization_set \<Rightarrow> 'p authorization_set \<Rightarrow> bool \<times> 'p authorization_set" where
  "Reinitialize_set X other this = x_Reinitialize X (elems other) (elems_size other) this"

text \<open>A \<open>keymaster_key_param_set_t\<close> is a pointer and a length.\<close>

definition Reinitialize_params ::
    "'p aset_ext \<Rightarrow> 'p list option \<times> nat \<Rightarrow> 'p authorization_set \<Rightarrow> bool \<times> 'p authorization_set" where
  "Reinitialize_params X params this = x_Reinitialize X (fst params) (snd params) this"

text \<open>\<open>build\<close> returns a copy of the builder's set.\<close>

definition builder_build :: "'p aset_ext \<Rightarrow> nat \<Rightarrow> 'p authorization_set \<Rightarrow> 'p authorization_set" where
  "builder_build X junk b = AuthorizationSet_copy X junk b"

text \<open>The copy that the assignment operator makes is the one of \<open>Reinitialize\<close>, with the source's error.\<close>

lemma assign_reinitializes:
  "AuthorizationSet_assign X False this other = (snd (Reinitialize_set X other this))\<lparr>aset_error := aset_error other\<rparr>"
  by (simp add: AuthorizationSet_assign_def Reinitialize_set_def)

end
