(* ===== verification/KmAuthSpec.thy ===== *)
theory KmAuthSpec
  imports KmAuthSet
begin

text \<open>
  The contract of the methods of \<open>AuthorizationSet\<close> that are defined in \<open>authorization_set.cpp\<close>, as their
  comments in \<open>keymaster/authorization_set.h\<close> state it, what the inline methods, the builder, the proxy
  and its iterator promise under it, and an instance that satisfies it.
\<close>

section \<open>The contract\<close>

text \<open>The next index after \<open>b\<close> whose element satisfies \<open>P\<close>, or -1.\<close>

definition next_index :: "('a \<Rightarrow> bool) \<Rightarrow> 'a list \<Rightarrow> int \<Rightarrow> int" where
  "next_index P xs b = (case find (\<lambda>i. P (xs ! i)) [nat (b + 1)..<length xs] of None \<Rightarrow> - 1 | Some i \<Rightarrow> int i)"

lemma next_index_first: "next_index P xs (- 1) = - 1 \<longleftrightarrow> (\<forall>x\<in>set xs. \<not> P x)"
proof -
  have "(\<exists>x\<in>set xs. P x) \<longleftrightarrow> (\<exists>i<length xs. P (xs ! i))" by (metis in_set_conv_nth)
  then show ?thesis
    by (auto simp: next_index_def find_None_iff dest!: find_SomeD split: option.splits)
qed

definition aset_wf :: "'p authorization_set \<Rightarrow> bool" where
  "aset_wf s \<longleftrightarrow> length (aset_list s) = elems_size s"

definition tag_count :: "('p \<Rightarrow> u32) \<Rightarrow> 'p authorization_set \<Rightarrow> u32 \<Rightarrow> nat" where
  "tag_count tag_of s tag = length (filter (\<lambda>p. tag_of p = tag) (aset_list s))"

locale aset_functions =
  fixes X :: "'p aset_ext" and tag_of :: "'p \<Rightarrow> u32"
  assumes find_next: "aset_wf s \<Longrightarrow> x_find X s tag b = next_index (\<lambda>p. tag_of p = tag) (aset_list s) b"
    and index_nth: "aset_wf s \<Longrightarrow> n < aset_size s \<Longrightarrow> x_index X s (int n) = Some (aset_list s ! n)"
    and count_filter: "aset_wf s \<Longrightarrow> x_GetTagCount X s tag = tag_count tag_of s tag"
    and push_back_appends: "aset_wf s \<Longrightarrow> x_push_back X p s = (True, s') \<Longrightarrow>
      aset_wf s' \<and> aset_list s' = aset_list s @ [p] \<and> aset_error s' = aset_error s"
    and reinit_copies: "n \<le> length es \<Longrightarrow> x_Reinitialize X (Some es) n s = (True, s') \<Longrightarrow>
      aset_wf s' \<and> aset_list s' = take n es \<and> aset_error s' = ASET_OK"
    and reinit_fails: "x_Reinitialize X src n s = (False, s') \<Longrightarrow> aset_error s' = ALLOCATION_FAILURE"
    and dedup: "aset_wf s \<Longrightarrow> set (aset_list (x_Deduplicate X s)) = set (aset_list s) \<and>
      distinct (aset_list (x_Deduplicate X s))"
    and enum_rep_none: "aset_wf s \<Longrightarrow> x_EnumRep X s tag i = None \<longleftrightarrow> tag_count tag_of s tag \<le> i"
    and int_rep_none: "aset_wf s \<Longrightarrow> x_IntRep X s tag i = None \<longleftrightarrow> tag_count tag_of s tag \<le> i"
    and long_rep_none: "aset_wf s \<Longrightarrow> x_LongRep X s tag i = None \<longleftrightarrow> tag_count tag_of s tag \<le> i"
    and int_none: "aset_wf s \<Longrightarrow> x_Int X s tag = None \<longleftrightarrow> tag_count tag_of s tag = 0"
begin

lemma Contains_iff: "aset_wf s \<Longrightarrow> Contains_tag X s tag \<longleftrightarrow> tag \<in> tag_of ` set (aset_list s)"
  by (auto simp: Contains_tag_def find_next next_index_first)

lemma count_pos: "aset_wf s \<Longrightarrow> 0 < x_GetTagCount X s tag \<longleftrightarrow> Contains_tag X s tag"
  by (auto simp: Contains_iff count_filter tag_count_def filter_empty_conv)

lemma copy_equal:
  assumes "aset_wf s" "elems s = Some es" "aset_error s = ASET_OK"
    and "fst (x_Reinitialize X (Some es) (elems_size s) ((aset_uninit junk)\<lparr>aset_error := ASET_OK\<rparr>))"
  shows "aset_list (AuthorizationSet_copy X junk s) = aset_list s"
proof -
  have len: "elems_size s \<le> length es" using assms(1,2) by (simp add: aset_wf_def aset_list_def)
  obtain s' where s': "x_Reinitialize X (Some es) (elems_size s) ((aset_uninit junk)\<lparr>aset_error := ASET_OK\<rparr>) = (True, s')"
    using assms(4) by (metis prod.collapse)
  from reinit_copies [OF len s'] show ?thesis
    by (simp add: AuthorizationSet_copy_def Let_def assms s' aset_list_def [of s])
qed

text \<open>An instance of a repeatable tag is found exactly when it exists.\<close>

lemma instance_found:
  assumes "aset_wf s" and "ty \<in> {KM_ENUM_REP, KM_UINT_REP, KM_ULONG_REP}"
  shows "\<exists>r. GetTagValue X s ty tag (Some i) = Some r \<and> (r = None \<longleftrightarrow> tag_count tag_of s tag \<le> i)"
  using assms by (auto simp: GetTagValue_def enum_rep_none int_rep_none long_rep_none)

text \<open>Appending a typed tag, when the append succeeds.\<close>

lemma builder_add_appends:
  assumes "be_ext V = X" "aset_wf b" "\<And>p s. fst (x_push_back X p s)"
    and "Authorization (be_fns V) (declared_type t) (be_tag V t) args = Some p"
  shows "aset_wf (builder_add V t args b) \<and> aset_list (builder_add V t args b) = aset_list b @ [p]"
proof -
  obtain b' where b': "x_push_back X p b = (True, b')" using assms(3) [of p b] by (metis prod.collapse)
  from push_back_appends [OF assms(2) b'] show ?thesis
    by (simp add: builder_add_def push_back_typed_def assms b')
qed

end

section \<open>The proxy\<close>

text \<open>Conversions of positions below \<open>2 ^ 31\<close>.\<close>

lemma as_int_small:
  assumes "unat p < 2 ^ 31"
  shows "as_int p = int (unat p)"
proof -
  have "int (unat p) < 2 ^ 31" using assms by (metis of_nat_less_iff of_nat_numeral of_nat_power)
  then have "uint p < 2 ^ 31" by (simp only: uint_nat)
  then have "signed_take_bit 31 (uint p) = uint p"
    using uint_ge_0 [of p] by (intro signed_take_bit_int_eq_self) linarith+
  moreover have "as_int p = signed_take_bit 31 (uint p)"
    by (simp add: as_int_def signed_ucast_eq)
  ultimately show ?thesis by simp
qed

locale proxy_sets = aset_functions X tag_of for X :: "'p aset_ext" and tag_of :: "'p \<Rightarrow> u32" +
  fixes S :: "nat \<Rightarrow> 'p authorization_set option" and a1 a2 :: nat and hw sw :: "'p authorization_set"
  assumes at1: "S a1 = Some hw" and at2: "S a2 = Some sw"
    and wf1: "aset_wf hw" and wf2: "aset_wf sw"
    and small: "aset_size hw < 2 ^ 31" "aset_size sw < 2 ^ 31"
begin

definition at_position :: "nat \<Rightarrow> auth_proxy_iterator" where
  "at_position n = \<lparr>iter_pos = of_nat n, auth_set1 = a1, auth_set2 = a2\<rparr>"

lemma lengths: "length (aset_list hw) = aset_size hw" "length (aset_list sw) = aset_size sw"
  using wf1 wf2 by (simp_all add: aset_wf_def aset_size_def)

lemma pos_valid: "n < aset_size hw + aset_size sw \<Longrightarrow> unat (of_nat n :: u64) = n \<and> (of_nat n :: u64) \<noteq> iterator_invalid"
proof -
  assume "n < aset_size hw + aset_size sw"
  with small have n: "n < 2 ^ 32" by simp
  then have u: "unat (of_nat n :: u64) = n" by (intro unat_of_nat_small) simp
  have "unat iterator_invalid = 2 ^ 64 - 1" 
    by (simp add: iterator_invalid_def unsigned_minus_1_eq_mask mask_eq_exp_minus_1)
  with u n show ?thesis by auto
qed

lemma deref_at: "n < aset_size hw + aset_size sw \<Longrightarrow>
    AuthProxyIterator_deref X S (at_position n) = Some ((aset_list hw @ aset_list sw) ! n)"
proof -
  assume n: "n < aset_size hw + aset_size sw"
  note u = pos_valid [OF n]
  show ?thesis
  proof (cases "n < aset_size hw")
    case True
    with u small index_nth [OF wf1 True] show ?thesis
      by (simp add: AuthProxyIterator_deref_def at_position_def at1 at2 as_int_small nth_append lengths)
  next
    case False
    then have d: "(of_nat n :: u64) - of_nat (aset_size hw) = of_nat (n - aset_size hw)" by (simp add: of_nat_diff)
    have lt: "n - aset_size hw < aset_size sw" using False n by simp
    then have u': "unat (of_nat (n - aset_size hw) :: u64) = n - aset_size hw"
      using small by (intro unat_of_nat_small) simp
    with u small lt d False index_nth [OF wf2 lt] show ?thesis
      by (simp add: AuthProxyIterator_deref_def at_position_def at1 at2 as_int_small nth_append lengths)
  qed
qed

lemma incr_at: "n < aset_size hw + aset_size sw \<Longrightarrow>
    AuthProxyIterator_incr S (at_position n) =
      Some (if Suc n = aset_size hw + aset_size sw
            then (at_position n)\<lparr>iter_pos := iterator_invalid\<rparr> else at_position (Suc n))"
proof -
  assume n: "n < aset_size hw + aset_size sw"
  have "of_nat n + 1 = (of_nat (aset_size hw + aset_size sw) :: u64) \<longleftrightarrow> Suc n = aset_size hw + aset_size sw"
  proof -
    have "unat (of_nat (Suc n) :: u64) = Suc n" "unat (of_nat (aset_size hw + aset_size sw) :: u64) = aset_size hw + aset_size sw"
      using n small by (intro unat_of_nat_small; simp)+
    then show ?thesis by (metis add.commute of_nat_Suc)
  qed
  with pos_valid [OF n] show ?thesis
    by (simp add: AuthProxyIterator_incr_def at_position_def at1 at2 Let_def add.commute)
qed

lemma walk_from: "n < aset_size hw + aset_size sw \<Longrightarrow>
    AuthProxy_walk X S (at_position n) out = Some (out @ drop n (aset_list hw @ aset_list sw))"
proof (induction "aset_size hw + aset_size sw - n" arbitrary: n out)
  case 0 then show ?case by simp
next
  case (Suc k)
  let ?l = "aset_list hw @ aset_list sw"
  have ne: "\<not> AuthProxyIterator_eq (at_position n) AuthProxy_end"
    using pos_valid [OF Suc.prems] by (simp add: AuthProxyIterator_eq_def AuthProxy_end_def at_position_def)
  have len: "length ?l = aset_size hw + aset_size sw" by (simp add: lengths)
  have dr: "drop n ?l = ?l ! n # drop (Suc n) ?l" using Suc.prems len by (metis Cons_nth_drop_Suc)
  show ?case
  proof (cases "Suc n = aset_size hw + aset_size sw")
    case True
    then have "drop (Suc n) ?l = []" using len by simp
    with ne True dr show ?thesis
      by (subst AuthProxy_walk.simps)
        (simp add: deref_at [OF Suc.prems] incr_at [OF Suc.prems], subst AuthProxy_walk.simps,
         simp add: AuthProxyIterator_eq_def AuthProxy_end_def)
  next
    case False
    then have lt: "Suc n < aset_size hw + aset_size sw" using Suc.prems by simp
    have "k = aset_size hw + aset_size sw - Suc n" using Suc.hyps(2) by simp
    from Suc.hyps(1) [OF this lt, of "out @ [?l ! n]"] ne False dr show ?thesis
      by (subst AuthProxy_walk.simps) (simp add: deref_at [OF Suc.prems] incr_at [OF Suc.prems])
  qed
qed

lemma walk_all: "aset_size hw + aset_size sw \<noteq> 0 \<Longrightarrow>
    AuthProxy_walk X S (AuthProxy_begin a1 a2) [] = Some (aset_list hw @ aset_list sw)"
  using walk_from [of 0 "[]"] by (simp add: at_position_def AuthProxy_begin_def)

lemma proxy_contains: "AuthProxy_Contains (\<lambda>s. Contains_tag X s tag) hw sw \<longleftrightarrow> tag \<in> tag_of ` set (aset_list hw @ aset_list sw)"
  by (auto simp: AuthProxy_Contains_def Contains_iff wf1 wf2)

lemma proxy_count: "AuthProxy_GetTagCount X hw sw tag = length (filter (\<lambda>p. tag_of p = tag) (aset_list hw @ aset_list sw))"
  by (simp add: AuthProxy_GetTagCount_def count_filter wf1 wf2 tag_count_def)

end


section \<open>An instance\<close>

text \<open>
  Authorizations with one number, kept in a list. \<open>can n\<close> says whether memory for \<open>n\<close> elements can be
  allocated; after a failure the set is empty.
\<close>

record doc_param =
  dp_tag :: u32
  dp_value :: u64

definition doc_set :: "'p list \<Rightarrow> 'p authorization_set" where
  "doc_set ps = AuthorizationSet\<lparr>elems := Some ps, elems_size := length ps, elems_capacity := length ps\<rparr>"

definition doc_alloc :: "(nat \<Rightarrow> bool) \<Rightarrow> 'p list \<Rightarrow> 'p authorization_set \<Rightarrow> bool \<times> 'p authorization_set" where
  "doc_alloc can ps s = (if can (length ps)
     then (True, s\<lparr>elems := Some ps, elems_size := length ps, elems_capacity := length ps\<rparr>)
     else (False, s\<lparr>elems := None, elems_size := 0, elems_capacity := 0, aset_error := ALLOCATION_FAILURE\<rparr>))"

definition doc_value :: "doc_param authorization_set \<Rightarrow> u32 \<Rightarrow> nat \<Rightarrow> u64 option" where
  "doc_value s tag i = (let ps = filter (\<lambda>p. dp_tag p = tag) (aset_list s)
     in if i < length ps then Some (dp_value (ps ! i)) else None)"

definition doc_aset :: "(nat \<Rightarrow> bool) \<Rightarrow> doc_param aset_ext" where
  "doc_aset can = \<lparr>
     x_Reinitialize = (\<lambda>es n s. doc_alloc can (take n (case es of None \<Rightarrow> [] | Some l \<Rightarrow> l)) (s\<lparr>aset_error := ASET_OK\<rparr>)),
     x_Deserialize = (\<lambda>(s, r). (False, s\<lparr>aset_error := MALFORMED_DATA\<rparr>, r)),
     x_FreeData = (\<lambda>s. AuthorizationSet\<lparr>aset_error := aset_error s\<rparr>),
     x_MoveFrom = (\<lambda>this other. (other, AuthorizationSet)),
     x_find = (\<lambda>s tag b. next_index (\<lambda>p. dp_tag p = tag) (aset_list s) b),
     x_index = (\<lambda>s n. if 0 \<le> n \<and> nat n < aset_size s then Some (aset_list s ! nat n) else None),
     x_GetTagCount = tag_count dp_tag,
     x_Enum = (\<lambda>s tag. map_option ucast (doc_value s tag 0)),
     x_EnumRep = (\<lambda>s tag i. map_option ucast (doc_value s tag i)),
     x_Int = (\<lambda>s tag. map_option ucast (doc_value s tag 0)),
     x_IntRep = (\<lambda>s tag i. map_option ucast (doc_value s tag i)),
     x_Long = (\<lambda>s tag. doc_value s tag 0),
     x_LongRep = (\<lambda>s tag i. doc_value s tag i),
     x_Blob = (\<lambda>s tag. None),
     x_Bool = (\<lambda>s tag. 0 < tag_count dp_tag s tag),
     x_ContainsEnum = (\<lambda>s tag v. \<lparr>dp_tag = tag, dp_value = ucast v\<rparr> \<in> set (aset_list s)),
     x_ContainsInt = (\<lambda>s tag v. \<lparr>dp_tag = tag, dp_value = ucast v\<rparr> \<in> set (aset_list s)),
     x_push_back = (\<lambda>p s. doc_alloc can (aset_list s @ [p]) s),
     x_Deduplicate = (\<lambda>s. (doc_set (remdups (aset_list s)))\<lparr>aset_error := aset_error s\<rparr>)\<rparr>"

lemma aset_list_doc_set [simp]: "aset_list (doc_set ps) = ps"
  and aset_size_doc_set [simp]: "aset_size (doc_set ps) = length ps"
  and aset_wf_doc_set [simp]: "aset_wf (doc_set ps)"
  and aset_error_doc_set [simp]: "aset_error (doc_set ps) = ASET_OK"
  by (simp_all add: aset_list_def aset_size_def aset_wf_def doc_set_def AuthorizationSet_def)

lemma aset_list_error [simp]: "aset_list (s\<lparr>aset_error := e\<rparr>) = aset_list s"
  by (simp add: aset_list_def split: option.split)

lemma doc_alloc_True: "doc_alloc can ps s = (True, s') \<Longrightarrow>
    aset_wf s' \<and> aset_list s' = ps \<and> aset_error s' = aset_error s"
  by (auto simp: doc_alloc_def aset_wf_def aset_list_def split: if_splits)

lemma doc_value_None: "doc_value s tag i = None \<longleftrightarrow> tag_count dp_tag s tag \<le> i"
  by (auto simp: doc_value_def tag_count_def Let_def)

interpretation doc_aset: aset_functions "doc_aset can" dp_tag for can
proof (unfold_locales, goal_cases)
  case (5 n es s s') then show ?case by (auto simp: doc_aset_def dest: doc_alloc_True)
next
  case (6 src n s s') then show ?case by (auto simp: doc_aset_def doc_alloc_def split: if_splits)
qed (auto simp: doc_aset_def aset_size_def aset_wf_def doc_value_None dest: doc_alloc_True)

interpretation two_sets: proxy_sets "doc_aset can" dp_tag
    "\<lambda>a. if a = a1 then Some (doc_set (take 2147483647 xs)) else Some (doc_set (take 2147483647 ys))"
    a1 "Suc a1" "doc_set (take 2147483647 xs)" "doc_set (take 2147483647 ys)" for can a1 xs ys
  by unfold_locales (auto simp: min_def)


section \<open>Properties\<close>

text \<open>C29 A loop over an \<open>AuthProxy\<close> visits the elements of the hardware-enforced set and then those of the
  software-enforced one, each once and in order, and ends, unless both sets are empty.\<close>

theorem proxy_walk_correct:
  assumes "proxy_sets X tag_of S a1 a2 hw sw" and "aset_size hw + aset_size sw \<noteq> 0"
  shows "AuthProxy_walk X S (AuthProxy_begin a1 a2) [] = Some (aset_list hw @ aset_list sw)"
  by (rule proxy_sets.walk_all [OF assms])

lemma proxy_walk_correct_witness:
  "AuthProxy_walk (doc_aset (\<lambda>_. True))
     (\<lambda>a. if a = 8 then Some (doc_set (take 2147483647 [\<lparr>dp_tag = 1, dp_value = 5\<rparr>]))
          else Some (doc_set (take 2147483647 [\<lparr>dp_tag = 2, dp_value = 6\<rparr>])))
     (AuthProxy_begin 8 (Suc 8)) [] = Some [\<lparr>dp_tag = 1, dp_value = 5\<rparr>, \<lparr>dp_tag = 2, dp_value = 6\<rparr>]"
  using proxy_walk_correct [OF two_sets.proxy_sets_axioms [of "\<lambda>_. True" 8 "[\<lparr>dp_tag = 1, dp_value = 5\<rparr>]" "[\<lparr>dp_tag = 2, dp_value = 6\<rparr>]"]]
  by simp

text \<open>C33 When both sets are empty the iterator of \<open>begin\<close> is not the one of \<open>end\<close>: the loop is entered, reads
  element 0 of the empty software-enforced set, and the next position is 1, which is beyond the end
  as well.\<close>

theorem empty_proxy_overruns:
  assumes "S a1 = Some hw" and "S a2 = Some sw" and "aset_empty hw" and "aset_empty sw"
  shows "\<not> AuthProxyIterator_eq (AuthProxy_begin a1 a2) AuthProxy_end
    \<and> AuthProxyIterator_deref X S (AuthProxy_begin a1 a2) = x_index X sw 0
    \<and> map_option iter_pos (AuthProxyIterator_incr S (AuthProxy_begin a1 a2)) = Some 1"
  using assms by (simp_all add: AuthProxyIterator_eq_def AuthProxy_begin_def AuthProxy_end_def iterator_invalid_def
      AuthProxyIterator_deref_def AuthProxyIterator_incr_def aset_empty_def as_int_def)

lemma empty_proxy_overruns_witness:
  "AuthProxyIterator_deref (doc_aset (\<lambda>_. True)) (\<lambda>_. Some (doc_set [])) (AuthProxy_begin 8 9) = None"
  using empty_proxy_overruns [of "\<lambda>_. Some (doc_set [])" 8 "doc_set []" 9 "doc_set []" "doc_aset (\<lambda>_. True)"]
  by (simp add: aset_empty_def doc_aset_def)

text \<open>C32 \<open>GetTagCount\<close> of a proxy counts the elements of both sets that have the tag, but \<open>GetTagValue\<close> of a
  repeatable tag (an enumeration, 32-bit or 64-bit tag with an instance) finds the instances of the larger
  group only, since they are numbered per set: when both sets have the tag, the last instance below the
  count is found in neither.\<close>

theorem proxy_instances_hidden:
  assumes "aset_functions X tag_of" and "aset_wf hw" and "aset_wf sw"
    and "ty \<in> {KM_ENUM_REP, KM_UINT_REP, KM_ULONG_REP}"
  shows "AuthProxy_GetTagCount X hw sw tag = length (filter (\<lambda>p. tag_of p = tag) (aset_list hw @ aset_list sw))
    \<and> (AuthProxy_GetTagValue (\<lambda>s. the (GetTagValue X s ty tag (Some i))) hw sw = None \<longleftrightarrow>
        max (x_GetTagCount X hw tag) (x_GetTagCount X sw tag) \<le> i)
    \<and> (Contains_tag X hw tag \<and> Contains_tag X sw tag \<longrightarrow> AuthProxy_GetTagValue
        (\<lambda>s. the (GetTagValue X s ty tag (Some (AuthProxy_GetTagCount X hw sw tag - 1)))) hw sw = None)"
proof -
  note count = aset_functions.count_filter [OF assms(1)]
  have found: "AuthProxy_GetTagValue (\<lambda>s. the (GetTagValue X s ty tag (Some j))) hw sw = None \<longleftrightarrow>
      max (x_GetTagCount X hw tag) (x_GetTagCount X sw tag) \<le> j" for j
    using aset_functions.instance_found [OF assms(1) _ assms(4), of hw tag j]
      aset_functions.instance_found [OF assms(1) _ assms(4), of sw tag j] assms(2,3)
    by (auto simp: AuthProxy_GetTagValue_def count split: option.splits)
  have "max (x_GetTagCount X hw tag) (x_GetTagCount X sw tag) \<le> AuthProxy_GetTagCount X hw sw tag - 1"
    if "Contains_tag X hw tag" and "Contains_tag X sw tag"
  proof -
    have "0 < x_GetTagCount X hw tag" "0 < x_GetTagCount X sw tag"
      using aset_functions.count_pos [OF assms(1)] assms(2,3) that by blast+
    then show ?thesis unfolding AuthProxy_GetTagCount_def by linarith
  qed
  then show ?thesis
    unfolding found using assms(2,3) by (simp add: AuthProxy_GetTagCount_def count tag_count_def)
qed

lemma proxy_instances_hidden_witness:
  "AuthProxy_GetTagValue (\<lambda>s. the (GetTagValue (doc_aset (\<lambda>_. True)) s KM_UINT_REP 7 (Some 1)))
     (doc_set [\<lparr>dp_tag = 7, dp_value = 2\<rparr>]) (doc_set [\<lparr>dp_tag = 7, dp_value = 3\<rparr>]) = None"
  using proxy_instances_hidden [OF doc_aset.aset_functions_axioms, of "doc_set [\<lparr>dp_tag = 7, dp_value = 2\<rparr>]"
      "doc_set [\<lparr>dp_tag = 7, dp_value = 3\<rparr>]" KM_UINT_REP "\<lambda>_. True" 7 1]
  by (simp add: doc_aset.count_filter tag_count_def)

text \<open>\<open>RsaSigningKey\<close> appends the algorithm, the key size, the public exponent and the purposes sign and
  verify, in this order and with the constructors of their types, to what was built before.\<close>

theorem rsa_signing_key_builds:
  assumes "aset_functions (be_ext V) tag_of" and "aset_wf b" and "\<And>p s. fst (x_push_back (be_ext V) p s)"
  shows "aset_list (RsaSigningKey V key_size e b) = aset_list b @
    [param_enum (be_fns V) (be_tag V TAG_ALGORITHM) (KM_ALGORITHM_RSA V),
     param_int (be_fns V) (be_tag V TAG_KEY_SIZE) key_size,
     param_long (be_fns V) (be_tag V TAG_RSA_PUBLIC_EXPONENT) e,
     param_enum (be_fns V) (be_tag V TAG_PURPOSE) (KM_PURPOSE_SIGN V),
     param_enum (be_fns V) (be_tag V TAG_PURPOSE) (KM_PURPOSE_VERIFY V)]"
  using aset_functions.builder_add_appends [OF assms(1) refl _ assms(3)] assms(2)
  by (simp add: RsaSigningKey_def SigningKey_def RsaKey_def Authorization_def)

definition doc_builder :: "doc_param builder_env" where
  "doc_builder = \<lparr>be_ext = doc_aset (\<lambda>_. True),
     be_fns = \<lparr>param_bool = \<lambda>t. \<lparr>dp_tag = t, dp_value = 1\<rparr>, param_int = \<lambda>t v. \<lparr>dp_tag = t, dp_value = ucast v\<rparr>,
       param_long = \<lambda>t v. \<lparr>dp_tag = t, dp_value = v\<rparr>, param_date = \<lambda>t v. \<lparr>dp_tag = t, dp_value = v\<rparr>,
       param_blob = \<lambda>t b n. \<lparr>dp_tag = t, dp_value = of_nat n\<rparr>, param_enum = \<lambda>t v. \<lparr>dp_tag = t, dp_value = ucast v\<rparr>\<rparr>,
     be_tag = (\<lambda>t. if t = TAG_ALGORITHM then 0x10000002 else if t = TAG_KEY_SIZE then 0x30000003
               else if t = TAG_RSA_PUBLIC_EXPONENT then 0x500000C8 else 0x20000001),
     KM_ALGORITHM_RSA = 1, KM_ALGORITHM_EC = 3, KM_ALGORITHM_AES = 32, KM_ALGORITHM_TRIPLE_DES = 33,
     KM_ALGORITHM_HMAC = 128, KM_PURPOSE_SIGN = 2, KM_PURPOSE_VERIFY = 3, KM_PURPOSE_ENCRYPT = 0,
     KM_PURPOSE_DECRYPT = 1, KM_DIGEST_NONE = 0, KM_PAD_NONE = 1, KM_MODE_ECB = 1\<rparr>"

lemma rsa_signing_key_builds_witness:
  "map dp_value (aset_list (RsaSigningKey doc_builder 2048 65537 (doc_set []))) = [1, 2048, 65537, 2, 3]"
  using rsa_signing_key_builds [of doc_builder dp_tag "doc_set []" 2048 65537] doc_aset.aset_functions_axioms [of "\<lambda>_. True"]
  by (simp add: doc_builder_def doc_aset_def doc_alloc_def)

text \<open>The copy assignment overwrites the error state with the one of its argument: when the copy of a
  valid set could not be allocated, the result claims to be valid.\<close>

theorem assign_masks_failure:
  assumes "aset_functions X tag_of" and "aset_error other = ASET_OK"
    and "\<not> fst (x_Reinitialize X (elems other) (elems_size other) this)"
  shows "aset_error (snd (x_Reinitialize X (elems other) (elems_size other) this)) = ALLOCATION_FAILURE
    \<and> aset_error (AuthorizationSet_assign X False this other) = ASET_OK"
proof
  show "aset_error (snd (x_Reinitialize X (elems other) (elems_size other) this)) = ALLOCATION_FAILURE"
    using aset_functions.reinit_fails [OF assms(1)] assms(3) by (metis (full_types) prod.collapse)
  show "aset_error (AuthorizationSet_assign X False this other) = ASET_OK"
    by (simp add: AuthorizationSet_assign_def assms(2))
qed

lemma assign_masks_failure_witness:
  "aset_error (AuthorizationSet_assign (doc_aset (\<lambda>n. n = 0)) False (doc_set []) (doc_set [\<lparr>dp_tag = 1, dp_value = 2\<rparr>])) = ASET_OK
   \<and> aset_list (AuthorizationSet_assign (doc_aset (\<lambda>n. n = 0)) False (doc_set []) (doc_set [\<lparr>dp_tag = 1, dp_value = 2\<rparr>])) = []"
  using assign_masks_failure [OF doc_aset.aset_functions_axioms,
      of "doc_set [\<lparr>dp_tag = 1, dp_value = 2\<rparr>]" "\<lambda>n. n = 0" "doc_set []"]
  by (simp add: doc_aset_def doc_alloc_def doc_set_def AuthorizationSet_assign_def aset_list_def AuthorizationSet_def)

end
