(* ===== verification/KmConvert.thy ===== *)
theory KmConvert
  imports MsgTypes KmUtils KmAuthSpec AidlTags AidlValues
begin

text \<open>
  The conversions between the interfaces: \<open>keystore_hidl_support.h\<close> (HIDL, Keymaster 3) and
  \<open>KeyMintUtils.h\<close> (AIDL, KeyMint) under \<open>keymaster-ng\<close>. \<open>hidl_vec\<close>, \<open>Return\<close>, \<open>ScopedAStatus\<close>, the token of
  the HIDL interface and the functions \<open>keymaster_free_param_set\<close> and \<open>aidlKeyParams2Km\<close> are outside the
  repository; what is used of them is modelled by the types and arguments below. An access outside an
  array is \<open>None\<close>.
\<close>

section \<open>HIDL support\<close>

text \<open>The arguments of a log message, already formatted.\<close>

fun formatArgs :: "string \<Rightarrow> string list \<Rightarrow> string" where
  "formatArgs out [] = out"
| "formatArgs out (first # args) = formatArgs (out @ first) args"

definition argsToString :: "string list \<Rightarrow> string" where
  "argsToString args = formatArgs [] args"

record 'a hidl_return =
  ret_ok :: bool
  ret_value :: 'a

text \<open>The two overloads; the codes \<open>UNKNOWN_ERROR\<close> and \<open>OK\<close> of the HIDL interface are arguments.\<close>

definition ksHandleHidlError :: "u32 \<Rightarrow> u32 hidl_return \<Rightarrow> u32" where
  "ksHandleHidlError unknown r = (if \<not> ret_ok r then unknown else ret_value r)"

definition ksHandleHidlError_void :: "u32 \<Rightarrow> u32 \<Rightarrow> unit hidl_return \<Rightarrow> u32" where
  "ksHandleHidlError_void unknown success r = (if \<not> ret_ok r then unknown else success)"

text \<open>A vector owns its bytes or refers to memory of somebody else.\<close>

datatype hidl_vec = External u64 nat | Owned "byte list"

definition memory_bytes :: "(u64 \<Rightarrow> byte) \<Rightarrow> u64 \<Rightarrow> nat \<Rightarrow> byte list" where
  "memory_bytes mem data n = map (\<lambda>i. mem (data + of_nat i)) [0..<n]"

fun hidl_read :: "(u64 \<Rightarrow> byte) \<Rightarrow> hidl_vec \<Rightarrow> byte list" where
  "hidl_read mem (External data n) = memory_bytes mem data n"
| "hidl_read mem (Owned bs) = bs"

definition blob2hidlVec :: "(u64 \<Rightarrow> byte) \<Rightarrow> u64 \<Rightarrow> nat \<Rightarrow> bool \<Rightarrow> hidl_vec" where
  "blob2hidlVec mem data n inPlace =
     (if inPlace then External data n else Owned (memory_bytes mem data n))"

definition blob2hidlVec_string :: "u64 \<Rightarrow> nat \<Rightarrow> hidl_vec" where
  "blob2hidlVec_string data n = External data n"

definition blob2hidlVec_vector :: "u64 \<Rightarrow> nat \<Rightarrow> hidl_vec" where
  "blob2hidlVec_vector data n = External data n"

definition hidlVec2String :: "(u64 \<Rightarrow> byte) \<Rightarrow> hidl_vec \<Rightarrow> byte list" where
  "hidlVec2String mem value = hidl_read mem value"

text \<open>Copying the bytes of a number to a position; the new position is returned.\<close>

definition copy_bytes_to_iterator :: "byte list \<Rightarrow> byte list \<times> nat \<Rightarrow> byte list \<times> nat" where
  "copy_bytes_to_iterator value dest = (case dest of (buf, pos) \<Rightarrow>
     (take pos buf @ value @ drop (pos + length value) buf, pos + length value))"

record hidl_auth_token =
  hat_challenge :: u64
  hat_userId :: u64
  hat_authenticatorId :: u64
  hat_authenticatorType :: u32
  hat_timestamp :: u64
  hat_hmac :: "byte list"

text \<open>The size of \<open>hw_auth_token_t\<close>, as the static assertion has it.\<close>

definition hw_auth_token_size :: nat where
  "hw_auth_token_size = 1 + 8 + 8 + 8 + 4 + 8 + 32"

definition authToken2HidlVec :: "hidl_auth_token \<Rightarrow> byte list" where
  "authToken2HidlVec token =
     (let result = replicate hw_auth_token_size 0;
          d = copy_bytes_to_iterator [0] (result, 0);
          d = copy_bytes_to_iterator (le64 (hat_challenge token)) d;
          d = copy_bytes_to_iterator (le64 (hat_userId token)) d;
          d = copy_bytes_to_iterator (le64 (hat_authenticatorId token)) d;
          d = copy_bytes_to_iterator (le32 (hat_authenticatorType token)) d;
          d = copy_bytes_to_iterator (le64 (hat_timestamp token)) d;
          d = copy_bytes_to_iterator (hat_hmac token) d
      in fst d)"

lemma formatArgs_eq: "formatArgs out args = out @ concat args"
  by (induction out args rule: formatArgs.induct) simp_all

text \<open>Writing one field after the other fills the vector from the front.\<close>

lemma copy_bytes_front:
  "length value \<le> n \<Longrightarrow> copy_bytes_to_iterator value (done @ replicate n 0, length done) =
     ((done @ value) @ replicate (n - length value) 0, length (done @ value))"
  by (simp add: copy_bytes_to_iterator_def)

lemma authToken2HidlVec_eq:
  assumes "length (hat_hmac t) = 32"
  shows "authToken2HidlVec t = [0] @ le64 (hat_challenge t) @ le64 (hat_userId t) @ le64 (hat_authenticatorId t)
    @ le32 (hat_authenticatorType t) @ le64 (hat_timestamp t) @ hat_hmac t"
  using copy_bytes_front [of "[0]" 69 "[]"] assms
  by (simp add: authToken2HidlVec_def Let_def hw_auth_token_size_def copy_bytes_to_iterator_def)

section \<open>KeyMint utilities\<close>

text \<open>The conversions of enumerations are casts between 32-bit types.\<close>

definition aidl2km_enum :: "int \<Rightarrow> u32" where
  "aidl2km_enum value = of_int value"

definition km2aidl_enum :: "u32 \<Rightarrow> int" where
  "km2aidl_enum value = sint value"

datatype scoped_status = Status_ok | ServiceSpecificError int

definition kmError2ScopedAStatus :: "u32 \<Rightarrow> scoped_status" where
  "kmError2ScopedAStatus value = (if value = KM_ERROR_OK then Status_ok else ServiceSpecificError (sint value))"

text \<open>\<open>KmParamSet\<close>: an array of parameters that is freed by the destructor.\<close>

record 'p km_param_set =
  ps_params :: "'p list option"
  ps_length :: nat

definition KmParamSet :: "(KeyParameter list \<Rightarrow> 'p km_param_set) \<Rightarrow> KeyParameter list \<Rightarrow> 'p km_param_set" where
  "KmParamSet aidlKeyParams2Km keyParams = aidlKeyParams2Km keyParams"

definition KmParamSet_move :: "'p km_param_set \<Rightarrow> 'p km_param_set \<times> 'p km_param_set" where
  "KmParamSet_move other =
     (\<lparr>ps_params = ps_params other, ps_length = ps_length other\<rparr>, other\<lparr>ps_length := 0, ps_params := None\<rparr>)"

definition KmParamSet_destroy :: "('p km_param_set \<Rightarrow> 'p list list) \<Rightarrow> 'p km_param_set \<Rightarrow> 'p list list" where
  "KmParamSet_destroy free_param_set s = free_param_set s"

text \<open>\<open>vector<uint8_t> result(p, p + n)\<close> for a pointer to element \<open>from\<close> of an array, or null.\<close>

definition range_vector :: "byte list option \<Rightarrow> nat \<Rightarrow> nat \<Rightarrow> byte list option" where
  "range_vector p from n = (case p of
       None \<Rightarrow> if n = 0 then Some [] else None
     | Some d \<Rightarrow> if from + n \<le> length d then Some (take n (drop from d)) else None)"

definition kmBlob2vector :: "blob \<Rightarrow> byte list option" where
  "kmBlob2vector b = range_vector (blob_data b) 0 (blob_size b)"

definition kmBuffer2vector :: "(buffer \<Rightarrow> nat) \<Rightarrow> buffer \<Rightarrow> byte list option" where
  "kmBuffer2vector available_read buf =
     range_vector (buffer_data buf) (case peek_read buf of None \<Rightarrow> 0 | Some k \<Rightarrow> k) (available_read buf)"

fun certificates_loop :: "nat \<Rightarrow> nat \<Rightarrow> blob list \<Rightarrow> Certificate list \<Rightarrow> Certificate list option" where
  "certificates_loop 0 i es result = Some result"
| "certificates_loop (Suc k) i es result =
     (if i < length es then
        (case kmBlob2vector (es ! i) of
           None \<Rightarrow> None
         | Some v \<Rightarrow> certificates_loop k (Suc i) es (result[i := Certificate v]))
      else None)"

definition kmCertChain2Aidl :: "cert_chain \<Rightarrow> Certificate list option" where
  "kmCertChain2Aidl chain = (case entries chain of
       None \<Rightarrow> Some []
     | Some es \<Rightarrow> if entry_count chain = 0 then Some []
                 else certificates_loop (entry_count chain) 0 es (replicate (entry_count chain) Certificate_default))"

text \<open>\<open>clear\<close> is \<open>AuthorizationSet::Clear\<close>, defined in \<open>authorization_set.cpp\<close>.\<close>

definition addClientAndAppData ::
    "'p builder_env \<Rightarrow> ('p authorization_set \<Rightarrow> 'p authorization_set) \<Rightarrow> byte list \<Rightarrow> byte list
      \<Rightarrow> 'p authorization_set \<Rightarrow> 'p authorization_set" where
  "addClientAndAppData V clear clientId appData params =
     (let p0 = clear params;
          p1 = (if clientId \<noteq> [] then builder_add V TAG_APPLICATION_ID (A_bytes (Some clientId) (length clientId)) p0 else p0)
      in if appData \<noteq> [] then builder_add V TAG_APPLICATION_DATA (A_bytes (Some appData) (length appData)) p1 else p1)"

lemma certificates_loop_eq:
  "length es = length result \<Longrightarrow> i + k = length es \<Longrightarrow> (\<And>b. b \<in> set es \<Longrightarrow> kmBlob2vector b = Some (bytes_of b)) \<Longrightarrow>
   certificates_loop k i es result = Some (take i result @ map (\<lambda>b. Certificate (bytes_of b)) (drop i es))"
proof (induction k arbitrary: i result)
  case (Suc k)
  have i: "i < length es" using Suc.prems by simp
  then have "certificates_loop (Suc k) i es result =
      Some (take (Suc i) (result[i := Certificate (bytes_of (es ! i))]) @ map (\<lambda>b. Certificate (bytes_of b)) (drop (Suc i) es))"
    using Suc.IH [of "result[i := Certificate (bytes_of (es ! i))]" "Suc i"] Suc.prems by simp
  also have "take (Suc i) (result[i := Certificate (bytes_of (es ! i))]) = take i result @ [Certificate (bytes_of (es ! i))]"
    using i Suc.prems by (simp add: take_Suc_conv_app_nth)
  finally show ?case using i by (simp flip: Cons_nth_drop_Suc [OF i])
qed simp


section \<open>Properties\<close>

text \<open>The vector of a HIDL authentication token has the 69 bytes of \<open>hw_auth_token_t\<close>: a version byte 0
  and the fields at the offsets 1, 9, 17, 25, 29 and 37, so that the fields can be read back and two
  tokens with the same vector are equal.\<close>

theorem auth_token_layout:
  assumes "length (hat_hmac t) = 32" and "length (hat_hmac t') = 32"
  shows "length (authToken2HidlVec t) = hw_auth_token_size
    \<and> hd (authToken2HidlVec t) = 0
    \<and> un_le64 (take 8 (drop 1 (authToken2HidlVec t))) = hat_challenge t
    \<and> un_le64 (take 8 (drop 9 (authToken2HidlVec t))) = hat_userId t
    \<and> un_le64 (take 8 (drop 17 (authToken2HidlVec t))) = hat_authenticatorId t
    \<and> un_le32 (take 4 (drop 25 (authToken2HidlVec t))) = hat_authenticatorType t
    \<and> un_le64 (take 8 (drop 29 (authToken2HidlVec t))) = hat_timestamp t
    \<and> drop 37 (authToken2HidlVec t) = hat_hmac t
    \<and> (authToken2HidlVec t = authToken2HidlVec t' \<longrightarrow> t = t')"
  using assms by (auto simp: authToken2HidlVec_eq hw_auth_token_size_def intro: hidl_auth_token.equality)

definition sample_hidl_token :: hidl_auth_token where
  "sample_hidl_token = \<lparr>hat_challenge = 0x0102, hat_userId = 5, hat_authenticatorId = 6, hat_authenticatorType = 2,
     hat_timestamp = 1000, hat_hmac = replicate 32 9\<rparr>"

lemma auth_token_layout_witness:
  "length (authToken2HidlVec sample_hidl_token) = 69
   \<and> un_le64 (take 8 (drop 1 (authToken2HidlVec sample_hidl_token))) = 0x0102"
  using auth_token_layout [of sample_hidl_token sample_hidl_token]
  by (simp add: sample_hidl_token_def hw_auth_token_size_def)

text \<open>A blob that is converted in place is not copied: later writes to the memory show in the vector,
  while a copy keeps the bytes of the moment of the conversion.\<close>

theorem blob_vector_aliasing:
  "hidl_read mem' (blob2hidlVec mem data n True) = memory_bytes mem' data n
   \<and> hidl_read mem' (blob2hidlVec mem data n False) = memory_bytes mem data n
   \<and> hidlVec2String mem (blob2hidlVec mem data n inPlace) = memory_bytes mem data n"
  by (simp add: blob2hidlVec_def hidlVec2String_def)

text \<open>The conversion of a valid chain of certificates has one certificate per entry, in the same order
  and with its bytes, and reads nothing outside the entries.\<close>

theorem cert_chain_converted:
  assumes "entries chain = Some es" and "entry_count chain = length es" and "\<forall>b\<in>set es. blob_ok b"
  shows "kmCertChain2Aidl chain = Some (map (\<lambda>b. Certificate (blob_bytes b)) es)"
proof -
  have "kmBlob2vector b = Some (blob_bytes b)" if "b \<in> set es" for b
    using assms(3) that by (auto simp: kmBlob2vector_def range_vector_def elim!: blob_ok_cases dest!: bspec)
  from certificates_loop_eq [of es "replicate (length es) Certificate_default" 0 "length es" blob_bytes, OF _ _ this]
  show ?thesis by (simp add: kmCertChain2Aidl_def assms(1,2))
qed

lemma cert_chain_converted_witness:
  "kmCertChain2Aidl \<lparr>entries = Some [\<lparr>blob_data = Some [1, 2], blob_size = 2\<rparr>, \<lparr>blob_data = Some [3], blob_size = 1\<rparr>], entry_count = 2\<rparr>
   = Some [Certificate [1, 2], Certificate [3]]"
  using cert_chain_converted [of "\<lparr>entries = Some [\<lparr>blob_data = Some [1, 2], blob_size = 2\<rparr>, \<lparr>blob_data = Some [3], blob_size = 1\<rparr>], entry_count = 2\<rparr>"]
  by (simp add: blob_ok_def blob_bytes_def)

text \<open>The casts between the enumerations of the two interfaces lose nothing: every 32-bit value comes
  back, every tag of KeyMint is found again, and an error is reported unless it is \<open>KM_ERROR_OK\<close>.\<close>

theorem enum_conversion_round_trip:
  "aidl2km_enum (km2aidl_enum v) = v \<and> km2aidl_enum (aidl2km_enum (Tag_val t)) = Tag_val t
   \<and> (aidl2km_enum (Tag_val t) = aidl2km_enum (Tag_val t') \<longleftrightarrow> t = t')
   \<and> (kmError2ScopedAStatus v = Status_ok \<longleftrightarrow> v = KM_ERROR_OK)"
proof (intro conjI)
  have rt: "km2aidl_enum (aidl2km_enum (Tag_val u)) = Tag_val u" for u
    using Tag.val_range [of u]
    by (simp add: aidl2km_enum_def km2aidl_enum_def sint_sbintrunc' signed_take_bit_int_eq_self)
  then show "km2aidl_enum (aidl2km_enum (Tag_val t)) = Tag_val t" .
  show "aidl2km_enum (Tag_val t) = aidl2km_enum (Tag_val t') \<longleftrightarrow> t = t'"
    using rt [of t] rt [of t'] by (metis Tag.val_inject)
qed (simp_all add: aidl2km_enum_def km2aidl_enum_def kmError2ScopedAStatus_def)

text \<open>The application identifier and data replace what the set held, and an empty one leaves its tag out,
  provided that the appends succeed.\<close>

theorem client_and_app_data_added:
  assumes "aset_functions (be_ext V) tag_of" and "\<And>p s. fst (x_push_back (be_ext V) p s)"
    and "aset_wf (clear params)" and "aset_list (clear params) = []"
  shows "aset_list (addClientAndAppData V clear clientId appData params) =
    (if clientId = [] then [] else [param_blob (be_fns V) (be_tag V TAG_APPLICATION_ID) (Some clientId) (length clientId)]) @
    (if appData = [] then [] else [param_blob (be_fns V) (be_tag V TAG_APPLICATION_DATA) (Some appData) (length appData)])"
  using aset_functions.builder_add_appends [OF assms(1) refl _ assms(2)] assms(3,4)
  by (simp add: addClientAndAppData_def Let_def Authorization_def)

lemma client_and_app_data_added_witness:
  "map dp_value (aset_list (addClientAndAppData doc_builder (\<lambda>_. doc_set []) [7, 8] [] (doc_set [\<lparr>dp_tag = 1, dp_value = 2\<rparr>]))) = [2]"
  using client_and_app_data_added [of doc_builder dp_tag "\<lambda>_. doc_set []" "doc_set [\<lparr>dp_tag = 1, dp_value = 2\<rparr>]" "[7, 8]" "[]"]
    doc_aset.aset_functions_axioms [of "\<lambda>_. True"]
  by (simp add: doc_builder_def doc_aset_def doc_alloc_def)

end
