(* ===== verification/KmDevices.thy ===== *)
theory KmDevices
  imports NgTags KmConvert
begin

text \<open>
  The HIDL devices \<open>AndroidKeymaster4Device.h\<close> and \<open>AndroidKeymaster41Device.h\<close>: a 4.1 device is a 4.0 device whose
  methods forward to those of its base class. The bodies of the base class are not in the repository: they are the
  record \<open>keymaster4_methods\<close> over the device object and the state of the service, callbacks are opaque values that are
  passed on, and the protected constructor that makes the device for a version is an argument.
\<close>

section \<open>The 4.0 device\<close>

record 'i km4_device =
  km4_impl :: 'i
  km4_securityLevel :: int

record ('i, 'cb, 'hsp, 'vt, 'rv, 'rc, 'w) keymaster4_methods =
  km4_getHardwareInfo :: "'i km4_device \<Rightarrow> 'cb \<Rightarrow> 'w \<Rightarrow> 'rv \<times> 'w"
  km4_getHmacSharingParameters :: "'i km4_device \<Rightarrow> 'cb \<Rightarrow> 'w \<Rightarrow> 'rv \<times> 'w"
  km4_computeSharedHmac :: "'i km4_device \<Rightarrow> 'hsp list \<Rightarrow> 'cb \<Rightarrow> 'w \<Rightarrow> 'rv \<times> 'w"
  km4_verifyAuthorization :: "'i km4_device \<Rightarrow> u64 \<Rightarrow> ng_param list \<Rightarrow> hidl_auth_token \<Rightarrow> 'cb \<Rightarrow> 'w \<Rightarrow> 'rv \<times> 'w"
  km4_addRngEntropy :: "'i km4_device \<Rightarrow> byte list \<Rightarrow> 'w \<Rightarrow> 'rc \<times> 'w"
  km4_generateKey :: "'i km4_device \<Rightarrow> ng_param list \<Rightarrow> 'cb \<Rightarrow> 'w \<Rightarrow> 'rv \<times> 'w"
  km4_getKeyCharacteristics :: "'i km4_device \<Rightarrow> byte list \<Rightarrow> byte list \<Rightarrow> byte list \<Rightarrow> 'cb \<Rightarrow> 'w \<Rightarrow> 'rv \<times> 'w"
  km4_importKey :: "'i km4_device \<Rightarrow> ng_param list \<Rightarrow> int \<Rightarrow> byte list \<Rightarrow> 'cb \<Rightarrow> 'w \<Rightarrow> 'rv \<times> 'w"
  km4_importWrappedKey :: "'i km4_device \<Rightarrow> byte list \<Rightarrow> byte list \<Rightarrow> byte list \<Rightarrow> ng_param list \<Rightarrow> u64 \<Rightarrow> u64 \<Rightarrow> 'cb \<Rightarrow> 'w \<Rightarrow> 'rv \<times> 'w"
  km4_exportKey :: "'i km4_device \<Rightarrow> int \<Rightarrow> byte list \<Rightarrow> byte list \<Rightarrow> byte list \<Rightarrow> 'cb \<Rightarrow> 'w \<Rightarrow> 'rv \<times> 'w"
  km4_attestKey :: "'i km4_device \<Rightarrow> byte list \<Rightarrow> ng_param list \<Rightarrow> 'cb \<Rightarrow> 'w \<Rightarrow> 'rv \<times> 'w"
  km4_upgradeKey :: "'i km4_device \<Rightarrow> byte list \<Rightarrow> ng_param list \<Rightarrow> 'cb \<Rightarrow> 'w \<Rightarrow> 'rv \<times> 'w"
  km4_deleteKey :: "'i km4_device \<Rightarrow> byte list \<Rightarrow> 'w \<Rightarrow> 'rc \<times> 'w"
  km4_deleteAllKeys :: "'i km4_device \<Rightarrow> 'w \<Rightarrow> 'rc \<times> 'w"
  km4_destroyAttestationIds :: "'i km4_device \<Rightarrow> 'w \<Rightarrow> 'rc \<times> 'w"
  km4_begin :: "'i km4_device \<Rightarrow> int \<Rightarrow> byte list \<Rightarrow> ng_param list \<Rightarrow> hidl_auth_token \<Rightarrow> 'cb \<Rightarrow> 'w \<Rightarrow> 'rv \<times> 'w"
  km4_update :: "'i km4_device \<Rightarrow> u64 \<Rightarrow> ng_param list \<Rightarrow> byte list \<Rightarrow> hidl_auth_token \<Rightarrow> 'vt \<Rightarrow> 'cb \<Rightarrow> 'w \<Rightarrow> 'rv \<times> 'w"
  km4_finish :: "'i km4_device \<Rightarrow> u64 \<Rightarrow> ng_param list \<Rightarrow> byte list \<Rightarrow> byte list \<Rightarrow> hidl_auth_token \<Rightarrow> 'vt \<Rightarrow> 'cb \<Rightarrow> 'w \<Rightarrow> 'rv \<times> 'w"
  km4_abort :: "'i km4_device \<Rightarrow> u64 \<Rightarrow> 'w \<Rightarrow> 'rc \<times> 'w"

type_synonym ('i, 'w) km4_make = "KmVersion \<Rightarrow> int \<Rightarrow> 'w \<Rightarrow> 'i km4_device \<times> 'w"

definition AndroidKeymaster4Device :: "('i, 'w) km4_make \<Rightarrow> int \<Rightarrow> 'w \<Rightarrow> 'i km4_device \<times> 'w" where
  "AndroidKeymaster4Device mkdev level w = mkdev KEYMASTER_4 level w"

section \<open>The 4.1 device\<close>

text \<open>\<open>convert\<close> between the error codes of the two interfaces, both \<open>int32_t\<close>.\<close>

definition convert_to_V41 :: "int \<Rightarrow> int" where
  "convert_to_V41 error_code = signed_take_bit 31 error_code"

definition convert_to_V40 :: "int \<Rightarrow> int" where
  "convert_to_V40 error_code = signed_take_bit 31 error_code"

definition AndroidKeymaster41Device :: "('i, 'w) km4_make \<Rightarrow> int \<Rightarrow> 'w \<Rightarrow> 'i km4_device \<times> 'w" where
  "AndroidKeymaster41Device mkdev level w = mkdev KEYMASTER_4_1 level w"

definition AndroidKeymaster41Device_getHardwareInfo ::
    "('i, 'cb, 'hsp, 'vt, 'rv, 'rc, 'w) keymaster4_methods \<Rightarrow> 'i km4_device \<Rightarrow> 'cb \<Rightarrow> 'w \<Rightarrow> 'rv \<times> 'w" where
  "AndroidKeymaster41Device_getHardwareInfo S this hidl_cb w = km4_getHardwareInfo S this hidl_cb w"

definition AndroidKeymaster41Device_getHmacSharingParameters ::
    "('i, 'cb, 'hsp, 'vt, 'rv, 'rc, 'w) keymaster4_methods \<Rightarrow> 'i km4_device \<Rightarrow> 'cb \<Rightarrow> 'w \<Rightarrow> 'rv \<times> 'w" where
  "AndroidKeymaster41Device_getHmacSharingParameters S this hidl_cb w = km4_getHmacSharingParameters S this hidl_cb w"

definition AndroidKeymaster41Device_computeSharedHmac ::
    "('i, 'cb, 'hsp, 'vt, 'rv, 'rc, 'w) keymaster4_methods \<Rightarrow> 'i km4_device \<Rightarrow> 'hsp list \<Rightarrow> 'cb \<Rightarrow> 'w \<Rightarrow> 'rv \<times> 'w" where
  "AndroidKeymaster41Device_computeSharedHmac S this params hidl_cb w = km4_computeSharedHmac S this params hidl_cb w"

definition AndroidKeymaster41Device_verifyAuthorization ::
    "('i, 'cb, 'hsp, 'vt, 'rv, 'rc, 'w) keymaster4_methods \<Rightarrow> 'i km4_device \<Rightarrow> u64 \<Rightarrow> ng_param list \<Rightarrow> hidl_auth_token \<Rightarrow> 'cb \<Rightarrow> 'w \<Rightarrow> 'rv \<times> 'w" where
  "AndroidKeymaster41Device_verifyAuthorization S this challenge parametersToVerify authToken hidl_cb w = km4_verifyAuthorization S this challenge parametersToVerify authToken hidl_cb w"

definition AndroidKeymaster41Device_addRngEntropy ::
    "('i, 'cb, 'hsp, 'vt, 'rv, 'rc, 'w) keymaster4_methods \<Rightarrow> 'i km4_device \<Rightarrow> byte list \<Rightarrow> 'w \<Rightarrow> 'rc \<times> 'w" where
  "AndroidKeymaster41Device_addRngEntropy S this data w = km4_addRngEntropy S this data w"

definition AndroidKeymaster41Device_generateKey ::
    "('i, 'cb, 'hsp, 'vt, 'rv, 'rc, 'w) keymaster4_methods \<Rightarrow> 'i km4_device \<Rightarrow> ng_param list \<Rightarrow> 'cb \<Rightarrow> 'w \<Rightarrow> 'rv \<times> 'w" where
  "AndroidKeymaster41Device_generateKey S this keyParams hidl_cb w = km4_generateKey S this keyParams hidl_cb w"

definition AndroidKeymaster41Device_getKeyCharacteristics ::
    "('i, 'cb, 'hsp, 'vt, 'rv, 'rc, 'w) keymaster4_methods \<Rightarrow> 'i km4_device \<Rightarrow> byte list \<Rightarrow> byte list \<Rightarrow> byte list \<Rightarrow> 'cb \<Rightarrow> 'w \<Rightarrow> 'rv \<times> 'w" where
  "AndroidKeymaster41Device_getKeyCharacteristics S this keyBlob clientId appData hidl_cb w = km4_getKeyCharacteristics S this keyBlob clientId appData hidl_cb w"

definition AndroidKeymaster41Device_importKey ::
    "('i, 'cb, 'hsp, 'vt, 'rv, 'rc, 'w) keymaster4_methods \<Rightarrow> 'i km4_device \<Rightarrow> ng_param list \<Rightarrow> int \<Rightarrow> byte list \<Rightarrow> 'cb \<Rightarrow> 'w \<Rightarrow> 'rv \<times> 'w" where
  "AndroidKeymaster41Device_importKey S this params keyFormat keyData hidl_cb w = km4_importKey S this params keyFormat keyData hidl_cb w"

definition AndroidKeymaster41Device_importWrappedKey ::
    "('i, 'cb, 'hsp, 'vt, 'rv, 'rc, 'w) keymaster4_methods \<Rightarrow> 'i km4_device \<Rightarrow> byte list \<Rightarrow> byte list \<Rightarrow> byte list \<Rightarrow> ng_param list \<Rightarrow> u64 \<Rightarrow> u64 \<Rightarrow> 'cb \<Rightarrow> 'w \<Rightarrow> 'rv \<times> 'w" where
  "AndroidKeymaster41Device_importWrappedKey S this wrappedKeyData wrappingKeyBlob maskingKey unwrappingParams passwordSid biometricSid hidl_cb w = km4_importWrappedKey S this wrappedKeyData wrappingKeyBlob maskingKey unwrappingParams passwordSid biometricSid hidl_cb w"

definition AndroidKeymaster41Device_exportKey ::
    "('i, 'cb, 'hsp, 'vt, 'rv, 'rc, 'w) keymaster4_methods \<Rightarrow> 'i km4_device \<Rightarrow> int \<Rightarrow> byte list \<Rightarrow> byte list \<Rightarrow> byte list \<Rightarrow> 'cb \<Rightarrow> 'w \<Rightarrow> 'rv \<times> 'w" where
  "AndroidKeymaster41Device_exportKey S this exportFormat keyBlob clientId appData hidl_cb w = km4_exportKey S this exportFormat keyBlob clientId appData hidl_cb w"

definition AndroidKeymaster41Device_attestKey ::
    "('i, 'cb, 'hsp, 'vt, 'rv, 'rc, 'w) keymaster4_methods \<Rightarrow> 'i km4_device \<Rightarrow> byte list \<Rightarrow> ng_param list \<Rightarrow> 'cb \<Rightarrow> 'w \<Rightarrow> 'rv \<times> 'w" where
  "AndroidKeymaster41Device_attestKey S this keyToAttest attestParams hidl_cb w = km4_attestKey S this keyToAttest attestParams hidl_cb w"

definition AndroidKeymaster41Device_upgradeKey ::
    "('i, 'cb, 'hsp, 'vt, 'rv, 'rc, 'w) keymaster4_methods \<Rightarrow> 'i km4_device \<Rightarrow> byte list \<Rightarrow> ng_param list \<Rightarrow> 'cb \<Rightarrow> 'w \<Rightarrow> 'rv \<times> 'w" where
  "AndroidKeymaster41Device_upgradeKey S this keyBlobToUpgrade upgradeParams hidl_cb w = km4_upgradeKey S this keyBlobToUpgrade upgradeParams hidl_cb w"

definition AndroidKeymaster41Device_deleteKey ::
    "('i, 'cb, 'hsp, 'vt, 'rv, 'rc, 'w) keymaster4_methods \<Rightarrow> 'i km4_device \<Rightarrow> byte list \<Rightarrow> 'w \<Rightarrow> 'rc \<times> 'w" where
  "AndroidKeymaster41Device_deleteKey S this keyBlob w = km4_deleteKey S this keyBlob w"

definition AndroidKeymaster41Device_deleteAllKeys ::
    "('i, 'cb, 'hsp, 'vt, 'rv, 'rc, 'w) keymaster4_methods \<Rightarrow> 'i km4_device \<Rightarrow> 'w \<Rightarrow> 'rc \<times> 'w" where
  "AndroidKeymaster41Device_deleteAllKeys S this w = km4_deleteAllKeys S this w"

definition AndroidKeymaster41Device_destroyAttestationIds ::
    "('i, 'cb, 'hsp, 'vt, 'rv, 'rc, 'w) keymaster4_methods \<Rightarrow> 'i km4_device \<Rightarrow> 'w \<Rightarrow> 'rc \<times> 'w" where
  "AndroidKeymaster41Device_destroyAttestationIds S this w = km4_destroyAttestationIds S this w"

definition AndroidKeymaster41Device_begin ::
    "('i, 'cb, 'hsp, 'vt, 'rv, 'rc, 'w) keymaster4_methods \<Rightarrow> 'i km4_device \<Rightarrow> int \<Rightarrow> byte list \<Rightarrow> ng_param list \<Rightarrow> hidl_auth_token \<Rightarrow> 'cb \<Rightarrow> 'w \<Rightarrow> 'rv \<times> 'w" where
  "AndroidKeymaster41Device_begin S this purpose key inParams authToken hidl_cb w = km4_begin S this purpose key inParams authToken hidl_cb w"

definition AndroidKeymaster41Device_update ::
    "('i, 'cb, 'hsp, 'vt, 'rv, 'rc, 'w) keymaster4_methods \<Rightarrow> 'i km4_device \<Rightarrow> u64 \<Rightarrow> ng_param list \<Rightarrow> byte list \<Rightarrow> hidl_auth_token \<Rightarrow> 'vt \<Rightarrow> 'cb \<Rightarrow> 'w \<Rightarrow> 'rv \<times> 'w" where
  "AndroidKeymaster41Device_update S this operationHandle inParams input authToken verificationToken hidl_cb w = km4_update S this operationHandle inParams input authToken verificationToken hidl_cb w"

definition AndroidKeymaster41Device_finish ::
    "('i, 'cb, 'hsp, 'vt, 'rv, 'rc, 'w) keymaster4_methods \<Rightarrow> 'i km4_device \<Rightarrow> u64 \<Rightarrow> ng_param list \<Rightarrow> byte list \<Rightarrow> byte list \<Rightarrow> hidl_auth_token \<Rightarrow> 'vt \<Rightarrow> 'cb \<Rightarrow> 'w \<Rightarrow> 'rv \<times> 'w" where
  "AndroidKeymaster41Device_finish S this operationHandle inParams input signature authToken verificationToken hidl_cb w = km4_finish S this operationHandle inParams input signature authToken verificationToken hidl_cb w"

definition AndroidKeymaster41Device_abort ::
    "('i, 'cb, 'hsp, 'vt, 'rv, 'rc, 'w) keymaster4_methods \<Rightarrow> 'i km4_device \<Rightarrow> u64 \<Rightarrow> 'w \<Rightarrow> 'rc \<times> 'w" where
  "AndroidKeymaster41Device_abort S this operationHandle w = km4_abort S this operationHandle w"

text \<open>The table of virtual functions of a 4.1 device for the 4.0 interface.\<close>

definition AndroidKeymaster41Device_methods ::
    "('i, 'cb, 'hsp, 'vt, 'rv, 'rc, 'w) keymaster4_methods \<Rightarrow> ('i, 'cb, 'hsp, 'vt, 'rv, 'rc, 'w) keymaster4_methods" where
  "AndroidKeymaster41Device_methods S = \<lparr>
     km4_getHardwareInfo = AndroidKeymaster41Device_getHardwareInfo S,
     km4_getHmacSharingParameters = AndroidKeymaster41Device_getHmacSharingParameters S,
     km4_computeSharedHmac = AndroidKeymaster41Device_computeSharedHmac S,
     km4_verifyAuthorization = AndroidKeymaster41Device_verifyAuthorization S,
     km4_addRngEntropy = AndroidKeymaster41Device_addRngEntropy S,
     km4_generateKey = AndroidKeymaster41Device_generateKey S,
     km4_getKeyCharacteristics = AndroidKeymaster41Device_getKeyCharacteristics S,
     km4_importKey = AndroidKeymaster41Device_importKey S,
     km4_importWrappedKey = AndroidKeymaster41Device_importWrappedKey S,
     km4_exportKey = AndroidKeymaster41Device_exportKey S,
     km4_attestKey = AndroidKeymaster41Device_attestKey S,
     km4_upgradeKey = AndroidKeymaster41Device_upgradeKey S,
     km4_deleteKey = AndroidKeymaster41Device_deleteKey S,
     km4_deleteAllKeys = AndroidKeymaster41Device_deleteAllKeys S,
     km4_destroyAttestationIds = AndroidKeymaster41Device_destroyAttestationIds S,
     km4_begin = AndroidKeymaster41Device_begin S,
     km4_update = AndroidKeymaster41Device_update S,
     km4_finish = AndroidKeymaster41Device_finish S,
     km4_abort = AndroidKeymaster41Device_abort S\<rparr>"

lemmas km41_method_defs =
  AndroidKeymaster41Device_getHardwareInfo_def
  AndroidKeymaster41Device_getHmacSharingParameters_def
  AndroidKeymaster41Device_computeSharedHmac_def
  AndroidKeymaster41Device_verifyAuthorization_def
  AndroidKeymaster41Device_addRngEntropy_def
  AndroidKeymaster41Device_generateKey_def
  AndroidKeymaster41Device_getKeyCharacteristics_def
  AndroidKeymaster41Device_importKey_def
  AndroidKeymaster41Device_importWrappedKey_def
  AndroidKeymaster41Device_exportKey_def
  AndroidKeymaster41Device_attestKey_def
  AndroidKeymaster41Device_upgradeKey_def
  AndroidKeymaster41Device_deleteKey_def
  AndroidKeymaster41Device_deleteAllKeys_def
  AndroidKeymaster41Device_destroyAttestationIds_def
  AndroidKeymaster41Device_begin_def
  AndroidKeymaster41Device_update_def
  AndroidKeymaster41Device_finish_def
  AndroidKeymaster41Device_abort_def

section \<open>A 4.1 device is a 4.0 device\<close>

text \<open>Through the 4.0 interface a 4.1 device answers as its base class would on the same object.\<close>

theorem km41_answers_as_base: "AndroidKeymaster41Device_methods S = S"
  by (cases S) (simp add: AndroidKeymaster41Device_methods_def km41_method_defs fun_eq_iff)

text \<open>Error codes survive the way through the other version's type.\<close>

lemma convert_round_trip:
  assumes "- (2 ^ 31) \<le> e" "e < 2 ^ 31"
  shows "convert_to_V40 (convert_to_V41 e) = e" "convert_to_V41 (convert_to_V40 e) = e"
  using assms by (simp_all add: convert_to_V40_def convert_to_V41_def signed_take_bit_int_eq_self)

end
