(* ===== verification/KeymintTags.thy ===== *)
theory KeymintTags
  imports AidlTags AidlValues
begin

text \<open>
  \<open>keymint_support/keymint_tags.h\<close>: the typed tags of KeyMint, the access to the value of a parameter and
  the construction of parameters. A tag is the number it has in the enumeration \<open>Tag\<close>; the template
  arguments of \<open>TypedTag\<close> are such numbers, the type being computed from the tag by \<open>Tag2TypedTag\<close>. A call
  that does not compile is the outer \<open>None\<close>.
\<close>

unbundle bit_operations_syntax

section \<open>Typed tags\<close>

definition typeFromTag :: "int \<Rightarrow> int" where
  "typeFromTag tag = sint (and (of_int tag :: u32) 0xF0000000)"

definition keymint_TypedTag_check :: "int \<Rightarrow> int \<Rightarrow> bool" where
  "keymint_TypedTag_check tag_type tag \<longleftrightarrow> typeFromTag tag = tag_type"

definition maskedTag :: "int \<Rightarrow> int" where
  "maskedTag tag = sint (and (of_int tag :: u32) 0x0FFFFFFF)"

text \<open>The tags with a typed tag, and the list \<open>all_tags_t\<close>.\<close>

definition declared_tags :: "Tag list" where
  "declared_tags =
    [Tag_ACTIVE_DATETIME, Tag_ALGORITHM, Tag_ALLOW_WHILE_ON_BODY, Tag_APPLICATION_DATA,
     Tag_APPLICATION_ID, Tag_ASSOCIATED_DATA, Tag_ATTESTATION_APPLICATION_ID, Tag_ATTESTATION_CHALLENGE,
     Tag_ATTESTATION_ID_BRAND, Tag_ATTESTATION_ID_DEVICE, Tag_ATTESTATION_ID_IMEI,
     Tag_ATTESTATION_ID_SECOND_IMEI, Tag_ATTESTATION_ID_MANUFACTURER, Tag_ATTESTATION_ID_MEID,
     Tag_ATTESTATION_ID_PRODUCT, Tag_ATTESTATION_ID_MODEL, Tag_ATTESTATION_ID_SERIAL, Tag_AUTH_TIMEOUT,
     Tag_BLOCK_MODE, Tag_BOOTLOADER_ONLY, Tag_BOOT_PATCHLEVEL, Tag_CALLER_NONCE, Tag_CONFIRMATION_TOKEN,
     Tag_CREATION_DATETIME, Tag_DEVICE_UNIQUE_ATTESTATION, Tag_DIGEST, Tag_EARLY_BOOT_ONLY,
     Tag_EC_CURVE, Tag_HARDWARE_TYPE, Tag_IDENTITY_CREDENTIAL_KEY, Tag_INCLUDE_UNIQUE_ID, Tag_INVALID,
     Tag_KEY_SIZE, Tag_MAC_LENGTH, Tag_MAX_USES_PER_BOOT, Tag_MIN_MAC_LENGTH,
     Tag_MIN_SECONDS_BETWEEN_OPS, Tag_NONCE, Tag_NO_AUTH_REQUIRED, Tag_ORIGIN,
     Tag_ORIGINATION_EXPIRE_DATETIME, Tag_OS_PATCHLEVEL, Tag_OS_VERSION, Tag_PADDING, Tag_PURPOSE,
     Tag_RESET_SINCE_ID_ROTATION, Tag_ROLLBACK_RESISTANCE, Tag_ROOT_OF_TRUST, Tag_RSA_PUBLIC_EXPONENT,
     Tag_STORAGE_KEY, Tag_TRUSTED_CONFIRMATION_REQUIRED, Tag_TRUSTED_USER_PRESENCE_REQUIRED,
     Tag_UNIQUE_ID, Tag_UNLOCKED_DEVICE_REQUIRED, Tag_USAGE_COUNT_LIMIT, Tag_USAGE_EXPIRE_DATETIME,
     Tag_USER_AUTH_TYPE, Tag_USER_ID, Tag_USER_SECURE_ID, Tag_VENDOR_PATCHLEVEL,
     Tag_RSA_OAEP_MGF_DIGEST, Tag_CERTIFICATE_SERIAL, Tag_CERTIFICATE_SUBJECT,
     Tag_CERTIFICATE_NOT_BEFORE, Tag_CERTIFICATE_NOT_AFTER, Tag_MAX_BOOT_LEVEL]"

definition all_tags :: "Tag list" where
  "all_tags =
    [Tag_INVALID, Tag_KEY_SIZE, Tag_MAC_LENGTH, Tag_CALLER_NONCE, Tag_MIN_MAC_LENGTH,
     Tag_RSA_PUBLIC_EXPONENT, Tag_INCLUDE_UNIQUE_ID, Tag_ACTIVE_DATETIME,
     Tag_ORIGINATION_EXPIRE_DATETIME, Tag_USAGE_EXPIRE_DATETIME, Tag_MIN_SECONDS_BETWEEN_OPS,
     Tag_MAX_USES_PER_BOOT, Tag_USAGE_COUNT_LIMIT, Tag_USER_ID, Tag_USER_SECURE_ID,
     Tag_NO_AUTH_REQUIRED, Tag_AUTH_TIMEOUT, Tag_ALLOW_WHILE_ON_BODY, Tag_UNLOCKED_DEVICE_REQUIRED,
     Tag_APPLICATION_ID, Tag_APPLICATION_DATA, Tag_CREATION_DATETIME, Tag_ROLLBACK_RESISTANCE,
     Tag_HARDWARE_TYPE, Tag_ROOT_OF_TRUST, Tag_ASSOCIATED_DATA, Tag_NONCE, Tag_BOOTLOADER_ONLY,
     Tag_OS_VERSION, Tag_OS_PATCHLEVEL, Tag_UNIQUE_ID, Tag_ATTESTATION_CHALLENGE,
     Tag_ATTESTATION_APPLICATION_ID, Tag_ATTESTATION_ID_BRAND, Tag_ATTESTATION_ID_DEVICE,
     Tag_ATTESTATION_ID_PRODUCT, Tag_ATTESTATION_ID_MANUFACTURER, Tag_ATTESTATION_ID_MODEL,
     Tag_RESET_SINCE_ID_ROTATION, Tag_PURPOSE, Tag_ALGORITHM, Tag_BLOCK_MODE, Tag_DIGEST, Tag_PADDING,
     Tag_ORIGIN, Tag_USER_AUTH_TYPE, Tag_EC_CURVE, Tag_BOOT_PATCHLEVEL, Tag_VENDOR_PATCHLEVEL,
     Tag_TRUSTED_CONFIRMATION_REQUIRED, Tag_TRUSTED_USER_PRESENCE_REQUIRED, Tag_CERTIFICATE_SERIAL,
     Tag_CERTIFICATE_SUBJECT]"

section \<open>Values of parameters\<close>

text \<open>The alternative of the union for a tag: by its type, or by the tag itself for enumerations.\<close>

definition type_accessors :: "(int \<times> KeyParameterValue_Tag) list" where
  "type_accessors =
     [(TagType_val TagType_ULONG, KPV_longInteger), (TagType_val TagType_ULONG_REP, KPV_longInteger),
      (TagType_val TagType_DATE, KPV_dateTime), (TagType_val TagType_UINT, KPV_integer),
      (TagType_val TagType_UINT_REP, KPV_integer), (TagType_val TagType_BOOL, KPV_boolValue),
      (TagType_val TagType_BYTES, KPV_blob), (TagType_val TagType_BIGNUM, KPV_blob)]"

definition enum_accessors :: "(int \<times> KeyParameterValue_Tag) list" where
  "enum_accessors =
     [(Tag_val Tag_ALGORITHM, KPV_algorithm), (Tag_val Tag_BLOCK_MODE, KPV_blockMode),
      (Tag_val Tag_DIGEST, KPV_digest), (Tag_val Tag_EC_CURVE, KPV_ecCurve), (Tag_val Tag_ORIGIN, KPV_origin),
      (Tag_val Tag_PADDING, KPV_paddingMode), (Tag_val Tag_PURPOSE, KPV_keyPurpose),
      (Tag_val Tag_USER_AUTH_TYPE, KPV_hardwareAuthenticatorType),
      (Tag_val Tag_HARDWARE_TYPE, KPV_securityLevel), (Tag_val Tag_RSA_OAEP_MGF_DIGEST, KPV_digest)]"

definition unionTag :: "int \<Rightarrow> KeyParameterValue_Tag option" where
  "unionTag tag = (case map_of type_accessors (typeFromTag tag) of
     Some f \<Rightarrow> Some f | None \<Rightarrow> map_of enum_accessors tag)"

text \<open>The value is returned with its alternative; the inner \<open>None\<close> is \<open>std::nullopt\<close>.\<close>

definition accessTagValue :: "int \<Rightarrow> KeyParameter \<Rightarrow> KeyParameterValue option option" where
  "accessTagValue tag param = map_option (\<lambda>f.
     if KeyParameterValue_getTag (KeyParameter_value param) = f then Some (KeyParameter_value param) else None)
     (unionTag tag)"

definition authorizationValue :: "int \<Rightarrow> KeyParameter \<Rightarrow> KeyParameterValue option option" where
  "authorizationValue tag param = (case unionTag tag of
     None \<Rightarrow> None
   | Some _ \<Rightarrow> if tag \<noteq> KeyParameter_tag param then Some None else accessTagValue tag param)"

text \<open>
  The argument of an authorization and its implicit conversion to the type of an alternative: integers
  and booleans convert to each other with wrap-around, enumerators and vectors of bytes only to their
  own type. The explicit constructors of the vector, such as the one from a length, which \<open>Authorization\<close>
  refuses, are left out.
\<close>

datatype kp_arg = Arg_int int | Arg_bool bool | Arg_enum KeyParameterValue_Tag int | Arg_bytes "byte list"

definition wrap32 :: "int \<Rightarrow> int" where
  "wrap32 n = sint (of_int n :: u32)"

definition wrap64 :: "int \<Rightarrow> int" where
  "wrap64 n = sint (of_int n :: u64)"

definition make_value :: "KeyParameterValue_Tag \<Rightarrow> kp_arg \<Rightarrow> KeyParameterValue option" where
  "make_value f a = (case (f, a) of
       (KPV_integer, Arg_int n) \<Rightarrow> Some (KPV_integer_value (wrap32 n))
     | (KPV_integer, Arg_bool b) \<Rightarrow> Some (KPV_integer_value (of_bool b))
     | (KPV_longInteger, Arg_int n) \<Rightarrow> Some (KPV_longInteger_value (wrap64 n))
     | (KPV_longInteger, Arg_bool b) \<Rightarrow> Some (KPV_longInteger_value (of_bool b))
     | (KPV_dateTime, Arg_int n) \<Rightarrow> Some (KPV_dateTime_value (wrap64 n))
     | (KPV_dateTime, Arg_bool b) \<Rightarrow> Some (KPV_dateTime_value (of_bool b))
     | (KPV_boolValue, Arg_int n) \<Rightarrow> Some (KPV_boolValue_value (n \<noteq> 0))
     | (KPV_boolValue, Arg_bool b) \<Rightarrow> Some (KPV_boolValue_value b)
     | (KPV_blob, Arg_bytes v) \<Rightarrow> Some (KPV_blob_value v)
     | (KPV_algorithm, Arg_enum KPV_algorithm v) \<Rightarrow> Some (KPV_algorithm_value v)
     | (KPV_blockMode, Arg_enum KPV_blockMode v) \<Rightarrow> Some (KPV_blockMode_value v)
     | (KPV_paddingMode, Arg_enum KPV_paddingMode v) \<Rightarrow> Some (KPV_paddingMode_value v)
     | (KPV_digest, Arg_enum KPV_digest v) \<Rightarrow> Some (KPV_digest_value v)
     | (KPV_ecCurve, Arg_enum KPV_ecCurve v) \<Rightarrow> Some (KPV_ecCurve_value v)
     | (KPV_origin, Arg_enum KPV_origin v) \<Rightarrow> Some (KPV_origin_value v)
     | (KPV_keyPurpose, Arg_enum KPV_keyPurpose v) \<Rightarrow> Some (KPV_keyPurpose_value v)
     | (KPV_hardwareAuthenticatorType, Arg_enum KPV_hardwareAuthenticatorType v) \<Rightarrow>
         Some (KPV_hardwareAuthenticatorType_value v)
     | (KPV_securityLevel, Arg_enum KPV_securityLevel v) \<Rightarrow> Some (KPV_securityLevel_value v)
     | _ \<Rightarrow> None)"

text \<open>\<open>makeKeyParameter\<close>, by overload: with a value, of a boolean tag, of the tag \<open>INVALID\<close>.\<close>

definition makeKeyParameter :: "int \<Rightarrow> kp_arg \<Rightarrow> KeyParameter option" where
  "makeKeyParameter tag value = (case unionTag tag of
     None \<Rightarrow> None
   | Some f \<Rightarrow> map_option (\<lambda>v. KeyParameter tag v) (make_value f value))"

definition makeKeyParameter_bool :: "int \<Rightarrow> KeyParameter" where
  "makeKeyParameter_bool tag = KeyParameter tag (KPV_boolValue_value True)"

definition makeKeyParameter_invalid :: KeyParameter where
  "makeKeyParameter_invalid = KeyParameter (Tag_val Tag_INVALID) (KPV_invalid_value 0)"

text \<open>\<open>Authorization\<close> with its static assertions.\<close>

definition keymint_Authorization :: "int \<Rightarrow> kp_arg list \<Rightarrow> KeyParameter option" where
  "keymint_Authorization tag args =
     (if typeFromTag tag = TagType_val TagType_BOOL
      then (case args of [] \<Rightarrow> Some (makeKeyParameter_bool tag) | _ \<Rightarrow> None)
      else (case args of [a] \<Rightarrow> makeKeyParameter tag a | _ \<Rightarrow> None))"

fun NullOrOr :: "'a option list \<Rightarrow> 'a option" where
  "NullOrOr [] = None"
| "NullOrOr (v # tail) = (case v of Some x \<Rightarrow> Some x | None \<Rightarrow> NullOrOr tail)"

definition defaultOr :: "'a option \<Rightarrow> 'a \<Rightarrow> 'a" where
  "defaultOr v def = (case v of Some x \<Rightarrow> x | None \<Rightarrow> def)"

section \<open>Lemmas\<close>

lemma typeFromTag_cases: "\<exists>ty\<in>set TagType_values. TagType_val ty = typeFromTag (Tag_val t)"
  by (cases t) (simp_all add: typeFromTag_def TagType_values_def)

lemma unionTag_declared: "unionTag (Tag_val t) = None \<longleftrightarrow> t = Tag_INVALID"
  by (cases t) (simp_all add: unionTag_def type_accessors_def enum_accessors_def typeFromTag_def)

lemma make_value_tag: "make_value f a = Some v \<Longrightarrow> KeyParameterValue_getTag v = f"
  by (cases f; cases a) (auto simp: make_value_def split: KeyParameterValue_Tag.splits)

lemma typeFromTag_bool: "typeFromTag tag = TagType_val TagType_BOOL \<Longrightarrow> unionTag tag = Some KPV_boolValue"
  by (simp add: unionTag_def type_accessors_def)

lemma NullOrOr_first: "NullOrOr vs = (case filter (\<lambda>v. v \<noteq> None) vs of [] \<Rightarrow> None | v # _ \<Rightarrow> v)"
  by (induction vs) (auto split: option.splits)

lemma declared_complete: "t \<in> set declared_tags"
  by (cases t) (simp_all add: declared_tags_def)

lemma Authorization_union:
  assumes "keymint_Authorization tag args = Some p"
  shows "KeyParameter_tag p = tag \<and> unionTag tag = Some (KeyParameterValue_getTag (KeyParameter_value p))"
  using assms typeFromTag_bool [of tag]
  by (auto simp: keymint_Authorization_def makeKeyParameter_def makeKeyParameter_bool_def make_value_tag
      split: if_splits list.splits option.splits)

section \<open>What a value must hold\<close>

text \<open>
  The values that may stand for the arguments of an authorization: without an argument, true; for a
  number, the number in two's complement of 32 or 64 bits, or whether it is not zero; for a boolean, it or
  0 and 1; an enumerator of its own alternative; the bytes themselves.
\<close>

definition stands_for :: "KeyParameterValue \<Rightarrow> kp_arg list \<Rightarrow> bool" where
  "stands_for v args \<longleftrightarrow> (case args of
       [] \<Rightarrow> v = KPV_boolValue_value True
     | [a] \<Rightarrow> (case a of
           Arg_int n \<Rightarrow> v \<in> {KPV_integer_value ((n + 2 ^ 31) mod 2 ^ 32 - 2 ^ 31),
             KPV_longInteger_value ((n + 2 ^ 63) mod 2 ^ 64 - 2 ^ 63),
             KPV_dateTime_value ((n + 2 ^ 63) mod 2 ^ 64 - 2 ^ 63), KPV_boolValue_value (n \<noteq> 0)}
         | Arg_bool b \<Rightarrow> v \<in> {KPV_boolValue_value b, KPV_integer_value (of_bool b),
             KPV_longInteger_value (of_bool b), KPV_dateTime_value (of_bool b)}
         | Arg_enum f e \<Rightarrow> KeyParameterValue_getTag v = f \<and> v \<in> {KPV_algorithm_value e, KPV_blockMode_value e,
             KPV_paddingMode_value e, KPV_digest_value e, KPV_ecCurve_value e, KPV_origin_value e,
             KPV_keyPurpose_value e, KPV_hardwareAuthenticatorType_value e, KPV_securityLevel_value e}
         | Arg_bytes bs \<Rightarrow> v = KPV_blob_value bs)
     | _ \<Rightarrow> False)"

lemma wrap32_eq: "wrap32 n = (n + 2 ^ 31) mod 2 ^ 32 - 2 ^ 31"
  by (simp add: wrap32_def signed_of_int signed_take_bit_eq_take_bit_shift take_bit_eq_mod)

lemma wrap64_eq: "wrap64 n = (n + 2 ^ 63) mod 2 ^ 64 - 2 ^ 63"
  by (simp add: wrap64_def signed_of_int signed_take_bit_eq_take_bit_shift take_bit_eq_mod)

lemma make_value_stands: "make_value f a = Some v \<Longrightarrow> stands_for v [a]"
  by (cases f; cases a)
    (auto simp: make_value_def stands_for_def wrap32_eq wrap64_eq split: KeyParameterValue_Tag.splits)

lemma made_parameter:
  assumes "makeKeyParameter tag a = Some p"
  shows "KeyParameter_tag p = tag \<and> unionTag tag = Some (KeyParameterValue_getTag (KeyParameter_value p))
    \<and> stands_for (KeyParameter_value p) [a]"
  using assms by (auto simp: makeKeyParameter_def make_value_tag make_value_stands split: option.splits)

lemma Authorization_stands: "keymint_Authorization tag args = Some p \<Longrightarrow> stands_for (KeyParameter_value p) args"
  by (auto simp: keymint_Authorization_def makeKeyParameter_bool_def stands_for_def [of _ "[]"]
      dest: made_parameter split: if_splits list.splits)

section \<open>Properties\<close>

text \<open>Every tag of KeyMint has a typed tag, the type computed from its number is one of the types of
  \<open>TagType\<close>, and an alternative of the union is assigned to each tag but \<open>INVALID\<close>.\<close>

theorem keymint_tags_total:
  "t \<in> set declared_tags \<and> typeFromTag (Tag_val t) \<in> range TagType_val
   \<and> (unionTag (Tag_val t) = None \<longleftrightarrow> t = Tag_INVALID)"
  using declared_complete [of t] typeFromTag_cases [of t] unionTag_declared [of t] by (metis rangeI)



text \<open>The list \<open>all_tags_t\<close> leaves out thirteen of the declared tags, among them the hardware identifiers
  IMEI, MEID and serial number and the tags of early boot, storage and boot level.\<close>

theorem all_tags_incomplete:
  "filter (\<lambda>t. t \<notin> set all_tags) declared_tags =
    [Tag_ATTESTATION_ID_IMEI, Tag_ATTESTATION_ID_SECOND_IMEI, Tag_ATTESTATION_ID_MEID,
     Tag_ATTESTATION_ID_SERIAL, Tag_CONFIRMATION_TOKEN, Tag_DEVICE_UNIQUE_ATTESTATION,
     Tag_EARLY_BOOT_ONLY, Tag_IDENTITY_CREDENTIAL_KEY, Tag_STORAGE_KEY, Tag_RSA_OAEP_MGF_DIGEST,
     Tag_CERTIFICATE_NOT_BEFORE, Tag_CERTIFICATE_NOT_AFTER, Tag_MAX_BOOT_LEVEL]"
  by (simp add: declared_tags_def all_tags_def)

end
