(* ===== verification/KpvAccess.thy ===== *)
theory KpvAccess
  imports KeymintTags
begin

text \<open>
  Construction and access of the union \<open>KeyParameterValue.h\<close>: \<open>make\<close>, \<open>get\<close> and \<open>set\<close> over \<open>std::variant\<close>. A call with
  arguments that the alternative cannot be built from does not compile (\<open>None\<close>). \<open>get\<close> of another alternative ends the
  process on bionic, where \<open>__assert2\<close> does not return, and throws \<open>std::bad_variant_access\<close> elsewhere.
\<close>

section \<open>The union\<close>

datatype kpv_access = Access_ok kp_arg | Access_abort | Access_throw

primrec kpv_payload :: "KeyParameterValue \<Rightarrow> kp_arg" where
  "kpv_payload (KPV_invalid_value v) = Arg_int v"
| "kpv_payload (KPV_algorithm_value v) = Arg_enum KPV_algorithm v"
| "kpv_payload (KPV_blockMode_value v) = Arg_enum KPV_blockMode v"
| "kpv_payload (KPV_paddingMode_value v) = Arg_enum KPV_paddingMode v"
| "kpv_payload (KPV_digest_value v) = Arg_enum KPV_digest v"
| "kpv_payload (KPV_ecCurve_value v) = Arg_enum KPV_ecCurve v"
| "kpv_payload (KPV_origin_value v) = Arg_enum KPV_origin v"
| "kpv_payload (KPV_keyPurpose_value v) = Arg_enum KPV_keyPurpose v"
| "kpv_payload (KPV_hardwareAuthenticatorType_value v) = Arg_enum KPV_hardwareAuthenticatorType v"
| "kpv_payload (KPV_securityLevel_value v) = Arg_enum KPV_securityLevel v"
| "kpv_payload (KPV_boolValue_value v) = Arg_bool v"
| "kpv_payload (KPV_integer_value v) = Arg_int v"
| "kpv_payload (KPV_longInteger_value v) = Arg_int v"
| "kpv_payload (KPV_dateTime_value v) = Arg_int v"
| "kpv_payload (KPV_blob_value v) = Arg_bytes v"

text \<open>The alternative that \<open>std::in_place_index\<close> with no argument value-initializes.\<close>

primrec kpv_zero :: "KeyParameterValue_Tag \<Rightarrow> KeyParameterValue" where
  "kpv_zero KPV_invalid = KPV_invalid_value 0"
| "kpv_zero KPV_algorithm = KPV_algorithm_value 0"
| "kpv_zero KPV_blockMode = KPV_blockMode_value 0"
| "kpv_zero KPV_paddingMode = KPV_paddingMode_value 0"
| "kpv_zero KPV_digest = KPV_digest_value 0"
| "kpv_zero KPV_ecCurve = KPV_ecCurve_value 0"
| "kpv_zero KPV_origin = KPV_origin_value 0"
| "kpv_zero KPV_keyPurpose = KPV_keyPurpose_value 0"
| "kpv_zero KPV_hardwareAuthenticatorType = KPV_hardwareAuthenticatorType_value 0"
| "kpv_zero KPV_securityLevel = KPV_securityLevel_value 0"
| "kpv_zero KPV_boolValue = KPV_boolValue_value False"
| "kpv_zero KPV_integer = KPV_integer_value 0"
| "kpv_zero KPV_longInteger = KPV_longInteger_value 0"
| "kpv_zero KPV_dateTime = KPV_dateTime_value 0"
| "kpv_zero KPV_blob = KPV_blob_value []"

definition in_place :: "KeyParameterValue_Tag \<Rightarrow> kp_arg list \<Rightarrow> KeyParameterValue option" where
  "in_place tag args = (case args of
       [] \<Rightarrow> Some (kpv_zero tag)
     | [a] \<Rightarrow> (case (tag, a) of
           (KPV_invalid, Arg_int n) \<Rightarrow> Some (KPV_invalid_value (wrap32 n))
         | (KPV_invalid, Arg_bool b) \<Rightarrow> Some (KPV_invalid_value (of_bool b))
         | (KPV_boolValue, Arg_int n) \<Rightarrow> Some (KPV_boolValue_value (n \<noteq> 0))
         | (KPV_boolValue, Arg_bool b) \<Rightarrow> Some (KPV_boolValue_value b)
         | _ \<Rightarrow> make_value tag a)
     | _ \<Rightarrow> None)"

definition KeyParameterValue_make :: "KeyParameterValue_Tag \<Rightarrow> kp_arg list \<Rightarrow> KeyParameterValue option" where
  "KeyParameterValue_make tag args = in_place tag args"

definition KeyParameterValue_get :: "bool \<Rightarrow> KeyParameterValue_Tag \<Rightarrow> KeyParameterValue \<Rightarrow> kpv_access" where
  "KeyParameterValue_get bionic tag v =
     (if KeyParameterValue_getTag v \<noteq> tag \<and> bionic then Access_abort
      else if KeyParameterValue_getTag v = tag then Access_ok (kpv_payload v)
      else Access_throw)"

definition KeyParameterValue_set :: "KeyParameterValue_Tag \<Rightarrow> kp_arg list \<Rightarrow> KeyParameterValue \<Rightarrow> KeyParameterValue option" where
  "KeyParameterValue_set tag args v = in_place tag args"

section \<open>Access after construction\<close>

text \<open>The C++ types of the alternatives: 32 or 64 bits.\<close>

definition kpv_in_range :: "KeyParameterValue \<Rightarrow> bool" where
  "kpv_in_range v \<longleftrightarrow> (case v of
       KPV_invalid_value n \<Rightarrow> wrap32 n = n
     | KPV_integer_value n \<Rightarrow> wrap32 n = n
     | KPV_longInteger_value n \<Rightarrow> wrap64 n = n
     | KPV_dateTime_value n \<Rightarrow> wrap64 n = n
     | _ \<Rightarrow> True)"

lemma kpv_zero_tag: "KeyParameterValue_getTag (kpv_zero tag) = tag"
  by (cases tag) simp_all

lemma in_place_tag: "in_place tag args = Some v \<Longrightarrow> KeyParameterValue_getTag v = tag"
  using kpv_zero_tag [of tag] make_value_tag [of tag]
  by (cases tag) (auto simp: in_place_def split: list.splits kp_arg.splits)

lemma in_place_payload: "kpv_in_range v \<Longrightarrow> in_place (KeyParameterValue_getTag v) [kpv_payload v] = Some v"
  by (cases v) (simp_all add: in_place_def make_value_def kpv_in_range_def)

text \<open>A union made from what another one of the alternative holds is that union; after \<open>set\<close> with it, \<open>get\<close> returns it
  under its tag, and under every other tag ends the process or throws.\<close>

theorem kpv_get_after_set:
  assumes "kpv_in_range v"
  shows "KeyParameterValue_make (KeyParameterValue_getTag v) [kpv_payload v] = Some v \<and>
    KeyParameterValue_set (KeyParameterValue_getTag v) [kpv_payload v] old = Some v \<and>
    KeyParameterValue_get bionic tag v =
      (if tag = KeyParameterValue_getTag v then Access_ok (kpv_payload v) else if bionic then Access_abort else Access_throw)"
  using in_place_payload [OF assms]
  by (simp add: KeyParameterValue_make_def KeyParameterValue_set_def KeyParameterValue_get_def)

lemma kpv_get_after_set_witness:
  "KeyParameterValue_make KPV_integer [Arg_int 256] = Some (KPV_integer_value 256) \<and>
   KeyParameterValue_get True KPV_longInteger (KPV_integer_value 256) = Access_abort"
  using kpv_get_after_set [of "KPV_integer_value 256" "KPV_blob_value []" True KPV_longInteger]
  by (simp add: kpv_in_range_def wrap32_def)

text \<open>The tag of a union is the tag it was made for, whatever the arguments.\<close>

lemma kpv_make_tag: "KeyParameterValue_make tag args = Some v \<Longrightarrow> KeyParameterValue_getTag v = tag"
  by (simp add: KeyParameterValue_make_def in_place_tag)

end
