(* ===== verification/Messages.thy ===== *)
theory Messages
  imports MsgTypes
begin

text \<open>
  The messages of \<open>keymaster/android_keymaster_messages.h\<close> whose serialization is in the header. A
  message is a record that extends \<open>keymaster_message\<close> or \<open>keymaster_response\<close>; for a response the
  functions are the \<open>NonError\<close> ones, which describe the payload after the error code. For each class the
  sublocale states its wire image and that \<open>Serialize\<close> writes it, \<open>Deserialize\<close> reads it back, refuses it
  when cut short, and stays inside the buffer on every input, and that \<open>SerializedSize\<close> is its length.
  The classes that break the contract (\<open>DeviceLockedRequest\<close>) are at the end.
\<close>

named_theorems message_defs \<open>definitions of the message classes\<close>

section \<open>Fields with a codec of their own\<close>

text \<open>
  The contract of the codec of a field class, and of two of them. For blobs it has been proved.
\<close>

context byte_io
begin

lemmas blob_field_rules [wire_rules] = blob.rd_obj_parses blob.rd_obj_guarded blob.ser_wire blob.ser_bounded

lemmas blob_size_simp [simp] = blob.size_wire

end

locale field_codec = byte_io_coll X E + fld: sized_serializable "c_ser C" "c_des C" fwire fwf frecv "c_size C"
  for X E and C :: "'f codec" and fwire fwf frecv
begin

lemmas field_rules [wire_rules] = fld.rd_obj_parses fld.rd_obj_guarded fld.ser_wire fld.ser_bounded

lemmas field_size [simp] = fld.size_wire

end

locale two_codecs = field_codec X E C fwire fwf frecv + snd: sized_serializable "c_ser D" "c_des D" gwire gwf grecv "c_size D"
  for X E and C :: "'f codec" and fwire fwf frecv and D :: "'g codec" and gwire gwf grecv
begin

lemmas second_rules [wire_rules] = snd.rd_obj_parses snd.rd_obj_guarded snd.ser_wire snd.ser_bounded

lemmas second_size [simp] = snd.size_wire

end

definition blob_codec :: "io \<Rightarrow> blob codec" where
  "blob_codec X = \<lparr>c_size = blob_SerializedSize, c_ser = blob_Serialize X, c_des = blob_Deserialize X\<rparr>"

interpretation blobs: two_codecs doc_io None "blob_codec doc_io" blob_wire blob_wf "blob_recv None"
    "blob_codec doc_io" blob_wire blob_wf "blob_recv None"
proof -
  have "sized_serializable (c_ser (blob_codec doc_io)) (c_des (blob_codec doc_io)) blob_wire blob_wf
      (blob_recv None) (c_size (blob_codec doc_io))"
    by (simp add: blob_codec_def doc.blob.sized_serializable_axioms)
  then show "two_codecs doc_io None (blob_codec doc_io) blob_wire blob_wf (blob_recv None)
      (blob_codec doc_io) blob_wire blob_wf (blob_recv None)"
    by (simp add: two_codecs_def field_codec_def doc.byte_io_coll_axioms)
qed

section \<open>Requests and responses without a payload\<close>

text \<open>
  \<open>EmptyKeymasterRequest\<close> and \<open>EmptyKeymasterResponse\<close>, and with the same bodies
  \<open>SupportedAlgorithmsRequest\<close>, \<open>EarlyBootEndedResponse\<close> and \<open>DeviceLockedResponse\<close>.
\<close>

definition Empty_SerializedSize :: "'m \<Rightarrow> nat" where [message_defs]:
  "Empty_SerializedSize m = 0"

definition Empty_Serialize :: "'m \<Rightarrow> wbuf \<Rightarrow> wbuf" where [message_defs]:
  "Empty_Serialize m = (\<lambda>b. b)"

definition Empty_Deserialize :: "'m \<times> rbuf \<Rightarrow> bool \<times> 'm \<times> rbuf" where [message_defs]:
  "Empty_Deserialize = (\<lambda>s. (True, s))"

interpretation Empty: sized_serializable Empty_Serialize Empty_Deserialize "\<lambda>_. []" "\<lambda>_. True" "\<lambda>old _. old" Empty_SerializedSize
  by (rule sized_serializableI, unfold message_defs) (rule wire_rules | simp)+

section \<open>Requests with fixed-size payloads\<close>

text \<open>
  The base of \<open>SupportedImportFormatsRequest\<close> and \<open>SupportedExportFormatsRequest\<close>.
\<close>

record supported_by_algorithm_request = keymaster_message +
  sba_algorithm :: u32

definition SupportedByAlgorithmRequest_SerializedSize :: "supported_by_algorithm_request \<Rightarrow> nat" where [message_defs]:
  "SupportedByAlgorithmRequest_SerializedSize m = 4"

definition SupportedByAlgorithmRequest_Serialize :: "io \<Rightarrow> supported_by_algorithm_request \<Rightarrow> wbuf \<Rightarrow> wbuf" where [message_defs]:
  "SupportedByAlgorithmRequest_Serialize X m =
     (\<lambda>b. append_uint32_to_buf X b (sba_algorithm m))"

definition SupportedByAlgorithmRequest_Deserialize :: "io \<Rightarrow> supported_by_algorithm_request \<times> rbuf \<Rightarrow> bool \<times> supported_by_algorithm_request \<times> rbuf" where [message_defs]:
  "SupportedByAlgorithmRequest_Deserialize X =
     (rd_u32 X (\<lambda>v m. m\<lparr>sba_algorithm := v\<rparr>))"

definition SupportedByAlgorithmRequest_wire :: "supported_by_algorithm_request \<Rightarrow> byte list" where [message_defs]:
  "SupportedByAlgorithmRequest_wire m = le32 (sba_algorithm m)"

sublocale byte_io \<subseteq> SupportedByAlgorithmRequest: sized_serializable "SupportedByAlgorithmRequest_Serialize X " "SupportedByAlgorithmRequest_Deserialize X " "SupportedByAlgorithmRequest_wire"
    "\<lambda>m. True"
    "\<lambda>old m. old\<lparr>sba_algorithm := sba_algorithm m\<rparr>" "SupportedByAlgorithmRequest_SerializedSize "
  by (rule sized_serializableI, unfold message_defs) (rule wire_rules | simp)+

text \<open>
  The base of the requests for block modes, padding modes and digests.
\<close>

record supported_by_algorithm_and_purpose_request = keymaster_message +
  sbap_algorithm :: u32
  sbap_purpose :: u32

definition SupportedByAlgorithmAndPurposeRequest_SerializedSize :: "supported_by_algorithm_and_purpose_request \<Rightarrow> nat" where [message_defs]:
  "SupportedByAlgorithmAndPurposeRequest_SerializedSize m = 4 * 2"

definition SupportedByAlgorithmAndPurposeRequest_Serialize :: "io \<Rightarrow> supported_by_algorithm_and_purpose_request \<Rightarrow> wbuf \<Rightarrow> wbuf" where [message_defs]:
  "SupportedByAlgorithmAndPurposeRequest_Serialize X m =
     then_write (\<lambda>b. append_uint32_to_buf X b (sbap_algorithm m))
     ((\<lambda>b. append_uint32_to_buf X b (sbap_purpose m)))"

definition SupportedByAlgorithmAndPurposeRequest_Deserialize :: "io \<Rightarrow> supported_by_algorithm_and_purpose_request \<times> rbuf \<Rightarrow> bool \<times> supported_by_algorithm_and_purpose_request \<times> rbuf" where [message_defs]:
  "SupportedByAlgorithmAndPurposeRequest_Deserialize X =
     and_then (rd_u32 X (\<lambda>v m. m\<lparr>sbap_algorithm := v\<rparr>))
     ((rd_u32 X (\<lambda>v m. m\<lparr>sbap_purpose := v\<rparr>)))"

definition SupportedByAlgorithmAndPurposeRequest_wire :: "supported_by_algorithm_and_purpose_request \<Rightarrow> byte list" where [message_defs]:
  "SupportedByAlgorithmAndPurposeRequest_wire m = le32 (sbap_algorithm m) @ le32 (sbap_purpose m)"

sublocale byte_io \<subseteq> SupportedByAlgorithmAndPurposeRequest: sized_serializable "SupportedByAlgorithmAndPurposeRequest_Serialize X " "SupportedByAlgorithmAndPurposeRequest_Deserialize X " "SupportedByAlgorithmAndPurposeRequest_wire"
    "\<lambda>m. True"
    "\<lambda>old m. old\<lparr>sbap_algorithm := sbap_algorithm m, sbap_purpose := sbap_purpose m\<rparr>" "SupportedByAlgorithmAndPurposeRequest_SerializedSize "
  by (rule sized_serializableI, unfold message_defs) (rule wire_rules | simp)+

record abort_operation_request = keymaster_message +
  abort_op_handle :: u64

definition AbortOperationRequest_SerializedSize :: "abort_operation_request \<Rightarrow> nat" where [message_defs]:
  "AbortOperationRequest_SerializedSize m = 8"

definition AbortOperationRequest_Serialize :: "io \<Rightarrow> abort_operation_request \<Rightarrow> wbuf \<Rightarrow> wbuf" where [message_defs]:
  "AbortOperationRequest_Serialize X m =
     (\<lambda>b. append_uint64_to_buf X b (abort_op_handle m))"

definition AbortOperationRequest_Deserialize :: "io \<Rightarrow> abort_operation_request \<times> rbuf \<Rightarrow> bool \<times> abort_operation_request \<times> rbuf" where [message_defs]:
  "AbortOperationRequest_Deserialize X =
     (rd_u64 X (\<lambda>v m. m\<lparr>abort_op_handle := v\<rparr>))"

definition AbortOperationRequest_wire :: "abort_operation_request \<Rightarrow> byte list" where [message_defs]:
  "AbortOperationRequest_wire m = le64 (abort_op_handle m)"

sublocale byte_io \<subseteq> AbortOperationRequest: sized_serializable "AbortOperationRequest_Serialize X " "AbortOperationRequest_Deserialize X " "AbortOperationRequest_wire"
    "\<lambda>m. True"
    "\<lambda>old m. old\<lparr>abort_op_handle := abort_op_handle m\<rparr>" "AbortOperationRequest_SerializedSize "
  by (rule sized_serializableI, unfold message_defs) (rule wire_rules | simp)+

record configure_request = keymaster_message +
  cfg_os_version :: u32
  cfg_os_patchlevel :: u32

definition ConfigureRequest_SerializedSize :: "configure_request \<Rightarrow> nat" where [message_defs]:
  "ConfigureRequest_SerializedSize m = 4 + 4"

definition ConfigureRequest_Serialize :: "io \<Rightarrow> configure_request \<Rightarrow> wbuf \<Rightarrow> wbuf" where [message_defs]:
  "ConfigureRequest_Serialize X m =
     then_write (\<lambda>b. append_uint32_to_buf X b (cfg_os_version m))
     ((\<lambda>b. append_uint32_to_buf X b (cfg_os_patchlevel m)))"

definition ConfigureRequest_Deserialize :: "io \<Rightarrow> configure_request \<times> rbuf \<Rightarrow> bool \<times> configure_request \<times> rbuf" where [message_defs]:
  "ConfigureRequest_Deserialize X =
     and_then (rd_u32 X (\<lambda>v m. m\<lparr>cfg_os_version := v\<rparr>))
     ((rd_u32 X (\<lambda>v m. m\<lparr>cfg_os_patchlevel := v\<rparr>)))"

definition ConfigureRequest_wire :: "configure_request \<Rightarrow> byte list" where [message_defs]:
  "ConfigureRequest_wire m = le32 (cfg_os_version m) @ le32 (cfg_os_patchlevel m)"

sublocale byte_io \<subseteq> ConfigureRequest: sized_serializable "ConfigureRequest_Serialize X " "ConfigureRequest_Deserialize X " "ConfigureRequest_wire"
    "\<lambda>m. True"
    "\<lambda>old m. old\<lparr>cfg_os_version := cfg_os_version m, cfg_os_patchlevel := cfg_os_patchlevel m\<rparr>" "ConfigureRequest_SerializedSize "
  by (rule sized_serializableI, unfold message_defs) (rule wire_rules | simp)+

record generate_timestamp_token_request = keymaster_message +
  gtt_challenge :: u64

definition GenerateTimestampTokenRequest_SerializedSize :: "generate_timestamp_token_request \<Rightarrow> nat" where [message_defs]:
  "GenerateTimestampTokenRequest_SerializedSize m = 8"

definition GenerateTimestampTokenRequest_Serialize :: "io \<Rightarrow> generate_timestamp_token_request \<Rightarrow> wbuf \<Rightarrow> wbuf" where [message_defs]:
  "GenerateTimestampTokenRequest_Serialize X m =
     (\<lambda>b. append_uint64_to_buf X b (gtt_challenge m))"

definition GenerateTimestampTokenRequest_Deserialize :: "io \<Rightarrow> generate_timestamp_token_request \<times> rbuf \<Rightarrow> bool \<times> generate_timestamp_token_request \<times> rbuf" where [message_defs]:
  "GenerateTimestampTokenRequest_Deserialize X =
     (rd_u64 X (\<lambda>v m. m\<lparr>gtt_challenge := v\<rparr>))"

definition GenerateTimestampTokenRequest_wire :: "generate_timestamp_token_request \<Rightarrow> byte list" where [message_defs]:
  "GenerateTimestampTokenRequest_wire m = le64 (gtt_challenge m)"

sublocale byte_io \<subseteq> GenerateTimestampTokenRequest: sized_serializable "GenerateTimestampTokenRequest_Serialize X " "GenerateTimestampTokenRequest_Deserialize X " "GenerateTimestampTokenRequest_wire"
    "\<lambda>m. True"
    "\<lambda>old m. old\<lparr>gtt_challenge := gtt_challenge m\<rparr>" "GenerateTimestampTokenRequest_SerializedSize "
  by (rule sized_serializableI, unfold message_defs) (rule wire_rules | simp)+

record configure_vendor_patchlevel_request = keymaster_message +
  vendor_patchlevel :: u32

definition ConfigureVendorPatchlevelRequest_SerializedSize :: "configure_vendor_patchlevel_request \<Rightarrow> nat" where [message_defs]:
  "ConfigureVendorPatchlevelRequest_SerializedSize m = 4"

definition ConfigureVendorPatchlevelRequest_Serialize :: "io \<Rightarrow> configure_vendor_patchlevel_request \<Rightarrow> wbuf \<Rightarrow> wbuf" where [message_defs]:
  "ConfigureVendorPatchlevelRequest_Serialize X m =
     (\<lambda>b. append_uint32_to_buf X b (vendor_patchlevel m))"

definition ConfigureVendorPatchlevelRequest_Deserialize :: "io \<Rightarrow> configure_vendor_patchlevel_request \<times> rbuf \<Rightarrow> bool \<times> configure_vendor_patchlevel_request \<times> rbuf" where [message_defs]:
  "ConfigureVendorPatchlevelRequest_Deserialize X =
     (rd_u32 X (\<lambda>v m. m\<lparr>vendor_patchlevel := v\<rparr>))"

definition ConfigureVendorPatchlevelRequest_wire :: "configure_vendor_patchlevel_request \<Rightarrow> byte list" where [message_defs]:
  "ConfigureVendorPatchlevelRequest_wire m = le32 (vendor_patchlevel m)"

sublocale byte_io \<subseteq> ConfigureVendorPatchlevelRequest: sized_serializable "ConfigureVendorPatchlevelRequest_Serialize X " "ConfigureVendorPatchlevelRequest_Deserialize X " "ConfigureVendorPatchlevelRequest_wire"
    "\<lambda>m. True"
    "\<lambda>old m. old\<lparr>vendor_patchlevel := vendor_patchlevel m\<rparr>" "ConfigureVendorPatchlevelRequest_SerializedSize "
  by (rule sized_serializableI, unfold message_defs) (rule wire_rules | simp)+

record configure_boot_patchlevel_request = keymaster_message +
  boot_patchlevel :: u32

definition ConfigureBootPatchlevelRequest_SerializedSize :: "configure_boot_patchlevel_request \<Rightarrow> nat" where [message_defs]:
  "ConfigureBootPatchlevelRequest_SerializedSize m = 4"

definition ConfigureBootPatchlevelRequest_Serialize :: "io \<Rightarrow> configure_boot_patchlevel_request \<Rightarrow> wbuf \<Rightarrow> wbuf" where [message_defs]:
  "ConfigureBootPatchlevelRequest_Serialize X m =
     (\<lambda>b. append_uint32_to_buf X b (boot_patchlevel m))"

definition ConfigureBootPatchlevelRequest_Deserialize :: "io \<Rightarrow> configure_boot_patchlevel_request \<times> rbuf \<Rightarrow> bool \<times> configure_boot_patchlevel_request \<times> rbuf" where [message_defs]:
  "ConfigureBootPatchlevelRequest_Deserialize X =
     (rd_u32 X (\<lambda>v m. m\<lparr>boot_patchlevel := v\<rparr>))"

definition ConfigureBootPatchlevelRequest_wire :: "configure_boot_patchlevel_request \<Rightarrow> byte list" where [message_defs]:
  "ConfigureBootPatchlevelRequest_wire m = le32 (boot_patchlevel m)"

sublocale byte_io \<subseteq> ConfigureBootPatchlevelRequest: sized_serializable "ConfigureBootPatchlevelRequest_Serialize X " "ConfigureBootPatchlevelRequest_Deserialize X " "ConfigureBootPatchlevelRequest_wire"
    "\<lambda>m. True"
    "\<lambda>old m. old\<lparr>boot_patchlevel := boot_patchlevel m\<rparr>" "ConfigureBootPatchlevelRequest_SerializedSize "
  by (rule sized_serializableI, unfold message_defs) (rule wire_rules | simp)+

record get_version2_request = keymaster_message +
  gv2_max_message_version :: u32

definition GetVersion2Request_SerializedSize :: "get_version2_request \<Rightarrow> nat" where [message_defs]:
  "GetVersion2Request_SerializedSize m = 4"

definition GetVersion2Request_Serialize :: "io \<Rightarrow> get_version2_request \<Rightarrow> wbuf \<Rightarrow> wbuf" where [message_defs]:
  "GetVersion2Request_Serialize X m =
     (\<lambda>b. append_uint32_to_buf X b (gv2_max_message_version m))"

definition GetVersion2Request_Deserialize :: "io \<Rightarrow> get_version2_request \<times> rbuf \<Rightarrow> bool \<times> get_version2_request \<times> rbuf" where [message_defs]:
  "GetVersion2Request_Deserialize X =
     (rd_u32 X (\<lambda>v m. m\<lparr>gv2_max_message_version := v\<rparr>))"

definition GetVersion2Request_wire :: "get_version2_request \<Rightarrow> byte list" where [message_defs]:
  "GetVersion2Request_wire m = le32 (gv2_max_message_version m)"

sublocale byte_io \<subseteq> GetVersion2Request: sized_serializable "GetVersion2Request_Serialize X " "GetVersion2Request_Deserialize X " "GetVersion2Request_wire"
    "\<lambda>m. True"
    "\<lambda>old m. old\<lparr>gv2_max_message_version := gv2_max_message_version m\<rparr>" "GetVersion2Request_SerializedSize "
  by (rule sized_serializableI, unfold message_defs) (rule wire_rules | simp)+

text \<open>The constructor ignores its argument; the message version is 0.\<close>

definition GetVersion2Request :: "u32 \<Rightarrow> get_version2_request option" where
  "GetVersion2Request ver =
     map_option (\<lambda>m. \<lparr>message_version = message_version m,
                     gv2_max_message_version = of_int kDefaultMessageVersion\<rparr>) (KeymasterMessage 0)"

text \<open>
  \<open>test_mode\<close> is a \<open>bool\<close> that is written and read as the byte in memory that holds it. Reading does
  not normalise the byte: \<open>bool\<close> objects hold 0 or 1.
\<close>

record generate_rkp_key_request = keymaster_message +
  rkp_test_mode :: byte

definition GenerateRkpKeyRequest_SerializedSize :: "generate_rkp_key_request \<Rightarrow> nat" where [message_defs]:
  "GenerateRkpKeyRequest_SerializedSize m = 1"

definition GenerateRkpKeyRequest_Serialize :: "io \<Rightarrow> generate_rkp_key_request \<Rightarrow> wbuf \<Rightarrow> wbuf" where [message_defs]:
  "GenerateRkpKeyRequest_Serialize X m = (\<lambda>b. append_to_buf X b [rkp_test_mode m])"

definition GenerateRkpKeyRequest_Deserialize :: "io \<Rightarrow> generate_rkp_key_request \<times> rbuf \<Rightarrow> bool \<times> generate_rkp_key_request \<times> rbuf" where
  "GenerateRkpKeyRequest_Deserialize X s = (case s of (m, r) \<Rightarrow> (case copy_from_buf X r 1 of
     (None, r') \<Rightarrow> (False, m, r') | (Some bs, r') \<Rightarrow> (True, m\<lparr>rkp_test_mode := hd bs\<rparr>, r')))"

context byte_io
begin

lemma rkp_parses [wire_rules]:
  "parses (GenerateRkpKeyRequest_Deserialize X) [c] (\<lambda>m. m\<lparr>rkp_test_mode := c\<rparr>)"
  unfolding parses_def
proof (intro conjI allI impI)
  fix old a q f
  assume "strict_prefix q [c]"
  then have "length (r_bytes (rcur a q f)) < 1" using strict_prefix_le by fastforce
  then have "fst (copy_from_buf X (rcur a q f) 1) = None" by (rule copy_short)
  then show "\<not> fst (GenerateRkpKeyRequest_Deserialize X (old, rcur a q f))"
    by (auto simp: GenerateRkpKeyRequest_Deserialize_def split: prod.splits option.splits)
qed (simp add: GenerateRkpKeyRequest_Deserialize_def copy_enough)

lemma rkp_guarded [wire_rules]: "guarded (GenerateRkpKeyRequest_Deserialize X)"
  unfolding guarded_def
proof (intro allI impI)
  fix old r
  show "\<exists>k \<le> length (r_bytes r). snd (snd (GenerateRkpKeyRequest_Deserialize X (old, r))) = r_adv k r"
    using copy_in_bounds [of r 1]
    by (auto simp: GenerateRkpKeyRequest_Deserialize_def split: prod.splits option.splits)
qed

end

sublocale byte_io \<subseteq> GenerateRkpKeyRequest: sized_serializable "GenerateRkpKeyRequest_Serialize X"
    "GenerateRkpKeyRequest_Deserialize X" "\<lambda>m. [rkp_test_mode m]" "\<lambda>m. True"
    "\<lambda>old m. old\<lparr>rkp_test_mode := rkp_test_mode m\<rparr>" GenerateRkpKeyRequest_SerializedSize
  by (rule sized_serializableI, unfold message_defs) (rule wire_rules | simp)+

section \<open>Collections and blobs\<close>

text \<open>
  Strings are byte vectors.
\<close>

record configure_verified_boot_info_request = keymaster_message +
  boot_state :: "byte list"
  bootloader_state :: "byte list"
  vbmeta_digest :: "byte list"

definition ConfigureVerifiedBootInfoRequest_SerializedSize :: "configure_verified_boot_info_request \<Rightarrow> nat" where [message_defs]:
  "ConfigureVerifiedBootInfoRequest_SerializedSize m = 4 + 4 + 4 + length (boot_state m) + length (bootloader_state m) + length (vbmeta_digest m)"

definition ConfigureVerifiedBootInfoRequest_Serialize :: "io \<Rightarrow> configure_verified_boot_info_request \<Rightarrow> wbuf \<Rightarrow> wbuf" where [message_defs]:
  "ConfigureVerifiedBootInfoRequest_Serialize X m =
     then_write (\<lambda>b. append_collection_to_buf X b (boot_state m))
     (then_write (\<lambda>b. append_collection_to_buf X b (bootloader_state m))
      ((\<lambda>b. append_collection_to_buf X b (vbmeta_digest m))))"

definition ConfigureVerifiedBootInfoRequest_Deserialize :: "io \<Rightarrow> configure_verified_boot_info_request \<times> rbuf \<Rightarrow> bool \<times> configure_verified_boot_info_request \<times> rbuf" where [message_defs]:
  "ConfigureVerifiedBootInfoRequest_Deserialize X =
     and_then (rd_coll X boot_state (\<lambda>v m. m\<lparr>boot_state := v\<rparr>))
     (and_then (rd_coll X bootloader_state (\<lambda>v m. m\<lparr>bootloader_state := v\<rparr>))
      ((rd_coll X vbmeta_digest (\<lambda>v m. m\<lparr>vbmeta_digest := v\<rparr>))))"

definition ConfigureVerifiedBootInfoRequest_wire :: "configure_verified_boot_info_request \<Rightarrow> byte list" where [message_defs]:
  "ConfigureVerifiedBootInfoRequest_wire m = coll_wire (boot_state m) @ coll_wire (bootloader_state m) @ coll_wire (vbmeta_digest m)"

sublocale byte_io_coll \<subseteq> ConfigureVerifiedBootInfoRequest: sized_serializable "ConfigureVerifiedBootInfoRequest_Serialize X " "ConfigureVerifiedBootInfoRequest_Deserialize X " "ConfigureVerifiedBootInfoRequest_wire"
    "\<lambda>m. length (boot_state m) < 2 ^ 32 \<and> length (bootloader_state m) < 2 ^ 32 \<and> length (vbmeta_digest m) < 2 ^ 32"
    "\<lambda>old m. old\<lparr>boot_state := boot_state old @ boot_state m, bootloader_state := bootloader_state old @ bootloader_state m, vbmeta_digest := vbmeta_digest old @ vbmeta_digest m\<rparr>" "ConfigureVerifiedBootInfoRequest_SerializedSize "
  by (rule sized_serializableI, unfold message_defs) (rule wire_rules | simp)+

record get_root_of_trust_request = keymaster_message +
  rot_challenge :: "byte list"

definition GetRootOfTrustRequest_SerializedSize :: "get_root_of_trust_request \<Rightarrow> nat" where [message_defs]:
  "GetRootOfTrustRequest_SerializedSize m = 4 + length (rot_challenge m)"

definition GetRootOfTrustRequest_Serialize :: "io \<Rightarrow> get_root_of_trust_request \<Rightarrow> wbuf \<Rightarrow> wbuf" where [message_defs]:
  "GetRootOfTrustRequest_Serialize X m =
     (\<lambda>b. append_collection_to_buf X b (rot_challenge m))"

definition GetRootOfTrustRequest_Deserialize :: "io \<Rightarrow> get_root_of_trust_request \<times> rbuf \<Rightarrow> bool \<times> get_root_of_trust_request \<times> rbuf" where [message_defs]:
  "GetRootOfTrustRequest_Deserialize X =
     (rd_coll X rot_challenge (\<lambda>v m. m\<lparr>rot_challenge := v\<rparr>))"

definition GetRootOfTrustRequest_wire :: "get_root_of_trust_request \<Rightarrow> byte list" where [message_defs]:
  "GetRootOfTrustRequest_wire m = coll_wire (rot_challenge m)"

sublocale byte_io_coll \<subseteq> GetRootOfTrustRequest: sized_serializable "GetRootOfTrustRequest_Serialize X " "GetRootOfTrustRequest_Deserialize X " "GetRootOfTrustRequest_wire"
    "\<lambda>m. length (rot_challenge m) < 2 ^ 32"
    "\<lambda>old m. old\<lparr>rot_challenge := rot_challenge old @ rot_challenge m\<rparr>" "GetRootOfTrustRequest_SerializedSize "
  by (rule sized_serializableI, unfold message_defs) (rule wire_rules | simp)+

record get_root_of_trust_response = keymaster_response +
  rootOfTrust :: "byte list"

definition GetRootOfTrustResponse_NonErrorSerializedSize :: "get_root_of_trust_response \<Rightarrow> nat" where [message_defs]:
  "GetRootOfTrustResponse_NonErrorSerializedSize m = 4 + length (rootOfTrust m)"

definition GetRootOfTrustResponse_NonErrorSerialize :: "io \<Rightarrow> get_root_of_trust_response \<Rightarrow> wbuf \<Rightarrow> wbuf" where [message_defs]:
  "GetRootOfTrustResponse_NonErrorSerialize X m =
     (\<lambda>b. append_collection_to_buf X b (rootOfTrust m))"

definition GetRootOfTrustResponse_NonErrorDeserialize :: "io \<Rightarrow> get_root_of_trust_response \<times> rbuf \<Rightarrow> bool \<times> get_root_of_trust_response \<times> rbuf" where [message_defs]:
  "GetRootOfTrustResponse_NonErrorDeserialize X =
     (rd_coll X rootOfTrust (\<lambda>v m. m\<lparr>rootOfTrust := v\<rparr>))"

definition GetRootOfTrustResponse_wire :: "get_root_of_trust_response \<Rightarrow> byte list" where [message_defs]:
  "GetRootOfTrustResponse_wire m = coll_wire (rootOfTrust m)"

sublocale byte_io_coll \<subseteq> GetRootOfTrustResponse: sized_serializable "GetRootOfTrustResponse_NonErrorSerialize X " "GetRootOfTrustResponse_NonErrorDeserialize X " "GetRootOfTrustResponse_wire"
    "\<lambda>m. length (rootOfTrust m) < 2 ^ 32"
    "\<lambda>old m. old\<lparr>rootOfTrust := rootOfTrust old @ rootOfTrust m\<rparr>" "GetRootOfTrustResponse_NonErrorSerializedSize "
  by (rule sized_serializableI, unfold message_defs) (rule wire_rules | simp)+

text \<open>The constructors take an unsigned version, which is converted to a signed one.\<close>

definition GetRootOfTrustResponse :: "u32 \<Rightarrow> u32 \<Rightarrow> byte list \<Rightarrow> get_root_of_trust_response option" where
  "GetRootOfTrustResponse unknown_error ver param =
     map_option (\<lambda>m. \<lparr>message_version = message_version m, error = error m, rootOfTrust = param\<rparr>)
       (KeymasterResponse unknown_error (sint ver))"

record get_hw_info_response = keymaster_response +
  hw_version :: u32
  rpcAuthorName :: "byte list"
  supportedEekCurve :: u32
  uniqueId :: "byte list"
  supportedNumKeysInCsr :: u32

definition GetHwInfoResponse_NonErrorSerializedSize :: "get_hw_info_response \<Rightarrow> nat" where [message_defs]:
  "GetHwInfoResponse_NonErrorSerializedSize m = 4 + 4 + length (rpcAuthorName m) + 4 + 4 + length (uniqueId m) + 4"

definition GetHwInfoResponse_NonErrorSerialize :: "io \<Rightarrow> get_hw_info_response \<Rightarrow> wbuf \<Rightarrow> wbuf" where [message_defs]:
  "GetHwInfoResponse_NonErrorSerialize X m =
     then_write (\<lambda>b. append_uint32_to_buf X b (hw_version m))
     (then_write (\<lambda>b. append_collection_to_buf X b (rpcAuthorName m))
      (then_write (\<lambda>b. append_uint32_to_buf X b (supportedEekCurve m))
       (then_write (\<lambda>b. append_collection_to_buf X b (uniqueId m))
        ((\<lambda>b. append_uint32_to_buf X b (supportedNumKeysInCsr m))))))"

definition GetHwInfoResponse_NonErrorDeserialize :: "io \<Rightarrow> get_hw_info_response \<times> rbuf \<Rightarrow> bool \<times> get_hw_info_response \<times> rbuf" where [message_defs]:
  "GetHwInfoResponse_NonErrorDeserialize X =
     and_then (rd_u32 X (\<lambda>v m. m\<lparr>hw_version := v\<rparr>))
     (and_then (rd_coll X rpcAuthorName (\<lambda>v m. m\<lparr>rpcAuthorName := v\<rparr>))
      (and_then (rd_u32 X (\<lambda>v m. m\<lparr>supportedEekCurve := v\<rparr>))
       (and_then (rd_coll X uniqueId (\<lambda>v m. m\<lparr>uniqueId := v\<rparr>))
        ((rd_u32 X (\<lambda>v m. m\<lparr>supportedNumKeysInCsr := v\<rparr>))))))"

definition GetHwInfoResponse_wire :: "get_hw_info_response \<Rightarrow> byte list" where [message_defs]:
  "GetHwInfoResponse_wire m = le32 (hw_version m) @ coll_wire (rpcAuthorName m) @ le32 (supportedEekCurve m) @ coll_wire (uniqueId m) @ le32 (supportedNumKeysInCsr m)"

sublocale byte_io_coll \<subseteq> GetHwInfoResponse: sized_serializable "GetHwInfoResponse_NonErrorSerialize X " "GetHwInfoResponse_NonErrorDeserialize X " "GetHwInfoResponse_wire"
    "\<lambda>m. length (rpcAuthorName m) < 2 ^ 32 \<and> length (uniqueId m) < 2 ^ 32"
    "\<lambda>old m. old\<lparr>hw_version := hw_version m, rpcAuthorName := rpcAuthorName old @ rpcAuthorName m, supportedEekCurve := supportedEekCurve m, uniqueId := uniqueId old @ uniqueId m, supportedNumKeysInCsr := supportedNumKeysInCsr m\<rparr>" "GetHwInfoResponse_NonErrorSerializedSize "
  by (rule sized_serializableI, unfold message_defs) (rule wire_rules | simp)+

record timestamp_token =
  tt_challenge :: u64
  tt_timestamp :: u64
  tt_security_level :: u32
  tt_mac :: blob

definition TimestampToken_SerializedSize :: "timestamp_token \<Rightarrow> nat" where [message_defs]:
  "TimestampToken_SerializedSize m = 8 + 8 + 4 + blob_SerializedSize (tt_mac m)"

definition TimestampToken_Serialize :: "io \<Rightarrow> timestamp_token \<Rightarrow> wbuf \<Rightarrow> wbuf" where [message_defs]:
  "TimestampToken_Serialize X m =
     then_write (\<lambda>b. append_uint64_to_buf X b (tt_challenge m))
     (then_write (\<lambda>b. append_uint64_to_buf X b (tt_timestamp m))
      (then_write (\<lambda>b. append_uint32_to_buf X b (tt_security_level m))
       ((blob_Serialize X (tt_mac m)))))"

definition TimestampToken_Deserialize :: "io \<Rightarrow> timestamp_token \<times> rbuf \<Rightarrow> bool \<times> timestamp_token \<times> rbuf" where [message_defs]:
  "TimestampToken_Deserialize X =
     and_then (rd_u64 X (\<lambda>v m. m\<lparr>tt_challenge := v\<rparr>))
     (and_then (rd_u64 X (\<lambda>v m. m\<lparr>tt_timestamp := v\<rparr>))
      (and_then (rd_u32 X (\<lambda>v m. m\<lparr>tt_security_level := v\<rparr>))
       ((rd_obj (blob_Deserialize X) tt_mac (\<lambda>v m. m\<lparr>tt_mac := v\<rparr>)))))"

definition TimestampToken_wire :: "timestamp_token \<Rightarrow> byte list" where [message_defs]:
  "TimestampToken_wire m = le64 (tt_challenge m) @ le64 (tt_timestamp m) @ le32 (tt_security_level m) @ blob_wire (tt_mac m)"

sublocale byte_io \<subseteq> TimestampToken: sized_serializable "TimestampToken_Serialize X " "TimestampToken_Deserialize X " "TimestampToken_wire"
    "\<lambda>m. blob_wf (tt_mac m)"
    "\<lambda>old m. old\<lparr>tt_challenge := tt_challenge m, tt_timestamp := tt_timestamp m, tt_security_level := tt_security_level m, tt_mac := blob_recv E (tt_mac old) (tt_mac m)\<rparr>" "TimestampToken_SerializedSize "
  by (rule sized_serializableI, unfold message_defs) (rule wire_rules | simp)+

definition TimestampToken :: timestamp_token where
  "TimestampToken = \<lparr>tt_challenge = 0, tt_timestamp = 0, tt_security_level = 0, tt_mac = empty_blob\<rparr>"

definition TimestampToken_move :: "timestamp_token \<Rightarrow> timestamp_token \<times> timestamp_token" where
  "TimestampToken_move other =
     (let (mac, other_mac, _) = blob_move_assign False empty_blob (tt_mac other)
      in (TimestampToken\<lparr>tt_challenge := tt_challenge other, tt_timestamp := tt_timestamp other,
            tt_security_level := tt_security_level other, tt_mac := mac\<rparr>,
          other\<lparr>tt_mac := other_mac\<rparr>))"

lemma TimestampToken_move_eq: "TimestampToken_move other = (other, other\<lparr>tt_mac := empty_blob\<rparr>)"
  by (cases other) (simp add: TimestampToken_move_def TimestampToken_def blob_move_assign_fresh)

record generate_timestamp_token_response = keymaster_response +
  gtt_token :: timestamp_token

definition GenerateTimestampTokenResponse_NonErrorSerializedSize :: "generate_timestamp_token_response \<Rightarrow> nat" where [message_defs]:
  "GenerateTimestampTokenResponse_NonErrorSerializedSize m = TimestampToken_SerializedSize (gtt_token m)"

definition GenerateTimestampTokenResponse_NonErrorSerialize :: "io \<Rightarrow> generate_timestamp_token_response \<Rightarrow> wbuf \<Rightarrow> wbuf" where
  "GenerateTimestampTokenResponse_NonErrorSerialize X m = TimestampToken_Serialize X (gtt_token m)"

definition GenerateTimestampTokenResponse_NonErrorDeserialize ::
    "io \<Rightarrow> generate_timestamp_token_response \<times> rbuf \<Rightarrow> bool \<times> generate_timestamp_token_response \<times> rbuf" where
  "GenerateTimestampTokenResponse_NonErrorDeserialize X =
     rd_obj (TimestampToken_Deserialize X) gtt_token (\<lambda>v m. m\<lparr>gtt_token := v\<rparr>)"

sublocale byte_io \<subseteq> GenerateTimestampTokenResponse: sized_serializable
    "GenerateTimestampTokenResponse_NonErrorSerialize X" "GenerateTimestampTokenResponse_NonErrorDeserialize X"
    "\<lambda>m. TimestampToken_wire (gtt_token m)" "\<lambda>m. blob_wf (tt_mac (gtt_token m))"
    "\<lambda>old m. old\<lparr>gtt_token := (gtt_token old)\<lparr>tt_challenge := tt_challenge (gtt_token m),
       tt_timestamp := tt_timestamp (gtt_token m), tt_security_level := tt_security_level (gtt_token m),
       tt_mac := blob_recv E (tt_mac (gtt_token old)) (tt_mac (gtt_token m))\<rparr>\<rparr>"
    GenerateTimestampTokenResponse_NonErrorSerializedSize
  by (rule sized_serializableI, unfold GenerateTimestampTokenResponse_NonErrorSerializedSize_def
        GenerateTimestampTokenResponse_NonErrorSerialize_def GenerateTimestampTokenResponse_NonErrorDeserialize_def)
    (rule TimestampToken.ser_wire TimestampToken.ser_bounded TimestampToken.rd_obj_parses
        TimestampToken.rd_obj_guarded TimestampToken.size_wire | simp)+

section \<open>Fields of classes with a codec of their own\<close>

text \<open>
  The identifiers are of class \<open>Buffer\<close>, whose codec is \<open>C\<close>.
\<close>

record 'f set_attestation_ids_request = keymaster_message +
  id_brand :: 'f
  id_device :: 'f
  id_product :: 'f
  id_serial :: 'f
  id_imei :: 'f
  id_meid :: 'f
  id_manufacturer :: 'f
  id_model :: 'f

definition SetAttestationIdsRequest_SerializedSize :: "'f codec \<Rightarrow> 'f set_attestation_ids_request \<Rightarrow> nat" where [message_defs]:
  "SetAttestationIdsRequest_SerializedSize C m = c_size C (id_brand m) + c_size C (id_device m) + c_size C (id_product m) + c_size C (id_serial m) + c_size C (id_imei m) + c_size C (id_meid m) + c_size C (id_manufacturer m) + c_size C (id_model m)"

definition SetAttestationIdsRequest_Serialize :: "'f codec \<Rightarrow> 'f set_attestation_ids_request \<Rightarrow> wbuf \<Rightarrow> wbuf" where [message_defs]:
  "SetAttestationIdsRequest_Serialize C m =
     then_write (c_ser C (id_brand m))
     (then_write (c_ser C (id_device m))
      (then_write (c_ser C (id_product m))
       (then_write (c_ser C (id_serial m))
        (then_write (c_ser C (id_imei m))
         (then_write (c_ser C (id_meid m))
          (then_write (c_ser C (id_manufacturer m))
           ((c_ser C (id_model m)))))))))"

definition SetAttestationIdsRequest_Deserialize :: "'f codec \<Rightarrow> 'f set_attestation_ids_request \<times> rbuf \<Rightarrow> bool \<times> 'f set_attestation_ids_request \<times> rbuf" where [message_defs]:
  "SetAttestationIdsRequest_Deserialize C =
     and_then (rd_obj (c_des C) id_brand (\<lambda>v m. m\<lparr>id_brand := v\<rparr>))
     (and_then (rd_obj (c_des C) id_device (\<lambda>v m. m\<lparr>id_device := v\<rparr>))
      (and_then (rd_obj (c_des C) id_product (\<lambda>v m. m\<lparr>id_product := v\<rparr>))
       (and_then (rd_obj (c_des C) id_serial (\<lambda>v m. m\<lparr>id_serial := v\<rparr>))
        (and_then (rd_obj (c_des C) id_imei (\<lambda>v m. m\<lparr>id_imei := v\<rparr>))
         (and_then (rd_obj (c_des C) id_meid (\<lambda>v m. m\<lparr>id_meid := v\<rparr>))
          (and_then (rd_obj (c_des C) id_manufacturer (\<lambda>v m. m\<lparr>id_manufacturer := v\<rparr>))
           ((rd_obj (c_des C) id_model (\<lambda>v m. m\<lparr>id_model := v\<rparr>)))))))))"

definition SetAttestationIdsRequest_wire :: "('f \<Rightarrow> byte list) \<Rightarrow> 'f set_attestation_ids_request \<Rightarrow> byte list" where [message_defs]:
  "SetAttestationIdsRequest_wire fwire m = fwire (id_brand m) @ fwire (id_device m) @ fwire (id_product m) @ fwire (id_serial m) @ fwire (id_imei m) @ fwire (id_meid m) @ fwire (id_manufacturer m) @ fwire (id_model m)"

sublocale field_codec \<subseteq> SetAttestationIdsRequest: sized_serializable "SetAttestationIdsRequest_Serialize C " "SetAttestationIdsRequest_Deserialize C " "SetAttestationIdsRequest_wire fwire"
    "\<lambda>m. fwf (id_brand m) \<and> fwf (id_device m) \<and> fwf (id_product m) \<and> fwf (id_serial m) \<and> fwf (id_imei m) \<and> fwf (id_meid m) \<and> fwf (id_manufacturer m) \<and> fwf (id_model m)"
    "\<lambda>old m. old\<lparr>id_brand := frecv (id_brand old) (id_brand m), id_device := frecv (id_device old) (id_device m), id_product := frecv (id_product old) (id_product m), id_serial := frecv (id_serial old) (id_serial m), id_imei := frecv (id_imei old) (id_imei m), id_meid := frecv (id_meid old) (id_meid m), id_manufacturer := frecv (id_manufacturer old) (id_manufacturer m), id_model := frecv (id_model old) (id_model m)\<rparr>" "SetAttestationIdsRequest_SerializedSize C "
  by (rule sized_serializableI, unfold message_defs) (rule wire_rules | simp)+

record 'f set_attestation_ids_km3_request = keymaster_message +
  km3_base :: "'f set_attestation_ids_request"
  km3_second_imei :: 'f

definition SetAttestationIdsKM3Request_SerializedSize :: "'f codec \<Rightarrow> 'f set_attestation_ids_km3_request \<Rightarrow> nat" where
  "SetAttestationIdsKM3Request_SerializedSize C m =
     SetAttestationIdsRequest_SerializedSize C (km3_base m) + c_size C (km3_second_imei m)"

definition SetAttestationIdsKM3Request_Serialize ::
    "'f codec \<Rightarrow> 'f set_attestation_ids_km3_request \<Rightarrow> wbuf \<Rightarrow> wbuf" where
  "SetAttestationIdsKM3Request_Serialize C m =
     then_write (SetAttestationIdsRequest_Serialize C (km3_base m)) (c_ser C (km3_second_imei m))"

definition SetAttestationIdsKM3Request_Deserialize ::
    "'f codec \<Rightarrow> 'f set_attestation_ids_km3_request \<times> rbuf \<Rightarrow> bool \<times> 'f set_attestation_ids_km3_request \<times> rbuf" where
  "SetAttestationIdsKM3Request_Deserialize C =
     and_then (rd_obj (SetAttestationIdsRequest_Deserialize C) km3_base (\<lambda>v m. m\<lparr>km3_base := v\<rparr>))
       (rd_obj (c_des C) km3_second_imei (\<lambda>v m. m\<lparr>km3_second_imei := v\<rparr>))"

context field_codec
begin

abbreviation "ids_recv old m \<equiv> old\<lparr>id_brand := frecv (id_brand old) (id_brand m),
  id_device := frecv (id_device old) (id_device m), id_product := frecv (id_product old) (id_product m),
  id_serial := frecv (id_serial old) (id_serial m), id_imei := frecv (id_imei old) (id_imei m),
  id_meid := frecv (id_meid old) (id_meid m), id_manufacturer := frecv (id_manufacturer old) (id_manufacturer m),
  id_model := frecv (id_model old) (id_model m)\<rparr>"

abbreviation "ids_wf m \<equiv> fwf (id_brand m) \<and> fwf (id_device m) \<and> fwf (id_product m) \<and> fwf (id_serial m)
  \<and> fwf (id_imei m) \<and> fwf (id_meid m) \<and> fwf (id_manufacturer m) \<and> fwf (id_model m)"

end

sublocale field_codec \<subseteq> SetAttestationIdsKM3Request: sized_serializable
    "SetAttestationIdsKM3Request_Serialize C" "SetAttestationIdsKM3Request_Deserialize C"
    "\<lambda>m. SetAttestationIdsRequest_wire fwire (km3_base m) @ fwire (km3_second_imei m)"
    "\<lambda>m. ids_wf (km3_base m) \<and> fwf (km3_second_imei m)"
    "\<lambda>old m. old\<lparr>km3_base := ids_recv (km3_base old) (km3_base m),
       km3_second_imei := frecv (km3_second_imei old) (km3_second_imei m)\<rparr>"
    "SetAttestationIdsKM3Request_SerializedSize C"
  by (rule sized_serializableI, unfold SetAttestationIdsKM3Request_Serialize_def
        SetAttestationIdsKM3Request_Deserialize_def SetAttestationIdsKM3Request_SerializedSize_def)
    (rule wire_rules SetAttestationIdsRequest.ser_wire SetAttestationIdsRequest.ser_bounded
        SetAttestationIdsRequest.rd_obj_parses SetAttestationIdsRequest.rd_obj_guarded
      | simp add: SetAttestationIdsRequest.size_wire)+

text \<open>The HMAC sharing messages: the parameters and the array of them have codecs of their own.\<close>

record 'f get_hmac_sharing_parameters_response = keymaster_response +
  hmac_params :: 'f

definition GetHmacSharingParametersResponse_NonErrorSerializedSize :: "'f codec \<Rightarrow> 'f get_hmac_sharing_parameters_response \<Rightarrow> nat" where [message_defs]:
  "GetHmacSharingParametersResponse_NonErrorSerializedSize C m = c_size C (hmac_params m)"

definition GetHmacSharingParametersResponse_NonErrorSerialize :: "'f codec \<Rightarrow> 'f get_hmac_sharing_parameters_response \<Rightarrow> wbuf \<Rightarrow> wbuf" where [message_defs]:
  "GetHmacSharingParametersResponse_NonErrorSerialize C m =
     (c_ser C (hmac_params m))"

definition GetHmacSharingParametersResponse_NonErrorDeserialize :: "'f codec \<Rightarrow> 'f get_hmac_sharing_parameters_response \<times> rbuf \<Rightarrow> bool \<times> 'f get_hmac_sharing_parameters_response \<times> rbuf" where [message_defs]:
  "GetHmacSharingParametersResponse_NonErrorDeserialize C =
     (rd_obj (c_des C) hmac_params (\<lambda>v m. m\<lparr>hmac_params := v\<rparr>))"

definition GetHmacSharingParametersResponse_wire :: "('f \<Rightarrow> byte list) \<Rightarrow> 'f get_hmac_sharing_parameters_response \<Rightarrow> byte list" where [message_defs]:
  "GetHmacSharingParametersResponse_wire fwire m = fwire (hmac_params m)"

sublocale field_codec \<subseteq> GetHmacSharingParametersResponse: sized_serializable "GetHmacSharingParametersResponse_NonErrorSerialize C " "GetHmacSharingParametersResponse_NonErrorDeserialize C " "GetHmacSharingParametersResponse_wire fwire"
    "\<lambda>m. fwf (hmac_params m)"
    "\<lambda>old m. old\<lparr>hmac_params := frecv (hmac_params old) (hmac_params m)\<rparr>" "GetHmacSharingParametersResponse_NonErrorSerializedSize C "
  by (rule sized_serializableI, unfold message_defs) (rule wire_rules | simp)+


text \<open>
  The move constructor passes the message version on and moves the parameters with \<open>move\<close>; the error
  code is the one that the base class sets.
\<close>

definition GetHmacSharingParametersResponse_move ::
    "u32 \<Rightarrow> ('f \<Rightarrow> 'f \<times> 'f) \<Rightarrow> 'f get_hmac_sharing_parameters_response
     \<Rightarrow> ('f get_hmac_sharing_parameters_response \<times> 'f get_hmac_sharing_parameters_response) option" where
  "GetHmacSharingParametersResponse_move unknown_error move other =
     map_option (\<lambda>m. let (p, p') = move (hmac_params other)
        in (\<lparr>message_version = message_version m, error = error m, hmac_params = p\<rparr>,
            other\<lparr>hmac_params := p'\<rparr>))
       (KeymasterResponse unknown_error (message_version other))"

record 'f compute_shared_hmac_request = keymaster_message +
  shared_params_array :: 'f

definition ComputeSharedHmacRequest_SerializedSize :: "'f codec \<Rightarrow> 'f compute_shared_hmac_request \<Rightarrow> nat" where [message_defs]:
  "ComputeSharedHmacRequest_SerializedSize C m = c_size C (shared_params_array m)"

definition ComputeSharedHmacRequest_Serialize :: "'f codec \<Rightarrow> 'f compute_shared_hmac_request \<Rightarrow> wbuf \<Rightarrow> wbuf" where [message_defs]:
  "ComputeSharedHmacRequest_Serialize C m =
     (c_ser C (shared_params_array m))"

definition ComputeSharedHmacRequest_Deserialize :: "'f codec \<Rightarrow> 'f compute_shared_hmac_request \<times> rbuf \<Rightarrow> bool \<times> 'f compute_shared_hmac_request \<times> rbuf" where [message_defs]:
  "ComputeSharedHmacRequest_Deserialize C =
     (rd_obj (c_des C) shared_params_array (\<lambda>v m. m\<lparr>shared_params_array := v\<rparr>))"

definition ComputeSharedHmacRequest_wire :: "('f \<Rightarrow> byte list) \<Rightarrow> 'f compute_shared_hmac_request \<Rightarrow> byte list" where [message_defs]:
  "ComputeSharedHmacRequest_wire fwire m = fwire (shared_params_array m)"

sublocale field_codec \<subseteq> ComputeSharedHmacRequest: sized_serializable "ComputeSharedHmacRequest_Serialize C " "ComputeSharedHmacRequest_Deserialize C " "ComputeSharedHmacRequest_wire fwire"
    "\<lambda>m. fwf (shared_params_array m)"
    "\<lambda>old m. old\<lparr>shared_params_array := frecv (shared_params_array old) (shared_params_array m)\<rparr>" "ComputeSharedHmacRequest_SerializedSize C "
  by (rule sized_serializableI, unfold message_defs) (rule wire_rules | simp)+


record compute_shared_hmac_response = keymaster_response +
  sharing_check :: blob

definition ComputeSharedHmacResponse_move ::
    "u32 \<Rightarrow> compute_shared_hmac_response \<Rightarrow> (compute_shared_hmac_response \<times> compute_shared_hmac_response) option" where
  "ComputeSharedHmacResponse_move unknown_error other =
     map_option (\<lambda>m. let (check, check', _) = blob_move_assign False empty_blob (sharing_check other)
        in (\<lparr>message_version = message_version m, error = error m, sharing_check = check\<rparr>,
            other\<lparr>sharing_check := check'\<rparr>))
       (KeymasterResponse unknown_error (message_version other))"

section \<open>Tokens\<close>

text \<open>
  In \<open>VerifyAuthorizationRequest\<close> the parameter set has the codec \<open>C\<close>, the authentication token the
  codec \<open>D\<close>.
\<close>

record ('f, 'g) verify_authorization_request = keymaster_message +
  va_challenge :: u64
  va_parameters_to_verify :: 'f
  va_auth_token :: 'g

definition VerifyAuthorizationRequest_SerializedSize :: "'f codec \<Rightarrow> 'g codec \<Rightarrow> ('f, 'g) verify_authorization_request \<Rightarrow> nat" where [message_defs]:
  "VerifyAuthorizationRequest_SerializedSize C D m = 8 + c_size C (va_parameters_to_verify m) + c_size D (va_auth_token m)"

definition VerifyAuthorizationRequest_Serialize :: "io \<Rightarrow> 'f codec \<Rightarrow> 'g codec \<Rightarrow> ('f, 'g) verify_authorization_request \<Rightarrow> wbuf \<Rightarrow> wbuf" where [message_defs]:
  "VerifyAuthorizationRequest_Serialize X C D m =
     then_write (\<lambda>b. append_uint64_to_buf X b (va_challenge m))
     (then_write (c_ser C (va_parameters_to_verify m))
      ((c_ser D (va_auth_token m))))"

definition VerifyAuthorizationRequest_Deserialize :: "io \<Rightarrow> 'f codec \<Rightarrow> 'g codec \<Rightarrow> ('f, 'g) verify_authorization_request \<times> rbuf \<Rightarrow> bool \<times> ('f, 'g) verify_authorization_request \<times> rbuf" where [message_defs]:
  "VerifyAuthorizationRequest_Deserialize X C D =
     and_then (rd_u64 X (\<lambda>v m. m\<lparr>va_challenge := v\<rparr>))
     (and_then (rd_obj (c_des C) va_parameters_to_verify (\<lambda>v m. m\<lparr>va_parameters_to_verify := v\<rparr>))
      ((rd_obj (c_des D) va_auth_token (\<lambda>v m. m\<lparr>va_auth_token := v\<rparr>))))"

definition VerifyAuthorizationRequest_wire :: "('f \<Rightarrow> byte list) \<Rightarrow> ('g \<Rightarrow> byte list) \<Rightarrow> ('f, 'g) verify_authorization_request \<Rightarrow> byte list" where [message_defs]:
  "VerifyAuthorizationRequest_wire fwire gwire m = le64 (va_challenge m) @ fwire (va_parameters_to_verify m) @ gwire (va_auth_token m)"

sublocale two_codecs \<subseteq> VerifyAuthorizationRequest: sized_serializable "VerifyAuthorizationRequest_Serialize X C D " "VerifyAuthorizationRequest_Deserialize X C D " "VerifyAuthorizationRequest_wire fwire gwire"
    "\<lambda>m. fwf (va_parameters_to_verify m) \<and> gwf (va_auth_token m)"
    "\<lambda>old m. old\<lparr>va_challenge := va_challenge m, va_parameters_to_verify := frecv (va_parameters_to_verify old) (va_parameters_to_verify m), va_auth_token := grecv (va_auth_token old) (va_auth_token m)\<rparr>" "VerifyAuthorizationRequest_SerializedSize C D "
  by (rule sized_serializableI, unfold message_defs) (rule wire_rules | simp)+


text \<open>
  The payload of \<open>VerifyAuthorizationResponse\<close> begins with the error code, which the base class has
  already sent in front of it.
\<close>

record 'f verify_authorization_response = keymaster_response +
  va_token :: 'f

definition VerifyAuthorizationResponse_NonErrorSerializedSize ::
    "'f codec \<Rightarrow> 'f verify_authorization_response \<Rightarrow> nat" where [message_defs]:
  "VerifyAuthorizationResponse_NonErrorSerializedSize C m = 4 + c_size C (va_token m)"

definition VerifyAuthorizationResponse_NonErrorSerialize ::
    "io \<Rightarrow> 'f codec \<Rightarrow> 'f verify_authorization_response \<Rightarrow> wbuf \<Rightarrow> wbuf" where [message_defs]:
  "VerifyAuthorizationResponse_NonErrorSerialize X C m =
     then_write (\<lambda>b. append_uint32_to_buf X b (error m)) (c_ser C (va_token m))"

definition VerifyAuthorizationResponse_NonErrorDeserialize ::
    "io \<Rightarrow> 'f codec \<Rightarrow> 'f verify_authorization_response \<times> rbuf \<Rightarrow> bool \<times> 'f verify_authorization_response \<times> rbuf" where [message_defs]:
  "VerifyAuthorizationResponse_NonErrorDeserialize X C =
     and_then (rd_u32 X (\<lambda>v m. m\<lparr>error := v\<rparr>)) (rd_obj (c_des C) va_token (\<lambda>v m. m\<lparr>va_token := v\<rparr>))"

sublocale field_codec \<subseteq> VerifyAuthorizationResponse: sized_serializable
    "VerifyAuthorizationResponse_NonErrorSerialize X C" "VerifyAuthorizationResponse_NonErrorDeserialize X C"
    "\<lambda>m. le32 (error m) @ fwire (va_token m)" "\<lambda>m. fwf (va_token m)"
    "\<lambda>old m. old\<lparr>error := error m, va_token := frecv (va_token old) (va_token m)\<rparr>"
    "VerifyAuthorizationResponse_NonErrorSerializedSize C"
  by (rule sized_serializableI, unfold message_defs) (rule wire_rules | simp)+

text \<open>
  \<open>DeviceLockedRequest\<close>: \<open>SerializedSize\<close> leaves the token out, so the class meets the contract of
  \<open>Serializable\<close> only apart from its size.
\<close>

record 'f device_locked_request = keymaster_message +
  passwordOnly :: bool
  dl_token :: 'f

definition DeviceLockedRequest_SerializedSize :: "'f device_locked_request \<Rightarrow> nat" where
  "DeviceLockedRequest_SerializedSize m = 1"

definition DeviceLockedRequest_Serialize :: "'f codec \<Rightarrow> 'f device_locked_request \<Rightarrow> wbuf \<Rightarrow> wbuf" where
  "DeviceLockedRequest_Serialize C m =
     then_write (\<lambda>b. if w_room b > 0 then w_store b (if passwordOnly m then 1 else 0) else b)
       (c_ser C (dl_token m))"

definition rd_locked_flag :: "'f device_locked_request \<times> rbuf \<Rightarrow> bool \<times> 'f device_locked_request \<times> rbuf" where
  "rd_locked_flag s = (case s of (m, r) \<Rightarrow>
     if r_bytes r = [] then (False, m, r)
     else (case r_load r of (c, r') \<Rightarrow> (True, m\<lparr>passwordOnly := (c \<noteq> 0)\<rparr>, r')))"

definition DeviceLockedRequest_Deserialize ::
    "'f codec \<Rightarrow> 'f device_locked_request \<times> rbuf \<Rightarrow> bool \<times> 'f device_locked_request \<times> rbuf" where
  "DeviceLockedRequest_Deserialize C =
     and_then rd_locked_flag (rd_obj (c_des C) dl_token (\<lambda>v m. m\<lparr>dl_token := v\<rparr>))"

lemma store_flag_writes: "writes (\<lambda>b. if w_room b > 0 then w_store b c else b) [c]"
  by (simp add: writes_def w_store_def)

lemma store_flag_bounded: "bounded (\<lambda>b. if w_room b > 0 then w_store b c else b)"
  unfolding bounded_def
proof
  fix b
  show "\<exists>e. (if w_room b > 0 then w_store b c else b) = w_adv b e \<and> length e \<le> w_room b"
    by (cases "w_room b = 0") (auto simp: w_store_def intro: exI [of _ "[]"] exI [of _ "[c]"])
qed

lemma rd_locked_flag_parses: "parses rd_locked_flag [c] (\<lambda>m. m\<lparr>passwordOnly := (c \<noteq> 0)\<rparr>)"
  unfolding parses_def
proof (intro conjI allI impI)
  fix old a q f
  assume "strict_prefix q [c]"
  then have "q = []" using strict_prefix_le by fastforce
  then show "\<not> fst (rd_locked_flag (old, rcur a q f))" by (simp add: rd_locked_flag_def)
qed (simp add: rd_locked_flag_def r_load_def)

lemma rd_locked_flag_guarded: "guarded rd_locked_flag"
  unfolding guarded_def
proof (intro allI impI)
  fix old r
  show "\<exists>k \<le> length (r_bytes r). snd (snd (rd_locked_flag (old, r))) = r_adv k r"
    by (cases "r_bytes r")
      (auto simp: rd_locked_flag_def r_load_def intro: exI [of _ 0] exI [of _ "Suc 0"])
qed

sublocale field_codec \<subseteq> DeviceLockedRequest: serializable
    "DeviceLockedRequest_Serialize C" "DeviceLockedRequest_Deserialize C"
    "\<lambda>m. [if passwordOnly m then 1 else 0] @ fwire (dl_token m)" "\<lambda>m. fwf (dl_token m)"
    "\<lambda>old m. old\<lparr>passwordOnly := passwordOnly m, dl_token := frecv (dl_token old) (dl_token m)\<rparr>"
proof
  fix m :: "'f device_locked_request"
  assume wf: "fwf (dl_token m)"
  show "writes (DeviceLockedRequest_Serialize C m) ([if passwordOnly m then 1 else 0] @ fwire (dl_token m))"
    unfolding DeviceLockedRequest_Serialize_def
    by (intro writes_seq store_flag_writes fld.ser_wire wf)
  show "bounded (DeviceLockedRequest_Serialize C m)"
    unfolding DeviceLockedRequest_Serialize_def
    by (intro bounded_seq store_flag_bounded fld.ser_bounded wf)
  show "parses (DeviceLockedRequest_Deserialize C) ([if passwordOnly m then 1 else 0] @ fwire (dl_token m))
      (\<lambda>old. old\<lparr>passwordOnly := passwordOnly m, dl_token := frecv (dl_token old) (dl_token m)\<rparr>)"
    unfolding DeviceLockedRequest_Deserialize_def
    by (rule parses_cong, rule parses_and_then [OF rd_locked_flag_parses fld.rd_obj_parses [OF wf]]) simp
next
  show "guarded (DeviceLockedRequest_Deserialize C)"
    unfolding DeviceLockedRequest_Deserialize_def
    by (intro guarded_and_then rd_locked_flag_guarded fld.rd_obj_guarded)
qed

end
