(* ===== verification/MsgResponses.thy ===== *)
theory MsgResponses
  imports Messages
begin

text \<open>
  The response template \<open>SupportedResponse\<close>, which owns an array of enumeration values, and the
  properties of the messages as wholes. \<open>alloc n\<close> is the outcome of allocating \<open>n\<close> elements; a null
  array is \<open>None\<close>.
\<close>

section \<open>SupportedResponse\<close>

record supported_response = keymaster_response +
  results :: "u32 list option"
  results_length :: nat

definition SupportedResponse :: "u32 \<Rightarrow> int \<Rightarrow> supported_response option" where
  "SupportedResponse unknown_error ver =
     map_option (\<lambda>m. \<lparr>message_version = message_version m, error = error m, results = None, results_length = 0\<rparr>)
       (KeymasterResponse unknown_error ver)"

text \<open>\<open>SetResults\<close>, with the code of a failed allocation as an argument.\<close>

definition SetResults :: "u32 \<Rightarrow> (nat \<Rightarrow> bool) \<Rightarrow> u32 list \<Rightarrow> nat \<Rightarrow> supported_response \<Rightarrow> supported_response" where
  "SetResults alloc_failed alloc arr n m =
     (let m1 = m\<lparr>results_length := 0\<rparr>;
          m2 = m1\<lparr>results := dup_array alloc arr n\<rparr>
      in if results m2 = None then m2\<lparr>error := alloc_failed\<rparr>
         else m2\<lparr>results_length := n, error := KM_ERROR_OK\<rparr>)"

definition SupportedResponse_NonErrorSerializedSize :: "supported_response \<Rightarrow> nat" where
  "SupportedResponse_NonErrorSerializedSize m = 4 + results_length m * 4"

definition SupportedResponse_NonErrorSerialize :: "io \<Rightarrow> supported_response \<Rightarrow> wbuf \<Rightarrow> wbuf" where
  "SupportedResponse_NonErrorSerialize X m = (\<lambda>b. append_uint32_array_to_buf X b (results m) (results_length m))"

definition SupportedResponse_NonErrorDeserialize ::
    "io \<Rightarrow> (nat \<Rightarrow> bool) \<Rightarrow> supported_response \<times> rbuf \<Rightarrow> bool \<times> supported_response \<times> rbuf" where
  "SupportedResponse_NonErrorDeserialize X alloc s = (case s of (m, r) \<Rightarrow>
     let m1 = m\<lparr>results := None\<rparr>
     in case copy_uint32_array_from_buf X alloc (results_length m1) r of
          (ok, tmp, count, r') \<Rightarrow>
            if \<not> ok then (False, m1\<lparr>results_length := count\<rparr>, r')
            else (True, m1\<lparr>results_length := count, results := tmp\<rparr>, r'))"

definition supported_ok :: "supported_response \<Rightarrow> bool" where
  "supported_ok m \<longleftrightarrow> results_length m < UINT32_MAX div 4 \<and>
     (case results m of None \<Rightarrow> results_length m = 0 | Some vs \<Rightarrow> length vs = results_length m)"

definition supported_values :: "supported_response \<Rightarrow> u32 list" where
  "supported_values m = (case results m of None \<Rightarrow> [] | Some vs \<Rightarrow> vs)"

definition SupportedResponse_wire :: "supported_response \<Rightarrow> byte list" where
  "SupportedResponse_wire m = le32 (of_nat (results_length m)) @ concat (List.map le32 (supported_values m))"

lemma length_concat_le32 [simp]: "length (concat (List.map le32 vs)) = 4 * length vs"
  by (induction vs) simp_all

lemma supported_length: "supported_ok m \<Longrightarrow> length (supported_values m) = results_length m"
  by (auto simp: supported_ok_def supported_values_def split: option.splits)

lemma supported_wire_length: "supported_ok m \<Longrightarrow> length (SupportedResponse_wire m) = 4 + results_length m * 4"
  by (simp add: SupportedResponse_wire_def supported_length)

lemma unat_count: "n < UINT32_MAX div 4 \<Longrightarrow> unat (of_nat n :: u32) = n"
  by (intro unat_of_nat_small) (simp add: UINT32_MAX_def)

text \<open>\<open>SetResults\<close> keeps the invariant, and stores the values unless the allocation fails.\<close>

lemma SetResults_correct:
  assumes "length arr = n" and "n < UINT32_MAX div 4"
  shows "supported_ok (SetResults code alloc arr n m) \<and>
    (alloc n \<longrightarrow> supported_values (SetResults code alloc arr n m) = arr \<and>
       error (SetResults code alloc arr n m) = KM_ERROR_OK) \<and>
    (\<not> alloc n \<longrightarrow> supported_values (SetResults code alloc arr n m) = [] \<and>
       error (SetResults code alloc arr n m) = code)"
  using assms by (auto simp: SetResults_def dup_array_def supported_ok_def supported_values_def Let_def UINT32_MAX_def)

context byte_io
begin

lemma array_no_wrap:
  assumes "count < UINT32_MAX div 4" and "4 + 4 * count \<le> w_room b" and "wbuf_ok b"
  shows "\<not> w_addr b + of_nat (count * 4) < w_addr b"
proof -
  have "unat (of_nat (count * 4) :: u64) = count * 4"
    using assms(1) by (intro unat_of_nat_small) (simp add: UINT32_MAX_def)
  then show ?thesis
    using assms(2,3) by (simp add: wbuf_ok_def word_less_nat_alt unat_word_ariths)
qed

lemma append_array_eq:
  assumes "supported_ok m" and "\<not> w_addr b + of_nat (results_length m * 4) < w_addr b"
  shows "append_uint32_array_to_buf X b (results m) (results_length m) =
    then_write (\<lambda>b. append_uint32_to_buf X b (of_nat (results_length m)))
      (\<lambda>b. append_uint32_loop X b (supported_values m)) b"
  using assms by (auto simp: append_uint32_array_to_buf_def supported_ok_def supported_values_def
      then_write_def Let_def split: option.splits)

lemma array_image_writes:
  "writes (then_write (\<lambda>b. append_uint32_to_buf X b v) (\<lambda>b. append_uint32_loop X b vs))
     (le32 v @ concat (List.map le32 vs))"
  by (intro writes_seq append_uint32_writes append_uint32_loop_writes)

lemma supported_writes:
  assumes "supported_ok m"
  shows "writes (SupportedResponse_NonErrorSerialize X m) (SupportedResponse_wire m)"
  unfolding writes_def
proof (intro allI impI)
  fix b
  assume room: "length (SupportedResponse_wire m) \<le> w_room b" and ok: "wbuf_ok b"
  have "4 + 4 * results_length m \<le> w_room b"
    using room supported_length [OF assms] by (simp add: SupportedResponse_wire_def)
  moreover have "results_length m < UINT32_MAX div 4" using assms by (simp add: supported_ok_def)
  ultimately have "\<not> w_addr b + of_nat (results_length m * 4) < w_addr b"
    using ok by (intro array_no_wrap)
  from append_array_eq [OF assms this] writesD [OF array_image_writes, OF _ ok] room
  show "SupportedResponse_NonErrorSerialize X m b = w_adv b (SupportedResponse_wire m)"
    by (simp add: SupportedResponse_NonErrorSerialize_def SupportedResponse_wire_def)
qed

lemma supported_bounded:
  assumes "supported_ok m"
  shows "bounded (SupportedResponse_NonErrorSerialize X m)"
  unfolding bounded_def
proof
  fix b
  show "\<exists>e. SupportedResponse_NonErrorSerialize X m b = w_adv b e \<and> length e \<le> w_room b"
  proof (cases "w_addr b + of_nat (results_length m * 4) < w_addr b")
    case True
    then show ?thesis
      by (intro exI [of _ "[]"]) (simp add: SupportedResponse_NonErrorSerialize_def append_uint32_array_to_buf_def)
  next
    case False
    have "bounded (then_write (\<lambda>b. append_uint32_to_buf X b (of_nat (results_length m)))
        (\<lambda>b. append_uint32_loop X b (supported_values m)))"
      by (intro bounded_seq append_uint32_bounded append_uint32_loop_bounded)
    with append_array_eq [OF assms False] show ?thesis
      by (simp add: SupportedResponse_NonErrorSerialize_def bounded_def)
  qed
qed

lemma copy_uint32_loop_rcur:
  "copy_uint32_loop X (rcur a (concat (List.map le32 vs) @ rest) f) (length vs) acc =
     (True, acc @ vs, rcur (a + of_nat (4 * length vs)) rest f)"
  by (induction vs arbitrary: a acc) (simp_all add: algebra_simps)

lemma copy_uint32_loop_in_bounds:
  "\<exists>k \<le> length (r_bytes r). snd (snd (copy_uint32_loop X r n acc)) = r_adv k r"
proof (induction n arbitrary: r acc)
  case 0
  show ?case by (intro exI [of _ 0]) simp
next
  case (Suc n)
  obtain res r1 where 1: "copy_uint32_from_buf X r = (res, r1)" by fastforce
  with copy_uint32_in_bounds [of r] obtain k where k: "k \<le> length (r_bytes r)" "r1 = r_adv k r" by auto
  show ?case
  proof (cases res)
    case None
    with 1 k show ?thesis by auto
  next
    case (Some v)
    obtain j where "j \<le> length (r_bytes r1)" "snd (snd (copy_uint32_loop X r1 n (acc @ [v]))) = r_adv j r1"
      using Suc by blast
    with 1 k Some show ?thesis by (intro exI [of _ "k + j"]) simp
  qed
qed

text \<open>The check of the announced count against what is left in the buffer.\<close>

lemma array_check:
  fixes a :: u64
  assumes "unat a + m < 2 ^ 64" and "unat a + 4 * count < 2 ^ 64"
  shows "a + of_nat (count * 4) < a \<or> a + of_nat (count * 4) > a + of_nat m \<longleftrightarrow> m < 4 * count"
proof -
  have "unat (a + of_nat (count * 4)) = unat a + count * 4" "unat (a + of_nat m) = unat a + m"
    using assms by (simp_all add: unat_word_ariths unat_of_nat)
  then show ?thesis by (auto simp: word_less_nat_alt)
qed

lemma copy_array_enough:
  assumes "length vs < UINT32_MAX div 4" and "alloc (length vs)"
    and "unat a + 4 + 4 * length vs + length rest < 2 ^ 64"
  shows "copy_uint32_array_from_buf X alloc c0 (rcur a (le32 (of_nat (length vs)) @ concat (List.map le32 vs) @ rest) f) =
         (True, Some vs, length vs, rcur (a + of_nat (4 + 4 * length vs)) rest f)"
proof -
  have a4: "unat (a + 4) = unat a + 4"
    using assms(3) by (simp add: unat_word_ariths)
  have "\<not> (a + 4 + of_nat (length vs * 4) < a + 4 \<or>
      a + 4 + of_nat (length vs * 4) > a + 4 + of_nat (length (concat (List.map le32 vs) @ rest)))"
    using assms(3) a4 by (subst array_check) simp_all
  with assms show ?thesis
    by (simp add: copy_uint32_array_from_buf_def Let_def unat_count copy_uint32_loop_rcur ac_simps)
qed

lemma copy_array_short:
  assumes "unat a + 4 + length bs < 2 ^ 64" and "unat a + 4 + 4 * unat c < 2 ^ 64" and "length bs < 4 * unat c"
  shows "copy_uint32_array_from_buf X alloc c0 (rcur a (le32 c @ bs) f) = (False, None, unat c, rcur (a + 4) bs f)"
proof -
  have a4: "unat (a + 4) = unat a + 4"
    using assms(1) by (simp add: unat_word_ariths)
  have "a + 4 + of_nat (unat c * 4) < a + 4 \<or> a + 4 + of_nat (unat c * 4) > a + 4 + of_nat (length bs)"
    using assms a4 by (subst array_check) simp_all
  then show ?thesis
    by (simp add: copy_uint32_array_from_buf_def Let_def)
qed

lemma copy_array_in_bounds:
  "\<exists>k \<le> length (r_bytes r). snd (snd (snd (copy_uint32_array_from_buf X alloc c0 r))) = r_adv k r"
proof -
  obtain res r1 where 1: "copy_uint32_from_buf X r = (res, r1)" by fastforce
  with copy_uint32_in_bounds [of r] obtain k where k: "k \<le> length (r_bytes r)" "r1 = r_adv k r" by auto
  show ?thesis
  proof (cases "\<exists>c. snd (snd (snd (copy_uint32_array_from_buf X alloc c0 r))) = snd (snd (copy_uint32_loop X r1 c []))")
    case True
    then obtain c where c: "snd (snd (snd (copy_uint32_array_from_buf X alloc c0 r))) = snd (snd (copy_uint32_loop X r1 c []))" ..
    obtain j where "j \<le> length (r_bytes r1)" "snd (snd (copy_uint32_loop X r1 c [])) = r_adv j r1"
      using copy_uint32_loop_in_bounds by blast
    with c k show ?thesis by (intro exI [of _ "k + j"]) simp
  next
    case False
    have "snd (snd (snd (copy_uint32_array_from_buf X alloc c0 r))) = r1"
    proof (cases res)
      case None
      then show ?thesis by (simp add: 1 copy_uint32_array_from_buf_def)
    next
      case (Some c)
      obtain ok vs r2 where "copy_uint32_loop X r1 (unat c) [] = (ok, vs, r2)" by (metis prod_cases3)
      moreover from this False have "snd (snd (snd (copy_uint32_array_from_buf X alloc c0 r))) \<noteq> r2"
        by (metis snd_conv)
      ultimately show ?thesis
        using Some by (auto simp: 1 copy_uint32_array_from_buf_def Let_def)
    qed
    with k show ?thesis by auto
  qed
qed

lemma supported_parses:
  assumes "supported_ok m"
  shows "parses (SupportedResponse_NonErrorDeserialize X (\<lambda>_. True)) (SupportedResponse_wire m)
    (\<lambda>old. old\<lparr>results := Some (supported_values m), results_length := results_length m\<rparr>)"
  unfolding parses_def
proof (intro conjI allI impI)
  have n: "length (supported_values m) = results_length m" "results_length m < UINT32_MAX div 4"
    using assms supported_length by (simp_all add: supported_ok_def)
  fix old :: supported_response and a f
  {
    fix rest
    assume "unat (a :: u64) + length (SupportedResponse_wire m) + length (rest :: byte list) < 2 ^ 64"
    then show "SupportedResponse_NonErrorDeserialize X (\<lambda>_. True) (old, rcur a (SupportedResponse_wire m @ rest) f) =
      (True, old\<lparr>results := Some (supported_values m), results_length := results_length m\<rparr>,
       rcur (a + of_nat (length (SupportedResponse_wire m))) rest f)"
      using copy_array_enough [of "supported_values m" "\<lambda>_. True" a rest "results_length old" f] n
      by (simp add: SupportedResponse_NonErrorDeserialize_def SupportedResponse_wire_def)
  next
    fix q
    assume a: "unat (a :: u64) + length (SupportedResponse_wire m) < 2 ^ 64"
      and "strict_prefix q (SupportedResponse_wire m)"
    from this(2) show "\<not> fst (SupportedResponse_NonErrorDeserialize X (\<lambda>_. True) (old, rcur a q f))"
      unfolding SupportedResponse_wire_def
    proof (cases rule: strict_prefix_append_cases)
      case 1
      then have "length q < 4" using strict_prefix_le by fastforce
      then obtain r' where "copy_uint32_from_buf X (rcur a q f) = (None, r')"
        using copy_uint32_short [of "rcur a q f"] by auto
      then show ?thesis
        by (simp add: SupportedResponse_NonErrorDeserialize_def copy_uint32_array_from_buf_def Let_def)
    next
      case (2 q')
      have "length q' < 4 * results_length m" using strict_prefix_le [OF 2(2)] n by simp
      with a n have "copy_uint32_array_from_buf X (\<lambda>_. True) (results_length old) (rcur a q f) =
          (False, None, results_length m, rcur (a + 4) q' f)"
        using copy_array_short [of a q' "of_nat (results_length m)"] 2(1)
        by (simp add: unat_count SupportedResponse_wire_def)
      then show ?thesis by (simp add: SupportedResponse_NonErrorDeserialize_def Let_def)
    qed
  }
qed

lemma supported_guarded: "guarded (SupportedResponse_NonErrorDeserialize X alloc)"
  unfolding guarded_def
proof (intro allI impI)
  fix old r
  show "\<exists>k \<le> length (r_bytes r). snd (snd (SupportedResponse_NonErrorDeserialize X alloc (old, r))) = r_adv k r"
    using copy_array_in_bounds [of r alloc "results_length old"]
    by (auto simp: SupportedResponse_NonErrorDeserialize_def Let_def split: prod.splits)
qed

end

sublocale byte_io \<subseteq> SupportedResponse: sized_serializable "SupportedResponse_NonErrorSerialize X"
    "SupportedResponse_NonErrorDeserialize X (\<lambda>_. True)" SupportedResponse_wire supported_ok
    "\<lambda>old m. old\<lparr>results := Some (supported_values m), results_length := results_length m\<rparr>"
    SupportedResponse_NonErrorSerializedSize
  by unfold_locales (simp_all add: supported_writes supported_bounded supported_parses supported_guarded
      SupportedResponse_NonErrorSerializedSize_def supported_wire_length)

section \<open>What the contracts give for single messages\<close>

context field_codec
begin

lemmas km3_round_trip = SetAttestationIdsKM3Request.sized_round_trip
lemmas locked_truncated = DeviceLockedRequest.des_wire
lemmas verify_response_round_trip = VerifyAuthorizationResponse.sized_round_trip

end

context two_codecs
begin

lemmas verify_request_round_trip = VerifyAuthorizationRequest.sized_round_trip

end

context byte_io_coll
begin

lemmas hw_info_round_trip = GetHwInfoResponse.sized_round_trip
lemmas hw_info_truncated = GetHwInfoResponse.truncated
lemmas boot_info_reads = ConfigureVerifiedBootInfoRequest.des_wire

end

text \<open>The readers stay inside the buffer under either reading of the comment of the bounds check.\<close>

context byte_io_guarded
begin

lemma hw_info_guarded: "guarded (GetHwInfoResponse_NonErrorDeserialize X)"
  unfolding GetHwInfoResponse_NonErrorDeserialize_def by (intro wire_rules)

lemma boot_info_guarded: "guarded (ConfigureVerifiedBootInfoRequest_Deserialize X)"
  unfolding ConfigureVerifiedBootInfoRequest_Deserialize_def by (intro wire_rules)

lemma rot_request_guarded: "guarded (GetRootOfTrustRequest_Deserialize X)"
  unfolding GetRootOfTrustRequest_Deserialize_def by (intro wire_rules)

lemma rot_response_guarded: "guarded (GetRootOfTrustResponse_NonErrorDeserialize X)"
  unfolding GetRootOfTrustResponse_NonErrorDeserialize_def by (intro wire_rules)

end

context field_codec
begin

text \<open>
  The writer of the identifiers: a buffer of the announced size is filled exactly, and into any other
  buffer, however small, it writes no more than there is room for.
\<close>

lemma km3_written:
  assumes "ids_wf (km3_base m) \<and> fwf (km3_second_imei m)"
    and "unat a + SetAttestationIdsKM3Request_SerializedSize C m < 2 ^ 64"
  shows "\<not> w_fault (SetAttestationIdsKM3Request_Serialize C m (wcur a (SetAttestationIdsKM3Request_SerializedSize C m)))
    \<and> length (w_out (SetAttestationIdsKM3Request_Serialize C m (wcur a (SetAttestationIdsKM3Request_SerializedSize C m)))) =
      SetAttestationIdsKM3Request_SerializedSize C m"
  using SetAttestationIdsKM3Request.size_exact [OF assms] SetAttestationIdsKM3Request.size_wire [OF assms(1)] by simp

lemma km3_stays_inside:
  assumes "ids_wf (km3_base m) \<and> fwf (km3_second_imei m)"
  shows "w_fault (SetAttestationIdsKM3Request_Serialize C m b) = w_fault b
    \<and> length (w_out (SetAttestationIdsKM3Request_Serialize C m b)) \<le> length (w_out b) + w_room b"
  by (rule bounded_no_fault [OF SetAttestationIdsKM3Request.ser_bounded [OF assms]])

end

section \<open>Properties\<close>

text \<open>C1 The identifiers of \<open>SetAttestationIdsKM3Request\<close> survive the trip: written into a buffer of the
  announced size, which they fill exactly, they are read back one by one and the buffer is used up. Neither the
  writer nor the reader leaves the buffer: no store or load raises the access flag, and into a buffer of any
  other size the writer puts no more than there is room for. The class \<open>Buffer\<close> is any one that keeps the
  contract of \<open>Serializable\<close>.\<close>

theorem attestation_ids_round_trip:
  assumes "field_codec X E C fwire fwf frecv"
    and "\<forall>x \<in> {id_brand (km3_base m), id_device (km3_base m), id_product (km3_base m), id_serial (km3_base m),
      id_imei (km3_base m), id_meid (km3_base m), id_manufacturer (km3_base m), id_model (km3_base m),
      km3_second_imei m}. fwf x"
    and "unat a + SetAttestationIdsKM3Request_SerializedSize C m < 2 ^ 64"
    and "written = SetAttestationIdsKM3Request_Serialize C m (wcur a (SetAttestationIdsKM3Request_SerializedSize C m))"
  shows "\<not> w_fault written \<and> length (w_out written) = SetAttestationIdsKM3Request_SerializedSize C m
    \<and> (\<forall>b. w_fault (SetAttestationIdsKM3Request_Serialize C m b) = w_fault b
         \<and> length (w_out (SetAttestationIdsKM3Request_Serialize C m b)) \<le> length (w_out b) + w_room b)
    \<and> (\<exists>m'. SetAttestationIdsKM3Request_Deserialize C (old, rcur a (w_out written) False) =
          (True, m', rcur (a + of_nat (SetAttestationIdsKM3Request_SerializedSize C m)) [] False)
        \<and> id_brand (km3_base m') = frecv (id_brand (km3_base old)) (id_brand (km3_base m))
        \<and> id_device (km3_base m') = frecv (id_device (km3_base old)) (id_device (km3_base m))
        \<and> id_product (km3_base m') = frecv (id_product (km3_base old)) (id_product (km3_base m))
        \<and> id_serial (km3_base m') = frecv (id_serial (km3_base old)) (id_serial (km3_base m))
        \<and> id_imei (km3_base m') = frecv (id_imei (km3_base old)) (id_imei (km3_base m))
        \<and> id_meid (km3_base m') = frecv (id_meid (km3_base old)) (id_meid (km3_base m))
        \<and> id_manufacturer (km3_base m') = frecv (id_manufacturer (km3_base old)) (id_manufacturer (km3_base m))
        \<and> id_model (km3_base m') = frecv (id_model (km3_base old)) (id_model (km3_base m))
        \<and> km3_second_imei m' = frecv (km3_second_imei old) (km3_second_imei m))"
proof (intro conjI allI)
  note wf = field_codec.km3_stays_inside [OF assms(1), of m] field_codec.km3_written [OF assms(1) _ assms(3)]
  show "\<not> w_fault written" "length (w_out written) = SetAttestationIdsKM3Request_SerializedSize C m"
    using wf(2) assms(2) unfolding assms(4) by simp_all
  fix b
  show "w_fault (SetAttestationIdsKM3Request_Serialize C m b) = w_fault b"
    "length (w_out (SetAttestationIdsKM3Request_Serialize C m b)) \<le> length (w_out b) + w_room b"
    using wf(1) assms(2) by simp_all
qed (subst assms(4), subst field_codec.km3_round_trip [OF assms(1)], use assms(2,3) in simp_all)

definition sample_blob :: "byte list \<Rightarrow> blob" where
  "sample_blob d = \<lparr>blob_data = Some d, blob_size = length d\<rparr>"

definition sample_ids :: "blob set_attestation_ids_km3_request" where
  "sample_ids = \<lparr>message_version = 4, km3_base = \<lparr>message_version = 4, id_brand = sample_blob [1],
     id_device = sample_blob [2, 3], id_product = sample_blob [4], id_serial = sample_blob [5],
     id_imei = sample_blob [6], id_meid = sample_blob [7], id_manufacturer = sample_blob [8],
     id_model = sample_blob [9]\<rparr>, km3_second_imei = sample_blob [10, 11]\<rparr>"

lemma sample_blob_wf [simp]: "length d < 2 ^ 32 \<Longrightarrow> blob_wf (sample_blob d)"
  by (simp add: blob_wf_def blob_ok_def sample_blob_def)

lemma sample_ids_size: "SetAttestationIdsKM3Request_SerializedSize (blob_codec doc_io) sample_ids = 47"
  by (simp add: SetAttestationIdsKM3Request_SerializedSize_def SetAttestationIdsRequest_SerializedSize_def
      blob_codec_def blob_SerializedSize_def sample_ids_def sample_blob_def)

lemma attestation_ids_round_trip_witness:
  "\<not> w_fault (SetAttestationIdsKM3Request_Serialize (blob_codec doc_io) sample_ids (wcur 4096 47))
    \<and> length (w_out (SetAttestationIdsKM3Request_Serialize (blob_codec doc_io) sample_ids (wcur 4096 47))) = 47
    \<and> \<not> w_fault (SetAttestationIdsKM3Request_Serialize (blob_codec doc_io) sample_ids (wcur 4096 20))
    \<and> (\<exists>m'. SetAttestationIdsKM3Request_Deserialize (blob_codec doc_io)
      (sample_ids, rcur 4096 (w_out (SetAttestationIdsKM3Request_Serialize (blob_codec doc_io) sample_ids
         (wcur 4096 47))) False) = (True, m', rcur 4143 [] False)
    \<and> id_device (km3_base m') = sample_blob [2, 3] \<and> km3_second_imei m' = sample_blob [10, 11])"
proof -
  have "blob_recv None b (sample_blob (c # d)) = sample_blob (c # d)" for b c d
    by (simp add: blob_recv_def sample_blob_def)
  then show ?thesis
    using attestation_ids_round_trip [OF blobs.field_codec_axioms _ _ refl, of sample_ids 4096 sample_ids,
        unfolded sample_ids_size]
    by (simp add: sample_ids_def) blast
qed

text \<open>C8 No input makes the readers of data whose length is in the buffer leave it: for the four messages with
  collections, \<open>GetHwInfoResponse\<close>, \<open>ConfigureVerifiedBootInfoRequest\<close>, \<open>GetRootOfTrustRequest\<close> and
  \<open>GetRootOfTrustResponse\<close>, and the one with an array, \<open>SupportedResponse\<close>, the cursor only moves forward
  inside the bytes that were handed over, and the access flag stays as it was, on every byte sequence. It
  is enough that \<open>__buffer_bound_check\<close> accepts no block that ends beyond \<open>end\<close>.\<close>

theorem collection_readers_in_bounds:
  assumes "byte_io_guarded X E" and "rbuf_ok r"
  shows "(\<exists>k \<le> length (r_bytes r). snd (snd (GetHwInfoResponse_NonErrorDeserialize X (h, r))) = r_adv k r)
    \<and> (\<exists>k \<le> length (r_bytes r). snd (snd (ConfigureVerifiedBootInfoRequest_Deserialize X (v, r))) = r_adv k r)
    \<and> (\<exists>k \<le> length (r_bytes r). snd (snd (GetRootOfTrustRequest_Deserialize X (q, r))) = r_adv k r)
    \<and> (\<exists>k \<le> length (r_bytes r). snd (snd (GetRootOfTrustResponse_NonErrorDeserialize X (t, r))) = r_adv k r)
    \<and> (\<exists>k \<le> length (r_bytes r). snd (snd (SupportedResponse_NonErrorDeserialize X alloc (p, r))) = r_adv k r)"
  using assms(2) byte_io_guarded.hw_info_guarded [OF assms(1)] byte_io_guarded.boot_info_guarded [OF assms(1)]
    byte_io_guarded.rot_request_guarded [OF assms(1)] byte_io_guarded.rot_response_guarded [OF assms(1)]
    byte_io.supported_guarded [OF byte_io_guarded.axioms(1) [OF assms(1)]]
  unfolding guarded_def by blast

definition sample_hw_info :: get_hw_info_response where
  "sample_hw_info = \<lparr>message_version = 4, error = 0, hw_version = 3, rpcAuthorName = [], supportedEekCurve = 2,
     uniqueId = [], supportedNumKeysInCsr = 20\<rparr>"

lemma collection_readers_in_bounds_witness:
  "(\<exists>k \<le> 6. snd (snd (GetRootOfTrustResponse_NonErrorDeserialize doc_io
        (\<lparr>message_version = 4, error = 0, rootOfTrust = []\<rparr>, rcur 4096 [3, 0, 0, 0, 7, 8] False)))
      = r_adv k (rcur 4096 [3, 0, 0, 0, 7, 8] False))
   \<and> (\<exists>k \<le> 2. snd (snd (GetHwInfoResponse_NonErrorDeserialize strict_io (sample_hw_info, rcur 4096 [255, 255] False)))
      = r_adv k (rcur 4096 [255, 255] False))"
proof -
  have ok: "rbuf_ok (rcur 4096 [3, 0, 0, 0, 7, 8] False)" "rbuf_ok (rcur 4096 [255, 255] False)"
    by (simp_all add: rbuf_ok_def)
  have len: "length (r_bytes (rcur 4096 [3, 0, 0, 0, 7, 8] False)) = 6" "length (r_bytes (rcur 4096 [255, 255] False)) = 2"
    by simp_all
  show ?thesis
    using collection_readers_in_bounds [OF doc.byte_io_guarded_axioms ok(1)]
      collection_readers_in_bounds [OF strict.byte_io_guarded_axioms ok(2)] unfolding len by blast
qed



text \<open>C10 \<open>DeviceLockedRequest\<close> cannot be sent through a buffer of the size it announces: the token
  does not fit, and the receiver refuses what arrives.\<close>

theorem device_locked_size_too_small:
  assumes "field_codec X E C fwire fwf frecv" and "fwf (dl_token m)" and "fwire (dl_token m) \<noteq> []"
    and "unat a + 1 + length (fwire (dl_token m)) < 2 ^ 64"
  shows "\<not> fst (DeviceLockedRequest_Deserialize C
      (old, rcur a (w_out (DeviceLockedRequest_Serialize C m (wcur a (DeviceLockedRequest_SerializedSize m)))) False))"
proof -
  let ?flag = "[if passwordOnly m then 1 else 0] :: byte list"
  have ser: "bounded (c_ser C (dl_token m))"
    using assms(1,2) by (metis field_codec.field_rules(4))
  have flag: "(if w_room (wcur a 1) > 0 then w_store (wcur a 1) (if passwordOnly m then 1 else 0) else wcur a 1)
      = w_adv (wcur a 1) ?flag"
    by (simp add: w_store_def)
  obtain e where "c_ser C (dl_token m) (w_adv (wcur a 1) ?flag) = w_adv (w_adv (wcur a 1) ?flag) e"
      "length e \<le> w_room (w_adv (wcur a 1) ?flag)"
    using ser unfolding bounded_def by blast
  with flag have out: "w_out (DeviceLockedRequest_Serialize C m (wcur a (DeviceLockedRequest_SerializedSize m))) = ?flag"
    by (simp add: DeviceLockedRequest_Serialize_def then_write_def DeviceLockedRequest_SerializedSize_def)
  have "strict_prefix ?flag (?flag @ fwire (dl_token m))"
    using assms(3) by (simp add: strict_prefix_def)
  with assms(4) show ?thesis unfolding out
    by (intro parses_cut [OF field_codec.locked_truncated [OF assms(1,2)]]) simp_all
qed

lemma device_locked_size_too_small_witness:
  "\<not> fst (DeviceLockedRequest_Deserialize (blob_codec doc_io)
      (\<lparr>message_version = 4, passwordOnly = False, dl_token = empty_blob\<rparr>,
       rcur 4096 (w_out (DeviceLockedRequest_Serialize (blob_codec doc_io)
         \<lparr>message_version = 4, passwordOnly = True, dl_token = sample_blob [1]\<rparr> (wcur 4096 1))) False))"
  using device_locked_size_too_small [OF blobs.field_codec_axioms,
      of "\<lparr>message_version = 4, passwordOnly = True, dl_token = sample_blob [1]\<rparr>" 4096]
  by (simp add: DeviceLockedRequest_SerializedSize_def blob_wire_def sample_blob_def [of "[1]", simplified]
      blob_bytes_def blob_wf_def blob_ok_def)

text \<open>C11 A \<open>SupportedResponse\<close> whose payload announces more values than it carries is refused without
  any read outside the buffer; but the object keeps the announced count with a null array, and
  writing it out afterwards goes through the null pointer.\<close>

theorem supported_response_refused_then_written:
  assumes "byte_io X E" and "0 < c" and "unat c < UINT32_MAX div 4" and "length bs < 4 * unat c"
    and "unat a + 4 + 4 * unat c < 2 ^ 64" and "wbuf_ok b" and "4 + 4 * unat c \<le> w_room b"
  shows "\<exists>m' r'. SupportedResponse_NonErrorDeserialize X alloc (m, rcur a (le32 c @ bs) False) = (False, m', r')
    \<and> \<not> r_fault r' \<and> results m' = None \<and> results_length m' = unat c
    \<and> w_fault (SupportedResponse_NonErrorSerialize X m' b)"
proof -
  have "copy_uint32_array_from_buf X alloc c0 (rcur a (le32 c @ bs) False) =
      (False, None, unat c, rcur (a + 4) bs False)" for c0
    using assms by (intro byte_io.copy_array_short) simp_all
  moreover have "\<not> w_addr b + of_nat (unat c * 4) < w_addr b"
    using assms by (intro byte_io.array_no_wrap [OF assms(1)]) simp_all
  moreover have "unat c \<noteq> 0" using assms(2) by (simp add: unat_eq_0)
  ultimately show ?thesis
    using assms(3) by (simp add: SupportedResponse_NonErrorDeserialize_def SupportedResponse_NonErrorSerialize_def
        append_uint32_array_to_buf_def Let_def)
qed

lemma supported_response_refused_then_written_witness:
  "\<exists>m' r'. SupportedResponse_NonErrorDeserialize doc_io (\<lambda>_. True)
      (\<lparr>message_version = 1, error = 0, results = None, results_length = 0\<rparr>, rcur 4096 (le32 2 @ [1]) False) = (False, m', r')
    \<and> w_fault (SupportedResponse_NonErrorSerialize doc_io m' (wcur 4096 100))"
  using supported_response_refused_then_written [OF doc.byte_io_axioms, of 2 "[1]" 4096 "wcur 4096 100" "\<lambda>_. True"
      "\<lparr>message_version = 1, error = 0, results = None, results_length = 0\<rparr>"]
  by (force simp: UINT32_MAX_def wbuf_ok_def)

text \<open>With \<open>__buffer_bound_check\<close> as its comment has it (the end of the block strictly below the end
  of the buffer), no root of trust challenge could be read from the buffer it was written to.\<close>

theorem strict_bound_check_refuses:
  assumes "byte_io X E" and "\<forall>r n. rbuf_ok r \<longrightarrow> (buffer_bound_check X r n \<longleftrightarrow> n < length (r_bytes r))"
    and "length (rot_challenge m) < 2 ^ 32" and "unat a + GetRootOfTrustRequest_SerializedSize m < 2 ^ 64"
  shows "\<not> fst (GetRootOfTrustRequest_Deserialize X (old, rcur a (w_out (GetRootOfTrustRequest_Serialize X m
      (wcur a (GetRootOfTrustRequest_SerializedSize m)))) False))"
proof -
  let ?v = "rot_challenge m"
  have n: "unat (of_nat (length ?v) :: u32) = length ?v"
    using assms(3) by (intro unat_of_nat_small) simp
  have size: "GetRootOfTrustRequest_SerializedSize m = 4 + length ?v"
    by (simp add: GetRootOfTrustRequest_SerializedSize_def)
  then have "unat (a + 4) = unat a + 4" using assms(4) by (simp add: unat_word_ariths)
  then have "rbuf_ok (rcur (a + 4) ?v False)" using assms(4) size by (simp add: rbuf_ok_def)
  with assms(2) have no: "\<not> buffer_bound_check X (rcur (a + 4) ?v False) (length ?v)" by simp
  have "GetRootOfTrustRequest_Serialize X m (wcur a (4 + length ?v)) =
      w_adv (wcur a (4 + length ?v)) (le32 (of_nat (length ?v)) @ ?v)"
    using assms(4) size unfolding GetRootOfTrustRequest_Serialize_def
    by (intro writesD [OF byte_io.append_collection_writes [OF assms(1,3)]]) (simp_all add: wbuf_ok_def)
  then have out: "w_out (GetRootOfTrustRequest_Serialize X m (wcur a (GetRootOfTrustRequest_SerializedSize m))) =
      le32 (of_nat (length ?v)) @ ?v"
    by (simp add: size)
  show ?thesis unfolding out
    using no n by (simp add: GetRootOfTrustRequest_Deserialize_def rd_coll_def copy_collection_from_buf_def
        byte_io.copy_uint32_rcur [OF assms(1)])
qed

lemma strict_bound_check_refuses_witness:
  "\<not> fst (GetRootOfTrustRequest_Deserialize strict_io (\<lparr>message_version = 4, rot_challenge = []\<rparr>,
      rcur 4096 (w_out (GetRootOfTrustRequest_Serialize strict_io \<lparr>message_version = 4, rot_challenge = [1, 2]\<rparr>
        (wcur 4096 6))) False))"
  using strict_bound_check_refuses [OF strict_io_byte_io, of "\<lparr>message_version = 4, rot_challenge = [1, 2]\<rparr>" 4096]
  by (simp add: GetRootOfTrustRequest_SerializedSize_def strict_io_def)

text \<open>Every version of the enumeration has a message version from 1 to \<open>kMaxMessageVersion\<close>, later
  versions never a smaller one, and exactly for the other numbers the constructor of a message of the
  version \<open>MessageVersion\<close> gives fails its assertion.\<close>

theorem message_version_correct:
  "1 \<le> MessageVersion (KmVersion_val v) \<and> MessageVersion (KmVersion_val v) \<le> kMaxMessageVersion
   \<and> (KmVersion_val v \<le> KmVersion_val w \<longrightarrow> MessageVersion (KmVersion_val v) \<le> MessageVersion (KmVersion_val w))
   \<and> (KeymasterMessage (MessageVersion n) = None \<longleftrightarrow> n \<notin> range KmVersion_val)"
  using MessageVersion_supported MessageVersion_mono no_message_of_unknown_version by blast

lemma message_version_correct_witness:
  "MessageVersion (KmVersion_val KEYMASTER_4) \<le> MessageVersion (KmVersion_val KEYMINT_1)
   \<and> KeymasterMessage (MessageVersion 12) = None"
  using message_version_correct [of KEYMASTER_4 KEYMINT_1 12]
  by (simp add: MessageVersion_def KeymasterMessage_def kInvalidMessageVersion_def)

end
