(* ===== verification/MsgData.thy ===== *)
theory MsgData
  imports MsgTypes
begin

text \<open>
  The messages of \<open>keymaster/android_keymaster_messages.h\<close> whose serialization is in \<open>.cpp\<close> files: their
  data, their constructors and destructors. \<open>'a\<close> stands for the class \<open>AuthorizationSet\<close>, whose default
  constructor gives \<open>empty_set\<close>. Members that a constructor leaves without a value are taken from the
  argument \<open>raw\<close>, the memory of the object. A destructor gives the buffers that it frees.
\<close>

section \<open>Owned key material\<close>

text \<open>\<open>SetKeyMaterial(const keymaster_key_blob_t&)\<close> calls the overload of the \<open>.cpp\<close> file.\<close>

definition SetKeyMaterial_blob :: "(byte list option \<Rightarrow> nat \<Rightarrow> 'm \<Rightarrow> 'm) \<Rightarrow> blob \<Rightarrow> 'm \<Rightarrow> 'm" where
  "SetKeyMaterial_blob set_key_material b m = set_key_material (blob_data b) (blob_size b) m"

text \<open>\<open>delete[] key_blob.key_material\<close>: the buffer is freed as it is.\<close>

definition delete_key_material :: "blob \<Rightarrow> byte list option" where
  "delete_key_material b = blob_data b"

section \<open>The messages\<close>

record 'a generate_key_request = keymaster_message +
  gk_key_description :: 'a
  gk_attestation_signing_key_blob :: blob
  gk_attest_key_params :: 'a
  gk_issuer_subject :: blob

definition GenerateKeyRequest :: "'a \<Rightarrow> int \<Rightarrow> 'a generate_key_request option" where
  "GenerateKeyRequest empty_set ver =
     map_option (\<lambda>m. \<lparr>message_version = message_version m, gk_key_description = empty_set,
        gk_attestation_signing_key_blob = empty_blob, gk_attest_key_params = empty_set,
        gk_issuer_subject = empty_blob\<rparr>)
       (KeymasterMessage ver)"

record 'a generate_key_response = keymaster_response +
  gkr_key_blob :: blob
  gkr_enforced :: 'a
  gkr_unenforced :: 'a
  gkr_certificate_chain :: cert_chain

definition GenerateKeyResponse :: "'a \<Rightarrow> u32 \<Rightarrow> int \<Rightarrow> 'a generate_key_response option" where
  "GenerateKeyResponse empty_set unknown_error ver =
     map_option (\<lambda>m. \<lparr>message_version = message_version m, error = error m,
        gkr_key_blob = empty_blob, gkr_enforced = empty_set, gkr_unenforced = empty_set,
        gkr_certificate_chain = empty_chain\<rparr>)
       (KeymasterResponse unknown_error ver)"

record generate_rkp_key_response = keymaster_response +
  rkpr_key_blob :: blob
  rkpr_maced_public_key :: blob

definition GenerateRkpKeyResponse :: "u32 \<Rightarrow> int \<Rightarrow> generate_rkp_key_response option" where
  "GenerateRkpKeyResponse unknown_error ver =
     map_option (\<lambda>m. \<lparr>message_version = message_version m, error = error m,
        rkpr_key_blob = empty_blob, rkpr_maced_public_key = empty_blob\<rparr>)
       (KeymasterResponse unknown_error ver)"

record generate_csr_request = keymaster_message +
  csr_test_mode :: bool
  csr_num_keys :: nat
  csr_keys_to_sign_array :: "blob list option"
  csr_endpoint_enc_cert_chain :: blob
  csr_challenge :: blob

definition GenerateCsrRequest :: "int \<Rightarrow> generate_csr_request option" where
  "GenerateCsrRequest ver =
     map_option (\<lambda>m. \<lparr>message_version = message_version m, csr_test_mode = False,
        csr_num_keys = 0, csr_keys_to_sign_array = None, csr_endpoint_enc_cert_chain = empty_blob,
        csr_challenge = empty_blob\<rparr>)
       (KeymasterMessage ver)"

definition GenerateCsrRequest_destroy :: "generate_csr_request \<Rightarrow> byte list option list" where
  "GenerateCsrRequest_destroy m = (case csr_keys_to_sign_array m of None \<Rightarrow> [] | Some bs \<Rightarrow> List.map (\<lambda>b. snd (blob_Clear b)) bs)"

record generate_csr_response = keymaster_response +
  csrr_keys_to_sign_mac :: blob
  csrr_device_info_blob :: blob
  csrr_protected_data_blob :: blob

definition GenerateCsrResponse :: "u32 \<Rightarrow> int \<Rightarrow> generate_csr_response option" where
  "GenerateCsrResponse unknown_error ver =
     map_option (\<lambda>m. \<lparr>message_version = message_version m, error = error m,
        csrr_keys_to_sign_mac = empty_blob, csrr_device_info_blob = empty_blob,
        csrr_protected_data_blob = empty_blob\<rparr>)
       (KeymasterResponse unknown_error ver)"

record generate_csr_v2_request = keymaster_message +
  csr2_num_keys :: u32
  csr2_keys_to_sign_array :: "blob list option"
  csr2_challenge :: blob

definition GenerateCsrV2Request :: "int \<Rightarrow> generate_csr_v2_request option" where
  "GenerateCsrV2Request ver =
     map_option (\<lambda>m. \<lparr>message_version = message_version m, csr2_num_keys = 0,
        csr2_keys_to_sign_array = None, csr2_challenge = empty_blob\<rparr>)
       (KeymasterMessage ver)"

definition GenerateCsrV2Request_destroy :: "generate_csr_v2_request \<Rightarrow> byte list option list" where
  "GenerateCsrV2Request_destroy m = (case csr2_keys_to_sign_array m of None \<Rightarrow> [] | Some bs \<Rightarrow> List.map (\<lambda>b. snd (blob_Clear b)) bs)"

record generate_csr_v2_response = keymaster_response +
  csr2r_csr :: blob

definition GenerateCsrV2Response :: "u32 \<Rightarrow> int \<Rightarrow> generate_csr_v2_response option" where
  "GenerateCsrV2Response unknown_error ver =
     map_option (\<lambda>m. \<lparr>message_version = message_version m, error = error m,
        csr2r_csr = empty_blob\<rparr>)
       (KeymasterResponse unknown_error ver)"

record 'a get_key_characteristics_request = keymaster_message +
  gkc_key_blob :: blob
  gkc_additional_params :: 'a

definition GetKeyCharacteristicsRequest :: "'a \<Rightarrow> int \<Rightarrow> 'a get_key_characteristics_request option" where
  "GetKeyCharacteristicsRequest empty_set ver =
     map_option (\<lambda>m. \<lparr>message_version = message_version m, gkc_key_blob = empty_blob,
        gkc_additional_params = empty_set\<rparr>)
       (KeymasterMessage ver)"

record 'a get_key_characteristics_response = keymaster_response +
  gkcr_enforced :: 'a
  gkcr_unenforced :: 'a

definition GetKeyCharacteristicsResponse :: "'a \<Rightarrow> u32 \<Rightarrow> int \<Rightarrow> 'a get_key_characteristics_response option" where
  "GetKeyCharacteristicsResponse empty_set unknown_error ver =
     map_option (\<lambda>m. \<lparr>message_version = message_version m, error = error m,
        gkcr_enforced = empty_set, gkcr_unenforced = empty_set\<rparr>)
       (KeymasterResponse unknown_error ver)"

record 'a begin_operation_request = keymaster_message +
  bo_purpose :: u32
  bo_key_blob :: blob
  bo_additional_params :: 'a

definition BeginOperationRequest :: "'a \<Rightarrow> 'a begin_operation_request \<Rightarrow> int \<Rightarrow> 'a begin_operation_request option" where
  "BeginOperationRequest empty_set raw ver =
     map_option (\<lambda>m. \<lparr>message_version = message_version m, bo_purpose = bo_purpose raw,
        bo_key_blob = empty_blob, bo_additional_params = empty_set\<rparr>)
       (KeymasterMessage ver)"

definition BeginOperationRequest_destroy :: "'a begin_operation_request \<Rightarrow> byte list option" where
  "BeginOperationRequest_destroy m = delete_key_material (bo_key_blob m)"

record 'a begin_operation_response = keymaster_response +
  bor_op_handle :: u64
  bor_output_params :: 'a

definition BeginOperationResponse :: "'a \<Rightarrow> u32 \<Rightarrow> 'a begin_operation_response \<Rightarrow> int \<Rightarrow> 'a begin_operation_response option" where
  "BeginOperationResponse empty_set unknown_error raw ver =
     map_option (\<lambda>m. \<lparr>message_version = message_version m, error = error m,
        bor_op_handle = bor_op_handle raw, bor_output_params = empty_set\<rparr>)
       (KeymasterResponse unknown_error ver)"

record 'a update_operation_request = keymaster_message +
  uo_op_handle :: u64
  uo_input :: buffer
  uo_additional_params :: 'a

definition UpdateOperationRequest :: "'a \<Rightarrow> 'a update_operation_request \<Rightarrow> int \<Rightarrow> 'a update_operation_request option" where
  "UpdateOperationRequest empty_set raw ver =
     map_option (\<lambda>m. \<lparr>message_version = message_version m, uo_op_handle = uo_op_handle raw,
        uo_input = empty_buffer, uo_additional_params = empty_set\<rparr>)
       (KeymasterMessage ver)"

record 'a update_operation_response = keymaster_response +
  uor_output :: buffer
  uor_input_consumed :: nat
  uor_output_params :: 'a

definition UpdateOperationResponse :: "'a \<Rightarrow> u32 \<Rightarrow> int \<Rightarrow> 'a update_operation_response option" where
  "UpdateOperationResponse empty_set unknown_error ver =
     map_option (\<lambda>m. \<lparr>message_version = message_version m, error = error m,
        uor_output = empty_buffer, uor_input_consumed = 0, uor_output_params = empty_set\<rparr>)
       (KeymasterResponse unknown_error ver)"

record 'a finish_operation_request = keymaster_message +
  fo_op_handle :: u64
  fo_input :: buffer
  fo_signature :: buffer
  fo_additional_params :: 'a

definition FinishOperationRequest :: "'a \<Rightarrow> 'a finish_operation_request \<Rightarrow> int \<Rightarrow> 'a finish_operation_request option" where
  "FinishOperationRequest empty_set raw ver =
     map_option (\<lambda>m. \<lparr>message_version = message_version m, fo_op_handle = fo_op_handle raw,
        fo_input = empty_buffer, fo_signature = empty_buffer, fo_additional_params = empty_set\<rparr>)
       (KeymasterMessage ver)"

record 'a finish_operation_response = keymaster_response +
  for_output :: buffer
  for_output_params :: 'a

definition FinishOperationResponse :: "'a \<Rightarrow> u32 \<Rightarrow> int \<Rightarrow> 'a finish_operation_response option" where
  "FinishOperationResponse empty_set unknown_error ver =
     map_option (\<lambda>m. \<lparr>message_version = message_version m, error = error m,
        for_output = empty_buffer, for_output_params = empty_set\<rparr>)
       (KeymasterResponse unknown_error ver)"

record add_entropy_request = keymaster_message +
  ae_random_data :: buffer

definition AddEntropyRequest :: "int \<Rightarrow> add_entropy_request option" where
  "AddEntropyRequest ver =
     map_option (\<lambda>m. \<lparr>message_version = message_version m,
        ae_random_data = empty_buffer\<rparr>)
       (KeymasterMessage ver)"

record 'a import_key_request = keymaster_message +
  ik_key_description :: 'a
  ik_key_format :: u32
  ik_key_data :: blob
  ik_attestation_signing_key_blob :: blob
  ik_attest_key_params :: 'a
  ik_issuer_subject :: blob

definition ImportKeyRequest :: "'a \<Rightarrow> 'a import_key_request \<Rightarrow> int \<Rightarrow> 'a import_key_request option" where
  "ImportKeyRequest empty_set raw ver =
     map_option (\<lambda>m. \<lparr>message_version = message_version m, ik_key_description = empty_set,
        ik_key_format = ik_key_format raw, ik_key_data = empty_blob,
        ik_attestation_signing_key_blob = empty_blob, ik_attest_key_params = empty_set,
        ik_issuer_subject = empty_blob\<rparr>)
       (KeymasterMessage ver)"

record 'a import_key_response = keymaster_response +
  ikr_key_blob :: blob
  ikr_enforced :: 'a
  ikr_unenforced :: 'a
  ikr_certificate_chain :: cert_chain

definition ImportKeyResponse :: "'a \<Rightarrow> u32 \<Rightarrow> int \<Rightarrow> 'a import_key_response option" where
  "ImportKeyResponse empty_set unknown_error ver =
     map_option (\<lambda>m. \<lparr>message_version = message_version m, error = error m,
        ikr_key_blob = empty_blob, ikr_enforced = empty_set, ikr_unenforced = empty_set,
        ikr_certificate_chain = empty_chain\<rparr>)
       (KeymasterResponse unknown_error ver)"

record 'a export_key_request = keymaster_message +
  ek_additional_params :: 'a
  ek_key_format :: u32
  ek_key_blob :: blob

definition ExportKeyRequest :: "'a \<Rightarrow> 'a export_key_request \<Rightarrow> int \<Rightarrow> 'a export_key_request option" where
  "ExportKeyRequest empty_set raw ver =
     map_option (\<lambda>m. \<lparr>message_version = message_version m, ek_additional_params = empty_set,
        ek_key_format = ek_key_format raw, ek_key_blob = empty_blob\<rparr>)
       (KeymasterMessage ver)"

definition ExportKeyRequest_destroy :: "'a export_key_request \<Rightarrow> byte list option" where
  "ExportKeyRequest_destroy m = delete_key_material (ek_key_blob m)"

record export_key_response = keymaster_response +
  ekr_key_data :: "byte list option"
  ekr_key_data_length :: nat

definition ExportKeyResponse :: "u32 \<Rightarrow> export_key_response \<Rightarrow> int \<Rightarrow> export_key_response option" where
  "ExportKeyResponse unknown_error raw ver =
     map_option (\<lambda>m. \<lparr>message_version = message_version m, error = error m,
        ekr_key_data = None, ekr_key_data_length = ekr_key_data_length raw\<rparr>)
       (KeymasterResponse unknown_error ver)"

definition ExportKeyResponse_destroy :: "export_key_response \<Rightarrow> byte list option" where
  "ExportKeyResponse_destroy m = ekr_key_data m"

record delete_key_request = keymaster_message +
  dk_key_blob :: blob

definition DeleteKeyRequest :: "int \<Rightarrow> delete_key_request option" where
  "DeleteKeyRequest ver =
     map_option (\<lambda>m. \<lparr>message_version = message_version m, dk_key_blob = empty_blob\<rparr>)
       (KeymasterMessage ver)"

definition DeleteKeyRequest_destroy :: "delete_key_request \<Rightarrow> byte list option" where
  "DeleteKeyRequest_destroy m = delete_key_material (dk_key_blob m)"

record get_version_response = keymaster_response +
  gv_major_ver :: byte
  gv_minor_ver :: byte
  gv_subminor_ver :: byte

definition GetVersionResponse :: "u32 \<Rightarrow> u32 \<Rightarrow> get_version_response option" where
  "GetVersionResponse unknown_error ver =
     map_option (\<lambda>m. \<lparr>message_version = message_version m, error = error m,
        gv_major_ver = 0, gv_minor_ver = 0, gv_subminor_ver = 0\<rparr>)
       (KeymasterResponse unknown_error 0)"

record 'a attest_key_request = keymaster_message +
  ak_key_blob :: blob
  ak_attest_params :: 'a

definition AttestKeyRequest :: "'a \<Rightarrow> int \<Rightarrow> 'a attest_key_request option" where
  "AttestKeyRequest empty_set ver =
     map_option (\<lambda>m. \<lparr>message_version = message_version m, ak_key_blob = empty_blob,
        ak_attest_params = empty_set\<rparr>)
       (KeymasterMessage ver)"

record attest_key_response = keymaster_response +
  akr_certificate_chain :: cert_chain

definition AttestKeyResponse :: "u32 \<Rightarrow> int \<Rightarrow> attest_key_response option" where
  "AttestKeyResponse unknown_error ver =
     map_option (\<lambda>m. \<lparr>message_version = message_version m, error = error m,
        akr_certificate_chain = empty_chain\<rparr>)
       (KeymasterResponse unknown_error ver)"

record 'a upgrade_key_request = keymaster_message +
  uk_key_blob :: blob
  uk_upgrade_params :: 'a

definition UpgradeKeyRequest :: "'a \<Rightarrow> int \<Rightarrow> 'a upgrade_key_request option" where
  "UpgradeKeyRequest empty_set ver =
     map_option (\<lambda>m. \<lparr>message_version = message_version m, uk_key_blob = empty_blob,
        uk_upgrade_params = empty_set\<rparr>)
       (KeymasterMessage ver)"

record upgrade_key_response = keymaster_response +
  ukr_upgraded_key :: blob

definition UpgradeKeyResponse :: "u32 \<Rightarrow> int \<Rightarrow> upgrade_key_response option" where
  "UpgradeKeyResponse unknown_error ver =
     map_option (\<lambda>m. \<lparr>message_version = message_version m, error = error m,
        ukr_upgraded_key = empty_blob\<rparr>)
       (KeymasterResponse unknown_error ver)"

record 'a import_wrapped_key_request = keymaster_message +
  iw_wrapped_key :: blob
  iw_wrapping_key :: blob
  iw_masking_key :: blob
  iw_additional_params :: 'a
  iw_password_sid :: u64
  iw_biometric_sid :: u64

definition ImportWrappedKeyRequest :: "'a \<Rightarrow> 'a import_wrapped_key_request \<Rightarrow> int \<Rightarrow> 'a import_wrapped_key_request option" where
  "ImportWrappedKeyRequest empty_set raw ver =
     map_option (\<lambda>m. \<lparr>message_version = message_version m, iw_wrapped_key = empty_blob,
        iw_wrapping_key = empty_blob, iw_masking_key = empty_blob, iw_additional_params = empty_set,
        iw_password_sid = iw_password_sid raw, iw_biometric_sid = iw_biometric_sid raw\<rparr>)
       (KeymasterMessage ver)"

record 'a import_wrapped_key_response = keymaster_response +
  iwr_key_blob :: blob
  iwr_enforced :: 'a
  iwr_unenforced :: 'a
  iwr_certificate_chain :: cert_chain

definition ImportWrappedKeyResponse :: "'a \<Rightarrow> u32 \<Rightarrow> int \<Rightarrow> 'a import_wrapped_key_response option" where
  "ImportWrappedKeyResponse empty_set unknown_error ver =
     map_option (\<lambda>m. \<lparr>message_version = message_version m, error = error m,
        iwr_key_blob = empty_blob, iwr_enforced = empty_set, iwr_unenforced = empty_set,
        iwr_certificate_chain = empty_chain\<rparr>)
       (KeymasterResponse unknown_error ver)"

text \<open>\<open>SetKeyMaterial\<close> of \<open>ImportWrappedKeyRequest\<close> sets the wrapped key and then the wrapping key.\<close>

definition ImportWrappedKeyRequest_SetKeyMaterial ::
    "(byte list option \<Rightarrow> nat \<Rightarrow> 'm \<Rightarrow> 'm) \<Rightarrow> (byte list option \<Rightarrow> nat \<Rightarrow> 'm \<Rightarrow> 'm) \<Rightarrow> blob \<Rightarrow> blob \<Rightarrow> 'm \<Rightarrow> 'm" where
  "ImportWrappedKeyRequest_SetKeyMaterial set_wrapped set_wrapping wrapped wrapping m =
     set_wrapping (blob_data wrapping) (blob_size wrapping) (set_wrapped (blob_data wrapped) (blob_size wrapped) m)"

section \<open>Destructors that wipe\<close>

text \<open>The blobs of a certificate signing request are wiped when the request goes, whatever they held.\<close>

lemma GenerateCsrRequest_destroy_wipes:
  "csr_keys_to_sign_array m = Some bs \<Longrightarrow> list_all blob_ok bs \<Longrightarrow> Some d \<in> set (GenerateCsrRequest_destroy m) \<Longrightarrow>
     \<forall>c \<in> set d. c = 0"
  by (auto simp: GenerateCsrRequest_destroy_def list_all_iff Clear_wipes dest!: sym [of "Some d"])

end
