(* ===== verification/MsgCtors.thy ===== *)
theory MsgCtors
  imports MsgResponses MsgData
begin

text \<open>
  The constructors of the messages of \<open>keymaster/android_keymaster_messages.h\<close> whose serialization is in the
  header (those of the others are in \<open>MsgData\<close>). A constructor gives \<open>None\<close> when the assertion of the base
  class on the version fails. Members without an initialiser are taken from the argument \<open>raw\<close>, the memory of
  the object; \<open>fresh\<close> is the default-constructed value of a member whose class has its constructor elsewhere.
\<close>

named_theorems message_ctors

section \<open>Messages without a payload\<close>

definition EmptyKeymasterRequest :: "int \<Rightarrow> keymaster_message option" where [message_ctors]:
  "EmptyKeymasterRequest ver =
     KeymasterMessage ver"

definition SupportedAlgorithmsRequest :: "int \<Rightarrow> keymaster_message option" where [message_ctors]:
  "SupportedAlgorithmsRequest ver =
     KeymasterMessage ver"

definition DeleteAllKeysRequest :: "int \<Rightarrow> keymaster_message option" where [message_ctors]:
  "DeleteAllKeysRequest ver =
     EmptyKeymasterRequest ver"

definition DestroyAttestationIdsRequest :: "int \<Rightarrow> keymaster_message option" where [message_ctors]:
  "DestroyAttestationIdsRequest ver =
     EmptyKeymasterRequest ver"

definition GetHmacSharingParametersRequest :: "int \<Rightarrow> keymaster_message option" where [message_ctors]:
  "GetHmacSharingParametersRequest ver =
     EmptyKeymasterRequest ver"

definition EarlyBootEndedRequest :: "int \<Rightarrow> keymaster_message option" where [message_ctors]:
  "EarlyBootEndedRequest ver =
     EmptyKeymasterRequest ver"

definition GetHwInfoRequest :: "int \<Rightarrow> keymaster_message option" where [message_ctors]:
  "GetHwInfoRequest ver =
     EmptyKeymasterRequest ver"

text \<open>The version argument of \<open>GetVersionRequest\<close> is ignored.\<close>

definition GetVersionRequest :: "u32 \<Rightarrow> keymaster_message option" where [message_ctors]:
  "GetVersionRequest ver =
     EmptyKeymasterRequest 0"

definition EmptyKeymasterResponse :: "u32 \<Rightarrow> int \<Rightarrow> keymaster_response option" where [message_ctors]:
  "EmptyKeymasterResponse unknown_error ver =
     KeymasterResponse unknown_error ver"

definition EarlyBootEndedResponse :: "u32 \<Rightarrow> int \<Rightarrow> keymaster_response option" where [message_ctors]:
  "EarlyBootEndedResponse unknown_error ver =
     KeymasterResponse unknown_error ver"

definition DeviceLockedResponse :: "u32 \<Rightarrow> int \<Rightarrow> keymaster_response option" where [message_ctors]:
  "DeviceLockedResponse unknown_error ver =
     KeymasterResponse unknown_error ver"

section \<open>Requests of Keymaster 1\<close>

definition SupportedByAlgorithmRequest :: "supported_by_algorithm_request \<Rightarrow> int \<Rightarrow> supported_by_algorithm_request option" where [message_ctors]:
  "SupportedByAlgorithmRequest raw ver =
     map_option (\<lambda>m. raw\<lparr>message_version := message_version m\<rparr>)
       (KeymasterMessage ver)"

definition SupportedImportFormatsRequest :: "supported_by_algorithm_request \<Rightarrow> int \<Rightarrow> supported_by_algorithm_request option" where [message_ctors]:
  "SupportedImportFormatsRequest raw ver =
     SupportedByAlgorithmRequest raw ver"

definition SupportedExportFormatsRequest :: "supported_by_algorithm_request \<Rightarrow> int \<Rightarrow> supported_by_algorithm_request option" where [message_ctors]:
  "SupportedExportFormatsRequest raw ver =
     SupportedByAlgorithmRequest raw ver"

definition SupportedByAlgorithmAndPurposeRequest :: "supported_by_algorithm_and_purpose_request \<Rightarrow> int \<Rightarrow> supported_by_algorithm_and_purpose_request option" where [message_ctors]:
  "SupportedByAlgorithmAndPurposeRequest raw ver =
     map_option (\<lambda>m. raw\<lparr>message_version := message_version m\<rparr>)
       (KeymasterMessage ver)"

definition SupportedBlockModesRequest :: "supported_by_algorithm_and_purpose_request \<Rightarrow> int \<Rightarrow> supported_by_algorithm_and_purpose_request option" where [message_ctors]:
  "SupportedBlockModesRequest raw ver =
     SupportedByAlgorithmAndPurposeRequest raw ver"

definition SupportedPaddingModesRequest :: "supported_by_algorithm_and_purpose_request \<Rightarrow> int \<Rightarrow> supported_by_algorithm_and_purpose_request option" where [message_ctors]:
  "SupportedPaddingModesRequest raw ver =
     SupportedByAlgorithmAndPurposeRequest raw ver"

definition SupportedDigestsRequest :: "supported_by_algorithm_and_purpose_request \<Rightarrow> int \<Rightarrow> supported_by_algorithm_and_purpose_request option" where [message_ctors]:
  "SupportedDigestsRequest raw ver =
     SupportedByAlgorithmAndPurposeRequest raw ver"

text \<open>The responses are instances of one template; an enumeration is sent as its number.\<close>

definition SupportedAlgorithmsResponse :: "u32 \<Rightarrow> int \<Rightarrow> supported_response option" where [message_ctors]:
  "SupportedAlgorithmsResponse unknown_error ver =
     SupportedResponse unknown_error ver"

definition SupportedBlockModesResponse :: "u32 \<Rightarrow> int \<Rightarrow> supported_response option" where [message_ctors]:
  "SupportedBlockModesResponse unknown_error ver =
     SupportedResponse unknown_error ver"

definition SupportedPaddingModesResponse :: "u32 \<Rightarrow> int \<Rightarrow> supported_response option" where [message_ctors]:
  "SupportedPaddingModesResponse unknown_error ver =
     SupportedResponse unknown_error ver"

definition SupportedDigestsResponse :: "u32 \<Rightarrow> int \<Rightarrow> supported_response option" where [message_ctors]:
  "SupportedDigestsResponse unknown_error ver =
     SupportedResponse unknown_error ver"

definition SupportedImportFormatsResponse :: "u32 \<Rightarrow> int \<Rightarrow> supported_response option" where [message_ctors]:
  "SupportedImportFormatsResponse unknown_error ver =
     SupportedResponse unknown_error ver"

definition SupportedExportFormatsResponse :: "u32 \<Rightarrow> int \<Rightarrow> supported_response option" where [message_ctors]:
  "SupportedExportFormatsResponse unknown_error ver =
     SupportedResponse unknown_error ver"

section \<open>Requests with a payload\<close>

definition GenerateRkpKeyRequest :: "int \<Rightarrow> generate_rkp_key_request option" where [message_ctors]:
  "GenerateRkpKeyRequest ver =
     map_option (\<lambda>m. \<lparr>message_version = message_version m, rkp_test_mode = 0\<rparr>)
       (KeymasterMessage ver)"

definition AbortOperationRequest :: "abort_operation_request \<Rightarrow> int \<Rightarrow> abort_operation_request option" where [message_ctors]:
  "AbortOperationRequest raw ver =
     map_option (\<lambda>m. raw\<lparr>message_version := message_version m\<rparr>)
       (KeymasterMessage ver)"

definition ConfigureRequest :: "configure_request \<Rightarrow> int \<Rightarrow> configure_request option" where [message_ctors]:
  "ConfigureRequest raw ver =
     map_option (\<lambda>m. raw\<lparr>message_version := message_version m\<rparr>)
       (KeymasterMessage ver)"

definition GenerateTimestampTokenRequest :: "int \<Rightarrow> generate_timestamp_token_request option" where [message_ctors]:
  "GenerateTimestampTokenRequest ver =
     map_option (\<lambda>m. \<lparr>message_version = message_version m, gtt_challenge = 0\<rparr>)
       (KeymasterMessage ver)"

definition ConfigureVendorPatchlevelRequest :: "int \<Rightarrow> configure_vendor_patchlevel_request option" where [message_ctors]:
  "ConfigureVendorPatchlevelRequest ver =
     map_option (\<lambda>m. \<lparr>message_version = message_version m, vendor_patchlevel = 0\<rparr>)
       (KeymasterMessage ver)"

definition ConfigureBootPatchlevelRequest :: "int \<Rightarrow> configure_boot_patchlevel_request option" where [message_ctors]:
  "ConfigureBootPatchlevelRequest ver =
     map_option (\<lambda>m. \<lparr>message_version = message_version m, boot_patchlevel = 0\<rparr>)
       (KeymasterMessage ver)"

definition ConfigureVerifiedBootInfoRequest_full :: "int \<Rightarrow> byte list \<Rightarrow> byte list \<Rightarrow> byte list \<Rightarrow> configure_verified_boot_info_request option" where [message_ctors]:
  "ConfigureVerifiedBootInfoRequest_full ver boot_state_param bootloader_state_param vbmeta_digest_param =
     map_option (\<lambda>m. \<lparr>message_version = message_version m, boot_state = boot_state_param,
        bootloader_state = bootloader_state_param, vbmeta_digest = vbmeta_digest_param\<rparr>)
       (KeymasterMessage ver)"

definition ConfigureVerifiedBootInfoRequest :: "int \<Rightarrow> configure_verified_boot_info_request option" where [message_ctors]:
  "ConfigureVerifiedBootInfoRequest ver =
     ConfigureVerifiedBootInfoRequest_full ver [] [] []"

definition GetRootOfTrustRequest_full :: "int \<Rightarrow> byte list \<Rightarrow> get_root_of_trust_request option" where [message_ctors]:
  "GetRootOfTrustRequest_full ver challenge_param =
     map_option (\<lambda>m. \<lparr>message_version = message_version m, rot_challenge = challenge_param\<rparr>)
       (KeymasterMessage ver)"

definition GetRootOfTrustRequest :: "int \<Rightarrow> get_root_of_trust_request option" where [message_ctors]:
  "GetRootOfTrustRequest ver =
     GetRootOfTrustRequest_full ver []"

definition SetAttestationIdsRequest :: "'f \<Rightarrow> int \<Rightarrow> 'f set_attestation_ids_request option" where [message_ctors]:
  "SetAttestationIdsRequest fresh ver =
     map_option (\<lambda>m. \<lparr>message_version = message_version m, id_brand = fresh, id_device = fresh, id_product = fresh, id_serial = fresh,
        id_imei = fresh, id_meid = fresh, id_manufacturer = fresh, id_model = fresh\<rparr>)
       (KeymasterMessage ver)"

text \<open>The base object of the second version of the request is constructed with the same message version.\<close>

definition SetAttestationIdsKM3Request :: "'f \<Rightarrow> int \<Rightarrow> 'f set_attestation_ids_km3_request option" where [message_ctors]:
  "SetAttestationIdsKM3Request fresh ver =
     Option.bind (KeymasterMessage ver) (\<lambda>m.
        map_option (\<lambda>b. \<lparr>message_version = message_version m, km3_base = b, km3_second_imei = fresh\<rparr>)
          (SetAttestationIdsRequest fresh ver))"

definition ComputeSharedHmacRequest :: "'f \<Rightarrow> int \<Rightarrow> 'f compute_shared_hmac_request option" where [message_ctors]:
  "ComputeSharedHmacRequest fresh ver =
     map_option (\<lambda>m. \<lparr>message_version = message_version m, shared_params_array = fresh\<rparr>)
       (KeymasterMessage ver)"

definition VerifyAuthorizationRequest :: "'f \<Rightarrow> 'g \<Rightarrow> int \<Rightarrow> ('f, 'g) verify_authorization_request option" where [message_ctors]:
  "VerifyAuthorizationRequest fresh_set fresh_token ver =
     map_option (\<lambda>m. \<lparr>message_version = message_version m, va_challenge = 0,
        va_parameters_to_verify = fresh_set, va_auth_token = fresh_token\<rparr>)
       (KeymasterMessage ver)"

definition DeviceLockedRequest :: "'f \<Rightarrow> 'f device_locked_request \<Rightarrow> int \<Rightarrow> 'f device_locked_request option" where [message_ctors]:
  "DeviceLockedRequest fresh raw ver =
     map_option (\<lambda>m. raw\<lparr>message_version := message_version m, dl_token := fresh\<rparr>)
       (KeymasterMessage ver)"

text \<open>The token is moved into the message; \<open>move\<close> gives the new object and what is left of the old one.\<close>

definition DeviceLockedRequest_full :: "('f \<Rightarrow> 'f \<times> 'f) \<Rightarrow> int \<Rightarrow> bool \<Rightarrow> 'f \<Rightarrow> ('f device_locked_request \<times> 'f) option" where [message_ctors]:
  "DeviceLockedRequest_full move ver password_only token =
     map_option (\<lambda>m. let (t, left) = move token
        in (\<lparr>message_version = message_version m, passwordOnly = password_only, dl_token = t\<rparr>, left))
       (KeymasterMessage ver)"

section \<open>Responses with a payload\<close>

record get_version2_response = keymaster_response +
  gv2r_max_message_version :: u32
  gv2r_km_version :: int
  gv2r_km_date :: u32

definition GetVersion2Response :: "u32 \<Rightarrow> get_version2_response \<Rightarrow> u32 \<Rightarrow> get_version2_response option" where [message_ctors]:
  "GetVersion2Response unknown_error raw ver =
     map_option (\<lambda>m. raw\<lparr>message_version := message_version m, error := error m\<rparr>)
       (KeymasterResponse unknown_error 0)"

definition GetHmacSharingParametersResponse :: "u32 \<Rightarrow> 'f \<Rightarrow> int \<Rightarrow> 'f get_hmac_sharing_parameters_response option" where [message_ctors]:
  "GetHmacSharingParametersResponse unknown_error fresh ver =
     map_option (\<lambda>m. \<lparr>message_version = message_version m, error = error m, hmac_params = fresh\<rparr>)
       (KeymasterResponse unknown_error ver)"

text \<open>\<open>SetSeed\<close> hands the seed on to the parameters, with what is left of the argument.\<close>

definition GetHmacSharingParametersResponse_SetSeed :: "blob \<Rightarrow> hmac_sharing_parameters get_hmac_sharing_parameters_response \<Rightarrow> hmac_sharing_parameters get_hmac_sharing_parameters_response \<times> blob" where [message_ctors]:
  "GetHmacSharingParametersResponse_SetSeed seed_data m =
     (let (p, left) = HmacSharingParameters_SetSeed seed_data (hmac_params m)
      in (m\<lparr>hmac_params := p\<rparr>, left))"

definition ComputeSharedHmacResponse :: "u32 \<Rightarrow> int \<Rightarrow> compute_shared_hmac_response option" where [message_ctors]:
  "ComputeSharedHmacResponse unknown_error ver =
     map_option (\<lambda>m. \<lparr>message_version = message_version m, error = error m, sharing_check = empty_blob\<rparr>)
       (KeymasterResponse unknown_error ver)"

definition VerifyAuthorizationResponse :: "u32 \<Rightarrow> 'f \<Rightarrow> int \<Rightarrow> 'f verify_authorization_response option" where [message_ctors]:
  "VerifyAuthorizationResponse unknown_error fresh ver =
     map_option (\<lambda>m. \<lparr>message_version = message_version m, error = error m, va_token = fresh\<rparr>)
       (KeymasterResponse unknown_error ver)"

definition GenerateTimestampTokenResponse :: "u32 \<Rightarrow> int \<Rightarrow> generate_timestamp_token_response option" where [message_ctors]:
  "GenerateTimestampTokenResponse unknown_error ver =
     map_option (\<lambda>m. \<lparr>message_version = message_version m, error = error m, gtt_token = TimestampToken\<rparr>)
       (KeymasterResponse unknown_error ver)"

definition GetHwInfoResponse :: "u32 \<Rightarrow> get_hw_info_response \<Rightarrow> int \<Rightarrow> get_hw_info_response option" where [message_ctors]:
  "GetHwInfoResponse unknown_error raw ver =
     map_option (\<lambda>m. raw\<lparr>message_version := message_version m, error := error m,
        rpcAuthorName := [], uniqueId := []\<rparr>)
       (KeymasterResponse unknown_error ver)"

section \<open>What a construction gives\<close>

text \<open>\<open>built c v\<close>: the constructor \<open>c\<close> gives an object exactly for a version that is not negative, and
  that object carries the version.\<close>

definition built :: "(int \<Rightarrow> ('a keymaster_message_scheme) option) \<Rightarrow> bool" where
  "built c \<longleftrightarrow> (\<forall>v. (c v \<noteq> None \<longleftrightarrow> 0 \<le> v) \<and> (\<forall>m. c v = Some m \<longrightarrow> message_version m = v))"

lemma built_message: "(\<And>m. message_version (f m) = message_version m) \<Longrightarrow>
    built (\<lambda>v. map_option f (KeymasterMessage v))"
  by (auto simp: built_def KeymasterMessage_def)

lemma built_response: "(\<And>m. message_version (f m) = message_version m) \<Longrightarrow>
    built (\<lambda>v. map_option f (KeymasterResponse u v))"
  by (auto simp: built_def KeymasterResponse_def KeymasterMessage_def)

lemma built_base: "built KeymasterMessage" "built (KeymasterResponse u)"
  by (auto simp: built_def KeymasterResponse_def KeymasterMessage_def)

lemmas built_rules = built_message built_response built_base

lemma requests_carry_version:
  "built EmptyKeymasterRequest \<and> built (AbortOperationRequest raw) \<and> built (ConfigureRequest raw')
   \<and> built GenerateRkpKeyRequest \<and> built GenerateTimestampTokenRequest
   \<and> built ConfigureVendorPatchlevelRequest \<and> built ConfigureBootPatchlevelRequest
   \<and> built ConfigureVerifiedBootInfoRequest \<and> built GetRootOfTrustRequest
   \<and> built (SetAttestationIdsRequest fresh) \<and> built (ComputeSharedHmacRequest fresh)
   \<and> built (VerifyAuthorizationRequest fresh token) \<and> built (DeviceLockedRequest fresh raw'')"
  unfolding message_ctors by (intro conjI built_rules) simp_all

lemma responses_carry_version:
  "built (EmptyKeymasterResponse u) \<and> built (SupportedAlgorithmsResponse u)
   \<and> built (GetHmacSharingParametersResponse u fresh) \<and> built (ComputeSharedHmacResponse u)
   \<and> built (VerifyAuthorizationResponse u fresh) \<and> built (GenerateTimestampTokenResponse u)
   \<and> built (GetHwInfoResponse u raw)"
  unfolding message_ctors SupportedResponse_def by (intro conjI built_rules) simp_all

text \<open>The second attestation request and its base carry the same version.\<close>

lemma km3_versions_agree:
  "SetAttestationIdsKM3Request fresh ver = Some m \<Longrightarrow>
     message_version m = ver \<and> message_version (km3_base m) = ver"
  by (auto simp: message_ctors KeymasterMessage_def bind_eq_Some_conv split: if_splits)

text \<open>The version commands are built whatever version the caller passes.\<close>

lemma version_commands_total:
  "GetVersionRequest v = Some \<lparr>message_version = 0\<rparr> \<and>
   (\<exists>m. GetVersionResponse u v = Some m \<and> message_version m = 0 \<and> error m = u) \<and>
   (\<exists>m. GetVersion2Response u raw v = Some m \<and> message_version m = 0 \<and> error m = u)"
  by (simp add: message_ctors GetVersionResponse_def KeymasterMessage_def KeymasterResponse_def)

context byte_io_coll
begin

lemmas boot_info_round_trip = ConfigureVerifiedBootInfoRequest.sized_round_trip
lemmas root_of_trust_round_trip = GetRootOfTrustResponse.sized_round_trip

end

text \<open>
  The verified boot information that a client passes to the constructor is what a receiver holds that
  read the message into an object fresh from its own constructor, at the same version.
\<close>

lemma boot_info_delivered:
  assumes "byte_io_coll X E" and "0 \<le> ver"
    and "length s < 2 ^ 32" and "length l < 2 ^ 32" and "length d < 2 ^ 32"
    and "unat a + (12 + length s + length l + length d) < 2 ^ 64"
  shows "\<exists>m old. ConfigureVerifiedBootInfoRequest_full ver s l d = Some m \<and>
    ConfigureVerifiedBootInfoRequest ver = Some old \<and>
    ConfigureVerifiedBootInfoRequest_Deserialize X (old, rcur a (w_out
       (ConfigureVerifiedBootInfoRequest_Serialize X m
          (wcur a (ConfigureVerifiedBootInfoRequest_SerializedSize m)))) False) =
    (True, m, rcur (a + of_nat (12 + length s + length l + length d)) [] False)"
proof -
  let ?m = "\<lparr>message_version = ver, boot_state = s, bootloader_state = l, vbmeta_digest = d\<rparr>"
  let ?old = "\<lparr>message_version = ver, boot_state = [], bootloader_state = [], vbmeta_digest = []\<rparr>"
  have size: "ConfigureVerifiedBootInfoRequest_SerializedSize ?m = 12 + length s + length l + length d"
    by (simp add: ConfigureVerifiedBootInfoRequest_SerializedSize_def)
  have "ConfigureVerifiedBootInfoRequest_full ver s l d = Some ?m" "ConfigureVerifiedBootInfoRequest ver = Some ?old"
    using assms(2) by (simp_all add: message_ctors KeymasterMessage_def)
  moreover have "ConfigureVerifiedBootInfoRequest_Deserialize X (?old, rcur a (w_out
       (ConfigureVerifiedBootInfoRequest_Serialize X ?m
          (wcur a (ConfigureVerifiedBootInfoRequest_SerializedSize ?m)))) False) =
      (True, ?m, rcur (a + of_nat (12 + length s + length l + length d)) [] False)"
    using byte_io_coll.boot_info_round_trip [OF assms(1), of ?m a ?old] assms(3-6) by (simp add: size)
  ultimately show ?thesis by blast
qed

end
