(* ===== verification/AidlErrors.thy ===== *)
theory AidlErrors
  imports AidlEnums
begin

text \<open>
  The enumeration \<open>ErrorCode\<close>, the error codes of the service, of the AIDL interface
  \<open>android.hardware.security.keymint\<close>, with the same parts as those of \<open>AidlEnums\<close>.
\<close>

section \<open>ErrorCode\<close>

datatype (plugins only:) ErrorCode =
    ErrorCode_OK | ErrorCode_ROOT_OF_TRUST_ALREADY_SET | ErrorCode_UNSUPPORTED_PURPOSE
  | ErrorCode_INCOMPATIBLE_PURPOSE | ErrorCode_UNSUPPORTED_ALGORITHM | ErrorCode_INCOMPATIBLE_ALGORITHM
  | ErrorCode_UNSUPPORTED_KEY_SIZE | ErrorCode_UNSUPPORTED_BLOCK_MODE | ErrorCode_INCOMPATIBLE_BLOCK_MODE
  | ErrorCode_UNSUPPORTED_MAC_LENGTH | ErrorCode_UNSUPPORTED_PADDING_MODE
  | ErrorCode_INCOMPATIBLE_PADDING_MODE | ErrorCode_UNSUPPORTED_DIGEST | ErrorCode_INCOMPATIBLE_DIGEST
  | ErrorCode_INVALID_EXPIRATION_TIME | ErrorCode_INVALID_USER_ID
  | ErrorCode_INVALID_AUTHORIZATION_TIMEOUT | ErrorCode_UNSUPPORTED_KEY_FORMAT
  | ErrorCode_INCOMPATIBLE_KEY_FORMAT | ErrorCode_UNSUPPORTED_KEY_ENCRYPTION_ALGORITHM
  | ErrorCode_UNSUPPORTED_KEY_VERIFICATION_ALGORITHM | ErrorCode_INVALID_INPUT_LENGTH
  | ErrorCode_KEY_EXPORT_OPTIONS_INVALID | ErrorCode_DELEGATION_NOT_ALLOWED | ErrorCode_KEY_NOT_YET_VALID
  | ErrorCode_KEY_EXPIRED | ErrorCode_KEY_USER_NOT_AUTHENTICATED | ErrorCode_OUTPUT_PARAMETER_NULL
  | ErrorCode_INVALID_OPERATION_HANDLE | ErrorCode_INSUFFICIENT_BUFFER_SPACE
  | ErrorCode_VERIFICATION_FAILED | ErrorCode_TOO_MANY_OPERATIONS | ErrorCode_UNEXPECTED_NULL_POINTER
  | ErrorCode_INVALID_KEY_BLOB | ErrorCode_IMPORTED_KEY_NOT_ENCRYPTED
  | ErrorCode_IMPORTED_KEY_DECRYPTION_FAILED | ErrorCode_IMPORTED_KEY_NOT_SIGNED
  | ErrorCode_IMPORTED_KEY_VERIFICATION_FAILED | ErrorCode_INVALID_ARGUMENT | ErrorCode_UNSUPPORTED_TAG
  | ErrorCode_INVALID_TAG | ErrorCode_MEMORY_ALLOCATION_FAILED | ErrorCode_IMPORT_PARAMETER_MISMATCH
  | ErrorCode_SECURE_HW_ACCESS_DENIED | ErrorCode_OPERATION_CANCELLED
  | ErrorCode_CONCURRENT_ACCESS_CONFLICT | ErrorCode_SECURE_HW_BUSY
  | ErrorCode_SECURE_HW_COMMUNICATION_FAILED | ErrorCode_UNSUPPORTED_EC_FIELD | ErrorCode_MISSING_NONCE
  | ErrorCode_INVALID_NONCE | ErrorCode_MISSING_MAC_LENGTH | ErrorCode_KEY_RATE_LIMIT_EXCEEDED
  | ErrorCode_CALLER_NONCE_PROHIBITED | ErrorCode_KEY_MAX_OPS_EXCEEDED | ErrorCode_INVALID_MAC_LENGTH
  | ErrorCode_MISSING_MIN_MAC_LENGTH | ErrorCode_UNSUPPORTED_MIN_MAC_LENGTH | ErrorCode_UNSUPPORTED_KDF
  | ErrorCode_UNSUPPORTED_EC_CURVE | ErrorCode_KEY_REQUIRES_UPGRADE
  | ErrorCode_ATTESTATION_CHALLENGE_MISSING | ErrorCode_KEYMINT_NOT_CONFIGURED
  | ErrorCode_ATTESTATION_APPLICATION_ID_MISSING | ErrorCode_CANNOT_ATTEST_IDS
  | ErrorCode_ROLLBACK_RESISTANCE_UNAVAILABLE | ErrorCode_HARDWARE_TYPE_UNAVAILABLE
  | ErrorCode_PROOF_OF_PRESENCE_REQUIRED | ErrorCode_CONCURRENT_PROOF_OF_PRESENCE_REQUESTED
  | ErrorCode_NO_USER_CONFIRMATION | ErrorCode_DEVICE_LOCKED | ErrorCode_EARLY_BOOT_ENDED
  | ErrorCode_ATTESTATION_KEYS_NOT_PROVISIONED | ErrorCode_ATTESTATION_IDS_NOT_PROVISIONED
  | ErrorCode_INVALID_OPERATION | ErrorCode_STORAGE_KEY_UNSUPPORTED | ErrorCode_INCOMPATIBLE_MGF_DIGEST
  | ErrorCode_UNSUPPORTED_MGF_DIGEST | ErrorCode_MISSING_NOT_BEFORE | ErrorCode_MISSING_NOT_AFTER
  | ErrorCode_MISSING_ISSUER_SUBJECT | ErrorCode_INVALID_ISSUER_SUBJECT | ErrorCode_BOOT_LEVEL_EXCEEDED
  | ErrorCode_HARDWARE_NOT_YET_AVAILABLE | ErrorCode_UNIMPLEMENTED | ErrorCode_VERSION_MISMATCH
  | ErrorCode_UNKNOWN_ERROR

primrec ErrorCode_val :: "ErrorCode \<Rightarrow> int" where
  "ErrorCode_val ErrorCode_OK = 0"
| "ErrorCode_val ErrorCode_ROOT_OF_TRUST_ALREADY_SET = - 1"
| "ErrorCode_val ErrorCode_UNSUPPORTED_PURPOSE = - 2"
| "ErrorCode_val ErrorCode_INCOMPATIBLE_PURPOSE = - 3"
| "ErrorCode_val ErrorCode_UNSUPPORTED_ALGORITHM = - 4"
| "ErrorCode_val ErrorCode_INCOMPATIBLE_ALGORITHM = - 5"
| "ErrorCode_val ErrorCode_UNSUPPORTED_KEY_SIZE = - 6"
| "ErrorCode_val ErrorCode_UNSUPPORTED_BLOCK_MODE = - 7"
| "ErrorCode_val ErrorCode_INCOMPATIBLE_BLOCK_MODE = - 8"
| "ErrorCode_val ErrorCode_UNSUPPORTED_MAC_LENGTH = - 9"
| "ErrorCode_val ErrorCode_UNSUPPORTED_PADDING_MODE = - 10"
| "ErrorCode_val ErrorCode_INCOMPATIBLE_PADDING_MODE = - 11"
| "ErrorCode_val ErrorCode_UNSUPPORTED_DIGEST = - 12"
| "ErrorCode_val ErrorCode_INCOMPATIBLE_DIGEST = - 13"
| "ErrorCode_val ErrorCode_INVALID_EXPIRATION_TIME = - 14"
| "ErrorCode_val ErrorCode_INVALID_USER_ID = - 15"
| "ErrorCode_val ErrorCode_INVALID_AUTHORIZATION_TIMEOUT = - 16"
| "ErrorCode_val ErrorCode_UNSUPPORTED_KEY_FORMAT = - 17"
| "ErrorCode_val ErrorCode_INCOMPATIBLE_KEY_FORMAT = - 18"
| "ErrorCode_val ErrorCode_UNSUPPORTED_KEY_ENCRYPTION_ALGORITHM = - 19"
| "ErrorCode_val ErrorCode_UNSUPPORTED_KEY_VERIFICATION_ALGORITHM = - 20"
| "ErrorCode_val ErrorCode_INVALID_INPUT_LENGTH = - 21"
| "ErrorCode_val ErrorCode_KEY_EXPORT_OPTIONS_INVALID = - 22"
| "ErrorCode_val ErrorCode_DELEGATION_NOT_ALLOWED = - 23"
| "ErrorCode_val ErrorCode_KEY_NOT_YET_VALID = - 24"
| "ErrorCode_val ErrorCode_KEY_EXPIRED = - 25"
| "ErrorCode_val ErrorCode_KEY_USER_NOT_AUTHENTICATED = - 26"
| "ErrorCode_val ErrorCode_OUTPUT_PARAMETER_NULL = - 27"
| "ErrorCode_val ErrorCode_INVALID_OPERATION_HANDLE = - 28"
| "ErrorCode_val ErrorCode_INSUFFICIENT_BUFFER_SPACE = - 29"
| "ErrorCode_val ErrorCode_VERIFICATION_FAILED = - 30"
| "ErrorCode_val ErrorCode_TOO_MANY_OPERATIONS = - 31"
| "ErrorCode_val ErrorCode_UNEXPECTED_NULL_POINTER = - 32"
| "ErrorCode_val ErrorCode_INVALID_KEY_BLOB = - 33"
| "ErrorCode_val ErrorCode_IMPORTED_KEY_NOT_ENCRYPTED = - 34"
| "ErrorCode_val ErrorCode_IMPORTED_KEY_DECRYPTION_FAILED = - 35"
| "ErrorCode_val ErrorCode_IMPORTED_KEY_NOT_SIGNED = - 36"
| "ErrorCode_val ErrorCode_IMPORTED_KEY_VERIFICATION_FAILED = - 37"
| "ErrorCode_val ErrorCode_INVALID_ARGUMENT = - 38"
| "ErrorCode_val ErrorCode_UNSUPPORTED_TAG = - 39"
| "ErrorCode_val ErrorCode_INVALID_TAG = - 40"
| "ErrorCode_val ErrorCode_MEMORY_ALLOCATION_FAILED = - 41"
| "ErrorCode_val ErrorCode_IMPORT_PARAMETER_MISMATCH = - 44"
| "ErrorCode_val ErrorCode_SECURE_HW_ACCESS_DENIED = - 45"
| "ErrorCode_val ErrorCode_OPERATION_CANCELLED = - 46"
| "ErrorCode_val ErrorCode_CONCURRENT_ACCESS_CONFLICT = - 47"
| "ErrorCode_val ErrorCode_SECURE_HW_BUSY = - 48"
| "ErrorCode_val ErrorCode_SECURE_HW_COMMUNICATION_FAILED = - 49"
| "ErrorCode_val ErrorCode_UNSUPPORTED_EC_FIELD = - 50"
| "ErrorCode_val ErrorCode_MISSING_NONCE = - 51"
| "ErrorCode_val ErrorCode_INVALID_NONCE = - 52"
| "ErrorCode_val ErrorCode_MISSING_MAC_LENGTH = - 53"
| "ErrorCode_val ErrorCode_KEY_RATE_LIMIT_EXCEEDED = - 54"
| "ErrorCode_val ErrorCode_CALLER_NONCE_PROHIBITED = - 55"
| "ErrorCode_val ErrorCode_KEY_MAX_OPS_EXCEEDED = - 56"
| "ErrorCode_val ErrorCode_INVALID_MAC_LENGTH = - 57"
| "ErrorCode_val ErrorCode_MISSING_MIN_MAC_LENGTH = - 58"
| "ErrorCode_val ErrorCode_UNSUPPORTED_MIN_MAC_LENGTH = - 59"
| "ErrorCode_val ErrorCode_UNSUPPORTED_KDF = - 60"
| "ErrorCode_val ErrorCode_UNSUPPORTED_EC_CURVE = - 61"
| "ErrorCode_val ErrorCode_KEY_REQUIRES_UPGRADE = - 62"
| "ErrorCode_val ErrorCode_ATTESTATION_CHALLENGE_MISSING = - 63"
| "ErrorCode_val ErrorCode_KEYMINT_NOT_CONFIGURED = - 64"
| "ErrorCode_val ErrorCode_ATTESTATION_APPLICATION_ID_MISSING = - 65"
| "ErrorCode_val ErrorCode_CANNOT_ATTEST_IDS = - 66"
| "ErrorCode_val ErrorCode_ROLLBACK_RESISTANCE_UNAVAILABLE = - 67"
| "ErrorCode_val ErrorCode_HARDWARE_TYPE_UNAVAILABLE = - 68"
| "ErrorCode_val ErrorCode_PROOF_OF_PRESENCE_REQUIRED = - 69"
| "ErrorCode_val ErrorCode_CONCURRENT_PROOF_OF_PRESENCE_REQUESTED = - 70"
| "ErrorCode_val ErrorCode_NO_USER_CONFIRMATION = - 71"
| "ErrorCode_val ErrorCode_DEVICE_LOCKED = - 72"
| "ErrorCode_val ErrorCode_EARLY_BOOT_ENDED = - 73"
| "ErrorCode_val ErrorCode_ATTESTATION_KEYS_NOT_PROVISIONED = - 74"
| "ErrorCode_val ErrorCode_ATTESTATION_IDS_NOT_PROVISIONED = - 75"
| "ErrorCode_val ErrorCode_INVALID_OPERATION = - 76"
| "ErrorCode_val ErrorCode_STORAGE_KEY_UNSUPPORTED = - 77"
| "ErrorCode_val ErrorCode_INCOMPATIBLE_MGF_DIGEST = - 78"
| "ErrorCode_val ErrorCode_UNSUPPORTED_MGF_DIGEST = - 79"
| "ErrorCode_val ErrorCode_MISSING_NOT_BEFORE = - 80"
| "ErrorCode_val ErrorCode_MISSING_NOT_AFTER = - 81"
| "ErrorCode_val ErrorCode_MISSING_ISSUER_SUBJECT = - 82"
| "ErrorCode_val ErrorCode_INVALID_ISSUER_SUBJECT = - 83"
| "ErrorCode_val ErrorCode_BOOT_LEVEL_EXCEEDED = - 84"
| "ErrorCode_val ErrorCode_HARDWARE_NOT_YET_AVAILABLE = - 85"
| "ErrorCode_val ErrorCode_UNIMPLEMENTED = - 100"
| "ErrorCode_val ErrorCode_VERSION_MISMATCH = - 101"
| "ErrorCode_val ErrorCode_UNKNOWN_ERROR = - 1000"

primrec ErrorCode_name :: "ErrorCode \<Rightarrow> string" where
  "ErrorCode_name ErrorCode_OK = ''OK''"
| "ErrorCode_name ErrorCode_ROOT_OF_TRUST_ALREADY_SET = ''ROOT_OF_TRUST_ALREADY_SET''"
| "ErrorCode_name ErrorCode_UNSUPPORTED_PURPOSE = ''UNSUPPORTED_PURPOSE''"
| "ErrorCode_name ErrorCode_INCOMPATIBLE_PURPOSE = ''INCOMPATIBLE_PURPOSE''"
| "ErrorCode_name ErrorCode_UNSUPPORTED_ALGORITHM = ''UNSUPPORTED_ALGORITHM''"
| "ErrorCode_name ErrorCode_INCOMPATIBLE_ALGORITHM = ''INCOMPATIBLE_ALGORITHM''"
| "ErrorCode_name ErrorCode_UNSUPPORTED_KEY_SIZE = ''UNSUPPORTED_KEY_SIZE''"
| "ErrorCode_name ErrorCode_UNSUPPORTED_BLOCK_MODE = ''UNSUPPORTED_BLOCK_MODE''"
| "ErrorCode_name ErrorCode_INCOMPATIBLE_BLOCK_MODE = ''INCOMPATIBLE_BLOCK_MODE''"
| "ErrorCode_name ErrorCode_UNSUPPORTED_MAC_LENGTH = ''UNSUPPORTED_MAC_LENGTH''"
| "ErrorCode_name ErrorCode_UNSUPPORTED_PADDING_MODE = ''UNSUPPORTED_PADDING_MODE''"
| "ErrorCode_name ErrorCode_INCOMPATIBLE_PADDING_MODE = ''INCOMPATIBLE_PADDING_MODE''"
| "ErrorCode_name ErrorCode_UNSUPPORTED_DIGEST = ''UNSUPPORTED_DIGEST''"
| "ErrorCode_name ErrorCode_INCOMPATIBLE_DIGEST = ''INCOMPATIBLE_DIGEST''"
| "ErrorCode_name ErrorCode_INVALID_EXPIRATION_TIME = ''INVALID_EXPIRATION_TIME''"
| "ErrorCode_name ErrorCode_INVALID_USER_ID = ''INVALID_USER_ID''"
| "ErrorCode_name ErrorCode_INVALID_AUTHORIZATION_TIMEOUT = ''INVALID_AUTHORIZATION_TIMEOUT''"
| "ErrorCode_name ErrorCode_UNSUPPORTED_KEY_FORMAT = ''UNSUPPORTED_KEY_FORMAT''"
| "ErrorCode_name ErrorCode_INCOMPATIBLE_KEY_FORMAT = ''INCOMPATIBLE_KEY_FORMAT''"
| "ErrorCode_name ErrorCode_UNSUPPORTED_KEY_ENCRYPTION_ALGORITHM = ''UNSUPPORTED_KEY_ENCRYPTION_ALGORITHM''"
| "ErrorCode_name ErrorCode_UNSUPPORTED_KEY_VERIFICATION_ALGORITHM = ''UNSUPPORTED_KEY_VERIFICATION_ALGORITHM''"
| "ErrorCode_name ErrorCode_INVALID_INPUT_LENGTH = ''INVALID_INPUT_LENGTH''"
| "ErrorCode_name ErrorCode_KEY_EXPORT_OPTIONS_INVALID = ''KEY_EXPORT_OPTIONS_INVALID''"
| "ErrorCode_name ErrorCode_DELEGATION_NOT_ALLOWED = ''DELEGATION_NOT_ALLOWED''"
| "ErrorCode_name ErrorCode_KEY_NOT_YET_VALID = ''KEY_NOT_YET_VALID''"
| "ErrorCode_name ErrorCode_KEY_EXPIRED = ''KEY_EXPIRED''"
| "ErrorCode_name ErrorCode_KEY_USER_NOT_AUTHENTICATED = ''KEY_USER_NOT_AUTHENTICATED''"
| "ErrorCode_name ErrorCode_OUTPUT_PARAMETER_NULL = ''OUTPUT_PARAMETER_NULL''"
| "ErrorCode_name ErrorCode_INVALID_OPERATION_HANDLE = ''INVALID_OPERATION_HANDLE''"
| "ErrorCode_name ErrorCode_INSUFFICIENT_BUFFER_SPACE = ''INSUFFICIENT_BUFFER_SPACE''"
| "ErrorCode_name ErrorCode_VERIFICATION_FAILED = ''VERIFICATION_FAILED''"
| "ErrorCode_name ErrorCode_TOO_MANY_OPERATIONS = ''TOO_MANY_OPERATIONS''"
| "ErrorCode_name ErrorCode_UNEXPECTED_NULL_POINTER = ''UNEXPECTED_NULL_POINTER''"
| "ErrorCode_name ErrorCode_INVALID_KEY_BLOB = ''INVALID_KEY_BLOB''"
| "ErrorCode_name ErrorCode_IMPORTED_KEY_NOT_ENCRYPTED = ''IMPORTED_KEY_NOT_ENCRYPTED''"
| "ErrorCode_name ErrorCode_IMPORTED_KEY_DECRYPTION_FAILED = ''IMPORTED_KEY_DECRYPTION_FAILED''"
| "ErrorCode_name ErrorCode_IMPORTED_KEY_NOT_SIGNED = ''IMPORTED_KEY_NOT_SIGNED''"
| "ErrorCode_name ErrorCode_IMPORTED_KEY_VERIFICATION_FAILED = ''IMPORTED_KEY_VERIFICATION_FAILED''"
| "ErrorCode_name ErrorCode_INVALID_ARGUMENT = ''INVALID_ARGUMENT''"
| "ErrorCode_name ErrorCode_UNSUPPORTED_TAG = ''UNSUPPORTED_TAG''"
| "ErrorCode_name ErrorCode_INVALID_TAG = ''INVALID_TAG''"
| "ErrorCode_name ErrorCode_MEMORY_ALLOCATION_FAILED = ''MEMORY_ALLOCATION_FAILED''"
| "ErrorCode_name ErrorCode_IMPORT_PARAMETER_MISMATCH = ''IMPORT_PARAMETER_MISMATCH''"
| "ErrorCode_name ErrorCode_SECURE_HW_ACCESS_DENIED = ''SECURE_HW_ACCESS_DENIED''"
| "ErrorCode_name ErrorCode_OPERATION_CANCELLED = ''OPERATION_CANCELLED''"
| "ErrorCode_name ErrorCode_CONCURRENT_ACCESS_CONFLICT = ''CONCURRENT_ACCESS_CONFLICT''"
| "ErrorCode_name ErrorCode_SECURE_HW_BUSY = ''SECURE_HW_BUSY''"
| "ErrorCode_name ErrorCode_SECURE_HW_COMMUNICATION_FAILED = ''SECURE_HW_COMMUNICATION_FAILED''"
| "ErrorCode_name ErrorCode_UNSUPPORTED_EC_FIELD = ''UNSUPPORTED_EC_FIELD''"
| "ErrorCode_name ErrorCode_MISSING_NONCE = ''MISSING_NONCE''"
| "ErrorCode_name ErrorCode_INVALID_NONCE = ''INVALID_NONCE''"
| "ErrorCode_name ErrorCode_MISSING_MAC_LENGTH = ''MISSING_MAC_LENGTH''"
| "ErrorCode_name ErrorCode_KEY_RATE_LIMIT_EXCEEDED = ''KEY_RATE_LIMIT_EXCEEDED''"
| "ErrorCode_name ErrorCode_CALLER_NONCE_PROHIBITED = ''CALLER_NONCE_PROHIBITED''"
| "ErrorCode_name ErrorCode_KEY_MAX_OPS_EXCEEDED = ''KEY_MAX_OPS_EXCEEDED''"
| "ErrorCode_name ErrorCode_INVALID_MAC_LENGTH = ''INVALID_MAC_LENGTH''"
| "ErrorCode_name ErrorCode_MISSING_MIN_MAC_LENGTH = ''MISSING_MIN_MAC_LENGTH''"
| "ErrorCode_name ErrorCode_UNSUPPORTED_MIN_MAC_LENGTH = ''UNSUPPORTED_MIN_MAC_LENGTH''"
| "ErrorCode_name ErrorCode_UNSUPPORTED_KDF = ''UNSUPPORTED_KDF''"
| "ErrorCode_name ErrorCode_UNSUPPORTED_EC_CURVE = ''UNSUPPORTED_EC_CURVE''"
| "ErrorCode_name ErrorCode_KEY_REQUIRES_UPGRADE = ''KEY_REQUIRES_UPGRADE''"
| "ErrorCode_name ErrorCode_ATTESTATION_CHALLENGE_MISSING = ''ATTESTATION_CHALLENGE_MISSING''"
| "ErrorCode_name ErrorCode_KEYMINT_NOT_CONFIGURED = ''KEYMINT_NOT_CONFIGURED''"
| "ErrorCode_name ErrorCode_ATTESTATION_APPLICATION_ID_MISSING = ''ATTESTATION_APPLICATION_ID_MISSING''"
| "ErrorCode_name ErrorCode_CANNOT_ATTEST_IDS = ''CANNOT_ATTEST_IDS''"
| "ErrorCode_name ErrorCode_ROLLBACK_RESISTANCE_UNAVAILABLE = ''ROLLBACK_RESISTANCE_UNAVAILABLE''"
| "ErrorCode_name ErrorCode_HARDWARE_TYPE_UNAVAILABLE = ''HARDWARE_TYPE_UNAVAILABLE''"
| "ErrorCode_name ErrorCode_PROOF_OF_PRESENCE_REQUIRED = ''PROOF_OF_PRESENCE_REQUIRED''"
| "ErrorCode_name ErrorCode_CONCURRENT_PROOF_OF_PRESENCE_REQUESTED = ''CONCURRENT_PROOF_OF_PRESENCE_REQUESTED''"
| "ErrorCode_name ErrorCode_NO_USER_CONFIRMATION = ''NO_USER_CONFIRMATION''"
| "ErrorCode_name ErrorCode_DEVICE_LOCKED = ''DEVICE_LOCKED''"
| "ErrorCode_name ErrorCode_EARLY_BOOT_ENDED = ''EARLY_BOOT_ENDED''"
| "ErrorCode_name ErrorCode_ATTESTATION_KEYS_NOT_PROVISIONED = ''ATTESTATION_KEYS_NOT_PROVISIONED''"
| "ErrorCode_name ErrorCode_ATTESTATION_IDS_NOT_PROVISIONED = ''ATTESTATION_IDS_NOT_PROVISIONED''"
| "ErrorCode_name ErrorCode_INVALID_OPERATION = ''INVALID_OPERATION''"
| "ErrorCode_name ErrorCode_STORAGE_KEY_UNSUPPORTED = ''STORAGE_KEY_UNSUPPORTED''"
| "ErrorCode_name ErrorCode_INCOMPATIBLE_MGF_DIGEST = ''INCOMPATIBLE_MGF_DIGEST''"
| "ErrorCode_name ErrorCode_UNSUPPORTED_MGF_DIGEST = ''UNSUPPORTED_MGF_DIGEST''"
| "ErrorCode_name ErrorCode_MISSING_NOT_BEFORE = ''MISSING_NOT_BEFORE''"
| "ErrorCode_name ErrorCode_MISSING_NOT_AFTER = ''MISSING_NOT_AFTER''"
| "ErrorCode_name ErrorCode_MISSING_ISSUER_SUBJECT = ''MISSING_ISSUER_SUBJECT''"
| "ErrorCode_name ErrorCode_INVALID_ISSUER_SUBJECT = ''INVALID_ISSUER_SUBJECT''"
| "ErrorCode_name ErrorCode_BOOT_LEVEL_EXCEEDED = ''BOOT_LEVEL_EXCEEDED''"
| "ErrorCode_name ErrorCode_HARDWARE_NOT_YET_AVAILABLE = ''HARDWARE_NOT_YET_AVAILABLE''"
| "ErrorCode_name ErrorCode_UNIMPLEMENTED = ''UNIMPLEMENTED''"
| "ErrorCode_name ErrorCode_VERSION_MISMATCH = ''VERSION_MISMATCH''"
| "ErrorCode_name ErrorCode_UNKNOWN_ERROR = ''UNKNOWN_ERROR''"

definition ErrorCode_values :: "ErrorCode list" where
  "ErrorCode_values =
    [ErrorCode_OK, ErrorCode_ROOT_OF_TRUST_ALREADY_SET, ErrorCode_UNSUPPORTED_PURPOSE
     , ErrorCode_INCOMPATIBLE_PURPOSE, ErrorCode_UNSUPPORTED_ALGORITHM, ErrorCode_INCOMPATIBLE_ALGORITHM
     , ErrorCode_UNSUPPORTED_KEY_SIZE, ErrorCode_UNSUPPORTED_BLOCK_MODE, ErrorCode_INCOMPATIBLE_BLOCK_MODE
     , ErrorCode_UNSUPPORTED_MAC_LENGTH, ErrorCode_UNSUPPORTED_PADDING_MODE
     , ErrorCode_INCOMPATIBLE_PADDING_MODE, ErrorCode_UNSUPPORTED_DIGEST, ErrorCode_INCOMPATIBLE_DIGEST
     , ErrorCode_INVALID_EXPIRATION_TIME, ErrorCode_INVALID_USER_ID
     , ErrorCode_INVALID_AUTHORIZATION_TIMEOUT, ErrorCode_UNSUPPORTED_KEY_FORMAT
     , ErrorCode_INCOMPATIBLE_KEY_FORMAT, ErrorCode_UNSUPPORTED_KEY_ENCRYPTION_ALGORITHM
     , ErrorCode_UNSUPPORTED_KEY_VERIFICATION_ALGORITHM, ErrorCode_INVALID_INPUT_LENGTH
     , ErrorCode_KEY_EXPORT_OPTIONS_INVALID, ErrorCode_DELEGATION_NOT_ALLOWED, ErrorCode_KEY_NOT_YET_VALID
     , ErrorCode_KEY_EXPIRED, ErrorCode_KEY_USER_NOT_AUTHENTICATED, ErrorCode_OUTPUT_PARAMETER_NULL
     , ErrorCode_INVALID_OPERATION_HANDLE, ErrorCode_INSUFFICIENT_BUFFER_SPACE
     , ErrorCode_VERIFICATION_FAILED, ErrorCode_TOO_MANY_OPERATIONS, ErrorCode_UNEXPECTED_NULL_POINTER
     , ErrorCode_INVALID_KEY_BLOB, ErrorCode_IMPORTED_KEY_NOT_ENCRYPTED
     , ErrorCode_IMPORTED_KEY_DECRYPTION_FAILED, ErrorCode_IMPORTED_KEY_NOT_SIGNED
     , ErrorCode_IMPORTED_KEY_VERIFICATION_FAILED, ErrorCode_INVALID_ARGUMENT, ErrorCode_UNSUPPORTED_TAG
     , ErrorCode_INVALID_TAG, ErrorCode_MEMORY_ALLOCATION_FAILED, ErrorCode_IMPORT_PARAMETER_MISMATCH
     , ErrorCode_SECURE_HW_ACCESS_DENIED, ErrorCode_OPERATION_CANCELLED
     , ErrorCode_CONCURRENT_ACCESS_CONFLICT, ErrorCode_SECURE_HW_BUSY
     , ErrorCode_SECURE_HW_COMMUNICATION_FAILED, ErrorCode_UNSUPPORTED_EC_FIELD, ErrorCode_MISSING_NONCE
     , ErrorCode_INVALID_NONCE, ErrorCode_MISSING_MAC_LENGTH, ErrorCode_KEY_RATE_LIMIT_EXCEEDED
     , ErrorCode_CALLER_NONCE_PROHIBITED, ErrorCode_KEY_MAX_OPS_EXCEEDED, ErrorCode_INVALID_MAC_LENGTH
     , ErrorCode_MISSING_MIN_MAC_LENGTH, ErrorCode_UNSUPPORTED_MIN_MAC_LENGTH, ErrorCode_UNSUPPORTED_KDF
     , ErrorCode_UNSUPPORTED_EC_CURVE, ErrorCode_KEY_REQUIRES_UPGRADE
     , ErrorCode_ATTESTATION_CHALLENGE_MISSING, ErrorCode_KEYMINT_NOT_CONFIGURED
     , ErrorCode_ATTESTATION_APPLICATION_ID_MISSING, ErrorCode_CANNOT_ATTEST_IDS
     , ErrorCode_ROLLBACK_RESISTANCE_UNAVAILABLE, ErrorCode_HARDWARE_TYPE_UNAVAILABLE
     , ErrorCode_PROOF_OF_PRESENCE_REQUIRED, ErrorCode_CONCURRENT_PROOF_OF_PRESENCE_REQUESTED
     , ErrorCode_NO_USER_CONFIRMATION, ErrorCode_DEVICE_LOCKED, ErrorCode_EARLY_BOOT_ENDED
     , ErrorCode_ATTESTATION_KEYS_NOT_PROVISIONED, ErrorCode_ATTESTATION_IDS_NOT_PROVISIONED
     , ErrorCode_INVALID_OPERATION, ErrorCode_STORAGE_KEY_UNSUPPORTED, ErrorCode_INCOMPATIBLE_MGF_DIGEST
     , ErrorCode_UNSUPPORTED_MGF_DIGEST, ErrorCode_MISSING_NOT_BEFORE, ErrorCode_MISSING_NOT_AFTER
     , ErrorCode_MISSING_ISSUER_SUBJECT, ErrorCode_INVALID_ISSUER_SUBJECT, ErrorCode_BOOT_LEVEL_EXCEEDED
     , ErrorCode_HARDWARE_NOT_YET_AVAILABLE, ErrorCode_UNIMPLEMENTED, ErrorCode_VERSION_MISMATCH
     , ErrorCode_UNKNOWN_ERROR]"

definition ErrorCode_toString :: "int \<Rightarrow> string" where
  "ErrorCode_toString v = enum_toString ErrorCode_values ErrorCode_val ErrorCode_name v"

interpretation ErrorCode: aidl_enum ErrorCode_values ErrorCode_val ErrorCode_name
proof
  show "e \<in> set ErrorCode_values" for e :: ErrorCode
    by (cases e) (simp_all add: ErrorCode_values_def)
qed (simp_all add: ErrorCode_values_def starts_numeric_def)

end
