(* ===== verification/LinkedList.thy ===== *)
theory LinkedList
  imports Prelude "HOL-Library.Monad_Syntax"
begin

text \<open>
  The doubly linked list of \<open>keymaster/List.h\<close>, over an explicit heap from addresses to nodes. Address 0
  is the null pointer. An operation gives \<open>None\<close> when the code would follow a pointer to no node (a null
  pointer, a node that was deleted) or read the value of the middle node, which is never constructed.
  \<open>new (std::nothrow)\<close> is an argument \<open>al\<close> that gives an address that is not in use, or 0. Loops are
  \<open>partial_function\<close>s, so that a loop that does not end is \<open>None\<close> too.

  \<open>ring h m as xs\<close> says that the nodes \<open>as\<close>, in this order, form with the middle node \<open>m\<close> a circle in
  both directions and hold the values \<open>xs\<close>. Each operation is shown to return, to keep the circle, to act
  on the values as the operation on lists that it stands for, and to leave all other nodes alone.
\<close>

section \<open>Nodes and iterators\<close>

record 'a node =
  mVal :: "'a option"
  mpPrev :: nat
  mpNext :: nat

type_synonym 'a heap = "nat \<Rightarrow> 'a node option"

definition getRef :: "'a heap \<Rightarrow> nat \<Rightarrow> 'a option" where
  "getRef h p = Option.bind (h p) mVal"

definition getPrev :: "'a heap \<Rightarrow> nat \<Rightarrow> nat option" where
  "getPrev h p = map_option mpPrev (h p)"

definition getNext :: "'a heap \<Rightarrow> nat \<Rightarrow> nat option" where
  "getNext h p = map_option mpNext (h p)"

definition setVal :: "nat \<Rightarrow> 'a \<Rightarrow> 'a heap \<Rightarrow> 'a heap option" where
  "setVal p v h = map_option (\<lambda>n. h(p \<mapsto> n\<lparr>mVal := Some v\<rparr>)) (h p)"

definition setPrev :: "nat \<Rightarrow> nat \<Rightarrow> 'a heap \<Rightarrow> 'a heap option" where
  "setPrev p q h = map_option (\<lambda>n. h(p \<mapsto> n\<lparr>mpPrev := q\<rparr>)) (h p)"

definition setNext :: "nat \<Rightarrow> nat \<Rightarrow> 'a heap \<Rightarrow> 'a heap option" where
  "setNext p q h = map_option (\<lambda>n. h(p \<mapsto> n\<lparr>mpNext := q\<rparr>)) (h p)"

text \<open>Iterators are addresses: \<open>++\<close> and \<open>--\<close> follow the pointers.\<close>

definition iter_incr :: "'a heap \<Rightarrow> nat \<Rightarrow> nat option" where
  "iter_incr h it = getNext h it"

definition iter_decr :: "'a heap \<Rightarrow> nat \<Rightarrow> nat option" where
  "iter_decr h it = getPrev h it"

definition iter_deref :: "'a heap \<Rightarrow> nat \<Rightarrow> 'a option" where
  "iter_deref h it = getRef h it"

text \<open>Iterators of either constness are compared by their nodes.\<close>

definition iter_eq :: "nat \<Rightarrow> nat \<Rightarrow> bool" where
  "iter_eq it rhs \<longleftrightarrow> it = rhs"

definition iter_ne :: "nat \<Rightarrow> nat \<Rightarrow> bool" where
  "iter_ne it rhs \<longleftrightarrow> \<not> iter_eq it rhs"

section \<open>Operations\<close>

text \<open>A list object is the address of its middle node. The pointers of a fresh node have no value until
  they are set; they are 0 in the model and are not read before.\<close>

definition list_prep :: "('a heap \<Rightarrow> nat) \<Rightarrow> 'a heap \<Rightarrow> (nat \<times> 'a heap) option" where
  "list_prep al h =
     (let m = al h; h1 = (if m = 0 then h else h(m \<mapsto> \<lparr>mVal = None, mpPrev = 0, mpNext = 0\<rparr>))
      in do { h2 \<leftarrow> setPrev m m h1; h3 \<leftarrow> setNext m m h2; Some (m, h3) })"

definition list_empty :: "'a heap \<Rightarrow> nat \<Rightarrow> bool option" where
  "list_empty h m = map_option (\<lambda>p. p = m) (getNext h m)"

definition list_begin :: "'a heap \<Rightarrow> nat \<Rightarrow> nat option" where
  "list_begin h m = getNext h m"

definition list_end :: "nat \<Rightarrow> nat" where
  "list_end m = m"

definition list_insert :: "('a heap \<Rightarrow> nat) \<Rightarrow> nat \<Rightarrow> 'a \<Rightarrow> 'a heap \<Rightarrow> (nat \<times> 'a heap) option" where
  "list_insert al posn v h =
     (let new_node = al h;
          h1 = (if new_node = 0 then h else h(new_node \<mapsto> \<lparr>mVal = Some v, mpPrev = 0, mpNext = 0\<rparr>))
      in do {
        h2 \<leftarrow> setNext new_node posn h1;
        p \<leftarrow> getPrev h2 posn;
        h3 \<leftarrow> setPrev new_node p h2;
        q \<leftarrow> getPrev h3 posn;
        h4 \<leftarrow> setNext q new_node h3;
        h5 \<leftarrow> setPrev posn new_node h4;
        Some (new_node, h5) })"

partial_function (option) list_insert_range ::
    "('a heap \<Rightarrow> nat) \<Rightarrow> nat \<Rightarrow> nat \<Rightarrow> nat \<Rightarrow> 'a heap \<Rightarrow> 'a heap option" where
  "list_insert_range al posn i e h =
     (if i = e then Some h
      else do {
        v \<leftarrow> getRef h i;
        r \<leftarrow> list_insert al posn v h;
        i' \<leftarrow> iter_incr (snd r) i;
        list_insert_range al posn i' e (snd r) })"

definition list_push_front :: "('a heap \<Rightarrow> nat) \<Rightarrow> nat \<Rightarrow> 'a \<Rightarrow> 'a heap \<Rightarrow> 'a heap option" where
  "list_push_front al m v h = do { b \<leftarrow> list_begin h m; r \<leftarrow> list_insert al b v h; Some (snd r) }"

definition list_push_back :: "('a heap \<Rightarrow> nat) \<Rightarrow> nat \<Rightarrow> 'a \<Rightarrow> 'a heap \<Rightarrow> 'a heap option" where
  "list_push_back al m v h = do { r \<leftarrow> list_insert al (list_end m) v h; Some (snd r) }"

definition list_erase :: "nat \<Rightarrow> 'a heap \<Rightarrow> (nat \<times> 'a heap) option" where
  "list_erase posn h = do {
     pNext \<leftarrow> getNext h posn;
     pPrev \<leftarrow> getPrev h posn;
     h1 \<leftarrow> setNext pPrev pNext h;
     h2 \<leftarrow> setPrev pNext pPrev h1;
     Some (pNext, h2(posn := None)) }"

partial_function (option) list_erase_range :: "nat \<Rightarrow> nat \<Rightarrow> 'a heap \<Rightarrow> (nat \<times> 'a heap) option" where
  "list_erase_range i e h =
     (if i = e then Some (e, h)
      else do {
        i' \<leftarrow> iter_incr h i;
        r \<leftarrow> list_erase i h;
        list_erase_range i' e (snd r) })"

partial_function (option) clear_loop :: "nat \<Rightarrow> nat \<Rightarrow> 'a heap \<Rightarrow> 'a heap option" where
  "clear_loop m pCurrent h =
     (if pCurrent = m then Some h
      else do { pNext \<leftarrow> getNext h pCurrent; clear_loop m pNext (h(pCurrent := None)) })"

definition list_clear :: "nat \<Rightarrow> 'a heap \<Rightarrow> 'a heap option" where
  "list_clear m h = do {
     p \<leftarrow> getNext h m;
     h1 \<leftarrow> clear_loop m p h;
     h2 \<leftarrow> setPrev m m h1;
     setNext m m h2 }"

definition list_destroy :: "nat \<Rightarrow> 'a heap \<Rightarrow> 'a heap option" where
  "list_destroy m h = do { h1 \<leftarrow> list_clear m h; Some (h1(m := None)) }"

partial_function (option) list_distance :: "'a heap \<Rightarrow> nat \<Rightarrow> nat \<Rightarrow> nat \<Rightarrow> nat option" where
  "list_distance h i e count =
     (if i = e then Some count
      else do { i' \<leftarrow> iter_incr h i; list_distance h i' e (Suc count) })"

definition list_size :: "'a heap \<Rightarrow> nat \<Rightarrow> nat option" where
  "list_size h m = do { b \<leftarrow> list_begin h m; list_distance h b (list_end m) 0 }"

definition list_copy :: "('a heap \<Rightarrow> nat) \<Rightarrow> nat \<Rightarrow> 'a heap \<Rightarrow> (nat \<times> 'a heap) option" where
  "list_copy al src h = do {
     r \<leftarrow> list_prep al h;
     b \<leftarrow> list_begin (snd r) (fst r);
     f \<leftarrow> list_begin (snd r) src;
     h2 \<leftarrow> list_insert_range al b f (list_end src) (snd r);
     Some (fst r, h2) }"

text \<open>The loop of the assignment: the two iterators where it stops, and the heap.\<close>

partial_function (option) assign_loop ::
    "nat \<Rightarrow> nat \<Rightarrow> nat \<Rightarrow> nat \<Rightarrow> 'a heap \<Rightarrow> (nat \<times> nat \<times> 'a heap) option" where
  "assign_loop firstSrc lastSrc firstDst lastDst h =
     (if firstSrc \<noteq> lastSrc \<and> firstDst \<noteq> lastDst then do {
        v \<leftarrow> getRef h firstSrc;
        s' \<leftarrow> iter_incr h firstSrc;
        d' \<leftarrow> iter_incr h firstDst;
        h1 \<leftarrow> setVal firstDst v h;
        assign_loop s' lastSrc d' lastDst h1 }
      else Some (firstSrc, firstDst, h))"

definition list_assign :: "('a heap \<Rightarrow> nat) \<Rightarrow> nat \<Rightarrow> nat \<Rightarrow> 'a heap \<Rightarrow> 'a heap option" where
  "list_assign al this right h =
     (if this = right then Some h
      else do {
        firstDst \<leftarrow> list_begin h this;
        firstSrc \<leftarrow> list_begin h right;
        r \<leftarrow> assign_loop firstSrc (list_end right) firstDst (list_end this) h;
        case r of (s, d, h1) \<Rightarrow>
          if s = list_end right then map_option snd (list_erase_range d (list_end this) h1)
          else list_insert_range al (list_end this) s (list_end right) h1 })"

section \<open>The circle of nodes\<close>

definition ring :: "'a heap \<Rightarrow> nat \<Rightarrow> nat list \<Rightarrow> 'a list \<Rightarrow> bool" where
  "ring h m as xs \<longleftrightarrow> h 0 = None \<and> distinct (m # as)
     \<and> List.map (getNext h) (m # as) = List.map Some (as @ [m])
     \<and> List.map (getPrev h) (as @ [m]) = List.map Some (m # as)
     \<and> List.map (getRef h) as = List.map Some xs"



lemma ring_simps:
  "ring h m as xs \<Longrightarrow> length xs = length as"
  "ring h m as xs \<Longrightarrow> m \<notin> set as"
  "ring h m as xs \<Longrightarrow> distinct as"
  by (auto simp: ring_def dest: map_eq_imp_length_eq)

lemma map_Some_append:
  "length xs = length ys \<Longrightarrow> List.map f (xs @ xs') = List.map Some (ys @ ys') \<longleftrightarrow>
     List.map f xs = List.map Some ys \<and> List.map f xs' = List.map Some ys'"
  by simp

text \<open>A circle cut open between two nodes \<open>p\<close> and \<open>n\<close>, and joined again.\<close>

definition cut :: "'a heap \<Rightarrow> nat \<Rightarrow> nat list \<Rightarrow> nat list \<Rightarrow> nat list \<Rightarrow> nat \<Rightarrow> nat \<Rightarrow> nat list \<Rightarrow> bool" where
  "cut h m l r q p n s \<longleftrightarrow> m # l = q @ [p] \<and> r @ [m] = n # s
     \<and> List.map (getNext h) q = List.map Some l \<and> List.map (getNext h) r = List.map Some s
     \<and> List.map (getPrev h) l = List.map Some q \<and> List.map (getPrev h) s = List.map Some r"

lemma ring_cut:
  assumes "ring h m (l @ r) xs"
  obtains q p n s where "cut h m l r q p n s" "getNext h p = Some n" "getPrev h n = Some p"
proof -
  obtain q p where q: "m # l = q @ [p]" by (metis append_butlast_last_id list.distinct(1))
  obtain n s where s: "r @ [m] = n # s" by (cases "r @ [m]") simp_all
  have len: "length q = length l" "length r = length s"
    using q s by (auto dest: arg_cong [of _ _ length])
  have "List.map (getNext h) (q @ p # r) = List.map Some (l @ n # s)"
    using assms q s unfolding ring_def by (metis append.assoc append_Cons append_Nil)
  then have n: "List.map (getNext h) q = List.map Some l" "getNext h p = Some n"
      "List.map (getNext h) r = List.map Some s"
    using len by simp_all
  have "List.map (getPrev h) (l @ n # s) = List.map Some (q @ p # r)"
    using assms q s unfolding ring_def by (metis append.assoc append_Cons append_Nil)
  then have "List.map (getPrev h) l = List.map Some q" "getPrev h n = Some p"
      "List.map (getPrev h) s = List.map Some r"
    using len by simp_all
  with n q s that show thesis by (simp add: cut_def)
qed

lemma ring_join:
  assumes "cut h m l r q p n s" and "getNext h p = Some n" and "getPrev h n = Some p"
    and "h 0 = None" and "distinct (m # l @ r)" and "List.map (getRef h) (l @ r) = List.map Some xs"
  shows "ring h m (l @ r) xs"
proof -
  have q: "m # l @ r = q @ p # r" and s: "(l @ r) @ [m] = l @ n # s"
    using assms(1) by (auto simp: cut_def)
  have "List.map (getNext h) (m # l @ r) = List.map Some ((l @ r) @ [m])"
    unfolding q s using assms(1,2) by (simp add: cut_def)
  moreover have "List.map (getPrev h) ((l @ r) @ [m]) = List.map Some (m # l @ r)"
    unfolding q s using assms(1,3) by (simp add: cut_def)
  ultimately show ?thesis using assms(4-6) by (simp add: ring_def)
qed

lemma cut_sets:
  assumes "cut h m l r q p n s" and "distinct (m # l @ r)"
  shows "distinct (q @ p # r)" and "distinct (l @ n # s)"
    and "set (q @ p # r) = set (m # l @ r)" and "set (l @ n # s) = set (m # l @ r)"
proof -
  have q: "q @ p # r = m # l @ r" and s: "l @ n # s = (l @ r) @ [m]"
    using assms(1) by (auto simp: cut_def)
  show "distinct (q @ p # r)" "distinct (l @ n # s)"
    "set (q @ p # r) = set (m # l @ r)" "set (l @ n # s) = set (m # l @ r)"
    unfolding q s using assms(2) by auto
qed

text \<open>A circle depends only on its own nodes.\<close>

lemma ring_frame:
  assumes "ring h m as xs" and "\<And>a. a \<in> set (m # as) \<Longrightarrow> h' a = h a" and "h' 0 = None"
  shows "ring h' m as xs"
proof -
  have "List.map (getNext h') (m # as) = List.map (getNext h) (m # as)"
    "List.map (getPrev h') (as @ [m]) = List.map (getPrev h) (as @ [m])"
    "List.map (getRef h') as = List.map (getRef h) as"
    using assms(2) by (auto simp: getNext_def getPrev_def getRef_def)
  with assms(1,3) show ?thesis by (simp add: ring_def)
qed

section \<open>Insertion and removal\<close>

lemma getters_upd [simp]:
  "getNext (h(a \<mapsto> n)) b = (if b = a then Some (mpNext n) else getNext h b)"
  "getPrev (h(a \<mapsto> n)) b = (if b = a then Some (mpPrev n) else getPrev h b)"
  "getRef (h(a \<mapsto> n)) b = (if b = a then mVal n else getRef h b)"
  by (simp_all add: getNext_def getPrev_def getRef_def)

lemma getters_del [simp]:
  "getNext (h(a := None)) b = (if b = a then None else getNext h b)"
  "getPrev (h(a := None)) b = (if b = a then None else getPrev h b)"
  "getRef (h(a := None)) b = (if b = a then None else getRef h b)"
  by (simp_all add: getNext_def getPrev_def getRef_def)

lemma getters_Some: 
  "getNext h a = Some b \<longleftrightarrow> (\<exists>n. h a = Some n \<and> mpNext n = b)"
  "getPrev h a = Some b \<longleftrightarrow> (\<exists>n. h a = Some n \<and> mpPrev n = b)"
  by (auto simp: getNext_def getPrev_def)

lemma insert_heap:
  assumes "al h = new" "new \<noteq> 0" "h new = None" "getPrev h posn = Some p" "getNext h p = Some posn"
  shows "\<exists>h'. list_insert al posn v h = Some (new, h')
    \<and> (\<forall>a. getNext h' a = (if a = new then Some posn else if a = p then Some new else getNext h a))
    \<and> (\<forall>a. getPrev h' a = (if a = new then Some p else if a = posn then Some new else getPrev h a))
    \<and> (\<forall>a. getRef h' a = (if a = new then Some v else getRef h a))
    \<and> (\<forall>a. a \<noteq> new \<longrightarrow> a \<noteq> p \<longrightarrow> a \<noteq> posn \<longrightarrow> h' a = h a) \<and> dom h' = insert new (dom h)"
proof -
  obtain np nq where n: "h posn = Some np" "mpPrev np = p" "h p = Some nq" "mpNext nq = posn"
    using assms(4,5) by (auto simp: getters_Some)
  then have ne: "posn \<noteq> new" "p \<noteq> new" using assms(3) by auto
  show ?thesis
  proof (cases "p = posn")
    case True
    with n ne assms(1-3) show ?thesis
      by (auto simp: list_insert_def Let_def setNext_def setPrev_def getPrev_def [of _ posn] getNext_def getRef_def getPrev_def)
  next
    case False
    with n ne assms(1-3) show ?thesis
      by (auto simp: list_insert_def Let_def setNext_def setPrev_def getPrev_def getNext_def getRef_def)
  qed
qed

lemma list_insert_ring:
  assumes ring: "ring h m (l @ r) (xs @ ys)" and len: "length xs = length l"
    and posn: "posn = hd (r @ [m])" and new: "al h \<noteq> 0" "h (al h) = None"
  shows "\<exists>h'. list_insert al posn v h = Some (al h, h') \<and> ring h' m (l @ al h # r) (xs @ v # ys)
    \<and> (\<forall>a. a \<notin> set (al h # m # l @ r) \<longrightarrow> h' a = h a) \<and> dom h' = insert (al h) (dom h)"
proof -
  let ?n = "al h"
  obtain q p n s where cut: "cut h m l r q p n s" and next_p: "getNext h p = Some n" and prev_n: "getPrev h n = Some p"
    using ring_cut [OF ring] by blast
  have n: "posn = n" using cut posn by (simp add: cut_def)
  have dist: "distinct (m # l @ r)" and h0: "h 0 = None" using ring by (simp_all add: ring_def)
  note sets = cut_sets [OF cut dist]
  have notin: "?n \<notin> set (m # l @ r)"
  proof
    assume "?n \<in> set (m # l @ r)"
    then have "getNext h ?n \<noteq> None"
      using ring unfolding ring_def by (metis in_set_conv_nth length_map nth_map option.discI)
    with new(2) show False by (simp add: getNext_def)
  qed
  obtain h' where h': "list_insert al posn v h = Some (?n, h')"
    and nx: "\<And>a. getNext h' a = (if a = ?n then Some posn else if a = p then Some ?n else getNext h a)"
    and pv: "\<And>a. getPrev h' a = (if a = ?n then Some p else if a = posn then Some ?n else getPrev h a)"
    and rf: "\<And>a. getRef h' a = (if a = ?n then Some v else getRef h a)"
    and fr: "\<And>a. a \<noteq> ?n \<Longrightarrow> a \<noteq> p \<Longrightarrow> a \<noteq> posn \<Longrightarrow> h' a = h a"
    and dm: "dom h' = insert ?n (dom h)"
    using insert_heap [of al h ?n posn p v] new prev_n next_p n by blast
  have in_q: "a \<noteq> ?n" "a \<noteq> p" if "a \<in> set q" for a using that sets(1,3) notin by auto
  have in_r: "a \<noteq> ?n" "a \<noteq> p" if "a \<in> set r" for a using that sets(1,3) notin by auto
  have in_l: "a \<noteq> ?n" "a \<noteq> n" if "a \<in> set l" for a using that sets(2,4) notin by auto
  have in_s: "a \<noteq> ?n" "a \<noteq> n" if "a \<in> set s" for a using that sets(2,4) notin by auto
  have nn: "n \<noteq> ?n" using sets(4) notin by auto
  have maps: "List.map (getNext h') q = List.map (getNext h) q" "List.map (getNext h') r = List.map (getNext h) r"
    "List.map (getPrev h') l = List.map (getPrev h) l" "List.map (getPrev h') s = List.map (getPrev h) s"
    using in_q in_r in_l in_s n by (simp_all add: nx pv)
  then have cut': "cut h' m l (?n # r) q p ?n (n # s)"
    using cut unfolding cut_def list.map maps by (simp add: nx pv n nn)
  have "List.map (getRef h') (l @ ?n # r) = List.map Some (xs @ v # ys)"
  proof -
    have "List.map (getRef h') l = List.map (getRef h) l" "List.map (getRef h') r = List.map (getRef h) r"
      using in_l in_r by (simp_all add: rf)
    moreover have "List.map (getRef h) l = List.map Some xs" "List.map (getRef h) r = List.map Some ys"
      using ring len by (simp_all add: ring_def)
    ultimately show ?thesis by (simp add: rf)
  qed
  moreover have "h' 0 = None"
    using h0 new(1) dm by (metis domIff insertE)
  moreover have "distinct (m # l @ ?n # r)" using dist notin by auto
  moreover have "getNext h' p = Some ?n" "getPrev h' ?n = Some p"
    using notin sets(3) by (auto simp: nx pv)
  ultimately have "ring h' m (l @ ?n # r) (xs @ v # ys)"
    by (intro ring_join [OF cut'])
  moreover have "h' a = h a" if "a \<notin> set (?n # m # l @ r)" for a
    using that sets(3,4) n by (intro fr) auto
  ultimately show ?thesis using h' dm by blast
qed

lemma ring_node:
  assumes "ring h m (l @ a # r) (xs @ x # ys)" and "length xs = length l"
  shows "getNext h a = Some (hd (r @ [m]))" "getRef h a = Some x" "a \<noteq> m" "a \<noteq> 0" "h a \<noteq> None"
proof -
  have "List.map (getNext h) ((m # l) @ a # r) = List.map Some ((l @ [a]) @ r @ [m])"
    using assms(1) by (simp add: ring_def)
  then have "List.map (getNext h) (a # r) = List.map Some (r @ [m])"
    by (rule map_Some_append [THEN iffD1, THEN conjunct2, rotated]) simp
  then show next_a: "getNext h a = Some (hd (r @ [m]))" by (cases r) simp_all
  show "getRef h a = Some x" using assms by (simp add: ring_def)
  show "a \<noteq> m" using ring_simps(2) [OF assms(1)] by auto
  from next_a show "h a \<noteq> None" by (auto simp: getNext_def)
  with assms(1) show "a \<noteq> 0" by (auto simp: ring_def)
qed

lemma ring_first: "ring h m as xs \<Longrightarrow> getNext h m = Some (hd (as @ [m]))"
  by (cases as) (simp_all add: ring_def)

lemma list_erase_ring:
  assumes ring: "ring h m (l @ a # r) (xs @ x # ys)" and len: "length xs = length l"
  shows "\<exists>h'. list_erase a h = Some (hd (r @ [m]), h') \<and> ring h' m (l @ r) (xs @ ys)
    \<and> (\<forall>b. b \<notin> set (m # l @ a # r) \<longrightarrow> h' b = h b) \<and> dom h' = dom h - {a}"
proof -
  obtain q p n s where cut: "cut h m l (a # r) q p n s" and next_p: "getNext h p = Some n" and prev_n: "getPrev h n = Some p"
    using ring_cut [OF ring] by blast
  have n: "n = a" and s: "s = r @ [m]" using cut by (simp_all add: cut_def)
  obtain b t where b: "r @ [m] = b # t" by (cases "r @ [m]") simp_all
  have dist: "distinct (m # l @ a # r)" and h0: "h 0 = None" using ring by (simp_all add: ring_def)
  note sets = cut_sets [OF cut dist]
  have next_a: "getNext h a = Some b" and prev_b: "getPrev h b = Some a"
    and next_r: "List.map (getNext h) r = List.map Some t" and prev_t: "List.map (getPrev h) t = List.map Some r"
    using cut n unfolding s b cut_def by auto
  have ne: "p \<noteq> a" "b \<noteq> a" using sets(1,2) unfolding n s b by auto
  obtain np nb na where nodes: "h p = Some np" "h b = Some nb" "h a = Some na" "mpNext na = b" "mpPrev na = p"
    using next_p prev_b next_a prev_n n by (auto simp: getters_Some)
  let ?h1 = "h(p \<mapsto> np\<lparr>mpNext := b\<rparr>)"
  obtain nb' where nb': "?h1 b = Some nb'" using nodes by (cases "b = p") auto
  define h' where "h' = (?h1(b \<mapsto> nb'\<lparr>mpPrev := p\<rparr>))(a := None)"
  have er: "list_erase a h = Some (b, h')"
    using nodes nb' by (simp add: list_erase_def getNext_def getPrev_def setNext_def setPrev_def h'_def)
  have nx: "getNext h' c = (if c = a then None else if c = p then Some b else getNext h c)"
    and pv: "getPrev h' c = (if c = a then None else if c = b then Some p else getPrev h c)"
    and rf: "getRef h' c = (if c = a then None else getRef h c)" for c
    using nodes nb' by (auto simp: h'_def getNext_def getPrev_def getRef_def split: if_splits)
  have maps: "List.map (getNext h') q = List.map (getNext h) q" "List.map (getNext h') r = List.map (getNext h) r"
    "List.map (getPrev h') l = List.map (getPrev h) l" "List.map (getPrev h') t = List.map (getPrev h) t"
    "List.map (getRef h') l = List.map (getRef h) l" "List.map (getRef h') r = List.map (getRef h) r"
    using sets(1,2) unfolding n s b by (auto simp: nx pv rf)
  have "cut h' m l r q p b t"
    using cut b next_r prev_t by (simp add: cut_def maps)
  moreover have "getNext h' p = Some b" "getPrev h' b = Some p" using ne by (simp_all add: nx pv)
  moreover have "h' 0 = None"
    using h0 nodes nb' by (auto simp: h'_def)
  moreover have "distinct (m # l @ r)" using dist by auto
  moreover have "List.map (getRef h') (l @ r) = List.map Some (xs @ ys)"
    using ring len by (simp add: ring_def maps)
  ultimately have "ring h' m (l @ r) (xs @ ys)" by (rule ring_join)
  moreover have "h' c = h c" if "c \<notin> set (m # l @ a # r)" for c
  proof -
    have "c \<noteq> p" "c \<noteq> b" "c \<noteq> a" using that sets(3,4) unfolding n s b by auto
    then show ?thesis by (simp add: h'_def)
  qed
  moreover have "dom h' = dom h - {a}" using nodes nb' by (auto simp: h'_def split: if_splits)
  moreover have "hd (r @ [m]) = b" by (simp add: b)
  ultimately show ?thesis using er by blast
qed

lemma setVal_ring:
  assumes "ring h m (l @ a # r) (xs @ x # ys)" and "length xs = length l"
  shows "\<exists>h'. setVal a v h = Some h' \<and> ring h' m (l @ a # r) (xs @ v # ys)
    \<and> (\<forall>b. b \<noteq> a \<longrightarrow> h' b = h b) \<and> dom h' = dom h"
proof -
  obtain n where n: "h a = Some n" using ring_node(5) [OF assms] by auto
  let ?h = "h(a \<mapsto> n\<lparr>mVal := Some v\<rparr>)"
  have g: "getNext ?h = getNext h" "getPrev ?h = getPrev h"
    using n by (auto simp: fun_eq_iff getNext_def getPrev_def)
  have "a \<notin> set l" "a \<notin> set r" using ring_simps(3) [OF assms(1)] by auto
  then have "List.map (getRef ?h) l = List.map (getRef h) l" "List.map (getRef ?h) r = List.map (getRef h) r"
    by (auto simp: getRef_def)
  with assms have "ring ?h m (l @ a # r) (xs @ v # ys)"
    using ring_node(4) [OF assms] by (simp add: ring_def g)
  with n show ?thesis by (auto simp: setVal_def)
qed

section \<open>Loops\<close>

lemma hd_snoc [simp]: "hd ((a # l) @ [m]) = a"
  by simp

lemma list_distance_ring:
  assumes "ring h m (l @ r) xs"
  shows "list_distance h (hd (r @ [m])) m k = Some (k + length r)"
  using assms
proof (induction r arbitrary: l k)
  case Nil
  show ?case by (subst list_distance.simps) simp
next
  case (Cons a r)
  have len: "length xs = length (l @ a # r)" using Cons.prems by (rule ring_simps(1))
  have xs: "xs = take (length l) xs @ xs ! length l # drop (Suc (length l)) xs"
    using len by (simp add: id_take_nth_drop)
  have "ring h m (l @ a # r) (take (length l) xs @ xs ! length l # drop (Suc (length l)) xs)"
    using Cons.prems xs by simp
  note node = ring_node [OF this] 
  have "getNext h a = Some (hd (r @ [m]))" and "a \<noteq> m"
    using node len by simp_all
  moreover have "list_distance h (hd (r @ [m])) m (Suc k) = Some (Suc k + length r)"
    using Cons.IH [of "l @ [a]"] Cons.prems by simp
  ultimately show ?case
    by (subst list_distance.simps) (simp add: iter_incr_def)
qed

lemma clear_loop_ring:
  assumes "List.map (getNext h) as = List.map Some (tl (as @ [m]))" and "distinct as" and "m \<notin> set as"
  shows "clear_loop m (hd (as @ [m])) h = Some (\<lambda>a. if a \<in> set as then None else h a)"
  using assms
proof (induction as arbitrary: h)
  case Nil
  show ?case by (subst clear_loop.simps) simp
next
  case (Cons a as)
  have "getNext h a = Some (hd (as @ [m]))" using Cons.prems(1) by (cases as) simp_all
  moreover have "List.map (getNext (h(a := None))) as = List.map Some (tl (as @ [m]))"
  proof -
    have same: "List.map (getNext (h(a := None))) as = List.map (getNext h) as" using Cons.prems(2) by auto
    show ?thesis unfolding same using Cons.prems(1) by (cases as) simp_all
  qed
  then have "clear_loop m (hd (as @ [m])) (h(a := None)) = Some (\<lambda>b. if b \<in> set as then None else (h(a := None)) b)"
    using Cons.prems(2,3) by (intro Cons.IH) (assumption | simp)+
  moreover have "(\<lambda>b. if b \<in> set as then None else (h(a := None)) b) = (\<lambda>b. if b \<in> set (a # as) then None else h b)"
    by auto
  moreover have "a \<noteq> m" using Cons.prems(3) by auto
  ultimately show ?case by (subst clear_loop.simps) simp
qed

lemma list_clear_ring:
  assumes "ring h m as xs"
  shows "\<exists>h'. list_clear m h = Some h' \<and> ring h' m [] [] \<and> dom h' = dom h - set as
    \<and> (\<forall>a. a \<notin> set (m # as) \<longrightarrow> h' a = h a)"
proof -
  have "List.map (getNext h) as = List.map Some (tl (as @ [m]))"
    using assms by (cases as) (simp_all add: ring_def)
  then have loop: "clear_loop m (hd (as @ [m])) h = Some (\<lambda>a. if a \<in> set as then None else h a)"
    using ring_simps(2,3) [OF assms] by (intro clear_loop_ring)
  obtain n where n: "h m = Some n" using ring_first [OF assms] by (auto simp: getters_Some)
  have "m \<noteq> 0" using assms n unfolding ring_def by (metis option.distinct(1))
  then have m: "m \<notin> set as" "m \<noteq> 0" using ring_simps(2) [OF assms] by simp_all
  define h1 where "h1 = (\<lambda>a. if a \<in> set as then None else h a)"
  let ?n = "n\<lparr>mpPrev := m, mpNext := m\<rparr>"
  have "list_clear m h = Some (h1(m \<mapsto> ?n))"
    using ring_first [OF assms] loop n m
    by (simp add: list_clear_def setPrev_def setNext_def h1_def)
  moreover have "ring (h1(m \<mapsto> ?n)) m [] []"
    using assms m by (simp add: ring_def h1_def)
  moreover have "dom (h1(m \<mapsto> ?n)) = dom h - set as" using m n by (auto simp: h1_def split: if_splits)
  ultimately show ?thesis by (auto simp: h1_def)
qed

lemma list_erase_range_ring:
  assumes "ring h m (l @ d @ r) (xs @ ds @ ys)" and "length xs = length l" and "length ds = length d"
  shows "\<exists>h'. list_erase_range (hd (d @ r @ [m])) (hd (r @ [m])) h = Some (hd (r @ [m]), h')
    \<and> ring h' m (l @ r) (xs @ ys) \<and> dom h' = dom h - set d
    \<and> (\<forall>b. b \<notin> set (m # l @ d @ r) \<longrightarrow> h' b = h b)"
  using assms
proof (induction d arbitrary: ds h)
  case Nil
  then show ?case by (subst list_erase_range.simps) simp
next
  case (Cons a d)
  then obtain x xs' where ds: "ds = x # xs'" "length xs' = length d" by (cases ds) simp_all
  have ring: "ring h m (l @ a # d @ r) (xs @ x # xs' @ ys)" using Cons.prems(1) ds by simp
  have "a \<notin> set r" "a \<noteq> m" using ring_simps(2,3) [OF ring] by auto
  then have ne: "a \<noteq> hd (r @ [m])" by (cases r) auto
  have next_a: "getNext h a = Some (hd (d @ r @ [m]))" using ring_node(1) [OF ring Cons.prems(2)] by simp
  obtain h1 n where h1: "list_erase a h = Some (n, h1)" "ring h1 m (l @ d @ r) (xs @ xs' @ ys)"
      "dom h1 = dom h - {a}" "\<forall>b. b \<notin> set (m # l @ a # d @ r) \<longrightarrow> h1 b = h b"
    using list_erase_ring [OF ring Cons.prems(2)] by auto
  obtain h' where h': "list_erase_range (hd (d @ r @ [m])) (hd (r @ [m])) h1 = Some (hd (r @ [m]), h')"
      "ring h' m (l @ r) (xs @ ys)" "dom h' = dom h1 - set d" "\<forall>b. b \<notin> set (m # l @ d @ r) \<longrightarrow> h' b = h1 b"
    using Cons.IH [OF h1(2) Cons.prems(2) ds(2)] by blast
  have "list_erase_range a (hd (r @ [m])) h = Some (hd (r @ [m]), h')"
    using ne next_a h1(1) h'(1) by (subst list_erase_range.simps) (simp add: iter_incr_def)
  moreover have "dom h' = dom h - set (a # d)" using h'(3) h1(3) by auto
  moreover have "\<forall>b. b \<notin> set (m # l @ (a # d) @ r) \<longrightarrow> h' b = h b" using h'(4) h1(4) by auto
  ultimately show ?case using h'(2) by simp
qed

text \<open>
  Copying a range of another list in front of a node: \<open>total_alloc\<close> says that there is memory on every
  finite heap.
\<close>

definition total_alloc :: "('a heap \<Rightarrow> nat) \<Rightarrow> bool" where
  "total_alloc al \<longleftrightarrow> (\<forall>h. finite (dom h) \<longrightarrow> al h \<noteq> 0 \<and> h (al h) = None)"

lemma ring_dom: "ring h m as xs \<Longrightarrow> set (m # as) \<subseteq> dom h"
proof
  fix a
  assume "ring h m as xs" and "a \<in> set (m # as)"
  then have "getNext h a \<noteq> None"
    unfolding ring_def by (metis in_set_conv_nth length_map nth_map option.discI)
  then show "a \<in> dom h" by (auto simp: getNext_def)
qed

lemma list_insert_range_ring:
  assumes "ring h m (l @ r) (xs @ ys)" and "length xs = length l"
    and "ring h m2 (bs @ b2) (us @ vs)" and "length us = length bs"
    and "set (m # l @ r) \<inter> set (m2 # bs @ b2) = {}" and "total_alloc al" and "finite (dom h)"
  shows "\<exists>h' new. list_insert_range al (hd (r @ [m])) (hd (b2 @ [m2])) m2 h = Some h'
    \<and> ring h' m (l @ new @ r) (xs @ vs @ ys) \<and> ring h' m2 (bs @ b2) (us @ vs)
    \<and> dom h' = dom h \<union> set new \<and> set new \<inter> dom h = {}
    \<and> (\<forall>a. a \<notin> set (m # l @ r) \<union> set new \<longrightarrow> h' a = h a)"
  using assms
proof (induction b2 arbitrary: bs us vs l xs h)
  case Nil
  then have "vs = []" using ring_simps(1) [OF Nil.prems(3)] by simp
  with Nil.prems show ?case by (intro exI [of _ h] exI [of _ "[]"]) (simp add: list_insert_range.simps)
next
  case (Cons b b2)
  have "length vs = length (b # b2)"
    using ring_simps(1) [OF Cons.prems(3)] Cons.prems(4) by simp
  then obtain v vs' where vs: "vs = v # vs'" by (cases vs) auto
  have src: "ring h m2 (bs @ b # b2) (us @ v # vs')" using Cons.prems(3) vs by simp
  note node = ring_node [OF src Cons.prems(4)]
  let ?n = "al h"
  have al: "?n \<noteq> 0" "h ?n = None" using Cons.prems(6,7) by (auto simp: total_alloc_def)
  then have n_notin: "?n \<notin> set (m2 # bs @ b # b2)" "?n \<notin> set (m # l @ r)"
    using ring_dom [OF src] ring_dom [OF Cons.prems(1)] by auto
  obtain h1 where h1: "list_insert al (hd (r @ [m])) v h = Some (?n, h1)"
      "ring h1 m (l @ ?n # r) (xs @ v # ys)" "\<And>a. a \<notin> set (?n # m # l @ r) \<Longrightarrow> h1 a = h a"
      "dom h1 = insert ?n (dom h)"
    using list_insert_ring [where al = al, OF Cons.prems(1,2) refl al] by blast
  have frame: "h1 a = h a" if "a \<in> set (m2 # bs @ b # b2)" for a
    using that Cons.prems(5) n_notin by (intro h1(3)) auto
  have h10: "h1 0 = None" using h1(2) by (simp add: ring_def)
  have src1: "ring h1 m2 (bs @ b # b2) (us @ v # vs')"
    using src frame h10 by (rule ring_frame)
  have next_b: "getNext h1 b = Some (hd (b2 @ [m2]))"
    using ring_node(1) [OF src1 Cons.prems(4)] .
  have "\<exists>h' new. list_insert_range al (hd (r @ [m])) (hd (b2 @ [m2])) m2 h1 = Some h'
    \<and> ring h' m ((l @ [?n]) @ new @ r) ((xs @ [v]) @ vs' @ ys) \<and> ring h' m2 ((bs @ [b]) @ b2) ((us @ [v]) @ vs')
    \<and> dom h' = dom h1 \<union> set new \<and> set new \<inter> dom h1 = {}
    \<and> (\<forall>a. a \<notin> set (m # (l @ [?n]) @ r) \<union> set new \<longrightarrow> h' a = h1 a)"
    using h1(2,4) src1 Cons.prems(2,4-7) n_notin by (intro Cons.IH) auto
  then obtain h' new where rest: "list_insert_range al (hd (r @ [m])) (hd (b2 @ [m2])) m2 h1 = Some h'"
    "ring h' m (l @ (?n # new) @ r) (xs @ vs @ ys)" "ring h' m2 (bs @ b # b2) (us @ vs)"
    "dom h' = dom h1 \<union> set new" "set new \<inter> dom h1 = {}"
    "\<forall>a. a \<notin> set (m # (l @ [?n]) @ r) \<union> set new \<longrightarrow> h' a = h1 a"
    using vs by auto
  have "list_insert_range al (hd (r @ [m])) b m2 h = Some h'"
    using node(2,3) h1(1) next_b rest(1) by (subst list_insert_range.simps) (simp add: iter_incr_def)
  moreover have "dom h' = dom h \<union> set (?n # new)" "set (?n # new) \<inter> dom h = {}"
    using rest(4,5) h1(4) al(2) by auto
  moreover have "h' a = h a" if "a \<notin> set (m # l @ r) \<union> set (?n # new)" for a
    using that rest(6) h1(3) by auto
  ultimately show ?case
    using rest(2,3) by (intro exI [of _ h'] exI [of _ "?n # new"]) auto
qed

lemma assign_loop_ring:
  assumes "ring h m (as @ a2) (xs @ x2)" and "length xs = length as"
    and "ring h m2 (bs @ b2) (us @ u2)" and "length us = length bs"
    and "set (m # as @ a2) \<inter> set (m2 # bs @ b2) = {}" and "k = min (length a2) (length b2)"
  shows "\<exists>h'. assign_loop (hd (b2 @ [m2])) m2 (hd (a2 @ [m])) m h =
       Some (hd (drop k b2 @ [m2]), hd (drop k a2 @ [m]), h')
    \<and> ring h' m (as @ a2) (xs @ take k u2 @ drop k x2) \<and> ring h' m2 (bs @ b2) (us @ u2)
    \<and> dom h' = dom h \<and> (\<forall>a. a \<notin> set (m # as @ a2) \<longrightarrow> h' a = h a)"
  using assms
proof (induction a2 arbitrary: as xs x2 bs b2 us u2 h k)
  case Nil
  then show ?case by (subst assign_loop.simps) simp
next
  case (Cons a a2)
  show ?case
  proof (cases b2)
    case Nil
    with Cons.prems show ?thesis by (subst assign_loop.simps) simp
  next
    case (Cons b b3)
    note Cons_b = Cons
    have "length x2 = length (a # a2)" "length u2 = length (b # b3)"
      using ring_simps(1) [OF Cons.prems(1)] ring_simps(1) [OF Cons.prems(3)] Cons.prems(2,4) Cons_b by simp_all
    then obtain x x3 u u3 where x2: "x2 = x # x3" and u2: "u2 = u # u3"
      by (cases x2; cases u2) simp_all
    have dst: "ring h m (as @ a # a2) (xs @ x # x3)" and src: "ring h m2 (bs @ b # b3) (us @ u # u3)"
      using Cons.prems(1,3) x2 u2 Cons_b by simp_all
    note dst_node = ring_node [OF dst Cons.prems(2)] and src_node = ring_node [OF src Cons.prems(4)]
    obtain h1 where h1: "setVal a u h = Some h1" "ring h1 m (as @ a # a2) (xs @ u # x3)"
        "\<And>b. b \<noteq> a \<Longrightarrow> h1 b = h b" "dom h1 = dom h"
      using setVal_ring [OF dst Cons.prems(2)] by blast
    have "ring h1 m2 (bs @ b # b3) (us @ u # u3)"
    proof (rule ring_frame [OF src])
      show "h1 c = h c" if "c \<in> set (m2 # bs @ b # b3)" for c
        using that Cons.prems(5) Cons_b by (intro h1(3)) auto
      show "h1 0 = None" using h1(2) by (simp add: ring_def)
    qed
    moreover have "set (m # (as @ [a]) @ a2) \<inter> set (m2 # (bs @ [b]) @ b3) = {}"
      using Cons.prems(5) Cons_b by auto
    ultimately have "\<exists>h'. assign_loop (hd (b3 @ [m2])) m2 (hd (a2 @ [m])) m h1 =
         Some (hd (drop (min (length a2) (length b3)) b3 @ [m2]), hd (drop (min (length a2) (length b3)) a2 @ [m]), h')
      \<and> ring h' m ((as @ [a]) @ a2) ((xs @ [u]) @ take (min (length a2) (length b3)) u3 @ drop (min (length a2) (length b3)) x3)
      \<and> ring h' m2 ((bs @ [b]) @ b3) ((us @ [u]) @ u3)
      \<and> dom h' = dom h1 \<and> (\<forall>c. c \<notin> set (m # (as @ [a]) @ a2) \<longrightarrow> h' c = h1 c)"
      using h1(2) Cons.prems(2,4) by (intro Cons.IH) simp_all
    then obtain h' where rest: "assign_loop (hd (b3 @ [m2])) m2 (hd (a2 @ [m])) m h1 =
         Some (hd (drop (min (length a2) (length b3)) b3 @ [m2]), hd (drop (min (length a2) (length b3)) a2 @ [m]), h')"
      "ring h' m (as @ a # a2) (xs @ u # take (min (length a2) (length b3)) u3 @ drop (min (length a2) (length b3)) x3)"
      "ring h' m2 (bs @ b # b3) (us @ u # u3)" "dom h' = dom h1" "\<forall>c. c \<notin> set (m # as @ a # a2) \<longrightarrow> h' c = h1 c"
      by auto
    have k: "k = Suc (min (length a2) (length b3))" using Cons.prems(6) Cons_b by simp
    have "assign_loop b m2 a m h = assign_loop (hd (b3 @ [m2])) m2 (hd (a2 @ [m])) m h1"
      using dst_node(1,3) src_node(1-3) h1(1) by (subst assign_loop.simps) (simp add: iter_incr_def)
    moreover have "\<forall>c. c \<notin> set (m # as @ a # a2) \<longrightarrow> h' c = h c" using rest(5) h1(3) by auto
    ultimately show ?thesis
      using rest h1(4) Cons_b k x2 u2 by auto
  qed
qed

lemma list_assign_ring:
  assumes "ring h m as xs" and "ring h m2 bs us" and disj: "set (m # as) \<inter> set (m2 # bs) = {}"
    and "total_alloc al" and "finite (dom h)"
  shows "\<exists>h' as'. list_assign al m m2 h = Some h' \<and> ring h' m as' us \<and> ring h' m2 bs us
    \<and> dom h' = dom h - set as \<union> set as'"
proof -
  let ?k = "min (length as) (length bs)"
  have len: "length xs = length as" "length us = length bs" using assms(1,2) by (simp_all add: ring_simps(1))
  obtain h1 where h1: "assign_loop (hd (bs @ [m2])) m2 (hd (as @ [m])) m h =
       Some (hd (drop ?k bs @ [m2]), hd (drop ?k as @ [m]), h1)"
    "ring h1 m as (take ?k us @ drop ?k xs)" "ring h1 m2 bs us" "dom h1 = dom h"
    using assign_loop_ring [of h m "[]" as "[]" xs m2 "[]" bs "[]" us ?k] assms(1-3) by auto
  have ne: "m \<noteq> m2" using disj by auto
  have as: "as = take ?k as @ drop ?k as" and bs: "bs = take ?k bs @ drop ?k bs" by simp_all
  have dom_as: "set as \<subseteq> dom h" using ring_dom [OF assms(1)] by simp
  show ?thesis
  proof (cases "length bs \<le> length as")
    case True
    then have k: "?k = length bs" "drop ?k bs = []" by simp_all
    have "ring h1 m (take ?k as @ drop ?k as @ []) (us @ drop ?k xs @ [])"
      using h1(2) k len by simp
    then obtain h' where h': "list_erase_range (hd (drop ?k as @ [] @ [m])) (hd ([] @ [m])) h1 = Some (hd ([] @ [m]), h')"
      "ring h' m (take ?k as @ []) (us @ [])" "dom h' = dom h1 - set (drop ?k as)"
      "\<forall>b. b \<notin> set (m # take ?k as @ drop ?k as @ []) \<longrightarrow> h' b = h1 b"
      using list_erase_range_ring [of h1 m "take ?k as" "drop ?k as" "[]" us "drop ?k xs" "[]"] len k(1) by fastforce
    have "h' 0 = None" using h'(2) by (simp add: ring_def)
    then have "ring h' m2 bs us"
      using h'(4) disj by (intro ring_frame [OF h1(3)]) auto
    moreover have "set (take ?k as) \<inter> set (drop ?k as) = {}"
      using ring_simps(3) [OF assms(1)] by (subst (asm) as) (simp only: distinct_append)
    moreover have "set as = set (take ?k as) \<union> set (drop ?k as)"
      by (metis append_take_drop_id set_append)
    then have "dom h' = dom h - set as \<union> set (take ?k as)"
      using h'(3) h1(4) dom_as calculation(2) by auto
    moreover have "list_assign al m m2 h = Some h'"
      using ne h1(1) h'(1) k(2) ring_first [OF assms(1)] ring_first [OF assms(2)]
      by (simp add: list_assign_def list_begin_def list_end_def)
    ultimately show ?thesis using h'(2) by auto
  next
    case False
    then have k: "?k = length as" "drop ?k as = []" by simp_all
    then obtain b b2 where b: "drop ?k bs = b # b2" using False by (cases "drop ?k bs") auto
    have "b \<in> set bs" using b by (metis in_set_dropD list.set_intros(1))
    then have b_ne: "b \<noteq> m2" using ring_simps(2) [OF assms(2)] by auto
    have "\<exists>h' new. list_insert_range al (hd ([] @ [m])) (hd (drop ?k bs @ [m2])) m2 h1 = Some h'
      \<and> ring h' m (as @ new @ []) (take ?k us @ drop ?k us @ []) \<and> ring h' m2 (take ?k bs @ drop ?k bs) (take ?k us @ drop ?k us)
      \<and> dom h' = dom h1 \<union> set new \<and> set new \<inter> dom h1 = {}
      \<and> (\<forall>a. a \<notin> set (m # as @ []) \<union> set new \<longrightarrow> h' a = h1 a)"
      using h1 k len False assms(4,5) disj by (intro list_insert_range_ring) simp_all
    then obtain h' new where range: "list_insert_range al m (hd (drop ?k bs @ [m2])) m2 h1 = Some h'"
      and rings: "ring h' m (as @ new) us" "ring h' m2 bs us" "dom h' = dom h \<union> set new"
      using h1(4) by auto
    from range have "list_insert_range al m b m2 h1 = Some h'" unfolding b by simp
    note h' = this rings
    have "list_assign al m m2 h = Some h'"
      using ne h1(1) h'(1) k(2) b b_ne ring_first [OF assms(1)] ring_first [OF assms(2)]
      by (simp add: list_assign_def list_begin_def list_end_def)
    moreover have "dom h' = dom h - set as \<union> set (as @ new)" using h'(4) dom_as by auto
    ultimately show ?thesis using h'(2,3) by blast
  qed
qed

lemma list_copy_ring:
  assumes "ring h m2 bs us" and "total_alloc al" and "finite (dom h)"
  shows "\<exists>m as h'. list_copy al m2 h = Some (m, h') \<and> ring h' m as us \<and> ring h' m2 bs us
    \<and> dom h' = dom h \<union> set (m # as) \<and> set (m # as) \<inter> dom h = {}"
proof -
  let ?m = "al h" and ?h = "h(al h \<mapsto> \<lparr>mVal = None, mpPrev = al h, mpNext = al h\<rparr>)"
  have al: "?m \<noteq> 0" "h ?m = None" using assms(2,3) by (auto simp: total_alloc_def)
  have prep: "list_prep al h = Some (?m, ?h)"
    using al by (simp add: list_prep_def setPrev_def setNext_def Let_def)
  have notin: "?m \<notin> set (m2 # bs)" using ring_dom [OF assms(1)] al by auto
  have new: "ring ?h ?m [] []" using assms(1) al by (simp add: ring_def)
  have src: "ring ?h m2 bs us"
  proof (rule ring_frame [OF assms(1)])
    show "?h a = h a" if "a \<in> set (m2 # bs)" for a using that notin by auto
    show "?h 0 = None" using new by (simp add: ring_def)
  qed
  have "\<exists>h' as. list_insert_range al (hd ([] @ [?m])) (hd (bs @ [m2])) m2 ?h = Some h'
    \<and> ring h' ?m ([] @ as @ []) ([] @ us @ []) \<and> ring h' m2 ([] @ bs) ([] @ us)
    \<and> dom h' = dom ?h \<union> set as \<and> set as \<inter> dom ?h = {}
    \<and> (\<forall>a. a \<notin> set (?m # [] @ []) \<union> set as \<longrightarrow> h' a = ?h a)"
    using new src notin assms(2,3) by (intro list_insert_range_ring) auto
  then obtain h' as where h': "list_insert_range al ?m (hd (bs @ [m2])) m2 ?h = Some h'" "ring h' ?m as us"
    "ring h' m2 bs us" "dom h' = dom ?h \<union> set as" "set as \<inter> dom ?h = {}" by auto
  have "list_copy al m2 h = Some (?m, h')"
    using prep h'(1) ring_first [OF new] ring_first [OF src]
    by (simp add: list_copy_def list_begin_def list_end_def)
  with h' al show ?thesis by (intro exI [of _ ?m] exI [of _ as] exI [of _ h']) auto
qed

section \<open>The list as an abstract data type\<close>

text \<open>
  What a client of the class relies on: an abstraction to lists, and operations that return and act
  on it. The methods of one list over a heap are an instance; the second component of a state is the
  heap, the first the address of the list.
\<close>

locale sequence_container =
  fixes alpha :: "'s \<Rightarrow> 'a list"
    and inv :: "'s \<Rightarrow> bool"
    and push_front push_back :: "'a \<Rightarrow> 's \<Rightarrow> 's option"
    and clear :: "'s \<Rightarrow> 's option"
    and count :: "'s \<Rightarrow> nat option"
    and is_empty :: "'s \<Rightarrow> bool option"
  assumes push_front_spec: "inv s \<Longrightarrow> \<exists>s'. push_front v s = Some s' \<and> inv s' \<and> alpha s' = v # alpha s"
    and push_back_spec: "inv s \<Longrightarrow> \<exists>s'. push_back v s = Some s' \<and> inv s' \<and> alpha s' = alpha s @ [v]"
    and clear_spec: "inv s \<Longrightarrow> \<exists>s'. clear s = Some s' \<and> inv s' \<and> alpha s' = []"
    and count_spec: "inv s \<Longrightarrow> count s = Some (length (alpha s))"
    and is_empty_spec: "inv s \<Longrightarrow> is_empty s = Some (alpha s = [])"
begin

fun push_all :: "'a list \<Rightarrow> 's \<Rightarrow> 's option" where
  "push_all [] s = Some s"
| "push_all (v # vs) s = Option.bind (push_back v s) (push_all vs)"

lemma push_all_spec: "inv s \<Longrightarrow> \<exists>s'. push_all vs s = Some s' \<and> inv s' \<and> alpha s' = alpha s @ vs"
proof (induction vs arbitrary: s)
  case Nil
  then show ?case by simp
next
  case (Cons v vs)
  obtain s1 where s1: "push_back v s = Some s1" "inv s1" "alpha s1 = alpha s @ [v]"
    using push_back_spec [OF Cons.prems] by blast
  with Cons.IH [OF s1(2)] show ?case by auto
qed

lemma clear_then_push_all:
  "inv s \<Longrightarrow> \<exists>s'. Option.bind (clear s) (push_all vs) = Some s' \<and> alpha s' = vs \<and> count s' = Some (length vs)
     \<and> is_empty s' = Some (vs = [])"
proof -
  assume "inv s"
  then obtain s1 where s1: "clear s = Some s1" "inv s1" "alpha s1 = []" using clear_spec by blast
  obtain s' where "push_all vs s1 = Some s'" "inv s'" "alpha s' = vs"
    using push_all_spec [OF s1(2)] s1(3) by fastforce
  with s1(1) show ?thesis using count_spec is_empty_spec by simp
qed

end

text \<open>A list object in a heap: the address of its middle node and the values of its nodes.\<close>

definition list_inv :: "nat \<times> 'a heap \<Rightarrow> bool" where
  "list_inv s \<longleftrightarrow> finite (dom (snd s)) \<and> (\<exists>as xs. ring (snd s) (fst s) as xs)"

definition list_alpha :: "nat \<times> 'a heap \<Rightarrow> 'a list" where
  "list_alpha s = (THE xs. \<exists>as. ring (snd s) (fst s) as xs)"

lemma ring_unique:
  assumes "ring h m as xs" and "ring h m bs ys"
  shows "as = bs \<and> xs = ys"
proof -
  have walk: "as' = bs'" if "List.map (getNext h) (p # as') = List.map Some (as' @ [m])"
      and "List.map (getNext h) (p # bs') = List.map Some (bs' @ [m])" and "m \<notin> set as'" "m \<notin> set bs'"
      for p as' bs'
    using that
  proof (induction as' arbitrary: p bs')
    case Nil
    then show ?case by (cases bs') auto
  next
    case (Cons a as')
    then obtain b bs'' where bs: "bs' = b # bs''" by (cases bs') auto
    with Cons.prems have "a = b" by simp
    with bs Cons.prems Cons.IH [of b bs''] show ?case by auto
  qed
  have "as = bs" using assms ring_simps(2) by (intro walk) (auto simp: ring_def)
  moreover from this assms have "List.map Some xs = List.map Some ys" by (simp add: ring_def)
  ultimately show ?thesis by (simp add: inj_map_eq_map)
qed

lemma list_alpha_ring: "ring (snd s) (fst s) as xs \<Longrightarrow> list_alpha s = xs"
  unfolding list_alpha_def using ring_unique by (intro the_equality) blast+

definition on_heap :: "(nat \<Rightarrow> 'a heap \<Rightarrow> 'a heap option) \<Rightarrow> nat \<times> 'a heap \<Rightarrow> (nat \<times> 'a heap) option" where
  "on_heap f s = map_option (Pair (fst s)) (f (fst s) (snd s))"

lemma on_heap_pair: "on_heap f (m, h) = map_option (Pair m) (f m h)"
  by (simp add: on_heap_def)

lemma list_push_front_ring:
  assumes "ring h m as xs" and "total_alloc al" and "finite (dom h)"
  shows "\<exists>h'. list_push_front al m v h = Some h' \<and> ring h' m (al h # as) (v # xs) \<and> dom h' = insert (al h) (dom h)"
proof -
  have al: "al h \<noteq> 0" "h (al h) = None" using assms(2,3) by (auto simp: total_alloc_def)
  show ?thesis
    using list_insert_ring [where al = al and l = "[]" and r = as and xs = "[]" and ys = xs and v = v
        and posn = "hd (as @ [m])" and h = h and m = m] assms(1) al ring_first [OF assms(1)]
    by (auto simp: list_push_front_def list_begin_def)
qed

lemma list_push_back_ring:
  assumes "ring h m as xs" and "total_alloc al" and "finite (dom h)"
  shows "\<exists>h'. list_push_back al m v h = Some h' \<and> ring h' m (as @ [al h]) (xs @ [v]) \<and> dom h' = insert (al h) (dom h)"
proof -
  have al: "al h \<noteq> 0" "h (al h) = None" using assms(2,3) by (auto simp: total_alloc_def)
  show ?thesis
    using list_insert_ring [where al = al and l = as and r = "[]" and xs = xs and ys = "[]" and v = v
        and posn = m and h = h and m = m] assms(1) al ring_simps(1) [OF assms(1)]
    by (auto simp: list_push_back_def list_end_def)
qed

lemma list_size_ring: "ring h m as xs \<Longrightarrow> list_size h m = Some (length xs)"
  using list_distance_ring [of h m "[]" as xs 0] ring_first [of h m as xs] ring_simps(1) [of h m as xs]
  by (simp add: list_size_def list_begin_def list_end_def)

lemma list_empty_ring: "ring h m as xs \<Longrightarrow> list_empty h m = Some (xs = [])"
  using ring_first [of h m as xs] ring_simps(1,2) [of h m as xs]
  by (cases as) (auto simp: list_empty_def)

text \<open>An allocator that always finds an address on a finite heap.\<close>

definition next_free :: "'a heap \<Rightarrow> nat" where
  "next_free h = Suc (Max (insert 0 (dom h)))"

lemma next_free_total: "total_alloc next_free"
  unfolding total_alloc_def
proof (intro allI impI conjI)
  fix h :: "'a heap"
  assume fin: "finite (dom h)"
  show "next_free h \<noteq> 0" by (simp add: next_free_def)
  have "next_free h \<notin> dom h"
  proof
    assume "next_free h \<in> dom h"
    then have "next_free h \<le> Max (insert 0 (dom h))" using fin by (intro Max_ge) auto
    then show False by (simp add: next_free_def)
  qed
  then show "h (next_free h) = None" by (simp add: domIff)
qed

interpretation nodes: sequence_container list_alpha list_inv
    "\<lambda>v. on_heap (\<lambda>m. list_push_front next_free m v)" "\<lambda>v. on_heap (\<lambda>m. list_push_back next_free m v)"
    "on_heap list_clear" "\<lambda>s. list_size (snd s) (fst s)" "\<lambda>s. list_empty (snd s) (fst s)"
proof
  fix s :: "nat \<times> 'a heap" and v :: 'a
  assume inv: "list_inv s"
  then obtain as xs where ring: "ring (snd s) (fst s) as xs" and fin: "finite (dom (snd s))"
    by (auto simp: list_inv_def)
  note alpha = list_alpha_ring [OF ring]
  obtain h1 where h1: "list_push_front next_free (fst s) v (snd s) = Some h1"
      "ring h1 (fst s) (next_free (snd s) # as) (v # xs)" "dom h1 = insert (next_free (snd s)) (dom (snd s))"
    using list_push_front_ring [OF ring next_free_total fin] by blast
  then show "\<exists>s'. on_heap (\<lambda>m. list_push_front next_free m v) s = Some s' \<and> list_inv s' \<and> list_alpha s' = v # list_alpha s"
    using fin alpha list_alpha_ring [of "(fst s, h1)"]
    by (intro exI [of _ "(fst s, h1)"]) (auto simp: on_heap_def list_inv_def)
  obtain h2 where h2: "list_push_back next_free (fst s) v (snd s) = Some h2"
      "ring h2 (fst s) (as @ [next_free (snd s)]) (xs @ [v])" "dom h2 = insert (next_free (snd s)) (dom (snd s))"
    using list_push_back_ring [OF ring next_free_total fin] by blast
  then show "\<exists>s'. on_heap (\<lambda>m. list_push_back next_free m v) s = Some s' \<and> list_inv s' \<and> list_alpha s' = list_alpha s @ [v]"
    using fin alpha list_alpha_ring [of "(fst s, h2)"]
    by (intro exI [of _ "(fst s, h2)"]) (auto simp: on_heap_def list_inv_def)
  obtain h3 where h3: "list_clear (fst s) (snd s) = Some h3" "ring h3 (fst s) [] []" "dom h3 = dom (snd s) - set as"
    using list_clear_ring [OF ring] by blast
  then show "\<exists>s'. on_heap list_clear s = Some s' \<and> list_inv s' \<and> list_alpha s' = []"
    using fin list_alpha_ring [of "(fst s, h3)"]
    by (intro exI [of _ "(fst s, h3)"]) (auto simp: on_heap_def list_inv_def)
  show "list_size (snd s) (fst s) = Some (length (list_alpha s))"
    using list_size_ring [OF ring] alpha by simp
  show "list_empty (snd s) (fst s) = Some (list_alpha s = [])"
    using list_empty_ring [OF ring] alpha by simp
qed

section \<open>Properties\<close>

text \<open>Two lists in one heap: the middle nodes are 1 and 3.\<close>

definition sample_heap :: "nat heap" where
  "sample_heap = [1 \<mapsto> \<lparr>mVal = None, mpPrev = 2, mpNext = 2\<rparr>, 2 \<mapsto> \<lparr>mVal = Some 7, mpPrev = 1, mpNext = 1\<rparr>,
     3 \<mapsto> \<lparr>mVal = None, mpPrev = 5, mpNext = 4\<rparr>, 4 \<mapsto> \<lparr>mVal = Some 8, mpPrev = 3, mpNext = 5\<rparr>,
     5 \<mapsto> \<lparr>mVal = Some 9, mpPrev = 4, mpNext = 3\<rparr>]"

lemma sample_rings: "ring sample_heap 1 [2] [7]" "ring sample_heap 3 [4, 5] [8, 9]" "finite (dom sample_heap)"
  by (simp_all add: sample_heap_def ring_def getNext_def getPrev_def getRef_def)

text \<open>C31 The assignment of one list to another, whatever their lengths, ends, follows no wild pointer and
  leaves both with the values of the source; the nodes of the source are untouched, and the nodes in
  use afterwards are the old ones less those of the target, plus the new ones of the target.\<close>

theorem list_assign_correct:
  assumes "ring h m as xs" and "ring h m2 bs us" and "set (m # as) \<inter> set (m2 # bs) = {}"
    and "total_alloc al" and "finite (dom h)"
  shows "\<exists>h' as'. list_assign al m m2 h = Some h' \<and> ring h' m as' us \<and> ring h' m2 bs us
    \<and> dom h' = dom h - set as \<union> set as'"
  using assms by (rule list_assign_ring)

lemma list_assign_correct_witness:
  "\<exists>h' as'. list_assign next_free 1 3 sample_heap = Some h' \<and> ring h' 1 as' [8, 9] \<and> ring h' 3 [4, 5] [8, 9]
    \<and> dom h' = dom sample_heap - set [2] \<union> set as'"
  by (rule list_assign_correct [OF sample_rings(1,2) _ next_free_total sample_rings(3)]) simp

text \<open>C30 Inserting before any node of a list, or before its end, puts the new value between the values
  before and after the position and returns the new node, when the allocator gives a free address; erasing
  any node of a list drops exactly its value, frees exactly that node and returns the one after it. In both
  cases every other node of the list keeps its address, its place and its value, and the nodes outside the
  list are untouched.\<close>

theorem list_insert_erase_correct:
  assumes "ring h m (l @ r) (xs @ ys)" and "length xs = length l"
  shows "(al h \<noteq> 0 \<and> h (al h) = None \<longrightarrow>
      (\<exists>h'. list_insert al (hd (r @ [m])) v h = Some (al h, h') \<and> ring h' m (l @ al h # r) (xs @ v # ys)
        \<and> dom h' = insert (al h) (dom h) \<and> (\<forall>a. a \<notin> set (al h # m # l @ r) \<longrightarrow> h' a = h a)))
    \<and> (\<forall>p r'. r = p # r' \<longrightarrow>
      (\<exists>h'. list_erase p h = Some (hd (r' @ [m]), h') \<and> ring h' m (l @ r') (xs @ tl ys)
        \<and> dom h' = dom h - {p} \<and> (\<forall>a. a \<notin> set (m # l @ r) \<longrightarrow> h' a = h a)))"
proof (intro conjI impI allI)
  assume "al h \<noteq> 0 \<and> h (al h) = None"
  then show "\<exists>h'. list_insert al (hd (r @ [m])) v h = Some (al h, h') \<and> ring h' m (l @ al h # r) (xs @ v # ys)
      \<and> dom h' = insert (al h) (dom h) \<and> (\<forall>a. a \<notin> set (al h # m # l @ r) \<longrightarrow> h' a = h a)"
    using list_insert_ring [where al = al, OF assms refl] by blast
next
  fix p r'
  assume r: "r = p # r'"
  obtain y ys' where ys: "ys = y # ys'" using ring_simps(1) [OF assms(1)] assms(2) r by (cases ys) auto
  show "\<exists>h'. list_erase p h = Some (hd (r' @ [m]), h') \<and> ring h' m (l @ r') (xs @ tl ys)
      \<and> dom h' = dom h - {p} \<and> (\<forall>a. a \<notin> set (m # l @ r) \<longrightarrow> h' a = h a)"
    using list_erase_ring [OF assms(1) [unfolded r ys] assms(2)] by (auto simp: r ys)
qed

lemma list_insert_erase_correct_witness:
  "(\<exists>h'. list_insert (\<lambda>_. 6) 5 (1 :: nat) sample_heap = Some (6, h') \<and> ring h' 3 [4, 6, 5] [8, 1, 9])
   \<and> (\<exists>h'. list_erase 5 sample_heap = Some (3, h') \<and> ring h' 3 [4] [8] \<and> h' 2 = sample_heap 2)"
  using list_insert_erase_correct [of sample_heap 3 "[4]" "[5]" "[8]" "[9]" "\<lambda>_. 6" 1] sample_rings(2)
  by (auto simp: sample_heap_def)

text \<open>C34 Destroying a list ends and frees exactly its own nodes, the middle one included.\<close>

theorem list_destroy_frees_all:
  assumes "ring h m as xs"
  shows "\<exists>h'. list_destroy m h = Some h' \<and> dom h' = dom h - set (m # as)
    \<and> (\<forall>a. a \<notin> set (m # as) \<longrightarrow> h' a = h a)"
proof -
  obtain h1 where "list_clear m h = Some h1" "dom h1 = dom h - set as" "\<forall>a. a \<notin> set (m # as) \<longrightarrow> h1 a = h a"
    using list_clear_ring [OF assms] by blast
  then show ?thesis by (intro exI [of _ "h1(m := None)"]) (auto simp: list_destroy_def)
qed

lemma list_destroy_frees_all_witness:
  "\<exists>h'. list_destroy 3 sample_heap = Some h' \<and> dom h' = dom sample_heap - set [3, 4, 5]"
  using list_destroy_frees_all [OF sample_rings(2)] by auto

text \<open>After \<open>clear\<close> and any sequence of \<open>push_back\<close> calls the list holds exactly the values pushed, in
  order, and \<open>size\<close> and \<open>empty\<close> say so.\<close>

theorem list_push_back_sequence:
  assumes "ring h m as xs" and "finite (dom h)"
  shows "\<exists>h'. Option.bind (list_clear m h) (\<lambda>h1. foldl (\<lambda>s v. Option.bind s (list_push_back next_free m v)) (Some h1) vs) = Some h'
    \<and> list_alpha (m, h') = vs \<and> list_size h' m = Some (length vs) \<and> list_empty h' m = Some (vs = [])"
proof -
  have fold: "foldl (\<lambda>s v. Option.bind s (list_push_back next_free m v)) (Some g) vs =
      map_option snd (nodes.push_all vs (m, g))" for g :: "'a heap"
  proof (induction vs arbitrary: g)
    case Nil
    then show ?case by simp
  next
    case (Cons v vs)
    have none: "foldl (\<lambda>s v. Option.bind s (list_push_back next_free m v)) None vs = None" for vs
      by (induction vs) simp_all
    from Cons none show ?case
      by (cases "list_push_back next_free m v g") (simp_all add: on_heap_pair)
  qed
  have "list_inv (m, h)" using assms by (auto simp: list_inv_def)
  then obtain s' where s': "Option.bind (on_heap list_clear (m, h)) (nodes.push_all vs) = Some s'"
      "list_alpha s' = vs" "list_size (snd s') (fst s') = Some (length vs)" "list_empty (snd s') (fst s') = Some (vs = [])"
    using nodes.clear_then_push_all by blast
  obtain h1 where h1: "list_clear m h = Some h1" using list_clear_ring [OF assms(1)] by blast
  have fst_push: "nodes.push_all vs s = Some t \<Longrightarrow> fst t = fst s" for vs :: "'a list" and s t
  proof (induction vs arbitrary: s)
    case Nil
    then show ?case by simp
  next
    case (Cons v vs)
    from Cons.prems obtain s1 where "on_heap (\<lambda>m. list_push_back next_free m v) s = Some s1" "nodes.push_all vs s1 = Some t"
      by (auto split: bind_splits)
    moreover from this(1) have "fst s1 = fst s" by (auto simp: on_heap_def)
    ultimately show ?case using Cons.IH by simp
  qed
  have "nodes.push_all vs (m, h1) = Some s'" using s'(1) h1 by (simp add: on_heap_pair)
  moreover from fst_push [OF this] obtain h' where "s' = (m, h')" by (cases s') simp
  ultimately show ?thesis using s'(2-4) h1 by (intro exI [of _ h']) (simp add: fold)
qed

lemma list_push_back_sequence_witness:
  "\<exists>h'. Option.bind (list_clear 3 sample_heap) (\<lambda>h1. foldl (\<lambda>s v. Option.bind s (list_push_back next_free 3 v)) (Some h1) [1, 2, 3])
     = Some h' \<and> list_size h' 3 = Some 3"
  using list_push_back_sequence [OF sample_rings(2,3), of "[1, 2, 3]"] by (auto simp: numeral_3_eq_3)

text \<open>The result of \<open>new (std::nothrow)\<close> is used unchecked: when it is null, inserting dereferences it.\<close>

theorem list_insert_unchecked_allocation:
  assumes "al h = 0" and "h 0 = None"
  shows "list_insert al posn v h = None"
  using assms by (simp add: list_insert_def Let_def setNext_def)

lemma list_insert_unchecked_allocation_witness: "list_insert (\<lambda>_. 0) 5 (1 :: nat) sample_heap = None"
  by (rule list_insert_unchecked_allocation) (simp_all add: sample_heap_def)

end
