(* ===== verification/KeymintAuthSet.thy ===== *)
theory KeymintAuthSet
  imports KeymintTags
begin

text \<open>
  \<open>keymint_support/authorization_set.h\<close>: the classes \<open>AuthorizationSet\<close> and \<open>AuthorizationSetBuilder\<close> of
  KeyMint. A set is its vector \<open>data_\<close>, a list of parameters. The methods defined in
  \<open>authorization_set.cpp\<close> are the fields of the record \<open>kset_ext\<close>; the locale \<open>kset_functions\<close> states their
  comments. A loop over another set is the loop over the list it had when the call began.
\<close>

type_synonym kset = "KeyParameter list"

record kset_ext =
  kx_find :: "kset \<Rightarrow> int \<Rightarrow> int \<Rightarrow> int"
  kx_GetEntry :: "kset \<Rightarrow> int \<Rightarrow> KeyParameter option"

section \<open>Construction and assignment\<close>

definition kset_empty :: kset where
  "kset_empty = []"

definition kset_copy :: "kset \<Rightarrow> kset" where
  "kset_copy other = other"

text \<open>The move constructor and the move assignment; \<open>left\<close> is what the move of the vector leaves.\<close>

definition kset_move :: "kset \<Rightarrow> kset \<Rightarrow> kset \<times> kset" where
  "kset_move left other = (other, left)"

definition kset_assign :: "kset \<Rightarrow> kset \<Rightarrow> kset" where
  "kset_assign this other = other"

fun assign_elements :: "nat \<Rightarrow> nat \<Rightarrow> kset \<Rightarrow> kset \<Rightarrow> kset" where
  "assign_elements 0 i data other = data"
| "assign_elements (Suc k) i data other = assign_elements k (Suc i) (data[i := other ! i]) other"

definition vector_resize :: "nat \<Rightarrow> kset \<Rightarrow> kset" where
  "vector_resize n data = take n data @ replicate (n - length data) KeyParameter_default"

definition kset_assign_vector :: "kset \<Rightarrow> kset \<Rightarrow> kset" where
  "kset_assign_vector this other =
     (if 0 < length other
      then let data = vector_resize (length other) this in assign_elements (length data) 0 data other
      else this)"

definition kset_from_vector :: "kset \<Rightarrow> kset" where
  "kset_from_vector other = kset_assign_vector kset_empty other"

definition kset_size :: "kset \<Rightarrow> nat" where
  "kset_size s = length s"

definition kset_is_empty :: "kset \<Rightarrow> bool" where
  "kset_is_empty s \<longleftrightarrow> kset_size s = 0"

definition kset_vector_data :: "kset \<Rightarrow> kset" where
  "kset_vector_data s = s"

section \<open>Lookup\<close>

definition kset_Contains_tag :: "kset_ext \<Rightarrow> kset \<Rightarrow> int \<Rightarrow> bool" where
  "kset_Contains_tag X s tag \<longleftrightarrow> kx_find X s tag (- 1) \<noteq> - 1"

text \<open>\<open>None\<close> when there is no accessor for the tag and the call does not compile.\<close>

fun contains_loop :: "int \<Rightarrow> KeyParameterValue \<Rightarrow> kset \<Rightarrow> bool option" where
  "contains_loop tag v [] = Some False"
| "contains_loop tag v (param # rest) = (case authorizationValue tag param of
       None \<Rightarrow> None
     | Some entry \<Rightarrow> if entry = Some v then Some True else contains_loop tag v rest)"

definition kset_Contains_value :: "kset \<Rightarrow> int \<Rightarrow> KeyParameterValue \<Rightarrow> bool option" where
  "kset_Contains_value s tag v = contains_loop tag v s"

definition kset_GetTagValue :: "kset_ext \<Rightarrow> kset \<Rightarrow> int \<Rightarrow> KeyParameterValue option option" where
  "kset_GetTagValue X s tag = (case unionTag tag of
       None \<Rightarrow> None
     | Some _ \<Rightarrow> (case kx_GetEntry X s tag of
           Some entry \<Rightarrow> authorizationValue tag entry
         | None \<Rightarrow> Some None))"

section \<open>Appending\<close>

definition kset_push_back :: "kset \<Rightarrow> KeyParameter \<Rightarrow> kset" where
  "kset_push_back s param = s @ [param]"

fun kset_append :: "kset \<Rightarrow> kset \<Rightarrow> kset" where
  "kset_append s [] = s"
| "kset_append s (entry # rest) = kset_append (kset_push_back s entry) rest"

definition kset_push_back_set :: "kset \<Rightarrow> kset \<Rightarrow> kset" where
  "kset_push_back_set s other = kset_append s other"

definition kset_push_back_typed :: "kset \<Rightarrow> int \<Rightarrow> kp_arg list \<Rightarrow> kset option" where
  "kset_push_back_typed s tag args = map_option (kset_push_back s) (keymint_Authorization tag args)"

section \<open>AuthorizationSetBuilder\<close>

definition kbuilder_Authorization :: "kset \<Rightarrow> int \<Rightarrow> kp_arg list \<Rightarrow> kset option" where
  "kbuilder_Authorization b tag args = kset_push_back_typed b tag args"

text \<open>The overloads for tags of type \<open>BYTES\<close>: bytes with a length, a character array whose terminating
  zero is dropped, a string. \<open>mem\<close> is the memory behind the pointer.\<close>

definition kbuilder_bytes :: "kset \<Rightarrow> int \<Rightarrow> byte list \<Rightarrow> nat \<Rightarrow> kset option" where
  "kbuilder_bytes b tag mem data_length =
     (if typeFromTag tag = TagType_val TagType_BYTES
      then kset_push_back_typed b tag [Arg_bytes (take data_length mem)] else None)"

definition kbuilder_char_array :: "kset \<Rightarrow> int \<Rightarrow> byte list \<Rightarrow> kset option" where
  "kbuilder_char_array b tag data = kbuilder_bytes b tag data (length data - 1)"

definition kbuilder_string :: "kset \<Rightarrow> int \<Rightarrow> byte list \<Rightarrow> kset option" where
  "kbuilder_string b tag data = kbuilder_bytes b tag data (length data)"

definition kbuilder_Authorizations :: "kset \<Rightarrow> kset \<Rightarrow> kset" where
  "kbuilder_Authorizations b other = kset_append b other"

definition AttestationChallenge_string :: "kset \<Rightarrow> byte list \<Rightarrow> kset option" where
  "AttestationChallenge_string b challenge = kbuilder_string b (Tag_val Tag_ATTESTATION_CHALLENGE) challenge"

definition AttestationChallenge :: "kset \<Rightarrow> byte list \<Rightarrow> kset option" where
  "AttestationChallenge b challenge =
     kbuilder_Authorization b (Tag_val Tag_ATTESTATION_CHALLENGE) [Arg_bytes challenge]"

definition AttestationApplicationId_string :: "kset \<Rightarrow> byte list \<Rightarrow> kset option" where
  "AttestationApplicationId_string b aid = kbuilder_string b (Tag_val Tag_ATTESTATION_APPLICATION_ID) aid"

definition AttestationApplicationId :: "kset \<Rightarrow> byte list \<Rightarrow> kset option" where
  "AttestationApplicationId b aid =
     kbuilder_Authorization b (Tag_val Tag_ATTESTATION_APPLICATION_ID) [Arg_bytes aid]"

section \<open>Lemmas\<close>

lemma kset_append_eq [simp]: "kset_append s other = s @ other"
  by (induction s other rule: kset_append.induct) (simp_all add: kset_push_back_def)

lemma assign_elements_eq:
  "length data = length other \<Longrightarrow> i + k = length other \<Longrightarrow>
   assign_elements k i data other = take i data @ drop i other"
proof (induction k arbitrary: i data)
  case (Suc k)
  have i: "i < length other" using Suc.prems by simp
  have "assign_elements (Suc k) i data other = take (Suc i) (data[i := other ! i]) @ drop (Suc i) other"
    using Suc.IH [of "data[i := other ! i]" "Suc i"] Suc.prems by simp
  also have "take (Suc i) (data[i := other ! i]) = take i data @ [other ! i]"
    using i Suc.prems by (simp add: take_Suc_conv_app_nth)
  finally show ?case using i by (simp add: Cons_nth_drop_Suc)
qed simp

lemma vector_resize_length [simp]: "length (vector_resize n data) = n"
  by (simp add: vector_resize_def)

lemma kset_assign_vector_eq: "kset_assign_vector this other = (if other = [] then this else other)"
  by (simp add: kset_assign_vector_def Let_def assign_elements_eq)

text \<open>A value is contained exactly when some parameter has the tag and the value, the alternative of the
  value being the one of the tag.\<close>

lemma contains_loop_iff:
  "unionTag tag = Some f \<Longrightarrow> KeyParameterValue_getTag v = f \<Longrightarrow>
   contains_loop tag v s = Some (KeyParameter tag v \<in> set s)"
proof (induction s)
  case (Cons p s)
  have "authorizationValue tag p = Some (Some v) \<longleftrightarrow> p = KeyParameter tag v"
    using Cons.prems by (cases p) (auto simp: authorizationValue_def accessTagValue_def)
  moreover have "\<exists>e. authorizationValue tag p = Some e"
    using Cons.prems by (auto simp: authorizationValue_def accessTagValue_def)
  ultimately show ?case using Cons by auto
qed simp

section \<open>The contract of the methods defined elsewhere\<close>

locale kset_functions =
  fixes X :: kset_ext
  assumes find_first: "kx_find X s tag (- 1) \<noteq> - 1 \<longleftrightarrow> tag \<in> KeyParameter_tag ` set s"
begin

lemma Contains_appended: "kset_Contains_tag X (s @ p # r) t \<longleftrightarrow> t = KeyParameter_tag p \<or> kset_Contains_tag X (s @ r) t"
  by (auto simp: kset_Contains_tag_def find_first)

end

definition doc_kset :: kset_ext where
  "doc_kset = \<lparr>
     kx_find = (\<lambda>s tag b. case find (\<lambda>i. KeyParameter_tag (s ! i) = tag) [nat (b + 1)..<length s] of
                  None \<Rightarrow> - 1 | Some i \<Rightarrow> int i),
     kx_GetEntry = (\<lambda>s tag. find (\<lambda>p. KeyParameter_tag p = tag) s)\<rparr>"

interpretation doc_kset: kset_functions doc_kset
proof
  fix s tag
  have "(\<exists>p\<in>set s. KeyParameter_tag p = tag) \<longleftrightarrow> (\<exists>i<length s. KeyParameter_tag (s ! i) = tag)"
    by (metis in_set_conv_nth)
  then show "kx_find doc_kset s tag (- 1) \<noteq> - 1 \<longleftrightarrow> tag \<in> KeyParameter_tag ` set s"
    by (auto simp: doc_kset_def find_None_iff image_iff dest!: find_SomeD split: option.splits)
qed

section \<open>Properties\<close>

text \<open>The assignment of a vector makes the set the vector, except that an empty vector leaves the set as
  it was: the old authorizations stay.\<close>

theorem assign_vector_keeps_old:
  "kset_assign_vector this other = (if other = [] then this else other)
   \<and> kset_from_vector other = other"
  by (simp add: kset_assign_vector_eq kset_from_vector_def kset_empty_def)

text \<open>C37 \<open>Authorization\<close> of the builder appends one parameter, of its tag and with a value that stands for its
  arguments, after everything appended earlier. From then on the set contains exactly the tags and exactly
  the values it contained before, and this tag and value.\<close>

theorem builder_value_found:
  assumes "kset_functions X" and "kbuilder_Authorization b tag args = Some b'"
  shows "\<exists>v. b' = b @ [KeyParameter tag v] \<and> stands_for v args
    \<and> (\<forall>t. kset_Contains_tag X b' t \<longleftrightarrow> t = tag \<or> kset_Contains_tag X b t)
    \<and> (\<forall>t w. unionTag t = Some (KeyParameterValue_getTag w) \<longrightarrow>
        kset_Contains_value b' t w = Some (t = tag \<and> w = v \<or> kset_Contains_value b t w = Some True))
    \<and> kset_Contains_value b' tag v = Some True"
proof -
  obtain p where p: "keymint_Authorization tag args = Some p" "b' = b @ [p]"
    using assms(2) by (auto simp: kbuilder_Authorization_def kset_push_back_typed_def kset_push_back_def)
  note u = Authorization_union [OF p(1)] and v = Authorization_stands [OF p(1)]
  then have b': "b' = b @ [KeyParameter tag (KeyParameter_value p)]" using p(2) by (metis KeyParameter.exhaust_sel)
  show ?thesis
    using u v kset_functions.Contains_appended [OF assms(1), of b _ "[]"]
    by (intro exI [of _ "KeyParameter_value p"]) (auto simp: b' kset_Contains_value_def contains_loop_iff)
qed

lemma builder_value_found_witness:
  "\<exists>v. [KeyParameter (Tag_val Tag_NONCE) (KPV_blob_value [1, 2])] = [] @ [KeyParameter (Tag_val Tag_NONCE) v]
    \<and> stands_for v [Arg_bytes [1, 2]]
    \<and> kset_Contains_value [KeyParameter (Tag_val Tag_NONCE) (KPV_blob_value [1, 2])] (Tag_val Tag_NONCE) v = Some True"
proof -
  have "kbuilder_Authorization [] (Tag_val Tag_NONCE) [Arg_bytes [1, 2]]
      = Some [KeyParameter (Tag_val Tag_NONCE) (KPV_blob_value [1, 2])]"
    by (simp add: kbuilder_Authorization_def kset_push_back_typed_def kset_push_back_def keymint_Authorization_def
        makeKeyParameter_def unionTag_def type_accessors_def typeFromTag_def make_value_def)
  from builder_value_found [OF doc_kset.kset_functions_axioms this] show ?thesis by blast
qed

end
