(* ===== verification/KeymintOutput.thy ===== *)
theory KeymintOutput
  imports AidlTags AidlErrors AidlValues KeymintAuthSet
begin

text \<open>
  \<open>keymint_support/key_param_output.h\<close> and the data of \<open>keymint_support/attestation_record.h\<close>. An output stream is
  the text written to it so far. \<open>out_param\<close> is the operator for \<open>KeyParameter\<close>, which the header declares
  only. The template for \<open>std::optional\<close> is left out: its body calls \<open>isOk\<close>, which that class does not
  have, so no instance of it compiles.
\<close>

section \<open>Writing enumeration values\<close>

definition put_Algorithm :: "string \<Rightarrow> int \<Rightarrow> string" where
  "put_Algorithm os value = os @ Algorithm_toString value"

definition put_BlockMode :: "string \<Rightarrow> int \<Rightarrow> string" where
  "put_BlockMode os value = os @ BlockMode_toString value"

definition put_Digest :: "string \<Rightarrow> int \<Rightarrow> string" where
  "put_Digest os value = os @ Digest_toString value"

definition put_EcCurve :: "string \<Rightarrow> int \<Rightarrow> string" where
  "put_EcCurve os value = os @ EcCurve_toString value"

definition put_ErrorCode :: "string \<Rightarrow> int \<Rightarrow> string" where
  "put_ErrorCode os value = os @ ErrorCode_toString value"

definition put_KeyOrigin :: "string \<Rightarrow> int \<Rightarrow> string" where
  "put_KeyOrigin os value = os @ KeyOrigin_toString value"

definition put_PaddingMode :: "string \<Rightarrow> int \<Rightarrow> string" where
  "put_PaddingMode os value = os @ PaddingMode_toString value"

definition put_SecurityLevel :: "string \<Rightarrow> int \<Rightarrow> string" where
  "put_SecurityLevel os value = os @ SecurityLevel_toString value"

definition put_KeyPurpose :: "string \<Rightarrow> int \<Rightarrow> string" where
  "put_KeyPurpose os value = os @ KeyPurpose_toString value"

definition put_Tag :: "string \<Rightarrow> int \<Rightarrow> string" where
  "put_Tag os value = os @ Tag_toString value"

text \<open>
  What the operators share: the text of a value goes behind what is in the stream, and two values never
  give the same text.
\<close>

locale printer =
  fixes put :: "string \<Rightarrow> int \<Rightarrow> string" and text_of :: "int \<Rightarrow> string"
  assumes puts: "put os v = os @ text_of v"
    and text_inject: "text_of v = text_of w \<longleftrightarrow> v = w"
begin

lemma put_distinguishes: "put os v = put os w \<longleftrightarrow> v = w"
  by (simp add: puts text_inject)

lemma put_behind: "put (os @ s) v = os @ put s v"
  by (simp add: puts)

end

interpretation put_Algorithm: printer put_Algorithm Algorithm_toString
  by unfold_locales (simp_all add: put_Algorithm_def Algorithm_toString_def)

interpretation put_BlockMode: printer put_BlockMode BlockMode_toString
  by unfold_locales (simp_all add: put_BlockMode_def BlockMode_toString_def)

interpretation put_Digest: printer put_Digest Digest_toString
  by unfold_locales (simp_all add: put_Digest_def Digest_toString_def)

interpretation put_EcCurve: printer put_EcCurve EcCurve_toString
  by unfold_locales (simp_all add: put_EcCurve_def EcCurve_toString_def)

interpretation put_ErrorCode: printer put_ErrorCode ErrorCode_toString
  by unfold_locales (simp_all add: put_ErrorCode_def ErrorCode_toString_def)

interpretation put_KeyOrigin: printer put_KeyOrigin KeyOrigin_toString
  by unfold_locales (simp_all add: put_KeyOrigin_def KeyOrigin_toString_def)

interpretation put_PaddingMode: printer put_PaddingMode PaddingMode_toString
  by unfold_locales (simp_all add: put_PaddingMode_def PaddingMode_toString_def)

interpretation put_SecurityLevel: printer put_SecurityLevel SecurityLevel_toString
  by unfold_locales (simp_all add: put_SecurityLevel_def SecurityLevel_toString_def)

interpretation put_KeyPurpose: printer put_KeyPurpose KeyPurpose_toString
  by unfold_locales (simp_all add: put_KeyPurpose_def KeyPurpose_toString_def)

interpretation put_Tag: printer put_Tag Tag_toString
  by unfold_locales (simp_all add: put_Tag_def Tag_toString_def)

section \<open>Writing the characteristics of a key\<close>

primrec put_authorizations ::
    "(string \<Rightarrow> KeyParameter \<Rightarrow> string) \<Rightarrow> int \<Rightarrow> string \<Rightarrow> KeyParameter list \<Rightarrow> string" where
  "put_authorizations out_param level os [] = os"
| "put_authorizations out_param level os (entry # rest) =
     put_authorizations out_param level (out_param (put_SecurityLevel os level @ '': '') entry) rest"

definition put_KeyCharacteristics ::
    "(string \<Rightarrow> KeyParameter \<Rightarrow> string) \<Rightarrow> string \<Rightarrow> KeyCharacteristics \<Rightarrow> string" where
  "put_KeyCharacteristics out_param os value =
     put_authorizations out_param (KeyCharacteristics_securityLevel value) os (KeyCharacteristics_authorizations value)"

text \<open>Every entry is written with the security level in front of it, and nothing between entries.\<close>

lemma put_KeyCharacteristics_text:
  assumes "\<And>os p. out_param os p = os @ text_of p"
  shows "put_KeyCharacteristics out_param os value = os @ concat (List.map
    (\<lambda>p. SecurityLevel_toString (KeyCharacteristics_securityLevel value) @ '': '' @ text_of p)
    (KeyCharacteristics_authorizations value))"
proof -
  have "put_authorizations out_param level os ps =
      os @ concat (List.map (\<lambda>p. SecurityLevel_toString level @ '': '' @ text_of p) ps)" for level ps
    by (induction ps arbitrary: os) (simp_all add: assms put_SecurityLevel.puts)
  then show ?thesis by (simp add: put_KeyCharacteristics_def)
qed

section \<open>Data of an attestation record\<close>

definition kAttestionRecordOid :: string where
  "kAttestionRecordOid = ''1.3.6.1.4.1.11129.2.1.17''"

definition kCrlDPOid :: string where
  "kCrlDPOid = ''2.5.29.31''"

datatype VerifiedBoot = VB_VERIFIED | VB_SELF_SIGNED | VB_UNVERIFIED | VB_FAILED

fun VerifiedBoot_val :: "VerifiedBoot \<Rightarrow> byte" where
  "VerifiedBoot_val VB_VERIFIED = 0"
| "VerifiedBoot_val VB_SELF_SIGNED = 1"
| "VerifiedBoot_val VB_UNVERIFIED = 2"
| "VerifiedBoot_val VB_FAILED = 3"

record root_of_trust =
  rot_security_level :: int
  rot_verified_boot_key :: "byte list"
  rot_verified_boot_hash :: "byte list"
  rot_verified_boot_state :: VerifiedBoot
  rot_device_locked :: bool

record attestation_record =
  ar_root_of_trust :: root_of_trust
  ar_attestation_version :: u32
  ar_attestation_security_level :: int
  ar_keymint_version :: u32
  ar_keymint_security_level :: int
  ar_attestation_challenge :: "byte list"
  ar_software_enforced :: kset
  ar_hardware_enforced :: kset
  ar_unique_id :: "byte list"

lemma VerifiedBoot_val_inject: "VerifiedBoot_val v = VerifiedBoot_val w \<longleftrightarrow> v = w"
  by (cases v; cases w) simp_all

end
