(* ===== verification/KmResult.thy ===== *)
theory KmResult
  imports MsgTypes
begin

text \<open>
  \<open>keymaster/keymaster_utils.h\<close>: \<open>KmErrorOr\<close>, a value or an error that must be looked at before it is
  destroyed, and \<open>keymaster/keymaster_enforcement.h\<close> with
  \<open>km_openssl/soft_keymaster_enforcement.h\<close>: the state that the inline methods of the enforcement policy
  keep. The error codes are those of \<open>hardware/keymaster_defs.h\<close>; \<open>unknown\<close> is \<open>KM_ERROR_UNKNOWN_ERROR\<close>.
\<close>

section \<open>KmErrorOr\<close>

record 'a km_error_or =
  eo_error :: u32
  eo_value :: "'a option"
  eo_checked :: bool

definition KmErrorOr :: "u32 \<Rightarrow> 'a km_error_or" where
  "KmErrorOr unknown = \<lparr>eo_error = unknown, eo_value = None, eo_checked = True\<rparr>"

definition KmErrorOr_of_error :: "u32 \<Rightarrow> 'a km_error_or" where
  "KmErrorOr_of_error e = \<lparr>eo_error = e, eo_value = None, eo_checked = False\<rparr>"

definition KmErrorOr_of_value :: "'a \<Rightarrow> 'a km_error_or" where
  "KmErrorOr_of_value v = \<lparr>eo_error = KM_ERROR_OK, eo_value = Some v, eo_checked = False\<rparr>"

text \<open>The move assignment exchanges all three fields; the result is the target and the source.\<close>

definition KmErrorOr_move_assign :: "bool \<Rightarrow> 'a km_error_or \<Rightarrow> 'a km_error_or \<Rightarrow> 'a km_error_or \<times> 'a km_error_or" where
  "KmErrorOr_move_assign same this other =
     (if same then (this, other)
      else (this\<lparr>eo_error := eo_error other, eo_value := eo_value other, eo_checked := eo_checked other\<rparr>,
            other\<lparr>eo_error := eo_error this, eo_value := eo_value this, eo_checked := eo_checked this\<rparr>))"

definition KmErrorOr_move :: "u32 \<Rightarrow> 'a km_error_or \<Rightarrow> 'a km_error_or \<times> 'a km_error_or" where
  "KmErrorOr_move unknown other =
     KmErrorOr_move_assign False \<lparr>eo_error = unknown, eo_value = None, eo_checked = True\<rparr> other"

text \<open>The destructor calls \<open>abort\<close>, which is \<open>None\<close>, when the result was not checked.\<close>

definition KmErrorOr_destroy :: "'a km_error_or \<Rightarrow> unit option" where
  "KmErrorOr_destroy r = (if \<not> eo_checked r then None else Some ())"

definition isOk :: "'a km_error_or \<Rightarrow> bool \<times> 'a km_error_or" where
  "isOk r = (let r' = r\<lparr>eo_checked := True\<rparr> in (case eo_value r' of None \<Rightarrow> False | Some _ \<Rightarrow> True, r'))"

definition get_error :: "u32 \<Rightarrow> 'a km_error_or \<Rightarrow> u32" where
  "get_error unknown r = (if eo_checked r then eo_error r else unknown)"

text \<open>\<open>value()\<close>, \<open>operator->\<close> and \<open>operator*\<close>: \<open>None\<close> is the exception of \<open>std::optional\<close>.\<close>

definition get_value :: "'a km_error_or \<Rightarrow> 'a option" where
  "get_value r = eo_value r"

section \<open>Programs that handle results\<close>

text \<open>The results that are alive, by name, with the number of results that were produced by a
  constructor from an error or a value (\<open>made\<close>) and the number of those that were checked (\<open>seen\<close>).\<close>

record 'a results =
  live :: "nat \<Rightarrow> 'a km_error_or option"
  made :: nat
  seen :: nat

inductive result_step :: "u32 \<Rightarrow> 'a results \<Rightarrow> 'a results \<Rightarrow> bool" for unknown :: u32 where
  make_empty: "live s n = None \<Longrightarrow>
    result_step unknown s (s\<lparr>live := (live s)(n \<mapsto> KmErrorOr unknown)\<rparr>)"
| make_error: "live s n = None \<Longrightarrow>
    result_step unknown s (s\<lparr>live := (live s)(n \<mapsto> KmErrorOr_of_error e), made := Suc (made s)\<rparr>)"
| make_value: "live s n = None \<Longrightarrow>
    result_step unknown s (s\<lparr>live := (live s)(n \<mapsto> KmErrorOr_of_value v), made := Suc (made s)\<rparr>)"
| move_new: "live s n = None \<Longrightarrow> live s m = Some r \<Longrightarrow> KmErrorOr_move unknown r = (r1, r2) \<Longrightarrow>
    result_step unknown s (s\<lparr>live := (live s)(n \<mapsto> r1, m \<mapsto> r2)\<rparr>)"
| move_over: "live s n = Some q \<Longrightarrow> live s m = Some r \<Longrightarrow> KmErrorOr_move_assign (n = m) q r = (r1, r2) \<Longrightarrow>
    result_step unknown s (s\<lparr>live := (live s)(n \<mapsto> r1, m \<mapsto> r2)\<rparr>)"
| check: "live s n = Some r \<Longrightarrow> isOk r = (b, r') \<Longrightarrow>
    result_step unknown s (s\<lparr>live := (live s)(n \<mapsto> r'), seen := seen s + (if eo_checked r then 0 else 1)\<rparr>)"
| destroy: "live s n = Some r \<Longrightarrow> KmErrorOr_destroy r = Some () \<Longrightarrow>
    result_step unknown s (s\<lparr>live := (live s)(n := None)\<rparr>)"

definition no_results :: "'a results" where
  "no_results = \<lparr>live = (\<lambda>_. None), made = 0, seen = 0\<rparr>"

inductive result_run :: "u32 \<Rightarrow> 'a results \<Rightarrow> bool" for unknown :: u32 where
  run_start: "result_run unknown no_results"
| run_step: "result_run unknown s \<Longrightarrow> result_step unknown s s' \<Longrightarrow> result_run unknown s'"

inductive_cases result_step_elim: "result_step unknown s s'"

text \<open>The names of the results that still have to be checked.\<close>

definition pending :: "(nat \<Rightarrow> 'a km_error_or option) \<Rightarrow> nat set" where
  "pending l = {n. case l n of None \<Rightarrow> False | Some r \<Rightarrow> \<not> eo_checked r}"

lemma pending_upd:
  "pending (l(n \<mapsto> r)) = (if eo_checked r then pending l - {n} else insert n (pending l))"
  "pending (l(n := None)) = pending l - {n}"
  by (auto simp: pending_def)

lemma pending_simps: "n \<in> pending l \<longleftrightarrow> (\<exists>r. l n = Some r \<and> \<not> eo_checked r)"
  by (auto simp: pending_def split: option.splits)

definition results_ok :: "'a results \<Rightarrow> bool" where
  "results_ok s \<longleftrightarrow> finite (pending (live s)) \<and> made s = seen s + card (pending (live s))
     \<and> (\<forall>n r v. live s n = Some r \<longrightarrow> eo_value r = Some v \<longrightarrow> eo_error r = KM_ERROR_OK)"

lemmas result_defs = KmErrorOr_def KmErrorOr_of_error_def KmErrorOr_of_value_def KmErrorOr_move_def
  KmErrorOr_move_assign_def KmErrorOr_destroy_def isOk_def

lemma pending_swap:
  assumes "l n = Some q" "l m = Some r" "n \<noteq> m" "eo_checked r1 = eo_checked r" "eo_checked r2 = eo_checked q"
    and "finite (pending l)"
  shows "finite (pending (l(n \<mapsto> r1, m \<mapsto> r2))) \<and> card (pending (l(n \<mapsto> r1, m \<mapsto> r2))) = card (pending l)"
proof -
  have "m \<in> pending l \<longleftrightarrow> \<not> eo_checked r" "n \<in> pending l \<longleftrightarrow> \<not> eo_checked q"
    using assms by (simp_all add: pending_simps)
  then have "pending (l(n \<mapsto> r1, m \<mapsto> r2)) = (if eo_checked q = eo_checked r then pending l
      else if eo_checked q then insert n (pending l - {m}) else insert m (pending l - {n}))"
    using assms by (auto simp: pending_upd)
  moreover have "m \<in> pending l \<Longrightarrow> n \<notin> pending l \<Longrightarrow> card (insert n (pending l - {m})) = card (pending l)"
    "n \<in> pending l \<Longrightarrow> m \<notin> pending l \<Longrightarrow> card (insert m (pending l - {n})) = card (pending l)"
    using assms(6) by (metis Diff_iff card_Suc_Diff1 card_insert_disjoint finite_Diff)+
  ultimately show ?thesis
    using \<open>m \<in> pending l \<longleftrightarrow> _\<close> \<open>n \<in> pending l \<longleftrightarrow> _\<close> assms(6) by auto
qed

lemma step_pending:
  assumes "result_step unknown s s'" and "finite (pending (live s))" "made s = seen s + card (pending (live s))"
  shows "finite (pending (live s')) \<and> made s' = seen s' + card (pending (live s'))"
  using assms(1)
proof cases
  case (make_empty n)
  then have "n \<notin> pending (live s)" by (simp add: pending_simps)
  with assms make_empty show ?thesis by (simp add: pending_upd result_defs)
next
  case (make_error n e)
  then have "n \<notin> pending (live s)" by (simp add: pending_simps)
  with assms make_error show ?thesis by (simp add: pending_upd result_defs)
next
  case (make_value n v)
  then have "n \<notin> pending (live s)" by (simp add: pending_simps)
  with assms make_value show ?thesis by (simp add: pending_upd result_defs)
next
  case (move_new n m r r1 r2)
  then have nm: "n \<noteq> m" "n \<notin> pending (live s)" by (auto simp: pending_simps)
  have "m \<in> pending (live s) \<longleftrightarrow> \<not> eo_checked r" using move_new by (simp add: pending_simps)
  moreover have "eo_checked r2" "eo_checked r1 = eo_checked r" using move_new by (auto simp: result_defs)
  ultimately show ?thesis using assms(2,3) move_new nm
    by (auto simp: pending_upd card_insert_if card_Diff_singleton_if)
next
  case (move_over n q m r r1 r2)
  show ?thesis
  proof (cases "n = m")
    case True
    with move_over have "live s' = live s" by (auto simp: result_defs fun_eq_iff)
    with move_over assms(2,3) show ?thesis by simp
  next
    case False
    with move_over have "live s' = (live s)(n \<mapsto> r1, m \<mapsto> r2)" "eo_checked r1 = eo_checked r" "eo_checked r2 = eo_checked q"
      by (auto simp: result_defs)
    with pending_swap [of "live s" n q m r r1 r2] False move_over assms(2,3) show ?thesis by simp
  qed
next
  case (check n r b r')
  have "n \<in> pending (live s) \<longleftrightarrow> \<not> eo_checked r" using check by (simp add: pending_simps)
  moreover have "eo_checked r'" using check by (auto simp: result_defs Let_def)
  ultimately show ?thesis using assms(2,3) check
    by (auto simp: pending_upd card_Diff_singleton_if) (metis card_gt_0_iff empty_iff Suc_pred)
next
  case (destroy n r)
  then have "n \<notin> pending (live s)" by (auto simp: pending_simps result_defs split: if_splits)
  with assms destroy show ?thesis by (simp add: pending_upd)
qed


lemma step_value_ok:
  assumes "result_step unknown s s'"
    and "\<And>n r v. live s n = Some r \<Longrightarrow> eo_value r = Some v \<Longrightarrow> eo_error r = KM_ERROR_OK"
    and "live s' n = Some r" "eo_value r = Some v"
  shows "eo_error r = KM_ERROR_OK"
  using assms(1)
  by cases (use assms(2-4) in \<open>auto simp: result_defs split: if_splits\<close>)

lemma run_ok: "result_run unknown s \<Longrightarrow> results_ok s"
proof (induction rule: result_run.induct)
  case run_start
  show ?case by (simp add: results_ok_def no_results_def pending_def)
next
  case (run_step s s')
  then show ?case
    using step_pending [OF run_step.hyps(2)] step_value_ok [OF run_step.hyps(2)]
    unfolding results_ok_def by blast
qed

section \<open>KeymasterEnforcement\<close>

record enforcement =
  early_boot_flag :: bool
  device_locked_at :: u64
  password_unlock_only :: bool

definition KeymasterEnforcement :: enforcement where
  "KeymasterEnforcement = \<lparr>early_boot_flag = True, device_locked_at = 0, password_unlock_only = False\<rparr>"

definition in_early_boot :: "enforcement \<Rightarrow> bool" where
  "in_early_boot e = early_boot_flag e"

definition early_boot_ended :: "enforcement \<Rightarrow> enforcement" where
  "early_boot_ended e = e\<lparr>early_boot_flag := False\<rparr>"

text \<open>\<open>now_ms\<close> is the result of \<open>get_current_time_ms()\<close>, which a subclass defines.\<close>

definition get_current_time :: "u64 \<Rightarrow> u32" where
  "get_current_time now_ms = ucast (now_ms div 1000)"

definition device_locked :: "u64 \<Rightarrow> bool \<Rightarrow> enforcement \<Rightarrow> enforcement" where
  "device_locked now_ms password_only e = e\<lparr>device_locked_at := now_ms, password_unlock_only := password_only\<rparr>"

text \<open>\<open>auth\<close> is the private method \<open>AuthorizeUpdateOrFinish\<close>, defined in \<open>keymaster_enforcement.cpp\<close>.\<close>

definition AuthorizeUpdate :: "('a \<Rightarrow> 'p \<Rightarrow> u64 \<Rightarrow> u32) \<Rightarrow> 'a \<Rightarrow> 'p \<Rightarrow> u64 \<Rightarrow> u32" where
  "AuthorizeUpdate auth auth_set operation_params op_handle = auth auth_set operation_params op_handle"

definition AuthorizeFinish :: "('a \<Rightarrow> 'p \<Rightarrow> u64 \<Rightarrow> u32) \<Rightarrow> 'a \<Rightarrow> 'p \<Rightarrow> u64 \<Rightarrow> u32" where
  "AuthorizeFinish auth auth_set operation_params op_handle = auth auth_set operation_params op_handle"

definition ComputeHmac :: "u32 \<Rightarrow> byte list \<Rightarrow> byte list km_error_or" where
  "ComputeHmac unimplemented data_to_mac = KmErrorOr_of_error unimplemented"

text \<open>The answers of \<open>SoftKeymasterEnforcement\<close>.\<close>

definition soft_activation_date_valid :: "u64 \<Rightarrow> bool" where
  "soft_activation_date_valid activation_date = True"

definition soft_expiration_date_passed :: "u64 \<Rightarrow> bool" where
  "soft_expiration_date_passed expiration_date = False"

definition soft_auth_token_timed_out :: "'t \<Rightarrow> u32 \<Rightarrow> bool" where
  "soft_auth_token_timed_out token timeout = False"

definition soft_ValidateTokenSignature :: "'t \<Rightarrow> bool" where
  "soft_ValidateTokenSignature token = True"

text \<open>The events that change the state of the policy; a time stamp comes with the lock.\<close>

inductive enforcement_step :: "enforcement \<Rightarrow> enforcement \<Rightarrow> bool" where
  boot_ends: "enforcement_step e (early_boot_ended e)"
| locks: "enforcement_step e (device_locked now password_only e)"

lemma early_boot_over:
  "enforcement_step\<^sup>*\<^sup>* e e' \<Longrightarrow> \<not> in_early_boot e \<Longrightarrow> \<not> in_early_boot e'"
  by (induction rule: rtranclp_induct)
    (auto simp: in_early_boot_def early_boot_ended_def device_locked_def elim!: enforcement_step.cases)

section \<open>Properties\<close>

text \<open>C35 In every run in which no result is destroyed unchecked, the results that were produced are those
  that were checked and those that are alive and still pending, moves included: when none is alive any
  more, each was checked. A result with a value has the error code \<open>KM_ERROR_OK\<close>.\<close>

theorem results_all_checked:
  assumes "result_run unknown s"
  shows "made s = seen s + card (pending (live s))
    \<and> (live s = (\<lambda>_. None) \<longrightarrow> made s = seen s)
    \<and> (\<forall>n r v. live s n = Some r \<longrightarrow> get_value r = Some v \<longrightarrow> eo_error r = KM_ERROR_OK)"
  using run_ok [OF assms] by (auto simp: results_ok_def get_value_def pending_def)

lemma results_all_checked_witness:
  "made (no_results\<lparr>live := [3 \<mapsto> KmErrorOr_of_error 7], made := 1\<rparr> :: nat results) = 1
   \<and> card (pending [3 \<mapsto> (KmErrorOr_of_error 7 :: nat km_error_or)]) = 1"
proof -
  have "result_run 9 (no_results\<lparr>live := [3 \<mapsto> KmErrorOr_of_error 7], made := 1\<rparr> :: nat results)"
    using run_step [OF run_start make_error [of no_results 3 9 7]] by (simp add: no_results_def)
  from results_all_checked [OF this] show ?thesis by (simp add: no_results_def)
qed

text \<open>A result that was made from an error and is not checked aborts when it is destroyed and hides its
  error; after \<open>isOk\<close>, which answers false, it does neither. A result that was moved from no longer has to be
  checked, and the new one still has to be.\<close>

theorem error_checked_before_use:
  "KmErrorOr_destroy (KmErrorOr_of_error e :: 'a km_error_or) = None
   \<and> get_error unknown (KmErrorOr_of_error e :: 'a km_error_or) = unknown
   \<and> fst (isOk (KmErrorOr_of_error e :: 'a km_error_or)) = False
   \<and> KmErrorOr_destroy (snd (isOk (KmErrorOr_of_error e :: 'a km_error_or))) = Some ()
   \<and> get_error unknown (snd (isOk (KmErrorOr_of_error e :: 'a km_error_or))) = e
   \<and> fst (KmErrorOr_move unknown r) = r
   \<and> snd (KmErrorOr_move unknown r) = KmErrorOr unknown
   \<and> KmErrorOr_destroy (snd (KmErrorOr_move unknown r)) = Some ()"
  by (simp add: result_defs get_error_def Let_def)

text \<open>Early boot ends once: after \<open>early_boot_ended\<close> no sequence of events of the policy brings it back.
  The clock in seconds repeats itself after \<open>2 ^ 32\<close> seconds, about 136 years.\<close>

theorem early_boot_never_returns:
  assumes "enforcement_step\<^sup>*\<^sup>* (early_boot_ended e) e'" and "unat now + 1000 * 2 ^ 32 < 2 ^ 64"
  shows "\<not> in_early_boot e' \<and> get_current_time (now + 1000 * 2 ^ 32) = get_current_time now"
proof
  show "\<not> in_early_boot e'"
    using assms(1) by (rule early_boot_over) (simp add: in_early_boot_def early_boot_ended_def)
  have "unat (now + 1000 * 2 ^ 32) = unat now + 1000 * 2 ^ 32"
    using assms(2) unat_add_lem [of now "1000 * 2 ^ 32"] by simp
  then have "unat ((now + 1000 * 2 ^ 32) div 1000) = unat (now div 1000) + 2 ^ 32"
    by (simp add: unat_div_distrib)
  then have "of_nat (unat ((now + 1000 * 2 ^ 32) div 1000)) = (of_nat (unat (now div 1000)) :: u32)"
    by simp
  then show "get_current_time (now + 1000 * 2 ^ 32) = get_current_time now"
    by (simp add: get_current_time_def)
qed

lemma early_boot_never_returns_witness:
  "\<not> in_early_boot (device_locked 5 True (early_boot_ended KeymasterEnforcement))
   \<and> get_current_time (5000 + 1000 * 2 ^ 32) = 5"
  using early_boot_never_returns [of KeymasterEnforcement "device_locked 5 True (early_boot_ended KeymasterEnforcement)" 5000]
  by (simp add: r_into_rtranclp locks get_current_time_def)

end
