(* ===== verification/CoseKey.thy ===== *)
theory CoseKey
  imports Prelude
begin

text \<open>
  \<open>keymaster/cppcose/cppcose.h\<close>: the constants of COSE structures, \<open>ErrMsgOr\<close> and the class \<open>CoseKey\<close>. The
  CBOR library cppbor and the key lengths of openssl are outside the repository: the record \<open>cose_env\<close> has
  what is used of them, over a type \<open>'m\<close> of CBOR maps, and the locale \<open>cbor_map\<close> states what a map keeps.
\<close>

type_synonym bytevec = "byte list"

section \<open>Constants\<close>

definition kCoseSign1EntryCount :: int where "kCoseSign1EntryCount = 4"

definition kCoseSign1ProtectedParams :: int where "kCoseSign1ProtectedParams = 0"

definition kCoseSign1UnprotectedParams :: int where "kCoseSign1UnprotectedParams = 1"

definition kCoseSign1Payload :: int where "kCoseSign1Payload = 2"

definition kCoseSign1Signature :: int where "kCoseSign1Signature = 3"

definition kCoseMac0EntryCount :: int where "kCoseMac0EntryCount = 4"

definition kCoseMac0Fields :: "int list" where "kCoseMac0Fields = [0, 1, 2, 3]"

definition kCoseEncryptEntryCount :: int where "kCoseEncryptEntryCount = 4"

definition kCoseEncryptFields :: "int list" where "kCoseEncryptFields = [0, 1, 2, 3]"

definition kCoseMac0SemanticTag :: int where "kCoseMac0SemanticTag = 17"

datatype cose_label = L_ALGORITHM | L_KEY_ID | L_IV | L_COSE_KEY

primrec cose_label_val :: "cose_label \<Rightarrow> int" where
  "cose_label_val L_ALGORITHM = 1"
| "cose_label_val L_KEY_ID = 4"
| "cose_label_val L_IV = 5"
| "cose_label_val L_COSE_KEY = - 1"

datatype CoseKeyAlgorithm = AES_GCM_256 | HMAC_256 | ES256 | EDDSA | ECDH_ES_HKDF_256 | ES384

primrec CoseKeyAlgorithm_val :: "CoseKeyAlgorithm \<Rightarrow> int" where
  "CoseKeyAlgorithm_val AES_GCM_256 = 3"
| "CoseKeyAlgorithm_val HMAC_256 = 5"
| "CoseKeyAlgorithm_val ES256 = - 7"
| "CoseKeyAlgorithm_val EDDSA = - 8"
| "CoseKeyAlgorithm_val ECDH_ES_HKDF_256 = - 25"
| "CoseKeyAlgorithm_val ES384 = - 35"

datatype CoseKeyCurve = P256 | P384 | X25519 | ED25519

primrec CoseKeyCurve_val :: "CoseKeyCurve \<Rightarrow> int" where
  "CoseKeyCurve_val P256 = 1"
| "CoseKeyCurve_val P384 = 2"
| "CoseKeyCurve_val X25519 = 4"
| "CoseKeyCurve_val ED25519 = 6"

datatype CoseKeyType = OCTET_KEY_PAIR | EC2 | SYMMETRIC_KEY

primrec CoseKeyType_val :: "CoseKeyType \<Rightarrow> int" where
  "CoseKeyType_val OCTET_KEY_PAIR = 1"
| "CoseKeyType_val EC2 = 2"
| "CoseKeyType_val SYMMETRIC_KEY = 4"

datatype CoseKeyOps = OP_SIGN | OP_VERIFY | OP_ENCRYPT | OP_DECRYPT

primrec CoseKeyOps_val :: "CoseKeyOps \<Rightarrow> int" where
  "CoseKeyOps_val OP_SIGN = 1"
| "CoseKeyOps_val OP_VERIFY = 2"
| "CoseKeyOps_val OP_ENCRYPT = 3"
| "CoseKeyOps_val OP_DECRYPT = 4"

definition kAesGcmNonceLength :: int where "kAesGcmNonceLength = 12"

definition kAesGcmTagSize :: int where "kAesGcmTagSize = 16"

definition kAesGcmKeySize :: int where "kAesGcmKeySize = 32"

definition kAesGcmKeySizeBits :: int where "kAesGcmKeySizeBits = 256"

datatype key_label = KEY_TYPE | KEY_ID | ALGORITHM | KEY_OPS | CURVE | PUBKEY_X | PUBKEY_Y | PRIVATE_KEY | TEST_KEY

primrec key_label_val :: "key_label \<Rightarrow> int" where
  "key_label_val KEY_TYPE = 1"
| "key_label_val KEY_ID = 2"
| "key_label_val ALGORITHM = 3"
| "key_label_val KEY_OPS = 4"
| "key_label_val CURVE = - 1"
| "key_label_val PUBKEY_X = - 2"
| "key_label_val PUBKEY_Y = - 3"
| "key_label_val PRIVATE_KEY = - 4"
| "key_label_val TEST_KEY = - 70000"

lemma key_label_inject [simp]: "key_label_val l = key_label_val l' \<longleftrightarrow> l = l'"
  by (cases l; cases l') simp_all

section \<open>ErrMsgOr\<close>

record 'a err_msg_or =
  errMsg :: string
  em_value :: "'a option"

definition ErrMsg :: "string \<Rightarrow> 'a err_msg_or" where
  "ErrMsg m = \<lparr>errMsg = m, em_value = None\<rparr>"

definition ErrMsgVal :: "'a \<Rightarrow> 'a err_msg_or" where
  "ErrMsgVal v = \<lparr>errMsg = [], em_value = Some v\<rparr>"

definition em_ok :: "'a err_msg_or \<Rightarrow> bool" where
  "em_ok r = (case em_value r of None \<Rightarrow> False | Some _ \<Rightarrow> True)"

text \<open>\<open>operator->\<close>, \<open>operator*\<close> and \<open>moveValue\<close> assert that there is a value; \<open>None\<close> is the failed assertion.\<close>

definition em_get :: "'a err_msg_or \<Rightarrow> 'a option" where
  "em_get r = em_value r"

lemmas em_defs = ErrMsg_def ErrMsgVal_def em_ok_def em_get_def

section \<open>CoseKey\<close>

datatype 'm cbor = C_int int | C_bstr bytevec | C_map 'm | C_other

record 'm cose_env =
  cx_parse :: "bytevec \<Rightarrow> 'm cbor option \<times> string"
  cx_get :: "'m \<Rightarrow> int \<Rightarrow> 'm cbor option"
  cx_add :: "'m \<Rightarrow> int \<Rightarrow> 'm cbor \<Rightarrow> 'm"
  cx_encode :: "'m \<Rightarrow> bytevec"
  ED25519_PUBLIC_KEY_LEN :: nat
  X25519_PUBLIC_VALUE_LEN :: nat

text \<open>A \<open>CoseKey\<close> is its map \<open>key_\<close>.\<close>

definition parse_key :: "'m cose_env \<Rightarrow> bytevec \<Rightarrow> 'm err_msg_or" where
  "parse_key X coseKey = (case cx_parse X coseKey of
       (None, msg) \<Rightarrow> ErrMsg (msg @ '' when parsing key'')
     | (Some (C_map m), _) \<Rightarrow> ErrMsgVal m
     | (Some _, _) \<Rightarrow> ErrMsg ''CoseKey must be a map'')"

definition checkIntValue :: "'m cose_env \<Rightarrow> 'm \<Rightarrow> key_label \<Rightarrow> int \<Rightarrow> bool" where
  "checkIntValue X m label expected = (case cx_get X m (key_label_val label) of
       Some (C_int v) \<Rightarrow> v = expected
     | _ \<Rightarrow> False)"

text \<open>The value is an \<open>int64_t\<close>, the result an \<open>int\<close>.\<close>

definition getIntValue :: "'m cose_env \<Rightarrow> 'm \<Rightarrow> key_label \<Rightarrow> int option" where
  "getIntValue X m label = (case cx_get X m (key_label_val label) of
       Some (C_int v) \<Rightarrow> Some (sint (of_int v :: u32))
     | _ \<Rightarrow> None)"

definition getBstrValue :: "'m cose_env \<Rightarrow> 'm \<Rightarrow> key_label \<Rightarrow> bytevec option" where
  "getBstrValue X m label = (case cx_get X m (key_label_val label) of
       Some (C_bstr v) \<Rightarrow> Some v
     | _ \<Rightarrow> None)"

definition parse_typed ::
    "'m cose_env \<Rightarrow> bytevec \<Rightarrow> CoseKeyType \<Rightarrow> CoseKeyAlgorithm \<Rightarrow> CoseKeyCurve \<Rightarrow> 'm err_msg_or" where
  "parse_typed X coseKey expectedKeyType expectedAlgorithm expectedCurve =
     (let key = parse_key X coseKey
      in case em_value key of
           None \<Rightarrow> key
         | Some m \<Rightarrow>
             if \<not> checkIntValue X m KEY_TYPE (CoseKeyType_val expectedKeyType)
                \<or> \<not> checkIntValue X m ALGORITHM (CoseKeyAlgorithm_val expectedAlgorithm)
                \<or> \<not> checkIntValue X m CURVE (CoseKeyCurve_val expectedCurve)
             then ErrMsg ''Unexpected key type:'' else key)"

text \<open>Whether a label has a byte string of the length, and whether it has any.\<close>

definition bstr_of_size :: "'m cose_env \<Rightarrow> 'm \<Rightarrow> key_label \<Rightarrow> nat \<Rightarrow> bool" where
  "bstr_of_size X m label n = (case cx_get X m (key_label_val label) of
       Some (C_bstr v) \<Rightarrow> length v = n
     | _ \<Rightarrow> False)"

definition has_bstr :: "'m cose_env \<Rightarrow> 'm \<Rightarrow> key_label \<Rightarrow> bool" where
  "has_bstr X m label = (case cx_get X m (key_label_val label) of Some (C_bstr v) \<Rightarrow> True | _ \<Rightarrow> False)"

definition parseEd25519 :: "'m cose_env \<Rightarrow> bytevec \<Rightarrow> 'm err_msg_or" where
  "parseEd25519 X coseKey =
     (let key = parse_typed X coseKey OCTET_KEY_PAIR EDDSA ED25519
      in case em_value key of
           None \<Rightarrow> key
         | Some m \<Rightarrow> if \<not> bstr_of_size X m PUBKEY_X (ED25519_PUBLIC_KEY_LEN X)
                    then ErrMsg ''Invalid Ed25519 public key'' else key)"

definition parseX25519 :: "'m cose_env \<Rightarrow> bytevec \<Rightarrow> bool \<Rightarrow> 'm err_msg_or" where
  "parseX25519 X coseKey requireKid =
     (let key = parse_typed X coseKey OCTET_KEY_PAIR ECDH_ES_HKDF_256 X25519
      in case em_value key of
           None \<Rightarrow> key
         | Some m \<Rightarrow>
             if \<not> bstr_of_size X m PUBKEY_X (X25519_PUBLIC_VALUE_LEN X) then ErrMsg ''Invalid X25519 public key''
             else if requireKid \<and> \<not> has_bstr X m KEY_ID then ErrMsg ''Missing KID'' else key)"

definition parseP256 :: "'m cose_env \<Rightarrow> bytevec \<Rightarrow> 'm err_msg_or" where
  "parseP256 X coseKey =
     (let key = parse_typed X coseKey EC2 ES256 P256
      in case em_value key of
           None \<Rightarrow> key
         | Some m \<Rightarrow> if \<not> bstr_of_size X m PUBKEY_X 32 \<or> \<not> bstr_of_size X m PUBKEY_Y 32
                    then ErrMsg ''Invalid P256 public key'' else key)"

definition parseP384 :: "'m cose_env \<Rightarrow> bytevec \<Rightarrow> 'm err_msg_or" where
  "parseP384 X coseKey =
     (let key = parse_typed X coseKey EC2 ES384 P384
      in case em_value key of
           None \<Rightarrow> key
         | Some m \<Rightarrow> if \<not> bstr_of_size X m PUBKEY_X 48 \<or> \<not> bstr_of_size X m PUBKEY_Y 48
                    then ErrMsg ''Invalid P384 public key'' else key)"

definition getEcPublicKey_of :: "bytevec \<Rightarrow> bytevec \<Rightarrow> bytevec err_msg_or" where
  "getEcPublicKey_of pubX pubY =
     (if pubX = [] \<or> pubY = [] then ErrMsg ''Missing input parameters''
      else let pubKey = []; pubKey = pubX @ pubKey; pubKey = pubKey @ pubY in ErrMsgVal pubKey)"

definition getEcPublicKey :: "'m cose_env \<Rightarrow> 'm \<Rightarrow> bytevec err_msg_or" where
  "getEcPublicKey X m = (case (getBstrValue X m PUBKEY_X, getBstrValue X m PUBKEY_Y) of
       (Some pubX, Some pubY) \<Rightarrow> getEcPublicKey_of pubX pubY
     | _ \<Rightarrow> ErrMsg ''Error while getting EC public key from CoseKey.'')"

definition key_add_int :: "'m cose_env \<Rightarrow> 'm \<Rightarrow> key_label \<Rightarrow> int \<Rightarrow> 'm" where
  "key_add_int X m label v = cx_add X m (key_label_val label) (C_int v)"

definition key_add_bstr :: "'m cose_env \<Rightarrow> 'm \<Rightarrow> key_label \<Rightarrow> bytevec \<Rightarrow> 'm" where
  "key_add_bstr X m label v = cx_add X m (key_label_val label) (C_bstr v)"

definition key_encode :: "'m cose_env \<Rightarrow> 'm \<Rightarrow> bytevec" where
  "key_encode X m = cx_encode X m"

section \<open>Lemmas\<close>

lemma parse_key_val: "em_value (parse_key X b) = Some m \<longleftrightarrow> (\<exists>msg. cx_parse X b = (Some (C_map m), msg))"
  by (auto simp: parse_key_def em_defs split: prod.splits option.splits cbor.splits)

lemma parse_typed_val:
  "em_value (parse_typed X b t a c) = Some m \<longleftrightarrow> em_value (parse_key X b) = Some m
     \<and> checkIntValue X m KEY_TYPE (CoseKeyType_val t) \<and> checkIntValue X m ALGORITHM (CoseKeyAlgorithm_val a)
     \<and> checkIntValue X m CURVE (CoseKeyCurve_val c)"
  by (auto simp: parse_typed_def em_defs Let_def split: option.splits)

lemma bstr_of_size_iff: "bstr_of_size X m l n \<longleftrightarrow> (\<exists>v. getBstrValue X m l = Some v \<and> length v = n)"
  by (auto simp: bstr_of_size_def getBstrValue_def split: option.splits cbor.splits)

lemma has_bstr_iff: "has_bstr X m l \<longleftrightarrow> getBstrValue X m l \<noteq> None"
  by (auto simp: has_bstr_def getBstrValue_def split: option.splits cbor.splits)

lemma checkIntValue_iff: "checkIntValue X m l v \<longleftrightarrow> cx_get X m (key_label_val l) = Some (C_int v)"
  by (auto simp: checkIntValue_def split: option.splits cbor.splits)

lemma getBstrValue_iff: "getBstrValue X m l = Some v \<longleftrightarrow> cx_get X m (key_label_val l) = Some (C_bstr v)"
  by (auto simp: getBstrValue_def split: option.splits cbor.splits)

lemma checkIntValue_unique: "checkIntValue X m l v \<Longrightarrow> checkIntValue X m l w \<Longrightarrow> v = w"
  by (auto simp: checkIntValue_def split: option.splits cbor.splits)

lemma parseP256_val:
  "em_value (parseP256 X b) = Some m \<longleftrightarrow> em_value (parse_typed X b EC2 ES256 P256) = Some m
     \<and> bstr_of_size X m PUBKEY_X 32 \<and> bstr_of_size X m PUBKEY_Y 32"
  by (auto simp: parseP256_def em_defs Let_def split: option.splits)

lemma parseP384_val:
  "em_value (parseP384 X b) = Some m \<longleftrightarrow> em_value (parse_typed X b EC2 ES384 P384) = Some m
     \<and> bstr_of_size X m PUBKEY_X 48 \<and> bstr_of_size X m PUBKEY_Y 48"
  by (auto simp: parseP384_def em_defs Let_def split: option.splits)

lemma parseEd25519_val:
  "em_value (parseEd25519 X b) = Some m \<longleftrightarrow> em_value (parse_typed X b OCTET_KEY_PAIR EDDSA ED25519) = Some m
     \<and> bstr_of_size X m PUBKEY_X (ED25519_PUBLIC_KEY_LEN X)"
  by (auto simp: parseEd25519_def em_defs Let_def split: option.splits)

lemma parseX25519_val:
  "em_value (parseX25519 X b kid) = Some m \<longleftrightarrow> em_value (parse_typed X b OCTET_KEY_PAIR ECDH_ES_HKDF_256 X25519) = Some m
     \<and> bstr_of_size X m PUBKEY_X (X25519_PUBLIC_VALUE_LEN X) \<and> (kid \<longrightarrow> has_bstr X m KEY_ID)"
  by (auto simp: parseX25519_def em_defs Let_def split: option.splits)


text \<open>The algorithm of what an encoding parses to, in which the accepted kinds differ.\<close>

definition parsed_algorithm :: "'m cose_env \<Rightarrow> bytevec \<Rightarrow> int option" where
  "parsed_algorithm X b = (case em_value (parse_key X b) of
       None \<Rightarrow> None
     | Some m \<Rightarrow> (case cx_get X m (key_label_val ALGORITHM) of Some (C_int v) \<Rightarrow> Some v | _ \<Rightarrow> None))"

lemma parsed_algorithm_typed:
  "em_value (parse_typed X b t a c) = Some m \<Longrightarrow> parsed_algorithm X b = Some (CoseKeyAlgorithm_val a)"
  unfolding parse_typed_val
  by (auto simp: parsed_algorithm_def checkIntValue_def split: option.splits cbor.splits)

lemma em_ok_iff: "em_ok r \<longleftrightarrow> (\<exists>v. em_value r = Some v)"
  by (simp add: em_ok_def split: option.splits)

section \<open>Maps\<close>

text \<open>What is added under a new label is found there, and the other labels keep what they had.\<close>

locale cbor_map =
  fixes X :: "'m cose_env"
  assumes get_added: "cx_get X m l = None \<Longrightarrow> cx_get X (cx_add X m l v) l' = (if l' = l then Some v else cx_get X m l')"
begin

lemma added_int [simp]:
  "cx_get X m (key_label_val l) = None \<Longrightarrow> checkIntValue X (key_add_int X m l v) l' w =
    (if l' = l then v = w else checkIntValue X m l' w)"
  by (simp add: checkIntValue_def key_add_int_def get_added)

lemma added_bstr [simp]:
  "cx_get X m (key_label_val l) = None \<Longrightarrow> getBstrValue X (key_add_bstr X m l v) l' =
    (if l' = l then Some v else getBstrValue X m l')"
  by (simp add: getBstrValue_def key_add_bstr_def get_added)

lemma added_other [simp]:
  "cx_get X m (key_label_val l) = None \<Longrightarrow> l' \<noteq> l \<Longrightarrow> checkIntValue X (key_add_bstr X m l b) l' w = checkIntValue X m l' w"
  "cx_get X m (key_label_val l) = None \<Longrightarrow> l' \<noteq> l \<Longrightarrow> getBstrValue X (key_add_int X m l v) l' = getBstrValue X m l'"
  "cx_get X m (key_label_val l) = None \<Longrightarrow> l' \<noteq> l \<Longrightarrow>
    cx_get X (key_add_int X m l v) (key_label_val l') = cx_get X m (key_label_val l')"
  "cx_get X m (key_label_val l) = None \<Longrightarrow> l' \<noteq> l \<Longrightarrow>
    cx_get X (key_add_bstr X m l b) (key_label_val l') = cx_get X m (key_label_val l')"
  by (simp_all add: checkIntValue_def getBstrValue_def key_add_int_def key_add_bstr_def get_added)

lemma built_ec_key:
  assumes "\<And>l. cx_get X start (key_label_val l) = None"
    and "m = key_add_bstr X (key_add_bstr X (key_add_int X (key_add_int X (key_add_int X start KEY_TYPE (CoseKeyType_val EC2))
      ALGORITHM (CoseKeyAlgorithm_val a)) CURVE (CoseKeyCurve_val c)) PUBKEY_X x) PUBKEY_Y y"
  shows "checkIntValue X m KEY_TYPE (CoseKeyType_val EC2) \<and> checkIntValue X m ALGORITHM (CoseKeyAlgorithm_val a)
    \<and> checkIntValue X m CURVE (CoseKeyCurve_val c) \<and> getBstrValue X m PUBKEY_X = Some x \<and> getBstrValue X m PUBKEY_Y = Some y"
  by (simp add: assms del: key_label_val.simps)

end

text \<open>Maps as lists of entries, the first one with a label being found, as in the library; the parser of the
  instance answers with a given map.\<close>

datatype doc_map = Doc_map (doc_entries: "(int \<times> doc_map cbor) list")

definition doc_cose :: "doc_map \<Rightarrow> doc_map cose_env" where
  "doc_cose parsed = \<lparr>
     cx_parse = (\<lambda>b. if b = [] then (None, ''Need 1 byte(s)'') else (Some (C_map parsed), [])),
     cx_get = (\<lambda>m l. map_of (doc_entries m) l),
     cx_add = (\<lambda>m l v. Doc_map (doc_entries m @ [(l, v)])),
     cx_encode = (\<lambda>m. []),
     ED25519_PUBLIC_KEY_LEN = 32, X25519_PUBLIC_VALUE_LEN = 32\<rparr>"

interpretation doc_cose: cbor_map "doc_cose parsed" for parsed
  by unfold_locales (auto simp: doc_cose_def map_add_def split: option.splits)

definition sample_p256 :: "bytevec \<Rightarrow> doc_map" where
  "sample_p256 y = Doc_map [(1, C_int 2), (3, C_int (- 7)), (- 1, C_int 1), (- 2, C_bstr (replicate 32 1)), (- 3, C_bstr y)]"

section \<open>Properties\<close>

text \<open>C38 \<open>parseP256\<close> returns a key exactly for encodings of a map that has, under the labels of key type,
  algorithm and curve, the numbers 2, -7 and 1 of a P-256 key, and under the labels of the coordinates
  byte strings of 32 bytes; the public key of such a key is the 64 bytes of both. Whatever else it is
  given, there is no key but a message.\<close>

theorem parse_p256_exact:
  "(em_value (parseP256 X b) = Some m \<longleftrightarrow> (\<exists>msg. cx_parse X b = (Some (C_map m), msg))
     \<and> cx_get X m 1 = Some (C_int 2) \<and> cx_get X m 3 = Some (C_int (- 7)) \<and> cx_get X m (- 1) = Some (C_int 1)
     \<and> (\<exists>x y. cx_get X m (- 2) = Some (C_bstr x) \<and> length x = 32 \<and> cx_get X m (- 3) = Some (C_bstr y) \<and> length y = 32
          \<and> em_value (getEcPublicKey X m) = Some (x @ y)))
   \<and> (em_value (parseP256 X b) = None \<longleftrightarrow> errMsg (parseP256 X b) \<noteq> [])"
proof
  have "em_value (getEcPublicKey X m) = Some (x @ y)"
    if "getBstrValue X m PUBKEY_X = Some x" "length x = 32" "getBstrValue X m PUBKEY_Y = Some y" "length y = 32" for x y
    using that by (auto simp: getEcPublicKey_def getEcPublicKey_of_def em_defs)
  then show "em_value (parseP256 X b) = Some m \<longleftrightarrow> (\<exists>msg. cx_parse X b = (Some (C_map m), msg))
     \<and> cx_get X m 1 = Some (C_int 2) \<and> cx_get X m 3 = Some (C_int (- 7)) \<and> cx_get X m (- 1) = Some (C_int 1)
     \<and> (\<exists>x y. cx_get X m (- 2) = Some (C_bstr x) \<and> length x = 32 \<and> cx_get X m (- 3) = Some (C_bstr y) \<and> length y = 32
          \<and> em_value (getEcPublicKey X m) = Some (x @ y))"
    unfolding parseP256_val parse_typed_val parse_key_val bstr_of_size_iff checkIntValue_iff getBstrValue_iff by auto
  show "em_value (parseP256 X b) = None \<longleftrightarrow> errMsg (parseP256 X b) \<noteq> []"
    by (auto simp: parseP256_def parse_typed_def parse_key_def em_defs Let_def split: option.splits prod.splits cbor.splits)
qed

text \<open>No encoding is accepted as two kinds of keys: what one of the four parsers accepts, the other three
  refuse.\<close>

theorem cose_parsers_exclusive:
  "length (filter id [em_ok (parseP256 X b), em_ok (parseP384 X b), em_ok (parseEd25519 X b), em_ok (parseX25519 X b kid)]) \<le> 1"
proof -
  let ?alg = "parsed_algorithm X b"
  have "em_ok (parseP256 X b) \<Longrightarrow> ?alg = Some (- 7)"
    using parsed_algorithm_typed [of X b EC2 ES256 P256] by (auto simp: em_ok_iff parseP256_val)
  moreover have "em_ok (parseP384 X b) \<Longrightarrow> ?alg = Some (- 35)"
    using parsed_algorithm_typed [of X b EC2 ES384 P384] by (auto simp: em_ok_iff parseP384_val)
  moreover have "em_ok (parseEd25519 X b) \<Longrightarrow> ?alg = Some (- 8)"
    using parsed_algorithm_typed [of X b OCTET_KEY_PAIR EDDSA ED25519] by (auto simp: em_ok_iff parseEd25519_val)
  moreover have "em_ok (parseX25519 X b kid) \<Longrightarrow> ?alg = Some (- 25)"
    using parsed_algorithm_typed [of X b OCTET_KEY_PAIR ECDH_ES_HKDF_256 X25519] by (auto simp: em_ok_iff parseX25519_val)
  ultimately show ?thesis
    by (cases "em_ok (parseP256 X b)"; cases "em_ok (parseP384 X b)"; cases "em_ok (parseEd25519 X b)";
        cases "em_ok (parseX25519 X b kid)") simp_all
qed

text \<open>A P-256 key that is built field by field on an empty map, and parsed from an encoding of the result, is
  accepted and has the public key of its coordinates.\<close>

theorem built_p256_key_accepted:
  assumes "cbor_map X" and "\<And>l. cx_get X start (key_label_val l) = None" and "length x = 32" and "length y = 32"
    and "m = key_add_bstr X (key_add_bstr X (key_add_int X (key_add_int X (key_add_int X start KEY_TYPE (CoseKeyType_val EC2))
      ALGORITHM (CoseKeyAlgorithm_val ES256)) CURVE (CoseKeyCurve_val P256)) PUBKEY_X x) PUBKEY_Y y"
    and "cx_parse X b = (Some (C_map m), msg)"
  shows "em_value (parseP256 X b) = Some m \<and> em_value (getEcPublicKey X m) = Some (x @ y)"
  using cbor_map.built_ec_key [OF assms(1,2,5)] assms(3,4,6)
  by (auto simp: parseP256_val parse_typed_val parse_key_val bstr_of_size_iff getEcPublicKey_def getEcPublicKey_of_def em_defs)

lemma built_p256_key_accepted_witness:
  "em_value (parseP256 (doc_cose (sample_p256 (replicate 32 9))) [0xA5]) = Some (sample_p256 (replicate 32 9))"
  using built_p256_key_accepted [OF doc_cose.cbor_map_axioms [of "sample_p256 (replicate 32 9)"], where start = "Doc_map []" and x = "replicate 32 1"
      and y = "replicate 32 9" and m = "sample_p256 (replicate 32 9)"
      and b = "[0xA5]" and msg = "[]"]
  by (simp add: doc_cose_def sample_p256_def key_add_int_def key_add_bstr_def)

text \<open>\<open>getIntValue\<close> narrows a 64-bit value to \<open>int\<close> where \<open>checkIntValue\<close> compares it as it is: a value beyond
  32 bits is reported as another one, which the check refuses.\<close>

theorem get_int_value_narrows:
  assumes "cx_get X m (key_label_val l) = Some (C_int v)"
  shows "(getIntValue X m l = Some v \<longleftrightarrow> - (2 ^ 31) \<le> v \<and> v < 2 ^ 31) \<and> (checkIntValue X m l w \<longleftrightarrow> v = w)"
  by (simp add: getIntValue_def checkIntValue_def assms sint_sbintrunc' signed_take_bit_int_eq_self_iff)

lemma get_int_value_narrows_witness:
  "getIntValue (doc_cose (Doc_map [])) (Doc_map [(1, C_int 0x100000002)]) KEY_TYPE = Some 2
   \<and> \<not> checkIntValue (doc_cose (Doc_map [])) (Doc_map [(1, C_int 0x100000002)]) KEY_TYPE 2"
  using get_int_value_narrows [of "doc_cose (Doc_map [])" "Doc_map [(1, C_int 0x100000002)]" KEY_TYPE "0x100000002" 2]
  by (simp add: doc_cose_def getIntValue_def)

end
