(* ===== verification/AttestRecord.thy ===== *)
theory AttestRecord
  imports MsgTypes KmTags
begin

text \<open>
  \<open>km_openssl/attestation_record.h\<close>: the ASN.1 templates of attestation records, the claims of EAT tokens
  and the version numbers of both. The numbers of the tags are in \<open>hardware/keymaster_defs.h\<close>, outside
  the repository, and are the argument \<open>code\<close>.
\<close>

unbundle bit_operations_syntax

section \<open>Versions\<close>

primrec version_to_attestation_km_version :: "KmVersion \<Rightarrow> u32" where
  "version_to_attestation_km_version KEYMASTER_1 = 0"
| "version_to_attestation_km_version KEYMASTER_1_1 = 0"
| "version_to_attestation_km_version KEYMASTER_2 = 2"
| "version_to_attestation_km_version KEYMASTER_3 = 3"
| "version_to_attestation_km_version KEYMASTER_4 = 4"
| "version_to_attestation_km_version KEYMASTER_4_1 = 41"
| "version_to_attestation_km_version KEYMINT_1 = 100"
| "version_to_attestation_km_version KEYMINT_2 = 200"
| "version_to_attestation_km_version KEYMINT_3 = 300"

primrec version_to_attestation_version :: "KmVersion \<Rightarrow> u32" where
  "version_to_attestation_version KEYMASTER_1 = 0"
| "version_to_attestation_version KEYMASTER_1_1 = 0"
| "version_to_attestation_version KEYMASTER_2 = 1"
| "version_to_attestation_version KEYMASTER_3 = 2"
| "version_to_attestation_version KEYMASTER_4 = 3"
| "version_to_attestation_version KEYMASTER_4_1 = 4"
| "version_to_attestation_version KEYMINT_1 = 100"
| "version_to_attestation_version KEYMINT_2 = 200"
| "version_to_attestation_version KEYMINT_3 = 300"

definition kCurrentKmVersion :: KmVersion where "kCurrentKmVersion = KEYMASTER_4_1"

definition UNIQUE_ID_SIZE :: int where "UNIQUE_ID_SIZE = 16"

section \<open>ASN.1 templates\<close>

datatype asn1_type = ASN1_INTEGER | ASN1_INTEGER_SET | ASN1_NULL | ASN1_OCTET_STRING | ASN1_BOOLEAN
  | ASN1_ENUMERATED | KM_ROOT_OF_TRUST_T | KM_AUTH_LIST_T

datatype asn1_kind = EXP_SET_OF_OPT | EXP_OPT

text \<open>An optional field with an explicit tag, the masked number of a Keymaster tag.\<close>

datatype asn1_entry = Asn1_entry (entry_kind: asn1_kind) (entry_field: string) (entry_type: asn1_type) (entry_tag: km_tag)

definition KM_ROOT_OF_TRUST :: "(string \<times> asn1_type) list" where
  "KM_ROOT_OF_TRUST =
    [(''verified_boot_key'', ASN1_OCTET_STRING), (''device_locked'', ASN1_BOOLEAN),
     (''verified_boot_state'', ASN1_ENUMERATED), (''verified_boot_hash'', ASN1_OCTET_STRING)]"

text \<open>The fields of the structure \<open>KM_AUTH_LIST\<close>, and its template.\<close>

definition km_auth_list_fields :: "(string \<times> asn1_type) list" where
  "km_auth_list_fields =
    [(''purpose'', ASN1_INTEGER_SET),
     (''algorithm'', ASN1_INTEGER),
     (''key_size'', ASN1_INTEGER),
     (''block_mode'', ASN1_INTEGER_SET),
     (''digest'', ASN1_INTEGER_SET),
     (''padding'', ASN1_INTEGER_SET),
     (''caller_nonce'', ASN1_NULL),
     (''min_mac_length'', ASN1_INTEGER),
     (''kdf'', ASN1_INTEGER_SET),
     (''ec_curve'', ASN1_INTEGER),
     (''rsa_public_exponent'', ASN1_INTEGER),
     (''mgf_digest'', ASN1_INTEGER_SET),
     (''rollback_resistance'', ASN1_NULL),
     (''early_boot_only'', ASN1_NULL),
     (''active_date_time'', ASN1_INTEGER),
     (''origination_expire_date_time'', ASN1_INTEGER),
     (''usage_expire_date_time'', ASN1_INTEGER),
     (''usage_count_limit'', ASN1_INTEGER),
     (''no_auth_required'', ASN1_NULL),
     (''user_auth_type'', ASN1_INTEGER),
     (''auth_timeout'', ASN1_INTEGER),
     (''allow_while_on_body'', ASN1_NULL),
     (''trusted_user_presence_required'', ASN1_NULL),
     (''trusted_confirmation_required'', ASN1_NULL),
     (''unlocked_device_required'', ASN1_NULL),
     (''all_applications'', ASN1_NULL),
     (''application_id'', ASN1_OCTET_STRING),
     (''creation_date_time'', ASN1_INTEGER),
     (''origin'', ASN1_INTEGER),
     (''rollback_resistant'', ASN1_NULL),
     (''root_of_trust'', KM_ROOT_OF_TRUST_T),
     (''os_version'', ASN1_INTEGER),
     (''os_patchlevel'', ASN1_INTEGER),
     (''attestation_application_id'', ASN1_OCTET_STRING),
     (''attestation_id_brand'', ASN1_OCTET_STRING),
     (''attestation_id_device'', ASN1_OCTET_STRING),
     (''attestation_id_product'', ASN1_OCTET_STRING),
     (''attestation_id_serial'', ASN1_OCTET_STRING),
     (''attestation_id_imei'', ASN1_OCTET_STRING),
     (''attestation_id_meid'', ASN1_OCTET_STRING),
     (''attestation_id_manufacturer'', ASN1_OCTET_STRING),
     (''attestation_id_model'', ASN1_OCTET_STRING),
     (''vendor_patchlevel'', ASN1_INTEGER),
     (''boot_patch_level'', ASN1_INTEGER),
     (''device_unique_attestation'', ASN1_NULL),
     (''identity_credential_key'', ASN1_NULL),
     (''attestation_id_second_imei'', ASN1_OCTET_STRING)]"

definition KM_AUTH_LIST :: "asn1_entry list" where
  "KM_AUTH_LIST =
    [Asn1_entry EXP_SET_OF_OPT ''purpose'' ASN1_INTEGER TAG_PURPOSE,
     Asn1_entry EXP_OPT ''algorithm'' ASN1_INTEGER TAG_ALGORITHM,
     Asn1_entry EXP_OPT ''key_size'' ASN1_INTEGER TAG_KEY_SIZE,
     Asn1_entry EXP_SET_OF_OPT ''block_mode'' ASN1_INTEGER TAG_BLOCK_MODE,
     Asn1_entry EXP_SET_OF_OPT ''digest'' ASN1_INTEGER TAG_DIGEST,
     Asn1_entry EXP_SET_OF_OPT ''padding'' ASN1_INTEGER TAG_PADDING,
     Asn1_entry EXP_OPT ''caller_nonce'' ASN1_NULL TAG_CALLER_NONCE,
     Asn1_entry EXP_OPT ''min_mac_length'' ASN1_INTEGER TAG_MIN_MAC_LENGTH,
     Asn1_entry EXP_SET_OF_OPT ''kdf'' ASN1_INTEGER TAG_KDF,
     Asn1_entry EXP_OPT ''ec_curve'' ASN1_INTEGER TAG_EC_CURVE,
     Asn1_entry EXP_OPT ''rsa_public_exponent'' ASN1_INTEGER TAG_RSA_PUBLIC_EXPONENT,
     Asn1_entry EXP_SET_OF_OPT ''mgf_digest'' ASN1_INTEGER TAG_RSA_OAEP_MGF_DIGEST,
     Asn1_entry EXP_OPT ''rollback_resistance'' ASN1_NULL TAG_ROLLBACK_RESISTANCE,
     Asn1_entry EXP_OPT ''early_boot_only'' ASN1_NULL TAG_EARLY_BOOT_ONLY,
     Asn1_entry EXP_OPT ''active_date_time'' ASN1_INTEGER TAG_ACTIVE_DATETIME,
     Asn1_entry EXP_OPT ''origination_expire_date_time'' ASN1_INTEGER TAG_ORIGINATION_EXPIRE_DATETIME,
     Asn1_entry EXP_OPT ''usage_expire_date_time'' ASN1_INTEGER TAG_USAGE_EXPIRE_DATETIME,
     Asn1_entry EXP_OPT ''usage_count_limit'' ASN1_INTEGER TAG_USAGE_COUNT_LIMIT,
     Asn1_entry EXP_OPT ''no_auth_required'' ASN1_NULL TAG_NO_AUTH_REQUIRED,
     Asn1_entry EXP_OPT ''user_auth_type'' ASN1_INTEGER TAG_USER_AUTH_TYPE,
     Asn1_entry EXP_OPT ''auth_timeout'' ASN1_INTEGER TAG_AUTH_TIMEOUT,
     Asn1_entry EXP_OPT ''allow_while_on_body'' ASN1_NULL TAG_ALLOW_WHILE_ON_BODY,
     Asn1_entry EXP_OPT ''trusted_user_presence_required'' ASN1_NULL TAG_TRUSTED_USER_PRESENCE_REQUIRED,
     Asn1_entry EXP_OPT ''trusted_confirmation_required'' ASN1_NULL TAG_TRUSTED_CONFIRMATION_REQUIRED,
     Asn1_entry EXP_OPT ''unlocked_device_required'' ASN1_NULL TAG_UNLOCKED_DEVICE_REQUIRED,
     Asn1_entry EXP_OPT ''all_applications'' ASN1_NULL TAG_ALL_APPLICATIONS,
     Asn1_entry EXP_OPT ''application_id'' ASN1_OCTET_STRING TAG_APPLICATION_ID,
     Asn1_entry EXP_OPT ''creation_date_time'' ASN1_INTEGER TAG_CREATION_DATETIME,
     Asn1_entry EXP_OPT ''origin'' ASN1_INTEGER TAG_ORIGIN,
     Asn1_entry EXP_OPT ''rollback_resistant'' ASN1_NULL TAG_ROLLBACK_RESISTANT,
     Asn1_entry EXP_OPT ''root_of_trust'' KM_ROOT_OF_TRUST_T TAG_ROOT_OF_TRUST,
     Asn1_entry EXP_OPT ''os_version'' ASN1_INTEGER TAG_OS_VERSION,
     Asn1_entry EXP_OPT ''os_patchlevel'' ASN1_INTEGER TAG_OS_PATCHLEVEL,
     Asn1_entry EXP_OPT ''attestation_application_id'' ASN1_OCTET_STRING TAG_ATTESTATION_APPLICATION_ID,
     Asn1_entry EXP_OPT ''attestation_id_brand'' ASN1_OCTET_STRING TAG_ATTESTATION_ID_BRAND,
     Asn1_entry EXP_OPT ''attestation_id_device'' ASN1_OCTET_STRING TAG_ATTESTATION_ID_DEVICE,
     Asn1_entry EXP_OPT ''attestation_id_product'' ASN1_OCTET_STRING TAG_ATTESTATION_ID_PRODUCT,
     Asn1_entry EXP_OPT ''attestation_id_serial'' ASN1_OCTET_STRING TAG_ATTESTATION_ID_SERIAL,
     Asn1_entry EXP_OPT ''attestation_id_imei'' ASN1_OCTET_STRING TAG_ATTESTATION_ID_IMEI,
     Asn1_entry EXP_OPT ''attestation_id_meid'' ASN1_OCTET_STRING TAG_ATTESTATION_ID_MEID,
     Asn1_entry EXP_OPT ''attestation_id_manufacturer'' ASN1_OCTET_STRING TAG_ATTESTATION_ID_MANUFACTURER,
     Asn1_entry EXP_OPT ''attestation_id_model'' ASN1_OCTET_STRING TAG_ATTESTATION_ID_MODEL,
     Asn1_entry EXP_OPT ''vendor_patchlevel'' ASN1_INTEGER TAG_VENDOR_PATCHLEVEL,
     Asn1_entry EXP_OPT ''boot_patch_level'' ASN1_INTEGER TAG_BOOT_PATCHLEVEL,
     Asn1_entry EXP_OPT ''device_unique_attestation'' ASN1_NULL TAG_DEVICE_UNIQUE_ATTESTATION,
     Asn1_entry EXP_OPT ''identity_credential_key'' ASN1_NULL TAG_IDENTITY_CREDENTIAL_KEY,
     Asn1_entry EXP_OPT ''attestation_id_second_imei'' ASN1_OCTET_STRING TAG_ATTESTATION_ID_SECOND_IMEI]"

definition KM_KEY_DESCRIPTION :: "(string \<times> asn1_type) list" where
  "KM_KEY_DESCRIPTION =
    [(''attestation_version'', ASN1_INTEGER), (''attestation_security_level'', ASN1_ENUMERATED),
     (''keymaster_version'', ASN1_INTEGER), (''keymaster_security_level'', ASN1_ENUMERATED),
     (''attestation_challenge'', ASN1_OCTET_STRING), (''unique_id'', ASN1_OCTET_STRING),
     (''software_enforced'', KM_AUTH_LIST_T), (''tee_enforced'', KM_AUTH_LIST_T)]"

section \<open>EAT claims\<close>

definition EAT_CLAIM_PRIVATE_BASE :: int where "EAT_CLAIM_PRIVATE_BASE = - 80000"

definition EAT_CLAIM_PRIVATE_NON_KM_BASE :: int where
  "EAT_CLAIM_PRIVATE_NON_KM_BASE = EAT_CLAIM_PRIVATE_BASE - 2000"

definition remove_type_mask :: "int \<Rightarrow> int" where
  "remove_type_mask tag = and tag 0x0FFFFFFF"

definition convert_to_eat_claim :: "int \<Rightarrow> int" where
  "convert_to_eat_claim tag = EAT_CLAIM_PRIVATE_BASE - remove_type_mask tag"

datatype (plugins only:) EatClaim =
    Eat_IAT | Eat_CTI | Eat_UEID | Eat_NONCE | Eat_SECURITY_LEVEL | Eat_BOOT_STATE | Eat_SUBMODS
  | Eat_PURPOSE | Eat_ALGORITHM | Eat_KEY_SIZE | Eat_BLOCK_MODE | Eat_DIGEST | Eat_PADDING
  | Eat_CALLER_NONCE | Eat_MIN_MAC_LENGTH | Eat_EC_CURVE | Eat_RSA_PUBLIC_EXPONENT | Eat_EARLY_BOOT_ONLY
  | Eat_ACTIVE_DATETIME | Eat_ORIGINATION_EXPIRE_DATETIME | Eat_USAGE_EXPIRE_DATETIME
  | Eat_NO_AUTH_REQUIRED | Eat_USER_AUTH_TYPE | Eat_AUTH_TIMEOUT | Eat_ALLOW_WHILE_ON_BODY
  | Eat_TRUSTED_USER_PRESENCE_REQUIRED | Eat_TRUSTED_CONFIRMATION_REQUIRED | Eat_UNLOCKED_DEVICE_REQUIRED
  | Eat_ALL_APPLICATIONS | Eat_APPLICATION_ID | Eat_ORIGIN | Eat_ROLLBACK_RESISTANT | Eat_OS_VERSION
  | Eat_OS_PATCHLEVEL | Eat_ATTESTATION_APPLICATION_ID | Eat_ATTESTATION_ID_BRAND
  | Eat_ATTESTATION_ID_DEVICE | Eat_ATTESTATION_ID_PRODUCT | Eat_ATTESTATION_ID_SERIAL
  | Eat_ATTESTATION_ID_MEID | Eat_ATTESTATION_ID_MANUFACTURER | Eat_VENDOR_PATCHLEVEL
  | Eat_BOOT_PATCHLEVEL | Eat_ATTESTATION_ID_MODEL | Eat_DEVICE_UNIQUE_ATTESTATION
  | Eat_IDENTITY_CREDENTIAL_KEY | Eat_STORAGE_KEY | Eat_CONFIRMATION_TOKEN | Eat_VERIFIED_BOOT_KEY
  | Eat_DEVICE_LOCKED | Eat_VERIFIED_BOOT_HASH | Eat_ATTESTATION_VERSION | Eat_KEYMASTER_VERSION
  | Eat_OFFICIAL_BUILD

primrec EatClaim_val :: "(km_tag \<Rightarrow> int) \<Rightarrow> EatClaim \<Rightarrow> int" where
  "EatClaim_val code Eat_IAT = 6"
| "EatClaim_val code Eat_CTI = 7"
| "EatClaim_val code Eat_UEID = - 75009"
| "EatClaim_val code Eat_NONCE = - 75008"
| "EatClaim_val code Eat_SECURITY_LEVEL = - 76002"
| "EatClaim_val code Eat_BOOT_STATE = - 76003"
| "EatClaim_val code Eat_SUBMODS = - 76000"
| "EatClaim_val code Eat_PURPOSE = convert_to_eat_claim (code TAG_PURPOSE)"
| "EatClaim_val code Eat_ALGORITHM = convert_to_eat_claim (code TAG_ALGORITHM)"
| "EatClaim_val code Eat_KEY_SIZE = convert_to_eat_claim (code TAG_KEY_SIZE)"
| "EatClaim_val code Eat_BLOCK_MODE = convert_to_eat_claim (code TAG_BLOCK_MODE)"
| "EatClaim_val code Eat_DIGEST = convert_to_eat_claim (code TAG_DIGEST)"
| "EatClaim_val code Eat_PADDING = convert_to_eat_claim (code TAG_PADDING)"
| "EatClaim_val code Eat_CALLER_NONCE = convert_to_eat_claim (code TAG_CALLER_NONCE)"
| "EatClaim_val code Eat_MIN_MAC_LENGTH = convert_to_eat_claim (code TAG_MIN_MAC_LENGTH)"
| "EatClaim_val code Eat_EC_CURVE = convert_to_eat_claim (code TAG_EC_CURVE)"
| "EatClaim_val code Eat_RSA_PUBLIC_EXPONENT = convert_to_eat_claim (code TAG_RSA_PUBLIC_EXPONENT)"
| "EatClaim_val code Eat_EARLY_BOOT_ONLY = convert_to_eat_claim (code TAG_EARLY_BOOT_ONLY)"
| "EatClaim_val code Eat_ACTIVE_DATETIME = convert_to_eat_claim (code TAG_ACTIVE_DATETIME)"
| "EatClaim_val code Eat_ORIGINATION_EXPIRE_DATETIME = convert_to_eat_claim (code TAG_ORIGINATION_EXPIRE_DATETIME)"
| "EatClaim_val code Eat_USAGE_EXPIRE_DATETIME = convert_to_eat_claim (code TAG_USAGE_EXPIRE_DATETIME)"
| "EatClaim_val code Eat_NO_AUTH_REQUIRED = convert_to_eat_claim (code TAG_NO_AUTH_REQUIRED)"
| "EatClaim_val code Eat_USER_AUTH_TYPE = convert_to_eat_claim (code TAG_USER_AUTH_TYPE)"
| "EatClaim_val code Eat_AUTH_TIMEOUT = convert_to_eat_claim (code TAG_AUTH_TIMEOUT)"
| "EatClaim_val code Eat_ALLOW_WHILE_ON_BODY = convert_to_eat_claim (code TAG_ALLOW_WHILE_ON_BODY)"
| "EatClaim_val code Eat_TRUSTED_USER_PRESENCE_REQUIRED = convert_to_eat_claim (code TAG_TRUSTED_USER_PRESENCE_REQUIRED)"
| "EatClaim_val code Eat_TRUSTED_CONFIRMATION_REQUIRED = convert_to_eat_claim (code TAG_TRUSTED_CONFIRMATION_REQUIRED)"
| "EatClaim_val code Eat_UNLOCKED_DEVICE_REQUIRED = convert_to_eat_claim (code TAG_UNLOCKED_DEVICE_REQUIRED)"
| "EatClaim_val code Eat_ALL_APPLICATIONS = convert_to_eat_claim (code TAG_ALL_APPLICATIONS)"
| "EatClaim_val code Eat_APPLICATION_ID = convert_to_eat_claim (code TAG_APPLICATION_ID)"
| "EatClaim_val code Eat_ORIGIN = convert_to_eat_claim (code TAG_ORIGIN)"
| "EatClaim_val code Eat_ROLLBACK_RESISTANT = convert_to_eat_claim (code TAG_ROLLBACK_RESISTANT)"
| "EatClaim_val code Eat_OS_VERSION = convert_to_eat_claim (code TAG_OS_VERSION)"
| "EatClaim_val code Eat_OS_PATCHLEVEL = convert_to_eat_claim (code TAG_OS_PATCHLEVEL)"
| "EatClaim_val code Eat_ATTESTATION_APPLICATION_ID = convert_to_eat_claim (code TAG_ATTESTATION_APPLICATION_ID)"
| "EatClaim_val code Eat_ATTESTATION_ID_BRAND = convert_to_eat_claim (code TAG_ATTESTATION_ID_BRAND)"
| "EatClaim_val code Eat_ATTESTATION_ID_DEVICE = convert_to_eat_claim (code TAG_ATTESTATION_ID_DEVICE)"
| "EatClaim_val code Eat_ATTESTATION_ID_PRODUCT = convert_to_eat_claim (code TAG_ATTESTATION_ID_PRODUCT)"
| "EatClaim_val code Eat_ATTESTATION_ID_SERIAL = convert_to_eat_claim (code TAG_ATTESTATION_ID_SERIAL)"
| "EatClaim_val code Eat_ATTESTATION_ID_MEID = convert_to_eat_claim (code TAG_ATTESTATION_ID_MEID)"
| "EatClaim_val code Eat_ATTESTATION_ID_MANUFACTURER = convert_to_eat_claim (code TAG_ATTESTATION_ID_MANUFACTURER)"
| "EatClaim_val code Eat_VENDOR_PATCHLEVEL = convert_to_eat_claim (code TAG_VENDOR_PATCHLEVEL)"
| "EatClaim_val code Eat_BOOT_PATCHLEVEL = convert_to_eat_claim (code TAG_BOOT_PATCHLEVEL)"
| "EatClaim_val code Eat_ATTESTATION_ID_MODEL = convert_to_eat_claim (code TAG_ATTESTATION_ID_MODEL)"
| "EatClaim_val code Eat_DEVICE_UNIQUE_ATTESTATION = convert_to_eat_claim (code TAG_DEVICE_UNIQUE_ATTESTATION)"
| "EatClaim_val code Eat_IDENTITY_CREDENTIAL_KEY = convert_to_eat_claim (code TAG_IDENTITY_CREDENTIAL_KEY)"
| "EatClaim_val code Eat_STORAGE_KEY = convert_to_eat_claim (code TAG_STORAGE_KEY)"
| "EatClaim_val code Eat_CONFIRMATION_TOKEN = convert_to_eat_claim (code TAG_CONFIRMATION_TOKEN)"
| "EatClaim_val code Eat_VERIFIED_BOOT_KEY = EAT_CLAIM_PRIVATE_NON_KM_BASE - 1"
| "EatClaim_val code Eat_DEVICE_LOCKED = EAT_CLAIM_PRIVATE_NON_KM_BASE - 2"
| "EatClaim_val code Eat_VERIFIED_BOOT_HASH = EAT_CLAIM_PRIVATE_NON_KM_BASE - 3"
| "EatClaim_val code Eat_ATTESTATION_VERSION = EAT_CLAIM_PRIVATE_NON_KM_BASE - 4"
| "EatClaim_val code Eat_KEYMASTER_VERSION = EAT_CLAIM_PRIVATE_NON_KM_BASE - 5"
| "EatClaim_val code Eat_OFFICIAL_BUILD = EAT_CLAIM_PRIVATE_NON_KM_BASE - 6"

datatype EatSecurityLevel = UNRESTRICTED | RESTRICTED | SECURE_RESTRICTED | HARDWARE

primrec EatSecurityLevel_val :: "EatSecurityLevel \<Rightarrow> int" where
  "EatSecurityLevel_val UNRESTRICTED = 1"
| "EatSecurityLevel_val RESTRICTED = 2"
| "EatSecurityLevel_val SECURE_RESTRICTED = 3"
| "EatSecurityLevel_val HARDWARE = 4"

definition kEatSubmodNameSoftware :: string where "kEatSubmodNameSoftware = ''software''"

definition kEatSubmodNameTee :: string where "kEatSubmodNameTee = ''tee''"

definition kImeiBlobLength :: nat where "kImeiBlobLength = 15"

definition kUeidLength :: nat where "kUeidLength = 15"

definition kImeiTypeByte :: byte where "kImeiTypeByte = 0x03"

definition kAsn1TokenOid :: string where "kAsn1TokenOid = ''1.3.6.1.4.1.11129.2.1.17''"

definition kEatTokenOid :: string where "kEatTokenOid = ''1.3.6.1.4.1.11129.2.1.25''"

section \<open>Numbers of the tags\<close>

text \<open>The tags of the claims.\<close>

definition eat_tags :: "km_tag list" where
  "eat_tags =
    [TAG_PURPOSE, TAG_ALGORITHM, TAG_KEY_SIZE, TAG_BLOCK_MODE, TAG_DIGEST, TAG_PADDING,
     TAG_CALLER_NONCE, TAG_MIN_MAC_LENGTH, TAG_EC_CURVE, TAG_RSA_PUBLIC_EXPONENT,
     TAG_EARLY_BOOT_ONLY, TAG_ACTIVE_DATETIME, TAG_ORIGINATION_EXPIRE_DATETIME,
     TAG_USAGE_EXPIRE_DATETIME, TAG_NO_AUTH_REQUIRED, TAG_USER_AUTH_TYPE, TAG_AUTH_TIMEOUT,
     TAG_ALLOW_WHILE_ON_BODY, TAG_TRUSTED_USER_PRESENCE_REQUIRED, TAG_TRUSTED_CONFIRMATION_REQUIRED,
     TAG_UNLOCKED_DEVICE_REQUIRED, TAG_ALL_APPLICATIONS, TAG_APPLICATION_ID, TAG_ORIGIN,
     TAG_ROLLBACK_RESISTANT, TAG_OS_VERSION, TAG_OS_PATCHLEVEL, TAG_ATTESTATION_APPLICATION_ID,
     TAG_ATTESTATION_ID_BRAND, TAG_ATTESTATION_ID_DEVICE, TAG_ATTESTATION_ID_PRODUCT,
     TAG_ATTESTATION_ID_SERIAL, TAG_ATTESTATION_ID_MEID, TAG_ATTESTATION_ID_MANUFACTURER,
     TAG_VENDOR_PATCHLEVEL, TAG_BOOT_PATCHLEVEL, TAG_ATTESTATION_ID_MODEL,
     TAG_DEVICE_UNIQUE_ATTESTATION, TAG_IDENTITY_CREDENTIAL_KEY, TAG_STORAGE_KEY,
     TAG_CONFIRMATION_TOKEN]"

text \<open>The ASN.1 type that goes with a tag type.\<close>

definition asn1_type_for :: "km_tag_type \<Rightarrow> asn1_type \<Rightarrow> bool" where
  "asn1_type_for ty a = (case ty of
       KM_BOOL \<Rightarrow> a = ASN1_NULL
     | KM_BYTES \<Rightarrow> a = ASN1_OCTET_STRING \<or> a = KM_ROOT_OF_TRUST_T
     | _ \<Rightarrow> a = ASN1_INTEGER)"

lemma claim_range:
  assumes "0 \<le> remove_type_mask (code t)" "remove_type_mask (code t) < 2000"
  shows "- 82000 < convert_to_eat_claim (code t) \<and> convert_to_eat_claim (code t) \<le> - 80000"
  using assms by (simp add: convert_to_eat_claim_def EAT_CLAIM_PRIVATE_BASE_def)

text \<open>The claims by kind, each kind in its own range.\<close>

definition eat_claims :: "EatClaim list" where
  "eat_claims = [Eat_IAT, Eat_CTI, Eat_UEID, Eat_NONCE, Eat_SECURITY_LEVEL, Eat_BOOT_STATE, Eat_SUBMODS] @ [Eat_PURPOSE, Eat_ALGORITHM, Eat_KEY_SIZE, Eat_BLOCK_MODE, Eat_DIGEST, Eat_PADDING, Eat_CALLER_NONCE,
     Eat_MIN_MAC_LENGTH, Eat_EC_CURVE, Eat_RSA_PUBLIC_EXPONENT, Eat_EARLY_BOOT_ONLY,
     Eat_ACTIVE_DATETIME, Eat_ORIGINATION_EXPIRE_DATETIME, Eat_USAGE_EXPIRE_DATETIME,
     Eat_NO_AUTH_REQUIRED, Eat_USER_AUTH_TYPE, Eat_AUTH_TIMEOUT, Eat_ALLOW_WHILE_ON_BODY,
     Eat_TRUSTED_USER_PRESENCE_REQUIRED, Eat_TRUSTED_CONFIRMATION_REQUIRED,
     Eat_UNLOCKED_DEVICE_REQUIRED, Eat_ALL_APPLICATIONS, Eat_APPLICATION_ID, Eat_ORIGIN,
     Eat_ROLLBACK_RESISTANT, Eat_OS_VERSION, Eat_OS_PATCHLEVEL, Eat_ATTESTATION_APPLICATION_ID,
     Eat_ATTESTATION_ID_BRAND, Eat_ATTESTATION_ID_DEVICE, Eat_ATTESTATION_ID_PRODUCT,
     Eat_ATTESTATION_ID_SERIAL, Eat_ATTESTATION_ID_MEID, Eat_ATTESTATION_ID_MANUFACTURER,
     Eat_VENDOR_PATCHLEVEL, Eat_BOOT_PATCHLEVEL, Eat_ATTESTATION_ID_MODEL,
     Eat_DEVICE_UNIQUE_ATTESTATION, Eat_IDENTITY_CREDENTIAL_KEY, Eat_STORAGE_KEY,
     Eat_CONFIRMATION_TOKEN] @ [Eat_VERIFIED_BOOT_KEY, Eat_DEVICE_LOCKED, Eat_VERIFIED_BOOT_HASH, Eat_ATTESTATION_VERSION,
     Eat_KEYMASTER_VERSION, Eat_OFFICIAL_BUILD]"

lemma eat_claims_all: "c \<in> set eat_claims"
  by (cases c) (simp_all add: eat_claims_def)

lemma tag_claims: "map (EatClaim_val code) [Eat_PURPOSE, Eat_ALGORITHM, Eat_KEY_SIZE, Eat_BLOCK_MODE, Eat_DIGEST, Eat_PADDING, Eat_CALLER_NONCE,
     Eat_MIN_MAC_LENGTH, Eat_EC_CURVE, Eat_RSA_PUBLIC_EXPONENT, Eat_EARLY_BOOT_ONLY,
     Eat_ACTIVE_DATETIME, Eat_ORIGINATION_EXPIRE_DATETIME, Eat_USAGE_EXPIRE_DATETIME,
     Eat_NO_AUTH_REQUIRED, Eat_USER_AUTH_TYPE, Eat_AUTH_TIMEOUT, Eat_ALLOW_WHILE_ON_BODY,
     Eat_TRUSTED_USER_PRESENCE_REQUIRED, Eat_TRUSTED_CONFIRMATION_REQUIRED,
     Eat_UNLOCKED_DEVICE_REQUIRED, Eat_ALL_APPLICATIONS, Eat_APPLICATION_ID, Eat_ORIGIN,
     Eat_ROLLBACK_RESISTANT, Eat_OS_VERSION, Eat_OS_PATCHLEVEL, Eat_ATTESTATION_APPLICATION_ID,
     Eat_ATTESTATION_ID_BRAND, Eat_ATTESTATION_ID_DEVICE, Eat_ATTESTATION_ID_PRODUCT,
     Eat_ATTESTATION_ID_SERIAL, Eat_ATTESTATION_ID_MEID, Eat_ATTESTATION_ID_MANUFACTURER,
     Eat_VENDOR_PATCHLEVEL, Eat_BOOT_PATCHLEVEL, Eat_ATTESTATION_ID_MODEL,
     Eat_DEVICE_UNIQUE_ATTESTATION, Eat_IDENTITY_CREDENTIAL_KEY, Eat_STORAGE_KEY,
     Eat_CONFIRMATION_TOKEN] = map (\<lambda>t. convert_to_eat_claim (code t)) eat_tags"
  by (simp add: eat_tags_def)

lemma claims_distinct:
  assumes "distinct (map (remove_type_mask \<circ> code) eat_tags)"
    and "\<forall>t\<in>set eat_tags. 0 \<le> remove_type_mask (code t) \<and> remove_type_mask (code t) < 2000"
  shows "distinct (map (EatClaim_val code) eat_claims)"
proof -
  let ?tc = "map (\<lambda>t. convert_to_eat_claim (code t)) eat_tags"
  have "inj_on (\<lambda>x. EAT_CLAIM_PRIVATE_BASE - x) A" for A by (simp add: inj_on_def)
  with assms(1) have "distinct (map (\<lambda>x. EAT_CLAIM_PRIVATE_BASE - x) (map (remove_type_mask \<circ> code) eat_tags))"
    by (subst distinct_map) (rule conjI)
  then have "distinct ?tc" by (simp add: convert_to_eat_claim_def comp_def)
  moreover have range: "- 82000 < y \<and> y \<le> - 80000" if "y \<in> set ?tc" for y
    using that assms(2) claim_range [of code] by auto
  ultimately show ?thesis
    unfolding eat_claims_def map_append tag_claims
    by (auto simp: EAT_CLAIM_PRIVATE_NON_KM_BASE_def EAT_CLAIM_PRIVATE_BASE_def simp del: set_map dest!: range)
qed

text \<open>A numbering of the tags: their positions in the list.\<close>

definition sample_code :: "km_tag \<Rightarrow> int" where
  "sample_code t = int (length (takeWhile (\<lambda>u. u \<noteq> t) eat_tags))"

lemma sample_code_positions: "map sample_code eat_tags = map int [0..<length eat_tags]"
proof (rule nth_equalityI)
  fix i
  assume i: "i < length (map sample_code eat_tags)"
  have "distinct eat_tags" by (simp add: eat_tags_def)
  with i have "takeWhile (\<lambda>u. u \<noteq> eat_tags ! i) eat_tags = take i eat_tags"
    by (intro takeWhile_eq_take_P_nth) (auto simp: nth_eq_iff_index_eq)
  with i show "map sample_code eat_tags ! i = map int [0..<length eat_tags] ! i"
    by (simp add: sample_code_def)
qed simp

lemma sample_codes:
  "distinct (map (remove_type_mask \<circ> sample_code) eat_tags)"
  "\<forall>t\<in>set eat_tags. 0 \<le> remove_type_mask (sample_code t) \<and> remove_type_mask (sample_code t) < 2000"
proof -
  have masked: "map (remove_type_mask \<circ> sample_code) eat_tags = map remove_type_mask (map int [0..<length eat_tags])"
    by (simp only: sample_code_positions [symmetric] map_map)
  show "distinct (map (remove_type_mask \<circ> sample_code) eat_tags)"
    unfolding masked by (simp add: remove_type_mask_def eat_tags_def upt_conv_Cons)
  have "list_all (\<lambda>c. 0 \<le> c \<and> c < 2000) (map (remove_type_mask \<circ> sample_code) eat_tags)"
    unfolding masked by (simp add: remove_type_mask_def eat_tags_def upt_conv_Cons)
  then show "\<forall>t\<in>set eat_tags. 0 \<le> remove_type_mask (sample_code t) \<and> remove_type_mask (sample_code t) < 2000"
    by (simp add: list_all_iff)
qed

section \<open>Properties\<close>

text \<open>Both version numbers grow with the version, and they are 0, which stands for no attestation,
  exactly for the versions 1 and 1.1 of Keymaster. From KeyMint on both are the same.\<close>

theorem attestation_versions_monotone:
  "(version_to_attestation_version v = 0 \<longleftrightarrow> v = KEYMASTER_1 \<or> v = KEYMASTER_1_1)
   \<and> (version_to_attestation_km_version v = 0 \<longleftrightarrow> v = KEYMASTER_1 \<or> v = KEYMASTER_1_1)
   \<and> (version_to_attestation_version v < version_to_attestation_version w
       \<longleftrightarrow> version_to_attestation_km_version v < version_to_attestation_km_version w)
   \<and> (version_to_attestation_version v = version_to_attestation_km_version v
       \<longleftrightarrow> v \<in> {KEYMASTER_1, KEYMASTER_1_1, KEYMINT_1, KEYMINT_2, KEYMINT_3})"
  by (cases v; cases w) simp_all

text \<open>The template of an authorization list has the fields of the structure in their order; a field is a set
  exactly when its tag is repeatable, and its ASN.1 type is the one of its tag type.\<close>

lemma auth_list_template_fields:
  "map (\<lambda>e. (entry_field e, if entry_kind e = EXP_SET_OF_OPT then ASN1_INTEGER_SET else entry_type e)) KM_AUTH_LIST
     = km_auth_list_fields
   \<and> list_all (\<lambda>e. asn1_type_for (declared_type (entry_tag e)) (entry_type e)
       \<and> (entry_kind e = EXP_SET_OF_OPT \<longleftrightarrow> declared_type (entry_tag e) = KM_ENUM_REP)) KM_AUTH_LIST"
  by (simp add: KM_AUTH_LIST_def km_auth_list_fields_def asn1_type_for_def)

text \<open>The claims of an EAT token are pairwise different whenever the tags are different below the type
  and less than 2000: no claim of a tag meets one of the standard or one of the other private claims.\<close>

theorem eat_claims_distinct:
  assumes "distinct (map (remove_type_mask \<circ> code) eat_tags)"
    and "\<forall>t\<in>set eat_tags. 0 \<le> remove_type_mask (code t) \<and> remove_type_mask (code t) < 2000"
  shows "EatClaim_val code c = EatClaim_val code c' \<longleftrightarrow> c = c'"
proof -
  have "distinct (map (EatClaim_val code) eat_claims)" using claims_distinct [OF assms] .
  then have "inj_on (EatClaim_val code) (set eat_claims)" by (simp add: distinct_map)
  then show ?thesis using eat_claims_all [of c] eat_claims_all [of c'] by (metis inj_on_eq_iff)
qed

lemma eat_claims_distinct_witness:
  "EatClaim_val sample_code Eat_KEY_SIZE \<noteq> EatClaim_val sample_code Eat_NONCE"
  using eat_claims_distinct [of sample_code Eat_KEY_SIZE Eat_NONCE] sample_codes by simp

end
