(* ===== verification/KmOperation.thy ===== *)
theory KmOperation
  imports KmAuthSpec MsgTypes
begin

text \<open>
  Keys and operations: \<open>keymaster/operation.h\<close>, \<open>keymaster/key.h\<close> and the classes of \<open>keymaster/km_openssl\<close> that
  derive from them. An object is a record that grows with the class; \<open>op_class\<close> stands for the table of virtual
  functions, which every constructor sets in its turn. A constructor that takes sets by rvalue reference returns what
  it leaves of them. The members that no initializer mentions keep what the memory held (\<open>op_mem\<close>). OpenSSL objects
  are addresses.
\<close>

section \<open>Enumerators\<close>

text \<open>Further enumerators of \<open>hardware/keymaster_defs.h\<close> and of OpenSSL that these classes use.\<close>

record 'p op_env = "'p builder_env" +
  KM_PURPOSE_AGREE_KEY :: u32
  KM_PURPOSE_ATTEST_KEY :: u32
  KM_DIGEST_SHA1 :: u32
  KM_PAD_RSA_PSS :: u32
  KM_PAD_RSA_OAEP :: u32
  KM_ERROR_UNSUPPORTED_KEY_FORMAT :: u32
  EVP_PKEY_RSA :: int
  EVP_PKEY_EC :: int
  EVP_PKEY_ED25519 :: int
  EVP_PKEY_X25519 :: int

section \<open>OperationFactory\<close>

record key_type =
  kt_algorithm :: u32
  kt_purpose :: u32

definition KeyType :: "u32 \<Rightarrow> u32 \<Rightarrow> key_type" where
  "KeyType alg purp = \<lparr>kt_algorithm = alg, kt_purpose = purp\<rparr>"

definition KeyType_eq :: "key_type \<Rightarrow> key_type \<Rightarrow> bool" where
  "KeyType_eq this rhs \<longleftrightarrow> kt_algorithm this = kt_algorithm rhs \<and> kt_purpose this = kt_purpose rhs"

text \<open>The default answers: the array, here null, and its length.\<close>

definition default_SupportedPaddingModes :: "u32 list option \<times> nat" where
  "default_SupportedPaddingModes = (None, 0)"

definition default_SupportedBlockModes :: "u32 list option \<times> nat" where
  "default_SupportedBlockModes = (None, 0)"

definition default_SupportedDigests :: "u32 list option \<times> nat" where
  "default_SupportedDigests = (None, 0)"

section \<open>Operation\<close>

datatype op_class = C_Operation | C_RsaOperation | C_RsaDigestingOperation | C_RsaSignOperation | C_RsaVerifyOperation
  | C_RsaCryptOperation | C_RsaEncryptOperation | C_RsaDecryptOperation | C_EcdsaOperation | C_EcdsaSignOperation
  | C_EcdsaVerifyOperation | C_Ed25519SignOperation | C_EcdhOperation | C_X25519Operation

record 'p operation =
  op_class :: op_class
  op_handle :: u64
  op_purpose :: u32
  op_hw_enforced :: "'p authorization_set"
  op_sw_enforced :: "'p authorization_set"
  op_key_id :: u64
  op_secure_deletion_slot :: u32
  op_confirmation :: "buffer option"

record 'p op_mem =
  mem_handle :: u64
  mem_hw :: "'p authorization_set"
  mem_sw :: "'p authorization_set"
  mem_key_id :: u64

type_synonym ('x, 'p) constructed = "'x \<times> 'p authorization_set \<times> 'p authorization_set"

definition Operation ::
    "'p aset_ext \<Rightarrow> 'p op_mem \<Rightarrow> u32 \<Rightarrow> 'p authorization_set \<Rightarrow> 'p authorization_set \<Rightarrow> ('p operation, 'p) constructed" where
  "Operation X m purpose hw_enforced sw_enforced =
     (let (hw, hw') = AuthorizationSet_move X (mem_hw m) hw_enforced;
          (sw, sw') = AuthorizationSet_move X (mem_sw m) sw_enforced
      in (\<lparr>op_class = C_Operation, op_handle = mem_handle m, op_purpose = purpose, op_hw_enforced = hw,
           op_sw_enforced = sw, op_key_id = mem_key_id m, op_secure_deletion_slot = 0, op_confirmation = None\<rparr>, hw', sw'))"

definition set_key_id :: "u64 \<Rightarrow> ('p, 'z) operation_scheme \<Rightarrow> ('p, 'z) operation_scheme" where
  "set_key_id key_id this = this\<lparr>op_key_id := key_id\<rparr>"

definition set_secure_deletion_slot :: "u32 \<Rightarrow> ('p, 'z) operation_scheme \<Rightarrow> ('p, 'z) operation_scheme" where
  "set_secure_deletion_slot slot this = this\<lparr>op_secure_deletion_slot := slot\<rparr>"

text \<open>\<open>hw_enforced()\<close> and \<open>sw_enforced()\<close> return copies.\<close>

definition op_hw_copy :: "'p aset_ext \<Rightarrow> nat \<Rightarrow> ('p, 'z) operation_scheme \<Rightarrow> 'p authorization_set" where
  "op_hw_copy X junk this = AuthorizationSet_copy X junk (op_hw_enforced this)"

definition op_sw_copy :: "'p aset_ext \<Rightarrow> nat \<Rightarrow> ('p, 'z) operation_scheme \<Rightarrow> 'p authorization_set" where
  "op_sw_copy X junk this = AuthorizationSet_copy X junk (op_sw_enforced this)"

text \<open>\<open>Buffer(const void*, size_t)\<close>, whose \<open>Reinitialize\<close> is a parameter: the result of it is not looked at.\<close>

definition Buffer_of :: "(byte list \<Rightarrow> nat \<Rightarrow> buffer \<Rightarrow> bool \<times> buffer) \<Rightarrow> buffer \<Rightarrow> byte list \<Rightarrow> nat \<Rightarrow> buffer" where
  "Buffer_of reinitialize uninit buf n = snd (reinitialize buf n (uninit\<lparr>buffer_data := None\<rparr>))"

definition create_confirmation_verifier_buffer ::
    "(byte list \<Rightarrow> nat \<Rightarrow> buffer \<Rightarrow> bool \<times> buffer) \<Rightarrow> buffer option \<Rightarrow> ('p, 'z) operation_scheme
      \<Rightarrow> bool \<times> ('p, 'z) operation_scheme" where
  "create_confirmation_verifier_buffer reinitialize alloc this =
     (if op_confirmation this = None then
        (case alloc of
           None \<Rightarrow> (False, this)
         | Some uninit \<Rightarrow>
             (True, this\<lparr>op_confirmation := Some (Buffer_of reinitialize uninit (List.map of_char kConfirmationTokenMessageTag)
                kConfirmationTokenMessageTagSize)\<rparr>))
      else (True, this))"

section \<open>RSA operations\<close>

record 'p rsa_operation = "'p operation" +
  rsa_key :: nat
  rsa_padding :: u32
  rsa_data :: buffer
  rsa_digest :: u32
  rsa_digest_algorithm :: nat

record 'p rsa_digesting_operation = "'p rsa_operation" +
  rsa_digest_ctx :: nat

record 'p rsa_crypt_operation = "'p rsa_operation" +
  rsa_mgf_digest :: u32
  rsa_mgf_digest_algorithm :: nat

text \<open>The null pointer is address 0.\<close>

definition RsaOperation ::
    "'p aset_ext \<Rightarrow> 'p op_mem \<Rightarrow> 'p authorization_set \<Rightarrow> 'p authorization_set \<Rightarrow> u32 \<Rightarrow> u32 \<Rightarrow> u32 \<Rightarrow> nat
      \<Rightarrow> ('p rsa_operation, 'p) constructed" where
  "RsaOperation X m hw sw purpose digest padding key =
     (let (base, hw', sw') = Operation X m purpose hw sw
      in (operation.extend (base\<lparr>op_class := C_RsaOperation\<rparr>)
            (rsa_operation.fields key padding empty_buffer digest 0), hw', sw'))"

text \<open>The constructor of \<open>RsaDigestingOperation\<close> is in \<open>rsa_operation.cpp\<close>: the parameter \<open>D\<close>.\<close>

type_synonym 'p digesting_ctor =
  "'p authorization_set \<Rightarrow> 'p authorization_set \<Rightarrow> u32 \<Rightarrow> u32 \<Rightarrow> u32 \<Rightarrow> nat \<Rightarrow> ('p rsa_digesting_operation, 'p) constructed"

definition RsaSignOperation ::
    "'p op_env \<Rightarrow> 'p digesting_ctor \<Rightarrow> 'p authorization_set \<Rightarrow> 'p authorization_set \<Rightarrow> u32 \<Rightarrow> u32 \<Rightarrow> nat
      \<Rightarrow> ('p rsa_digesting_operation, 'p) constructed" where
  "RsaSignOperation E D hw sw digest padding key =
     (let (base, hw', sw') = D hw sw (KM_PURPOSE_SIGN E) digest padding key
      in (base\<lparr>op_class := C_RsaSignOperation\<rparr>, hw', sw'))"

definition RsaVerifyOperation ::
    "'p op_env \<Rightarrow> 'p digesting_ctor \<Rightarrow> 'p authorization_set \<Rightarrow> 'p authorization_set \<Rightarrow> u32 \<Rightarrow> u32 \<Rightarrow> nat
      \<Rightarrow> ('p rsa_digesting_operation, 'p) constructed" where
  "RsaVerifyOperation E D hw sw digest padding key =
     (let (base, hw', sw') = D hw sw (KM_PURPOSE_VERIFY E) digest padding key
      in (base\<lparr>op_class := C_RsaVerifyOperation\<rparr>, hw', sw'))"

definition RsaDigestingOperation_require_digest :: "'p op_env \<Rightarrow> ('p, 'z) rsa_operation_scheme \<Rightarrow> bool" where
  "RsaDigestingOperation_require_digest E this \<longleftrightarrow> rsa_padding this = KM_PAD_RSA_PSS E"

definition RsaCryptOperation ::
    "'p op_env \<Rightarrow> 'p op_mem \<Rightarrow> 'p authorization_set \<Rightarrow> 'p authorization_set \<Rightarrow> u32 \<Rightarrow> u32 \<Rightarrow> u32 \<Rightarrow> nat
      \<Rightarrow> ('p rsa_crypt_operation, 'p) constructed" where
  "RsaCryptOperation E m hw sw purpose digest padding key =
     (let (base, hw', sw') = RsaOperation (be_ext E) m hw sw purpose digest padding key
      in (rsa_operation.extend (base\<lparr>op_class := C_RsaCryptOperation\<rparr>)
            (rsa_crypt_operation.fields (KM_DIGEST_SHA1 E) 0), hw', sw'))"

definition setOaepMgfDigest :: "u32 \<Rightarrow> 'p rsa_crypt_operation \<Rightarrow> 'p rsa_crypt_operation" where
  "setOaepMgfDigest mgf_digest this = this\<lparr>rsa_mgf_digest := mgf_digest\<rparr>"

definition RsaCryptOperation_require_digest :: "'p op_env \<Rightarrow> 'p rsa_crypt_operation \<Rightarrow> bool" where
  "RsaCryptOperation_require_digest E this \<longleftrightarrow> rsa_padding this = KM_PAD_RSA_OAEP E"

definition RsaEncryptOperation ::
    "'p op_env \<Rightarrow> 'p op_mem \<Rightarrow> 'p authorization_set \<Rightarrow> 'p authorization_set \<Rightarrow> u32 \<Rightarrow> u32 \<Rightarrow> nat
      \<Rightarrow> ('p rsa_crypt_operation, 'p) constructed" where
  "RsaEncryptOperation E m hw sw digest padding key =
     (let (base, hw', sw') = RsaCryptOperation E m hw sw (KM_PURPOSE_ENCRYPT E) digest padding key
      in (base\<lparr>op_class := C_RsaEncryptOperation\<rparr>, hw', sw'))"

definition RsaDecryptOperation ::
    "'p op_env \<Rightarrow> 'p op_mem \<Rightarrow> 'p authorization_set \<Rightarrow> 'p authorization_set \<Rightarrow> u32 \<Rightarrow> u32 \<Rightarrow> nat
      \<Rightarrow> ('p rsa_crypt_operation, 'p) constructed" where
  "RsaDecryptOperation E m hw sw digest padding key =
     (let (base, hw', sw') = RsaCryptOperation E m hw sw (KM_PURPOSE_DECRYPT E) digest padding key
      in (base\<lparr>op_class := C_RsaDecryptOperation\<rparr>, hw', sw'))"

text \<open>\<open>RsaOperation::Abort\<close>, which the derived classes inherit, as they do in the other two families.\<close>

definition RsaOperation_Abort :: u32 where "RsaOperation_Abort = KM_ERROR_OK"

section \<open>Elliptic curve operations\<close>

record 'p ecdsa_operation = "'p operation" +
  ec_digest :: u32
  ec_digest_algorithm :: nat
  ecdsa_key :: nat
  ec_digest_ctx :: nat
  ec_data :: buffer

text \<open>\<open>ctx\<close> is what \<open>EVP_MD_CTX_init\<close> makes of the context.\<close>

definition EcdsaOperation ::
    "'p aset_ext \<Rightarrow> 'p op_mem \<Rightarrow> nat \<Rightarrow> 'p authorization_set \<Rightarrow> 'p authorization_set \<Rightarrow> u32 \<Rightarrow> u32 \<Rightarrow> nat
      \<Rightarrow> ('p ecdsa_operation, 'p) constructed" where
  "EcdsaOperation X m ctx hw sw purpose digest key =
     (let (base, hw', sw') = Operation X m purpose hw sw
      in (operation.extend (base\<lparr>op_class := C_EcdsaOperation\<rparr>)
            (ecdsa_operation.fields digest 0 key ctx empty_buffer), hw', sw'))"

definition EcdsaSignOperation ::
    "'p op_env \<Rightarrow> 'p op_mem \<Rightarrow> nat \<Rightarrow> 'p authorization_set \<Rightarrow> 'p authorization_set \<Rightarrow> u32 \<Rightarrow> nat
      \<Rightarrow> ('p ecdsa_operation, 'p) constructed" where
  "EcdsaSignOperation E m ctx hw sw digest key =
     (let (base, hw', sw') = EcdsaOperation (be_ext E) m ctx hw sw (KM_PURPOSE_SIGN E) digest key
      in (base\<lparr>op_class := C_EcdsaSignOperation\<rparr>, hw', sw'))"

definition EcdsaVerifyOperation ::
    "'p op_env \<Rightarrow> 'p op_mem \<Rightarrow> nat \<Rightarrow> 'p authorization_set \<Rightarrow> 'p authorization_set \<Rightarrow> u32 \<Rightarrow> nat
      \<Rightarrow> ('p ecdsa_operation, 'p) constructed" where
  "EcdsaVerifyOperation E m ctx hw sw digest key =
     (let (base, hw', sw') = EcdsaOperation (be_ext E) m ctx hw sw (KM_PURPOSE_VERIFY E) digest key
      in (base\<lparr>op_class := C_EcdsaVerifyOperation\<rparr>, hw', sw'))"

definition Ed25519SignOperation ::
    "'p op_env \<Rightarrow> 'p op_mem \<Rightarrow> nat \<Rightarrow> 'p authorization_set \<Rightarrow> 'p authorization_set \<Rightarrow> u32 \<Rightarrow> nat
      \<Rightarrow> ('p ecdsa_operation, 'p) constructed" where
  "Ed25519SignOperation E m ctx hw sw digest key =
     (let (base, hw', sw') = EcdsaSignOperation E m ctx hw sw digest key
      in (base\<lparr>op_class := C_Ed25519SignOperation\<rparr>, hw', sw'))"

record 'p ecdh_operation = "'p operation" +
  ecdh_key :: nat

definition EcdhOperation ::
    "'p op_env \<Rightarrow> 'p op_mem \<Rightarrow> 'p authorization_set \<Rightarrow> 'p authorization_set \<Rightarrow> nat \<Rightarrow> ('p ecdh_operation, 'p) constructed" where
  "EcdhOperation E m hw sw key =
     (let (base, hw', sw') = Operation (be_ext E) m (KM_PURPOSE_AGREE_KEY E) hw sw
      in (operation.extend (base\<lparr>op_class := C_EcdhOperation\<rparr>) (ecdh_operation.fields key), hw', sw'))"

definition X25519Operation ::
    "'p op_env \<Rightarrow> 'p op_mem \<Rightarrow> 'p authorization_set \<Rightarrow> 'p authorization_set \<Rightarrow> nat \<Rightarrow> ('p ecdh_operation, 'p) constructed" where
  "X25519Operation E m hw sw key =
     (let (base, hw', sw') = EcdhOperation E m hw sw key in (base\<lparr>op_class := C_X25519Operation\<rparr>, hw', sw'))"

definition EcdsaOperation_Abort :: u32 where "EcdsaOperation_Abort = KM_ERROR_OK"

definition EcdhOperation_Abort :: u32 where "EcdhOperation_Abort = KM_ERROR_OK"

section \<open>Factories\<close>

text \<open>
  \<open>new (std::nothrow)\<close>: without memory the result is null and the constructor does not run, so that the arguments,
  although wrapped in \<open>std::move\<close>, keep their contents.
\<close>

definition new_nothrow ::
    "bool \<Rightarrow> 'p authorization_set \<Rightarrow> 'p authorization_set \<Rightarrow> ('x, 'p) constructed \<Rightarrow> ('x option, 'p) constructed" where
  "new_nothrow alloc hw sw c = (if alloc then (case c of (x, hw', sw') \<Rightarrow> (Some x, hw', sw')) else (None, hw, sw))"

definition RsaSigning_Instantiate where
  "RsaSigning_Instantiate E D alloc hw sw digest padding key =
     new_nothrow alloc hw sw (RsaSignOperation E D hw sw digest padding key)"

definition RsaVerification_Instantiate where
  "RsaVerification_Instantiate E D alloc hw sw digest padding key =
     new_nothrow alloc hw sw (RsaVerifyOperation E D hw sw digest padding key)"

definition RsaEncryption_Instantiate where
  "RsaEncryption_Instantiate E m alloc hw sw digest padding key =
     new_nothrow alloc hw sw (RsaEncryptOperation E m hw sw digest padding key)"

definition RsaDecryption_Instantiate where
  "RsaDecryption_Instantiate E m alloc hw sw digest padding key =
     new_nothrow alloc hw sw (RsaDecryptOperation E m hw sw digest padding key)"

text \<open>\<open>IsEd25519Key\<close> is in \<open>curve25519_key.cpp\<close>.\<close>

definition EcdsaSign_Instantiate where
  "EcdsaSign_Instantiate E m ctx is_ed25519 alloc hw sw digest key =
     (if is_ed25519 hw sw then new_nothrow alloc hw sw (Ed25519SignOperation E m ctx hw sw digest key)
      else new_nothrow alloc hw sw (EcdsaSignOperation E m ctx hw sw digest key))"

definition EcdsaVerify_Instantiate where
  "EcdsaVerify_Instantiate E m ctx alloc hw sw digest key =
     new_nothrow alloc hw sw (EcdsaVerifyOperation E m ctx hw sw digest key)"

datatype op_factory = RsaSigning | RsaVerification | RsaEncryption | RsaDecryption | EcdsaSign | EcdsaVerify

primrec factory_purpose :: "'p op_env \<Rightarrow> op_factory \<Rightarrow> u32" where
  "factory_purpose E RsaSigning = KM_PURPOSE_SIGN E"
| "factory_purpose E RsaVerification = KM_PURPOSE_VERIFY E"
| "factory_purpose E RsaEncryption = KM_PURPOSE_ENCRYPT E"
| "factory_purpose E RsaDecryption = KM_PURPOSE_DECRYPT E"
| "factory_purpose E EcdsaSign = KM_PURPOSE_SIGN E"
| "factory_purpose E EcdsaVerify = KM_PURPOSE_VERIFY E"

definition registry_key :: "'p op_env \<Rightarrow> op_factory \<Rightarrow> key_type" where
  "registry_key E f =
     KeyType (if f \<in> {RsaSigning, RsaVerification, RsaEncryption, RsaDecryption} then KM_ALGORITHM_RSA E
              else KM_ALGORITHM_EC E) (factory_purpose E f)"

definition Ecdh_registry_key :: "'p op_env \<Rightarrow> key_type" where
  "Ecdh_registry_key E = KeyType (KM_ALGORITHM_EC E) (KM_PURPOSE_AGREE_KEY E)"

text \<open>The virtual call of \<open>InstantiateOperation\<close>, of whose result the base object is looked at.\<close>

definition as_operation :: "('x \<Rightarrow> 'p operation) \<Rightarrow> ('x option, 'p) constructed \<Rightarrow> ('p operation option, 'p) constructed" where
  "as_operation t r = (case r of (x, hw', sw') \<Rightarrow> (map_option t x, hw', sw'))"

primrec instantiate where
  "instantiate E D m ctx is_ed25519 alloc hw sw digest padding key RsaSigning =
     as_operation operation.truncate (RsaSigning_Instantiate E D alloc hw sw digest padding key)"
| "instantiate E D m ctx is_ed25519 alloc hw sw digest padding key RsaVerification =
     as_operation operation.truncate (RsaVerification_Instantiate E D alloc hw sw digest padding key)"
| "instantiate E D m ctx is_ed25519 alloc hw sw digest padding key RsaEncryption =
     as_operation operation.truncate (RsaEncryption_Instantiate E m alloc hw sw digest padding key)"
| "instantiate E D m ctx is_ed25519 alloc hw sw digest padding key RsaDecryption =
     as_operation operation.truncate (RsaDecryption_Instantiate E m alloc hw sw digest padding key)"
| "instantiate E D m ctx is_ed25519 alloc hw sw digest padding key EcdsaSign =
     as_operation operation.truncate (EcdsaSign_Instantiate E m ctx is_ed25519 alloc hw sw digest key)"
| "instantiate E D m ctx is_ed25519 alloc hw sw digest padding key EcdsaVerify =
     as_operation operation.truncate (EcdsaVerify_Instantiate E m ctx alloc hw sw digest key)"

text \<open>A fresh operation of a class that has taken over the sets of a key: \<open>m\<close> is the memory of the object, and what a
  move makes of a set is the move constructor's affair.\<close>

definition takes ::
    "'p aset_ext \<Rightarrow> 'p op_mem \<Rightarrow> op_class \<Rightarrow> u32 \<Rightarrow> 'p authorization_set \<Rightarrow> 'p authorization_set \<Rightarrow> 'p operation \<Rightarrow> bool" where
  "takes X m c purpose hw sw x \<longleftrightarrow> x = \<lparr>op_class = c, op_handle = mem_handle m, op_purpose = purpose,
     op_hw_enforced = fst (AuthorizationSet_move X (mem_hw m) hw), op_sw_enforced = fst (AuthorizationSet_move X (mem_sw m) sw),
     op_key_id = mem_key_id m, op_secure_deletion_slot = 0, op_confirmation = None\<rparr>"

definition leaves :: "'p aset_ext \<Rightarrow> 'p op_mem \<Rightarrow> 'p authorization_set \<Rightarrow> 'p authorization_set \<Rightarrow> ('x, 'p) constructed \<Rightarrow> bool" where
  "leaves X m hw sw c \<longleftrightarrow> snd c = (snd (AuthorizationSet_move X (mem_hw m) hw), snd (AuthorizationSet_move X (mem_sw m) sw))"

lemmas object_simps = operation.defs rsa_operation.defs rsa_crypt_operation.defs rsa_digesting_operation.defs
  ecdsa_operation.defs ecdh_operation.defs split_beta Let_def

lemma Operation_takes:
  "takes X m C_Operation p hw sw (fst (Operation X m p hw sw)) \<and> leaves X m hw sw (Operation X m p hw sw)"
  by (simp add: takes_def leaves_def Operation_def split_beta Let_def)

text \<open>A constructor of a derived class keeps what its base took.\<close>

lemma RsaOperation_takes:
  "takes X m C_RsaOperation p hw sw (operation.truncate (fst (RsaOperation X m hw sw p d pad k))) \<and>
   leaves X m hw sw (RsaOperation X m hw sw p d pad k)"
  using Operation_takes [of X m p hw sw] by (simp add: RsaOperation_def takes_def leaves_def object_simps)

lemma crypt_takes:
  "takes (be_ext E) m C_RsaCryptOperation p hw sw (operation.truncate (fst (RsaCryptOperation E m hw sw p d pad k))) \<and>
   leaves (be_ext E) m hw sw (RsaCryptOperation E m hw sw p d pad k)"
  using RsaOperation_takes [of "be_ext E" m p hw sw d pad k] by (simp add: RsaCryptOperation_def takes_def leaves_def object_simps)

lemma ecdsa_takes:
  "takes X m C_EcdsaOperation p hw sw (operation.truncate (fst (EcdsaOperation X m ctx hw sw p d k))) \<and>
   leaves X m hw sw (EcdsaOperation X m ctx hw sw p d k)"
  using Operation_takes [of X m p hw sw] by (simp add: EcdsaOperation_def takes_def leaves_def object_simps)

lemma EcdhOperation_takes:
  "takes (be_ext E) m C_EcdhOperation (KM_PURPOSE_AGREE_KEY E) hw sw (operation.truncate (fst (EcdhOperation E m hw sw k))) \<and>
   leaves (be_ext E) m hw sw (EcdhOperation E m hw sw k)"
  using Operation_takes [of "be_ext E" m "KM_PURPOSE_AGREE_KEY E" hw sw]
  by (simp add: EcdhOperation_def takes_def leaves_def object_simps)

lemma X25519Operation_takes:
  "takes (be_ext E) m C_X25519Operation (KM_PURPOSE_AGREE_KEY E) hw sw (operation.truncate (fst (X25519Operation E m hw sw k))) \<and>
   leaves (be_ext E) m hw sw (X25519Operation E m hw sw k)"
  using EcdhOperation_takes [of E m hw sw k] by (simp add: X25519Operation_def takes_def leaves_def object_simps)

lemma concrete_takes:
  "takes (be_ext E) m C_RsaEncryptOperation (KM_PURPOSE_ENCRYPT E) hw sw (operation.truncate (fst (RsaEncryptOperation E m hw sw d pad k)))"
  "takes (be_ext E) m C_RsaDecryptOperation (KM_PURPOSE_DECRYPT E) hw sw (operation.truncate (fst (RsaDecryptOperation E m hw sw d pad k)))"
  "takes (be_ext E) m C_EcdsaSignOperation (KM_PURPOSE_SIGN E) hw sw (operation.truncate (fst (EcdsaSignOperation E m ctx hw sw d k)))"
  "takes (be_ext E) m C_EcdsaVerifyOperation (KM_PURPOSE_VERIFY E) hw sw (operation.truncate (fst (EcdsaVerifyOperation E m ctx hw sw d k)))"
  "takes (be_ext E) m C_Ed25519SignOperation (KM_PURPOSE_SIGN E) hw sw (operation.truncate (fst (Ed25519SignOperation E m ctx hw sw d k)))"
  using crypt_takes [of E m _ hw sw d pad k] ecdsa_takes [of "be_ext E" m _ hw sw ctx d k]
  by (simp_all add: RsaEncryptOperation_def RsaDecryptOperation_def EcdsaSignOperation_def EcdsaVerifyOperation_def
      Ed25519SignOperation_def takes_def object_simps)

lemma concrete_leaves:
  "leaves (be_ext E) m hw sw (RsaEncryptOperation E m hw sw d pad k)" "leaves (be_ext E) m hw sw (RsaDecryptOperation E m hw sw d pad k)"
  "leaves (be_ext E) m hw sw (EcdsaSignOperation E m ctx hw sw d k)" "leaves (be_ext E) m hw sw (EcdsaVerifyOperation E m ctx hw sw d k)"
  "leaves (be_ext E) m hw sw (Ed25519SignOperation E m ctx hw sw d k)"
  using crypt_takes [of E m _ hw sw d pad k] ecdsa_takes [of "be_ext E" m _ hw sw ctx d k]
  by (simp_all add: RsaEncryptOperation_def RsaDecryptOperation_def EcdsaSignOperation_def EcdsaVerifyOperation_def
      Ed25519SignOperation_def leaves_def object_simps)

section \<open>An instance\<close>

definition doc_ops :: "doc_param op_env" where
  "doc_ops = builder_env.extend doc_builder (op_env.fields 6 7 2 3 2 4294967264 6 408 949 948)"

definition doc_mem :: "doc_param op_mem" where
  "doc_mem = \<lparr>mem_handle = 0, mem_hw = AuthorizationSet, mem_sw = AuthorizationSet, mem_key_id = 0\<rparr>"

section \<open>Properties of operations\<close>

definition created_class :: "op_factory \<Rightarrow> bool \<Rightarrow> op_class" where
  "created_class f ed25519 = (case f of RsaSigning \<Rightarrow> C_RsaSignOperation | RsaVerification \<Rightarrow> C_RsaVerifyOperation
     | RsaEncryption \<Rightarrow> C_RsaEncryptOperation | RsaDecryption \<Rightarrow> C_RsaDecryptOperation
     | EcdsaSign \<Rightarrow> (if ed25519 then C_Ed25519SignOperation else C_EcdsaSignOperation)
     | EcdsaVerify \<Rightarrow> C_EcdsaVerifyOperation)"

text \<open>C27 What a factory makes is an operation of its class, for exactly the purpose under which the factory is
  registered. For encryption and decryption with RSA and for the elliptic curve operations, whose constructors are in the
  headers, it is known in full: the authorization sets are what the move constructor makes of those of the key, the key is
  left with what that leaves, there is neither a deletion slot nor a confirmation buffer, and a signing factory of elliptic
  curve keys makes an Ed25519 operation exactly for such keys. For RSA signatures the constructor of
  \<open>RsaDigestingOperation\<close>, which is not in the headers, is called with the sets and the purpose of the registry key, and the
  class is set on what it makes. Without memory the factory returns null, and the sets of the key are as they were.\<close>

theorem factory_operation_matches:
  "instantiate E D m ctx ed_key alloc hw sw digest padding key f =
    (if \<not> alloc then (None, hw, sw)
     else case f of
       RsaSigning \<Rightarrow> (case D hw sw (kt_purpose (registry_key E f)) digest padding key of (base, hw', sw') \<Rightarrow>
         (Some ((operation.truncate base)\<lparr>op_class := C_RsaSignOperation\<rparr>), hw', sw'))
     | RsaVerification \<Rightarrow> (case D hw sw (kt_purpose (registry_key E f)) digest padding key of (base, hw', sw') \<Rightarrow>
         (Some ((operation.truncate base)\<lparr>op_class := C_RsaVerifyOperation\<rparr>), hw', sw'))
     | _ \<Rightarrow> (Some \<lparr>op_class = created_class f (ed_key hw sw), op_handle = mem_handle m,
           op_purpose = kt_purpose (registry_key E f),
           op_hw_enforced = fst (AuthorizationSet_move (be_ext E) (mem_hw m) hw),
           op_sw_enforced = fst (AuthorizationSet_move (be_ext E) (mem_sw m) sw),
           op_key_id = mem_key_id m, op_secure_deletion_slot = 0, op_confirmation = None\<rparr>,
         snd (AuthorizationSet_move (be_ext E) (mem_hw m) hw), snd (AuthorizationSet_move (be_ext E) (mem_sw m) sw)))"
  using concrete_takes [of E m hw sw, unfolded takes_def] concrete_leaves [of E m hw sw, unfolded leaves_def]
  by (cases f) (simp_all add: as_operation_def new_nothrow_def created_class_def registry_key_def KeyType_def
      RsaSigning_Instantiate_def RsaVerification_Instantiate_def RsaEncryption_Instantiate_def RsaDecryption_Instantiate_def
      EcdsaSign_Instantiate_def EcdsaVerify_Instantiate_def RsaSignOperation_def RsaVerifyOperation_def operation.defs split_beta)

text \<open>Factories with the same registry key are the same, when the enumerators differ.\<close>

lemma registry_key_inject:
  assumes "distinct [KM_PURPOSE_SIGN E, KM_PURPOSE_VERIFY E, KM_PURPOSE_ENCRYPT E, KM_PURPOSE_DECRYPT E, KM_PURPOSE_AGREE_KEY E]"
    and "KM_ALGORITHM_RSA E \<noteq> KM_ALGORITHM_EC E"
  shows "KeyType_eq (registry_key E f) (registry_key E g) \<longleftrightarrow> f = g" "\<not> KeyType_eq (registry_key E f) (Ecdh_registry_key E)"
  using assms by (cases f; cases g; auto simp: KeyType_eq_def registry_key_def Ecdh_registry_key_def KeyType_def)+

text \<open>\<open>create_confirmation_verifier_buffer\<close> fails only when the object itself cannot be allocated: it succeeds with
  the buffer that the failed \<open>Reinitialize\<close> of the constructor leaves, and later calls keep that buffer.\<close>

theorem confirmation_buffer_failure_hidden:
  assumes "op_confirmation this = None"
    and "reinitialize (List.map of_char kConfirmationTokenMessageTag) kConfirmationTokenMessageTagSize
      (uninit\<lparr>buffer_data := None\<rparr>) = (False, b)"
  shows "create_confirmation_verifier_buffer reinitialize (Some uninit) this = (True, this\<lparr>op_confirmation := Some b\<rparr>) \<and>
    create_confirmation_verifier_buffer reinitialize alloc (this\<lparr>op_confirmation := Some b\<rparr>) =
      (True, this\<lparr>op_confirmation := Some b\<rparr>)"
  using assms by (simp add: create_confirmation_verifier_buffer_def Buffer_of_def)

lemma confirmation_buffer_failure_hidden_witness:
  "fst (create_confirmation_verifier_buffer (\<lambda>_ _ b. (False, b\<lparr>buffer_size := 0\<rparr>)) (Some empty_buffer)
     (fst (Operation (be_ext doc_ops) doc_mem 2 (doc_set []) (doc_set []))))"
  using confirmation_buffer_failure_hidden [of "fst (Operation (be_ext doc_ops) doc_mem 2 (doc_set []) (doc_set []))"
      "\<lambda>_ _ b. (False, b\<lparr>buffer_size := 0\<rparr>)" empty_buffer]
  by (simp add: Operation_def split_beta Let_def)

end
