(* ===== verification/KmKeys.thy ===== *)
theory KmKeys
  imports KmOperation KmConvert AttestRecord
begin

text \<open>
  Keys and their factories: \<open>keymaster/key.h\<close> and the key classes, the digest conversions, the key derivation
  functions and the ASN.1 templates of wrapped keys under \<open>keymaster/km_openssl\<close> and \<open>keymaster\<close>. Constructors are
  modelled as those of operations are in \<open>KmOperation\<close>; blobs are those of \<open>KmUtils\<close>.
\<close>

section \<open>Key\<close>

datatype km_key_class = C_Key | C_AsymmetricKey | C_RsaKey | C_EcKey | C_Curve25519Key | C_Ed25519Key | C_X25519Key
  | C_SymmetricKey | C_AesKey | C_TripleDesKey | C_HmacKey | C_PassthroughKey

record 'p km_key =
  key_class :: km_key_class
  key_hw_enforced :: "'p authorization_set"
  key_sw_enforced :: "'p authorization_set"
  key_material :: blob
  key_factory :: nat
  key_secure_deletion_slot :: u32

definition Key_ctor ::
    "'p aset_ext \<Rightarrow> 'p op_mem \<Rightarrow> 'p authorization_set \<Rightarrow> 'p authorization_set \<Rightarrow> nat \<Rightarrow> ('p km_key, 'p) constructed" where
  "Key_ctor X m hw_enforced sw_enforced factory =
     (let (hw, hw') = AuthorizationSet_move X (mem_hw m) hw_enforced;
          (sw, sw') = AuthorizationSet_move X (mem_sw m) sw_enforced
      in (\<lparr>key_class = C_Key, key_hw_enforced = hw, key_sw_enforced = sw, key_material = empty_blob,
           key_factory = factory, key_secure_deletion_slot = 0\<rparr>, hw', sw'))"

definition Key_set_secure_deletion_slot :: "u32 \<Rightarrow> ('p, 'z) km_key_scheme \<Rightarrow> ('p, 'z) km_key_scheme" where
  "Key_set_secure_deletion_slot slot this = this\<lparr>key_secure_deletion_slot := slot\<rparr>"

section \<open>Asymmetric keys\<close>

definition AsymmetricKey_ctor ::
    "'p aset_ext \<Rightarrow> 'p op_mem \<Rightarrow> 'p authorization_set \<Rightarrow> 'p authorization_set \<Rightarrow> nat \<Rightarrow> ('p km_key, 'p) constructed" where
  "AsymmetricKey_ctor X m hw sw factory =
     (let (base, hw', sw') = Key_ctor X m hw sw factory in (base\<lparr>key_class := C_AsymmetricKey\<rparr>, hw', sw'))"

text \<open>The constructors of the concrete classes take the sets by value: what is left of the copies is dropped. The
  OpenSSL key is owned through its address, 0 for none.\<close>

record 'p openssl_key = "'p km_key" +
  openssl_ptr :: nat

definition RsaKey_ctor ::
    "'p aset_ext \<Rightarrow> 'p op_mem \<Rightarrow> 'p authorization_set \<Rightarrow> 'p authorization_set \<Rightarrow> nat \<Rightarrow> 'p openssl_key" where
  "RsaKey_ctor X m hw sw factory =
     (let (base, _, _) = AsymmetricKey_ctor X m hw sw factory
      in km_key.extend (base\<lparr>key_class := C_RsaKey\<rparr>) (openssl_key.fields 0))"

definition RsaKey_ctor_ptr ::
    "'p aset_ext \<Rightarrow> 'p op_mem \<Rightarrow> 'p authorization_set \<Rightarrow> 'p authorization_set \<Rightarrow> nat \<Rightarrow> nat \<Rightarrow> 'p openssl_key" where
  "RsaKey_ctor_ptr X m hw sw factory rsa =
     (let (base, _, _) = AsymmetricKey_ctor X m hw sw factory
      in km_key.extend (base\<lparr>key_class := C_RsaKey\<rparr>) (openssl_key.fields rsa))"

definition EcKey_ctor ::
    "'p aset_ext \<Rightarrow> 'p op_mem \<Rightarrow> 'p authorization_set \<Rightarrow> 'p authorization_set \<Rightarrow> nat \<Rightarrow> 'p openssl_key" where
  "EcKey_ctor X m hw sw factory =
     (let (base, _, _) = AsymmetricKey_ctor X m hw sw factory
      in km_key.extend (base\<lparr>key_class := C_EcKey\<rparr>) (openssl_key.fields 0))"

definition EcKey_ctor_ptr ::
    "'p aset_ext \<Rightarrow> 'p op_mem \<Rightarrow> 'p authorization_set \<Rightarrow> 'p authorization_set \<Rightarrow> nat \<Rightarrow> nat \<Rightarrow> 'p openssl_key" where
  "EcKey_ctor_ptr X m hw sw factory ec =
     (let (base, _, _) = AsymmetricKey_ctor X m hw sw factory
      in km_key.extend (base\<lparr>key_class := C_EcKey\<rparr>) (openssl_key.fields ec))"

definition Curve25519Key_ctor ::
    "'p aset_ext \<Rightarrow> 'p op_mem \<Rightarrow> 'p authorization_set \<Rightarrow> 'p authorization_set \<Rightarrow> nat \<Rightarrow> 'p km_key" where
  "Curve25519Key_ctor X m hw sw factory =
     (let (base, _, _) = AsymmetricKey_ctor X m hw sw factory in base\<lparr>key_class := C_Curve25519Key\<rparr>)"

text \<open>The material is copied by \<open>TKeymasterBlob::operator=\<close>.\<close>

definition Curve25519Key_ctor_material ::
    "(byte list option \<Rightarrow> nat \<Rightarrow> byte list option) \<Rightarrow> 'p aset_ext \<Rightarrow> 'p op_mem \<Rightarrow> 'p authorization_set
      \<Rightarrow> 'p authorization_set \<Rightarrow> nat \<Rightarrow> blob \<Rightarrow> 'p km_key" where
  "Curve25519Key_ctor_material dup_buffer X m hw sw factory material =
     (let (base, _, _) = AsymmetricKey_ctor X m hw sw factory;
          (b, _) = blob_assign dup_buffer False (key_material base) material
      in base\<lparr>key_class := C_Curve25519Key, key_material := b\<rparr>)"

text \<open>The two curves inherit the constructors.\<close>

definition Ed25519Key_ctor where
  "Ed25519Key_ctor X m hw sw factory = (Curve25519Key_ctor X m hw sw factory)\<lparr>key_class := C_Ed25519Key\<rparr>"

definition X25519Key_ctor where
  "X25519Key_ctor X m hw sw factory = (Curve25519Key_ctor X m hw sw factory)\<lparr>key_class := C_X25519Key\<rparr>"

definition RsaKey_evp_key_type :: "'p op_env \<Rightarrow> int" where "RsaKey_evp_key_type E = EVP_PKEY_RSA E"
definition EcKey_evp_key_type :: "'p op_env \<Rightarrow> int" where "EcKey_evp_key_type E = EVP_PKEY_EC E"
definition Ed25519Key_evp_key_type :: "'p op_env \<Rightarrow> int" where "Ed25519Key_evp_key_type E = EVP_PKEY_ED25519 E"
definition X25519Key_evp_key_type :: "'p op_env \<Rightarrow> int" where "X25519Key_evp_key_type E = EVP_PKEY_X25519 E"

definition ED25519_SEED_LEN :: int where "ED25519_SEED_LEN = 32"

section \<open>Symmetric keys\<close>

text \<open>The virtual functions of the three factories. Sizes are those of \<open>size_t\<close>.\<close>

datatype sym_factory = AesKeyFactory | TripleDesKeyFactory | HmacKeyFactory

definition SymmetricKeyFactory_key_size_bytes :: "u64 \<Rightarrow> u64" where
  "SymmetricKeyFactory_key_size_bytes key_size_bits = key_size_bits div 8"

definition SymmetricKeyFactory_key_size_bits :: "u64 \<Rightarrow> u64" where
  "SymmetricKeyFactory_key_size_bits key_size_bytes = key_size_bytes * 8"

definition TripleDesKeyFactory_key_size_bytes :: "u64 \<Rightarrow> u64" where
  "TripleDesKeyFactory_key_size_bytes key_size_bits = key_size_bits div 7"

definition TripleDesKeyFactory_key_size_bits :: "u64 \<Rightarrow> u64" where
  "TripleDesKeyFactory_key_size_bits key_size_bytes = key_size_bytes * 7"

definition kMinHmacLengthBits :: u64 where "kMinHmacLengthBits = 64"
definition kMinHmacKeyLengthBits :: u64 where "kMinHmacKeyLengthBits = 64"
definition kMaxHmacKeyLengthBits :: u64 where "kMaxHmacKeyLengthBits = 2048"
definition kMinGcmTagLength :: u64 where "kMinGcmTagLength = 12 * 8"
definition kMaxGcmTagLength :: u64 where "kMaxGcmTagLength = 16 * 8"

definition AesKeyFactory_key_size_supported :: "u64 \<Rightarrow> bool" where
  "AesKeyFactory_key_size_supported bits \<longleftrightarrow> bits = 128 \<or> bits = 192 \<or> bits = 256"

definition TripleDesKeyFactory_key_size_supported :: "u64 \<Rightarrow> bool" where
  "TripleDesKeyFactory_key_size_supported bits \<longleftrightarrow> bits = 112 \<or> bits = 168"

definition HmacKeyFactory_key_size_supported :: "u64 \<Rightarrow> bool" where
  "HmacKeyFactory_key_size_supported bits \<longleftrightarrow>
     bits > 0 \<and> bits mod 8 = 0 \<and> bits \<ge> kMinHmacKeyLengthBits \<and> bits \<le> kMaxHmacKeyLengthBits"

primrec key_size_supported :: "sym_factory \<Rightarrow> u64 \<Rightarrow> bool" where
  "key_size_supported AesKeyFactory bits = AesKeyFactory_key_size_supported bits"
| "key_size_supported TripleDesKeyFactory bits = TripleDesKeyFactory_key_size_supported bits"
| "key_size_supported HmacKeyFactory bits = HmacKeyFactory_key_size_supported bits"

primrec key_size_bytes :: "sym_factory \<Rightarrow> u64 \<Rightarrow> u64" where
  "key_size_bytes AesKeyFactory bits = SymmetricKeyFactory_key_size_bytes bits"
| "key_size_bytes TripleDesKeyFactory bits = TripleDesKeyFactory_key_size_bytes bits"
| "key_size_bytes HmacKeyFactory bits = SymmetricKeyFactory_key_size_bytes bits"

primrec key_size_bits :: "sym_factory \<Rightarrow> u64 \<Rightarrow> u64" where
  "key_size_bits AesKeyFactory n = SymmetricKeyFactory_key_size_bits n"
| "key_size_bits TripleDesKeyFactory n = TripleDesKeyFactory_key_size_bits n"
| "key_size_bits HmacKeyFactory n = SymmetricKeyFactory_key_size_bits n"

definition AesKeyFactory_registry_key :: "'p op_env \<Rightarrow> u32" where
  "AesKeyFactory_registry_key E = KM_ALGORITHM_AES E"

definition TripleDesKeyFactory_registry_key :: "'p op_env \<Rightarrow> u32" where
  "TripleDesKeyFactory_registry_key E = KM_ALGORITHM_TRIPLE_DES E"

definition NoFormats :: "u32 list option \<times> nat" where
  "NoFormats = (None, 0)"

definition SymmetricKeyFactory_SupportedExportFormats :: "u32 list option \<times> nat" where
  "SymmetricKeyFactory_SupportedExportFormats = NoFormats"

text \<open>Key material of symmetric keys is never given out; the output arguments are not written.\<close>

definition SymmetricKey_formatted_key_material ::
    "'p op_env \<Rightarrow> ('p, 'z) km_key_scheme \<Rightarrow> u32 \<Rightarrow> byte list option \<Rightarrow> nat \<Rightarrow> u32 \<times> byte list option \<times> nat" where
  "SymmetricKey_formatted_key_material E this format material n = (KM_ERROR_UNSUPPORTED_KEY_FORMAT E, material, n)"

text \<open>\<open>S\<close> is the constructor of \<open>SymmetricKey\<close>, in \<open>symmetric_key.cpp\<close>.\<close>

type_synonym 'p symmetric_ctor =
  "blob \<Rightarrow> 'p authorization_set \<Rightarrow> 'p authorization_set \<Rightarrow> nat \<Rightarrow> ('p km_key, 'p) constructed"

definition AesKey_ctor :: "'p symmetric_ctor \<Rightarrow> 'p symmetric_ctor" where
  "AesKey_ctor S material hw sw factory =
     (let (base, hw', sw') = S material hw sw factory in (base\<lparr>key_class := C_AesKey\<rparr>, hw', sw'))"

definition TripleDesKey_ctor :: "'p symmetric_ctor \<Rightarrow> 'p symmetric_ctor" where
  "TripleDesKey_ctor S material hw sw factory =
     (let (base, hw', sw') = S material hw sw factory in (base\<lparr>key_class := C_TripleDesKey\<rparr>, hw', sw'))"

definition HmacKey_ctor :: "'p symmetric_ctor \<Rightarrow> 'p symmetric_ctor" where
  "HmacKey_ctor S material hw sw factory =
     (let (base, hw', sw') = S material hw sw factory in (base\<lparr>key_class := C_HmacKey\<rparr>, hw', sw'))"

section \<open>Digests\<close>

text \<open>The digest enumerators of \<open>hardware/keymaster_defs.h\<close>, and the functions of OpenSSL, pointers to methods.\<close>

record digest_codes =
  code_MD5 :: u32
  code_SHA1 :: u32
  code_SHA_2_224 :: u32
  code_SHA_2_256 :: u32
  code_SHA_2_384 :: u32
  code_SHA_2_512 :: u32

record 'md evp_digests =
  EVP_md5 :: 'md
  EVP_sha1 :: 'md
  EVP_sha224 :: 'md
  EVP_sha256 :: 'md
  EVP_sha384 :: 'md
  EVP_sha512 :: 'md

definition KmDigestToEvpDigest :: "digest_codes \<Rightarrow> 'md evp_digests \<Rightarrow> u32 \<Rightarrow> 'md option" where
  "KmDigestToEvpDigest C F digest =
     (if digest = code_MD5 C then Some (EVP_md5 F)
      else if digest = code_SHA1 C then Some (EVP_sha1 F)
      else if digest = code_SHA_2_224 C then Some (EVP_sha224 F)
      else if digest = code_SHA_2_256 C then Some (EVP_sha256 F)
      else if digest = code_SHA_2_384 C then Some (EVP_sha384 F)
      else if digest = code_SHA_2_512 C then Some (EVP_sha512 F)
      else None)"

definition openssl_digest :: "'md evp_digests \<Rightarrow> int \<Rightarrow> 'md option" where
  "openssl_digest F digest =
     (case find (\<lambda>d. Digest_val d = digest) Digest_values of
        Some Digest_NONE \<Rightarrow> None
      | Some Digest_MD5 \<Rightarrow> Some (EVP_md5 F)
      | Some Digest_SHA1 \<Rightarrow> Some (EVP_sha1 F)
      | Some Digest_SHA_2_224 \<Rightarrow> Some (EVP_sha224 F)
      | Some Digest_SHA_2_256 \<Rightarrow> Some (EVP_sha256 F)
      | Some Digest_SHA_2_384 \<Rightarrow> Some (EVP_sha384 F)
      | Some Digest_SHA_2_512 \<Rightarrow> Some (EVP_sha512 F)
      | None \<Rightarrow> None)"

definition IsCertSigningKey :: "'p op_env \<Rightarrow> 'p authorization_set \<Rightarrow> bool" where
  "IsCertSigningKey E s \<longleftrightarrow>
     Contains_value (be_ext E) s (declared_type TAG_PURPOSE) (be_tag E TAG_PURPOSE) (KM_PURPOSE_SIGN E) = Some True \<or>
     Contains_value (be_ext E) s (declared_type TAG_PURPOSE) (be_tag E TAG_PURPOSE) (KM_PURPOSE_ATTEST_KEY E) = Some True"

section \<open>Key derivation\<close>

record kdf =
  secret_key :: "byte list option"
  secret_key_len :: nat
  kdf_salt :: "byte list option"
  kdf_salt_len :: nat
  is_initialized :: bool
  digest_type :: u32
  digest_size :: nat

text \<open>The secret as the destructor leaves it for the deallocation.\<close>

definition Kdf_destroy :: "kdf \<Rightarrow> byte list option" where
  "Kdf_destroy this = memset_s (secret_key this) 0 (secret_key_len this)"

text \<open>\<open>init\<close> is \<open>Kdf::Init\<close>; a pointer is what it points to.\<close>

type_synonym kdf_init = "u32 \<Rightarrow> byte list option \<Rightarrow> nat \<Rightarrow> byte list option \<Rightarrow> nat \<Rightarrow> kdf \<Rightarrow> bool \<times> kdf"

definition Rfc5869Sha256Kdf_Init :: "kdf_init \<Rightarrow> u32 \<Rightarrow> byte list option \<Rightarrow> nat \<Rightarrow> byte list option \<Rightarrow> nat \<Rightarrow> kdf \<Rightarrow> bool \<times> kdf" where
  "Rfc5869Sha256Kdf_Init init sha256 secret secret_len salt salt_len this =
     init sha256 secret secret_len salt salt_len this"

definition Rfc5869Sha256Kdf_Init_buffers :: "kdf_init \<Rightarrow> (buffer \<Rightarrow> nat) \<Rightarrow> u32 \<Rightarrow> buffer \<Rightarrow> buffer \<Rightarrow> kdf \<Rightarrow> bool \<times> kdf" where
  "Rfc5869Sha256Kdf_Init_buffers init available_read sha256 secret salt this =
     Rfc5869Sha256Kdf_Init init sha256
       (map_option (drop (read_position secret)) (buffer_data secret)) (available_read secret)
       (map_option (drop (read_position salt)) (buffer_data salt)) (available_read salt) this"

record iso18033_kdf = kdf +
  start_counter :: u32

definition Iso18033Kdf :: "kdf \<Rightarrow> u32 \<Rightarrow> iso18033_kdf" where
  "Iso18033Kdf base counter = kdf.extend base (iso18033_kdf.fields counter)"

definition Iso18033Kdf_Init :: "kdf_init \<Rightarrow> u32 \<Rightarrow> byte list option \<Rightarrow> nat \<Rightarrow> kdf \<Rightarrow> bool \<times> kdf" where
  "Iso18033Kdf_Init init digest secret secret_len this = init digest secret secret_len None 0 this"

definition ckdf_one :: "('k \<Rightarrow> 'l \<Rightarrow> 'c list \<Rightarrow> nat \<Rightarrow> 'r) \<Rightarrow> 'k \<Rightarrow> 'l \<Rightarrow> 'c \<Rightarrow> 'r" where
  "ckdf_one ckdf key label context_chunk = ckdf key label [context_chunk] 1"

section \<open>Wrapped keys\<close>

datatype wrapped_type = W_asn1 asn1_type | W_auth_list | W_description

definition KM_WRAPPED_KEY_DESCRIPTION :: "(string \<times> wrapped_type) list" where
  "KM_WRAPPED_KEY_DESCRIPTION = [(''key_format'', W_asn1 ASN1_INTEGER), (''auth_list'', W_auth_list)]"

definition KM_WRAPPED_KEY :: "(string \<times> wrapped_type) list" where
  "KM_WRAPPED_KEY =
    [(''version'', W_asn1 ASN1_INTEGER), (''transit_key'', W_asn1 ASN1_OCTET_STRING), (''iv'', W_asn1 ASN1_OCTET_STRING),
     (''wrapped_key_description'', W_description), (''secure_key'', W_asn1 ASN1_OCTET_STRING),
     (''tag'', W_asn1 ASN1_OCTET_STRING)]"

section \<open>Certificates\<close>

record certificate_caller_params =
  cert_serial :: nat
  cert_subject_name :: nat
  active_date_time :: int
  expire_date_time :: int
  is_signing_key :: bool
  is_encryption_key :: bool
  is_agreement_key :: bool

text \<open>Default initialization: null pointers, the three flags false, the dates as the memory has them.\<close>

definition CertificateCallerParams :: "int \<Rightarrow> int \<Rightarrow> certificate_caller_params" where
  "CertificateCallerParams active expire =
     \<lparr>cert_serial = 0, cert_subject_name = 0, active_date_time = active, expire_date_time = expire,
      is_signing_key = False, is_encryption_key = False, is_agreement_key = False\<rparr>"

record attest_key_info =
  signing_key :: nat
  issuer_subject :: nat

definition AttestKeyInfo_bool :: "attest_key_info \<Rightarrow> bool" where
  "AttestKeyInfo_bool this \<longleftrightarrow> signing_key this \<noteq> 0"

section \<open>Properties of keys\<close>

text \<open>The key classes take the sets and the factory over, as operations do.\<close>

definition key_takes ::
    "'p aset_ext \<Rightarrow> 'p op_mem \<Rightarrow> km_key_class \<Rightarrow> 'p authorization_set \<Rightarrow> 'p authorization_set \<Rightarrow> nat \<Rightarrow> 'p km_key \<Rightarrow> bool" where
  "key_takes X m c hw sw factory k \<longleftrightarrow> key_class k = c \<and> key_factory k = factory \<and> key_secure_deletion_slot k = 0 \<and>
     key_hw_enforced k = fst (AuthorizationSet_move X (mem_hw m) hw) \<and>
     key_sw_enforced k = fst (AuthorizationSet_move X (mem_sw m) sw)"

lemma AsymmetricKey_takes:
  "key_takes X m C_AsymmetricKey hw sw f (fst (AsymmetricKey_ctor X m hw sw f))"
  "key_material (fst (AsymmetricKey_ctor X m hw sw f)) = empty_blob"
  by (simp_all add: AsymmetricKey_ctor_def Key_ctor_def key_takes_def split_beta Let_def)

lemmas key_objects = RsaKey_ctor_def RsaKey_ctor_ptr_def EcKey_ctor_def EcKey_ctor_ptr_def Curve25519Key_ctor_def
  Curve25519Key_ctor_material_def Ed25519Key_ctor_def X25519Key_ctor_def km_key.defs openssl_key.defs split_beta Let_def

lemma openssl_keys_take:
  "key_takes X m C_RsaKey hw sw f (km_key.truncate (RsaKey_ctor X m hw sw f))"
  "key_takes X m C_RsaKey hw sw f (km_key.truncate (RsaKey_ctor_ptr X m hw sw f ptr))"
  "key_takes X m C_EcKey hw sw f (km_key.truncate (EcKey_ctor X m hw sw f))"
  "key_takes X m C_EcKey hw sw f (km_key.truncate (EcKey_ctor_ptr X m hw sw f ptr))"
  using AsymmetricKey_takes(1) [of X m hw sw f] by (simp_all add: key_takes_def key_objects)

lemma curve25519_takes:
  "key_takes X m C_Ed25519Key hw sw f (Ed25519Key_ctor X m hw sw f)"
  "key_takes X m C_X25519Key hw sw f (X25519Key_ctor X m hw sw f)"
  "key_takes X m C_Curve25519Key hw sw f (Curve25519Key_ctor_material dup X m hw sw f material)"
  using AsymmetricKey_takes(1) [of X m hw sw f] by (simp_all add: key_takes_def key_objects)

text \<open>Every key size that a symmetric factory supports is converted to bytes and back without loss: 16 to 32 bytes
  for AES, 16 and 24 for triple DES, whose bytes count seven bits, and 8 to 256 for HMAC.\<close>

theorem key_sizes_round_trip:
  assumes "key_size_supported f bits"
  shows "key_size_bits f (key_size_bytes f bits) = bits \<and>
    (case f of AesKeyFactory \<Rightarrow> key_size_bytes f bits \<in> {16, 24, 32}
     | TripleDesKeyFactory \<Rightarrow> key_size_bytes f bits \<in> {16, 24}
     | HmacKeyFactory \<Rightarrow> 8 \<le> key_size_bytes f bits \<and> key_size_bytes f bits \<le> 256)"
proof (cases f)
  case HmacKeyFactory
  with assms have b: "bits mod 8 = 0" "64 \<le> bits" "bits \<le> 2048"
    by (simp_all add: HmacKeyFactory_key_size_supported_def kMinHmacKeyLengthBits_def kMaxHmacKeyLengthBits_def)
  have "bits div 8 * 8 = bits" using b(1) div_mult_mod_eq [of bits 8] by simp
  moreover have "8 \<le> bits div 8 \<and> bits div 8 \<le> 256"
    using b(2,3) by (simp add: word_le_nat_alt unat_div_distrib) presburger
  ultimately show ?thesis
    using HmacKeyFactory by (simp add: SymmetricKeyFactory_key_size_bytes_def SymmetricKeyFactory_key_size_bits_def)
qed (use assms in \<open>auto simp: AesKeyFactory_key_size_supported_def TripleDesKeyFactory_key_size_supported_def
    SymmetricKeyFactory_key_size_bytes_def SymmetricKeyFactory_key_size_bits_def
    TripleDesKeyFactory_key_size_bytes_def TripleDesKeyFactory_key_size_bits_def\<close>)

lemma key_sizes_round_trip_witness: "key_size_bits TripleDesKeyFactory (key_size_bytes TripleDesKeyFactory 168) = 168"
  using key_sizes_round_trip [of TripleDesKeyFactory 168] by (simp add: TripleDesKeyFactory_key_size_supported_def)

text \<open>The two libraries choose the same digest: for every number that a variable of the KeyMint type can hold, the
  Keymaster function on the converted number and the KeyMint function agree, whether they find a method or not,
  when the Keymaster enumerators are those of KeyMint.\<close>

theorem digests_agree:
  assumes "C = \<lparr>code_MD5 = aidl2km_enum (Digest_val Digest_MD5), code_SHA1 = aidl2km_enum (Digest_val Digest_SHA1),
      code_SHA_2_224 = aidl2km_enum (Digest_val Digest_SHA_2_224), code_SHA_2_256 = aidl2km_enum (Digest_val Digest_SHA_2_256),
      code_SHA_2_384 = aidl2km_enum (Digest_val Digest_SHA_2_384), code_SHA_2_512 = aidl2km_enum (Digest_val Digest_SHA_2_512)\<rparr>"
    and "- (2 ^ 31) \<le> v" "v < 2 ^ 31"
  shows "KmDigestToEvpDigest C F (aidl2km_enum v) = openssl_digest F v"
proof -
  have inj: "aidl2km_enum v = aidl2km_enum w \<longleftrightarrow> v = w" if "0 \<le> w" "w < 2 ^ 31" for w
  proof
    assume "aidl2km_enum v = aidl2km_enum w"
    then have "km2aidl_enum (aidl2km_enum v) = km2aidl_enum (aidl2km_enum w)" by simp
    then show "v = w"
      using assms(2,3) that by (simp add: aidl2km_enum_def km2aidl_enum_def sint_sbintrunc' signed_take_bit_int_eq_self)
  qed simp
  show ?thesis
    unfolding KmDigestToEvpDigest_def assms(1) by (simp add: inj openssl_digest_def Digest_values_def)
qed

lemma digests_agree_witness:
  "KmDigestToEvpDigest \<lparr>code_MD5 = 1, code_SHA1 = 2, code_SHA_2_224 = 3, code_SHA_2_256 = 4, code_SHA_2_384 = 5, code_SHA_2_512 = 6\<rparr>
     \<lparr>EVP_md5 = ''md5'', EVP_sha1 = ''sha1'', EVP_sha224 = ''224'', EVP_sha256 = ''256'', EVP_sha384 = ''384'', EVP_sha512 = ''512''\<rparr>
     (aidl2km_enum 4) = Some ''256''"
  using digests_agree [OF refl, of 4
      "\<lparr>EVP_md5 = ''md5'', EVP_sha1 = ''sha1'', EVP_sha224 = ''224'', EVP_sha256 = ''256'', EVP_sha384 = ''384'', EVP_sha512 = ''512''\<rparr>"]
  by (simp add: aidl2km_enum_def openssl_digest_def Digest_values_def)

text \<open>The destructor of a key derivation function leaves nothing of the secret.\<close>

lemma kdf_secret_wiped:
  "secret_key k = Some d \<Longrightarrow> length d = secret_key_len k \<Longrightarrow> Kdf_destroy k = Some (replicate (length d) 0)"
  by (simp add: Kdf_destroy_def memset_s_def)

end
