(* ===== verification/KmContexts.thy ===== *)
theory KmContexts
  imports KmKeys KmResult
begin

text \<open>
  The contexts in which AndroidKeymaster runs: \<open>keymaster/keymaster_context.h\<close>, \<open>keymaster/attestation_context.h\<close> and
  the classes of \<open>keymaster/contexts\<close> as far as the headers define them; the results of remote provisioning
  (\<open>keymaster/remote_provisioning_utils.h\<close>); and the support for Keymaster 1 devices
  (\<open>keymaster/legacy_support\<close>). Objects owned elsewhere are addresses, 0 for the null pointer.
\<close>

section \<open>Default methods\<close>

record context_codes =
  KM_ERROR_UNIMPLEMENTED :: u32
  KM_ERROR_MEMORY_ALLOCATION_FAILED :: u32
  KM_SECURITY_LEVEL_SOFTWARE :: u32

definition AttestationContext_GetKmVersion :: "KmVersion \<Rightarrow> KmVersion" where
  "AttestationContext_GetKmVersion version = version"

definition default_VerifyAndCopyDeviceIds :: "context_codes \<Rightarrow> 'p authorization_set \<Rightarrow> u32 \<times> 'p authorization_set" where
  "default_VerifyAndCopyDeviceIds C attestation = (KM_ERROR_UNIMPLEMENTED C, attestation)"

text \<open>The \<open>error\<close> argument is a pointer that may be null, then what it points to.\<close>

definition default_GenerateUniqueId :: "context_codes \<Rightarrow> u32 option \<Rightarrow> buffer \<times> u32 option" where
  "default_GenerateUniqueId C err =
     (empty_buffer, (case err of None \<Rightarrow> None | Some _ \<Rightarrow> Some (KM_ERROR_UNIMPLEMENTED C)))"

record verified_boot_params =
  verified_boot_key :: blob
  verified_boot_hash :: blob
  verified_boot_state :: u32
  boot_device_locked :: bool

definition default_GetVerifiedBootParams :: "context_codes \<Rightarrow> verified_boot_params option \<times> u32" where
  "default_GetVerifiedBootParams C = (None, KM_ERROR_UNIMPLEMENTED C)"

definition default_DeleteKey :: u32 where "default_DeleteKey = KM_ERROR_OK"
definition default_DeleteAllKeys :: u32 where "default_DeleteAllKeys = KM_ERROR_OK"
definition default_attestation_context :: nat where "default_attestation_context = 0"
definition default_secure_key_storage :: nat where "default_secure_key_storage = 0"
definition default_secure_deletion_secret_storage :: nat where "default_secure_deletion_secret_storage = 0"
definition default_GetRemoteProvisioningContext :: nat where "default_GetRemoteProvisioningContext = 0"

definition default_CheckConfirmationToken :: "context_codes \<Rightarrow> u32" where
  "default_CheckConfirmationToken C = KM_ERROR_UNIMPLEMENTED C"

definition default_SetVerifiedBootInfo :: "context_codes \<Rightarrow> u32" where
  "default_SetVerifiedBootInfo C = KM_ERROR_UNIMPLEMENTED C"

definition default_SetVendorPatchlevel :: "context_codes \<Rightarrow> u32" where
  "default_SetVendorPatchlevel C = KM_ERROR_UNIMPLEMENTED C"

definition default_SetBootPatchlevel :: "context_codes \<Rightarrow> u32" where
  "default_SetBootPatchlevel C = KM_ERROR_UNIMPLEMENTED C"

definition default_GetVendorPatchlevel :: "u32 option" where "default_GetVendorPatchlevel = None"
definition default_GetBootPatchlevel :: "u32 option" where "default_GetBootPatchlevel = None"

definition default_SetAttestationIds :: "context_codes \<Rightarrow> u32" where
  "default_SetAttestationIds C = KM_ERROR_UNIMPLEMENTED C"

definition default_SetAttestationIdsKM3 :: "context_codes \<Rightarrow> u32" where
  "default_SetAttestationIdsKM3 C = KM_ERROR_UNIMPLEMENTED C"

section \<open>Software contexts\<close>

definition SoftAttestationContext_GetSecurityLevel :: "context_codes \<Rightarrow> u32" where
  "SoftAttestationContext_GetSecurityLevel C = KM_SECURITY_LEVEL_SOFTWARE C"

text \<open>
  \<open>getAttestationKey\<close> (\<open>soft_attestation_cert.cpp\<close>) returns a pointer and sets the error; the pointer is followed
  whatever the error is: the outer \<open>None\<close> is the null dereference.
\<close>

definition SoftAttestationContext_GetAttestationKey ::
    "(byte list option \<Rightarrow> nat \<Rightarrow> byte list option) \<Rightarrow> (u32 \<Rightarrow> blob option \<times> u32) \<Rightarrow> u32 \<Rightarrow> (blob \<times> u32) option" where
  "SoftAttestationContext_GetAttestationKey dup_buffer getAttestationKey algorithm =
     (case getAttestationKey algorithm of
        (None, err) \<Rightarrow> None
      | (Some b, err) \<Rightarrow> Some (blob_from dup_buffer (blob_data b) (blob_size b), err))"

definition SoftAttestationContext_GetAttestationChain :: "(u32 \<Rightarrow> 'c \<times> u32) \<Rightarrow> u32 \<Rightarrow> 'c \<times> u32" where
  "SoftAttestationContext_GetAttestationChain getAttestationChain algorithm = getAttestationChain algorithm"

record pure_soft_context =
  psc_version :: KmVersion
  psc_os_version :: u32
  psc_os_patchlevel :: u32
  psc_bootloader_state :: "string option"
  psc_verified_boot_state :: "string option"
  psc_vbmeta_digest :: "byte list option"
  psc_vendor_patchlevel :: "u32 option"
  psc_boot_patchlevel :: "u32 option"
  psc_enforcement :: nat
  psc_security_level :: u32
  psc_secure_key_storage :: nat
  psc_remote_provisioning :: nat

definition PureSoft_GetKmVersion :: "pure_soft_context \<Rightarrow> KmVersion" where
  "PureSoft_GetKmVersion this = AttestationContext_GetKmVersion (psc_version this)"

text \<open>\<open>psc_enforcement\<close> is the address of the member \<open>soft_keymaster_enforcement_\<close>.\<close>

definition PureSoft_enforcement_policy :: "pure_soft_context \<Rightarrow> nat" where
  "PureSoft_enforcement_policy this = psc_enforcement this"

definition PureSoft_secure_key_storage :: "pure_soft_context \<Rightarrow> nat" where
  "PureSoft_secure_key_storage this = psc_secure_key_storage this"

definition PureSoft_GetRemoteProvisioningContext :: "pure_soft_context \<Rightarrow> nat" where
  "PureSoft_GetRemoteProvisioningContext this = psc_remote_provisioning this"

definition PureSoft_GetVendorPatchlevel :: "pure_soft_context \<Rightarrow> u32 option" where
  "PureSoft_GetVendorPatchlevel this = psc_vendor_patchlevel this"

definition PureSoft_GetBootPatchlevel :: "pure_soft_context \<Rightarrow> u32 option" where
  "PureSoft_GetBootPatchlevel this = psc_boot_patchlevel this"

definition PureSoft_GetSecurityLevel :: "pure_soft_context \<Rightarrow> u32" where
  "PureSoft_GetSecurityLevel this = psc_security_level this"

definition SoftKeymaster_GetKmVersion :: "KmVersion \<Rightarrow> KmVersion" where
  "SoftKeymaster_GetKmVersion version = AttestationContext_GetKmVersion version"

definition SoftKeymaster_enforcement_policy :: nat where
  "SoftKeymaster_enforcement_policy = 0"

definition Passthrough1_GetKmVersion :: "KmVersion \<Rightarrow> KmVersion" where
  "Passthrough1_GetKmVersion version = AttestationContext_GetKmVersion version"

definition Passthrough1_GenerateSelfSignedCertificate :: "context_codes \<Rightarrow> cert_chain \<times> u32" where
  "Passthrough1_GenerateSelfSignedCertificate C = (empty_chain, KM_ERROR_UNIMPLEMENTED C)"

definition Passthrough2_GetKmVersion :: "KmVersion \<Rightarrow> KmVersion" where
  "Passthrough2_GetKmVersion version = version"

definition Passthrough2_GenerateSelfSignedCertificate :: "context_codes \<Rightarrow> cert_chain \<times> u32" where
  "Passthrough2_GenerateSelfSignedCertificate C = (empty_chain, KM_ERROR_UNIMPLEMENTED C)"

section \<open>Results of remote provisioning\<close>

definition kStatusFailed :: u32 where "kStatusFailed = - 1"
definition kStatusInvalidMac :: u32 where "kStatusInvalidMac = - 2"
definition kStatusProductionKeyInTestRequest :: u32 where "kStatusProductionKeyInTestRequest = - 3"
definition kStatusTestKeyInProductionRequest :: u32 where "kStatusTestKeyInProductionRequest = - 4"
definition kStatusInvalidEek :: u32 where "kStatusInvalidEek = - 5"
definition kStatusRemoved :: u32 where "kStatusRemoved = - 6"

record 'a status_or =
  status_code :: u32
  status_value :: "'a option"

definition StatusOr_of_code :: "u32 \<Rightarrow> 'a status_or" where
  "StatusOr_of_code code = \<lparr>status_code = code, status_value = None\<rparr>"

definition StatusOr_of_value :: "'a \<Rightarrow> 'a status_or" where
  "StatusOr_of_value v = \<lparr>status_code = 0, status_value = Some v\<rparr>"

definition StatusOr_isOk :: "'a status_or \<Rightarrow> bool" where
  "StatusOr_isOk this \<longleftrightarrow> status_code this = 0"

text \<open>
  Reading the value ends in an assertion or in the exception of \<open>std::optional\<close>. \<open>moved\<close> is what a move leaves of a
  value, which stays engaged; \<open>debug\<close> says whether assertions are compiled in.
\<close>

datatype 'a status_read = Read 'a | Assertion_failed | Bad_optional_access

definition optional_value :: "'a option \<Rightarrow> 'a status_read" where
  "optional_value x = (case x of Some v \<Rightarrow> Read v | None \<Rightarrow> Bad_optional_access)"

definition StatusOr_deref :: "bool \<Rightarrow> 'a status_or \<Rightarrow> 'a status_read" where
  "StatusOr_deref debug this =
     (if debug \<and> \<not> StatusOr_isOk this then Assertion_failed else optional_value (status_value this))"

text \<open>\<open>operator*() &&\<close> is \<open>StatusOr_deref\<close> followed by the move, as \<open>moveValue\<close> is without the assertion.\<close>

definition StatusOr_moveValue :: "'a \<Rightarrow> 'a status_or \<Rightarrow> 'a status_read \<times> 'a status_or" where
  "StatusOr_moveValue moved this =
     (optional_value (status_value this), this\<lparr>status_value := map_option (\<lambda>_. moved) (status_value this)\<rparr>)"

definition StatusOr_moveError :: "bool \<Rightarrow> 'a status_or \<Rightarrow> u32 status_read" where
  "StatusOr_moveError debug this = (if debug \<and> StatusOr_isOk this then Assertion_failed else Read (status_code this))"

section \<open>Keymaster 1 devices\<close>

text \<open>
  A key factory is the record of its methods on a state, which holds what they change, with the code they return. The
  arguments that one of them does not have are dropped by the passthrough factory, as its comments show: the
  attestation key and the issuer, and the certificate chain, which is not written.
\<close>

record ('d, 'a, 's) key_methods =
  gen_key :: "'d \<Rightarrow> 'a \<Rightarrow> 's \<Rightarrow> u32 \<times> 's"
  imp_key :: "'d \<Rightarrow> u32 \<Rightarrow> blob \<Rightarrow> 'a \<Rightarrow> 's \<Rightarrow> u32 \<times> 's"

record ('d, 's) engine_methods =
  eng_generate :: "'d \<Rightarrow> 's \<Rightarrow> u32 \<times> 's"
  eng_import :: "'d \<Rightarrow> u32 \<Rightarrow> blob \<Rightarrow> 's \<Rightarrow> u32 \<times> 's"
  eng_operation_factory :: "u32 \<Rightarrow> u32 \<Rightarrow> nat"

definition Passthrough_GenerateKey :: "('d, 's) engine_methods \<Rightarrow> 'd \<Rightarrow> 'a \<Rightarrow> 's \<Rightarrow> u32 \<times> 's" where
  "Passthrough_GenerateKey engine key_description attest s = eng_generate engine key_description s"

definition Passthrough_ImportKey :: "('d, 's) engine_methods \<Rightarrow> 'd \<Rightarrow> u32 \<Rightarrow> blob \<Rightarrow> 'a \<Rightarrow> 's \<Rightarrow> u32 \<times> 's" where
  "Passthrough_ImportKey engine key_description format material attest s =
     eng_import engine key_description format material s"

definition Passthrough_GetOperationFactory :: "('d, 's) engine_methods \<Rightarrow> u32 \<Rightarrow> u32 \<Rightarrow> nat" where
  "Passthrough_GetOperationFactory engine algorithm purpose = eng_operation_factory engine purpose algorithm"

definition Passthrough_methods :: "('d, 's) engine_methods \<Rightarrow> ('d, 'a, 's) key_methods" where
  "Passthrough_methods engine = \<lparr>gen_key = Passthrough_GenerateKey engine, imp_key = Passthrough_ImportKey engine\<rparr>"

text \<open>\<open>requires\<close> is \<open>RequiresSoftwareDigesting(key_description)\<close>.\<close>

definition Arbitration_GenerateKey ::
    "('d \<Rightarrow> bool) \<Rightarrow> ('d, 'a, 's) key_methods \<Rightarrow> ('d, 's) engine_methods \<Rightarrow> 'd \<Rightarrow> 'a \<Rightarrow> 's \<Rightarrow> u32 \<times> 's" where
  "Arbitration_GenerateKey requires soft engine key_description attest s =
     (if requires key_description then gen_key soft key_description attest s
      else gen_key (Passthrough_methods engine) key_description attest s)"

definition Arbitration_ImportKey ::
    "('d \<Rightarrow> bool) \<Rightarrow> ('d, 'a, 's) key_methods \<Rightarrow> ('d, 's) engine_methods \<Rightarrow> 'd \<Rightarrow> u32 \<Rightarrow> blob \<Rightarrow> 'a \<Rightarrow> 's \<Rightarrow> u32 \<times> 's" where
  "Arbitration_ImportKey requires soft engine key_description format material attest s =
     (if requires key_description then imp_key soft key_description format material attest s
      else imp_key (Passthrough_methods engine) key_description format material attest s)"

text \<open>The digest that decides about loading: the one of the parameters, when they have exactly one.\<close>

definition load_digest :: "'p op_env \<Rightarrow> 'p authorization_set \<Rightarrow> u32" where
  "load_digest E additional_params =
     (case GetTagValue (be_ext E) additional_params (declared_type TAG_DIGEST) (be_tag E TAG_DIGEST) None of
        Some (Some (R_uint32 digest)) \<Rightarrow> digest
      | _ \<Rightarrow> KM_DIGEST_NONE E)"

definition Arbitration_LoadKey ::
    "'p op_env \<Rightarrow> (u32 \<Rightarrow> 'p authorization_set \<Rightarrow> 'p authorization_set \<Rightarrow> bool)
      \<Rightarrow> (blob \<Rightarrow> 'p authorization_set \<Rightarrow> 'p authorization_set \<Rightarrow> 'p authorization_set \<Rightarrow> 'r)
      \<Rightarrow> (blob \<Rightarrow> 'p authorization_set \<Rightarrow> 'p authorization_set \<Rightarrow> 'p authorization_set \<Rightarrow> 'r)
      \<Rightarrow> blob \<Rightarrow> 'p authorization_set \<Rightarrow> 'p authorization_set \<Rightarrow> 'p authorization_set \<Rightarrow> 'r" where
  "Arbitration_LoadKey E requires soft passthrough material additional_params hw sw =
     (if requires (load_digest E additional_params) hw sw then soft material additional_params hw sw
      else passthrough material additional_params hw sw)"

text \<open>The assertion fails in a debug build; otherwise the factory is null.\<close>

definition Arbitration_GetOperationFactory :: "bool \<Rightarrow> nat option" where
  "Arbitration_GetOperationFactory debug = (if debug then None else Some 0)"

definition Arbitration_SupportedImportFormats :: "u32 list option \<times> nat" where
  "Arbitration_SupportedImportFormats = (None, 0)"

definition Arbitration_SupportedExportFormats :: "u32 list option \<times> nat" where
  "Arbitration_SupportedExportFormats = (None, 0)"

record 'p passthrough_key = "'p km_key" +
  additional_parameters :: "'p authorization_set"
  passthrough_engine :: nat

text \<open>The key, what is left of the arguments, and \<open>*error\<close>.\<close>

definition KeymasterPassthroughKey ::
    "context_codes \<Rightarrow> 'p aset_ext \<Rightarrow> 'p op_mem \<Rightarrow> nat \<Rightarrow> blob \<Rightarrow> 'p authorization_set \<Rightarrow> 'p authorization_set \<Rightarrow> nat
      \<Rightarrow> u32 \<Rightarrow> 'p authorization_set \<Rightarrow> nat \<Rightarrow> ('p passthrough_key \<times> blob \<times> u32, 'p) constructed" where
  "KeymasterPassthroughKey C X m junk material hw sw factory err params engine =
     (let (base, hw', sw') = Key_ctor X m hw sw factory;
          own = AuthorizationSet_copy X junk params;
          (b, material', _) = blob_move_assign False (key_material base) material;
          this = km_key.extend (base\<lparr>key_class := C_PassthroughKey, key_material := b\<rparr>)
                   (passthrough_key.fields own engine);
          err' = (if err \<noteq> KM_ERROR_OK then err
                    else if aset_error params \<noteq> aset_error own \<and> aset_error own = ALLOCATION_FAILURE
                    then KM_ERROR_MEMORY_ALLOCATION_FAILED C else err)
      in ((this, material', err'), hw', sw'))"

record 'p engine_key_data =
  kd_op_handle :: u64
  kd_begin_params :: "'p authorization_set"
  kd_finish_params :: "'p authorization_set"
  kd_key_material :: blob
  kd_error :: u32
  kd_expected_openssl_padding :: int

definition KeyData ::
    "'p aset_ext \<Rightarrow> (byte list option \<Rightarrow> nat \<Rightarrow> byte list option) \<Rightarrow> nat \<Rightarrow> blob \<Rightarrow> 'p authorization_set \<Rightarrow> 'p engine_key_data" where
  "KeyData X dup_buffer junk b params =
     \<lparr>kd_op_handle = 0, kd_begin_params = AuthorizationSet_copy X junk params, kd_finish_params = AuthorizationSet,
      kd_key_material = blob_copy dup_buffer b, kd_error = KM_ERROR_OK, kd_expected_openssl_padding = - 1\<rparr>"

section \<open>Encrypted key blobs\<close>

datatype AuthEncryptedBlobFormat = AES_OCB | AES_GCM_WITH_SW_ENFORCED | AES_GCM_WITH_SECURE_DELETION
  | AES_GCM_WITH_SW_ENFORCED_VERSIONED | AES_GCM_WITH_SECURE_DELETION_VERSIONED

primrec AuthEncryptedBlobFormat_val :: "AuthEncryptedBlobFormat \<Rightarrow> byte" where
  "AuthEncryptedBlobFormat_val AES_OCB = 0"
| "AuthEncryptedBlobFormat_val AES_GCM_WITH_SW_ENFORCED = 1"
| "AuthEncryptedBlobFormat_val AES_GCM_WITH_SECURE_DELETION = 2"
| "AuthEncryptedBlobFormat_val AES_GCM_WITH_SW_ENFORCED_VERSIONED = 3"
| "AuthEncryptedBlobFormat_val AES_GCM_WITH_SECURE_DELETION_VERSIONED = 4"

record secure_deletion_data =
  factory_reset_secret :: buffer
  secure_deletion_secret :: buffer
  sd_key_slot :: u32

definition SecureDeletionData :: secure_deletion_data where
  "SecureDeletionData =
     \<lparr>factory_reset_secret = empty_buffer, secure_deletion_secret = empty_buffer, sd_key_slot = 0\<rparr>"

record encrypted_key =
  ek_format :: AuthEncryptedBlobFormat
  ek_ciphertext :: blob
  ek_nonce :: buffer
  ek_tag :: buffer
  ek_kdf_version :: u32
  ek_addl_info :: u32

record 'p deserialized_key =
  dk_encrypted_key :: encrypted_key
  dk_hw_enforced :: "'p authorization_set"
  dk_sw_enforced :: "'p authorization_set"
  dk_key_slot :: u32

section \<open>Properties\<close>

text \<open>A result made from a value is \<open>isOk\<close> and gives the value, once; a result made from a code other than 0 is
  not, and gives the code. A result made from the code 0 is \<open>isOk\<close> as well, but has no value: reading it throws in
  every build.\<close>

theorem status_or_reads:
  "StatusOr_isOk (StatusOr_of_value (v :: 'a)) \<and> StatusOr_deref debug (StatusOr_of_value v) = Read v \<and>
   fst (StatusOr_moveValue moved (StatusOr_of_value v)) = Read v \<and>
   fst (StatusOr_moveValue moved (snd (StatusOr_moveValue moved (StatusOr_of_value v)))) = Read moved \<and>
   (StatusOr_isOk (StatusOr_of_code e :: 'a status_or) \<longleftrightarrow> e = 0) \<and>
   (e \<noteq> 0 \<longrightarrow> StatusOr_moveError debug (StatusOr_of_code e :: 'a status_or) = Read e) \<and>
   StatusOr_deref debug (StatusOr_of_code 0 :: 'a status_or) = Bad_optional_access"
  by (simp add: StatusOr_isOk_def StatusOr_of_value_def StatusOr_of_code_def StatusOr_deref_def StatusOr_moveValue_def
      StatusOr_moveError_def optional_value_def)

lemma status_or_reads_witness:
  "StatusOr_moveError True (StatusOr_of_code kStatusInvalidMac :: nat status_or) = Read (- 2)
   \<and> StatusOr_deref False (StatusOr_of_code 0 :: nat status_or) = Bad_optional_access"
  using status_or_reads [of "0 :: nat" True 0 "- 2"] status_or_reads [of "0 :: nat" False 0 0]
  by (simp add: kStatusInvalidMac_def)

lemma status_codes_fail:
  "c \<in> {kStatusFailed, kStatusInvalidMac, kStatusProductionKeyInTestRequest, kStatusTestKeyInProductionRequest,
     kStatusInvalidEek, kStatusRemoved} \<Longrightarrow> \<not> StatusOr_isOk (StatusOr_of_code c)"
  by (auto simp: StatusOr_isOk_def StatusOr_of_code_def kStatusFailed_def kStatusInvalidMac_def kStatusInvalidEek_def
      kStatusProductionKeyInTestRequest_def kStatusTestKeyInProductionRequest_def kStatusRemoved_def)

text \<open>The constructor of a passthrough key takes the key material and the sets over, leaves the material it was
  given empty, and reports a failed copy of valid additional parameters as a failed allocation; an error that is
  already set stays.\<close>

theorem passthrough_key_reports:
  assumes "aset_functions (be_ext E) tag_of"
    and "aset_error params = ASET_OK" "elems params = Some es" "elems_size params \<le> length es"
    and "KeymasterPassthroughKey C (be_ext E) m junk material hw sw factory err params engine = ((this, material', err'), hw', sw')"
  shows "key_takes (be_ext E) m C_PassthroughKey hw sw factory (km_key.truncate this) \<and>
    key_material this = \<lparr>blob_data = blob_data material, blob_size = blob_size material\<rparr> \<and>
    blob_data material' = None \<and> blob_size material' = 0 \<and>
    err' = (if err = KM_ERROR_OK \<and> \<not> fst (x_Reinitialize (be_ext E) (Some es) (elems_size params) (aset_uninit junk))
            then KM_ERROR_MEMORY_ALLOCATION_FAILED C else err)"
proof -
  define X where "X = be_ext E"
  have own: "aset_error (AuthorizationSet_copy X junk params) =
      (if fst (x_Reinitialize X (Some es) (elems_size params) (aset_uninit junk)) then ASET_OK else ALLOCATION_FAILURE)"
  proof -
    have u: "x_Reinitialize X (Some es) (elems_size params) ((aset_uninit junk)\<lparr>aset_error := ASET_OK\<rparr>) =
        x_Reinitialize X (Some es) (elems_size params) (aset_uninit junk)"
      by (simp add: aset_uninit_def AuthorizationSet_def)
    obtain ok s' where r: "x_Reinitialize X (Some es) (elems_size params) (aset_uninit junk) = (ok, s')" by fastforce
    have "aset_error s' = (if ok then ASET_OK else ALLOCATION_FAILURE)"
      using aset_functions.reinit_copies [OF assms(1,4)] aset_functions.reinit_fails [OF assms(1)] r
      by (cases ok) (simp_all add: X_def)
    then show ?thesis using r u assms(2,3) by (simp add: AuthorizationSet_copy_def Let_def)
  qed
  have takes: "key_takes X m C_Key hw sw factory (fst (Key_ctor X m hw sw factory))"
    by (simp add: Key_ctor_def key_takes_def split_beta Let_def)
  show ?thesis
    using assms(5) takes own unfolding X_def [symmetric]
    by (auto simp: KeymasterPassthroughKey_def blob_move_assign_def key_takes_def km_key.defs passthrough_key.defs
        split_beta Let_def assms(2) blob_Clear_def)
qed

lemma passthrough_key_reports_witness:
  "\<exists>this material' err' hw' sw'. KeymasterPassthroughKey \<lparr>KM_ERROR_UNIMPLEMENTED = 1, KM_ERROR_MEMORY_ALLOCATION_FAILED = 2,
       KM_SECURITY_LEVEL_SOFTWARE = 0\<rparr> (be_ext doc_ops) doc_mem 0 \<lparr>blob_data = Some [7], blob_size = 1\<rparr> (doc_set []) (doc_set []) 64 0
       (doc_set []) 128 = ((this, material', err'), hw', sw') \<and> blob_data material' = None \<and> err' = 0"
proof -
  obtain this material' err' hw' sw' where k: "KeymasterPassthroughKey \<lparr>KM_ERROR_UNIMPLEMENTED = 1,
      KM_ERROR_MEMORY_ALLOCATION_FAILED = 2, KM_SECURITY_LEVEL_SOFTWARE = 0\<rparr> (be_ext doc_ops) doc_mem 0
      \<lparr>blob_data = Some [7], blob_size = 1\<rparr> (doc_set []) (doc_set []) 64 0 (doc_set []) 128 = ((this, material', err'), hw', sw')"
    by (metis prod.collapse)
  have e: "be_ext doc_ops = doc_aset (\<lambda>_. True)" by (simp add: doc_ops_def doc_builder_def builder_env.defs)
  have f: "aset_functions (be_ext doc_ops) dp_tag" unfolding e by (rule doc_aset.aset_functions_axioms)
  have l: "elems (doc_set []) = Some ([] :: doc_param list)" "elems_size (doc_set [] :: doc_param authorization_set) \<le> length ([] :: doc_param list)"
    by (simp_all add: doc_set_def)
  note r = passthrough_key_reports [OF f aset_error_doc_set l k]
  have "fst (x_Reinitialize (be_ext doc_ops) (Some [])
      (elems_size (doc_set [] :: doc_param authorization_set)) (aset_uninit 0))"
    by (simp add: e doc_aset_def doc_alloc_def)
  with r have "blob_data material' = None" "err' = 0" by simp_all
  with k show ?thesis by blast
qed

text \<open>Loading a key of a Keymaster 1 device looks at the digest of the parameters only when there is exactly one;
  with none or with several it is decided as for \<open>KM_DIGEST_NONE\<close>.\<close>

theorem load_digest_needs_one:
  assumes "aset_functions (be_ext E) tag_of" and "aset_wf params"
  shows "Arbitration_LoadKey E requires soft passthrough material params hw sw =
    (if requires (if tag_count tag_of params (be_tag E TAG_DIGEST) = 1
                  then the (x_EnumRep (be_ext E) params (be_tag E TAG_DIGEST) 0) else KM_DIGEST_NONE E) hw sw
     then soft material params hw sw else passthrough material params hw sw)"
proof -
  have "load_digest E params = (if tag_count tag_of params (be_tag E TAG_DIGEST) = 1
      then the (x_EnumRep (be_ext E) params (be_tag E TAG_DIGEST) 0) else KM_DIGEST_NONE E)"
  proof (cases "tag_count tag_of params (be_tag E TAG_DIGEST) = 1")
    case True
    then obtain d where "x_EnumRep (be_ext E) params (be_tag E TAG_DIGEST) 0 = Some d"
      using aset_functions.enum_rep_none [OF assms(1,2), of "be_tag E TAG_DIGEST" 0] by fastforce
    with True show ?thesis
      by (simp add: load_digest_def GetTagValue_def aset_functions.count_filter [OF assms(1,2)])
  next
    case False
    then show ?thesis
      by (simp add: load_digest_def GetTagValue_def aset_functions.count_filter [OF assms(1,2)])
  qed
  then show ?thesis by (simp add: Arbitration_LoadKey_def)
qed

lemma load_digest_needs_one_witness:
  "Arbitration_LoadKey doc_ops (\<lambda>d _ _. d = 4) (\<lambda>_ _ _ _. ''soft'') (\<lambda>_ _ _ _. ''device'') empty_blob
     (doc_set [\<lparr>dp_tag = be_tag doc_ops TAG_DIGEST, dp_value = 4\<rparr>, \<lparr>dp_tag = be_tag doc_ops TAG_DIGEST, dp_value = 4\<rparr>])
     (doc_set []) (doc_set []) = ''device''"
proof -
  have e: "be_ext doc_ops = doc_aset (\<lambda>_. True)" by (simp add: doc_ops_def doc_builder_def builder_env.defs)
  have f: "aset_functions (be_ext doc_ops) dp_tag" unfolding e by (rule doc_aset.aset_functions_axioms)
  have n: "KM_DIGEST_NONE doc_ops = 0" by (simp add: doc_ops_def doc_builder_def builder_env.defs)
  show ?thesis
    by (simp add: load_digest_needs_one [OF f aset_wf_doc_set] tag_count_def n)
qed

end
