(* ===== verification/RemoteProv.thy ===== *)
theory RemoteProv
  imports CoseKey
begin

text \<open>
  \<open>keymint_support/remote_prov/remote_prov_utils.h\<close>: the certificates of the endpoint encryption keys, and the
  structures of remote provisioning. The certificates are data of the header; what they encode is stated with the
  encoding of RFC 8949 (\<open>cbor_map_bytes\<close>, \<open>cose_sign1_bytes\<close>), which the CBOR library reads: that is the contract
  \<open>cbor_reader\<close>, with a reader of flat maps as its instance.
\<close>

section \<open>Data\<close>

definition kCoseEncodedRootCert :: bytevec where
  "kCoseEncodedRootCert =
    [0x84, 0x43, 0xA1, 0x01, 0x27, 0xA0, 0x58, 0x2A, 0xA4, 0x01, 0x01, 0x03, 0x27, 0x20, 0x06, 0x21, 0x58,
     0x20, 0x99, 0xB9, 0xEE, 0xDD, 0x5E, 0xE4, 0x52, 0xF6, 0x85, 0xC6, 0x4C, 0x62, 0xDC, 0x3E, 0x61, 0xAB,
     0x57, 0x48, 0x7D, 0x75, 0x37, 0x29, 0xAD, 0x76, 0x80, 0x32, 0xD2, 0xB3, 0xCB, 0x63, 0x58, 0xD9, 0x58,
     0x40, 0x1E, 0x22, 0x08, 0x4B, 0xA4, 0xB7, 0xA4, 0xC8, 0xD7, 0x4E, 0x03, 0x0E, 0xFE, 0xB8, 0xAF, 0x14,
     0x4C, 0xA7, 0x3B, 0x6F, 0xA5, 0xCD, 0xDC, 0xDA, 0x79, 0xC6, 0x2B, 0x64, 0xFE, 0x99, 0x39, 0xAF, 0x76,
     0xE7, 0x80, 0xFA, 0x66, 0x00, 0x85, 0x0D, 0x07, 0x98, 0x2A, 0xAC, 0x91, 0x5C, 0xA7, 0x25, 0x14, 0x49,
     0x06, 0x34, 0x75, 0xCA, 0x8A, 0x27, 0x7A, 0xD9, 0xE3, 0x5A, 0x49, 0xEB, 0x02, 0x03]"

definition kCoseEncodedGeekCert :: bytevec where
  "kCoseEncodedGeekCert =
    [0x84, 0x43, 0xA1, 0x01, 0x27, 0xA0, 0x58, 0x4E, 0xA5, 0x01, 0x01, 0x02, 0x58, 0x20, 0xD0, 0xAE, 0xC1,
     0x15, 0xCA, 0x2A, 0xCF, 0x73, 0xAE, 0x6B, 0xCC, 0xCB, 0xD1, 0x96, 0x1D, 0x65, 0xE8, 0xB1, 0xDD, 0xD7,
     0x4A, 0x1A, 0x37, 0xB9, 0x43, 0x3A, 0x97, 0xD5, 0x99, 0xDF, 0x98, 0x08, 0x03, 0x38, 0x18, 0x20, 0x04,
     0x21, 0x58, 0x20, 0xBE, 0x85, 0xE7, 0x46, 0xC4, 0xA3, 0x42, 0x5A, 0x40, 0xD9, 0x36, 0x3A, 0xA6, 0x15,
     0xD0, 0x2C, 0x58, 0x7E, 0x3D, 0xDC, 0x33, 0x02, 0x32, 0xD2, 0xFC, 0x5E, 0x1E, 0x87, 0x25, 0x5F, 0x72,
     0x60, 0x58, 0x40, 0x9B, 0xCF, 0x90, 0xE2, 0x2E, 0x4B, 0xAB, 0xD1, 0x18, 0xB1, 0x0E, 0x8E, 0x5D, 0x20,
     0x27, 0x4B, 0x84, 0x58, 0xFE, 0xFC, 0x32, 0x90, 0x7E, 0x72, 0x05, 0x83, 0xBC, 0xD7, 0x82, 0xBE, 0xFA,
     0x64, 0x78, 0x2D, 0x54, 0x10, 0x4B, 0xC0, 0x31, 0xBF, 0x6B, 0xE8, 0x1E, 0x35, 0xE2, 0xF0, 0x2D, 0xCE,
     0x6C, 0x2F, 0x4F, 0xF2, 0xF5, 0x4F, 0xA5, 0xD4, 0x83, 0xAD, 0x96, 0xA2, 0xF1, 0x87, 0x58, 0x04]"

definition kCoseEncodedEcdsa256RootCert :: bytevec where
  "kCoseEncodedEcdsa256RootCert =
    [0x84, 0x43, 0xA1, 0x01, 0x26, 0xA0, 0x58, 0x4D, 0xA5, 0x01, 0x02, 0x03, 0x26, 0x20, 0x01, 0x21, 0x58,
     0x20, 0xF7, 0x14, 0x8A, 0xDB, 0x97, 0xF4, 0xCC, 0x53, 0xEF, 0xD2, 0x64, 0x11, 0xC4, 0xE3, 0x75, 0x1F,
     0x66, 0x1F, 0xA4, 0x71, 0x0C, 0x6C, 0xCF, 0xFA, 0x09, 0x46, 0x80, 0x74, 0x87, 0x54, 0xF2, 0xAD, 0x22,
     0x58, 0x20, 0x5E, 0x7F, 0x5B, 0xF6, 0xEC, 0xE4, 0xF6, 0x19, 0xCC, 0xFF, 0x13, 0x37, 0xFD, 0x0F, 0xA1,
     0xC8, 0x93, 0xDB, 0x18, 0x06, 0x76, 0xC4, 0x5D, 0xE6, 0xD7, 0x6A, 0x77, 0x86, 0xC3, 0x2D, 0xAF, 0x8F,
     0x58, 0x40, 0x2F, 0x97, 0x8E, 0x42, 0xFB, 0xBE, 0x07, 0x2D, 0x95, 0x47, 0x85, 0x47, 0x93, 0x40, 0xB0,
     0x1F, 0xD4, 0x9B, 0x47, 0xA4, 0xC4, 0x44, 0xA9, 0xF2, 0xA1, 0x07, 0x87, 0x10, 0xC7, 0x9F, 0xCB, 0x11,
     0xF4, 0xBF, 0x9F, 0xE8, 0x3B, 0xE0, 0xE7, 0x34, 0x4C, 0x15, 0xFC, 0x7B, 0xC3, 0x7E, 0x33, 0x05, 0xF4,
     0xD1, 0x34, 0x3C, 0xED, 0x02, 0x04, 0x60, 0x7A, 0x15, 0xE0, 0x79, 0xD3, 0x8A, 0xFF, 0x24]"

definition kCoseEncodedEcdsa256GeekCert :: bytevec where
  "kCoseEncodedEcdsa256GeekCert =
    [0x84, 0x43, 0xA1, 0x01, 0x26, 0xA0, 0x58, 0x71, 0xA6, 0x01, 0x02, 0x02, 0x58, 0x20, 0x35, 0x73, 0xB7,
     0x3F, 0xA0, 0x8A, 0x80, 0x89, 0xB1, 0x26, 0x67, 0xE9, 0xCB, 0x7C, 0x75, 0xA1, 0xAF, 0x02, 0x61, 0xFC,
     0x6E, 0x65, 0x03, 0x91, 0x3B, 0xD3, 0x4B, 0x7D, 0x14, 0x94, 0x3E, 0x46, 0x03, 0x38, 0x18, 0x20, 0x01,
     0x21, 0x58, 0x20, 0xE0, 0x41, 0xCF, 0x2F, 0x0F, 0x34, 0x0F, 0x1C, 0x33, 0x2C, 0x41, 0xB0, 0xCF, 0xD7,
     0x0C, 0x30, 0x55, 0x35, 0xD2, 0x1E, 0x6A, 0x47, 0x13, 0x4B, 0x2E, 0xD1, 0x48, 0x96, 0x7E, 0x24, 0x9C,
     0x68, 0x22, 0x58, 0x20, 0x1F, 0xCE, 0x45, 0xC5, 0xFB, 0x61, 0xBA, 0x81, 0x21, 0xF9, 0xE5, 0x05, 0x9B,
     0x9B, 0x39, 0x0E, 0x76, 0x86, 0x86, 0x47, 0xB8, 0x1E, 0x2F, 0x45, 0xF1, 0xCE, 0xAF, 0xDA, 0x3F, 0x80,
     0x68, 0xDB, 0x58, 0x40, 0x8C, 0xB3, 0xBA, 0x7E, 0x20, 0x3E, 0x32, 0xB0, 0x68, 0xDF, 0x60, 0xD1, 0x1D,
     0x7D, 0xF0, 0xAC, 0x38, 0x8E, 0x51, 0xBC, 0xFF, 0x6C, 0xE1, 0x67, 0x3B, 0x4A, 0x79, 0xBC, 0x56, 0x78,
     0xB3, 0x99, 0xD8, 0x7C, 0x8A, 0x07, 0xD8, 0xDA, 0xB5, 0xB5, 0x7F, 0x71, 0xF4, 0xD8, 0x6B, 0xDF, 0x33,
     0x27, 0x34, 0x7B, 0x65, 0xD1, 0x2A, 0xEB, 0x86, 0x99, 0x98, 0xAB, 0x3A, 0xB4, 0x80, 0xAA, 0xBD, 0x50]"

record eek_chain =
  chain :: bytevec
  last_pubkey :: bytevec
  last_privkey :: bytevec

record bcc_entry_data =
  bcc_pubKey :: bytevec

record json_output =
  json_text :: string
  json_error :: string

definition JsonOutput_Ok :: "string \<Rightarrow> json_output" where
  "JsonOutput_Ok json = \<lparr>json_text = json, json_error = []\<rparr>"

definition JsonOutput_Error :: "string \<Rightarrow> json_output" where
  "JsonOutput_Error err = \<lparr>json_text = [], json_error = err\<rparr>"

section \<open>The encoding of RFC 8949\<close>

text \<open>The head of an item, its major type and its argument, here below \<open>2 ^ 16\<close>; integers, byte strings, and maps of
  them from integers.\<close>

definition cbor_head :: "nat \<Rightarrow> nat \<Rightarrow> bytevec" where
  "cbor_head major n =
     (if n < 24 then [of_nat (32 * major + n)]
      else if n < 256 then [of_nat (32 * major + 24), of_nat n]
      else [of_nat (32 * major + 25), of_nat (n div 256), of_nat (n mod 256)])"

definition cbor_int :: "int \<Rightarrow> bytevec" where
  "cbor_int v = (if 0 \<le> v then cbor_head 0 (nat v) else cbor_head 1 (nat (- 1 - v)))"

definition cbor_bstr :: "bytevec \<Rightarrow> bytevec" where
  "cbor_bstr b = cbor_head 2 (length b) @ b"

primrec cbor_item :: "'m cbor \<Rightarrow> bytevec" where
  "cbor_item (C_int v) = cbor_int v"
| "cbor_item (C_bstr b) = cbor_bstr b"
| "cbor_item (C_map m) = []"
| "cbor_item C_other = []"

primrec cbor_flat :: "'m cbor \<Rightarrow> bool" where
  "cbor_flat (C_int v) \<longleftrightarrow> - 65536 \<le> v \<and> v < 65536"
| "cbor_flat (C_bstr b) \<longleftrightarrow> length b < 65536"
| "cbor_flat (C_map m) \<longleftrightarrow> False"
| "cbor_flat C_other \<longleftrightarrow> False"

definition cbor_map_bytes :: "(int \<times> 'm cbor) list \<Rightarrow> bytevec" where
  "cbor_map_bytes es = cbor_head 5 (length es) @ concat (map (\<lambda>(k, v). cbor_int k @ cbor_item v) es)"

text \<open>A \<open>COSE_Sign1\<close> structure with the algorithm as its protected header and no unprotected one.\<close>

definition cose_sign1_bytes :: "CoseKeyAlgorithm \<Rightarrow> bytevec \<Rightarrow> bytevec \<Rightarrow> bytevec" where
  "cose_sign1_bytes alg payload signature =
     cbor_head 4 4 @ cbor_bstr (cbor_map_bytes [(cose_label_val L_ALGORITHM, C_int (CoseKeyAlgorithm_val alg) :: unit cbor)]) @
     cbor_map_bytes ([] :: (int \<times> unit cbor) list) @ cbor_bstr payload @ cbor_bstr signature"

definition flat_entries :: "(int \<times> 'm cbor) list \<Rightarrow> bool" where
  "flat_entries es \<longleftrightarrow> length es < 65536 \<and> distinct (List.map fst es) \<and>
     list_all (\<lambda>(k, v). - 65536 \<le> k \<and> k < 65536 \<and> cbor_flat v) es"

locale cbor_reader =
  fixes X :: "'m cose_env"
  assumes parse_encoded: "flat_entries es \<Longrightarrow>
      \<exists>m msg. cx_parse X (cbor_map_bytes es) = (Some (C_map m), msg) \<and> (\<forall>l. cx_get X m l = map_of es l)"
    and ed25519_len: "ED25519_PUBLIC_KEY_LEN X = 32"
    and x25519_len: "X25519_PUBLIC_VALUE_LEN X = 32"
begin

lemma parse_key_encoded:
  assumes "flat_entries es"
  obtains m where "em_value (parse_key X (cbor_map_bytes es)) = Some m" "\<And>l. cx_get X m l = map_of es l"
  using parse_encoded [OF assms] parse_key_val by metis

end

section \<open>A reader of flat maps\<close>

definition dec_head :: "bytevec \<Rightarrow> (nat \<times> nat \<times> bytevec) option" where
  "dec_head b = (case b of [] \<Rightarrow> None
     | c # r \<Rightarrow> let major = unat c div 32; a = unat c mod 32 in
         if a < 24 then Some (major, a, r)
         else case r of [] \<Rightarrow> None
           | d # r \<Rightarrow> if a = 24 then Some (major, unat d, r)
               else if a = 25 then (case r of [] \<Rightarrow> None | e # r \<Rightarrow> Some (major, unat d * 256 + unat e, r)) else None)"

definition dec_item :: "bytevec \<Rightarrow> (doc_map cbor \<times> bytevec) option" where
  "dec_item b = (case dec_head b of None \<Rightarrow> None
     | Some (major, n, r) \<Rightarrow>
         if major = 0 then Some (C_int (int n), r)
         else if major = 1 then Some (C_int (- 1 - int n), r)
         else if major = 2 \<and> n \<le> length r then Some (C_bstr (take n r), drop n r) else None)"

fun dec_entries :: "nat \<Rightarrow> bytevec \<Rightarrow> (int \<times> doc_map cbor) list option" where
  "dec_entries 0 b = Some []"
| "dec_entries (Suc n) b = (case dec_item b of
       Some (C_int k, r) \<Rightarrow> (case dec_item r of
           Some (v, r') \<Rightarrow> map_option (\<lambda>es. (k, v) # es) (dec_entries n r')
         | None \<Rightarrow> None)
     | _ \<Rightarrow> None)"

definition flat_reader :: "doc_map cose_env" where
  "flat_reader = (doc_cose (Doc_map []))\<lparr>cx_parse := (\<lambda>b. case dec_head b of
       Some (major, n, r) \<Rightarrow> (case dec_entries n r of
           Some es \<Rightarrow> if major = 5 then (Some (C_map (Doc_map es)), []) else (None, ''not a map'')
         | None \<Rightarrow> (None, ''malformed''))
     | None \<Rightarrow> (None, ''Need 1 byte(s)''))\<rparr>"

lemma unat_byte: "n < 256 \<Longrightarrow> unat (of_nat n :: byte) = n"
  by (rule unat_of_nat_small) simp

lemma dec_head_cbor: "major < 8 \<Longrightarrow> n < 65536 \<Longrightarrow> dec_head (cbor_head major n @ r) = Some (major, n, r)"
  by (auto simp: dec_head_def cbor_head_def unat_byte Let_def simp del: of_nat_add of_nat_mult)

lemma dec_item_cbor:
  "- 65536 \<le> k \<Longrightarrow> k < 65536 \<Longrightarrow> dec_item (cbor_int k @ r) = Some (C_int k, r)"
  "cbor_flat v \<Longrightarrow> dec_item (cbor_item v @ r) = Some (v, r)"
proof -
  have i: "dec_item (cbor_int k @ r) = Some (C_int k, r)" if "- 65536 \<le> k" "k < 65536" for k
    using that by (auto simp: dec_item_def cbor_int_def dec_head_cbor nat_less_iff)
  then show "- 65536 \<le> k \<Longrightarrow> k < 65536 \<Longrightarrow> dec_item (cbor_int k @ r) = Some (C_int k, r)" .
  show "cbor_flat v \<Longrightarrow> dec_item (cbor_item v @ r) = Some (v, r)"
    using i by (cases v) (auto simp: dec_item_def cbor_bstr_def dec_head_cbor)
qed

lemma dec_entries_cbor:
  "list_all (\<lambda>(k, v). - 65536 \<le> k \<and> k < 65536 \<and> cbor_flat v) es \<Longrightarrow>
    dec_entries (length es) (concat (map (\<lambda>(k, v). cbor_int k @ cbor_item v) es)) = Some es"
  by (induction es) (auto simp: dec_item_cbor)

interpretation flat: cbor_reader flat_reader
proof
  fix es :: "(int \<times> doc_map cbor) list"
  assume "flat_entries es"
  then show "\<exists>m msg. cx_parse flat_reader (cbor_map_bytes es) = (Some (C_map m), msg) \<and> (\<forall>l. cx_get flat_reader m l = map_of es l)"
    by (intro exI [of _ "Doc_map es"])
      (simp add: flat_reader_def doc_cose_def cbor_map_bytes_def dec_head_cbor dec_entries_cbor flat_entries_def)
qed (simp_all add: flat_reader_def doc_cose_def)

section \<open>The certificates of the endpoint encryption keys\<close>

text \<open>The keys and the signatures in the four constants.\<close>

definition root25519_entries :: "(int \<times> 'm cbor) list" where
  "root25519_entries =
    [(1, C_int 1),
     (3, C_int (- 8)),
     (- 1, C_int 6),
     (- 2, C_bstr
      [0x99, 0xB9, 0xEE, 0xDD, 0x5E, 0xE4, 0x52, 0xF6, 0x85, 0xC6, 0x4C, 0x62, 0xDC, 0x3E, 0x61, 0xAB, 0x57,
       0x48, 0x7D, 0x75, 0x37, 0x29, 0xAD, 0x76, 0x80, 0x32, 0xD2, 0xB3, 0xCB, 0x63, 0x58, 0xD9])]"

definition root25519_signature :: bytevec where
  "root25519_signature =
    [0x1E, 0x22, 0x08, 0x4B, 0xA4, 0xB7, 0xA4, 0xC8, 0xD7, 0x4E, 0x03, 0x0E, 0xFE, 0xB8, 0xAF, 0x14, 0x4C,
     0xA7, 0x3B, 0x6F, 0xA5, 0xCD, 0xDC, 0xDA, 0x79, 0xC6, 0x2B, 0x64, 0xFE, 0x99, 0x39, 0xAF, 0x76, 0xE7,
     0x80, 0xFA, 0x66, 0x00, 0x85, 0x0D, 0x07, 0x98, 0x2A, 0xAC, 0x91, 0x5C, 0xA7, 0x25, 0x14, 0x49, 0x06,
     0x34, 0x75, 0xCA, 0x8A, 0x27, 0x7A, 0xD9, 0xE3, 0x5A, 0x49, 0xEB, 0x02, 0x03]"

definition geek25519_entries :: "(int \<times> 'm cbor) list" where
  "geek25519_entries =
    [(1, C_int 1),
     (2, C_bstr
      [0xD0, 0xAE, 0xC1, 0x15, 0xCA, 0x2A, 0xCF, 0x73, 0xAE, 0x6B, 0xCC, 0xCB, 0xD1, 0x96, 0x1D, 0x65, 0xE8,
       0xB1, 0xDD, 0xD7, 0x4A, 0x1A, 0x37, 0xB9, 0x43, 0x3A, 0x97, 0xD5, 0x99, 0xDF, 0x98, 0x08]),
     (3, C_int (- 25)),
     (- 1, C_int 4),
     (- 2, C_bstr
      [0xBE, 0x85, 0xE7, 0x46, 0xC4, 0xA3, 0x42, 0x5A, 0x40, 0xD9, 0x36, 0x3A, 0xA6, 0x15, 0xD0, 0x2C, 0x58,
       0x7E, 0x3D, 0xDC, 0x33, 0x02, 0x32, 0xD2, 0xFC, 0x5E, 0x1E, 0x87, 0x25, 0x5F, 0x72, 0x60])]"

definition geek25519_signature :: bytevec where
  "geek25519_signature =
    [0x9B, 0xCF, 0x90, 0xE2, 0x2E, 0x4B, 0xAB, 0xD1, 0x18, 0xB1, 0x0E, 0x8E, 0x5D, 0x20, 0x27, 0x4B, 0x84,
     0x58, 0xFE, 0xFC, 0x32, 0x90, 0x7E, 0x72, 0x05, 0x83, 0xBC, 0xD7, 0x82, 0xBE, 0xFA, 0x64, 0x78, 0x2D,
     0x54, 0x10, 0x4B, 0xC0, 0x31, 0xBF, 0x6B, 0xE8, 0x1E, 0x35, 0xE2, 0xF0, 0x2D, 0xCE, 0x6C, 0x2F, 0x4F,
     0xF2, 0xF5, 0x4F, 0xA5, 0xD4, 0x83, 0xAD, 0x96, 0xA2, 0xF1, 0x87, 0x58, 0x04]"

definition rootP256_entries :: "(int \<times> 'm cbor) list" where
  "rootP256_entries =
    [(1, C_int 2),
     (3, C_int (- 7)),
     (- 1, C_int 1),
     (- 2, C_bstr
      [0xF7, 0x14, 0x8A, 0xDB, 0x97, 0xF4, 0xCC, 0x53, 0xEF, 0xD2, 0x64, 0x11, 0xC4, 0xE3, 0x75, 0x1F, 0x66,
       0x1F, 0xA4, 0x71, 0x0C, 0x6C, 0xCF, 0xFA, 0x09, 0x46, 0x80, 0x74, 0x87, 0x54, 0xF2, 0xAD]),
     (- 3, C_bstr
      [0x5E, 0x7F, 0x5B, 0xF6, 0xEC, 0xE4, 0xF6, 0x19, 0xCC, 0xFF, 0x13, 0x37, 0xFD, 0x0F, 0xA1, 0xC8, 0x93,
       0xDB, 0x18, 0x06, 0x76, 0xC4, 0x5D, 0xE6, 0xD7, 0x6A, 0x77, 0x86, 0xC3, 0x2D, 0xAF, 0x8F])]"

definition rootP256_signature :: bytevec where
  "rootP256_signature =
    [0x2F, 0x97, 0x8E, 0x42, 0xFB, 0xBE, 0x07, 0x2D, 0x95, 0x47, 0x85, 0x47, 0x93, 0x40, 0xB0, 0x1F, 0xD4,
     0x9B, 0x47, 0xA4, 0xC4, 0x44, 0xA9, 0xF2, 0xA1, 0x07, 0x87, 0x10, 0xC7, 0x9F, 0xCB, 0x11, 0xF4, 0xBF,
     0x9F, 0xE8, 0x3B, 0xE0, 0xE7, 0x34, 0x4C, 0x15, 0xFC, 0x7B, 0xC3, 0x7E, 0x33, 0x05, 0xF4, 0xD1, 0x34,
     0x3C, 0xED, 0x02, 0x04, 0x60, 0x7A, 0x15, 0xE0, 0x79, 0xD3, 0x8A, 0xFF, 0x24]"

definition geekP256_entries :: "(int \<times> 'm cbor) list" where
  "geekP256_entries =
    [(1, C_int 2),
     (2, C_bstr
      [0x35, 0x73, 0xB7, 0x3F, 0xA0, 0x8A, 0x80, 0x89, 0xB1, 0x26, 0x67, 0xE9, 0xCB, 0x7C, 0x75, 0xA1, 0xAF,
       0x02, 0x61, 0xFC, 0x6E, 0x65, 0x03, 0x91, 0x3B, 0xD3, 0x4B, 0x7D, 0x14, 0x94, 0x3E, 0x46]),
     (3, C_int (- 25)),
     (- 1, C_int 1),
     (- 2, C_bstr
      [0xE0, 0x41, 0xCF, 0x2F, 0x0F, 0x34, 0x0F, 0x1C, 0x33, 0x2C, 0x41, 0xB0, 0xCF, 0xD7, 0x0C, 0x30, 0x55,
       0x35, 0xD2, 0x1E, 0x6A, 0x47, 0x13, 0x4B, 0x2E, 0xD1, 0x48, 0x96, 0x7E, 0x24, 0x9C, 0x68]),
     (- 3, C_bstr
      [0x1F, 0xCE, 0x45, 0xC5, 0xFB, 0x61, 0xBA, 0x81, 0x21, 0xF9, 0xE5, 0x05, 0x9B, 0x9B, 0x39, 0x0E, 0x76,
       0x86, 0x86, 0x47, 0xB8, 0x1E, 0x2F, 0x45, 0xF1, 0xCE, 0xAF, 0xDA, 0x3F, 0x80, 0x68, 0xDB])]"

definition geekP256_signature :: bytevec where
  "geekP256_signature =
    [0x8C, 0xB3, 0xBA, 0x7E, 0x20, 0x3E, 0x32, 0xB0, 0x68, 0xDF, 0x60, 0xD1, 0x1D, 0x7D, 0xF0, 0xAC, 0x38,
     0x8E, 0x51, 0xBC, 0xFF, 0x6C, 0xE1, 0x67, 0x3B, 0x4A, 0x79, 0xBC, 0x56, 0x78, 0xB3, 0x99, 0xD8, 0x7C,
     0x8A, 0x07, 0xD8, 0xDA, 0xB5, 0xB5, 0x7F, 0x71, 0xF4, 0xD8, 0x6B, 0xDF, 0x33, 0x27, 0x34, 0x7B, 0x65,
     0xD1, 0x2A, 0xEB, 0x86, 0x99, 0x98, 0xAB, 0x3A, 0xB4, 0x80, 0xAA, 0xBD, 0x50]"

lemmas cbor_bytes = cbor_map_bytes_def cbor_head_def cbor_int_def cbor_bstr_def

lemma certificates_encoded:
  "kCoseEncodedRootCert = cose_sign1_bytes EDDSA (cbor_map_bytes root25519_entries) root25519_signature"
  "kCoseEncodedGeekCert = cose_sign1_bytes EDDSA (cbor_map_bytes geek25519_entries) geek25519_signature"
  "kCoseEncodedEcdsa256RootCert = cose_sign1_bytes ES256 (cbor_map_bytes rootP256_entries) rootP256_signature"
  "kCoseEncodedEcdsa256GeekCert = cose_sign1_bytes ES256 (cbor_map_bytes geekP256_entries) geekP256_signature"
  by (simp_all add: cose_sign1_bytes_def cbor_bytes kCoseEncodedRootCert_def kCoseEncodedGeekCert_def
      kCoseEncodedEcdsa256RootCert_def kCoseEncodedEcdsa256GeekCert_def root25519_entries_def geek25519_entries_def
      rootP256_entries_def geekP256_entries_def root25519_signature_def geek25519_signature_def
      rootP256_signature_def geekP256_signature_def)

lemma signatures_length:
  "length root25519_signature = 64" "length geek25519_signature = 64"
  "length rootP256_signature = 64" "length geekP256_signature = 64"
  by (simp_all add: root25519_signature_def geek25519_signature_def rootP256_signature_def geekP256_signature_def)

lemma entries_flat:
  "flat_entries root25519_entries" "flat_entries geek25519_entries"
  "flat_entries rootP256_entries" "flat_entries geekP256_entries"
  by (simp_all add: flat_entries_def root25519_entries_def geek25519_entries_def rootP256_entries_def geekP256_entries_def)

context cbor_reader
begin

lemmas accept_defs = em_ok_iff parse_typed_val checkIntValue_def bstr_of_size_def has_bstr_def

lemma keys_accepted:
  "em_ok (parseEd25519 X (cbor_map_bytes (root25519_entries :: (int \<times> 'm cbor) list)))"
  "em_ok (parseX25519 X (cbor_map_bytes (geek25519_entries :: (int \<times> 'm cbor) list)) True)"
  "em_ok (parseP256 X (cbor_map_bytes (rootP256_entries :: (int \<times> 'm cbor) list)))"
  "em_ok (parse_typed X (cbor_map_bytes (geekP256_entries :: (int \<times> 'm cbor) list)) EC2 ECDH_ES_HKDF_256 P256)"
proof -
  obtain m where "em_value (parse_key X (cbor_map_bytes (root25519_entries :: (int \<times> 'm cbor) list))) = Some m"
    "\<And>l. cx_get X m l = map_of root25519_entries l" by (rule parse_key_encoded [OF entries_flat(1)]) blast
  then show "em_ok (parseEd25519 X (cbor_map_bytes (root25519_entries :: (int \<times> 'm cbor) list)))"
    by (auto simp: accept_defs parseEd25519_val ed25519_len root25519_entries_def)
  obtain m where "em_value (parse_key X (cbor_map_bytes (geek25519_entries :: (int \<times> 'm cbor) list))) = Some m"
    "\<And>l. cx_get X m l = map_of geek25519_entries l" by (rule parse_key_encoded [OF entries_flat(2)]) blast
  then show "em_ok (parseX25519 X (cbor_map_bytes (geek25519_entries :: (int \<times> 'm cbor) list)) True)"
    by (auto simp: accept_defs parseX25519_val x25519_len geek25519_entries_def)
  obtain m where "em_value (parse_key X (cbor_map_bytes (rootP256_entries :: (int \<times> 'm cbor) list))) = Some m"
    "\<And>l. cx_get X m l = map_of rootP256_entries l" by (rule parse_key_encoded [OF entries_flat(3)]) blast
  then show "em_ok (parseP256 X (cbor_map_bytes (rootP256_entries :: (int \<times> 'm cbor) list)))"
    by (auto simp: accept_defs parseP256_val rootP256_entries_def)
  obtain m where "em_value (parse_key X (cbor_map_bytes (geekP256_entries :: (int \<times> 'm cbor) list))) = Some m"
    "\<And>l. cx_get X m l = map_of geekP256_entries l" by (rule parse_key_encoded [OF entries_flat(4)]) blast
  then show "em_ok (parse_typed X (cbor_map_bytes (geekP256_entries :: (int \<times> 'm cbor) list)) EC2 ECDH_ES_HKDF_256 P256)"
    by (auto simp: accept_defs geekP256_entries_def)
qed

end

text \<open>C25 Each certificate of the header is a \<open>COSE_Sign1\<close> structure with four entries, an empty unprotected header and
  a signature of 64 bytes. The payloads are keys that the parsers of \<open>CoseKey\<close> accept: the Ed25519 root, the X25519
  key with its identifier, and the P-256 root; the P-256 encryption key is accepted as an ECDH key on P-256, and
  therefore not by \<open>parseP256\<close>, which asks for a signing key.\<close>

theorem eek_certificates_accepted:
  assumes "cbor_reader (X :: 'm cose_env)"
  shows "(\<exists>key sig. kCoseEncodedRootCert = cose_sign1_bytes EDDSA key sig \<and> length sig = 64 \<and> em_ok (parseEd25519 X key)) \<and>
    (\<exists>key sig. kCoseEncodedGeekCert = cose_sign1_bytes EDDSA key sig \<and> length sig = 64 \<and> em_ok (parseX25519 X key True)) \<and>
    (\<exists>key sig. kCoseEncodedEcdsa256RootCert = cose_sign1_bytes ES256 key sig \<and> length sig = 64 \<and> em_ok (parseP256 X key)) \<and>
    (\<exists>key sig. kCoseEncodedEcdsa256GeekCert = cose_sign1_bytes ES256 key sig \<and> length sig = 64 \<and>
       em_ok (parse_typed X key EC2 ECDH_ES_HKDF_256 P256) \<and> \<not> em_ok (parseP256 X key))"
proof -
  define k where "k = cbor_map_bytes (geekP256_entries :: (int \<times> 'm cbor) list)"
  note ok = cbor_reader.keys_accepted [OF assms, folded k_def]
  have "\<not> em_ok (parseP256 X k)"
  proof
    assume "em_ok (parseP256 X k)"
    then have "parsed_algorithm X k = Some (- 7)"
      using parsed_algorithm_typed [of X _ EC2 ES256 P256] by (auto simp: em_ok_iff parseP256_val)
    moreover have "parsed_algorithm X k = Some (- 25)"
      using parsed_algorithm_typed [of X _ EC2 ECDH_ES_HKDF_256 P256] ok(4) by (auto simp: em_ok_iff)
    ultimately show False by simp
  qed
  moreover have "kCoseEncodedEcdsa256GeekCert = cose_sign1_bytes ES256 k geekP256_signature"
    unfolding k_def by (rule certificates_encoded)
  ultimately show ?thesis
    using ok certificates_encoded(1-3) signatures_length by blast
qed

lemma eek_certificates_accepted_witness:
  "\<exists>key sig. kCoseEncodedGeekCert = cose_sign1_bytes EDDSA key sig \<and> em_ok (parseX25519 flat_reader key True)"
  using eek_certificates_accepted [OF flat.cbor_reader_axioms] by blast

end
