(* ===== verification/Spec2Isabelle.thy ===== *)
theory Spec2Isabelle
  imports FstabFiles ToolFlows PatchMain AidlDelegators KmDevices KpvAccess MsgCtors AidlTags AidlErrors AidlValues LinkedList KmAuthSpec KeymintOutput KmResult KmConvert NgTags CoseKey AttestRecord KmContexts RemoteProv AdbdPatch VendorBoot FragmentPrep
begin

text \<open>
  \<^bold>\<open>The program.\<close> The repository is the device tree of the TWRP recovery for the Xiaomi "dash". Its parts are
  (1) the headers under \<open>prebuilt/a15-aidl/include\<close>, against which the recovery's decryption code is compiled: the
  Keymaster library (\<open>keymaster/keymaster\<close>), the HIDL and AIDL devices (\<open>keymaster-ng\<close>), KeyMint support
  (\<open>keymint-support\<close>), and the C++ code that the AIDL compiler generates for KeyMint (\<open>keymint-v3\<close>), Gatekeeper and the
  secure clock; (2) the tools under \<open>tools\<close>, which patch the ramdisk and pack the \<open>vendor_boot\<close> image; (3) the static
  checks of the tree, \<open>evidence/verify_tree.py\<close>, and the files they check; (4) build files, init scripts and prebuilt
  binaries. Parts 1 to 3 are modelled; of part 4, the two fstab files.

  How the parts meet: a recovery image is the ramdisk that \<open>patch_recovery_adbd_props.py\<close> patches, cut into fragments by
  \<open>prepare_fragments.py\<close>, checked by \<open>verify_fragments.py\<close>, packed by \<open>repack_vendor_boot.py\<close>; the prebuilt libraries
  it carries are those \<open>verify_tree.py\<close> checks against the manifest; the program that runs in it decrypts the data
  partition with Keymaster messages (\<open>android_keymaster_messages.h\<close>) or KeyMint calls (\<open>IKeyMintDevice.h\<close>), whose
  parameters are authorization sets of typed tags.

  \<^bold>\<open>Byte streams, messages (C++).\<close>
  \<^item> \<open>Prelude\<close>: machine types, little-endian images of words, stores at an offset.
  \<^item> \<open>ByteIO\<close>, \<open>Wire\<close>: \<open>serializable.h\<close>. A cursor is the rest of the buffer or, for the readers that compare pointers,
    a position; a reader gives its verdict and the advanced cursor. The locale \<open>byte_io\<close> is the contract of the helpers
    whose bodies are in \<open>serializable.cpp\<close>; \<open>byte_io_guarded\<close> adds that the bound check accepts no block beyond the end, on
    which the safety of the readers rests, and \<open>byte_io_coll\<close> that it accepts the others, which the round trips need; \<open>serializable\<close> and \<open>sized_serializable\<close>
    are the contract of a class with \<open>Serialize\<close>, \<open>Deserialize\<close> and \<open>SerializedSize\<close>; \<open>doc_io\<close> is the documented instance.
  \<^item> \<open>KmUtils\<close>: \<open>mem.h\<close>, \<open>android_keymaster_utils.h\<close>: byte order, blobs with the wiping of freed memory as a trace,
    certificate chains; the locale \<open>buffer_dup\<close> is what \<open>dup_buffer\<close> promises. Whether an allocation succeeds is an
    argument everywhere.
  \<^item> \<open>MsgTypes\<close>, \<open>Messages\<close>, \<open>MsgData\<close>, \<open>MsgResponses\<close>, \<open>MsgCtors\<close>: \<open>android_keymaster_messages.h\<close>. Every message whose code is in
    the header is a record with its constructor, sizes, writer and reader; \<open>field_codec\<close> and \<open>two_codecs\<close> are the shape
    that the messages with one and two members share. The lemmas show round trips, what a refused buffer leaves
    behind, that collection readers stay in the buffer, where the size reported and the bytes written differ, and that
    constructors give exactly the messages of a version that is not negative.

  \<^bold>\<open>Authorizations.\<close>
  \<^item> \<open>KmTags\<close>, \<open>NgTags\<close>, \<open>KeymintTags\<close>: the three headers of typed tags: tag numbers, kinds of values, the access to the
    member of a parameter that the kind of its tag selects.
  \<^item> \<open>KmAuthSet\<close>, \<open>KmAuthSpec\<close>: \<open>authorization_set.h\<close> of Keymaster. The state is the record \<open>aset\<close> with its elements, the
    indirect data and the \<open>error_\<close> member; methods with bodies in \<open>authorization_set.cpp\<close> are the fields of a record of
    functions, whose contract is the locale \<open>aset_functions\<close>, extended by \<open>proxy_sets\<close> for \<open>AuthProxy\<close>.
  \<^item> \<open>KeymintAuthSet\<close>: the set and the builder of \<open>keymint_support\<close> (locale \<open>kset_functions\<close>); \<open>KeymintOutput\<close>: its
    stream operators (locale \<open>printer\<close>) and the data of an attestation record; \<open>KmConvert\<close>: conversions between the
    interfaces, and the replies of the HIDL client.

  \<^bold>\<open>Keys, operations, attestation.\<close>
  \<^item> \<open>LinkedList\<close>: \<open>List.h\<close> over a heap of nodes, refining lists (locale \<open>sequence_container\<close>).
  \<^item> \<open>KmResult\<close>: \<open>KmErrorOr\<close>, as a value with a flag that says whether it was looked at.
  \<^item> \<open>KmKeys\<close>, \<open>KmOperation\<close>: key classes, digest conversions, key derivation, the operations and their factories. Class objects are extensible records with a tag of their
    class; a constructor returns the object and what is left of the sets moved into it.
  \<^item> \<open>KmContexts\<close>, \<open>AttestRecord\<close>, \<open>CoseKey\<close>, \<open>RemoteProv\<close>: contexts, attestation records and their ASN.1 templates, COSE
    keys over a CBOR map (locale \<open>cbor_map\<close>), remote provisioning (locale \<open>cbor_reader\<close>).

  \<^bold>\<open>Interfaces.\<close>
  \<^item> \<open>AidlEnums\<close>, \<open>AidlErrors\<close>, \<open>AidlTags\<close>: the enumerations of the AIDL interface with their numbers, names and value
    arrays (locale \<open>aidl_enum\<close>, interpreted on each); \<open>AidlValues\<close>: the parcelables and the six comparison operators of
    each (locale \<open>cpp_comparison\<close>); \<open>KpvAccess\<close>: construction and access of the union \<open>KeyParameterValue\<close>.
  \<^item> \<open>AidlDelegators\<close>: the interfaces as records of functions, their delegators, transaction codes and versions (locales
    \<open>bn_contract\<close>, \<open>delegation\<close>); \<open>KmDevices\<close>: the HIDL devices, the 4.1 device answering as the 4.0 device it extends.

  \<^bold>\<open>Tools (Python).\<close>
  \<^item> \<open>PyBytes\<close>, \<open>PyText\<close>: the standard library's operations on bytes and texts that the tools use.
  \<^item> \<open>NewcCpio\<close>, \<open>AdbdPatch\<close>: \<open>patch_recovery_adbd_props.py\<close>: the archive parser and the patch: what it changes, what it
    keeps, that it refuses its own output.
  \<^item> \<open>VendorBoot\<close>, \<open>FragmentPrep\<close>: \<open>repack_vendor_boot.py\<close>, \<open>prepare_fragments.py\<close>, \<open>verify_fragments.py\<close>: the image
    packed reads back; a prepared fragment passes the checks.
  \<^item> \<open>RepackTree\<close>: the merge of the two unpacked ramdisks, trees with symbolic links: which file of which tree the new
    fragment holds, for trees that agree in kind (\<open>mergeable\<close>; what a path leads to is a parameter, as \<open>os.path\<close> answers it). \<open>ToolFlows\<close>: the tools from image to image: what \<open>repack_vendor_boot.py\<close> writes unpacks to the merged
    tree, a CI image that does not unpack goes unnoticed; what
    \<open>prepare_fragments.py\<close> writes passes \<open>verify_fragments.py\<close>. \<open>PatchMain\<close>: the command line of the patch tool over a file
    system with directories, with exit status: it changes no existing path, and after success both outputs are there.
  \<^item> \<open>VerifyTree\<close>, \<open>FstabFiles\<close>: \<open>verify_tree.py\<close> on a tree given as a list of files, and the repository's fstab files.

  \<^bold>\<open>Conventions.\<close> Sizes are naturals where the code cannot wrap, words of their width where it can; pointers of the heap
  model are 64-bit words or positions. A C++ \<open>bool\<close> result with an updated out-parameter is a pair. Exceptions of the
  tools are \<open>Inl\<close> or \<open>None\<close>. The only loop that may not end, that of \<open>parse_newc\<close>, is a \<open>partial_function (option)\<close>, so
  that \<open>None\<close> is not returning; \<open>newc_returns\<close> proves that it returns on archives whose sizes are not negative, and
  \<open>newc_negative_size_diverges\<close> exhibits one on which it does not. No other definition uses fuel.

  \<^bold>\<open>Parameters.\<close> Code that is not in the repository (the \<open>.cpp\<close> bodies, OpenSSL, cppbor, the binder runtime, hardware
  devices, and the programs \<open>lz4\<close> and \<open>cpio\<close> and the hash function that the tools call) is an argument of the definitions that use it; what is relied upon is the assumption of one of the locales
  above, each interpreted on a documented instance (\<open>doc_io\<close>, \<open>doc_aset\<close>, \<open>doc_kset\<close>, \<open>doc_ops\<close>, \<open>doc_cose\<close>,
  \<open>flat_reader\<close>, \<open>doc_bn\<close>), which the witnesses use.

  \<^bold>\<open>Not modelled.\<close> The proxies of the binder (\<open>Bp*.h\<close>) and the \<open>Default\<close> classes, which are declarations; the devices of
  \<open>keymaster-ng\<close> other than 4.0 and 4.1, \<open>android_keymaster.h\<close>, \<open>soft_keymaster_device.h\<close> and the operation table, whose
  headers declare methods defined elsewhere; key factories that only declare; the formats of key blobs; logging and the
  source of randomness; shell scripts, makefiles and binaries. Of the modelled headers, methods that are declared and
  not defined are parameters or left out.
\<close>

end
